(* ===== verification/Go_Base.thy ===== *)
theory Go_Base
  imports Main "HOL-Library.Word" "HOL-Library.Sublist" "HOL-Library.Char_ord"
    "HOL-Library.Multiset"
begin

text \<open>
  Prelude of the development: the parts of the Go language and of its standard library that
  every modelled package uses.

  \<^item> \<open>wrap64\<close>, \<open>sat64\<close>: the two's complement wrap-around of \<open>int64\<close> arithmetic and the
    saturation that \<open>time.Time.Sub\<close> performs;
  \<^item> \<open>gotime\<close>, \<open>duration\<close>: \<open>time.Time\<close> as the nanoseconds since Go's zero instant (so that
    \<open>IsZero\<close> is "equal to 0") and \<open>time.Duration\<close> as an \<open>int64\<close> count of nanoseconds;
  \<^item> Go strings as byte strings (\<open>string\<close>, one \<open>char\<close> per byte) with the functions of package
    \<open>strings\<close> that the code calls. \<open>ToLower\<close> maps ASCII letters and leaves every other byte
    alone: it is exact for ASCII text and for caseless scripts such as Chinese. \<open>TrimSpace\<close>
    knows every Unicode space in its UTF-8 form;
  \<^item> two generic interfaces: \<open>strict_weak\<close> (the contract \<open>sort.SliceStable\<close> asks of its
    comparison) with the sort it licenses, and \<open>once_gate\<close> (an operation that grants at most
    a fixed number of times), which several components instantiate.
\<close>

section \<open>Machine integers\<close>

named_theorems go_defs \<open>definitions of the Go library layer, for evaluation\<close>

type_synonym duration = int
type_synonym gotime = int
type_synonym account_id = int

abbreviation max_int64 :: int where "max_int64 \<equiv> 9223372036854775807"
abbreviation min_int64 :: int where "min_int64 \<equiv> -9223372036854775808"

definition wrap64 :: "int \<Rightarrow> int" where
  [go_defs]: "wrap64 x = (x + 9223372036854775808) mod 18446744073709551616 - 9223372036854775808"

definition sat64 :: "int \<Rightarrow> int" where
  [go_defs]: "sat64 x = max min_int64 (min max_int64 x)"

lemma wrap64_range: "min_int64 \<le> wrap64 x \<and> wrap64 x \<le> max_int64"
  using pos_mod_bound [of 18446744073709551616 "x + 9223372036854775808"]
    pos_mod_sign [of 18446744073709551616 "x + 9223372036854775808"]
  unfolding wrap64_def by linarith

lemma wrap64_id [simp]: "min_int64 \<le> x \<Longrightarrow> x \<le> max_int64 \<Longrightarrow> wrap64 x = x"
  by (simp add: wrap64_def mod_pos_pos_trivial)

text \<open>\<open>wrap64\<close> is the signed reading of the 64-bit word.\<close>

lemma wrap64_word: "wrap64 x = sint (word_of_int x :: 64 word)"
proof -
  have "signed_take_bit 63 x = (x + 2 ^ 63) mod 2 ^ 64 - (2 ^ 63 :: int)"
    by (simp add: signed_take_bit_eq_take_bit_shift take_bit_eq_mod)
  then show ?thesis by (simp add: wrap64_def sint_sbintrunc')
qed

lemma sat64_range: "min_int64 \<le> sat64 x \<and> sat64 x \<le> max_int64"
  by (simp add: sat64_def)

lemma sat64_id [simp]: "min_int64 \<le> x \<Longrightarrow> x \<le> max_int64 \<Longrightarrow> sat64 x = x"
  by (simp add: sat64_def)

lemma sat64_mono: "x \<le> y \<Longrightarrow> sat64 x \<le> sat64 y"
  by (auto simp: sat64_def)

lemma sat64_less_iff: "min_int64 < k \<Longrightarrow> k \<le> max_int64 \<Longrightarrow> sat64 x < k \<longleftrightarrow> x < k"
  by (auto simp: sat64_def)

lemma sat64_le_iff: "min_int64 \<le> k \<Longrightarrow> k < max_int64 \<Longrightarrow> sat64 x \<le> k \<longleftrightarrow> x \<le> k"
  by (auto simp: sat64_def)

text \<open>Go's integer division truncates towards zero.\<close>

definition go_div :: "int \<Rightarrow> int \<Rightarrow> int" where
  [go_defs]: "go_div a b = (if (0 \<le> a) = (0 \<le> b) then \<bar>a\<bar> div \<bar>b\<bar> else - (\<bar>a\<bar> div \<bar>b\<bar>))"

lemma go_div_nonneg [simp]: "0 \<le> a \<Longrightarrow> 0 \<le> b \<Longrightarrow> go_div a b = a div b"
  by (simp add: go_div_def)

section \<open>Time\<close>

abbreviation millisecond :: duration where "millisecond \<equiv> 1000000"
abbreviation second :: duration where "second \<equiv> 1000000000"
abbreviation minute :: duration where "minute \<equiv> 60000000000"
abbreviation hour :: duration where "hour \<equiv> 3600000000000"

definition IsZero :: "gotime \<Rightarrow> bool" where
  [go_defs, simp]: "IsZero t = (t = 0)"

definition time_Sub :: "gotime \<Rightarrow> gotime \<Rightarrow> duration" where
  [go_defs]: "time_Sub t u = sat64 (t - u)"

definition time_Add :: "gotime \<Rightarrow> duration \<Rightarrow> gotime" where
  [go_defs]: "time_Add t d = t + d"

definition time_Before :: "gotime \<Rightarrow> gotime \<Rightarrow> bool" where
  [go_defs]: "time_Before t u = (t < u)"

definition time_After :: "gotime \<Rightarrow> gotime \<Rightarrow> bool" where
  [go_defs]: "time_After t u = (u < t)"

text \<open>\<open>time.Duration(n) * time.Second\<close>, with the \<open>int64\<close> product.\<close>

definition seconds :: "int \<Rightarrow> duration" where
  [go_defs]: "seconds n = wrap64 (n * second)"

lemma seconds_exact: "0 \<le> n \<Longrightarrow> n \<le> 9223372036 \<Longrightarrow> seconds n = n * second"
  by (simp add: seconds_def)

text \<open>\<open>Duration.Milliseconds()\<close>.\<close>

definition Milliseconds :: "duration \<Rightarrow> int" where
  [go_defs]: "Milliseconds d = go_div d millisecond"

section \<open>Strings\<close>

definition lower_char :: "char \<Rightarrow> char" where
  [go_defs]: "lower_char c = (if (65::nat) \<le> of_char c \<and> (of_char c :: nat) \<le> 90 then char_of (of_char c + 32 :: nat) else c)"

definition ToLower :: "string \<Rightarrow> string" where
  [go_defs]: "ToLower s = map lower_char s"

definition upper_char :: "char \<Rightarrow> char" where
  [go_defs]: "upper_char c = (if (97::nat) \<le> of_char c \<and> (of_char c :: nat) \<le> 122 then char_of (of_char c - 32 :: nat) else c)"

definition ToUpper :: "string \<Rightarrow> string" where
  [go_defs]: "ToUpper s = map upper_char s"

lemma length_ToLower [simp]: "length (ToLower s) = length s"
  by (simp add: ToLower_def)

lemma ToLower_Nil_iff [simp]: "ToLower s = [] \<longleftrightarrow> s = []"
  by (simp add: ToLower_def)

lemma lower_char_idem [simp]: "lower_char (lower_char c) = lower_char c"
proof (cases "(65::nat) \<le> of_char c \<and> (of_char c :: nat) \<le> 90")
  case True
  then have "(of_char (lower_char c) :: nat) = of_char c + 32"
    by (simp add: lower_char_def)
  with True show ?thesis by (simp add: lower_char_def [of "lower_char c"])
qed (auto simp: lower_char_def)

lemma ToLower_idem [simp]: "ToLower (ToLower s) = ToLower s"
  by (simp add: ToLower_def)

text \<open>The white space of \<open>unicode.IsSpace\<close>, each code point in UTF-8.\<close>

definition space_seqs :: "string list" where
  [go_defs]: "space_seqs =
     [[CHR 0x20], [CHR 0x09], [CHR 0x0A], [CHR 0x0B], [CHR 0x0C], [CHR 0x0D],
      [CHR 0xC2, CHR 0x85], [CHR 0xC2, CHR 0xA0], [CHR 0xE1, CHR 0x9A, CHR 0x80],
      [CHR 0xE2, CHR 0x80, CHR 0x80], [CHR 0xE2, CHR 0x80, CHR 0x81], [CHR 0xE2, CHR 0x80, CHR 0x82],
      [CHR 0xE2, CHR 0x80, CHR 0x83], [CHR 0xE2, CHR 0x80, CHR 0x84], [CHR 0xE2, CHR 0x80, CHR 0x85],
      [CHR 0xE2, CHR 0x80, CHR 0x86], [CHR 0xE2, CHR 0x80, CHR 0x87], [CHR 0xE2, CHR 0x80, CHR 0x88],
      [CHR 0xE2, CHR 0x80, CHR 0x89], [CHR 0xE2, CHR 0x80, CHR 0x8A], [CHR 0xE2, CHR 0x80, CHR 0xA8],
      [CHR 0xE2, CHR 0x80, CHR 0xA9], [CHR 0xE2, CHR 0x80, CHR 0xAF], [CHR 0xE2, CHR 0x81, CHR 0x9F],
      [CHR 0xE3, CHR 0x80, CHR 0x80]]"

function strip_seqs :: "string list \<Rightarrow> string \<Rightarrow> string" where
  "strip_seqs ws s =
     (case find (\<lambda>w. w \<noteq> [] \<and> prefix w s) ws of
        None \<Rightarrow> s
      | Some w \<Rightarrow> strip_seqs ws (drop (length w) s))"
  by pat_completeness auto
termination
  by (relation "measure (\<lambda>(ws, s). length s)")
    (auto simp: find_Some_iff prefix_def intro!: diff_less)

declare strip_seqs.simps [simp del]

definition TrimSpace :: "string \<Rightarrow> string" where
  [go_defs]: "TrimSpace s = rev (strip_seqs (map rev space_seqs) (rev (strip_seqs space_seqs s)))"

lemma strip_seqs_Nil [simp]: "strip_seqs ws [] = []"
proof -
  have "find (\<lambda>w. w \<noteq> [] \<and> prefix w []) ws = None"
    by (auto simp: find_None_iff)
  then show ?thesis by (simp add: strip_seqs.simps [of ws "[]"])
qed

lemma TrimSpace_Nil [simp]: "TrimSpace [] = []"
  by (simp add: TrimSpace_def)

lemma strip_seqs_suffix: "suffix (strip_seqs ws s) s"
proof (induction ws s rule: strip_seqs.induct)
  case (1 ws s)
  show ?case
  proof (cases "find (\<lambda>w. w \<noteq> [] \<and> prefix w s) ws")
    case None
    then show ?thesis by (simp add: strip_seqs.simps [of ws s])
  next
    case (Some w)
    with 1 have "suffix (strip_seqs ws (drop (length w) s)) (drop (length w) s)" by simp
    then have "suffix (strip_seqs ws (drop (length w) s)) s"
      using suffix_drop suffix_order.trans by blast
    with Some show ?thesis by (simp add: strip_seqs.simps [of ws s])
  qed
qed

lemma strip_seqs_stripped: "w \<in> set ws \<Longrightarrow> w \<noteq> [] \<Longrightarrow> \<not> prefix w (strip_seqs ws s)"
proof (induction ws s rule: strip_seqs.induct)
  case (1 ws s)
  show ?case
  proof (cases "find (\<lambda>w. w \<noteq> [] \<and> prefix w s) ws")
    case None
    then have "strip_seqs ws s = s" by (simp add: strip_seqs.simps [of ws s])
    with None 1(2,3) show ?thesis by (auto simp: find_None_iff)
  next
    case (Some v)
    with 1 show ?thesis by (simp add: strip_seqs.simps [of ws s])
  qed
qed

lemma strip_seqs_fixed: "(\<And>w. w \<in> set ws \<Longrightarrow> w \<noteq> [] \<Longrightarrow> \<not> prefix w s) \<Longrightarrow> strip_seqs ws s = s"
  by (subst strip_seqs.simps) (auto split: option.split simp: find_Some_iff)

lemma TrimSpace_idem [simp]: "TrimSpace (TrimSpace s) = TrimSpace s"
proof -
  let ?t = "strip_seqs space_seqs s" and ?r = "strip_seqs (map rev space_seqs)"
  have pre: "prefix (rev (?r (rev ?t))) ?t"
    using strip_seqs_suffix [of "map rev space_seqs" "rev ?t"] by (simp add: suffix_to_prefix)
  have "strip_seqs space_seqs (rev (?r (rev ?t))) = rev (?r (rev ?t))"
    using strip_seqs_stripped pre prefix_order.trans by (intro strip_seqs_fixed) blast
  moreover have "?r (?r (rev ?t)) = ?r (rev ?t)"
    using strip_seqs_stripped by (intro strip_seqs_fixed) blast
  ultimately show ?thesis by (simp add: TrimSpace_def)
qed

text \<open>\<open>strings.Fields\<close>: the maximal runs without white space; \<open>cur\<close> is the run being read.\<close>

function Fields_from :: "string \<Rightarrow> string \<Rightarrow> string list" where
  "Fields_from cur s =
     (case find (\<lambda>w. w \<noteq> [] \<and> prefix w s) space_seqs of
        Some w \<Rightarrow> (if cur = [] then [] else [cur]) @ Fields_from [] (drop (length w) s)
      | None \<Rightarrow> (case s of [] \<Rightarrow> (if cur = [] then [] else [cur]) | x # r \<Rightarrow> Fields_from (cur @ [x]) r))"
  by pat_completeness auto
termination
  by (relation "measure (\<lambda>(cur, s). length s)")
    (auto simp: find_Some_iff prefix_def intro!: diff_less)

declare Fields_from.simps [simp del]

definition Fields :: "string \<Rightarrow> string list" where
  "Fields s = Fields_from [] s"

text \<open>\<open>strings.Join\<close>\<close>

fun Join :: "string list \<Rightarrow> string \<Rightarrow> string" where
  "Join [] sep = []"
| "Join [x] sep = x"
| "Join (x # xs) sep = x @ sep @ Join xs sep"

definition HasPrefix :: "string \<Rightarrow> string \<Rightarrow> bool" where
  [go_defs]: "HasPrefix s p = prefix p s"

definition HasSuffix :: "string \<Rightarrow> string \<Rightarrow> bool" where
  [go_defs]: "HasSuffix s p = suffix p s"

text \<open>\<open>strings.TrimSuffix\<close>.\<close>

definition TrimSuffix :: "string \<Rightarrow> string \<Rightarrow> string" where
  [go_defs]: "TrimSuffix s p = (if suffix p s then take (length s - length p) s else s)"

fun Contains :: "string \<Rightarrow> string \<Rightarrow> bool" where
  "Contains [] k = (k = [])"
| "Contains (c # s) k = (prefix k (c # s) \<or> Contains s k)"

lemma Contains_iff_sublist: "Contains s k \<longleftrightarrow> sublist k s"
  by (induction s) (auto simp: sublist_Cons_right)

lemma Contains_append [simp]: "Contains (a @ k @ b) k"
  by (simp add: Contains_iff_sublist)

text \<open>\<open>strings.EqualFold\<close> on ASCII letters.\<close>

definition EqualFold :: "string \<Rightarrow> string \<Rightarrow> bool" where
  [go_defs]: "EqualFold a b = (ToLower a = ToLower b)"

text \<open>\<open>strings.Split\<close> with a one-byte separator and \<open>strings.Cut\<close>.\<close>

fun Split :: "string \<Rightarrow> char \<Rightarrow> string list" where
  "Split [] c = [[]]"
| "Split (x # s) c =
     (if x = c then [] # Split s c
      else (case Split s c of [] \<Rightarrow> [[x]] | p # ps \<Rightarrow> (x # p) # ps))"

definition CutBefore :: "string \<Rightarrow> char \<Rightarrow> string" where
  [go_defs]: "CutBefore s c = takeWhile (\<lambda>x. x \<noteq> c) s"

text \<open>Decimal text of a natural number, least significant digit last.\<close>

fun nat_digits :: "nat \<Rightarrow> string" where
  "nat_digits n =
     (if n < 10 then [char_of (n + 48)] else nat_digits (n div 10) @ [char_of (n mod 10 + 48)])"

declare nat_digits.simps [simp del]

text \<open>\<open>strconv.Itoa\<close>.\<close>

definition Itoa :: "int \<Rightarrow> string" where
  [go_defs]: "Itoa v = (if v < 0 then CHR 0x2D # nat_digits (nat (- v)) else nat_digits (nat v))"

lemma nat_digits_chars: "set (nat_digits n) \<subseteq> char_of ` {48..<58::nat}"
proof (induction n rule: nat_digits.induct)
  case (1 n)
  have "n mod 10 + 48 \<in> {48..<58::nat}" using mod_less_divisor [of 10 n] by simp
  with 1 show ?case by (subst nat_digits.simps) auto
qed

lemma nat_digits_val: "foldl (\<lambda>a c. 10 * a + (of_char c - 48)) 0 (nat_digits n) = n"
proof (induction n rule: nat_digits.induct)
  case (1 n)
  have m: "(n mod 10 + 48) mod 256 = n mod 10 + 48" using mod_less_divisor [of 10 n] by simp
  show ?case
  proof (cases "n < 10")
    case False
    with 1 m show ?thesis by (simp add: nat_digits.simps [of n])
  qed (simp add: nat_digits.simps [of n])
qed

lemma nat_digits_inj: "nat_digits m = nat_digits n \<Longrightarrow> m = n"
  by (metis nat_digits_val)

section \<open>Stable sorting\<close>

text \<open>
  \<open>sort.SliceStable\<close> as a stable insertion sort: an element is inserted before the first
  element that does not precede it. For a strict weak order every stable sort returns this list.
\<close>

fun insert_stable :: "('a \<Rightarrow> 'a \<Rightarrow> bool) \<Rightarrow> 'a \<Rightarrow> 'a list \<Rightarrow> 'a list" where
  "insert_stable lt x [] = [x]"
| "insert_stable lt x (y # ys) = (if lt y x then y # insert_stable lt x ys else x # y # ys)"

fun SliceStable :: "('a \<Rightarrow> 'a \<Rightarrow> bool) \<Rightarrow> 'a list \<Rightarrow> 'a list" where
  "SliceStable lt [] = []"
| "SliceStable lt (x # xs) = insert_stable lt x (SliceStable lt xs)"

lemma mset_insert_stable [simp]: "mset (insert_stable lt x ys) = add_mset x (mset ys)"
  by (induction ys) auto

lemma mset_SliceStable [simp]: "mset (SliceStable lt xs) = mset xs"
  by (induction xs) auto

lemma set_insert_stable [simp]: "set (insert_stable lt x ys) = insert x (set ys)"
  by (induction ys) auto

lemma set_SliceStable [simp]: "set (SliceStable lt xs) = set xs"
  by (induction xs) auto

lemma length_SliceStable [simp]: "length (SliceStable lt xs) = length xs"
  using mset_SliceStable [of lt xs] by (metis size_mset)

lemma distinct_SliceStable [simp]: "distinct (SliceStable lt xs) = distinct xs"
  by (metis mset_SliceStable mset_eq_imp_distinct_iff)

lemma SliceStable_Nil_iff [simp]: "SliceStable lt xs = [] \<longleftrightarrow> xs = []"
  by (metis length_0_conv length_SliceStable)

locale strict_weak =
  fixes lt :: "'a \<Rightarrow> 'a \<Rightarrow> bool"
  assumes lt_irrefl: "\<not> lt a a"
    and lt_trans: "lt a b \<Longrightarrow> lt b c \<Longrightarrow> lt a c"
    and incomp_trans: "\<not> lt a b \<Longrightarrow> \<not> lt b c \<Longrightarrow> \<not> lt a c"
begin

lemma lt_asym: "lt a b \<Longrightarrow> \<not> lt b a"
  using lt_irrefl lt_trans by blast

lemma sorted_insert_stable:
  "sorted_wrt (\<lambda>a b. \<not> lt b a) ys \<Longrightarrow> sorted_wrt (\<lambda>a b. \<not> lt b a) (insert_stable lt x ys)"
proof (induction ys)
  case (Cons y ys)
  then show ?case
    using incomp_trans [of _ y x] lt_asym [of y x] by (auto simp del: not_None_eq)
qed simp

lemma sorted_SliceStable: "sorted_wrt (\<lambda>a b. \<not> lt b a) (SliceStable lt xs)"
  by (induction xs) (auto intro: sorted_insert_stable)

text \<open>Elements that the order does not separate keep their order.\<close>

lemma filter_insert_stable:
  assumes "\<And>a b. P a \<Longrightarrow> P b \<Longrightarrow> \<not> lt a b"
  shows "filter P (insert_stable lt x ys) = filter P (x # ys)"
  using assms by (induction ys) auto

lemma stable_SliceStable:
  assumes "\<And>a b. P a \<Longrightarrow> P b \<Longrightarrow> \<not> lt a b"
  shows "filter P (SliceStable lt xs) = filter P xs"
  using assms by (induction xs) (auto simp: filter_insert_stable)

end

text \<open>
  When elements with different keys are always separated, the result depends on the multiset of
  the elements only, so any enumeration of a collection with unique keys gives the same list.
\<close>

locale strict_keyed = strict_weak lt for lt :: "'a \<Rightarrow> 'a \<Rightarrow> bool" +
  fixes key :: "'a \<Rightarrow> 'k"
  assumes key_total: "key a \<noteq> key b \<Longrightarrow> lt a b \<or> lt b a"
begin

lemma minimal_unique:
  assumes "inj_on key A" "a \<in> A" "b \<in> A" "\<not> lt b a" "\<not> lt a b"
  shows "a = b"
  using assms key_total inj_onD by metis

lemma sorted_unique:
  assumes "sorted_wrt (\<lambda>a b. \<not> lt b a) xs" "sorted_wrt (\<lambda>a b. \<not> lt b a) ys"
    and "mset xs = mset ys" "inj_on key (set xs)"
  shows "xs = ys"
  using assms
proof (induction xs arbitrary: ys)
  case (Cons x xs)
  then obtain y ys' where ys: "ys = y # ys'"
    by (cases ys) auto
  have "x \<in> set ys" "y \<in> set (x # xs)"
    using Cons.prems(3) ys by (metis list.set_intros(1) set_mset_mset)+
  with Cons.prems(1,2) ys have "\<not> lt y x \<or> x = y" "\<not> lt x y \<or> x = y"
    by auto
  with \<open>y \<in> set (x # xs)\<close> Cons.prems(4) have "x = y"
    using minimal_unique [of "set (x # xs)" x y] by auto
  with Cons.prems ys show ?case using Cons.IH [of ys'] by auto
qed simp

lemma SliceStable_perm:
  "mset xs = mset ys \<Longrightarrow> inj_on key (set xs) \<Longrightarrow> SliceStable lt xs = SliceStable lt ys"
  by (rule sorted_unique) (auto simp: sorted_SliceStable)

end

section \<open>Operations that grant a bounded number of times\<close>

text \<open>
  Several mutex-protected methods hand out a permission a bounded number of times (switches,
  retries, the single log line, the single fallback). Whatever the interleaving of its callers,
  the calls on one object form a sequence of operations; \<open>claims\<close> tells which of them ask for the
  permission, and the Boolean result of such an operation tells whether it was granted.
\<close>

fun grants :: "('o \<Rightarrow> 's \<Rightarrow> bool \<times> 's) \<Rightarrow> ('o \<Rightarrow> bool) \<Rightarrow> 'o list \<Rightarrow> 's \<Rightarrow> nat" where
  "grants step claims [] s = 0"
| "grants step claims (c # cs) s =
     (if claims c \<and> fst (step c s) then 1 else 0) + grants step claims cs (snd (step c s))"

locale gate =
  fixes step :: "'o \<Rightarrow> 's \<Rightarrow> bool \<times> 's"
    and claims :: "'o \<Rightarrow> bool"
    and used :: "'s \<Rightarrow> nat"
    and limit :: "'s \<Rightarrow> nat"
  assumes grant: "claims c \<Longrightarrow> fst (step c s) \<Longrightarrow> used s < limit s \<and> used (snd (step c s)) = Suc (used s)"
    and keep: "\<not> (claims c \<and> fst (step c s)) \<Longrightarrow> used (snd (step c s)) = used s"
    and keep_limit: "limit (snd (step c s)) = limit s"
begin

lemma grants_bound: "used s \<le> limit s \<Longrightarrow> grants step claims cs s + used s \<le> limit s"
proof (induction cs arbitrary: s)
  case (Cons c cs)
  show ?case
  proof (cases "claims c \<and> fst (step c s)")
    case True
    with grant [of c s] Cons.IH [of "snd (step c s)"] keep_limit [of c s] show ?thesis by simp
  next
    case False
    then show ?thesis
      using keep [OF False] Cons.IH [of "snd (step c s)"] keep_limit [of c s] Cons.prems by auto
  qed
qed simp

lemma grants_le_limit: "used s \<le> limit s \<Longrightarrow> grants step claims cs s \<le> limit s - used s"
  using grants_bound [of s cs] by simp

end

text \<open>A gate that never refuses while a permission is left grants exactly the remaining ones.\<close>

locale eager_gate = gate step claims used limit
  for step :: "'o \<Rightarrow> 's \<Rightarrow> bool \<times> 's" and claims :: "'o \<Rightarrow> bool" and used limit :: "'s \<Rightarrow> nat" +
  assumes eager: "claims c \<Longrightarrow> used s < limit s \<Longrightarrow> fst (step c s)"
begin

lemma grants_exact:
  "used s \<le> limit s \<Longrightarrow> grants step claims cs s = min (length (filter claims cs)) (limit s - used s)"
proof (induction cs arbitrary: s)
  case (Cons c cs)
  show ?case
  proof (cases "claims c \<and> fst (step c s)")
    case True
    with grant [of c s] keep_limit [of c s] Cons.IH [of "snd (step c s)"] show ?thesis by auto
  next
    case False
    then have "claims c \<Longrightarrow> used s = limit s" using eager [of c s] Cons.prems by force
    with False keep [of c s] keep_limit [of c s] Cons.IH [of "snd (step c s)"] Cons.prems
    show ?thesis by (cases "claims c") auto
  qed
qed simp

end

end
