(* ===== verification/Float64.thy ===== *)
theory Float64
  imports Complex_Main Go_Base
begin

text \<open>
  Go's \<open>float64\<close> as far as the scheduler uses it: finite values are rationals, \<open>PInf\<close> and
  \<open>NInf\<close> the infinities (no modelled operation yields a NaN). \<open>f64_rat\<close> rounds a rational to
  the nearest multiple of the unit in the last place of its binade, ties to even, with the
  subnormal range below \<open>2 ^ -1022\<close>; \<open>f64\<close> adds the overflow to infinity. The main lemma is
  that rounding is monotone, so comparisons survive it.
\<close>

section \<open>Powers of two and binary exponents\<close>

definition pow2 :: "int \<Rightarrow> rat" where
  [go_defs]: "pow2 e = (if 0 \<le> e then 2 ^ nat e else 1 / 2 ^ nat (- e))"

lemma pow2_powi: "pow2 e = 2 powi e"
  by (simp add: pow2_def power_int_def field_simps)

lemma pow2_pos [simp]: "0 < pow2 e"
  by (simp add: pow2_def)

lemma pow2_nonzero [simp]: "pow2 e \<noteq> 0"
  by (metis less_irrefl pow2_pos)

lemma pow2_nonneg [simp]: "0 \<le> pow2 e"
  by (rule less_imp_le) simp

lemma pow2_add: "pow2 (a + b) = pow2 a * pow2 b"
  by (simp add: pow2_powi power_int_add)

lemma pow2_mono: "a \<le> b \<Longrightarrow> pow2 a \<le> pow2 b"
  by (simp add: pow2_powi power_int_increasing)

lemma pow2_less_iff: "pow2 a < pow2 b \<longleftrightarrow> a < b"
  using pow2_mono [of b a] pow2_powi power_int_strict_increasing [of a b "2::rat"]
  by (metis linorder_not_le one_less_numeral_iff semiring_norm(76))

fun ilog2 :: "nat \<Rightarrow> nat" where
  "ilog2 n = (if n \<le> 1 then 0 else Suc (ilog2 (n div 2)))"

declare ilog2.simps [simp del]

lemma ilog2_bounds: "0 < n \<Longrightarrow> 2 ^ ilog2 n \<le> n \<and> n < 2 ^ Suc (ilog2 n)"
proof (induction n rule: ilog2.induct)
  case (1 n)
  show ?case
  proof (cases "n \<le> 1")
    case True
    with 1 have "n = 1" by simp
    then show ?thesis by (simp add: ilog2.simps)
  next
    case False
    with 1 have "2 ^ ilog2 (n div 2) \<le> n div 2 \<and> n div 2 < 2 ^ Suc (ilog2 (n div 2))" by simp
    with False show ?thesis by (auto simp: ilog2.simps [of n])
  qed
qed

text \<open>\<open>floor_log2 q\<close> is the binary exponent of a positive rational.\<close>

definition floor_log2 :: "rat \<Rightarrow> int" where
  [go_defs]: "floor_log2 q =
     (let (n, d) = quotient_of q; k = int (ilog2 (nat n)) - int (ilog2 (nat d))
      in if pow2 k \<le> q then k else k - 1)"

lemma floor_log2_bounds:
  assumes "0 < q"
  shows "pow2 (floor_log2 q) \<le> q \<and> q < pow2 (floor_log2 q + 1)"
proof -
  obtain n d where nd: "quotient_of q = (n, d)" by (cases "quotient_of q")
  then have q: "q = of_int n / of_int d" and d: "0 < d"
    by (auto simp: quotient_of_div quotient_of_denom_pos)
  with assms have n: "0 < n" by (simp add: zero_less_divide_iff)
  let ?a = "ilog2 (nat n)" and ?b = "ilog2 (nat d)"
  have "2 ^ ?a \<le> nat n" "nat n < 2 ^ Suc ?a" "2 ^ ?b \<le> nat d" "nat d < 2 ^ Suc ?b"
    using ilog2_bounds [of "nat n"] ilog2_bounds [of "nat d"] n d by auto
  then have "(2 ^ ?a :: int) \<le> n" "n < 2 ^ Suc ?a" "(2 ^ ?b :: int) \<le> d" "d < 2 ^ Suc ?b"
    using n d by (simp_all add: nat_less_iff le_nat_iff)
  then have na: "(2 ^ ?a :: rat) \<le> of_int n" "(of_int n :: rat) < 2 * 2 ^ ?a"
    and db: "(2 ^ ?b :: rat) \<le> of_int d" "(of_int d :: rat) < 2 * 2 ^ ?b"
    by (metis (mono_tags) of_int_le_iff of_int_less_iff of_int_numeral of_int_power power_Suc of_int_mult)+
  let ?k = "int ?a - int ?b"
  have k: "pow2 ?k = 2 ^ ?a / 2 ^ ?b"
    by (simp add: pow2_powi power_int_diff)
  have dpos: "(0::rat) < of_int d" using d by simp
  have up: "q < pow2 (?k + 1)"
  proof -
    have "q \<le> of_int n / 2 ^ ?b" unfolding q
      using db(1) n dpos by (intro divide_left_mono) auto
    also have "\<dots> < 2 * 2 ^ ?a / 2 ^ ?b" using na(2) by (simp add: divide_strict_right_mono)
    also have "\<dots> = pow2 (?k + 1)" by (simp add: pow2_add k) (simp add: pow2_def)
    finally show ?thesis .
  qed
  have low: "pow2 (?k - 1) \<le> q"
  proof -
    have "pow2 (?k - 1) = 2 ^ ?a / (2 * 2 ^ ?b)"
      using pow2_add [of "?k" "-1"] k by (simp add: pow2_def)
    also have "\<dots> \<le> 2 ^ ?a / of_int d" using db(2) dpos by (intro divide_left_mono) auto
    also have "\<dots> \<le> q" unfolding q using na(1) dpos by (simp add: divide_right_mono)
    finally show ?thesis .
  qed
  have "floor_log2 q = (if pow2 ?k \<le> q then ?k else ?k - 1)"
    by (simp add: floor_log2_def nd)
  with up low show ?thesis by auto
qed

lemma floor_log2_mono:
  assumes "0 < p" "p \<le> q"
  shows "floor_log2 p \<le> floor_log2 q"
proof -
  have "pow2 (floor_log2 p) < pow2 (floor_log2 q + 1)"
    using floor_log2_bounds [of p] floor_log2_bounds [of q] assms by auto
  then show ?thesis by (simp add: pow2_less_iff)
qed

section \<open>Rounding\<close>

text \<open>Round half to even.\<close>

definition round_even :: "rat \<Rightarrow> int" where
  [go_defs]: "round_even q =
     (let f = \<lfloor>q\<rfloor>; r = q - of_int f
      in if r < 1 / 2 then f else if 1 / 2 < r then f + 1 else if even f then f else f + 1)"

lemma round_even_bounds: "\<lfloor>q\<rfloor> \<le> round_even q \<and> round_even q \<le> \<lfloor>q\<rfloor> + 1"
  by (simp add: round_even_def Let_def)

lemma round_even_of_int [simp]: "round_even (of_int n) = n"
  by (simp add: round_even_def)

lemma round_even_mono: "p \<le> q \<Longrightarrow> round_even p \<le> round_even q"
proof (cases "\<lfloor>p\<rfloor> = \<lfloor>q\<rfloor>")
  case True
  moreover assume "p \<le> q"
  ultimately show ?thesis by (auto simp: round_even_def Let_def)
next
  case False
  moreover assume "p \<le> q"
  then have "\<lfloor>p\<rfloor> \<le> \<lfloor>q\<rfloor>" by (rule floor_mono)
  ultimately show ?thesis using round_even_bounds [of p] round_even_bounds [of q] by linarith
qed

text \<open>The exponent of the unit in the last place: 53 significant bits, never below \<open>2 ^ -1074\<close>.\<close>

definition ulp_exp :: "rat \<Rightarrow> int" where
  [go_defs]: "ulp_exp q = max (- 1074) (floor_log2 q - 52)"

definition f64_pos :: "rat \<Rightarrow> rat" where
  [go_defs]: "f64_pos q = of_int (round_even (q / pow2 (ulp_exp q))) * pow2 (ulp_exp q)"

definition f64_rat :: "rat \<Rightarrow> rat" where
  [go_defs]: "f64_rat q = (if q = 0 then 0 else if 0 < q then f64_pos q else - f64_pos (- q))"

lemma f64_pos_nonneg: "0 < q \<Longrightarrow> 0 \<le> f64_pos q"
proof -
  assume "0 < q"
  then have "round_even 0 \<le> round_even (q / pow2 (ulp_exp q))"
    by (intro round_even_mono) (simp add: less_imp_le)
  then show ?thesis
    using round_even_of_int [of 0] by (simp add: f64_pos_def)
qed

lemma f64_pos_le_binade:
  assumes "0 < q" "q < pow2 (ulp_exp q + 53)"
  shows "f64_pos q \<le> pow2 (ulp_exp q + 53)"
proof -
  have "q / pow2 (ulp_exp q) \<le> of_int (2 ^ 53)"
    using assms by (simp add: pow2_add field_simps) (simp add: pow2_def)
  then have "round_even (q / pow2 (ulp_exp q)) \<le> 2 ^ 53"
    using round_even_mono round_even_of_int by metis
  then have "of_int (round_even (q / pow2 (ulp_exp q))) \<le> (2 ^ 53 :: rat)"
    by (metis of_int_le_iff of_int_numeral of_int_power)
  then show ?thesis
    by (simp add: f64_pos_def pow2_add mult_right_mono) (simp add: pow2_def mult.commute)
qed

lemma binade_le_f64_pos:
  assumes "pow2 (ulp_exp q + 52) \<le> q"
  shows "pow2 (ulp_exp q + 52) \<le> f64_pos q"
proof -
  have "of_int (2 ^ 52) \<le> q / pow2 (ulp_exp q)"
    using assms by (simp add: pow2_add field_simps) (simp add: pow2_def)
  then have "2 ^ 52 \<le> round_even (q / pow2 (ulp_exp q))"
    using round_even_mono round_even_of_int by metis
  then have "(2 ^ 52 :: rat) \<le> of_int (round_even (q / pow2 (ulp_exp q)))"
    by (metis of_int_le_iff of_int_numeral of_int_power)
  then show ?thesis
    by (simp add: f64_pos_def pow2_add mult_right_mono) (simp add: pow2_def mult.commute)
qed

lemma f64_pos_mono:
  assumes "0 < p" "p \<le> q"
  shows "f64_pos p \<le> f64_pos q"
proof (cases "ulp_exp p = ulp_exp q")
  case True
  have "round_even (p / pow2 (ulp_exp p)) \<le> round_even (q / pow2 (ulp_exp p))"
    using assms by (intro round_even_mono divide_right_mono) simp_all
  with True show ?thesis by (simp add: f64_pos_def mult_right_mono)
next
  case False
  have "ulp_exp p \<le> ulp_exp q"
    using floor_log2_mono [OF assms] by (simp add: ulp_exp_def)
  with False have lt: "ulp_exp p < ulp_exp q" by simp
  then have eq: "ulp_exp q = floor_log2 q - 52" by (auto simp: ulp_exp_def)
  have ep: "floor_log2 p + 1 \<le> ulp_exp p + 53" by (simp add: ulp_exp_def)
  have "p < pow2 (ulp_exp p + 53)"
    using floor_log2_bounds [OF assms(1)] pow2_mono [OF ep] by auto
  with assms(1) have "f64_pos p \<le> pow2 (ulp_exp p + 53)" by (rule f64_pos_le_binade)
  also have "\<dots> \<le> pow2 (ulp_exp q + 52)" using lt by (intro pow2_mono) simp
  also have "\<dots> \<le> f64_pos q"
    using floor_log2_bounds [of q] assms eq by (intro binade_le_f64_pos) simp
  finally show ?thesis .
qed

lemma f64_rat_mono: "p \<le> q \<Longrightarrow> f64_rat p \<le> f64_rat q"
proof -
  assume le: "p \<le> q"
  consider "0 < p" | "p \<le> 0" "0 \<le> q" | "q < 0" by linarith
  then show ?thesis
  proof cases
    case 1
    with le show ?thesis by (simp add: f64_rat_def f64_pos_mono)
  next
    case 2
    have "f64_rat p \<le> 0" "0 \<le> f64_rat q"
      using 2 f64_pos_nonneg [of q] f64_pos_nonneg [of "- p"] by (auto simp: f64_rat_def)
    then show ?thesis by simp
  next
    case 3
    with le f64_pos_mono [of "- q" "- p"] show ?thesis by (simp add: f64_rat_def)
  qed
qed

text \<open>Integers of at most 53 bits are exact.\<close>

lemma f64_rat_small_int:
  assumes "\<bar>n\<bar> < 2 ^ 53"
  shows "f64_rat (of_int n) = of_int n"
proof -
  have pos: "f64_pos (of_int m) = of_int m" if m: "0 < m" "m < 2 ^ 53" for m :: int
  proof -
    have "of_int m < (of_int (2 ^ 53) :: rat)" using m(2) by (simp only: of_int_less_iff)
    then have "pow2 (floor_log2 (of_int m)) < pow2 53"
      using floor_log2_bounds [of "of_int m"] m(1) by (simp add: pow2_def)
    then have "floor_log2 (of_int m) < 53" by (simp add: pow2_less_iff)
    then have u: "ulp_exp (of_int m) \<le> 0" by (simp add: ulp_exp_def)
    let ?e = "ulp_exp (of_int m)"
    have "of_int m / pow2 ?e = of_int (m * 2 ^ nat (- ?e))"
      using u by (cases "?e = 0") (simp_all add: pow2_def)
    moreover have "of_int (m * 2 ^ nat (- ?e)) * pow2 ?e = (of_int m :: rat)"
      using u by (cases "?e = 0") (simp_all add: pow2_def)
    ultimately show ?thesis by (simp only: f64_pos_def round_even_of_int)
  qed
  show ?thesis
    using pos [of n] pos [of "- n"] assms by (cases n "0::int" rule: linorder_cases) (auto simp: f64_rat_def)
qed

section \<open>The type float64\<close>

datatype float64 = NInf | Fin rat | PInf

instantiation float64 :: linorder
begin

fun less_eq_float64 :: "float64 \<Rightarrow> float64 \<Rightarrow> bool" where
  "less_eq_float64 NInf b = True"
| "less_eq_float64 (Fin p) NInf = False"
| "less_eq_float64 (Fin p) (Fin q) = (p \<le> q)"
| "less_eq_float64 (Fin p) PInf = True"
| "less_eq_float64 PInf b = (b = PInf)"

definition less_float64 :: "float64 \<Rightarrow> float64 \<Rightarrow> bool" where
  "less_float64 a b = (a \<le> b \<and> \<not> b \<le> a)"

instance
proof
  fix a b c :: float64
  show "(a < b) = (a \<le> b \<and> \<not> b \<le> a)" by (simp add: less_float64_def)
  show "a \<le> a" by (cases a) auto
  show "a \<le> b \<or> b \<le> a" by (cases a; cases b) auto
  assume ab: "a \<le> b"
  show "b \<le> c \<Longrightarrow> a \<le> c" using ab by (cases a; cases b; cases c) auto
  show "b \<le> a \<Longrightarrow> a = b" using ab by (cases a; cases b) auto
qed

end

definition f64 :: "rat \<Rightarrow> float64" where
  [go_defs]: "f64 q =
     (let r = f64_rat q in if pow2 1024 \<le> r then PInf else if r \<le> - pow2 1024 then NInf else Fin r)"

lemma f64_mono: "p \<le> q \<Longrightarrow> f64 p \<le> f64 q"
  using f64_rat_mono [of p q] pow2_pos [of 1024] by (auto simp: f64_def Let_def not_le)

text \<open>\<open>float64(n)\<close> of an integer and the product of two finite values.\<close>

definition f64_of_int :: "int \<Rightarrow> rat" where
  [go_defs]: "f64_of_int n = f64_rat (of_int n)"

definition f64_mul :: "rat \<Rightarrow> rat \<Rightarrow> rat" where
  [go_defs]: "f64_mul a b = f64_rat (a * b)"

text \<open>The double nearest to 0.8.\<close>

definition f64_08 :: rat where
  [go_defs]: "f64_08 = 3602879701896397 / 4503599627370496"

section \<open>Dyadic numbers\<close>

text \<open>A quotient with a numerator of at most 53 bits and a small power of two below it is exact.\<close>

lemma f64_rat_dyadic:
  assumes n: "0 < n" "n < 2 ^ 53" and k: "k \<le> 1000"
  shows "f64_rat (of_int n / 2 ^ k) = of_int n / 2 ^ k"
proof -
  let ?q = "of_int n / 2 ^ k :: rat"
  let ?e = "ulp_exp ?q"
  have q: "0 < ?q" using n(1) by simp
  have "of_int n < (of_int (2 ^ 53) :: rat)" using n(2) by (simp only: of_int_less_iff)
  then have "?q < 2 ^ 53 / 2 ^ k" by (simp add: divide_strict_right_mono)
  also have "(2 ^ 53 / 2 ^ k :: rat) = pow2 (53 - int k)"
    by (cases "k \<le> 53") (simp_all add: pow2_def power_diff nat_diff_distrib of_nat_diff field_simps flip: power_add)
  finally have "pow2 (floor_log2 ?q) < pow2 (53 - int k)" using floor_log2_bounds [OF q] by simp
  then have "floor_log2 ?q < 53 - int k" by (simp add: pow2_less_iff)
  then have u: "?e \<le> - int k" using k by (simp add: ulp_exp_def)
  have "pow2 ?e * 2 ^ nat (- int k - ?e) = 1 / 2 ^ k"
  proof -
    have "nat (- ?e) = k + nat (- int k - ?e)" using u by simp
    moreover have "?e < 0 \<or> ?e = 0" using u by linarith
    ultimately show ?thesis using u by (auto simp: pow2_def power_add)
  qed
  then have eqs: "?q / pow2 ?e = of_int (n * 2 ^ nat (- int k - ?e)) \<and> of_int (n * 2 ^ nat (- int k - ?e)) * pow2 ?e = ?q"
    using pow2_pos [of ?e] by (simp add: field_simps)
  have "f64_pos ?q = of_int (round_even (of_int (n * 2 ^ nat (- int k - ?e)))) * pow2 ?e"
    unfolding f64_pos_def using eqs by (simp only:)
  then have "f64_pos ?q = ?q" using eqs by (simp only: round_even_of_int)
  then show ?thesis using q by (simp add: f64_rat_def)
qed

lemma f64_dyadic:
  assumes "0 < n" "n < 2 ^ 53" "k \<le> 1000"
  shows "f64 (of_int n / 2 ^ k) = Fin (of_int n / 2 ^ k)"
proof -
  let ?q = "of_int n / 2 ^ k :: rat"
  have "of_int n < (of_int (2 ^ 53) :: rat)" using assms(2) by (simp only: of_int_less_iff)
  then have "of_int n < (2 ^ 53 :: rat)" by simp
  moreover have "?q \<le> of_int n" using assms(1) by (simp add: divide_le_eq mult_le_cancel_left1)
  ultimately have "?q < 2 ^ 53" by linarith
  also have "(2 ^ 53 :: rat) \<le> pow2 1024" by (simp add: pow2_def)
  finally have "?q < pow2 1024" .
  moreover have "0 < ?q" using assms(1) by simp
  moreover from this have "\<not> ?q \<le> - pow2 1024" using pow2_pos [of 1024] by linarith
  ultimately show ?thesis by (simp add: f64_def f64_rat_dyadic [OF assms])
qed

end
