(* ===== verification/Share_Base.thy ===== *)
theory Share_Base
  imports Float64
begin

text \<open>
  Package \<open>sharesched\<close> without the placement plan: the reason codes (\<open>reason.go\<close>), the prompt
  cache profile (\<open>cache.go\<close>), the rendezvous draw (\<open>hrw.go\<close>) and the policy (\<open>policy.go\<close>).
  The xxHash digest and the platform's \<open>math.Log\<close> are parameters, collected in \<open>hrw_env\<close>.
\<close>

section \<open>Reasons\<close>

text \<open>Reason codes are strings; the kernel compares and produces these.\<close>

type_synonym Reason = string

definition ReasonAffinityHit :: Reason where "ReasonAffinityHit = ''affinity_hit''"
definition ReasonSpillRebind :: Reason where "ReasonSpillRebind = ''spill_rebind''"
definition ReasonSoftSpill :: Reason where "ReasonSoftSpill = ''soft_spill''"
definition ReasonNewSession :: Reason where "ReasonNewSession = ''new_session''"
definition ReasonSessionless :: Reason where "ReasonSessionless = ''sessionless''"
definition ReasonRealignCold :: Reason where "ReasonRealignCold = ''realign_cold''"
definition ReasonReturnCold :: Reason where "ReasonReturnCold = ''return_cold''"
definition ReasonRebindUnavailable :: Reason where "ReasonRebindUnavailable = ''rebind_unavailable''"
definition ReasonTierOverflowSaturated :: Reason where
  "ReasonTierOverflowSaturated = ''tier_overflow_saturated''"
definition ReasonTierOverflowUnavailable :: Reason where
  "ReasonTierOverflowUnavailable = ''tier_overflow_unavailable''"
definition ReasonFailoverNext :: Reason where "ReasonFailoverNext = ''failover_next''"
definition ReasonResilFailureStreak :: Reason where "ReasonResilFailureStreak = ''resil_failure_streak''"
definition ReasonIneligible :: Reason where "ReasonIneligible = ''ineligible''"

lemmas reason_defs = ReasonAffinityHit_def ReasonSpillRebind_def ReasonSoftSpill_def
  ReasonNewSession_def ReasonSessionless_def ReasonRealignCold_def ReasonReturnCold_def
  ReasonRebindUnavailable_def ReasonTierOverflowSaturated_def ReasonTierOverflowUnavailable_def
  ReasonFailoverNext_def ReasonResilFailureStreak_def ReasonIneligible_def

definition ActiveMigration :: "Reason \<Rightarrow> bool" where
  "ActiveMigration r = (r = ReasonRealignCold \<or> r = ReasonReturnCold)"

section \<open>Prompt cache profile\<close>

definition BindingTTL :: duration where "BindingTTL = hour"
definition MaxWait :: duration where "MaxWait = 15 * second"
definition MaxWaiting :: int where "MaxWaiting = 3"
definition StableFor :: duration where "StableFor = 120 * second"
definition waitPer1kTokens :: duration where "waitPer1kTokens = 100 * millisecond"

definition CacheFamilyAnthropic :: string where "CacheFamilyAnthropic = ''anthropic''"
definition CacheFamilyOpenAI :: string where "CacheFamilyOpenAI = ''openai''"

definition CacheTTL :: "string \<Rightarrow> bool \<Rightarrow> duration" where
  "CacheTTL family requestsOneHour =
     (if family = CacheFamilyAnthropic then (if requestsOneHour then hour else 5 * minute)
      else if family = CacheFamilyOpenAI then 30 * minute
      else 5 * minute)"

definition MinCacheableTokens :: "string \<Rightarrow> string \<Rightarrow> int" where
  "MinCacheableTokens family model =
     (if family \<noteq> CacheFamilyAnthropic then 1024
      else let model = ToLower model in
        if Contains model ''3-haiku'' \<or> Contains model ''3-5-haiku'' \<or> Contains model ''haiku-3'' then 2048
        else if Contains model ''opus-4-5'' \<or> Contains model ''haiku-4-5'' then 4096
        else 1024)"

record CacheProfile =
  TTL :: duration
  EstimatedTokens :: int
  Cacheable :: bool

definition NewCacheProfile :: "string \<Rightarrow> string \<Rightarrow> bool \<Rightarrow> int \<Rightarrow> CacheProfile" where
  "NewCacheProfile family model requestsOneHour estimatedTokens =
     \<lparr>TTL = CacheTTL family requestsOneHour,
      EstimatedTokens = estimatedTokens,
      Cacheable = (MinCacheableTokens family model \<le> estimatedTokens)\<rparr>"

definition Warm :: "CacheProfile \<Rightarrow> duration \<Rightarrow> bool" where
  "Warm c idle = (Cacheable c \<and> 0 < TTL c \<and> idle < TTL c)"

definition WaitBudget :: "CacheProfile \<Rightarrow> duration \<Rightarrow> duration" where
  "WaitBudget profile idle =
     (if \<not> Warm profile idle then 0
      else min (go_div (wrap64 (EstimatedTokens profile * waitPer1kTokens)) 1000) MaxWait)"

text \<open>
  The product with 100 ms is exact up to 92,233,720,368 tokens, and then the wait is 100 ms per
  thousand tokens, capped.
\<close>

lemma WaitBudget_exact:
  assumes "Warm p idle" "0 \<le> EstimatedTokens p" "EstimatedTokens p \<le> 92233720368"
  shows "WaitBudget p idle = min (EstimatedTokens p * 100000) MaxWait"
proof -
  have "wrap64 (EstimatedTokens p * waitPer1kTokens) = EstimatedTokens p * 100000000"
    using assms by (simp add: waitPer1kTokens_def)
  with assms show ?thesis by (simp add: WaitBudget_def)
qed

lemma WaitBudget_le_MaxWait: "WaitBudget p idle \<le> MaxWait"
  by (simp add: WaitBudget_def MaxWait_def)

section \<open>Rendezvous hashing\<close>

text \<open>
  \<open>xxh64\<close> is the 64-bit xxHash of a byte string (\<open>github.com/cespare/xxhash\<close>), \<open>math_log\<close> the
  platform's \<open>math.Log\<close> on finite positive values.
\<close>

record hrw_env =
  xxh64 :: "string \<Rightarrow> 64 word"
  math_log :: "rat \<Rightarrow> rat"

text \<open>\<open>binary.LittleEndian.PutUint64(buf, uint64(v))\<close>.\<close>

fun le_bytes :: "nat \<Rightarrow> nat \<Rightarrow> string" where
  "le_bytes 0 x = []"
| "le_bytes (Suc n) x = char_of (x mod 256) # le_bytes n (x div 256)"

definition PutUint64 :: "int \<Rightarrow> string" where
  "PutUint64 v = le_bytes 8 (nat (v mod 18446744073709551616))"

definition hrwInput :: "int \<Rightarrow> string \<Rightarrow> account_id \<Rightarrow> string" where
  "hrwInput salt key accountID = PutUint64 salt @ key @ PutUint64 accountID"

definition hrwUniform :: "hrw_env \<Rightarrow> int \<Rightarrow> string \<Rightarrow> account_id \<Rightarrow> rat" where
  "hrwUniform E salt key accountID =
     of_nat (unat (drop_bit 11 (xxh64 E (hrwInput salt key accountID))) + 1) / 2 ^ 53"

definition hrwDraw :: "hrw_env \<Rightarrow> int \<Rightarrow> string \<Rightarrow> account_id \<Rightarrow> rat" where
  "hrwDraw E salt key accountID = - math_log E (hrwUniform E salt key accountID)"

definition hrwWeighted :: "rat \<Rightarrow> rat \<Rightarrow> float64" where
  "hrwWeighted draw weight = (if weight \<le> 0 then PInf else f64 (draw / weight))"

lemma hrwUniform_range: "0 < hrwUniform E s k a \<and> hrwUniform E s k a \<le> 1"
proof -
  have "unat (drop_bit 11 w) < 2 ^ 53" for w :: "64 word"
  proof -
    have "unat (drop_bit 11 w) = drop_bit 11 (unat w)" by (rule unat_drop_bit_eq)
    then have "unat (drop_bit 11 w) = unat w div 2 ^ 11" by (simp only: drop_bit_eq_div)
    moreover have "unat w < 2 ^ 64" using unsigned_less [of w] by simp
    ultimately show ?thesis by (simp add: less_mult_imp_div_less)
  qed
  then obtain n where n: "unat (drop_bit 11 (xxh64 E (hrwInput s k a))) = n" "n < 2 ^ 53"
    by blast
  then have "n + 1 \<le> 2 ^ 53" by simp
  then have "(of_nat (n + 1) :: rat) \<le> of_nat (2 ^ 53)" by (simp only: of_nat_le_iff)
  moreover have "(0::rat) < of_nat (n + 1)" by simp
  ultimately show ?thesis unfolding hrwUniform_def n(1) by simp
qed

text \<open>A larger weight never gives a larger score.\<close>

lemma hrwWeighted_antimono:
  assumes "0 \<le> draw" "v \<le> w"
  shows "hrwWeighted draw w \<le> hrwWeighted draw v"
proof (cases "v \<le> 0")
  case True
  then show ?thesis by (cases "hrwWeighted draw w") (simp_all add: hrwWeighted_def)
next
  case False
  with assms have "draw / w \<le> draw / v" by (intro divide_left_mono) auto
  with False assms show ?thesis by (simp add: hrwWeighted_def f64_mono)
qed

lemma length_le_bytes [simp]: "length (le_bytes n x) = n"
  by (induction n arbitrary: x) auto

lemma length_PutUint64 [simp]: "length (PutUint64 v) = 8"
  by (simp add: PutUint64_def)

lemma char_of_byte_inj: "(char_of (a mod 256) :: char) = char_of (b mod 256) \<Longrightarrow> a mod 256 = b mod (256::nat)"
  by (metis of_char_of mod_mod_trivial)

lemma le_bytes_inj: "le_bytes n a = le_bytes n b \<Longrightarrow> a < 256 ^ n \<Longrightarrow> b < 256 ^ n \<Longrightarrow> a = b"
proof (induction n arbitrary: a b)
  case (Suc n)
  have m: "a mod 256 = b mod 256"
    using Suc.prems(1) by (intro char_of_byte_inj) simp
  have "a div 256 < 256 ^ n" "b div 256 < 256 ^ n"
    using Suc.prems(2,3) by (simp_all only: power_Suc mult.commute [of 256] less_mult_imp_div_less)
  moreover have "le_bytes n (a div 256) = le_bytes n (b div 256)" using Suc.prems(1) by simp
  ultimately have "a div 256 = b div 256" by (blast intro: Suc.IH)
  with m show ?case by (metis mod_div_decomp)
qed simp

lemma PutUint64_inj:
  assumes "PutUint64 a = PutUint64 b"
  shows "a mod 18446744073709551616 = b mod 18446744073709551616"
proof -
  let ?M = "18446744073709551616 :: int"
  have M: "(256::nat) ^ 8 = nat ?M" by simp
  have "nat (x mod ?M) < 256 ^ 8" for x
    unfolding M using pos_mod_bound [of ?M x] by (simp only: nat_less_eq_zless [OF pos_mod_sign])
  with assms have "nat (a mod ?M) = nat (b mod ?M)"
    unfolding PutUint64_def by (blast intro: le_bytes_inj)
  moreover have "0 \<le> a mod ?M" "0 \<le> b mod ?M" by simp_all
  ultimately show ?thesis by (metis nat_eq_iff)
qed

lemma int64_mod_inj:
  assumes "a mod 18446744073709551616 = b mod 18446744073709551616" "wrap64 a = a" "wrap64 b = b"
  shows "a = b"
proof -
  have "(a + 9223372036854775808) mod 18446744073709551616
      = (b + 9223372036854775808) mod 18446744073709551616"
    using assms(1) by (rule mod_add_cong) simp
  then have "wrap64 a = wrap64 b" unfolding wrap64_def by (rule arg_cong)
  then show ?thesis unfolding assms(2,3) .
qed

section \<open>Policy\<close>

record Affinity =
  AEnabled :: bool
  AKey :: string

record Policy =
  Schema :: int
  Scheduler :: string
  PAffinity :: Affinity

definition SchedulerSub2API :: string where "SchedulerSub2API = ''sub2api''"
definition SchedulerShadow :: string where "SchedulerShadow = ''shadow''"
definition SchedulerShare :: string where "SchedulerShare = ''share''"
definition PolicySchema :: int where "PolicySchema = 1"
definition AffinityKeyAuto :: string where "AffinityKeyAuto = ''auto''"
definition AffinityKeyNone :: string where "AffinityKeyNone = ''none''"
definition affinityKeySession :: string where "affinityKeySession = ''session''"
definition affinityKeyPrefix :: string where "affinityKeyPrefix = ''prefix''"

lemmas policy_consts = SchedulerSub2API_def SchedulerShadow_def SchedulerShare_def PolicySchema_def
  AffinityKeyAuto_def AffinityKeyNone_def affinityKeySession_def affinityKeyPrefix_def

definition DefaultPolicy :: Policy where
  "DefaultPolicy = \<lparr>Schema = PolicySchema, Scheduler = SchedulerSub2API,
     PAffinity = \<lparr>AEnabled = True, AKey = AffinityKeyAuto\<rparr>\<rparr>"

definition Effective :: "Policy \<Rightarrow> string" where
  "Effective p = (if Scheduler p = SchedulerShare then SchedulerShare else SchedulerSub2API)"

definition SessionKeep :: "Policy \<Rightarrow> bool" where
  "SessionKeep p = (AEnabled (PAffinity p) \<and> AKey (PAffinity p) \<noteq> AffinityKeyNone)"

definition Policy_Validate :: "Policy \<Rightarrow> string list" where
  "Policy_Validate p =
     (if Schema p \<noteq> PolicySchema then [''schema must be '' @ Itoa PolicySchema] else []) @
     (if Scheduler p \<in> {SchedulerSub2API, SchedulerShadow, SchedulerShare} then []
      else [''scheduler must be sub2api, shadow or share'']) @
     (if AKey (PAffinity p) \<in> {AffinityKeyAuto, AffinityKeyNone, affinityKeySession, affinityKeyPrefix} then []
      else [''affinity.key must be auto, session, prefix or none''])"

lemma DefaultPolicy_valid: "Policy_Validate DefaultPolicy = []"
  by (simp add: Policy_Validate_def DefaultPolicy_def policy_consts)

end
