(* ===== verification/Share_Plan.thy ===== *)
theory Share_Plan
  imports Share_Base
begin

text \<open>
  The placement plan of share scheduling (\<open>sharesched/plan.go\<close>): \<open>Plan\<close> with its candidates,
  entries and decisions, and \<open>Outcome\<close>. Pointers to entries are the entries themselves: the
  account ids of a plan's entries are distinct, so the ranks that the code writes through a
  pointer are written to the entry with that account id.
\<close>

section \<open>Data\<close>

record Candidate =
  cAccountID :: account_id
  cPlatform :: string
  cClass :: string
  cPriority :: int
  cLoadFactor :: int
  cWeight :: rat
  cEligible :: bool
  cReason :: Reason
  cRecoverAt :: gotime
  cExcluded :: bool
  cStableSince :: gotime

record Binding =
  bAccountID :: account_id
  bIdle :: duration

record Request =
  GroupID :: int
  Key :: string
  Sessionless :: bool
  Now :: gotime
  rBinding :: Binding
  Cache :: CacheProfile

datatype Write = WriteNone | WriteRefresh | WriteIfAbsent | WriteReplace

record Step =
  sAccountID :: account_id
  sPriority :: int

record Entry =
  eAccountID :: account_id
  ePriority :: int
  eLoadFactor :: int
  eEffectiveWeight :: rat
  eClass :: string
  eEligible :: bool
  eExcluded :: bool
  eReason :: Reason
  eRank :: int
  eScore :: float64
  eRecoverAt :: gotime
  eStableSince :: gotime

record Decision =
  dReason :: Reason
  dSteps :: "Step list"
  dWrite :: Write
  dSpill :: Write
  dSpillReason :: Reason
  dWait :: duration
  dMaxWaiting :: int
  dBound :: account_id
  dTarget :: account_id
  dIdeal :: account_id
  dActivePriority :: int
  dEntries :: "Entry list"

definition usable :: "Entry \<Rightarrow> bool" where
  "usable e = (eEligible e \<and> \<not> eExcluded e)"

section \<open>Orders\<close>

definition less_score :: "float64 \<Rightarrow> account_id \<Rightarrow> float64 \<Rightarrow> account_id \<Rightarrow> bool" where
  "less_score scoreA idA scoreB idB = (if scoreA \<noteq> scoreB then scoreA < scoreB else idA < idB)"

definition before :: "Entry \<Rightarrow> Entry \<Rightarrow> bool" where
  "before a b =
     (if ePriority a \<noteq> ePriority b then ePriority a < ePriority b
      else less_score (eScore a) (eAccountID a) (eScore b) (eAccountID b))"

definition same_class :: "Entry \<Rightarrow> Entry \<Rightarrow> bool" where
  "same_class bound a = (eClass a \<noteq> [] \<and> eClass a = eClass bound)"

definition spill_before :: "Entry \<Rightarrow> Entry \<Rightarrow> Entry \<Rightarrow> bool" where
  "spill_before bound a b =
     (if ePriority a \<noteq> ePriority b then ePriority a < ePriority b
      else if same_class bound a \<noteq> same_class bound b then same_class bound a
      else less_score (eScore a) (eAccountID a) (eScore b) (eAccountID b))"

definition orderEntries :: "Entry list \<Rightarrow> (Entry \<Rightarrow> bool) \<Rightarrow> (Entry \<Rightarrow> Entry \<Rightarrow> bool) \<Rightarrow> Entry list" where
  "orderEntries entries keep lt = SliceStable lt (filter keep entries)"

interpretation place: strict_keyed before eAccountID
  by unfold_locales (auto simp: before_def less_score_def split: if_splits)

interpretation spill: strict_keyed "spill_before bound" eAccountID for bound
  by unfold_locales (auto simp: spill_before_def less_score_def split: if_splits)

section \<open>Plan\<close>

definition mk_entry :: "hrw_env \<Rightarrow> Request \<Rightarrow> Candidate \<Rightarrow> Entry" where
  "mk_entry E req c =
     (let load = max (cLoadFactor c) 1;
          reason = (if cExcluded c \<and> cReason c = ReasonResilFailureStreak then cReason c
                    else if cEligible c then []
                    else if cReason c = [] then ReasonIneligible
                    else cReason c);
          weight = (if cWeight c \<le> 0 then f64_of_int load else cWeight c)
      in \<lparr>eAccountID = cAccountID c, ePriority = cPriority c, eLoadFactor = load,
          eEffectiveWeight = weight, eClass = cClass c,
          eEligible = cEligible c, eExcluded = cExcluded c, eReason = reason, eRank = 0,
          eScore = hrwWeighted (hrwDraw E (GroupID req) (Key req) (cAccountID c)) weight,
          eRecoverAt = cRecoverAt c, eStableSince = cStableSince c\<rparr>)"

fun build_entries :: "hrw_env \<Rightarrow> Request \<Rightarrow> account_id set \<Rightarrow> Candidate list \<Rightarrow> Entry list" where
  "build_entries E req present [] = []"
| "build_entries E req present (c # cs) =
     (if cAccountID c \<in> present then build_entries E req present cs
      else mk_entry E req c # build_entries E req (insert (cAccountID c) present) cs)"

fun ideal_entry :: "Entry option \<Rightarrow> Entry list \<Rightarrow> Entry option" where
  "ideal_entry ideal [] = ideal"
| "ideal_entry None (e # es) = ideal_entry (Some e) es"
| "ideal_entry (Some i) (e # es) = ideal_entry (Some (if before e i then e else i)) es"

definition spillFrom :: "Entry list \<Rightarrow> Entry \<Rightarrow> Entry list" where
  "spillFrom entries bound =
     orderEntries entries (\<lambda>e. usable e \<and> eAccountID e \<noteq> eAccountID bound) (spill_before bound)"

fun set_ranks :: "int \<Rightarrow> Entry list \<Rightarrow> Entry list \<Rightarrow> Entry list" where
  "set_ranks i [] entries = entries"
| "set_ranks i (p # ps) entries =
     set_ranks (i + 1) ps
       (map (\<lambda>e. if eAccountID e = eAccountID p then e\<lparr>eRank := i + 1\<rparr> else e) entries)"

definition mk_step :: "Entry \<Rightarrow> Step" where
  "mk_step e = \<lparr>sAccountID = eAccountID e, sPriority = ePriority e\<rparr>"

definition finish :: "Decision \<Rightarrow> Reason \<Rightarrow> Entry list \<Rightarrow> Write \<Rightarrow> Write \<Rightarrow> Decision" where
  "finish d reason order write spill =
     d\<lparr>dReason := reason, dWrite := write, dSpill := spill,
       dSteps := map mk_step order, dEntries := set_ranks 0 order (dEntries d)\<rparr>"

definition softSpill :: "Request \<Rightarrow> Entry \<Rightarrow> duration \<Rightarrow> bool" where
  "softSpill req bound idle =
     (if IsZero (eRecoverAt bound) \<or> \<not> Cacheable (Cache req) then False
      else let remaining = max (time_Sub (eRecoverAt bound) (Now req)) 0
           in f64_of_int (wrap64 (remaining + idle)) < f64_mul f64_08 (f64_of_int (TTL (Cache req))))"

text \<open>Affinity hit: the bound account first, then the session's spill order.\<close>

definition affinity_hit :: "Request \<Rightarrow> Decision \<Rightarrow> Entry list \<Rightarrow> Entry \<Rightarrow> duration \<Rightarrow> Decision" where
  "affinity_hit req d entries bound idle =
     (let order = bound # spillFrom entries bound;
          d' = d\<lparr>dSpillReason := ReasonSpillRebind, dWait := WaitBudget (Cache req) idle,
                 dMaxWaiting := MaxWaiting\<rparr>
      in finish d' ReasonAffinityHit order WriteRefresh WriteReplace)"

text \<open>The decisions for a session with a binding whose account is among the entries.\<close>

definition Plan_bound ::
  "Request \<Rightarrow> Decision \<Rightarrow> Entry list \<Rightarrow> Entry list \<Rightarrow> Entry \<Rightarrow> Decision" where
  "Plan_bound req d entries placement bound =
     (let idle = max (bIdle (rBinding req)) 0;
          warm = Warm (Cache req) idle;
          hit = affinity_hit req d entries bound idle
      in if eExcluded bound then
           (if eReason bound = ReasonResilFailureStreak
            then finish d ReasonResilFailureStreak (spillFrom entries bound) WriteReplace WriteReplace
            else finish d ReasonFailoverNext (spillFrom entries bound) WriteReplace WriteReplace)
         else if \<not> eEligible bound then
           (if softSpill req bound idle
            then finish d ReasonSoftSpill (spillFrom entries bound) WriteNone WriteNone
            else finish d ReasonRebindUnavailable (spillFrom entries bound) WriteReplace WriteReplace)
         else (case placement of
             [] \<Rightarrow> hit
           | target # rest \<Rightarrow>
               if eAccountID target \<noteq> eAccountID bound \<and> \<not> warm then
                 (if ePriority bound > ePriority target then
                    (if IsZero (eStableSince target)
                        \<or> StableFor \<le> time_Sub (Now req) (eStableSince target)
                     then finish d ReasonReturnCold placement WriteReplace WriteReplace
                     else hit)
                  else finish d ReasonRealignCold placement WriteReplace WriteReplace)
               else hit))"

definition unbound_reason :: "Entry option \<Rightarrow> Entry list \<Rightarrow> Reason" where
  "unbound_reason ideal placement =
     (case (ideal, placement) of
        (Some i, p # ps) \<Rightarrow>
          if ePriority i < ePriority p then ReasonTierOverflowUnavailable else ReasonNewSession
      | _ \<Rightarrow> ReasonNewSession)"

text \<open>The decision before a branch is taken: the entries, the binding, the ideal and the target.\<close>

definition plan_init :: "Request \<Rightarrow> Entry list \<Rightarrow> Entry option \<Rightarrow> Entry list \<Rightarrow> Decision" where
  "plan_init req entries ideal placement =
     \<lparr>dReason = [], dSteps = [], dWrite = WriteNone, dSpill = WriteNone, dSpillReason = [],
      dWait = 0, dMaxWaiting = 0, dBound = bAccountID (rBinding req),
      dTarget = (case placement of [] \<Rightarrow> 0 | p # ps \<Rightarrow> eAccountID p),
      dIdeal = (case ideal of None \<Rightarrow> 0 | Some e \<Rightarrow> eAccountID e),
      dActivePriority = (case placement of [] \<Rightarrow> 0 | p # ps \<Rightarrow> ePriority p),
      dEntries = entries\<rparr>"

definition Plan :: "hrw_env \<Rightarrow> Request \<Rightarrow> Candidate list \<Rightarrow> Decision" where
  "Plan E req cands =
     (let entries = build_entries E req {} cands;
          ideal = ideal_entry None entries;
          placement = orderEntries entries usable before;
          d = plan_init req entries ideal placement
      in if Sessionless req \<or> Key req = [] then finish d ReasonSessionless placement WriteNone WriteNone
         else if bAccountID (rBinding req) \<le> 0 then
           finish d (unbound_reason ideal placement) placement WriteIfAbsent WriteIfAbsent
         else (case find (\<lambda>e. eAccountID e = bAccountID (rBinding req)) entries of
             None \<Rightarrow> finish d ReasonRebindUnavailable placement WriteReplace WriteReplace
           | Some bound \<Rightarrow> Plan_bound req d entries placement bound))"

definition Outcome :: "Decision \<Rightarrow> int \<Rightarrow> Reason \<times> Write" where
  "Outcome d index =
     (if index \<le> 0 \<or> int (length (dSteps d)) \<le> index then (dReason d, dWrite d)
      else if dReason d = ReasonAffinityHit then (dSpillReason d, dSpill d)
      else if sPriority (dSteps d ! 0) < sPriority (dSteps d ! nat index)
      then (ReasonTierOverflowSaturated, dSpill d)
      else (dReason d, dSpill d))"

section \<open>Entries\<close>

lemma mk_entry_simps [simp]:
  "eAccountID (mk_entry E req c) = cAccountID c" "ePriority (mk_entry E req c) = cPriority c"
  "eClass (mk_entry E req c) = cClass c" "eEligible (mk_entry E req c) = cEligible c"
  "eExcluded (mk_entry E req c) = cExcluded c" "eRank (mk_entry E req c) = 0"
  by (simp_all add: mk_entry_def Let_def)

lemma build_entries_ids:
  "eAccountID ` set (build_entries E req P cs) = cAccountID ` set cs - P"
  by (induction cs arbitrary: P) auto

lemma build_entries_distinct: "distinct (map eAccountID (build_entries E req P cs))"
proof (induction cs arbitrary: P)
  case (Cons c cs)
  have "cAccountID c \<notin> eAccountID ` set (build_entries E req (insert (cAccountID c) P) cs)"
    by (simp add: build_entries_ids)
  with Cons show ?case by simp
qed simp

lemma build_entries_inj: "inj_on eAccountID (set (build_entries E req P cs))"
  using build_entries_distinct [of E req P cs] by (simp add: distinct_map)

lemma build_entries_nodup:
  "distinct (map cAccountID cs) \<Longrightarrow> cAccountID ` set cs \<inter> P = {} \<Longrightarrow>
   build_entries E req P cs = map (mk_entry E req) cs"
  by (induction cs arbitrary: P) auto

lemma build_entries_src: "e \<in> set (build_entries E req P cs) \<Longrightarrow> \<exists>c \<in> set cs. e = mk_entry E req c"
  by (induction cs arbitrary: P) (auto split: if_splits)

lemma set_ranks_map: "map (f \<circ> eRank_update (\<lambda>_. 0)) (set_ranks i ps es) = map (f \<circ> eRank_update (\<lambda>_. 0)) es"
  by (induction i ps es rule: set_ranks.induct) auto

lemma set_ranks_ids [simp]: "map eAccountID (set_ranks i ps es) = map eAccountID es"
  using set_ranks_map [of eAccountID i ps es] by (simp add: comp_def)

lemma set_ranks_perm: "mset es = mset es' \<Longrightarrow> mset (set_ranks i ps es) = mset (set_ranks i ps es')"
  by (induction i ps es arbitrary: es' rule: set_ranks.induct) (simp_all add: mset_map)

section \<open>The ideal entry and the orders\<close>

lemma ideal_entry_minimal:
  "ideal_entry i es = Some e \<Longrightarrow>
     e \<in> set_option i \<union> set es \<and> (\<forall>x \<in> set_option i \<union> set es. \<not> before x e)"
proof (induction i es rule: ideal_entry.induct)
  case (1 ideal)
  then show ?case using place.lt_irrefl by auto
next
  case (3 i e' es)
  from "3.prems" "3.IH" have e: "e \<in> insert (if before e' i then e' else i) (set es)"
    and min: "\<not> before (if before e' i then e' else i) e" "\<And>x. x \<in> set es \<Longrightarrow> \<not> before x e"
    by auto
  have "\<not> before i e \<and> \<not> before e' e"
    using min(1) place.lt_asym [of e' i] place.incomp_trans [of i e' e] place.incomp_trans [of e' i e]
    by (auto split: if_splits)
  with e min show ?case by auto
qed auto

lemma ideal_entry_None_iff: "ideal_entry i es = None \<longleftrightarrow> i = None \<and> es = []"
  by (induction i es rule: ideal_entry.induct) auto

lemma ideal_entry_perm:
  assumes "mset es = mset es'" "inj_on eAccountID (set es)"
  shows "ideal_entry None es = ideal_entry None es'"
proof (cases "es = []")
  case False
  then have "es' \<noteq> []" using assms(1) by auto
  with False obtain a b where ab: "ideal_entry None es = Some a" "ideal_entry None es' = Some b"
    by (metis ideal_entry_None_iff not_None_eq)
  have s: "set es = set es'" using assms(1) by (rule mset_eq_setD)
  have "a \<in> set es" "b \<in> set es" "\<not> before b a" "\<not> before a b"
    using ideal_entry_minimal [OF ab(1)] ideal_entry_minimal [OF ab(2)] s by auto
  with assms(2) have "a = b" by (rule place.minimal_unique)
  with ab show ?thesis by simp
qed (use assms in simp)

lemma set_orderEntries [simp]: "set (orderEntries es keep lt) = {e \<in> set es. keep e}"
  by (auto simp: orderEntries_def)

lemma distinct_orderEntries: "distinct (map eAccountID es) \<Longrightarrow> distinct (map eAccountID (orderEntries es keep lt))"
  by (auto simp: orderEntries_def distinct_map intro: inj_on_subset)

lemma orderEntries_before_perm:
  assumes "mset es = mset es'" "inj_on eAccountID (set es)"
  shows "orderEntries es keep before = orderEntries es' keep before"
  unfolding orderEntries_def
  using assms by (intro place.SliceStable_perm) (auto simp: mset_filter intro: inj_on_subset)

lemma spillFrom_perm:
  assumes "mset es = mset es'" "inj_on eAccountID (set es)"
  shows "spillFrom es b = spillFrom es' b"
  unfolding spillFrom_def orderEntries_def
  using assms by (intro spill.SliceStable_perm) (auto simp: mset_filter intro: inj_on_subset)

lemma find_id_perm:
  assumes "mset es = mset es'" "inj_on eAccountID (set es)"
  shows "find (\<lambda>e. eAccountID e = a) es = find (\<lambda>e. eAccountID e = a) es'"
proof -
  have s: "set es = set es'" using assms(1) by (rule mset_eq_setD)
  show ?thesis
  proof (cases "find (\<lambda>e. eAccountID e = a) es")
    case None
    with s have "find (\<lambda>e. eAccountID e = a) es' = None" by (auto simp: find_None_iff)
    with None show ?thesis by simp
  next
    case (Some x)
    then have x: "x \<in> set es" "eAccountID x = a" by (auto simp: find_Some_iff)
    with s obtain y where y: "find (\<lambda>e. eAccountID e = a) es' = Some y"
      by (metis (mono_tags) find_None_iff not_None_eq)
    then have "y \<in> set es" "eAccountID y = a" using s by (auto simp: find_Some_iff)
    with x assms(2) have "x = y" by (metis inj_onD)
    with Some y show ?thesis by simp
  qed
qed

lemma priority_sorted_before: "sorted (map ePriority (orderEntries es keep before))"
proof -
  have "sorted_wrt (\<lambda>a b. ePriority a \<le> ePriority b) (orderEntries es keep before)"
    unfolding orderEntries_def
    by (rule sorted_wrt_mono_rel [OF _ place.sorted_SliceStable]) (auto simp: before_def split: if_splits)
  then show ?thesis by (simp add: sorted_wrt_map)
qed

lemma priority_sorted_spill: "sorted (map ePriority (spillFrom es b))"
proof -
  have "sorted_wrt (\<lambda>x y. ePriority x \<le> ePriority y) (spillFrom es b)"
    unfolding spillFrom_def orderEntries_def
    by (rule sorted_wrt_mono_rel [OF _ spill.sorted_SliceStable]) (auto simp: spill_before_def split: if_splits)
  then show ?thesis by (simp add: sorted_wrt_map)
qed


section \<open>Branches of a plan\<close>

abbreviation plan_entries :: "hrw_env \<Rightarrow> Request \<Rightarrow> Candidate list \<Rightarrow> Entry list" where
  "plan_entries E req cands \<equiv> build_entries E req {} cands"

abbreviation plan_placement :: "hrw_env \<Rightarrow> Request \<Rightarrow> Candidate list \<Rightarrow> Entry list" where
  "plan_placement E req cands \<equiv> orderEntries (plan_entries E req cands) usable before"

abbreviation plan_start :: "hrw_env \<Rightarrow> Request \<Rightarrow> Candidate list \<Rightarrow> Decision" where
  "plan_start E req cands \<equiv>
     plan_init req (plan_entries E req cands) (ideal_entry None (plan_entries E req cands))
       (plan_placement E req cands)"

lemma Plan_sessionless:
  "Sessionless req \<or> Key req = [] \<Longrightarrow>
   Plan E req cands = finish (plan_start E req cands) ReasonSessionless (plan_placement E req cands) WriteNone WriteNone"
  by (simp only: Plan_def Let_def if_True)

lemma Plan_unbound:
  "\<not> (Sessionless req \<or> Key req = []) \<Longrightarrow> bAccountID (rBinding req) \<le> 0 \<Longrightarrow>
   Plan E req cands = finish (plan_start E req cands)
     (unbound_reason (ideal_entry None (plan_entries E req cands)) (plan_placement E req cands))
     (plan_placement E req cands) WriteIfAbsent WriteIfAbsent"
  by (simp only: Plan_def Let_def if_True if_False)

lemma Plan_missing:
  "\<not> (Sessionless req \<or> Key req = []) \<Longrightarrow> \<not> bAccountID (rBinding req) \<le> 0 \<Longrightarrow>
   find (\<lambda>e. eAccountID e = bAccountID (rBinding req)) (plan_entries E req cands) = None \<Longrightarrow>
   Plan E req cands =
     finish (plan_start E req cands) ReasonRebindUnavailable (plan_placement E req cands) WriteReplace WriteReplace"
  by (simp only: Plan_def Let_def if_True if_False option.case)

lemma Plan_found:
  "\<not> (Sessionless req \<or> Key req = []) \<Longrightarrow> \<not> bAccountID (rBinding req) \<le> 0 \<Longrightarrow>
   find (\<lambda>e. eAccountID e = bAccountID (rBinding req)) (plan_entries E req cands) = Some b \<Longrightarrow>
   Plan E req cands =
     Plan_bound req (plan_start E req cands) (plan_entries E req cands) (plan_placement E req cands) b"
  by (simp only: Plan_def Let_def if_True if_False option.case)

lemma plan_init_simps [simp]:
  "dEntries (plan_init req es i pl) = es" "dWait (plan_init req es i pl) = 0"
  "dTarget (plan_init req es i pl) = (case pl of [] \<Rightarrow> 0 | p # ps \<Rightarrow> eAccountID p)"
  by (simp_all add: plan_init_def)

end
