(* ===== verification/Share_Props.thy ===== *)
theory Share_Props
  imports Share_Plan
begin

text \<open>
  What share scheduling promises: every usable member is tried exactly once and in tier order,
  the plan does not depend on the order in which an instance lists the members, warm sessions
  are never moved by choice, bindings are only written as the reason allows, and the rendezvous
  order disturbs no session that a change does not concern.
\<close>

section \<open>Shape of a plan\<close>

lemma finish_simps [simp]:
  "dReason (finish d r order w s) = r" "dWrite (finish d r order w s) = w"
  "dSpill (finish d r order w s) = s" "dSteps (finish d r order w s) = map mk_step order"
  "dEntries (finish d r order w s) = set_ranks 0 order (dEntries d)"
  "dWait (finish d r order w s) = dWait d" "dSpillReason (finish d r order w s) = dSpillReason d"
  "dMaxWaiting (finish d r order w s) = dMaxWaiting d" "dBound (finish d r order w s) = dBound d"
  "dTarget (finish d r order w s) = dTarget d" "dIdeal (finish d r order w s) = dIdeal d"
  "dActivePriority (finish d r order w s) = dActivePriority d"
  by (simp_all add: finish_def)

lemma mk_step_simps [simp]:
  "sAccountID (mk_step e) = eAccountID e" "sPriority (mk_step e) = ePriority e"
  by (simp_all add: mk_step_def)

lemma reasons_distinct [simp]:
  "ReasonAffinityHit \<noteq> ReasonSessionless" "ReasonAffinityHit \<noteq> ReasonNewSession"
  "ReasonAffinityHit \<noteq> ReasonTierOverflowUnavailable" "ReasonAffinityHit \<noteq> ReasonRebindUnavailable"
  "ReasonAffinityHit \<noteq> ReasonResilFailureStreak" "ReasonAffinityHit \<noteq> ReasonFailoverNext"
  "ReasonAffinityHit \<noteq> ReasonSoftSpill" "ReasonAffinityHit \<noteq> ReasonReturnCold"
  "ReasonAffinityHit \<noteq> ReasonRealignCold" "ReasonReturnCold \<noteq> ReasonRealignCold"
  by (simp_all add: reason_defs)

lemmas reasons_distinct' [simp] = reasons_distinct [symmetric]

definition order_shape :: "Entry list \<Rightarrow> Decision \<Rightarrow> bool" where
  "order_shape es d \<longleftrightarrow>
     (\<exists>order. dSteps d = map mk_step order \<and> dEntries d = set_ranks 0 order es \<and>
        (dReason d \<noteq> ReasonAffinityHit \<and> order = orderEntries es usable before \<or>
         (\<exists>b \<in> set es. \<not> usable b \<and> dReason d \<noteq> ReasonAffinityHit \<and> order = spillFrom es b) \<or>
         (\<exists>b \<in> set es. usable b \<and> dReason d = ReasonAffinityHit \<and> order = b # spillFrom es b)))"

lemma order_shapeI:
  "dReason d \<noteq> ReasonAffinityHit \<Longrightarrow> dSteps d = map mk_step (orderEntries es usable before) \<Longrightarrow>
     dEntries d = set_ranks 0 (orderEntries es usable before) es \<Longrightarrow> order_shape es d"
  "b \<in> set es \<Longrightarrow> \<not> usable b \<Longrightarrow> dReason d \<noteq> ReasonAffinityHit \<Longrightarrow>
     dSteps d = map mk_step (spillFrom es b) \<Longrightarrow> dEntries d = set_ranks 0 (spillFrom es b) es \<Longrightarrow>
     order_shape es d"
  "b \<in> set es \<Longrightarrow> usable b \<Longrightarrow> dReason d = ReasonAffinityHit \<Longrightarrow>
     dSteps d = map mk_step (b # spillFrom es b) \<Longrightarrow>
     dEntries d = set_ranks 0 (b # spillFrom es b) es \<Longrightarrow> order_shape es d"
  unfolding order_shape_def by blast+

text \<open>A usable bound account keeps its session, or the cold session moves by choice.\<close>

lemma Plan_bound_usable:
  assumes "usable b"
  shows "Plan_bound req d es placement b = affinity_hit req d es b (max (bIdle (rBinding req)) 0) \<or>
    (\<exists>r \<in> {ReasonReturnCold, ReasonRealignCold}.
       Plan_bound req d es placement b = finish d r placement WriteReplace WriteReplace \<and>
       \<not> Warm (Cache req) (max (bIdle (rBinding req)) 0) \<and>
       placement \<noteq> [] \<and> eAccountID (hd placement) \<noteq> eAccountID b)"
  using assms by (cases placement) (simp_all add: Plan_bound_def Let_def usable_def)

lemma Plan_bound_shape:
  assumes "b \<in> set es" "dEntries d = es" "placement = orderEntries es usable before"
  shows "order_shape es (Plan_bound req d es placement b)"
proof -
  consider "eExcluded b" | "\<not> eExcluded b" "\<not> eEligible b" | "usable b"
    by (auto simp: usable_def)
  then show ?thesis
  proof cases
    case 1
    then show ?thesis using assms
      by (auto simp: Plan_bound_def Let_def usable_def intro!: order_shapeI(2) [of b])
  next
    case 2
    then show ?thesis using assms
      by (auto simp: Plan_bound_def Let_def usable_def intro!: order_shapeI(2) [of b])
  next
      case 3
    from Plan_bound_usable [OF this, of req d es placement] show ?thesis
    proof (elim disjE bexE conjE)
      assume "Plan_bound req d es placement b = affinity_hit req d es b (max (bIdle (rBinding req)) 0)"
      with assms 3 show ?thesis
        by (auto simp: affinity_hit_def Let_def simp del: set_ranks.simps intro!: order_shapeI(3) [of b])
    next
      fix r assume "r \<in> {ReasonReturnCold, ReasonRealignCold}"
        and "Plan_bound req d es placement b = finish d r placement WriteReplace WriteReplace"
      with assms show ?thesis by (auto intro!: order_shapeI(1))
    qed
  qed
qed

lemma unbound_reason_neq: "unbound_reason i pl \<noteq> ReasonAffinityHit"
  by (auto simp: unbound_reason_def split: option.splits list.splits)

lemma unbound_reason_cases:
  "unbound_reason i pl = ReasonNewSession \<or> unbound_reason i pl = ReasonTierOverflowUnavailable"
  by (auto simp: unbound_reason_def split: option.splits list.splits)

lemma Plan_shape: "order_shape (plan_entries E req cands) (Plan E req cands)"
proof -
  have placed: "order_shape (plan_entries E req cands)
      (finish (plan_start E req cands) r (plan_placement E req cands) w s)" if "r \<noteq> ReasonAffinityHit" for r w s
    using that by (intro order_shapeI(1)) simp_all
  show ?thesis
  proof (cases "Sessionless req \<or> Key req = []")
    case True
    show ?thesis unfolding Plan_sessionless [OF True] by (rule placed) simp
  next
    case S: False
    show ?thesis
    proof (cases "bAccountID (rBinding req) \<le> 0")
      case True
      show ?thesis unfolding Plan_unbound [OF S True] by (rule placed) (rule unbound_reason_neq)
    next
      case B: False
      show ?thesis
      proof (cases "find (\<lambda>e. eAccountID e = bAccountID (rBinding req)) (plan_entries E req cands)")
        case None
        show ?thesis unfolding Plan_missing [OF S B None] by (rule placed) simp
      next
        case (Some b)
        then have "b \<in> set (plan_entries E req cands)" by (auto simp: find_Some_iff)
        then show ?thesis unfolding Plan_found [OF S B Some] by (rule Plan_bound_shape) simp_all
      qed
    qed
  qed
qed

section \<open>Every usable member exactly once, tier by tier\<close>

definition first_candidate :: "Candidate list \<Rightarrow> account_id \<Rightarrow> Candidate option" where
  "first_candidate cands a = find (\<lambda>c. cAccountID c = a) cands"

lemma build_entries_first:
  "e \<in> set (build_entries E req P cs) \<longleftrightarrow>
     (\<exists>c. first_candidate cs (eAccountID e) = Some c \<and> e = mk_entry E req c \<and> eAccountID e \<notin> P)"
  by (induction cs arbitrary: P) (auto simp: first_candidate_def)

lemma usable_ids:
  "eAccountID ` {e \<in> set (build_entries E req {} cs). usable e} =
     {a. \<exists>c. first_candidate cs a = Some c \<and> cEligible c \<and> \<not> cExcluded c}" (is "?L = ?R")
proof
  show "?L \<subseteq> ?R" by (auto simp: build_entries_first usable_def)
  show "?R \<subseteq> ?L"
  proof
    fix a assume "a \<in> ?R"
    then obtain c where c: "first_candidate cs a = Some c" "cEligible c" "\<not> cExcluded c" by auto
    then have a: "cAccountID c = a" by (auto simp: first_candidate_def find_Some_iff)
    with c have "mk_entry E req c \<in> {e \<in> set (build_entries E req {} cs). usable e}"
      by (auto simp: build_entries_first usable_def)
    moreover have "a = eAccountID (mk_entry E req c)" using a by simp
    ultimately show "a \<in> ?L" by blast
  qed
qed

lemma shape_steps:
  assumes "order_shape es d" "distinct (map eAccountID es)"
  shows "distinct (map sAccountID (dSteps d))"
    and "sAccountID ` set (dSteps d) = eAccountID ` {e \<in> set es. usable e}"
proof -
  have inj: "inj_on eAccountID (set es)" using assms(2) by (simp add: distinct_map)
  have ids: "map (sAccountID \<circ> mk_step) = map eAccountID" by (simp add: fun_eq_iff comp_def)
  have sp: "distinct (map eAccountID (spillFrom es b))" for b
    unfolding spillFrom_def using assms(2) by (rule distinct_orderEntries)
  show "distinct (map sAccountID (dSteps d))"
    using assms(1) distinct_orderEntries [OF assms(2)] sp
    unfolding order_shape_def by (auto simp: ids spillFrom_def)
  have all: "{e \<in> set es. usable e \<and> eAccountID e \<noteq> eAccountID b} = {e \<in> set es. usable e} - {b}"
    if "b \<in> set es" for b using that inj by (auto dest: inj_onD)
  show "sAccountID ` set (dSteps d) = eAccountID ` {e \<in> set es. usable e}"
    using assms(1) unfolding order_shape_def
    by (auto simp: spillFrom_def image_image all)
qed

text \<open>
  C6: the plan tries exactly the members that are eligible and have not failed in this request,
  each of them once: no usable account is forgotten, no unusable account is ever tried, and a
  duplicated member counts with its first listing.
\<close>

theorem plan_tries_usable_once:
  "distinct (map sAccountID (dSteps (Plan E req cands))) \<and>
   sAccountID ` set (dSteps (Plan E req cands)) =
     {a. \<exists>c. first_candidate cands a = Some c \<and> cEligible c \<and> \<not> cExcluded c}"
  using shape_steps [OF Plan_shape build_entries_distinct] by (simp add: usable_ids)

text \<open>
  the steps go tier by tier: priorities never decrease along the steps, except that an
  affinity hit puts the session's own account first, whatever its tier.
\<close>

theorem plan_tier_order:
  "sorted (map sPriority
     (if dReason (Plan E req cands) = ReasonAffinityHit then tl (dSteps (Plan E req cands))
      else dSteps (Plan E req cands)))"
proof -
  have ids: "map (sPriority \<circ> mk_step) = map ePriority" by (simp add: fun_eq_iff comp_def)
  show ?thesis
    using Plan_shape [of E req cands] priority_sorted_before priority_sorted_spill
    unfolding order_shape_def by (auto simp: ids)
qed

section \<open>Independence of the listing order\<close>

text \<open>
  C33: the decision is the same on every instance: listing the same members in another order
  changes nothing but the order of the explained entries (and these are the same entries).
\<close>

theorem plan_listing_independent:
  assumes "mset cands = mset cands'" "distinct (map cAccountID cands)"
  shows "Plan E req cands' = (Plan E req cands)\<lparr>dEntries := dEntries (Plan E req cands')\<rparr> \<and>
         mset (dEntries (Plan E req cands')) = mset (dEntries (Plan E req cands))"
proof -
  let ?es = "build_entries E req {} cands" and ?es' = "build_entries E req {} cands'"
  have d': "distinct (map cAccountID cands')"
    using assms by (metis mset_eq_imp_distinct_iff mset_map)
  have m: "mset ?es = mset ?es'"
    using assms d' by (simp add: build_entries_nodup mset_map)
  have inj: "inj_on eAccountID (set ?es)" by (rule build_entries_inj)
  note perm = ideal_entry_perm [OF m inj] orderEntries_before_perm [OF m inj]
    spillFrom_perm [OF m inj] find_id_perm [OF m inj]
  have ranks: "mset (set_ranks 0 ps ?es') = mset (set_ranks 0 ps ?es)" for ps
    using m by (intro set_ranks_perm) simp
  have fin: "finish (d\<lparr>dEntries := ?es'\<rparr>) r ps w s =
      (finish (d\<lparr>dEntries := ?es\<rparr>) r ps w s)\<lparr>dEntries := set_ranks 0 ps ?es'\<rparr>" for d r ps w s
    by (simp add: finish_def)
  show ?thesis
    unfolding Plan_def plan_init_def Plan_bound_def affinity_hit_def Let_def perm
    by (auto simp: finish_def ranks simp del: set_ranks.simps split: option.splits list.splits)
qed


text \<open>A concrete environment and members for the witnesses.\<close>

definition env0 :: hrw_env where
  "env0 = \<lparr>xxh64 = (\<lambda>s. of_nat (sum_list (map of_char s))), math_log = (\<lambda>u. u - 1)\<rparr>"

definition member :: "account_id \<Rightarrow> int \<Rightarrow> rat \<Rightarrow> bool \<Rightarrow> Candidate" where
  "member a pr w ok = \<lparr>cAccountID = a, cPlatform = ''openai'', cClass = ''openai/oauth'', cPriority = pr,
     cLoadFactor = 1, cWeight = w, cEligible = ok, cReason = [], cRecoverAt = 0, cExcluded = False,
     cStableSince = 0\<rparr>"

definition request0 :: "account_id \<Rightarrow> duration \<Rightarrow> Request" where
  "request0 bound idle = \<lparr>GroupID = 7, Key = ''sess'', Sessionless = False, Now = 1000 * second,
     rBinding = \<lparr>bAccountID = bound, bIdle = idle\<rparr>,
     Cache = NewCacheProfile CacheFamilyOpenAI ''gpt'' False 5000\<rparr>"

lemmas sample_defs = env0_def member_def request0_def NewCacheProfile_def CacheFamilyOpenAI_def
  CacheFamilyAnthropic_def MinCacheableTokens_def CacheTTL_def Warm_def

theorem plan_listing_independent_witness:
  "Plan env0 (request0 0 0) [member 2 1 3 True, member 1 1 2 True] =
     (Plan env0 (request0 0 0) [member 1 1 2 True, member 2 1 3 True])
       \<lparr>dEntries := dEntries (Plan env0 (request0 0 0) [member 2 1 3 True, member 1 1 2 True])\<rparr>"
  using plan_listing_independent
    [of "[member 1 1 2 True, member 2 1 3 True]" "[member 2 1 3 True, member 1 1 2 True]" env0 "request0 0 0"]
  by (simp add: add_mset_commute member_def)

section \<open>Warm sessions stay\<close>

lemma find_entry_first:
  "find (\<lambda>e. eAccountID e = a) (build_entries E req {} cs) = map_option (mk_entry E req) (first_candidate cs a)"
proof (cases "find (\<lambda>e. eAccountID e = a) (build_entries E req {} cs)")
  case None
  show ?thesis
  proof (cases "first_candidate cs a")
    case (Some c)
    then have "eAccountID (mk_entry E req c) = a" by (auto simp: first_candidate_def find_Some_iff)
    with Some have "mk_entry E req c \<in> set (build_entries E req {} cs)" by (simp add: build_entries_first)
    with None \<open>eAccountID (mk_entry E req c) = a\<close> show ?thesis by (auto simp: find_None_iff)
  qed (use None in simp)
next
  case (Some e)
  then have "e \<in> set (build_entries E req {} cs)" "eAccountID e = a" by (auto simp: find_Some_iff)
  with Some show ?thesis by (auto simp: build_entries_first)
qed

lemma Plan_bound_case:
  assumes "\<not> Sessionless req" "Key req \<noteq> []" "0 < bAccountID (rBinding req)"
    and "first_candidate cands (bAccountID (rBinding req)) = Some c"
  obtains d where "Plan E req cands =
      Plan_bound req d (build_entries E req {} cands)
        (orderEntries (build_entries E req {} cands) usable before) (mk_entry E req c)"
    and "dWait d = 0"
  using assms by (simp add: Plan_def Let_def find_entry_first)

lemma warm_affinity_hit:
  assumes "\<not> Sessionless req" "Key req \<noteq> []" "0 < bAccountID (rBinding req)"
    and "first_candidate cands (bAccountID (rBinding req)) = Some c" "cEligible c" "\<not> cExcluded c"
    and "Warm (Cache req) (max (bIdle (rBinding req)) 0)"
  shows "dReason (Plan E req cands) = ReasonAffinityHit \<and> dWrite (Plan E req cands) = WriteRefresh \<and>
    map sAccountID (take 1 (dSteps (Plan E req cands))) = [bAccountID (rBinding req)] \<and>
    dWait (Plan E req cands) = WaitBudget (Cache req) (max (bIdle (rBinding req)) 0)"
proof -
  obtain d where P: "Plan E req cands = Plan_bound req d (build_entries E req {} cands)
        (orderEntries (build_entries E req {} cands) usable before) (mk_entry E req c)"
    using Plan_bound_case [OF assms(1-4)] by blast
  have "usable (mk_entry E req c)" using assms(5,6) by (simp add: usable_def)
  with P assms(7) have "Plan E req cands =
      affinity_hit req d (build_entries E req {} cands) (mk_entry E req c) (max (bIdle (rBinding req)) 0)"
    using Plan_bound_usable by metis
  moreover have "cAccountID c = bAccountID (rBinding req)"
    using assms(4) by (auto simp: first_candidate_def find_Some_iff)
  ultimately show ?thesis by (simp add: affinity_hit_def Let_def)
qed

text \<open>
  C14: a session whose upstream cache is still warm stays on its account whenever that account can
  serve: the reason is an affinity hit, the account is tried first, the binding is refreshed, and
  the wait for a saturated account is the cache's wait budget.
\<close>

theorem plan_warm_session_stays:
  assumes "\<not> Sessionless req" "Key req \<noteq> []" "0 < bAccountID (rBinding req)"
    and "first_candidate cands (bAccountID (rBinding req)) = Some c" "cEligible c" "\<not> cExcluded c"
    and "Warm (Cache req) (max (bIdle (rBinding req)) 0)"
  shows "dReason (Plan E req cands) = ReasonAffinityHit \<and> dWrite (Plan E req cands) = WriteRefresh \<and>
    map sAccountID (take 1 (dSteps (Plan E req cands))) = [bAccountID (rBinding req)] \<and>
    dWait (Plan E req cands) = WaitBudget (Cache req) (max (bIdle (rBinding req)) 0)"
  using assms by (rule warm_affinity_hit)

theorem plan_warm_session_stays_witness:
  "dReason (Plan env0 (request0 1 (5 * minute)) [member 1 2 1 True, member 2 1 1 True]) = ReasonAffinityHit"
  using plan_warm_session_stays [of "request0 1 (5 * minute)" "[member 1 2 1 True, member 2 1 1 True]"
      "member 1 2 1 True" env0]
  by (simp add: sample_defs first_candidate_def)

lemma active_reasons [simp]:
  "ActiveMigration ReasonReturnCold" "ActiveMigration ReasonRealignCold"
  "\<not> ActiveMigration ReasonAffinityHit" "\<not> ActiveMigration ReasonSessionless"
  "\<not> ActiveMigration ReasonNewSession" "\<not> ActiveMigration ReasonTierOverflowUnavailable"
  "\<not> ActiveMigration ReasonRebindUnavailable" "\<not> ActiveMigration ReasonResilFailureStreak"
  "\<not> ActiveMigration ReasonFailoverNext" "\<not> ActiveMigration ReasonSoftSpill"
  by (simp_all add: ActiveMigration_def reason_defs)

text \<open>
  share scheduling moves a session by its own choice only when the session's cache is cold and
  its account could still serve it; then the session goes to another account, and it returns to a
  higher tier only when that account counts as stable (120 seconds without a known failure).
\<close>

theorem plan_active_migration_cold:
  assumes "ActiveMigration (dReason (Plan E req cands))"
  shows "\<not> Warm (Cache req) (max (bIdle (rBinding req)) 0) \<and>
    (\<exists>c t. first_candidate cands (bAccountID (rBinding req)) = Some c \<and> cEligible c \<and> \<not> cExcluded c \<and>
       first_candidate cands (dTarget (Plan E req cands)) = Some t \<and> cEligible t \<and> \<not> cExcluded t \<and>
       cAccountID t \<noteq> cAccountID c \<and>
       (dReason (Plan E req cands) = ReasonReturnCold \<longrightarrow>
          cPriority t < cPriority c \<and>
          (cStableSince t = 0 \<or> 120 * second \<le> time_Sub (Now req) (cStableSince t))))"
proof -
  let ?es = "build_entries E req {} cands"
  let ?pl = "orderEntries ?es usable before"
  have ses: "\<not> Sessionless req" "Key req \<noteq> []" "0 < bAccountID (rBinding req)"
    using assms unbound_reason_cases
    by (auto simp: Plan_def Let_def split: if_splits) (metis active_reasons(5,6))
  with assms obtain c where c: "first_candidate cands (bAccountID (rBinding req)) = Some c"
    by (auto simp: Plan_def Let_def find_entry_first split: option.splits)
  then have idc: "cAccountID c = bAccountID (rBinding req)"
    by (auto simp: first_candidate_def find_Some_iff)
  have u: "cEligible c" "\<not> cExcluded c"
    using assms ses c by (auto simp: Plan_def Plan_bound_def Let_def find_entry_first split: if_splits)
  have warm: "\<not> Warm (Cache req) (max (bIdle (rBinding req)) 0)"
    using warm_affinity_hit [OF ses c u, of E] assms by auto
  obtain p ps where pl: "?pl = p # ps"
    using assms ses c u
    by (cases ?pl) (auto simp: Plan_def Plan_bound_def affinity_hit_def Let_def find_entry_first)
  have "p \<in> set ?pl" using pl by simp
  then have p: "p \<in> set ?es" "usable p" by auto
  then obtain t where t: "first_candidate cands (eAccountID p) = Some t" "p = mk_entry E req t"
    by (auto simp: build_entries_first)
  have ut: "cEligible t" "\<not> cExcluded t" using p(2) t(2) by (auto simp: usable_def)
  have st: "eStableSince p = cStableSince t" using t(2) by (simp add: mk_entry_def Let_def)
  have ne: "cAccountID t \<noteq> cAccountID c" and
    ret: "dReason (Plan E req cands) = ReasonReturnCold \<Longrightarrow> cPriority t < cPriority c \<and>
          (cStableSince t = 0 \<or> 120 * second \<le> time_Sub (Now req) (cStableSince t))"
    and tg: "dTarget (Plan E req cands) = eAccountID p"
    using assms ses c u warm pl t(2) st
    by (auto simp: Plan_def Plan_bound_def affinity_hit_def Let_def find_entry_first StableFor_def
        split: if_splits)
  show ?thesis using warm c u t ut ne ret tg by (auto simp del: split_paired_Ex)
qed

theorem plan_active_migration_cold_witness:
  "\<not> Warm (Cache (request0 1 hour)) (max (bIdle (rBinding (request0 1 hour))) 0)"
proof -
  have "ActiveMigration (dReason (Plan env0 (request0 1 hour) [member 1 2 1 True, member 2 1 1 True]))"
    by (simp add: Plan_def Plan_bound_def Let_def sample_defs mk_entry_def orderEntries_def usable_def
        before_def finish_def)
  then show ?thesis using plan_active_migration_cold by blast
qed

end
