(* ===== verification/Share_Order.thy ===== *)
theory Share_Order
  imports Share_Props
begin

text \<open>
  More promises of share scheduling: which binding write an outcome applies, the ranks that the
  explanation shows, the minimal disruption of the weighted rendezvous order, the soft-spill
  window, the wait budget, and the injectivity of the hash input.
\<close>

section \<open>Binding writes\<close>

lemma Plan_bound_writes:
  "(dWrite (Plan_bound req d es pl b), dSpill (Plan_bound req d es pl b)) =
     (if dReason (Plan_bound req d es pl b) = ReasonAffinityHit then (WriteRefresh, WriteReplace)
      else if dReason (Plan_bound req d es pl b) = ReasonSoftSpill then (WriteNone, WriteNone)
      else (WriteReplace, WriteReplace))"
proof (cases "usable b")
  case True
  from Plan_bound_usable [OF this, of req d es pl] show ?thesis
    by (auto simp: affinity_hit_def Let_def reason_defs)
next
  case False
  then show ?thesis by (auto simp: Plan_bound_def usable_def Let_def reason_defs)
qed

text \<open>
  the binding write that an outcome applies. A sessionless request never binds; an unbound
  session only creates a binding if none exists, whichever step serves; an affinity hit refreshes
  the binding, and its spill replaces it; a soft spill leaves the binding alone, so the session
  returns to its account; every other decision moves the binding to the serving account.
\<close>

theorem plan_outcome_write:
  "snd (Outcome (Plan E req cands) index) =
     (if Sessionless req \<or> Key req = [] then WriteNone
      else if bAccountID (rBinding req) \<le> 0 then WriteIfAbsent
      else if dReason (Plan E req cands) = ReasonAffinityHit then
        (if index \<le> 0 \<or> int (length (dSteps (Plan E req cands))) \<le> index then WriteRefresh else WriteReplace)
      else if dReason (Plan E req cands) = ReasonSoftSpill then WriteNone
      else WriteReplace)"
proof (cases "Sessionless req \<or> Key req = []")
  case True
  show ?thesis using True unfolding Plan_sessionless [OF True] by (simp add: Outcome_def)
next
  case S: False
  show ?thesis
  proof (cases "bAccountID (rBinding req) \<le> 0")
    case True
    show ?thesis using S True unfolding Plan_unbound [OF S True] by (auto simp: Outcome_def)
  next
    case B: False
    show ?thesis
    proof (cases "find (\<lambda>e. eAccountID e = bAccountID (rBinding req)) (plan_entries E req cands)")
      case None
      show ?thesis using S B unfolding Plan_missing [OF S B None]
        by (auto simp: Outcome_def reason_defs)
    next
      case (Some b)
      show ?thesis using S B Plan_bound_writes [of req "plan_start E req cands" "plan_entries E req cands"
          "plan_placement E req cands" b]
        unfolding Plan_found [OF S B Some] by (auto simp: Outcome_def split: if_splits)
    qed
  qed
qed

section \<open>Ranks\<close>

lemma set_ranks_nth:
  "e \<in> set (set_ranks k ps es) \<Longrightarrow> distinct (map eAccountID ps) \<Longrightarrow>
     (\<exists>i < length ps. eAccountID (ps ! i) = eAccountID e \<and> eRank e = k + int i + 1) \<or>
     (eAccountID e \<notin> eAccountID ` set ps \<and> e \<in> set es)"
proof (induction k ps es rule: set_ranks.induct)
  case (2 k p ps es)
  let ?es = "map (\<lambda>e. if eAccountID e = eAccountID p then e\<lparr>eRank := k + 1\<rparr> else e) es"
  from "2.prems" have e: "e \<in> set (set_ranks (k + 1) ps ?es)" and d: "distinct (map eAccountID ps)" by auto
  from "2.IH" [OF e d] show ?case
  proof (elim disjE exE conjE)
    fix i assume "i < length ps" "eAccountID (ps ! i) = eAccountID e" "eRank e = k + 1 + int i + 1"
    then show ?thesis by (intro disjI1 exI [of _ "Suc i"]) simp
  next
    assume "eAccountID e \<notin> eAccountID ` set ps" "e \<in> set ?es"
    then show ?thesis by (cases "eAccountID e = eAccountID p") (auto split: if_splits)
  qed
qed auto

text \<open>
  the explanation agrees with the plan: an entry's rank is its position in the steps, counted
  from 1, and an entry that is not tried has rank 0.
\<close>

theorem plan_ranks:
  "\<forall>e \<in> set (dEntries (Plan E req cands)).
     (\<exists>i < length (dSteps (Plan E req cands)).
        sAccountID (dSteps (Plan E req cands) ! i) = eAccountID e \<and> eRank e = int i + 1) \<or>
     (eAccountID e \<notin> sAccountID ` set (dSteps (Plan E req cands)) \<and> eRank e = 0)"
proof
  fix e assume e: "e \<in> set (dEntries (Plan E req cands))"
  obtain order where o: "dSteps (Plan E req cands) = map mk_step order"
      "dEntries (Plan E req cands) = set_ranks 0 order (plan_entries E req cands)"
    using Plan_shape [of E req cands] unfolding order_shape_def by blast
  have "distinct (map sAccountID (dSteps (Plan E req cands)))"
    using shape_steps [OF Plan_shape build_entries_distinct] by blast
  then have d: "distinct (map eAccountID order)" by (simp add: o(1) comp_def)
  have r0: "eRank x = 0" if "x \<in> set (plan_entries E req cands)" for x
    using build_entries_src [OF that] by auto
  from set_ranks_nth [OF e [unfolded o(2)] d] r0 show
    "(\<exists>i < length (dSteps (Plan E req cands)).
        sAccountID (dSteps (Plan E req cands) ! i) = eAccountID e \<and> eRank e = int i + 1) \<or>
     (eAccountID e \<notin> sAccountID ` set (dSteps (Plan E req cands)) \<and> eRank e = 0)"
    by (auto simp: o(1) image_image)
qed

theorem plan_ranks_witness:
  "\<exists>i < length (dSteps (Plan env0 (request0 0 0) [member 1 1 2 True])).
     sAccountID (dSteps (Plan env0 (request0 0 0) [member 1 1 2 True]) ! i) = 1"
proof -
  let ?P = "Plan env0 (request0 0 0) [member 1 1 2 True]"
  obtain order where "dEntries ?P = set_ranks 0 order (plan_entries env0 (request0 0 0) [member 1 1 2 True])"
    using Plan_shape [of env0 "request0 0 0" "[member 1 1 2 True]"] unfolding order_shape_def by blast
  then have "map eAccountID (dEntries ?P) = [1]" by (simp add: member_def)
  then obtain e where e: "e \<in> set (dEntries ?P)" "eAccountID e = 1" by auto
  have "1 \<in> sAccountID ` set (dSteps ?P)"
    using shape_steps [OF Plan_shape build_entries_distinct, of env0 "request0 0 0" "[member 1 1 2 True]"]
    by (simp add: usable_ids first_candidate_def member_def usable_def image_iff)
  with e plan_ranks [of env0 "request0 0 0" "[member 1 1 2 True]"] show ?thesis by fastforce
qed

section \<open>Minimal disruption\<close>

lemma Plan_target:
  "dTarget (Plan E req cands) = (case plan_placement E req cands of [] \<Rightarrow> 0 | p # ps \<Rightarrow> eAccountID p)"
proof -
  have b: "dTarget (Plan_bound req d es pl x) = dTarget d" for d es pl x
    by (cases pl) (simp_all add: Plan_bound_def affinity_hit_def Let_def)
  show ?thesis
  proof (cases "Sessionless req \<or> Key req = []")
    case True
    show ?thesis unfolding Plan_sessionless [OF True] by simp
  next
    case S: False
    show ?thesis
    proof (cases "bAccountID (rBinding req) \<le> 0")
      case True
      show ?thesis unfolding Plan_unbound [OF S True] by simp
    next
      case B: False
      show ?thesis
      proof (cases "find (\<lambda>e. eAccountID e = bAccountID (rBinding req)) (plan_entries E req cands)")
        case None
        show ?thesis unfolding Plan_missing [OF S B None] by simp
      next
        case (Some x)
        show ?thesis unfolding Plan_found [OF S B Some] b by simp
      qed
    qed
  qed
qed

lemma placement_head:
  "orderEntries es usable before = p # ps \<Longrightarrow>
     p \<in> set es \<and> usable p \<and> (\<forall>x \<in> set es. usable x \<longrightarrow> \<not> before x p)"
proof -
  assume pl: "orderEntries es usable before = p # ps"
  have "sorted_wrt (\<lambda>a b. \<not> before b a) (orderEntries es usable before)"
    unfolding orderEntries_def by (rule place.sorted_SliceStable)
  moreover have "set (p # ps) = {e \<in> set es. usable e}"
    using set_orderEntries [of es usable before] unfolding pl .
  ultimately show ?thesis using place.lt_irrefl [of p] unfolding pl by auto
qed

lemma target_eqI:
  assumes "p \<in> set es" "usable p" "\<And>x. x \<in> set es \<Longrightarrow> usable x \<Longrightarrow> \<not> before x p"
    and "inj_on eAccountID (set es)"
  shows "\<exists>ps. orderEntries es usable before = p # ps"
proof -
  have "p \<in> set (orderEntries es usable before)" using assms by simp
  then obtain q qs where q: "orderEntries es usable before = q # qs"
    by (cases "orderEntries es usable before") auto
  from placement_head [OF q] assms have "p = q"
    by (intro place.minimal_unique [OF assms(4)]) auto
  with q show ?thesis by simp
qed

text \<open>
  when a member leaves the group, only the sessions that it would have taken are placed
  anew: every other session keeps its target.
\<close>

theorem plan_removal_keeps_target:
  assumes "distinct (map cAccountID cands)" "dTarget (Plan E req cands) \<noteq> a"
  shows "dTarget (Plan E req (filter (\<lambda>c. cAccountID c \<noteq> a) cands)) = dTarget (Plan E req cands)"
proof -
  let ?f = "filter (\<lambda>c. cAccountID c \<noteq> a) cands"
  have d: "distinct (map cAccountID ?f)" using assms(1) by (rule distinct_map_filter)
  have es: "plan_entries E req cands = map (mk_entry E req) cands"
    and ef: "plan_entries E req ?f = map (mk_entry E req) ?f"
    using assms(1) d by (simp_all add: build_entries_nodup)
  show ?thesis
  proof (cases "plan_placement E req cands")
    case Nil
    then have "set (plan_placement E req cands) = {}" by (simp only: list.set)
    then have "set (plan_placement E req ?f) = {}"
      unfolding set_orderEntries es ef by auto
    then have "plan_placement E req ?f = []" by (simp only: set_empty)
    with Nil show ?thesis by (simp add: Plan_target)
  next
    case (Cons p ps)
    then have pa: "eAccountID p \<noteq> a" using assms(2) by (simp add: Plan_target)
    from placement_head [OF Cons] have p: "p \<in> set (plan_entries E req cands)" "usable p"
      "\<And>x. x \<in> set (plan_entries E req cands) \<Longrightarrow> usable x \<Longrightarrow> \<not> before x p" by auto
    have pf: "p \<in> set (plan_entries E req ?f)" using p(1) pa unfolding es ef by auto
    have "\<not> before x p" if "x \<in> set (plan_entries E req ?f)" "usable x" for x
      using that p(3) unfolding es ef by auto
    then have "\<exists>qs. plan_placement E req ?f = p # qs"
      using pf p(2) build_entries_inj by (intro target_eqI)
    with Cons show ?thesis by (auto simp: Plan_target)
  qed
qed

definition reweight :: "account_id \<Rightarrow> rat \<Rightarrow> Candidate \<Rightarrow> Candidate" where
  "reweight a w c = (if cAccountID c = a then c\<lparr>cWeight := w\<rparr> else c)"

lemma reweight_simps [simp]:
  "cAccountID (reweight a w c) = cAccountID c" "cEligible (reweight a w c) = cEligible c"
  "cExcluded (reweight a w c) = cExcluded c" "cPriority (reweight a w c) = cPriority c"
  "cAccountID c \<noteq> a \<Longrightarrow> reweight a w c = c"
  by (simp_all add: reweight_def)

lemma usable_mk_entry [simp]: "usable (mk_entry E req c) = (cEligible c \<and> \<not> cExcluded c)"
  by (simp add: usable_def)

lemma reweight_before:
  assumes "\<And>u. 0 < u \<Longrightarrow> u \<le> 1 \<Longrightarrow> math_log E u \<le> 0"
    and "0 < cWeight c" "cWeight c \<le> w" "cAccountID c = a"
    and "before (mk_entry E req c) p"
  shows "before (mk_entry E req (reweight a w c)) p"
proof -
  have "0 \<le> hrwDraw E (GroupID req) (Key req) a"
    using assms(1) hrwUniform_range by (simp add: hrwDraw_def)
  then have "eScore (mk_entry E req (reweight a w c)) \<le> eScore (mk_entry E req c)"
    using assms(2-4) by (simp add: mk_entry_def Let_def reweight_def hrwWeighted_antimono)
  with assms(5) show ?thesis by (auto simp: before_def less_score_def split: if_splits)
qed

text \<open>
  raising a member's share weight only pulls sessions to that member: a session's target
  either stays what it was or becomes the member whose weight was raised (the logarithm of a
  number in (0,1] is not positive).
\<close>

theorem plan_weight_raise_pulls:
  assumes "\<And>u. 0 < u \<Longrightarrow> u \<le> 1 \<Longrightarrow> math_log E u \<le> 0"
    and "distinct (map cAccountID cands)"
    and "\<And>c. c \<in> set cands \<Longrightarrow> cAccountID c = a \<Longrightarrow> 0 < cWeight c \<and> cWeight c \<le> w"
  shows "dTarget (Plan E req (map (reweight a w) cands)) \<in> {dTarget (Plan E req cands), a}"
proof -
  let ?m = "map (reweight a w) cands"
  have d: "distinct (map cAccountID ?m)" using assms(2) by (simp add: comp_def)
  have es: "plan_entries E req cands = map (mk_entry E req) cands"
    and em: "plan_entries E req ?m = map (mk_entry E req) ?m"
    using assms(2) d by (simp_all add: build_entries_nodup)
  show ?thesis
  proof (cases "plan_placement E req ?m")
    case Nil
    then have "set (plan_placement E req ?m) = {}" by (simp only: list.set)
    then have "set (plan_placement E req cands) = {}"
      unfolding set_orderEntries es em by auto
    then have "plan_placement E req cands = []" by (simp only: set_empty)
    with Nil show ?thesis by (simp add: Plan_target)
  next
    case (Cons p ps)
    show ?thesis
    proof (cases "eAccountID p = a")
      case True
      with Cons show ?thesis by (simp add: Plan_target)
    next
      case pa: False
      from placement_head [OF Cons] have p: "p \<in> set (plan_entries E req ?m)" "usable p"
        "\<And>x. x \<in> set (plan_entries E req ?m) \<Longrightarrow> usable x \<Longrightarrow> \<not> before x p" by auto
      then have pin: "p \<in> set (plan_entries E req cands)" using pa unfolding es em by auto
      have min: "\<not> before x p" if x: "x \<in> set (plan_entries E req cands)" "usable x" for x
      proof
        assume b: "before x p"
        obtain c where c: "c \<in> set cands" "x = mk_entry E req c" using x(1) unfolding es by auto
        have "before (mk_entry E req (reweight a w c)) p"
          using b c assms(1,3) reweight_before [of E c w a req p] by (cases "cAccountID c = a") auto
        moreover have "mk_entry E req (reweight a w c) \<in> set (plan_entries E req ?m)"
          unfolding em using c(1) by auto
        ultimately show False using p(3) x(2) c(2) by auto
      qed
      have "\<exists>qs. plan_placement E req cands = p # qs"
        using pin p(2) min build_entries_inj by (rule target_eqI)
      with Cons show ?thesis by (auto simp: Plan_target)
    qed
  qed
qed

text \<open>Three members on one tier; the session's target is member 2.\<close>

theorem plan_removal_keeps_target_witness:
  "dTarget (Plan env0 (request0 0 0) (filter (\<lambda>c. cAccountID c \<noteq> 3) [member 1 2 2 True, member 2 1 3 True, member 3 2 1 True]))
     = dTarget (Plan env0 (request0 0 0) [member 1 2 2 True, member 2 1 3 True, member 3 2 1 True])"
proof -
  have "dTarget (Plan env0 (request0 0 0) [member 1 2 2 True, member 2 1 3 True, member 3 2 1 True]) \<noteq> 3"
    by (simp add: Plan_target orderEntries_def before_def mk_entry_def member_def usable_def Let_def)
  moreover have "distinct (map cAccountID [member 1 2 2 True, member 2 1 3 True, member 3 2 1 True])"
    by (simp add: member_def)
  ultimately show ?thesis by (rule plan_removal_keeps_target [rotated])
qed

theorem plan_weight_raise_pulls_witness:
  "dTarget (Plan env0 (request0 0 0) (map (reweight 1 5) [member 1 1 2 True, member 2 1 3 True]))
     \<in> {dTarget (Plan env0 (request0 0 0) [member 1 1 2 True, member 2 1 3 True]), 1}"
  by (rule plan_weight_raise_pulls) (auto simp: env0_def member_def)

section \<open>Soft spill, wait budget and hash input\<close>

text \<open>
  a soft spill is taken only while it pays: the penalty of the bound account ends before the
  cache of the session expires. (Durations below 2 ^ 53 nanoseconds, 104 days, are exact floats.)
\<close>

theorem soft_spill_before_expiry:
  assumes "softSpill req bound idle" "0 \<le> idle" "idle < 2 ^ 52" "TTL (Cache req) < 2 ^ 52"
    and "0 \<le> TTL (Cache req)" "eRecoverAt bound - Now req < 2 ^ 52"
  shows "Cacheable (Cache req) \<and> max (eRecoverAt bound - Now req) 0 + idle < TTL (Cache req)"
proof -
  let ?r = "max (time_Sub (eRecoverAt bound) (Now req)) 0"
  have r: "?r = max (eRecoverAt bound - Now req) 0"
    using assms(6) by (auto simp: time_Sub_def sat64_def)
  then have rb: "0 \<le> ?r + idle" "?r + idle < 2 ^ 53" using assms(2,3,6) by auto
  have c: "Cacheable (Cache req)" using assms(1) by (auto simp: softSpill_def split: if_splits)
  have T: "f64_of_int (TTL (Cache req)) = of_int (TTL (Cache req))"
    unfolding f64_of_int_def using assms(4,5) by (intro f64_rat_small_int) simp
  have "f64_of_int (wrap64 (?r + idle)) < f64_mul f64_08 (f64_of_int (TTL (Cache req)))"
    using assms(1) by (auto simp: softSpill_def Let_def split: if_splits)
  moreover have "f64_of_int (wrap64 (?r + idle)) = of_int (?r + idle)"
  proof -
    have "wrap64 (?r + idle) = ?r + idle" using rb by (intro wrap64_id) auto
    moreover have "f64_rat (of_int (?r + idle)) = of_int (?r + idle)"
      using rb by (intro f64_rat_small_int) simp
    ultimately show ?thesis by (simp only: f64_of_int_def)
  qed
  moreover have "f64_mul f64_08 (f64_of_int (TTL (Cache req))) \<le> of_int (TTL (Cache req))"
  proof -
    have "f64_rat (f64_08 * of_int (TTL (Cache req))) \<le> f64_rat (of_int (TTL (Cache req)))"
      using assms(5) by (intro f64_rat_mono) (simp add: f64_08_def mult_le_cancel_right1)
    with T show ?thesis by (simp add: f64_mul_def f64_of_int_def)
  qed
  ultimately have "(of_int (?r + idle) :: rat) < of_int (TTL (Cache req))" by linarith
  then have "?r + idle < TTL (Cache req)" by (simp only: of_int_less_iff)
  with r c show ?thesis by simp
qed

theorem soft_spill_before_expiry_witness:
  "max (1010 * second - Now (request0 1 0)) 0 + 60 * second < TTL (Cache (request0 1 0))"
proof -
  let ?b = "mk_entry env0 (request0 1 0) ((member 1 1 1 False)\<lparr>cRecoverAt := 1010 * second\<rparr>)"
  have rec: "eRecoverAt ?b = 1010 * second" by (simp add: mk_entry_def Let_def)
  have req: "Now (request0 1 0) = 1000 * second" "TTL (Cache (request0 1 0)) = 30 * minute"
    "Cacheable (Cache (request0 1 0))"
    by (simp_all add: sample_defs)
  have f: "f64_of_int 70000000000 = 70000000000" "f64_of_int 1800000000000 = 1800000000000"
    unfolding f64_of_int_def using f64_rat_small_int [of 70000000000] f64_rat_small_int [of 1800000000000]
    by simp_all
  have "f64_rat (of_int 1000000000000) \<le> f64_rat (f64_08 * 1800000000000)"
    by (rule f64_rat_mono) (simp add: f64_08_def)
  then have m: "70000000000 < f64_mul f64_08 1800000000000"
    using f64_rat_small_int [of 1000000000000] by (simp add: f64_mul_def)
  have s: "softSpill (request0 1 0) ?b (60 * second)"
    unfolding softSpill_def Let_def rec req using f m req(3) by (simp add: time_Sub_def)
  show ?thesis
    using soft_spill_before_expiry [OF s] unfolding rec req by simp
qed

text \<open>
  the wait for a saturated bound account lies between 0 and 15 seconds, is 0 once the cache
  is cold, and is 100 ms per thousand estimated tokens below the cap, whatever non-negative
  estimate of up to 92 billion tokens the adapter passes.
\<close>

theorem wait_budget_bounds:
  assumes "0 \<le> EstimatedTokens p" "EstimatedTokens p \<le> 92233720368"
  shows "0 \<le> WaitBudget p idle \<and> WaitBudget p idle \<le> 15 * second \<and>
    (\<not> Warm p idle \<longrightarrow> WaitBudget p idle = 0) \<and>
    (Warm p idle \<longrightarrow> WaitBudget p idle = min (EstimatedTokens p * 100000) (15 * second))"
  using assms WaitBudget_exact [of p idle]
  by (cases "Warm p idle") (auto simp: WaitBudget_def MaxWait_def)

theorem wait_budget_bounds_witness:
  "WaitBudget (Cache (request0 1 0)) minute = 500 * millisecond"
  using wait_budget_bounds [of "Cache (request0 1 0)" minute] by (simp add: sample_defs)

text \<open>
  different (group, session key, account) triples hash different byte strings, for group
  and account ids that are \<open>int64\<close> values: no two accounts of a group share a draw by
  construction, and a key cannot imitate another group's input.
\<close>

theorem hrw_input_injective:
  assumes "hrwInput g k a = hrwInput g' k' a'"
    and "wrap64 g = g" "wrap64 g' = g'" "wrap64 a = a" "wrap64 a' = a'"
  shows "g = g' \<and> k = k' \<and> a = a'"
proof -
  from assms(1) have 1: "PutUint64 g = PutUint64 g'" and 2: "k @ PutUint64 a = k' @ PutUint64 a'"
    by (simp_all add: hrwInput_def)
  from 2 have "k = k'" "PutUint64 a = PutUint64 a'"
    by (metis append_eq_append_conv length_PutUint64)+
  with 1 assms(2-5) show ?thesis using PutUint64_inj int64_mod_inj by metis
qed

theorem hrw_input_injective_witness: "hrwInput 7 ''s'' 1 = hrwInput 7 ''s'' 1 \<and> (1::int) = 1"
  using hrw_input_injective [of 7 "''s''" 1 7 "''s''" 1] by simp

end
