(* ===== verification/Resil_Settings.thy ===== *)
theory Resil_Settings
  imports Go_Base
begin

text \<open>
  The gateway resilience settings (\<open>resilience/settings.go\<close>): the document, its defaults,
  validation and normalisation, the capability switches and the published snapshot.

  A nil slice or map is the empty list; \<open>map[string]int\<close> is the list of its entries in the order
  the runtime enumerates them. A validation problem is the format string of its message with the
  arguments. \<open>json.Unmarshal\<close> of the stored text over a document is the parameter
  \<open>unmarshal\<close> of \<open>Parse\<close>.
\<close>

section \<open>The document\<close>

record FailureSettings =
  TransientCooldownSeconds :: int
  RetryAfterCapSeconds :: int
  BalanceKeywordsExtra :: "string list"
  DecisionV2 :: bool

record SessionSettings =
  Session_Enabled :: bool
  PostOutputRebind :: bool
  StreakThreshold :: int
  StreakWindowSeconds :: int
  AvoidSeconds :: int

record SwitchSettings =
  Switch_Enabled :: bool

record CollaborationPlaintextSettings =
  Collab_Enabled :: bool
  Models :: "string list"

record BalanceSettings =
  Balance_Enabled :: bool
  PauseSeconds :: int

record FirstOutputTimeouts =
  FO_Default :: int
  FO_High :: int
  FO_XHigh :: int
  FO_Max :: int

record BudgetSettings =
  Budget_Enabled :: bool
  MaxAttempts :: int
  PreOutputBudgetSeconds :: int
  FirstOutputTimeoutSeconds :: FirstOutputTimeouts
  AnthropicFirstEventTimeoutSeconds :: int
  GeminiFirstEventTimeoutSeconds :: int
  ModelOverrides :: "(string \<times> int) list"
  SameAccountRetryMax :: int
  GeminiSameAccountRetries :: int
  UpstreamRetryAfterCapSeconds :: int

record KeepaliveSettings =
  Keepalive_Enabled :: bool
  DelaySeconds :: int
  IntervalSeconds :: int
  Edges :: "string list"
  SkipOfficialOAuth :: bool

record StallSettings =
  Stall_Enabled :: bool
  TextStallSeconds :: int

record AbuseGuardSettings =
  Abuse_Enabled :: bool
  ThresholdPerHour :: int
  Mode :: string

record DisconnectSettings =
  Disconnect_Enabled :: bool
  CancelUndelivered :: bool
  PartialDrainMaxSeconds :: int
  AbuseGuard :: AbuseGuardSettings

record RangeSettings =
  Range_Min :: int
  Range_Max :: int

record FastFailSettings =
  FastFail_Enabled :: bool
  FastFail_WindowSeconds :: int
  FastFail_Threshold :: int

record TurnCapSettings =
  TurnCap_Enabled :: bool
  TurnCap_Failures :: int
  TurnCap_WindowSeconds :: int

record ErrorSettings =
  Errors_Enabled :: bool
  NoAccountRetryAfter :: RangeSettings
  ConfigRetryAfterSeconds :: int
  ReservationRetryAfterSeconds :: int
  NegativeCacheSeconds :: int
  FastFail :: FastFailSettings
  TurnCap :: TurnCapSettings
  FailedFrameRetryAfter :: bool
  CodexRetryAfterCapSeconds :: int

record FallbackSettings =
  Fallback_Enabled :: bool
  ReturnStableSeconds :: int
  BindingTTLSeconds :: int

record ReservationSettings =
  CacheAwareEstimate :: bool
  OutputP99Cap :: bool

record StreamSettings =
  PreludeStaging :: bool
  NativePreludeWhitelist :: bool
  StrictTerminal :: bool

record CapabilitySettings =
  StreamOnlyLearning :: bool
  LearnTTLSeconds :: int

record Settings =
  Enabled :: bool
  Failure :: FailureSettings
  Session :: SessionSettings
  AnthropicLatencyHold :: SwitchSettings
  SameSiteHold :: SwitchSettings
  CollaborationPlaintext :: CollaborationPlaintextSettings
  LastResort :: SwitchSettings
  Balance :: BalanceSettings
  sBudget :: BudgetSettings
  Keepalive :: KeepaliveSettings
  Stall :: StallSettings
  Disconnect :: DisconnectSettings
  Errors :: ErrorSettings
  FallbackGroup :: FallbackSettings
  Reservation :: ReservationSettings
  Stream :: StreamSettings
  Capability :: CapabilitySettings

definition AbuseModeBillUpstreamCost :: string where
  "AbuseModeBillUpstreamCost = ''bill_upstream_cost''"

definition Defaults :: Settings where
  "Defaults =
     \<lparr>Enabled = True,
      Failure = \<lparr>TransientCooldownSeconds = 30, RetryAfterCapSeconds = 120, BalanceKeywordsExtra = [],
        DecisionV2 = True\<rparr>,
      Session = \<lparr>Session_Enabled = True, PostOutputRebind = True, StreakThreshold = 2,
        StreakWindowSeconds = 600, AvoidSeconds = 600\<rparr>,
      AnthropicLatencyHold = \<lparr>Switch_Enabled = True\<rparr>,
      SameSiteHold = \<lparr>Switch_Enabled = True\<rparr>,
      CollaborationPlaintext = \<lparr>Collab_Enabled = False, Models = []\<rparr>,
      LastResort = \<lparr>Switch_Enabled = True\<rparr>,
      Balance = \<lparr>Balance_Enabled = True, PauseSeconds = 300\<rparr>,
      sBudget = \<lparr>Budget_Enabled = True, MaxAttempts = 4, PreOutputBudgetSeconds = 240,
        FirstOutputTimeoutSeconds = \<lparr>FO_Default = 20, FO_High = 25, FO_XHigh = 30, FO_Max = 30\<rparr>,
        AnthropicFirstEventTimeoutSeconds = 90, GeminiFirstEventTimeoutSeconds = 60,
        ModelOverrides = [], SameAccountRetryMax = 1, GeminiSameAccountRetries = 1,
        UpstreamRetryAfterCapSeconds = 60\<rparr>,
      Keepalive = \<lparr>Keepalive_Enabled = True, DelaySeconds = 15, IntervalSeconds = 10,
        Edges = [''cf'', ''esa''], SkipOfficialOAuth = True\<rparr>,
      Stall = \<lparr>Stall_Enabled = True, TextStallSeconds = 120\<rparr>,
      Disconnect = \<lparr>Disconnect_Enabled = True, CancelUndelivered = True, PartialDrainMaxSeconds = 180,
        AbuseGuard = \<lparr>Abuse_Enabled = True, ThresholdPerHour = 30, Mode = AbuseModeBillUpstreamCost\<rparr>\<rparr>,
      Errors = \<lparr>Errors_Enabled = True, NoAccountRetryAfter = \<lparr>Range_Min = 2, Range_Max = 30\<rparr>,
        ConfigRetryAfterSeconds = 60, ReservationRetryAfterSeconds = 5, NegativeCacheSeconds = 2,
        FastFail = \<lparr>FastFail_Enabled = True, FastFail_WindowSeconds = 30, FastFail_Threshold = 10\<rparr>,
        TurnCap = \<lparr>TurnCap_Enabled = True, TurnCap_Failures = 5, TurnCap_WindowSeconds = 120\<rparr>,
        FailedFrameRetryAfter = True, CodexRetryAfterCapSeconds = 10\<rparr>,
      FallbackGroup = \<lparr>Fallback_Enabled = True, ReturnStableSeconds = 120, BindingTTLSeconds = 600\<rparr>,
      Reservation = \<lparr>CacheAwareEstimate = True, OutputP99Cap = True\<rparr>,
      Stream = \<lparr>PreludeStaging = True, NativePreludeWhitelist = True, StrictTerminal = True\<rparr>,
      Capability = \<lparr>StreamOnlyLearning = True, LearnTTLSeconds = 21600\<rparr>\<rparr>"

section \<open>Validation\<close>

datatype fmt_arg = FInt int | FStr string

type_synonym problem = "string \<times> fmt_arg list"

definition check :: "bool \<Rightarrow> string \<Rightarrow> fmt_arg list \<Rightarrow> problem list" where
  "check ok format args = (if ok then [] else [(format, args)])"

definition in_range :: "int \<Rightarrow> int \<Rightarrow> int \<Rightarrow> bool" where
  "in_range v lo hi = (lo \<le> v \<and> v \<le> hi)"

text \<open>\<open>utf8.RuneCountInString\<close>: the length of the next rune of a non-empty string, 1 for an
  invalid byte.\<close>

definition cont_byte :: "nat \<Rightarrow> bool" where
  "cont_byte b = (0x80 \<le> b \<and> b \<le> 0xBF)"

definition rune_len :: "nat list \<Rightarrow> nat" where
  "rune_len bs = (case bs of
       b # c # d # e # _ \<Rightarrow>
         if 0xC2 \<le> b \<and> b \<le> 0xDF \<and> cont_byte c then 2
         else if 0xE0 \<le> b \<and> b \<le> 0xEF \<and> cont_byte c \<and> (b = 0xE0 \<longrightarrow> 0xA0 \<le> c) \<and> (b = 0xED \<longrightarrow> c \<le> 0x9F)
           \<and> cont_byte d then 3
         else if 0xF0 \<le> b \<and> b \<le> 0xF4 \<and> cont_byte c \<and> (b = 0xF0 \<longrightarrow> 0x90 \<le> c) \<and> (b = 0xF4 \<longrightarrow> c \<le> 0x8F)
           \<and> cont_byte d \<and> cont_byte e then 4
         else 1
     | _ \<Rightarrow> 1)"

text \<open>The byte list is padded with zeros, so that a truncated sequence is seen as invalid.\<close>

function rune_count :: "nat list \<Rightarrow> nat" where
  "rune_count [] = 0"
| "rune_count (b # bs) = Suc (rune_count (drop (rune_len (b # bs @ [0, 0, 0]) - 1) bs))"
  by pat_completeness auto
termination by (relation "measure length") auto

definition RuneCountInString :: "string \<Rightarrow> int" where
  "RuneCountInString s = int (rune_count (map of_char s))"

definition edge_char :: "char \<Rightarrow> bool" where
  "edge_char r = (let n = (of_char r :: nat) in
     \<not> ((n < 97 \<or> 122 < n) \<and> (n < 48 \<or> 57 < n) \<and> n \<noteq> 45))"

definition validEdgeName :: "string \<Rightarrow> bool" where
  "validEdgeName s = (if s = [] \<or> 16 < length s then False else list_all edge_char s)"

definition validate_failure :: "FailureSettings \<Rightarrow> problem list" where
  "validate_failure f =
     check (in_range (TransientCooldownSeconds f) 1 3600) ''failure.transient_cooldown_seconds must be 1-3600'' [] @
     check (in_range (RetryAfterCapSeconds f) 1 3600) ''failure.retry_after_cap_seconds must be 1-3600'' [] @
     check (length (BalanceKeywordsExtra f) \<le> 64) ''failure.balance_keywords_extra allows at most 64 entries'' [] @
     concat (map (\<lambda>kw. check (2 \<le> length (TrimSpace kw) \<and> length kw \<le> 128)
       ''failure.balance_keywords_extra entries must be 2-128 characters'' []) (BalanceKeywordsExtra f))"

definition validate_session :: "SessionSettings \<Rightarrow> problem list" where
  "validate_session s =
     check (in_range (StreakThreshold s) 1 20) ''session.streak_threshold must be 1-20'' [] @
     check (in_range (StreakWindowSeconds s) 1 86400) ''session.streak_window_seconds must be 1-86400'' [] @
     check (in_range (AvoidSeconds s) 1 86400) ''session.avoid_seconds must be 1-86400'' []"

text \<open>The timeouts that must fit the pre-output budget, with the names of their messages.\<close>

definition budget_timeouts :: "BudgetSettings \<Rightarrow> (string \<times> int) list" where
  "budget_timeouts b =
     [(''default'', FO_Default (FirstOutputTimeoutSeconds b)), (''high'', FO_High (FirstOutputTimeoutSeconds b)),
      (''xhigh'', FO_XHigh (FirstOutputTimeoutSeconds b)), (''max'', FO_Max (FirstOutputTimeoutSeconds b)),
      (''anthropic_first_event'', AnthropicFirstEventTimeoutSeconds b),
      (''gemini_first_event'', GeminiFirstEventTimeoutSeconds b)]"

definition validate_budget :: "BudgetSettings \<Rightarrow> problem list" where
  "validate_budget b =
     check (in_range (MaxAttempts b) 1 10) ''budget.max_attempts must be 1-10'' [] @
     check (in_range (PreOutputBudgetSeconds b) 60 290) ''budget.pre_output_budget_seconds must be 60-290'' [] @
     concat (map (\<lambda>(name, v). check (in_range v 5 (PreOutputBudgetSeconds b))
       ''budget timeout %s must be 5-%d (the pre-output budget)'' [FStr name, FInt (PreOutputBudgetSeconds b)])
       (budget_timeouts b)) @
     concat (map (\<lambda>(model, v).
         check (TrimSpace model \<noteq> []) ''budget.model_overrides keys must not be empty'' [] @
         check (in_range v 5 (PreOutputBudgetSeconds b)) ''budget.model_overrides[%s] must be 5-%d''
           [FStr model, FInt (PreOutputBudgetSeconds b)])
       (ModelOverrides b)) @
     check (in_range (SameAccountRetryMax b) 0 5) ''budget.same_account_retry_max must be 0-5'' [] @
     check (in_range (GeminiSameAccountRetries b) 0 5) ''budget.gemini_same_account_retries must be 0-5'' [] @
     check (in_range (UpstreamRetryAfterCapSeconds b) 1 600) ''budget.upstream_retry_after_cap_seconds must be 1-600'' []"

definition validate_keepalive :: "KeepaliveSettings \<Rightarrow> problem list" where
  "validate_keepalive k =
     check (in_range (DelaySeconds k) 5 60) ''keepalive.delay_seconds must be 5-60'' [] @
     check (in_range (IntervalSeconds k) 5 30) ''keepalive.interval_seconds must be 5-30'' [] @
     concat (map (\<lambda>e. check (validEdgeName e)
       ''keepalive.edges entries must be lowercase letters, digits or '-' (got %q)'' [FStr e]) (Edges k))"

definition validate_disconnect :: "DisconnectSettings \<Rightarrow> problem list" where
  "validate_disconnect d =
     check (in_range (PartialDrainMaxSeconds d) 1 3600) ''disconnect.partial_drain_max_seconds must be 1-3600'' [] @
     check (in_range (ThresholdPerHour (AbuseGuard d)) 1 100000)
       ''disconnect.abuse_guard.threshold_per_hour must be 1-100000'' [] @
     check (Mode (AbuseGuard d) = AbuseModeBillUpstreamCost) ''disconnect.abuse_guard.mode must be %q''
       [FStr AbuseModeBillUpstreamCost]"

definition validate_errors :: "ErrorSettings \<Rightarrow> problem list" where
  "validate_errors e =
     check (in_range (Range_Min (NoAccountRetryAfter e)) 1 300 \<and>
         in_range (Range_Max (NoAccountRetryAfter e)) (Range_Min (NoAccountRetryAfter e)) 300)
       ''errors.no_account_retry_after needs 1 <= min <= max <= 300'' [] @
     check (in_range (ConfigRetryAfterSeconds e) 1 3600) ''errors.config_retry_after_seconds must be 1-3600'' [] @
     check (in_range (ReservationRetryAfterSeconds e) 1 300) ''errors.reservation_retry_after_seconds must be 1-300'' [] @
     check (in_range (NegativeCacheSeconds e) 1 60) ''errors.negative_cache_seconds must be 1-60'' [] @
     check (in_range (FastFail_WindowSeconds (FastFail e)) 1 3600) ''errors.fast_fail.window_seconds must be 1-3600'' [] @
     check (in_range (FastFail_Threshold (FastFail e)) 2 10000) ''errors.fast_fail.threshold must be 2-10000'' [] @
     check (in_range (TurnCap_Failures (TurnCap e)) 2 30) ''errors.turn_cap.failures must be 2-30'' [] @
     check (in_range (TurnCap_WindowSeconds (TurnCap e)) 10 3600) ''errors.turn_cap.window_seconds must be 10-3600'' [] @
     check (in_range (CodexRetryAfterCapSeconds e) 0 30) ''errors.codex_retry_after_cap_seconds must be 0-30'' []"

definition validate_models :: "string list \<Rightarrow> problem list" where
  "validate_models models =
     check (length models \<le> 16) ''collaboration_plaintext.models allows at most 16 entries'' [] @
     concat (map (\<lambda>model. let length = RuneCountInString (TrimSpace model) in
       check (1 \<le> length \<and> length \<le> 128) ''collaboration_plaintext.models entries must be 1-128 characters'' [])
       models)"

text \<open>The problems of a document; the document is valid when there are none.\<close>

definition Validate :: "Settings \<Rightarrow> problem list" where
  "Validate s =
     validate_failure (Failure s) @ validate_session (Session s) @
     check (in_range (PauseSeconds (Balance s)) 30 3600) ''balance.pause_seconds must be 30-3600'' [] @
     validate_budget (sBudget s) @ validate_keepalive (Keepalive s) @
     check (in_range (TextStallSeconds (Stall s)) 30 280) ''stall.text_stall_seconds must be 30-280'' [] @
     validate_disconnect (Disconnect s) @ validate_errors (Errors s) @
     check (in_range (ReturnStableSeconds (FallbackGroup s)) 1 86400)
       ''fallback_group.return_stable_seconds must be 1-86400'' [] @
     check (in_range (BindingTTLSeconds (FallbackGroup s)) 1 86400)
       ''fallback_group.binding_ttl_seconds must be 1-86400'' [] @
     check (in_range (LearnTTLSeconds (Capability s)) 600 86400) ''capability.learn_ttl_seconds must be 600-86400'' [] @
     validate_models (Models (CollaborationPlaintext s))"

lemmas validate_defs = Validate_def validate_failure_def validate_session_def validate_budget_def
  validate_keepalive_def validate_disconnect_def validate_errors_def validate_models_def

lemma check_Nil_iff [simp]: "check ok f a = [] \<longleftrightarrow> ok"
  by (simp add: check_def)

section \<open>Normalisation\<close>

text \<open>Keeps the first of the model names that agree up to case, each without outer white space.\<close>

fun dedup_models :: "string set \<Rightarrow> string list \<Rightarrow> string list" where
  "dedup_models seen [] = []"
| "dedup_models seen (m # ms) =
     (let model = TrimSpace m; key = ToLower model
      in if key \<in> seen then dedup_models seen ms
         else model # dedup_models (insert key seen) ms)"

definition normalize :: "Settings \<Rightarrow> Settings" where
  "normalize s = s\<lparr>CollaborationPlaintext :=
     (CollaborationPlaintext s)\<lparr>Models := dedup_models {} (Models (CollaborationPlaintext s))\<rparr>\<rparr>"

definition Normalized :: "Settings \<Rightarrow> Settings" where
  "Normalized s = normalize s"

definition Clone :: "Settings \<Rightarrow> Settings" where
  "Clone s = normalize s"

datatype parse_error = DecodeError | Invalid "problem list"

definition Parse :: "(string \<Rightarrow> Settings \<Rightarrow> Settings option) \<Rightarrow> string \<Rightarrow> Settings \<times> parse_error option" where
  "Parse unmarshal raw =
     (if TrimSpace raw = [] then (Defaults, None)
      else (case unmarshal raw Defaults of
          None \<Rightarrow> (Defaults, Some DecodeError)
        | Some s \<Rightarrow>
            let s = normalize s; p = Validate s
            in if p \<noteq> [] then (Defaults, Some (Invalid p)) else (s, None)))"

section \<open>Switches\<close>

text \<open>The receivers may be nil.\<close>

definition master :: "Settings option \<Rightarrow> bool" where
  "master s = (case s of None \<Rightarrow> False | Some s \<Rightarrow> Enabled s)"

definition switch :: "(Settings \<Rightarrow> bool) \<Rightarrow> Settings option \<Rightarrow> bool" where
  "switch child s = (master s \<and> (case s of None \<Rightarrow> False | Some s \<Rightarrow> child s))"

definition SessionOn where "SessionOn = switch (\<lambda>s. Session_Enabled (Session s))"
definition PostOutputRebindOn where
  "PostOutputRebindOn s = (SessionOn s \<and> switch (\<lambda>s. PostOutputRebind (Session s)) s)"
definition SameSiteHoldOn where "SameSiteHoldOn = switch (\<lambda>s. Switch_Enabled (SameSiteHold s))"
definition CollaborationPlaintextOn where
  "CollaborationPlaintextOn = switch (\<lambda>s. Collab_Enabled (CollaborationPlaintext s) \<and>
     0 < length (Models (CollaborationPlaintext s)))"

definition CollaborationPlaintextModel :: "Settings option \<Rightarrow> string \<Rightarrow> bool" where
  "CollaborationPlaintextModel s model =
     (if \<not> CollaborationPlaintextOn s then False
      else let model = TrimSpace model
        in if model = [] then False
           else list_ex (\<lambda>allowed. EqualFold model (TrimSpace allowed))
             (Models (CollaborationPlaintext (the s))))"

definition AnthropicLatencyHoldOn where
  "AnthropicLatencyHoldOn = switch (\<lambda>s. Switch_Enabled (AnthropicLatencyHold s))"
definition LastResortOn where "LastResortOn = switch (\<lambda>s. Switch_Enabled (LastResort s))"
definition BalanceOn where "BalanceOn = switch (\<lambda>s. Balance_Enabled (Balance s))"
definition BudgetOn where "BudgetOn = switch (\<lambda>s. Budget_Enabled (sBudget s))"
definition KeepaliveOn where "KeepaliveOn = switch (\<lambda>s. Keepalive_Enabled (Keepalive s))"
definition StallOn where "StallOn = switch (\<lambda>s. Stall_Enabled (Stall s))"
definition DisconnectOn where "DisconnectOn = switch (\<lambda>s. Disconnect_Enabled (Disconnect s))"
definition ErrorsOn where "ErrorsOn = switch (\<lambda>s. Errors_Enabled (Errors s))"
definition PreludeStagingOn where "PreludeStagingOn = switch (\<lambda>s. PreludeStaging (Stream s))"
definition NativePreludeWhitelistOn where
  "NativePreludeWhitelistOn = switch (\<lambda>s. NativePreludeWhitelist (Stream s))"
definition StrictTerminalOn where "StrictTerminalOn = switch (\<lambda>s. StrictTerminal (Stream s))"
definition DecisionV2On where "DecisionV2On = switch (\<lambda>s. DecisionV2 (Failure s))"
definition FailedFrameRetryAfterOn where
  "FailedFrameRetryAfterOn = switch (\<lambda>s. Errors_Enabled (Errors s) \<and> FailedFrameRetryAfter (Errors s))"
definition CodexRetryAfterCapOn where
  "CodexRetryAfterCapOn = switch (\<lambda>s. Errors_Enabled (Errors s) \<and> 0 < CodexRetryAfterCapSeconds (Errors s))"
definition StreamOnlyLearningOn where
  "StreamOnlyLearningOn = switch (\<lambda>s. StreamOnlyLearning (Capability s))"
definition StreamOnlyFailoverOn where
  "StreamOnlyFailoverOn s = (StreamOnlyLearningOn s \<and> DecisionV2On s)"
definition FallbackGroupOn where "FallbackGroupOn = switch (\<lambda>s. Fallback_Enabled (FallbackGroup s))"
definition CacheAwareEstimateOn where
  "CacheAwareEstimateOn = switch (\<lambda>s. CacheAwareEstimate (Reservation s))"
definition OutputP99CapOn where "OutputP99CapOn = switch (\<lambda>s. OutputP99Cap (Reservation s))"
definition FailureOn where "FailureOn s = master s"

lemmas switch_defs = SessionOn_def PostOutputRebindOn_def SameSiteHoldOn_def CollaborationPlaintextOn_def
  AnthropicLatencyHoldOn_def LastResortOn_def BalanceOn_def BudgetOn_def KeepaliveOn_def StallOn_def
  DisconnectOn_def ErrorsOn_def PreludeStagingOn_def NativePreludeWhitelistOn_def StrictTerminalOn_def
  DecisionV2On_def FailedFrameRetryAfterOn_def CodexRetryAfterCapOn_def StreamOnlyLearningOn_def
  StreamOnlyFailoverOn_def FallbackGroupOn_def CacheAwareEstimateOn_def OutputP99CapOn_def FailureOn_def

lemma switch_simps [simp]:
  "switch c None = False" "switch c (Some s) = (Enabled s \<and> c s)"
  by (simp_all add: switch_def master_def)

section \<open>The published snapshot\<close>

record published =
  current :: Settings
  anthropicLatencyHoldGen :: "64 word"
  sameSiteHoldGen :: "64 word"

definition published_init :: published where
  "published_init = \<lparr>current = Defaults, anthropicLatencyHoldGen = 0, sameSiteHoldGen = 0\<rparr>"

definition Current :: "published \<Rightarrow> Settings" where
  "Current g = current g"

definition Publish :: "Settings \<Rightarrow> published \<Rightarrow> published" where
  "Publish s g =
     (let s = Clone s;
          g = g\<lparr>current := s\<rparr>;
          g = (if \<not> AnthropicLatencyHoldOn (Some s)
               then g\<lparr>anthropicLatencyHoldGen := anthropicLatencyHoldGen g + 1\<rparr> else g)
      in (if \<not> SameSiteHoldOn (Some s) then g\<lparr>sameSiteHoldGen := sameSiteHoldGen g + 1\<rparr> else g))"

section \<open>Lemmas\<close>

lemma validEdgeName_defaults: "validEdgeName ''cf'' \<and> validEdgeName ''esa''"
  by (simp add: validEdgeName_def edge_char_def)

lemma Defaults_valid [simp]: "Validate Defaults = []"
  using validEdgeName_defaults
  by (simp add: validate_defs Defaults_def in_range_def budget_timeouts_def)

lemma Defaults_normal [simp]: "normalize Defaults = Defaults"
  by (simp add: normalize_def Defaults_def)

lemma dedup_models_trimmed: "m \<in> set (dedup_models seen ms) \<Longrightarrow> TrimSpace m = m"
  by (induction seen ms rule: dedup_models.induct) (auto simp: Let_def split: if_splits)

lemma dedup_models_keys: "ToLower ` set (dedup_models seen ms) = ToLower ` TrimSpace ` set ms - seen"
  by (induction seen ms rule: dedup_models.induct) (auto simp: Let_def)

lemma dedup_models_distinct: "distinct (map ToLower (dedup_models seen ms))"
proof (induction seen ms rule: dedup_models.induct)
  case (2 seen m ms)
  have "ToLower (TrimSpace m) \<notin> ToLower ` set (dedup_models (insert (ToLower (TrimSpace m)) seen) ms)"
    by (simp add: dedup_models_keys)
  with 2 show ?case by (simp add: Let_def)
qed simp

lemma dedup_models_fixed:
  "(\<And>m. m \<in> set ms \<Longrightarrow> TrimSpace m = m) \<Longrightarrow> distinct (map ToLower ms) \<Longrightarrow>
   ToLower ` set ms \<inter> seen = {} \<Longrightarrow> dedup_models seen ms = ms"
  by (induction ms arbitrary: seen) (auto simp: Let_def)

lemma dedup_models_idem: "dedup_models {} (dedup_models {} ms) = dedup_models {} ms"
  by (rule dedup_models_fixed) (auto simp: dedup_models_trimmed dedup_models_distinct)

lemma dedup_models_Nil_iff: "dedup_models {} ms = [] \<longleftrightarrow> ms = []"
  using dedup_models_keys [of "{}" ms] by (cases ms) (auto simp: Let_def)

lemma normalize_idem [simp]: "normalize (normalize s) = normalize s"
  by (simp add: normalize_def dedup_models_idem)

lemma normalize_simps [simp]:
  "Enabled (normalize s) = Enabled s" "SameSiteHold (normalize s) = SameSiteHold s"
  "AnthropicLatencyHold (normalize s) = AnthropicLatencyHold s"
  "Collab_Enabled (CollaborationPlaintext (normalize s)) = Collab_Enabled (CollaborationPlaintext s)"
  "Models (CollaborationPlaintext (normalize s)) = dedup_models {} (Models (CollaborationPlaintext s))"
  "sBudget (normalize s) = sBudget s"
  by (simp_all add: normalize_def)

lemma Validate_budget: "Validate s = [] \<Longrightarrow> validate_budget (sBudget s) = []"
  by (simp add: Validate_def)

section \<open>Properties\<close>

text \<open>
  C40: whatever is stored, \<open>Parse\<close> hands out a valid and normalised document, and after any error
  that document is the defaults.
\<close>

theorem parse_always_valid:
  "(case Parse unmarshal raw of (s, e) \<Rightarrow>
     Validate s = [] \<and> normalize s = s \<and> (e = None \<or> s = Defaults))"
  by (simp add: Parse_def Let_def split: option.split)

text \<open>
  The master switch. With no settings or with the master switch off, every capability is off,
  and no model is authorised for the collaboration channel.
\<close>

definition switches :: "(Settings option \<Rightarrow> bool) list" where
  "switches =
     [SessionOn, PostOutputRebindOn, SameSiteHoldOn, CollaborationPlaintextOn, AnthropicLatencyHoldOn,
      LastResortOn, BalanceOn, BudgetOn, KeepaliveOn, StallOn, DisconnectOn, ErrorsOn, PreludeStagingOn,
      NativePreludeWhitelistOn, StrictTerminalOn, DecisionV2On, FailedFrameRetryAfterOn,
      CodexRetryAfterCapOn, StreamOnlyLearningOn, StreamOnlyFailoverOn, FallbackGroupOn,
      CacheAwareEstimateOn, OutputP99CapOn, FailureOn]"

lemma master_off_all_off:
  assumes "\<not> master s"
  shows "filter (\<lambda>on. on s) switches = [] \<and> \<not> CollaborationPlaintextModel s model"
  using assms
  by (cases s) (simp_all add: switches_def switch_defs CollaborationPlaintextModel_def master_def)

text \<open>
  publishing normalises the list of collaboration models without changing which models it
  authorises: a model is authorised by the published copy exactly when it was by the
  administrator's document, and the published list has no two names that agree up to case.
\<close>

theorem publish_keeps_authorisation:
  "CollaborationPlaintextModel (Some (Current (Publish s g))) model = CollaborationPlaintextModel (Some s) model \<and>
   distinct (map ToLower (Models (CollaborationPlaintext (Current (Publish s g)))))"
proof -
  let ?ms = "Models (CollaborationPlaintext s)"
  have cur: "Current (Publish s g) = normalize s"
    by (simp add: Publish_def Clone_def Current_def Let_def)
  have ex: "list_ex (\<lambda>a. EqualFold m (TrimSpace a)) (dedup_models {} ?ms)
      = list_ex (\<lambda>a. EqualFold m (TrimSpace a)) ?ms" for m
  proof -
    have "list_ex (\<lambda>a. EqualFold m (TrimSpace a)) ms \<longleftrightarrow> ToLower m \<in> ToLower ` TrimSpace ` set ms" for ms
      by (auto simp: list_ex_iff EqualFold_def)
    moreover have "ToLower ` TrimSpace ` set (dedup_models {} ?ms) = ToLower ` set (dedup_models {} ?ms)"
      using dedup_models_trimmed [of _ "{}" ?ms] by (force simp: image_iff)
    ultimately show ?thesis by (simp add: dedup_models_keys)
  qed
  show ?thesis
    unfolding cur
    by (simp add: CollaborationPlaintextModel_def CollaborationPlaintextOn_def Let_def ex
        dedup_models_Nil_iff dedup_models_distinct)
qed

text \<open>
  the hold generations count the published documents that disable the hold, so a hold or
  sample taken under an earlier generation is invalid as soon as one disabled document has been
  published; the current snapshot is the last published document, normalised.
\<close>

theorem publish_generations:
  "sameSiteHoldGen (fold Publish docs g) =
     sameSiteHoldGen g + of_nat (length (filter (\<lambda>s. \<not> SameSiteHoldOn (Some s)) docs)) \<and>
   anthropicLatencyHoldGen (fold Publish docs g) =
     anthropicLatencyHoldGen g + of_nat (length (filter (\<lambda>s. \<not> AnthropicLatencyHoldOn (Some s)) docs)) \<and>
   Current (fold Publish docs g) = (if docs = [] then Current g else Clone (last docs))"
proof (induction docs arbitrary: g)
  case (Cons s docs)
  have "SameSiteHoldOn (Some (Clone s)) = SameSiteHoldOn (Some s)"
    "AnthropicLatencyHoldOn (Some (Clone s)) = AnthropicLatencyHoldOn (Some s)"
    by (simp_all add: Clone_def SameSiteHoldOn_def AnthropicLatencyHoldOn_def)
  with Cons [of "Publish s g"] show ?case
    by (auto simp: Publish_def Let_def Current_def algebra_simps)
qed simp

end
