(* ===== verification/Resil_Retry_Hint.thy ===== *)
theory Resil_Retry_Hint
  imports Float64 "HOL-Library.Monad_Syntax"
begin

text \<open>
  The delay an upstream asks for (\<open>RetryAfterFrom\<close>, \<open>resetFrom\<close> and their helpers in
  \<open>resilience/classify.go\<close>).

  The four regular expressions are written as matchers: each of them has at most one way to match
  at a given position (every repetition ends where its character class ends), so "the leftmost
  match" is the first position at which the matcher succeeds. Case is folded for ASCII letters.
  \<open>strconv.ParseFloat\<close> of an arbitrary header value and \<open>http.ParseTime\<close> are parameters
  (\<open>header_env\<close>); of the decimal numbers that the expressions capture it is the correctly rounded
  \<open>float64\<close>. A conversion of an out-of-range float to an integer gives the smallest \<open>int64\<close>, as on
  amd64.
\<close>

section \<open>Conversions\<close>

definition f64_trunc :: "rat \<Rightarrow> int" where
  "f64_trunc q = (if 0 \<le> q then \<lfloor>q\<rfloor> else - \<lfloor>- q\<rfloor>)"

definition to_int64 :: "float64 \<Rightarrow> int" where
  "to_int64 x = (case x of
       Fin q \<Rightarrow> if min_int64 \<le> f64_trunc q \<and> f64_trunc q \<le> max_int64 then f64_trunc q else min_int64
     | _ \<Rightarrow> min_int64)"

text \<open>The product of a float and a positive finite constant.\<close>

definition f64_scale :: "float64 \<Rightarrow> rat \<Rightarrow> float64" where
  "f64_scale x k = (case x of Fin q \<Rightarrow> f64 (q * k) | PInf \<Rightarrow> PInf | NInf \<Rightarrow> NInf)"

definition secondsDuration :: "float64 \<Rightarrow> duration" where
  "secondsDuration v = to_int64 (f64_scale v (of_int second))"

definition unitDuration :: "float64 \<Rightarrow> string \<Rightarrow> duration" where
  "unitDuration v unt =
     (let unt = ToLower unt
      in if HasPrefix unt ''ms'' \<or> HasPrefix unt ''milli'' then to_int64 (f64_scale v (of_int millisecond))
         else if HasPrefix unt ''h'' then to_int64 (f64_scale v (of_int hour))
         else if HasPrefix unt ''m'' then to_int64 (f64_scale v (of_int minute))
         else secondsDuration v)"

section \<open>Matchers\<close>

definition is_digit :: "char \<Rightarrow> bool" where
  "is_digit c = (48 \<le> (of_char c :: nat) \<and> (of_char c :: nat) \<le> 57)"

definition is_word :: "char \<Rightarrow> bool" where
  "is_word c = (let n = (of_char c :: nat) in
     (48 \<le> n \<and> n \<le> 57) \<or> (65 \<le> n \<and> n \<le> 90) \<or> (97 \<le> n \<and> n \<le> 122) \<or> n = 95)"

definition is_space :: "char \<Rightarrow> bool" where
  "is_space c = (c \<in> {CHR 0x20, CHR 0x09, CHR 0x0A, CHR 0x0C, CHR 0x0D})"

definition QUOTE :: char where "QUOTE = CHR 0x22"

text \<open>The leftmost position at which a matcher succeeds.\<close>

fun find_first :: "(string \<Rightarrow> 'a option) \<Rightarrow> string \<Rightarrow> 'a option" where
  "find_first m [] = m []"
| "find_first m (c # s) = (case m (c # s) of Some x \<Rightarrow> Some x | None \<Rightarrow> find_first m s)"

definition lit :: "string \<Rightarrow> string \<Rightarrow> string option" where
  "lit p s =
     (if length p \<le> length s \<and> ToLower (take (length p) s) = p then Some (drop (length p) s) else None)"

definition one_of :: "char set \<Rightarrow> string \<Rightarrow> string option" where
  "one_of cs s = (case s of [] \<Rightarrow> None | c # r \<Rightarrow> if c \<in> cs then Some r else None)"

definition opt_quote :: "string \<Rightarrow> string" where
  "opt_quote s = (case s of [] \<Rightarrow> [] | c # r \<Rightarrow> if c = QUOTE then r else s)"

definition skip_ws :: "string \<Rightarrow> string" where
  "skip_ws s = dropWhile is_space s"

definition some_ws :: "string \<Rightarrow> string option" where
  "some_ws s = (if s \<noteq> [] \<and> is_space (hd s) then Some (skip_ws s) else None)"

text \<open>\<open>\d+(?:\.\d+)?\<close>: the digits, the fraction digits and the rest.\<close>

definition number :: "string \<Rightarrow> (string \<times> string \<times> string) option" where
  "number s =
     (let ds = takeWhile is_digit s; r = dropWhile is_digit s
      in if ds = [] then None
         else (case r of
             c # r' \<Rightarrow>
               if c = CHR ''.'' \<and> takeWhile is_digit r' \<noteq> []
               then Some (ds, takeWhile is_digit r', dropWhile is_digit r')
               else Some (ds, [], r)
           | [] \<Rightarrow> Some (ds, [], r)))"

definition digits_val :: "string \<Rightarrow> nat" where
  "digits_val ds = foldl (\<lambda>a c. 10 * a + (of_char c - 48)) 0 ds"

text \<open>\<open>strconv.ParseFloat\<close> of such a number; \<open>None\<close> is a range error.\<close>

definition parse_decimal :: "string \<Rightarrow> string \<Rightarrow> float64 option" where
  "parse_decimal ds fs =
     (let v = f64 (of_nat (digits_val (ds @ fs)) / 10 ^ length fs) in if v = PInf then None else Some v)"

text \<open>\<open>"?retry[_-]after"?\s*[:=]\s*"?(number)\<close>\<close>

definition m_retry_after :: "string \<Rightarrow> (string \<times> string) option" where
  "m_retry_after s = do {
     s \<leftarrow> lit ''retry'' (opt_quote s);
     s \<leftarrow> one_of {CHR ''_'', CHR ''-''} s;
     s \<leftarrow> lit ''after'' s;
     s \<leftarrow> one_of {CHR '':'', CHR ''=''} (skip_ws (opt_quote s));
     (ds, fs, r) \<leftarrow> number (opt_quote (skip_ws s));
     Some (ds, fs) }"

definition unit_words :: "string list" where
  "unit_words = [''ms'', ''millisecond'', ''milliseconds'', ''s'', ''sec'', ''secs'', ''second'', ''seconds'',
     ''m'', ''min'', ''mins'', ''minute'', ''minutes'', ''h'', ''hour'', ''hours'']"

text \<open>\<open>try again in\s+(number)\s*(unit)\b\<close>\<close>

definition m_try_again :: "string \<Rightarrow> (string \<times> string \<times> string) option" where
  "m_try_again s = do {
     s \<leftarrow> lit ''try again in'' s;
     s \<leftarrow> some_ws s;
     (ds, fs, r) \<leftarrow> number s;
     (let w = takeWhile is_word (skip_ws r)
      in if ToLower w \<in> set unit_words then Some (ds, fs, w) else None) }"

text \<open>One component \<open>number(ms|h|m|s)\<close> of a Go duration, with its unit in nanoseconds.\<close>

definition component :: "string \<Rightarrow> ((string \<times> string \<times> int) \<times> string) option" where
  "component s = do {
     (ds, fs, r) \<leftarrow> number s;
     (case lit ''ms'' r of Some r' \<Rightarrow> Some ((ds, fs, millisecond), r')
      | None \<Rightarrow> (case lit ''h'' r of Some r' \<Rightarrow> Some ((ds, fs, hour), r')
      | None \<Rightarrow> (case lit ''m'' r of Some r' \<Rightarrow> Some ((ds, fs, minute), r')
      | None \<Rightarrow> (case lit ''s'' r of Some r' \<Rightarrow> Some ((ds, fs, second), r')
      | None \<Rightarrow> None)))) }"

fun components :: "nat \<Rightarrow> string \<Rightarrow> (string \<times> string \<times> int) list \<times> string" where
  "components 0 s = ([], s)"
| "components (Suc n) s =
     (case component s of
        None \<Rightarrow> ([], s)
      | Some (c, r) \<Rightarrow> (case components n r of (cs, r') \<Rightarrow> (c # cs, r')))"

text \<open>\<open>try again in\s+((?:number(ms|h|m|s)){2,})\b\<close>; the length of the text is enough fuel, since a
  component is not empty.\<close>

definition m_compound :: "string \<Rightarrow> (string \<times> string \<times> int) list option" where
  "m_compound s = do {
     s \<leftarrow> lit ''try again in'' s;
     s \<leftarrow> some_ws s;
     (case components (length s) s of (cs, r) \<Rightarrow>
        if 2 \<le> length cs \<and> \<not> (r \<noteq> [] \<and> is_word (hd r)) then Some cs else None) }"

section \<open>Durations\<close>

text \<open>\<open>time.ParseDuration\<close> of such a list of components: \<open>leadingInt\<close>, \<open>leadingFraction\<close> and the
  overflow checks of the standard library.\<close>

fun leadingInt :: "nat \<Rightarrow> string \<Rightarrow> nat option" where
  "leadingInt x [] = Some x"
| "leadingInt x (c # ds) =
     (if 2 ^ 63 div 10 < x then None
      else let x = x * 10 + (of_char c - 48) in if 2 ^ 63 < x then None else leadingInt x ds)"

fun leadingFraction :: "nat \<Rightarrow> nat \<Rightarrow> bool \<Rightarrow> string \<Rightarrow> nat \<times> nat" where
  "leadingFraction x k overflow [] = (x, k)"
| "leadingFraction x k overflow (c # ds) =
     (if overflow then leadingFraction x k True ds
      else if (2 ^ 63 - 1) div 10 < x then leadingFraction x k True ds
      else let y = x * 10 + (of_char c - 48)
        in if 2 ^ 63 < y then leadingFraction x k True ds else leadingFraction y (k + 1) False ds)"

definition component_value :: "string \<times> string \<times> int \<Rightarrow> nat option" where
  "component_value c = (case c of (ds, fs, unt) \<Rightarrow> do {
     v \<leftarrow> leadingInt 0 ds;
     (let (f, k) = leadingFraction 0 0 False fs; u = nat unt
      in if 2 ^ 63 div u < v then None
         else
           let v = v * u;
               w = (if 0 < f
                    then v + nat \<lfloor>f64_rat (f64_rat (of_nat f) * f64_rat (of_nat u / 10 ^ k))\<rfloor> else v)
           in if 2 ^ 63 < w then None else Some w) })"

fun parse_components :: "nat \<Rightarrow> (string \<times> string \<times> int) list \<Rightarrow> duration option" where
  "parse_components d [] = (if 2 ^ 63 - 1 < d then None else Some (int d))"
| "parse_components d (c # cs) = do {
     v \<leftarrow> component_value c;
     (let d = d + v in if 2 ^ 63 < d then None else parse_components d cs) }"

section \<open>The hints\<close>

type_synonym Header = "(string \<times> string list) list"

text \<open>\<open>http.Header.Get\<close> with the canonical form of the key.\<close>

definition Header_Get :: "Header \<Rightarrow> string \<Rightarrow> string" where
  "Header_Get h key = (case map_of h key of Some (v # vs) \<Rightarrow> v | _ \<Rightarrow> [])"

definition Header_Values :: "Header \<Rightarrow> string \<Rightarrow> string list" where
  "Header_Values h key = (case map_of h key of Some vs \<Rightarrow> vs | None \<Rightarrow> [])"

record header_env =
  ParseFloat :: "string \<Rightarrow> float64 option"
  ParseTime :: "string \<Rightarrow> gotime option"
  time_Now :: gotime

definition inspectLimit :: nat where "inspectLimit = 8192"

text \<open>The part of \<open>retryAfterHeader\<close> that reads the standard header.\<close>

definition retryAfterStandard :: "header_env \<Rightarrow> Header \<Rightarrow> gotime \<Rightarrow> duration" where
  "retryAfterStandard E h now =
     (let v = TrimSpace (Header_Get h ''Retry-After'')
      in if v = [] then 0
         else (case ParseFloat E v of
             Some secs \<Rightarrow> if Fin 0 < secs then secondsDuration secs else 0
           | None \<Rightarrow> (case ParseTime E v of
               Some t \<Rightarrow> if time_After t now then time_Sub t now else 0
             | None \<Rightarrow> 0)))"

definition retryAfterHeader :: "header_env \<Rightarrow> Header \<Rightarrow> gotime \<Rightarrow> duration" where
  "retryAfterHeader E h now =
     (let v = TrimSpace (Header_Get h ''Retry-After-Ms'')
      in if v \<noteq> [] then
           (case ParseFloat E v of
              Some ms \<Rightarrow>
                if Fin 0 < ms then to_int64 (f64_scale ms (of_int millisecond)) else retryAfterStandard E h now
            | None \<Rightarrow> retryAfterStandard E h now)
         else retryAfterStandard E h now)"

definition hint_json :: "string \<Rightarrow> duration option" where
  "hint_json s = (case find_first m_retry_after s of
       None \<Rightarrow> None
     | Some (ds, fs) \<Rightarrow> (case parse_decimal ds fs of
         None \<Rightarrow> None
       | Some v \<Rightarrow> if Fin 0 < v then Some (secondsDuration v) else None))"

definition hint_compound :: "string \<Rightarrow> duration option" where
  "hint_compound s = (case find_first m_compound s of
       None \<Rightarrow> None
     | Some cs \<Rightarrow> (case parse_components 0 cs of
         None \<Rightarrow> None
       | Some d \<Rightarrow> if 0 < d then Some d else None))"

definition hint_try_again :: "string \<Rightarrow> duration option" where
  "hint_try_again s = (case find_first m_try_again s of
       None \<Rightarrow> None
     | Some (ds, fs, unt) \<Rightarrow> (case parse_decimal ds fs of
         None \<Rightarrow> None
       | Some v \<Rightarrow> if Fin 0 < v then Some (unitDuration v unt) else None))"

definition RetryAfterFrom :: "header_env \<Rightarrow> Header \<Rightarrow> string \<Rightarrow> duration" where
  "RetryAfterFrom E h body =
     (let d = retryAfterHeader E h (time_Now E)
      in if 0 < d then d
         else if length body = 0 then 0
         else
           let s = take inspectLimit body
           in case hint_json s of Some d \<Rightarrow> d
            | None \<Rightarrow> (case hint_compound s of Some d \<Rightarrow> d
            | None \<Rightarrow> (case hint_try_again s of Some d \<Rightarrow> d
            | None \<Rightarrow> 0)))"

text \<open>\<open>"resets_in_seconds"\s*:\s*(\d+)\<close>\<close>

definition m_resets :: "string \<Rightarrow> string option" where
  "m_resets s = do {
     s \<leftarrow> lit (QUOTE # ''resets_in_seconds'' @ [QUOTE]) s;
     s \<leftarrow> one_of {CHR '':''} (skip_ws s);
     (let ds = takeWhile is_digit (skip_ws s) in if ds = [] then None else Some ds) }"

definition resetFrom :: "header_env \<Rightarrow> Header \<Rightarrow> string \<Rightarrow> duration" where
  "resetFrom E h body =
     (let d = RetryAfterFrom E h body
      in if 0 < d then d
         else (case find_first m_resets body of
             Some ds \<Rightarrow>
               if 0 < digits_val ds \<and> int (digits_val ds) \<le> max_int64 then seconds (int (digits_val ds)) else 0
           | None \<Rightarrow> 0))"

section \<open>Round trip\<close>

lemma nat_digits_are_digits: "list_all is_digit (nat_digits n)"
proof -
  have "is_digit (char_of k)" if "k \<in> {48..<58::nat}" for k
    using that by (simp add: is_digit_def)
  then show ?thesis using nat_digits_chars [of n] by (auto simp: list_all_iff)
qed

lemma nat_digits_Cons: "nat_digits n \<noteq> []"
  by (subst nat_digits.simps) simp

lemma length_nat_digits: "n < 10 ^ k \<Longrightarrow> 0 < k \<Longrightarrow> length (nat_digits n) \<le> k"
proof (induction k arbitrary: n)
  case (Suc k)
  show ?case
  proof (cases "n < 10")
    case False
    with Suc.prems have "n div 10 < 10 ^ k" "0 < k" by (auto simp: less_mult_imp_div_less intro: gr0I)
    with Suc.IH [of "n div 10"] False show ?thesis by (simp add: nat_digits.simps [of n])
  qed (simp add: nat_digits.simps [of n])
qed simp

lemma number_nat:
  assumes "\<not> is_digit c" "c \<noteq> CHR ''.''"
  shows "number (nat_digits n @ c # r) = Some (nat_digits n, [], c # r)"
proof -
  have "takeWhile is_digit (nat_digits n @ c # r) = nat_digits n"
    "dropWhile is_digit (nat_digits n @ c # r) = c # r"
    using assms(1) nat_digits_are_digits [of n] by (simp_all add: list_all_iff takeWhile_append2 dropWhile_append2)
  then show ?thesis using assms(2) nat_digits_Cons by (simp add: number_def Let_def)
qed

lemma digits_val_nat [simp]: "digits_val (nat_digits n) = n"
  unfolding digits_val_def by (rule nat_digits_val)

lemma f64_exact:
  assumes "\<bar>n\<bar> < 2 ^ 53"
  shows "f64 (of_int n) = Fin (of_int n)"
proof -
  have "(of_int n :: rat) < of_int (2 ^ 53)" "- of_int (2 ^ 53) < (of_int n :: rat)"
    using assms unfolding of_int_minus [symmetric] of_int_less_iff by linarith+
  moreover have "(2 ^ 53 :: rat) \<le> pow2 1024"
  proof -
    have "pow2 53 \<le> pow2 1024" by (rule pow2_mono) simp
    then show ?thesis by (simp add: pow2_def)
  qed
  ultimately have "\<not> pow2 1024 \<le> of_int n" "\<not> of_int n \<le> - pow2 1024" by auto
  then show ?thesis by (simp add: f64_def f64_rat_small_int [OF assms] Let_def)
qed

lemma secondsDuration_int:
  assumes "0 \<le> n" "n \<le> 9007199"
  shows "secondsDuration (Fin (of_int n)) = n * second"
proof -
  have "of_int n * of_int second = (of_int (n * second) :: rat)" by simp
  moreover have "\<bar>n * second\<bar> < 2 ^ 53" using assms by simp
  ultimately have "f64 (of_int n * of_int second) = Fin (of_int (n * second))"
    using f64_exact [of "n * second"] by (simp only:)
  moreover have "n * second \<le> max_int64" "min_int64 \<le> n * second" using assms by auto
  ultimately show ?thesis
    unfolding secondsDuration_def f64_scale_def to_int64_def f64_trunc_def
    using assms by (simp only: float64.case floor_of_int of_int_0_le_iff) auto
qed

lemma is_space_digit: "is_digit c \<Longrightarrow> \<not> is_space c \<and> c \<noteq> QUOTE"
  by (auto simp: is_digit_def is_space_def QUOTE_def)

definition retry_after_body :: "nat \<Rightarrow> string" where
  "retry_after_body n = ''{'' @ [QUOTE] @ ''retry_after'' @ [QUOTE] @ '':'' @ nat_digits n @ ''}''"

text \<open>
  C32: a delay written as JSON is read back exactly: for a whole number of seconds up to 9,007,199
  (the largest whose nanoseconds are exact in a \<open>float64\<close>), without retry headers, the hint of the
  body \<open>{"retry_after":n}\<close> is n seconds.
\<close>

theorem retry_after_roundtrip:
  assumes "0 < n" "n \<le> 9007199"
  shows "RetryAfterFrom E [] (retry_after_body n) = int n * second"
proof -
  obtain c ds where nd: "nat_digits n = c # ds" using nat_digits_Cons [of n] by (cases "nat_digits n") auto
  then have c: "is_digit c" using nat_digits_are_digits [of n] by simp
  have num: "number (c # ds @ ''}'') = Some (nat_digits n, [], ''}'')"
    using number_nat [of "CHR ''}''" n "[]"] nd by (simp add: is_digit_def)
  have "m_retry_after (QUOTE # ''retry_after'' @ [QUOTE] @ '':'' @ c # ds @ ''}'') = Some (nat_digits n, [])"
    using is_space_digit [OF c] num
    by (simp add: m_retry_after_def opt_quote_def lit_def ToLower_def lower_char_def one_of_def skip_ws_def
        is_space_def QUOTE_def)
  moreover have "m_retry_after (CHR ''{'' # s) = None" for s
    by (simp add: m_retry_after_def opt_quote_def lit_def QUOTE_def ToLower_def lower_char_def)
  ultimately have m: "find_first m_retry_after (retry_after_body n) = Some (nat_digits n, [])"
    by (simp add: retry_after_body_def nd)
  have "length (nat_digits n) \<le> 7" using assms(2) by (intro length_nat_digits) auto
  then have t: "take inspectLimit (retry_after_body n) = retry_after_body n" "retry_after_body n \<noteq> []"
    by (simp_all add: retry_after_body_def inspectLimit_def)
  have "f64 (of_nat n / 10 ^ 0) = Fin (of_int (int n))"
    using f64_exact [of "int n"] assms(2) by simp
  then have p: "parse_decimal (nat_digits n) [] = Some (Fin (of_int (int n)))"
    by (simp add: parse_decimal_def)
  have "Fin 0 < Fin (of_int (int n))" using assms(1) by (simp add: less_float64_def)
  then have "hint_json (retry_after_body n) = Some (int n * second)"
    using secondsDuration_int [of "int n"] assms(2) by (simp only: hint_json_def m p option.case prod.case) simp
  then show ?thesis
    by (simp add: RetryAfterFrom_def retryAfterHeader_def retryAfterStandard_def Header_Get_def t Let_def)
qed

theorem retry_after_roundtrip_witness:
  "RetryAfterFrom \<lparr>ParseFloat = (\<lambda>_. None), ParseTime = (\<lambda>_. None), time_Now = 0\<rparr> [] (retry_after_body 60) =
     60 * second"
  using retry_after_roundtrip [of 60 "\<lparr>ParseFloat = (\<lambda>_. None), ParseTime = (\<lambda>_. None), time_Now = 0\<rparr>"]
  by simp

end
