(* ===== verification/Resil_Classify.thy ===== *)
theory Resil_Classify
  imports Resil_Settings Resil_Retry_Hint
begin

text \<open>
  The classification of upstream attempts (\<open>resilience/classify.go\<close>, \<open>state_rejection.go\<close>,
  \<open>context_window.go\<close>). The numbered stages of \<open>classify\<close> are functions with an optional
  result, in the order of the code: a stage without a result falls through to the next one.

  Parameters (\<open>classify_env\<close>): the \<open>error\<close> objects that \<open>json.Unmarshal\<close> reads from a body
  (\<open>decode_model_error\<close>), and \<open>gjson\<close>'s path lookup and validity test. Chinese wordings are given
  by their UTF-8 bytes.
\<close>

section \<open>Vocabulary\<close>

definition utf8 :: "nat list \<Rightarrow> string" where
  "utf8 bs = map char_of bs"

datatype Category =
    CategorySuccess | CategoryBalance | CategoryAuth | CategoryRateLimitReset | CategoryRateLimit
  | CategoryCapacityShed | CategoryTransient | CategoryFirstOutputTimeout | CategoryStall
  | CategoryClientCancel | CategoryClientError | CategoryModelUnsupported
  | CategoryUpstreamRequestRestriction

datatype StateFamily =
    StateNone | StateRelay | StateConversationInvalid | StateFunctionOutput | StateAgentMessage
  | StateReasoning | StateOtherEncrypted

datatype Source =
    SourceHTTP | SourceStreamEvent | SourceNetwork | SourceFirstOutputTimeout | SourceStall | SourceClientCancel

text \<open>A transport error, by what \<open>errors.Is\<close> and \<open>errors.As\<close> tell of it.\<close>

record net_error =
  is_canceled :: bool
  is_net_timeout :: bool
  is_deadline_exceeded :: bool

record Outcome =
  oSource :: Source
  StatusCode :: int
  oCode :: string
  oType :: string
  oMessage :: string
  oBody :: string
  oHeaders :: Header
  oErr :: "net_error option"

record Result =
  rCategory :: Category
  rStateFamily :: StateFamily
  rRetryAfter :: duration
  rReason :: string

definition result :: "Category \<Rightarrow> string \<Rightarrow> Result" where
  "result c reason = \<lparr>rCategory = c, rStateFamily = StateNone, rRetryAfter = 0, rReason = reason\<rparr>"

definition result_after :: "Category \<Rightarrow> duration \<Rightarrow> string \<Rightarrow> Result" where
  "result_after c d reason = (result c reason)\<lparr>rRetryAfter := d\<rparr>"

definition HardRateLimitThreshold :: duration where "HardRateLimitThreshold = 300 * second"

definition ReasonContentPolicy :: string where "ReasonContentPolicy = ''content_policy''"
definition ReasonUpstreamRequestRestriction :: string where
  "ReasonUpstreamRequestRestriction = ''upstream_request_restriction''"
definition ReasonEncryptedContent :: string where "ReasonEncryptedContent = ''encrypted_content''"
definition ReasonConversationState :: string where "ReasonConversationState = ''conversation_state''"

definition StatusOnly :: "Result \<Rightarrow> bool" where
  "StatusOnly r = HasPrefix (rReason r) ''status_''"

definition ContentPolicy :: "Result \<Rightarrow> bool" where
  "ContentPolicy r = (rReason r = ReasonContentPolicy)"

definition Hard :: "Result \<Rightarrow> bool" where
  "Hard r = (case rCategory r of
       CategoryBalance \<Rightarrow> True
     | CategoryAuth \<Rightarrow> True
     | CategoryRateLimitReset \<Rightarrow> HardRateLimitThreshold < rRetryAfter r
     | _ \<Rightarrow> False)"

definition SwitchAccount :: "Category \<Rightarrow> bool" where
  "SwitchAccount c = (c \<in> {CategoryBalance, CategoryAuth, CategoryRateLimitReset, CategoryRateLimit,
     CategoryCapacityShed, CategoryTransient, CategoryFirstOutputTimeout, CategoryModelUnsupported,
     CategoryUpstreamRequestRestriction})"

definition CountsForSession :: "Category \<Rightarrow> bool" where
  "CountsForSession c = (c \<in> {CategoryRateLimit, CategoryTransient, CategoryFirstOutputTimeout, CategoryStall})"

definition AccountScoped :: "Category \<Rightarrow> bool" where
  "AccountScoped c = (c \<in> {CategoryBalance, CategoryAuth, CategoryRateLimitReset, CategoryRateLimit,
     CategoryTransient, CategoryFirstOutputTimeout, CategoryStall, CategoryModelUnsupported})"

definition SoftCooldown :: "Category \<Rightarrow> bool" where
  "SoftCooldown c = (c \<in> {CategoryTransient, CategoryFirstOutputTimeout, CategoryStall})"

section \<open>Code and keyword tables\<close>

definition defaultBalanceCodes :: "string list" where
  "defaultBalanceCodes =
     [''insufficient_quota'', ''insufficient_user_quota'', ''pre_consume_token_quota_failed'',
      ''credit_balance_exhausted'', ''insufficient_balance'', ''insufficient_credit'',
      ''insufficient_credits'', ''billing_hard_limit_reached'',
      ''subscription_sharing_usage_limit_exceeded'']"

definition defaultBalanceKeywords :: "string list" where
  "defaultBalanceKeywords =
     [''insufficient balance'', ''insufficient account balance'', ''insufficient user balance'',
      ''insufficient_balance'', ''insufficient credit'', ''insufficient_credit'',
      ''insufficient funds'', ''credit balance'', ''usage balance exhausted'',
      ''balance is not enough'', ''no enough balance'', ''not enough balance'',
      ''balance exhausted'', ''subscription sharing usage limit'', ''quota is not enough'',
      utf8 [0xE9, 0xA2, 0x84, 0xE6, 0x89, 0xA3, 0xE8, 0xB4, 0xB9, 0xE9, 0xA2, 0x9D, 0xE5, 0xBA, 0xA6, 0xE5, 0xA4, 0xB1, 0xE8, 0xB4, 0xA5],
      utf8 [0xE9, 0xA2, 0x9D, 0xE5, 0xBA, 0xA6, 0xE5, 0xB7, 0xB2, 0xE7, 0x94, 0xA8, 0xE5, 0xB0, 0xBD],
      utf8 [0xE9, 0xA2, 0x9D, 0xE5, 0xBA, 0xA6, 0xE7, 0x94, 0xA8, 0xE5, 0xB0, 0xBD],
      utf8 [0xE4, 0xBD, 0x99, 0xE9, 0xA2, 0x9D, 0xE4, 0xB8, 0x8D, 0xE8, 0xB6, 0xB3],
      utf8 [0xE9, 0xA2, 0x9D, 0xE5, 0xBA, 0xA6, 0xE4, 0xB8, 0x8D, 0xE8, 0xB6, 0xB3],
      utf8 [0xE8, 0xB4, 0xA6, 0xE6, 0x88, 0xB7, 0xE4, 0xBD, 0x99, 0xE9, 0xA2, 0x9D, 0xE4, 0xB8, 0x8D, 0xE8, 0xB6, 0xB3],
      utf8 [0xE8, 0xB4, 0xA6, 0xE5, 0x8F, 0xB7, 0xE4, 0xBD, 0x99, 0xE9, 0xA2, 0x9D, 0xE4, 0xB8, 0x8D, 0xE8, 0xB6, 0xB3]]"

definition authCodes :: "string list" where
  "authCodes =
     [''invalid_api_key'', ''token_revoked'', ''token_invalidated'', ''account_deactivated'',
      ''deactivated_workspace'', ''authentication_error'', ''invalid_authentication'',
      ''usage_not_included'']"

definition clientErrorCodes :: "string list" where
  "clientErrorCodes =
     [''context_length_exceeded'', ''string_above_max_length'', ''invalid_prompt'', ''cyber_policy'',
      ''bio_policy'', ''content_policy_violation'', ''content_filter'', ''invalid_request_error'',
      ''request_too_large'']"

definition contentPolicyCodes :: "string list" where
  "contentPolicyCodes =
     [''content_policy'', ''content_policy_violation'', ''content_filter'',
      ''request_check_blocked'', ''data_inspection_failed'']"

definition contentPolicyKeywords :: "string list" where
  "contentPolicyKeywords =
     [''preflight safety'', ''safety check'', ''safety system'', ''content policy'',
      ''content_policy'', ''content filtering'',
      utf8 [0xE5, 0xAE, 0x89, 0xE5, 0x85, 0xA8, 0xE7, 0xAD, 0x96, 0xE7, 0x95, 0xA5],
      utf8 [0xE5, 0x86, 0x85, 0xE5, 0xAE, 0xB9, 0xE5, 0xAE, 0x89, 0xE5, 0x85, 0xA8],
      utf8 [0xE5, 0x86, 0x85, 0xE5, 0xAE, 0xB9, 0xE6, 0x94, 0xBF, 0xE7, 0xAD, 0x96],
      utf8 [0xE6, 0x95, 0x8F, 0xE6, 0x84, 0x9F, 0xE5, 0x86, 0x85, 0xE5, 0xAE, 0xB9],
      utf8 [0xE6, 0x95, 0x8F, 0xE6, 0x84, 0x9F, 0xE8, 0xAF, 0x8D],
      utf8 [0xE6, 0x95, 0x8F, 0xE6, 0x84, 0x9F, 0xE8, 0xAF, 0x9D, 0xE9, 0xA2, 0x98]]"

definition contentPolicyAccountWords :: "string list" where
  "contentPolicyAccountWords =
     [''account'', ''organization'', ''suspend'', ''banned'', ''deactivat'', ''disabled'',
      utf8 [0xE8, 0xB4, 0xA6, 0xE5, 0x8F, 0xB7], utf8 [0xE8, 0xB4, 0xA6, 0xE6, 0x88, 0xB7],
      utf8 [0xE5, 0xB8, 0x90, 0xE5, 0x8F, 0xB7], utf8 [0xE5, 0xB8, 0x90, 0xE6, 0x88, 0xB7],
      utf8 [0xE5, 0xB0, 0x81, 0xE7, 0xA6, 0x81], utf8 [0xE5, 0xB0, 0x81, 0xE5, 0x8F, 0xB7],
      utf8 [0xE5, 0x81, 0x9C, 0xE7, 0x94, 0xA8], utf8 [0xE7, 0xA6, 0x81, 0xE7, 0x94, 0xA8]]"

definition rateLimitCodes :: "string list" where
  "rateLimitCodes =
     [''rate_limit_exceeded'', ''rate_limit_error'', ''slow_down'', ''too_many_requests'',
      ''usage_limit_reached'']"

definition capacityCodes :: "string list" where
  "capacityCodes =
     [''server_is_overloaded'', ''overloaded_error'', ''overloaded'']"

definition modelUnsupportedCodes :: "string list" where
  "modelUnsupportedCodes =
     [''model_not_found'', ''model_not_supported'', ''unsupported_model'']"

definition IsBalanceCode :: "string \<Rightarrow> bool" where
  "IsBalanceCode code = (ToLower (TrimSpace code) \<in> set defaultBalanceCodes)"

definition IsKnownClientErrorCode :: "string \<Rightarrow> bool" where
  "IsKnownClientErrorCode code = (ToLower (TrimSpace code) \<in> set clientErrorCodes)"

definition containsAny :: "string \<Rightarrow> string list \<Rightarrow> bool" where
  "containsAny text keywords = list_ex (\<lambda>kw. kw \<noteq> [] \<and> Contains text kw) keywords"

definition containsAnyFold :: "string \<Rightarrow> string list \<Rightarrow> bool" where
  "containsAnyFold text keywords =
     list_ex (\<lambda>kw. let kw = ToLower (TrimSpace kw) in kw \<noteq> [] \<and> Contains text kw) keywords"

section \<open>State rejections\<close>

definition IsEncryptedContentRejection :: "string \<Rightarrow> string \<Rightarrow> bool" where
  "IsEncryptedContentRejection code message =
     (let code = ToLower (TrimSpace code)
      in if code = ''invalid_encrypted_content'' \<or> code = ''encrypted_context_invalid'' then True
         else
           let message = ToLower (TrimSpace message)
           in if message = [] then False
              else if Contains message ''encrypted function output content could not be decrypted'' then True
              else if Contains message ''could not validate encrypted continuation context'' then True
              else Contains message ''encrypted content'' \<and>
                (Contains message ''could not be verified'' \<or> Contains message ''could not be decrypted'' \<or>
                 Contains message ''hydration failed''))"

record StateRejection =
  Family :: StateFamily
  Encrypted :: bool

definition RequestScoped :: "StateRejection \<Rightarrow> bool" where
  "RequestScoped r = (Family r \<noteq> StateNone)"

definition ClassifyStateRejection :: "string \<Rightarrow> string \<Rightarrow> StateRejection" where
  "ClassifyStateRejection code message =
     (let encrypted = IsEncryptedContentRejection code message;
          code = ToLower (TrimSpace code);
          message = ToLower message;
          relay = (code = ''client_tool_continuation_unavailable'' \<or> (code = [] \<and>
            (Contains message ''opaque conversation state'' \<or> Contains message ''unrecognized conversation state'')));
          conversation = Contains message ''encrypted content is invalid for this conversation'';
          requestScoped = (relay \<or> encrypted \<or> (code = [] \<and> conversation))
      in if \<not> requestScoped then \<lparr>Family = StateNone, Encrypted = encrypted\<rparr>
         else
           \<lparr>Family =
              (if relay then StateRelay
               else if conversation then StateConversationInvalid
               else if Contains message ''encrypted function output'' then StateFunctionOutput
               else if Contains message ''for item amsg_'' then StateAgentMessage
               else if Contains message ''for item rs_'' \<or> Contains message ''for item cmp_'' then StateReasoning
               else StateOtherEncrypted),
            Encrypted = encrypted\<rparr>)"

section \<open>Structured errors\<close>

text \<open>The raw \<open>code\<close> of an error object: absent, \<open>null\<close>, a string, an integer, or anything else.\<close>

datatype raw_code = RawMissing | RawNull | RawString string | RawInt int | RawOther

record structuredModelError =
  sme_Code :: raw_code
  sme_Type :: string
  sme_Param :: string
  sme_Message :: string

definition no_model_error :: structuredModelError where
  "no_model_error = \<lparr>sme_Code = RawMissing, sme_Type = [], sme_Param = [], sme_Message = []\<rparr>"

record classify_env =
  headers_env :: header_env
  decode_model_error :: "string \<Rightarrow> (structuredModelError \<times> structuredModelError) option"
  gjson_String :: "string \<Rightarrow> string \<Rightarrow> string"
  gjson_Valid :: "string \<Rightarrow> bool"

definition parseStructuredModelError :: "classify_env \<Rightarrow> string \<Rightarrow> structuredModelError" where
  "parseStructuredModelError E body =
     (if length body = 0 then no_model_error
      else (case decode_model_error E (take inspectLimit body) of
          None \<Rightarrow> no_model_error
        | Some (err, response_err) \<Rightarrow>
            if sme_Message err \<noteq> [] \<or> sme_Code err \<noteq> RawMissing \<or> sme_Type err \<noteq> [] \<or> sme_Param err \<noteq> []
            then err else response_err))"

definition modelUnsupportedMessage :: "string \<Rightarrow> bool" where
  "modelUnsupportedMessage message =
     (let message = ToLower (TrimSpace message)
      in if message = [] \<or> Contains message ''auth_unavailable'' \<or> Contains message ''by this endpoint'' \<or>
           Contains message ''in this mode'' then False
         else Contains message ''unknown provider for model'' \<or> Contains message ''unknown model'' \<or>
           Contains message ''model not found'' \<or> Contains message ''model is not supported'')"

definition raw_code_text :: "raw_code \<Rightarrow> int \<Rightarrow> string option" where
  "raw_code_text c statusCode = (case c of
       RawMissing \<Rightarrow> Some []
     | RawNull \<Rightarrow> Some []
     | RawString s \<Rightarrow> Some s
     | RawInt n \<Rightarrow>
         if (statusCode \<noteq> 400 \<and> statusCode \<noteq> 404) \<or> n \<noteq> statusCode then None else Some []
     | RawOther \<Rightarrow> None)"

definition isStructuredModelUnsupportedError :: "structuredModelError \<Rightarrow> int \<Rightarrow> bool" where
  "isStructuredModelUnsupportedError err statusCode =
     (case raw_code_text (sme_Code err) statusCode of
        None \<Rightarrow> False
      | Some code \<Rightarrow>
          let code = ToLower (TrimSpace code);
              typ = ToLower (TrimSpace (sme_Type err));
              param = TrimSpace (sme_Param err)
          in if code \<in> set modelUnsupportedCodes then True
             else if typ \<in> set modelUnsupportedCodes then code = [] \<or> code = ''invalid_request_error''
             else if param \<noteq> [] \<and> param \<noteq> ''model'' then False
             else if code \<noteq> [] \<and> code \<noteq> ''invalid_request_error'' then False
             else if typ \<noteq> [] \<and> typ \<noteq> ''invalid_request_error'' then False
             else modelUnsupportedMessage (sme_Message err))"

definition IsModelUnsupportedResponse :: "classify_env \<Rightarrow> int \<Rightarrow> string \<Rightarrow> bool" where
  "IsModelUnsupportedResponse E statusCode body =
     (if statusCode \<noteq> 400 \<and> statusCode \<noteq> 404 then False
      else isStructuredModelUnsupportedError (parseStructuredModelError E body) statusCode)"

definition IsOpenAICompatibleModelNotFound401 :: "classify_env \<Rightarrow> string \<Rightarrow> bool" where
  "IsOpenAICompatibleModelNotFound401 E body =
     isStructuredModelUnsupportedError (parseStructuredModelError E body) 401"

text \<open>\<open>IsContextWindowError\<close> with its local \<open>match\<close>.\<close>

definition context_match :: "string \<Rightarrow> bool" where
  "context_match text =
     (let lower = ToLower (TrimSpace text)
      in if lower = [] then False
         else if Contains lower ''context_too_large'' \<or> Contains lower ''context_length_exceeded'' then True
         else if Contains lower ''maximum context length'' \<or> Contains lower ''max context length'' then True
         else
           let hasExceeded = (Contains lower ''exceed'' \<or> Contains lower ''too large'' \<or> Contains lower ''too long'')
           in if Contains lower ''context window'' \<and> hasExceeded then True
              else if Contains lower ''context length'' \<and> hasExceeded then True
              else Contains lower ''token limit'' \<and> Contains lower ''context'' \<and> hasExceeded)"

definition IsContextWindowError :: "classify_env \<Rightarrow> string \<Rightarrow> string \<Rightarrow> bool" where
  "IsContextWindowError E upstreamMsg upstreamBody =
     (if context_match upstreamMsg then True
      else if length upstreamBody = 0 then False
      else if list_ex (\<lambda>path. context_match (gjson_String E upstreamBody path))
        [''error.message'', ''response.error.message'', ''message'', ''error.code'', ''response.error.code'', ''code'']
      then True
      else \<not> gjson_Valid E upstreamBody \<and> context_match upstreamBody)"

section \<open>Pages and wordings\<close>

definition geminiQuotaLimit :: "string \<Rightarrow> string \<Rightarrow> bool" where
  "geminiQuotaLimit text lowerBody =
     list_ex (\<lambda>s. Contains text s \<or> Contains lowerBody s)
       [''resource_exhausted'', ''quotafailure'', ''rate-limits'', ''generativelanguage.googleapis.com'']"

definition contentPolicyCode :: "string \<Rightarrow> string \<Rightarrow> string \<Rightarrow> bool" where
  "contentPolicyCode code typ lowerBody =
     (code \<in> set contentPolicyCodes \<or> typ \<in> set contentPolicyCodes \<or>
      Contains lowerBody (QUOTE # ''request_check_blocked'' @ [QUOTE]))"

definition looksLikeHTMLBlock :: "string \<Rightarrow> bool" where
  "looksLikeHTMLBlock lowerBody =
     (let trimmed = TrimSpace lowerBody
      in HasPrefix trimmed ''<!doctype'' \<or> HasPrefix trimmed ''<html'' \<or>
         Contains lowerBody ''cf-ray'' \<or> Contains lowerBody ''attention required! | cloudflare'' \<or>
         Contains lowerBody ''just a moment...'')"

definition contentPolicyText :: "int \<Rightarrow> string \<Rightarrow> string \<Rightarrow> bool" where
  "contentPolicyText status text lowerBody =
     (if status \<notin> {400, 403, 451} then False
      else containsAny text contentPolicyKeywords \<and> \<not> containsAny text contentPolicyAccountWords \<and>
        \<not> looksLikeHTMLBlock lowerBody)"

text \<open>\<open>reCloudflareJSONError\<close>: one of two JSON members, with white space around the colon.\<close>

definition m_member :: "string \<Rightarrow> string \<Rightarrow> string \<Rightarrow> unit option" where
  "m_member key val s =
     (if prefix (QUOTE # key @ [QUOTE]) s
      then (case one_of {CHR '':''} (skip_ws (drop (length key + 2) s)) of
          None \<Rightarrow> None
        | Some r \<Rightarrow> if prefix val (skip_ws r) then Some () else None)
      else None)"

definition cloudflareJSONError :: "string \<Rightarrow> bool" where
  "cloudflareJSONError s =
     (find_first (m_member ''cloudflare_error'' ''true'') s \<noteq> None \<or>
      find_first (m_member ''error_category'' (QUOTE # ''origin'' @ [QUOTE])) s \<noteq> None)"

definition edgeErrorPage :: "string \<Rightarrow> bool" where
  "edgeErrorPage lowerBody =
     (cloudflareJSONError lowerBody \<or> looksLikeHTMLBlock lowerBody \<or> HasPrefix (TrimSpace lowerBody) ''<'')"

definition networkReason :: "net_error option \<Rightarrow> string" where
  "networkReason err = (case err of
       None \<Rightarrow> ''network''
     | Some e \<Rightarrow> if is_net_timeout e then ''network_timeout''
         else if is_deadline_exceeded e then ''network_timeout'' else ''network'')"

section \<open>Classification\<close>

text \<open>What \<open>classify\<close> reads from an HTTP answer or a stream event before its first rule.\<close>

record signals =
  gCode :: string
  gTyp :: string
  gMsg :: string
  gBody :: string
  gLowerBody :: string
  gText :: string
  gRetryAfter :: duration
  gStatus :: int
  gEvent :: bool

definition signals_of :: "classify_env \<Rightarrow> Outcome \<Rightarrow> signals" where
  "signals_of E out =
     (let code = ToLower (TrimSpace (oCode out));
          typ = ToLower (TrimSpace (oType out));
          msg = ToLower (TrimSpace (oMessage out));
          body = take inspectLimit (oBody out);
          lowerBody = ToLower body;
          joined = code @ '' '' @ typ @ '' '' @ msg;
          text = (if TrimSpace joined = [] then lowerBody else joined);
          ra = RetryAfterFrom (headers_env E) (oHeaders out) body;
          ra = (if ra = 0 \<and> oMessage out \<noteq> [] then RetryAfterFrom (headers_env E) [] (oMessage out) else ra)
      in \<lparr>gCode = code, gTyp = typ, gMsg = msg, gBody = body, gLowerBody = lowerBody, gText = text,
          gRetryAfter = ra, gStatus = StatusCode out, gEvent = (oSource out = SourceStreamEvent)\<rparr>)"

definition plain_success :: "signals \<Rightarrow> bool" where
  "plain_success g =
     (200 \<le> gStatus g \<and> gStatus g < 300 \<and> \<not> gEvent g \<and> gCode g = [] \<and> gTyp g = [] \<and> gMsg g = [])"

text \<open>1. Balance.\<close>

definition stage_balance :: "string list \<Rightarrow> signals \<Rightarrow> Result option" where
  "stage_balance extra g =
     (if gCode g \<in> set defaultBalanceCodes then Some (result CategoryBalance ''balance_code'')
      else if gTyp g \<in> set defaultBalanceCodes then Some (result CategoryBalance ''balance_code'')
      else if containsAny (gText g) defaultBalanceKeywords \<or> containsAnyFold (gText g) extra
      then Some (result CategoryBalance ''balance_keyword'')
      else if Contains (gText g) ''exceeded your current quota'' \<and> \<not> geminiQuotaLimit (gText g) (gLowerBody g)
      then Some (result CategoryBalance ''balance_keyword'')
      else if gStatus g = 402 then
        (if gCode g = ''deactivated_workspace'' \<or> Contains (gLowerBody g) ''deactivated_workspace''
         then Some (result CategoryAuth ''deactivated_workspace'')
         else Some (result CategoryBalance ''status_402''))
      else None)"

text \<open>The gateway's own first-event deadline; 2. client errors and unsupported models by code.\<close>

definition stage_client :: "classify_env \<Rightarrow> signals \<Rightarrow> Result option" where
  "stage_client E g =
     (if gCode g = ''first_output_timeout'' \<or> gTyp g = ''first_output_timeout''
      then Some (result CategoryFirstOutputTimeout ''first_output_timeout'')
      else if contentPolicyCode (gCode g) (gTyp g) (gLowerBody g)
      then Some (result CategoryClientError ReasonContentPolicy)
      else
        let rej = ClassifyStateRejection (gCode g) (gText g)
        in if RequestScoped rej then
             Some ((result CategoryClientError
                (if Encrypted rej then ReasonEncryptedContent else ReasonConversationState))
                  \<lparr>rStateFamily := Family rej\<rparr>)
           else if IsModelUnsupportedResponse E (gStatus g) (gBody g)
           then Some (result CategoryModelUnsupported ''model_message'')
           else if gCode g \<in> set clientErrorCodes then Some (result CategoryClientError ''client_code'')
           else if gCode g \<in> set modelUnsupportedCodes then Some (result CategoryModelUnsupported ''model_code'')
           else None)"

text \<open>3. Authentication.\<close>

definition stage_auth :: "signals \<Rightarrow> Result option" where
  "stage_auth g =
     (if gCode g \<in> set authCodes then Some (result CategoryAuth ''auth_code'')
      else if gTyp g \<in> set authCodes then Some (result CategoryAuth ''auth_type'')
      else if gStatus g = 401 then Some (result CategoryAuth ''status_401'')
      else if \<not> gEvent g \<and> contentPolicyText (gStatus g) (gText g) (gLowerBody g)
      then Some (result CategoryClientError ReasonContentPolicy)
      else None)"

text \<open>4. Capacity shedding.\<close>

definition stage_capacity :: "bool \<Rightarrow> signals \<Rightarrow> Result option" where
  "stage_capacity decisionV2 g =
     (if 500 \<le> gStatus g \<and> gStatus g \<noteq> 529 \<and> edgeErrorPage (gLowerBody g)
      then Some (result_after CategoryTransient (gRetryAfter g) ''edge_error_page'')
      else if gCode g \<in> set capacityCodes
      then Some (result_after CategoryCapacityShed (gRetryAfter g) ''capacity_code'')
      else if gTyp g \<in> set capacityCodes
      then Some (result_after CategoryCapacityShed (gRetryAfter g) ''capacity_type'')
      else if decisionV2 \<and> (gCode g = ''slow_down'' \<or> gTyp g = ''slow_down'')
      then Some (result_after CategoryCapacityShed (gRetryAfter g) ''capacity_code'')
      else
        let capacityText =
              (if decisionV2 then gStatus g = 503 \<and> Contains (gText g) ''overloaded''
               else (gStatus g < 500 \<or> gStatus g = 503) \<and>
                 (Contains (gText g) ''overloaded'' \<or> Contains (gText g) ''at capacity''))
        in if gStatus g = 529 \<or> capacityText
           then Some (result_after CategoryCapacityShed (gRetryAfter g) ''capacity'')
           else None)"

text \<open>5. Rate limits.\<close>

definition rate_limited :: "bool \<Rightarrow> signals \<Rightarrow> bool" where
  "rate_limited decisionV2 g =
     (let text = gText g;
          rateText = (Contains text ''rate limit'' \<or> Contains text ''too many requests'');
          busyText = (Contains text ''service is busy'' \<or> Contains text ''server is busy'' \<or>
            Contains text (utf8 [0xE7, 0xB3, 0xBB, 0xE7, 0xBB, 0x9F, 0xE7, 0xB9, 0x81, 0xE5, 0xBF, 0x99]));
          busyText = (if decisionV2
            then gStatus g < 500 \<and> (busyText \<or> Contains text ''too many pending requests'' \<or>
              Contains text ''concurrency limit exceeded'')
            else busyText)
      in gStatus g = 429 \<or> gCode g \<in> set rateLimitCodes \<or> gTyp g \<in> set rateLimitCodes \<or>
         rateText \<or> busyText)"

definition stage_rate :: "bool \<Rightarrow> classify_env \<Rightarrow> Header \<Rightarrow> signals \<Rightarrow> Result option" where
  "stage_rate decisionV2 E headers g =
     (if rate_limited decisionV2 g then
        (let reset = resetFrom (headers_env E) headers (gBody g);
             reset = (if reset = 0 then gRetryAfter g else reset)
         in if 0 < reset then Some (result_after CategoryRateLimitReset reset ''rate_limit_reset'')
            else Some (result CategoryRateLimit ''rate_limit''))
      else None)"

text \<open>6. Remaining client errors by status or type.\<close>

definition stage_status :: "classify_env \<Rightarrow> Outcome \<Rightarrow> signals \<Rightarrow> Result option" where
  "stage_status E out g =
     (if gStatus g = 404 then
        (if Contains (gText g) ''model'' then Some (result CategoryModelUnsupported ''status_404_model'')
         else Some (result_after CategoryTransient (gRetryAfter g) ''status_404''))
      else if gTyp g \<in> set clientErrorCodes then
        (if 500 \<le> gStatus g \<and> gStatus g \<le> 599 \<and> gTyp g = ''invalid_request_error'' \<and>
            \<not> IsContextWindowError E (oMessage out) (oBody out) \<and>
            \<not> contentPolicyText 403 (gText g) (gLowerBody g)
         then Some (result CategoryUpstreamRequestRestriction ReasonUpstreamRequestRestriction)
         else Some (result CategoryClientError ''client_type''))
      else if gStatus g \<in> {400, 413, 422} then Some (result CategoryClientError (''status_'' @ Itoa (gStatus g)))
      else if gStatus g = 403 then
        (if looksLikeHTMLBlock (gLowerBody g)
         then Some (result_after CategoryTransient (gRetryAfter g) ''status_403_block_page'')
         else Some (result CategoryAuth ''status_403''))
      else None)"

text \<open>7. Server and relay errors.\<close>

definition stage_server :: "signals \<Rightarrow> Result" where
  "stage_server g =
     (if 500 \<le> gStatus g \<or> gStatus g = 408
      then result_after CategoryTransient (gRetryAfter g) (''status_'' @ Itoa (gStatus g))
      else if gEvent g then result_after CategoryTransient (gRetryAfter g) ''stream_failed''
      else if 400 \<le> gStatus g then result CategoryClientError (''status_'' @ Itoa (gStatus g))
      else result CategorySuccess [])"

fun first_result :: "Result option list \<Rightarrow> Result \<Rightarrow> Result" where
  "first_result [] d = d"
| "first_result (None # rs) d = first_result rs d"
| "first_result (Some r # rs) d = r"

definition classify_answer :: "classify_env \<Rightarrow> Outcome \<Rightarrow> string list \<Rightarrow> bool \<Rightarrow> Result" where
  "classify_answer E out extra decisionV2 =
     (let g = signals_of E out
      in if plain_success g then result CategorySuccess []
         else first_result
           [stage_balance extra g, stage_client E g, stage_auth g, stage_capacity decisionV2 g,
            stage_rate decisionV2 E (oHeaders out) g, stage_status E out g]
           (stage_server g))"

definition classify :: "classify_env \<Rightarrow> Outcome \<Rightarrow> string list \<Rightarrow> bool \<Rightarrow> Result" where
  "classify E out extra decisionV2 =
     (case oSource out of
        SourceClientCancel \<Rightarrow> result CategoryClientCancel ''client_cancel''
      | SourceFirstOutputTimeout \<Rightarrow> result CategoryFirstOutputTimeout ''first_output_timeout''
      | SourceStall \<Rightarrow> result CategoryStall ''stall''
      | SourceNetwork \<Rightarrow>
          (case oErr out of
             Some e \<Rightarrow> if is_canceled e then result CategoryClientCancel ''context_canceled''
               else result CategoryTransient (networkReason (oErr out))
           | None \<Rightarrow> result CategoryTransient (networkReason (oErr out)))
      | _ \<Rightarrow> classify_answer E out extra decisionV2)"

definition Classify :: "classify_env \<Rightarrow> Outcome \<Rightarrow> string list \<Rightarrow> Result" where
  "Classify E out extra = classify E out extra False"

definition ClassifyWithSettings :: "classify_env \<Rightarrow> Outcome \<Rightarrow> Settings option \<Rightarrow> Result" where
  "ClassifyWithSettings E out settings =
     classify E out (case settings of None \<Rightarrow> [] | Some s \<Rightarrow> BalanceKeywordsExtra (Failure s))
       (DecisionV2On settings)"

end
