(* ===== verification/Resil_Budget.thy ===== *)
theory Resil_Budget
  imports Resil_Classify
begin

text \<open>
  The per-request attempt and time budget (\<open>resilience/budget.go\<close>) and the place where the handler
  loops charge it (\<open>resilienceAttemptFailed\<close> in \<open>handler/resilience_budget.go\<close>).

  A nil \<open>*Budget\<close> is \<open>None\<close>. Every method that takes the mutex is one atomic operation. The
  request context is observed through \<open>canceled\<close>, the truth of \<open>b.ctx != nil && b.ctx.Err() != nil\<close>
  at the call. Counters that only grow from zero are \<open>nat\<close>; an absent key of \<open>sameAccount\<close> counts 0.
\<close>

section \<open>State\<close>

datatype RequestKind = KindText | KindImage

datatype Exhaustion = NotExhausted | ExhaustedAttempts | ExhaustedDeadline | ExhaustedCanceled

definition minAttemptWindow :: duration where "minAttemptWindow = 2 * second"

record Budget =
  kind :: RequestKind
  started :: gotime
  maxAttempts :: int
  attempts :: nat
  lastMark :: gotime
  lastAttempt :: duration
  deadline :: gotime
  sameAccountMax :: int
  sameAccount :: "account_id \<Rightarrow> nat"
  capacitySwitch :: nat
  stateSwitch :: nat
  exhausted :: Exhaustion
  retryAfterCap :: duration

definition NewBudget :: "Settings option \<Rightarrow> RequestKind \<Rightarrow> gotime \<Rightarrow> Budget option" where
  "NewBudget s knd now =
     (if \<not> BudgetOn s then None
      else let c = sBudget (the s) in
        Some \<lparr>kind = knd, started = now, maxAttempts = MaxAttempts c, attempts = 0, lastMark = now,
          lastAttempt = 0,
          deadline = (if knd = KindText then time_Add now (seconds (PreOutputBudgetSeconds c)) else 0),
          sameAccountMax = SameAccountRetryMax c, sameAccount = (\<lambda>_. 0), capacitySwitch = 0,
          stateSwitch = 0, exhausted = NotExhausted,
          retryAfterCap = seconds (UpstreamRetryAfterCapSeconds c)\<rparr>)"

section \<open>Operations\<close>

definition Started :: "Budget option \<Rightarrow> gotime" where
  "Started b = (case b of None \<Rightarrow> 0 | Some b \<Rightarrow> started b)"

definition Kind :: "Budget option \<Rightarrow> RequestKind" where
  "Kind b = (case b of None \<Rightarrow> KindText | Some b \<Rightarrow> kind b)"

definition RecordAttemptAt :: "gotime \<Rightarrow> Budget option \<Rightarrow> duration \<times> Budget option" where
  "RecordAttemptAt now b = (case b of
       None \<Rightarrow> (0, None)
     | Some b \<Rightarrow>
         let b = b\<lparr>attempts := attempts b + 1\<rparr>;
             d = time_Sub now (lastMark b);
             b = b\<lparr>lastMark := now\<rparr>;
             d = (if d < 0 then 0 else d)
         in (d, Some (b\<lparr>lastAttempt := d\<rparr>)))"

definition LastAttemptDuration :: "Budget option \<Rightarrow> duration" where
  "LastAttemptDuration b = (case b of None \<Rightarrow> 0 | Some b \<Rightarrow> lastAttempt b)"

definition RetryAfterCap :: "Budget option \<Rightarrow> duration" where
  "RetryAfterCap b = (case b of None \<Rightarrow> 0 | Some b \<Rightarrow> retryAfterCap b)"

definition Budget_MaxAttempts :: "Budget option \<Rightarrow> int" where
  "Budget_MaxAttempts b = (case b of None \<Rightarrow> 0 | Some b \<Rightarrow> maxAttempts b)"

definition Attempts :: "Budget option \<Rightarrow> int" where
  "Attempts b = (case b of None \<Rightarrow> 0 | Some b \<Rightarrow> int (attempts b))"

text \<open>The pre-output window is too short for another attempt.\<close>

definition window_closed :: "Budget \<Rightarrow> gotime \<Rightarrow> bool" where
  "window_closed b now = (\<not> IsZero (deadline b) \<and> time_Sub (deadline b) now < minAttemptWindow)"

definition CanAttempt :: "bool \<Rightarrow> gotime \<Rightarrow> Budget option \<Rightarrow> bool \<times> Budget option" where
  "CanAttempt canceled now b = (case b of
       None \<Rightarrow> (True, None)
     | Some b \<Rightarrow>
         if canceled then (False, Some (b\<lparr>exhausted := ExhaustedCanceled\<rparr>))
         else if maxAttempts b \<le> int (attempts b) then (False, Some (b\<lparr>exhausted := ExhaustedAttempts\<rparr>))
         else if window_closed b now then (False, Some (b\<lparr>exhausted := ExhaustedDeadline\<rparr>))
         else (True, Some b))"

definition Exhausted :: "Budget option \<Rightarrow> Exhaustion" where
  "Exhausted b = (case b of None \<Rightarrow> NotExhausted | Some b \<Rightarrow> exhausted b)"

definition Remaining :: "gotime \<Rightarrow> Budget option \<Rightarrow> duration" where
  "Remaining now b = (case b of
       None \<Rightarrow> 0
     | Some b \<Rightarrow>
         if IsZero (deadline b) then 0
         else let d = time_Sub (deadline b) now in if 0 < d then d else 1)"

definition Deadline :: "Budget option \<Rightarrow> gotime" where
  "Deadline b = (case b of None \<Rightarrow> 0 | Some b \<Rightarrow> deadline b)"

definition AllowSameAccountRetry :: "account_id \<Rightarrow> Budget option \<Rightarrow> bool \<times> Budget option" where
  "AllowSameAccountRetry a b = (case b of
       None \<Rightarrow> (True, None)
     | Some b \<Rightarrow>
         if sameAccountMax b \<le> int (sameAccount b a) then (False, Some b)
         else (True, Some (b\<lparr>sameAccount := (sameAccount b)(a := sameAccount b a + 1)\<rparr>)))"

definition AllowCapacitySwitch :: "Budget option \<Rightarrow> bool \<times> Budget option" where
  "AllowCapacitySwitch b = (case b of
       None \<Rightarrow> (True, None)
     | Some b \<Rightarrow> if 1 \<le> capacitySwitch b then (False, Some b)
         else (True, Some (b\<lparr>capacitySwitch := capacitySwitch b + 1\<rparr>)))"

definition AllowStateSwitch :: "Budget option \<Rightarrow> bool \<times> Budget option" where
  "AllowStateSwitch b = (case b of
       None \<Rightarrow> (True, None)
     | Some b \<Rightarrow> if 1 \<le> stateSwitch b then (False, Some b)
         else (True, Some (b\<lparr>stateSwitch := stateSwitch b + 1\<rparr>)))"

definition encrypted_repair :: "string list \<Rightarrow> bool" where
  "encrypted_repair reason = (length reason = 1 \<and> reason ! 0 = ReasonEncryptedContent)"

definition ConsumeInPlaceRetry ::
  "bool \<Rightarrow> account_id \<Rightarrow> bool \<Rightarrow> gotime \<Rightarrow> string list \<Rightarrow> Budget option \<Rightarrow> bool \<times> Budget option" where
  "ConsumeInPlaceRetry canceled a same now reason b = (case b of
       None \<Rightarrow> (True, None)
     | Some b \<Rightarrow>
         if canceled then (False, Some b)
         else if \<not> encrypted_repair reason \<and> maxAttempts b \<le> int (attempts b) + 1 then (False, Some b)
         else if window_closed b now then (False, Some b)
         else if same \<and> sameAccountMax b \<le> int (sameAccount b a) then (False, Some b)
         else
           let b = b\<lparr>attempts := attempts b + 1\<rparr>;
               d = time_Sub now (lastMark b);
               b = (if 0 < d then b\<lparr>lastAttempt := d\<rparr> else b);
               b = b\<lparr>lastMark := now\<rparr>;
               b = (if same then b\<lparr>sameAccount := (sameAccount b)(a := sameAccount b a + 1)\<rparr> else b)
           in (True, Some b))"

definition CapacitySwitchUsed :: "Budget option \<Rightarrow> bool" where
  "CapacitySwitchUsed b = (case b of None \<Rightarrow> False | Some b \<Rightarrow> 0 < capacitySwitch b)"

definition ClampWait :: "duration \<Rightarrow> gotime \<Rightarrow> Budget option \<Rightarrow> duration" where
  "ClampWait d now b = (case b of
       None \<Rightarrow> d
     | Some b' \<Rightarrow>
         if d \<le> 0 then d
         else
           let d = (if 0 < retryAfterCap b' \<and> retryAfterCap b' < d then retryAfterCap b' else d);
               rem = Remaining now b
           in if 0 < rem \<and> rem - minAttemptWindow < d
              then (let d = rem - minAttemptWindow in if d < 0 then 0 else d)
              else d)"

definition AttemptTimeout :: "duration \<Rightarrow> bool \<Rightarrow> gotime \<Rightarrow> Budget option \<Rightarrow> duration" where
  "AttemptTimeout tier lastCandidate now b = (case b of
       None \<Rightarrow> tier
     | Some b' \<Rightarrow>
         let rem = Remaining now b
         in if lastCandidate then rem
            else
              let spent = time_Sub now (started b');
                  tier = (if 0 < tier \<and> tier < spent then spent else tier)
              in if 0 < rem \<and> (tier \<le> 0 \<or> rem < tier) then rem else tier)"

section \<open>First-output tiers\<close>

text \<open>The loop over the override entries, in the order the runtime enumerates them.\<close>

fun override_loop :: "(string \<times> int) list \<Rightarrow> string \<Rightarrow> int \<Rightarrow> int \<Rightarrow> bool \<Rightarrow> int \<times> bool" where
  "override_loop [] model best bestLen found = (best, found)"
| "override_loop ((k, v) # kvs) model best bestLen found =
     (let k = ToLower (TrimSpace k)
      in if k = model then (v, True)
         else if HasSuffix k ''*'' then
           (let pre = TrimSuffix k ''*''
            in if HasPrefix model pre \<and> bestLen < int (length pre)
               then override_loop kvs model v (int (length pre)) True
               else override_loop kvs model best bestLen found)
         else override_loop kvs model best bestLen found)"

definition modelOverride :: "(string \<times> int) list \<Rightarrow> string \<Rightarrow> int \<times> bool" where
  "modelOverride overrides model =
     (if length overrides = 0 then (0, False)
      else let model = ToLower (TrimSpace model)
        in if model = [] then (0, False) else override_loop overrides model 0 (-1) False)"

definition FirstOutputTier :: "Settings option \<Rightarrow> string \<Rightarrow> string \<Rightarrow> duration" where
  "FirstOutputTier s model effort = (case s of
       None \<Rightarrow> 0
     | Some s \<Rightarrow>
         let t = FirstOutputTimeoutSeconds (sBudget s)
         in case modelOverride (ModelOverrides (sBudget s)) model of
              (v, True) \<Rightarrow> seconds v
            | (_, False) \<Rightarrow>
                let effort = ToLower (TrimSpace effort);
                    secs = (if effort = ''high'' then FO_High t
                            else if effort = ''xhigh'' then FO_XHigh t
                            else if effort = ''max'' then FO_Max t
                            else FO_Default t)
                in seconds secs)"

text \<open>
  \<open>Sleep\<close> as the race it resolves: \<open>done_first\<close> tells that the context ended before the timer.
\<close>

definition Sleep :: "bool option \<Rightarrow> bool \<Rightarrow> duration \<Rightarrow> bool" where
  "Sleep ctx_err done_first d =
     (if d \<le> 0 then ctx_err = None \<or> ctx_err = Some False
      else if ctx_err = None then True
      else \<not> done_first)"

section \<open>The handler's failover loop\<close>

text \<open>
  What a failed attempt does to the budget in \<open>resilienceAttemptFailed\<close> once the failure is not a
  terminal rejection: the result tells that the request must end.
\<close>

definition charge_failed_attempt :: "bool \<Rightarrow> gotime \<Rightarrow> Budget option \<Rightarrow> bool \<times> Budget option" where
  "charge_failed_attempt canceled now b = (case b of
       None \<Rightarrow> (False, None)
     | Some _ \<Rightarrow>
         let (_, b) = RecordAttemptAt now b;
             (ok, b) = CanAttempt canceled now b
         in (\<not> ok, b))"

text \<open>
  The same for a failure that asks for an OpenAI state repair, with a budget: the request goes on
  only with the one switch reserved for state repairs.
\<close>

definition charge_state_repair :: "bool \<Rightarrow> gotime \<Rightarrow> Budget option \<Rightarrow> bool \<times> Budget option" where
  "charge_state_repair canceled now b =
     (let (_, b) = RecordAttemptAt now b;
          (ok, b) = CanAttempt canceled now b
      in if \<not> ok then (True, b)
         else let (granted, b) = AllowStateSwitch b in (\<not> granted, b))"

section \<open>Operation sequences\<close>

datatype budget_op =
    OpRecord gotime
  | OpCan bool gotime
  | OpSame account_id
  | OpCapacity
  | OpState
  | OpInPlace bool account_id bool gotime "string list"

fun apply_op :: "budget_op \<Rightarrow> Budget option \<Rightarrow> bool \<times> Budget option" where
  "apply_op (OpRecord now) b = (True, snd (RecordAttemptAt now b))"
| "apply_op (OpCan canceled now) b = CanAttempt canceled now b"
| "apply_op (OpSame a) b = AllowSameAccountRetry a b"
| "apply_op OpCapacity b = AllowCapacitySwitch b"
| "apply_op OpState b = AllowStateSwitch b"
| "apply_op (OpInPlace canceled a same now reason) b = ConsumeInPlaceRetry canceled a same now reason b"

definition budget_step :: "budget_op \<Rightarrow> Budget \<Rightarrow> bool \<times> Budget" where
  "budget_step c b = (fst (apply_op c (Some b)), the (snd (apply_op c (Some b))))"

fun claims_same :: "account_id \<Rightarrow> budget_op \<Rightarrow> bool" where
  "claims_same a (OpSame a') = (a' = a)"
| "claims_same a (OpInPlace canceled a' same now reason) = (same \<and> a' = a)"
| "claims_same a _ = False"

lemmas budget_op_defs = budget_step_def RecordAttemptAt_def CanAttempt_def AllowSameAccountRetry_def
  AllowCapacitySwitch_def AllowStateSwitch_def ConsumeInPlaceRetry_def Let_def

interpretation capacity_gate: eager_gate budget_step "\<lambda>c. c = OpCapacity" capacitySwitch "\<lambda>_. 1"
  by (unfold_locales; (case_tac c)?) (auto simp: budget_op_defs split: if_splits)

interpretation state_gate: eager_gate budget_step "\<lambda>c. c = OpState" stateSwitch "\<lambda>_. 1"
  by (unfold_locales; (case_tac c)?) (auto simp: budget_op_defs split: if_splits)

interpretation same_gate: gate budget_step "claims_same a" "\<lambda>b. sameAccount b a" "\<lambda>b. nat (sameAccountMax b)"
  for a
  by (unfold_locales; (case_tac c)?) (auto simp: budget_op_defs split: if_splits)

end
