(* ===== verification/Resil_Budget_Props.thy ===== *)
theory Resil_Budget_Props
  imports Resil_Budget
begin

text \<open>
  Properties of the request budget: the bound on upstream attempts over every run of a request,
  the permissions granted at most once, the bounds of waits and timeouts, and the meaning of the
  first-output model overrides.
\<close>

section \<open>A request and its attempts\<close>

text \<open>
  A request under a budget: the attempts started so far, those of them granted as in-place repairs
  of encrypted content, and whether an attempt is running. The first attempt starts with the
  request; a running attempt ends in the handler, which either starts the next one or ends the
  request, or is repeated in place; the switch and retry permissions may be asked at any time.
\<close>

record request =
  rb :: Budget
  rstarted :: nat
  rrepairs :: nat
  rrunning :: bool

inductive request_step :: "request \<Rightarrow> request \<Rightarrow> bool" where
  failed: "rrunning r \<Longrightarrow> charge_failed_attempt canceled now (Some (rb r)) = (stop, Some b) \<Longrightarrow>
    request_step r (r\<lparr>rb := b, rstarted := rstarted r + (if stop then 0 else 1), rrunning := \<not> stop\<rparr>)"
| state_repair: "rrunning r \<Longrightarrow> charge_state_repair canceled now (Some (rb r)) = (stop, Some b) \<Longrightarrow>
    request_step r (r\<lparr>rb := b, rstarted := rstarted r + (if stop then 0 else 1), rrunning := \<not> stop\<rparr>)"
| in_place: "rrunning r \<Longrightarrow> ConsumeInPlaceRetry canceled a same now reason (Some (rb r)) = (granted, Some b) \<Longrightarrow>
    request_step r (r\<lparr>rb := b, rstarted := rstarted r + (if granted then 1 else 0),
      rrepairs := rrepairs r + (if granted \<and> encrypted_repair reason then 1 else 0)\<rparr>)"
| same_account: "AllowSameAccountRetry a (Some (rb r)) = (ok, Some b) \<Longrightarrow> request_step r (r\<lparr>rb := b\<rparr>)"
| capacity: "AllowCapacitySwitch (Some (rb r)) = (ok, Some b) \<Longrightarrow> request_step r (r\<lparr>rb := b\<rparr>)"

definition request_start :: "Budget \<Rightarrow> request" where
  "request_start b = \<lparr>rb = b, rstarted = 1, rrepairs = 0, rrunning = True\<rparr>"

inductive_cases request_stepE: "request_step r r'"

definition request_inv :: "request \<Rightarrow> bool" where
  "request_inv r =
     (rstarted r = attempts (rb r) + (if rrunning r then 1 else 0) \<and>
      int (rstarted r) \<le> maxAttempts (rb r) + int (rrepairs r))"

lemma charge_failed_attempt_result:
  "charge_failed_attempt canceled now (Some b) = (stop, Some b') \<Longrightarrow>
     attempts b' = attempts b + 1 \<and> maxAttempts b' = maxAttempts b \<and> deadline b' = deadline b \<and>
     stop = (canceled \<or> maxAttempts b \<le> int (attempts b) + 1 \<or> window_closed b now)"
  by (auto simp: charge_failed_attempt_def RecordAttemptAt_def CanAttempt_def Let_def window_closed_def
      split: if_splits)

lemma charge_state_repair_result:
  "charge_state_repair canceled now (Some b) = (stop, Some b') \<Longrightarrow>
     attempts b' = attempts b + 1 \<and> maxAttempts b' = maxAttempts b \<and>
     (\<not> stop \<longrightarrow> int (attempts b) + 1 < maxAttempts b)"
  by (auto simp: charge_state_repair_def RecordAttemptAt_def CanAttempt_def AllowStateSwitch_def Let_def
      split: if_splits)

lemma ConsumeInPlaceRetry_result:
  "ConsumeInPlaceRetry canceled a same now reason (Some b) = (granted, Some b') \<Longrightarrow>
     attempts b' = attempts b + (if granted then 1 else 0) \<and> maxAttempts b' = maxAttempts b \<and>
     (granted \<longrightarrow> encrypted_repair reason \<or> int (attempts b) + 1 < maxAttempts b)"
  by (auto simp: ConsumeInPlaceRetry_def Let_def split: if_splits)

lemma request_step_inv:
  assumes "request_step r r'" "request_inv r"
  shows "request_inv r' \<and> maxAttempts (rb r') = maxAttempts (rb r)"
  using assms(1)
proof cases
  case (failed canceled now stop b)
  with assms(2) charge_failed_attempt_result [OF failed(3)] show ?thesis by (auto simp: request_inv_def)
next
  case (state_repair canceled now stop b)
  with assms(2) charge_state_repair_result [OF state_repair(3)] show ?thesis by (auto simp: request_inv_def)
next
  case (in_place canceled a same now reason granted b)
  with assms(2) ConsumeInPlaceRetry_result [OF in_place(3)] show ?thesis by (auto simp: request_inv_def)
next
  case (same_account a ok b)
  with assms(2) show ?thesis
    by (auto simp: request_inv_def AllowSameAccountRetry_def split: if_splits)
next
  case (capacity ok b)
  with assms(2) show ?thesis by (auto simp: request_inv_def AllowCapacitySwitch_def split: if_splits)
qed

lemma request_steps_inv:
  "request_step\<^sup>*\<^sup>* r r' \<Longrightarrow> request_inv r \<Longrightarrow> request_inv r' \<and> maxAttempts (rb r') = maxAttempts (rb r)"
  by (induction rule: rtranclp_induct) (auto dest: request_step_inv)

lemma NewBudget_Some:
  "NewBudget s k now = Some b \<Longrightarrow> attempts b = 0 \<and> maxAttempts b = MaxAttempts (sBudget (the s)) \<and>
     capacitySwitch b = 0 \<and> stateSwitch b = 0 \<and> sameAccount b = (\<lambda>_. 0) \<and>
     sameAccountMax b = SameAccountRetryMax (sBudget (the s)) \<and> started b = now"
  by (auto simp: NewBudget_def Let_def split: if_splits)

lemma Validate_MaxAttempts: "Validate s = [] \<Longrightarrow> 1 \<le> MaxAttempts (sBudget s) \<and> MaxAttempts (sBudget s) \<le> 10"
  by (drule Validate_budget) (simp add: validate_budget_def in_range_def)

text \<open>
  C8: under validated settings a request never starts more upstream attempts than
  \<open>budget.max_attempts\<close>, retries in place and account switches included, except for the granted
  repairs of encrypted content, each of which may add one attempt.
\<close>

theorem attempts_bounded:
  assumes "Validate s = []" "NewBudget (Some s) k now = Some b"
    and "request_step\<^sup>*\<^sup>* (request_start b) r"
  shows "int (rstarted r) \<le> MaxAttempts (sBudget s) + int (rrepairs r)"
proof -
  have "request_inv (request_start b)"
    using NewBudget_Some [OF assms(2)] Validate_MaxAttempts [OF assms(1)]
    by (simp add: request_inv_def request_start_def)
  with request_steps_inv [OF assms(3)] NewBudget_Some [OF assms(2)] show ?thesis
    by (simp add: request_inv_def request_start_def)
qed

definition budget0 :: Budget where
  "budget0 = the (NewBudget (Some Defaults) KindText (1000 * second))"

lemma budget0_new: "NewBudget (Some Defaults) KindText (1000 * second) = Some budget0"
  by (simp add: budget0_def NewBudget_def BudgetOn_def Defaults_def Let_def)

lemma budget0_simps [simp]:
  "kind budget0 = KindText" "started budget0 = 1000 * second" "maxAttempts budget0 = 4" "attempts budget0 = 0"
  "lastMark budget0 = 1000 * second" "lastAttempt budget0 = 0" "deadline budget0 = 1240 * second"
  "sameAccountMax budget0 = 1" "sameAccount budget0 = (\<lambda>_. 0)" "capacitySwitch budget0 = 0"
  "stateSwitch budget0 = 0" "exhausted budget0 = NotExhausted" "retryAfterCap budget0 = 60 * second"
  by (simp_all add: budget0_def NewBudget_def BudgetOn_def Defaults_def Let_def time_Add_def seconds_exact)

theorem attempts_bounded_witness:
  "\<exists>r. request_step\<^sup>*\<^sup>* (request_start budget0) r \<and> rstarted r = 2 \<and> (2::int) \<le> 4"
proof -
  obtain b where b: "charge_failed_attempt False (1010 * second) (Some budget0) = (False, Some b)"
    by (simp add: charge_failed_attempt_def RecordAttemptAt_def CanAttempt_def window_closed_def Let_def
        time_Sub_def minAttemptWindow_def)
  let ?r = "(request_start budget0)\<lparr>rb := b, rstarted := 2, rrunning := True\<rparr>"
  have "request_step (request_start budget0) ?r"
    using request_step.failed [of "request_start budget0" False "1010 * second" False b] b
    by (simp add: request_start_def numeral_2_eq_2)
  then have steps: "request_step\<^sup>*\<^sup>* (request_start budget0) ?r" by blast
  have "int (rstarted ?r) \<le> MaxAttempts (sBudget Defaults) + int (rrepairs ?r)"
    using attempts_bounded [OF Defaults_valid budget0_new steps] .
  then have "(2::int) \<le> 4" by (simp add: Defaults_def request_start_def)
  with steps show ?thesis by (intro exI [of _ ?r]) simp
qed

section \<open>Permissions\<close>

text \<open>
  over any sequence of calls on the budget of a request, the capacity switch and the state
  switch are each granted to the first caller that asks and to nobody else, and no account gets
  more same-account retries than \<open>budget.same_account_retry_max\<close>, whether they are asked for by the
  handler or consumed in place by a service.
\<close>

theorem switches_granted_once:
  assumes "NewBudget s k now = Some b"
  shows "grants budget_step (\<lambda>c. c = OpCapacity) ops b = min (length (filter (\<lambda>c. c = OpCapacity) ops)) 1 \<and>
    grants budget_step (\<lambda>c. c = OpState) ops b = min (length (filter (\<lambda>c. c = OpState) ops)) 1 \<and>
    grants budget_step (claims_same a) ops b \<le> nat (SameAccountRetryMax (sBudget (the s)))"
  using NewBudget_Some [OF assms] capacity_gate.grants_exact [of b ops] state_gate.grants_exact [of b ops]
    same_gate.grants_le_limit [of b a ops] by simp

theorem switches_granted_once_witness:
  "grants budget_step (\<lambda>c. c = OpCapacity) [OpCapacity, OpState, OpCapacity] budget0 = 1"
  using switches_granted_once [OF budget0_new, of "[OpCapacity, OpState, OpCapacity]"] by simp

section \<open>Waits and timeouts\<close>

lemma Remaining_text:
  "deadline b \<noteq> 0 \<Longrightarrow> Remaining now (Some b) = (if now < deadline b then time_Sub (deadline b) now else 1)"
  by (auto simp: Remaining_def Let_def time_Sub_def sat64_def)

lemma window_closed_iff: "window_closed b now \<longleftrightarrow> deadline b \<noteq> 0 \<and> deadline b < now + 2 * second"
  by (auto simp: window_closed_def minAttemptWindow_def time_Sub_def sat64_less_iff)

text \<open>
  the next attempt of a request with a pre-output deadline is started only while the client
  is there and at least two seconds before the deadline; a request without a deadline (images) is
  limited by the number of attempts alone.
\<close>

theorem next_attempt_admitted:
  "fst (charge_failed_attempt canceled now (Some b)) =
     (canceled \<or> maxAttempts b \<le> int (attempts b) + 1 \<or> (deadline b \<noteq> 0 \<and> deadline b < now + 2 * second)) \<and>
   Exhausted (snd (charge_failed_attempt canceled now (Some b))) =
     (if canceled then ExhaustedCanceled
      else if maxAttempts b \<le> int (attempts b) + 1 then ExhaustedAttempts
      else if deadline b \<noteq> 0 \<and> deadline b < now + 2 * second then ExhaustedDeadline
      else exhausted b)"
  unfolding window_closed_iff [symmetric]
  by (auto simp: charge_failed_attempt_def RecordAttemptAt_def CanAttempt_def Let_def window_closed_def
      Exhausted_def)

text \<open>
  a wait that the upstream asks for is never lengthened or made negative, respects the
  configured cap, and leaves two seconds for another attempt before the deadline, unless it is
  dropped to zero.
\<close>

theorem clamp_wait_bounds:
  assumes "0 < d" "0 < retryAfterCap b" "deadline b \<noteq> 0"
  shows "0 \<le> ClampWait d now (Some b) \<and> ClampWait d now (Some b) \<le> min d (retryAfterCap b) \<and>
    (ClampWait d now (Some b) = 0 \<or> now + ClampWait d now (Some b) + 2 * second \<le> deadline b)"
proof -
  have "deadline b \<le> now \<or> (0 < time_Sub (deadline b) now \<and> time_Sub (deadline b) now \<le> deadline b - now)"
    by (auto simp: time_Sub_def sat64_def)
  then show ?thesis
    using assms by (auto simp: ClampWait_def Remaining_text Let_def minAttemptWindow_def)
qed

theorem clamp_wait_bounds_witness:
  "ClampWait (90 * second) (1000 * second) (Some budget0) \<le> 60 * second"
  using clamp_wait_bounds [of "90 * second" budget0 "1000 * second"] by simp

text \<open>
  the timeout of one attempt, for a request with a deadline: the last candidate and an
  attempt without a tier get all the remaining time; any other attempt gets its tier, raised to
  the time already spent, within the remaining time. It is always positive, and an attempt
  started in time never outlives the deadline.
\<close>

theorem attempt_timeout_exact:
  assumes "deadline b \<noteq> 0"
  shows "AttemptTimeout tier lastCandidate now (Some b) =
      (if lastCandidate \<or> tier \<le> 0 then Remaining now (Some b)
       else min (max tier (time_Sub now (started b))) (Remaining now (Some b))) \<and>
    0 < AttemptTimeout tier lastCandidate now (Some b) \<and>
    (now < deadline b \<longrightarrow> now + AttemptTimeout tier lastCandidate now (Some b) \<le> deadline b)"
proof -
  let ?r = "Remaining now (Some b)"
  have r: "0 < ?r" "now < deadline b \<Longrightarrow> now + ?r \<le> deadline b"
    using assms by (auto simp: Remaining_text time_Sub_def sat64_def)
  have "AttemptTimeout tier lastCandidate now (Some b) =
      (if lastCandidate \<or> tier \<le> 0 then ?r else min (max tier (time_Sub now (started b))) ?r)"
    using r(1) by (auto simp: AttemptTimeout_def Let_def)
  with r show ?thesis by auto
qed

theorem attempt_timeout_exact_witness:
  "AttemptTimeout (20 * second) False (1050 * second) (Some budget0) = 50 * second"
  using attempt_timeout_exact [of budget0 "20 * second" False "1050 * second"]
  by (simp add: Remaining_text time_Sub_def)

section \<open>Model overrides\<close>

definition norm_key :: "string \<Rightarrow> string" where
  "norm_key k = ToLower (TrimSpace k)"

text \<open>
  How well an override key matches a model: an exact match beats every prefix, a longer prefix
  beats a shorter one.
\<close>

definition match_rank :: "string \<Rightarrow> string \<Rightarrow> nat option" where
  "match_rank model k =
     (if norm_key k = norm_key model then Some (length (norm_key model) + 1)
      else if suffix ''*'' (norm_key k) \<and> prefix (butlast (norm_key k)) (norm_key model)
      then Some (length (norm_key k) - 1) else None)"

definition ranks :: "string \<Rightarrow> (string \<times> int) list \<Rightarrow> nat list" where
  "ranks model kvs = List.map_filter (match_rank model) (map fst kvs)"

lemma ranks_simps [simp]:
  "ranks model [] = []"
  "ranks model ((k, v) # kvs) =
     (case match_rank model k of None \<Rightarrow> ranks model kvs | Some r \<Rightarrow> r # ranks model kvs)"
  by (simp_all add: ranks_def List.map_filter_simps split: option.split)

lemma set_ranks_iff: "r \<in> set (ranks model kvs) \<longleftrightarrow> (\<exists>(k, v) \<in> set kvs. match_rank model k = Some r)"
  by (induction kvs) (auto split: option.splits)

lemma TrimSuffix_star: "suffix ''*'' k \<Longrightarrow> TrimSuffix k ''*'' = butlast k"
  by (simp add: TrimSuffix_def butlast_conv_take)

lemma match_rank_le: "match_rank model k = Some r \<Longrightarrow> r \<le> length (norm_key model) + 1"
  by (auto simp: match_rank_def dest: prefix_length_le split: if_splits)

lemma override_step:
  "override_loop ((k, v) # kvs) (norm_key model) best bestLen found =
     (case match_rank model k of
        None \<Rightarrow> override_loop kvs (norm_key model) best bestLen found
      | Some r \<Rightarrow>
          if r = length (norm_key model) + 1 then (v, True)
          else if bestLen < int r then override_loop kvs (norm_key model) v (int r) True
          else override_loop kvs (norm_key model) best bestLen found)"
proof -
  have "length (norm_key k) - 1 \<noteq> length (norm_key model) + 1"
    if "prefix (butlast (norm_key k)) (norm_key model)"
    using prefix_length_le [OF that] by simp
  then show ?thesis
    by (auto simp: match_rank_def Let_def norm_key_def [symmetric] HasSuffix_def HasPrefix_def
        TrimSuffix_star split: if_splits)
qed

text \<open>The loop keeps the best match seen so far.\<close>

lemma override_loop_none:
  "\<forall>r \<in> set (ranks model kvs). int r \<le> bestLen \<Longrightarrow> bestLen \<le> int (length (norm_key model)) \<Longrightarrow>
   override_loop kvs (norm_key model) best bestLen found = (best, found)"
proof (induction kvs)
  case (Cons kv kvs)
  obtain k v where kv: "kv = (k, v)" by force
  from Cons show ?case unfolding kv override_step by (cases "match_rank model k") auto
qed simp

lemma override_loop_best:
  "\<exists>r \<in> set (ranks model kvs). bestLen < int r \<Longrightarrow> bestLen \<le> int (length (norm_key model)) \<Longrightarrow>
   \<exists>k v r. override_loop kvs (norm_key model) best bestLen found = (v, True) \<and> (k, v) \<in> set kvs \<and>
     match_rank model k = Some r \<and> bestLen < int r \<and> (\<forall>r' \<in> set (ranks model kvs). r' \<le> r)"
proof (induction kvs arbitrary: best bestLen found)
  case (Cons kv kvs)
  obtain k v where kv: "kv = (k, v)" by force
  show ?case
  proof (cases "match_rank model k")
    case None
    with Cons.prems Cons.IH [of bestLen best found] show ?thesis
      unfolding kv override_step by auto
  next
    case (Some r)
    have all: "r' \<le> length (norm_key model) + 1" if "r' \<in> set (ranks model kvs)" for r'
      using that match_rank_le by (auto simp: set_ranks_iff)
    consider "r = length (norm_key model) + 1"
      | "r \<noteq> length (norm_key model) + 1" "bestLen < int r" "\<forall>r' \<in> set (ranks model kvs). int r' \<le> int r"
      | "r \<noteq> length (norm_key model) + 1" "bestLen < int r" "\<exists>r' \<in> set (ranks model kvs). int r < int r'"
      | "r \<noteq> length (norm_key model) + 1" "int r \<le> bestLen" by force
    then show ?thesis
    proof cases
      case 1
      with Some all Cons.prems(2) show ?thesis
        unfolding kv override_step by (intro exI [of _ k] exI [of _ v] exI [of _ r]) auto
    next
      case 2
      with match_rank_le [OF Some] have "override_loop kvs (norm_key model) v (int r) True = (v, True)"
        by (intro override_loop_none) auto
      with 2 Some show ?thesis
        unfolding kv override_step by (intro exI [of _ k] exI [of _ v] exI [of _ r]) auto
    next
      case 3
      then obtain k' v' r' where "override_loop kvs (norm_key model) v (int r) True = (v', True)"
          "(k', v') \<in> set kvs" "match_rank model k' = Some r'" "int r < int r'"
          "\<forall>r'' \<in> set (ranks model kvs). r'' \<le> r'"
        using Cons.IH [of "int r" v True] match_rank_le [OF Some] by auto
      with 3 Some show ?thesis
        unfolding kv override_step by (intro exI [of _ k'] exI [of _ v'] exI [of _ r']) auto
    next
      case 4
      then obtain k' v' r' where "override_loop kvs (norm_key model) best bestLen found = (v', True)"
          "(k', v') \<in> set kvs" "match_rank model k' = Some r'" "bestLen < int r'"
          "\<forall>r'' \<in> set (ranks model kvs). r'' \<le> r'"
        using Cons.IH [of bestLen best found] Cons.prems Some by (auto simp: kv)
      with 4 Some show ?thesis
        unfolding kv override_step by (intro exI [of _ k'] exI [of _ v'] exI [of _ r']) auto
    qed
  qed
qed simp

lemma modelOverride_loop:
  "norm_key model \<noteq> [] \<Longrightarrow> modelOverride kvs model = override_loop kvs (norm_key model) 0 (-1) False"
  by (cases kvs) (auto simp: modelOverride_def norm_key_def Let_def)

lemma override_best_match:
  assumes "TrimSpace model \<noteq> []"
  shows "snd (modelOverride kvs model) = (ranks model kvs \<noteq> []) \<and>
    (ranks model kvs \<noteq> [] \<longrightarrow>
       (\<exists>k. (k, fst (modelOverride kvs model)) \<in> set kvs \<and>
          match_rank model k = Some (Max (set (ranks model kvs)))))"
proof -
  have m: "norm_key model \<noteq> []" using assms by (simp add: norm_key_def)
  show ?thesis
  proof (cases "ranks model kvs = []")
    case True
    then show ?thesis
      using override_loop_none [of model kvs "-1" 0 False] by (simp add: modelOverride_loop [OF m])
  next
    case False
    then obtain k v r where k: "override_loop kvs (norm_key model) 0 (-1) False = (v, True)"
        "(k, v) \<in> set kvs" "match_rank model k = Some r" "\<forall>r' \<in> set (ranks model kvs). r' \<le> r"
      using override_loop_best [of model kvs "-1" 0 False] by (cases "ranks model kvs") auto
    then have "Max (set (ranks model kvs)) = r" by (intro Max_eqI) (auto simp: set_ranks_iff)
    with False k show ?thesis by (auto simp: modelOverride_loop [OF m])
  qed
qed

text \<open>
  \<open>modelOverride\<close> finds an entry exactly when some key matches the model, and then it returns
  the value of a best match: an exact key, else a key with the longest prefix.
\<close>

theorem override_longest_prefix:
  assumes "TrimSpace model \<noteq> []"
  shows "snd (modelOverride kvs model) = (ranks model kvs \<noteq> []) \<and>
    (ranks model kvs \<noteq> [] \<longrightarrow>
       (\<exists>k. (k, fst (modelOverride kvs model)) \<in> set kvs \<and>
          match_rank model k = Some (Max (set (ranks model kvs)))))"
  using assms by (rule override_best_match)

theorem override_longest_prefix_witness:
  "snd (modelOverride [(''gpt-5*'', 30), (''gpt-5-codex*'', 60)] ''GPT-5-Codex-Max'')"
proof -
  have "TrimSpace ''GPT-5-Codex-Max'' \<noteq> []" "match_rank ''GPT-5-Codex-Max'' ''gpt-5*'' = Some 5" by code_simp+
  then show ?thesis
    using override_longest_prefix [of "''GPT-5-Codex-Max''" "[(''gpt-5*'', 30), (''gpt-5-codex*'', 60)]"]
    by (auto split: option.split)
qed

lemma match_rank_inj:
  assumes "match_rank model k = Some r" "match_rank model k' = Some r"
  shows "norm_key k = norm_key k'"
proof -
  have pre: "length (norm_key x) - 1 \<le> length (norm_key model)"
    if "prefix (butlast (norm_key x)) (norm_key model)" for x
    using prefix_length_le [OF that] by simp
  show ?thesis
  proof (cases "r = length (norm_key model) + 1")
    case True
    then show ?thesis using assms pre [of k] pre [of k'] by (auto simp: match_rank_def split: if_splits)
  next
    case False
    with assms have s: "suffix ''*'' (norm_key k)" "suffix ''*'' (norm_key k')"
      and p: "prefix (butlast (norm_key k)) (norm_key model)" "prefix (butlast (norm_key k')) (norm_key model)"
      and l: "length (norm_key k) - 1 = length (norm_key k') - 1"
      by (auto simp: match_rank_def split: if_splits)
    from p l have "butlast (norm_key k) = butlast (norm_key k')"
      by (metis length_butlast prefix_same_cases prefix_order.eq_iff append_eq_conv_conj prefix_def take_all order_refl)
    with s show ?thesis by (auto simp: suffix_def)
  qed
qed

text \<open>
  the result does not depend on the order in which the runtime enumerates the map, provided
  that no two keys agree up to case and outer white space.
\<close>

theorem override_order_independent:
  assumes "mset kvs = mset kvs'" "distinct (map (\<lambda>(k, v). norm_key k) kvs)"
  shows "modelOverride kvs model = modelOverride kvs' model"
proof (cases "TrimSpace model = []")
  case True
  then show ?thesis by (simp add: modelOverride_def)
next
  case False
  have st: "set kvs = set kvs'" using assms(1) by (rule mset_eq_setD)
  then have rk: "set (ranks model kvs) = set (ranks model kvs')" by (auto simp: set_ranks_iff)
  then have emp: "ranks model kvs = [] \<longleftrightarrow> ranks model kvs' = []" by (metis set_empty)
  note a = override_best_match [OF False, of kvs] and b = override_best_match [OF False, of kvs']
  show ?thesis
  proof (cases "ranks model kvs = []")
    case True
    moreover have "norm_key model \<noteq> []" using False by (simp add: norm_key_def)
    ultimately show ?thesis
      using override_loop_none [of model kvs "-1" 0 False] override_loop_none [of model kvs' "-1" 0 False] emp
      by (simp add: modelOverride_loop)
  next
    case ne: False
    obtain k k' where k: "(k, fst (modelOverride kvs model)) \<in> set kvs"
        "match_rank model k = Some (Max (set (ranks model kvs)))"
      and k': "(k', fst (modelOverride kvs' model)) \<in> set kvs"
        "match_rank model k' = Some (Max (set (ranks model kvs)))"
      using a b ne emp rk st by auto
    from k(2) k'(2) have "norm_key k = norm_key k'" by (rule match_rank_inj)
    with k(1) k'(1) assms(2) have "fst (modelOverride kvs model) = fst (modelOverride kvs' model)"
      by (auto simp: distinct_map inj_on_def)
    with a b ne emp show ?thesis by (simp add: prod_eq_iff)
  qed
qed

theorem override_order_independent_witness:
  "modelOverride [(''a'', 10), (''b'', 20)] ''b'' = modelOverride [(''b'', 20), (''a'', 10)] ''b''"
proof -
  have "norm_key ''a'' \<noteq> norm_key ''b''" by code_simp
  then show ?thesis
    using override_order_independent [of "[(''a'', 10), (''b'', 20)]" "[(''b'', 20), (''a'', 10)]" "''b''"]
    by (simp add: add_mset_commute)
qed

text \<open>
  The proviso is not checked: validation accepts two keys that differ only in case, and then
  the timeout of the model depends on the enumeration order, which the Go runtime randomises.
\<close>

lemma override_order_matters:
  "validate_budget ((sBudget Defaults)\<lparr>ModelOverrides := [(''GPT-5'', 10), (''gpt-5'', 20)]\<rparr>) = [] \<and>
   modelOverride [(''GPT-5'', 10), (''gpt-5'', 20)] ''gpt-5'' = (10, True) \<and>
   modelOverride [(''gpt-5'', 20), (''GPT-5'', 10)] ''gpt-5'' = (20, True)"
proof (intro conjI)
  have l: "ToLower (TrimSpace ''GPT-5'') = ''gpt-5''" "ToLower (TrimSpace ''gpt-5'') = ''gpt-5''" by code_simp+
  then have t: "TrimSpace ''GPT-5'' \<noteq> []" "TrimSpace ''gpt-5'' \<noteq> []" by (metis ToLower_Nil_iff list.distinct(1))+
  show "validate_budget ((sBudget Defaults)\<lparr>ModelOverrides := [(''GPT-5'', 10), (''gpt-5'', 20)]\<rparr>) = []"
    by (simp add: validate_budget_def Defaults_def in_range_def budget_timeouts_def t)
  show "modelOverride [(''GPT-5'', 10), (''gpt-5'', 20)] ''gpt-5'' = (10, True)"
    "modelOverride [(''gpt-5'', 20), (''GPT-5'', 10)] ''gpt-5'' = (20, True)"
    by (simp_all add: modelOverride_def Let_def l)
qed

lemma override_loop_value:
  "override_loop kvs m best bestLen found = (v, f) \<Longrightarrow> v = best \<and> f = found \<or> f \<and> v \<in> snd ` set kvs"
  by (induction kvs m best bestLen found rule: override_loop.induct) (auto simp: Let_def split: if_splits)

lemma modelOverride_value: "modelOverride kvs model = (v, True) \<Longrightarrow> v \<in> snd ` set kvs"
  by (auto simp: modelOverride_def Let_def dest: override_loop_value split: if_splits)

text \<open>
  under validated settings the first-output timeout of every model and effort lies between
  five seconds and the pre-output budget of the request.
\<close>

theorem first_output_tier_bounds:
  assumes "Validate s = []"
  shows "5 * second \<le> FirstOutputTier (Some s) model effort \<and>
    FirstOutputTier (Some s) model effort \<le> PreOutputBudgetSeconds (sBudget s) * second"
proof -
  let ?b = "sBudget s" and ?t = "FirstOutputTimeoutSeconds (sBudget s)"
  have v: "validate_budget ?b = []" using assms by (rule Validate_budget)
  have pre: "PreOutputBudgetSeconds ?b \<le> 290" using v by (simp add: validate_budget_def in_range_def)
  have tiers: "\<forall>x \<in> {FO_Default ?t, FO_High ?t, FO_XHigh ?t, FO_Max ?t}. 5 \<le> x \<and> x \<le> PreOutputBudgetSeconds ?b"
    using v by (simp add: validate_budget_def in_range_def budget_timeouts_def)
  have over: "\<forall>x \<in> snd ` set (ModelOverrides ?b). 5 \<le> x \<and> x \<le> PreOutputBudgetSeconds ?b"
    using v by (auto simp: validate_budget_def in_range_def)
  have "\<exists>x. FirstOutputTier (Some s) model effort = seconds x \<and> 5 \<le> x \<and> x \<le> PreOutputBudgetSeconds ?b"
    using tiers over modelOverride_value [of "ModelOverrides ?b" model]
    by (cases "modelOverride (ModelOverrides ?b) model")
      (auto simp: FirstOutputTier_def Let_def split: bool.splits)
  then show ?thesis using pre by (auto simp: seconds_exact)
qed

theorem first_output_tier_bounds_witness:
  "FirstOutputTier (Some Defaults) ''gpt-5'' ''high'' \<le> 240 * second"
  using first_output_tier_bounds [OF Defaults_valid, of "''gpt-5''" "''high''"] by (simp add: Defaults_def)

end
