(* ===== verification/Resil_Storm.thy ===== *)
theory Resil_Storm
  imports Resil_Settings "HOL-Library.AList"
begin

text \<open>
  Storm protection (\<open>resilience/stormguard.go\<close>): the negative cache of "no available account"
  answers, the fast fail of identical 503 answers per API key, the cap of failed turns per
  conversation, and the small formatting and clamping helpers.

  Go maps are association lists with distinct keys: \<open>map_of\<close> is the lookup, \<open>AList.update\<close> and
  \<open>AList.delete\<close> the assignment and \<open>delete\<close>, \<open>length\<close> is \<open>len\<close>, and a loop that deletes the
  entries with some property is a \<open>filter\<close>. Each method holds its object's mutex, so it is one
  atomic step; the nil receivers of the code return the zero value and change nothing.
\<close>

section \<open>Cached responses\<close>

record CachedResponse =
  cr_Status :: int
  cr_Body :: string
  cr_Header :: "(string \<times> string list) list"
  RetryAt :: gotime
  cr_Model :: string
  cr_Scope :: string

definition RetryAfterSeconds :: "CachedResponse \<Rightarrow> gotime \<Rightarrow> int" where
  "RetryAfterSeconds r now =
     (if IsZero (RetryAt r) then 0
      else let secs = go_div (wrap64 (wrap64 (time_Sub (RetryAt r) now + second) - 1)) second
        in if secs < 1 then 1 else secs)"

text \<open>\<open>itoa64\<close>: the digits are produced from the least significant one; a negation that
  overflows stays negative, and then the loop does not run.\<close>

function itoa_digits :: "int \<Rightarrow> string \<Rightarrow> string" where
  "itoa_digits v b = (if 0 < v then itoa_digits (v div 10) (char_of (48 + nat (v mod 10)) # b) else b)"
  by pat_completeness auto
termination by (relation "measure (\<lambda>(v, b). nat v)") auto

declare itoa_digits.simps [simp del]

definition itoa64 :: "int \<Rightarrow> string" where
  "itoa64 v =
     (if v = 0 then ''0''
      else let neg = v < 0;
               v = (if neg then wrap64 (- v) else v);
               b = itoa_digits v []
        in if neg then ''-'' @ b else b)"

section \<open>Negative cache\<close>

record negEntry =
  neg_resp :: CachedResponse
  expires :: gotime
  neg_groupID :: int

type_synonym NegativeCache = "(string \<times> negEntry) list"

definition NUL :: string where "NUL = [CHR 0x00]"

definition NegativeKey :: "int \<Rightarrow> string \<Rightarrow> string \<Rightarrow> string" where
  "NegativeKey groupID platform model = platform @ NUL @ model @ NUL @ itoa64 groupID"

definition neg_Get :: "string \<Rightarrow> gotime \<Rightarrow> NegativeCache \<Rightarrow> CachedResponse option \<times> NegativeCache" where
  "neg_Get key now c =
     (case map_of c key of
        None \<Rightarrow> (None, c)
      | Some e \<Rightarrow>
          if \<not> time_Before now (expires e) then (None, AList.delete key c)
          else (Some (neg_resp e), c))"

text \<open>The room that an insertion makes in a table of more than 4096 entries: the stale ones go
  first, and if that is not enough everything goes.\<close>

definition make_room :: "('v \<Rightarrow> bool) \<Rightarrow> ('k \<times> 'v) list \<Rightarrow> ('k \<times> 'v) list" where
  "make_room stale m =
     (if 4096 < length m
      then (let m = filter (\<lambda>(k, e). \<not> stale e) m in if 4096 < length m then [] else m)
      else m)"

definition neg_Put ::
  "string \<Rightarrow> int \<Rightarrow> CachedResponse \<Rightarrow> duration \<Rightarrow> gotime \<Rightarrow> NegativeCache \<Rightarrow> NegativeCache" where
  "neg_Put key groupID resp ttl now c =
     (if ttl \<le> 0 then c
      else AList.update key \<lparr>neg_resp = resp, expires = time_Add now ttl, neg_groupID = groupID\<rparr>
        (make_room (\<lambda>e. \<not> time_Before now (expires e)) c))"

definition InvalidateGroup :: "int \<Rightarrow> NegativeCache \<Rightarrow> NegativeCache" where
  "InvalidateGroup groupID c =
     (if groupID \<le> 0 then [] else filter (\<lambda>(k, e). neg_groupID e \<noteq> groupID) c)"

section \<open>Fast fail\<close>

record fastFailKey =
  signature :: string
  times :: "gotime list"
  ff_resp :: CachedResponse
  tripUntil :: gotime
  lastSeen :: gotime

type_synonym FastFailTable = "(int \<times> fastFailKey) list"

definition Signature :: "int \<Rightarrow> string \<Rightarrow> string \<Rightarrow> string" where
  "Signature status errType message = itoa64 status @ NUL @ errType @ NUL @ message"

definition gcLocked :: "gotime \<Rightarrow> duration \<Rightarrow> FastFailTable \<Rightarrow> FastFailTable" where
  "gcLocked now window f =
     (if length f < 2048 then f
      else filter (\<lambda>(i, k). \<not> (wrap64 (2 * window) < time_Sub now (lastSeen k) \<and>
             (IsZero (tripUntil k) \<or> \<not> time_Before now (tripUntil k)))) f)"

definition Observe ::
  "int \<Rightarrow> string \<Rightarrow> CachedResponse \<Rightarrow> duration \<Rightarrow> int \<Rightarrow> gotime \<Rightarrow> FastFailTable \<Rightarrow> bool \<times> FastFailTable" where
  "Observe apiKeyID sig resp window threshold now f =
     (if apiKeyID \<le> 0 \<or> threshold < 1 then (False, f)
      else
        let f = gcLocked now window f;
            fresh = \<lparr>signature = sig, times = [], ff_resp = resp, tripUntil = 0, lastSeen = 0\<rparr>;
            k = (case map_of f apiKeyID of None \<Rightarrow> fresh | Some k \<Rightarrow> if signature k \<noteq> sig then fresh else k);
            cut = time_Add now (wrap64 (- window));
            ts = filter (\<lambda>t. time_After t cut) (times k) @ [now];
            k = k\<lparr>lastSeen := now, times := ts, ff_resp := resp\<rparr>
        in if threshold \<le> int (length ts)
           then (True, AList.update apiKeyID (k\<lparr>tripUntil := time_Add now window\<rparr>) f)
           else (False, AList.update apiKeyID k f))"

definition ff_Check :: "int \<Rightarrow> gotime \<Rightarrow> FastFailTable \<Rightarrow> CachedResponse option \<times> FastFailTable" where
  "ff_Check apiKeyID now f =
     (if apiKeyID \<le> 0 then (None, f)
      else (case map_of f apiKeyID of
          None \<Rightarrow> (None, f)
        | Some k \<Rightarrow>
            if IsZero (tripUntil k) \<or> \<not> time_Before now (tripUntil k) then (None, f)
            else if \<not> IsZero (RetryAt (ff_resp k)) \<and> \<not> time_Before now (RetryAt (ff_resp k))
            then (None, AList.update apiKeyID (k\<lparr>tripUntil := 0, times := []\<rparr>) f)
            else (Some (ff_resp k), f)))"

definition ff_Reset :: "int \<Rightarrow> FastFailTable \<Rightarrow> FastFailTable" where
  "ff_Reset apiKeyID f = AList.delete apiKeyID f"

section \<open>Failed turns\<close>

record turnCapEntry =
  count :: int
  last_fail :: gotime

type_synonym TurnCapTable = "(string \<times> turnCapEntry) list"

definition TurnKey :: "int \<Rightarrow> int \<Rightarrow> string \<Rightarrow> string \<Rightarrow> string" where
  "TurnKey apiKeyID groupID model sessionHash =
     itoa64 apiKeyID @ NUL @ itoa64 groupID @ NUL @ model @ NUL @ sessionHash"

definition Fail :: "string \<Rightarrow> duration \<Rightarrow> gotime \<Rightarrow> TurnCapTable \<Rightarrow> int \<times> TurnCapTable" where
  "Fail key window now t =
     (if key = [] then (0, t)
      else
        let t = make_room (\<lambda>e. window < time_Sub now (last_fail e)) t;
            e = (case map_of t key of None \<Rightarrow> \<lparr>count = 0, last_fail = 0\<rparr> | Some e \<Rightarrow> e);
            e = (if window < time_Sub now (last_fail e) then e\<lparr>count := 0\<rparr> else e);
            e = e\<lparr>count := count e + 1, last_fail := now\<rparr>
        in (count e, AList.update key e t))"

definition turn_Reset :: "string \<Rightarrow> TurnCapTable \<Rightarrow> TurnCapTable" where
  "turn_Reset key t = (if key = [] then t else AList.delete key t)"

section \<open>Retry delays\<close>

definition ClampRetryAfter :: "duration \<Rightarrow> int \<Rightarrow> int \<Rightarrow> int" where
  "ClampRetryAfter d lo hi =
     (let secs = go_div (wrap64 (wrap64 (d + second) - 1)) second;
          secs = (if secs < lo then lo else secs)
      in if hi < secs then hi else secs)"

text \<open>\<open>rnd\<close> is the draw of \<open>rand.IntN(2*spread+1)\<close>, so \<open>0 \<le> rnd \<le> 2*spread\<close>.\<close>

definition JitterSeconds :: "int \<Rightarrow> int \<Rightarrow> int \<Rightarrow> int" where
  "JitterSeconds rnd secs spread =
     (let secs = (if 0 < spread then secs + rnd - spread else secs) in if secs < 1 then 1 else secs)"

end
