(* ===== verification/Resil_Storm_Props.thy ===== *)
theory Resil_Storm_Props
  imports Resil_Storm
begin

text \<open>
  Properties of storm protection: the negative cache answers only with what was stored last and is
  still valid, the fast fail trips exactly at its threshold, the turn cap counts consecutive
  failures, and the keys that separate conversations cannot collide.
\<close>

section \<open>Tables\<close>

lemma map_of_filter_value:
  "distinct (map fst m) \<Longrightarrow>
   map_of (filter (\<lambda>(k, e). P e) m) key =
     (case map_of m key of None \<Rightarrow> None | Some e \<Rightarrow> if P e then Some e else None)"
proof (induction m)
  case (Cons kv m)
  obtain k e where kv: "kv = (k, e)" by force
  from Cons.prems have "key = k \<Longrightarrow> map_of m key = None" by (auto simp: kv map_of_eq_None_iff)
  with Cons show ?case by (auto simp: kv split: option.splits)
qed simp

lemma distinct_filter_keys: "distinct (map fst m) \<Longrightarrow> distinct (map fst (filter P m))"
  by (rule distinct_map_filter)

lemma length_update: "length (AList.update k v m) \<le> Suc (length m)"
  by (induction m) auto

lemma length_update_same: "map_of m k = Some x \<Longrightarrow> length (AList.update k v m) = length m"
  by (induction m) auto

lemma make_room_cases: "make_room stale m = m \<or> make_room stale m = filter (\<lambda>(k, e). \<not> stale e) m \<or> make_room stale m = []"
  by (auto simp: make_room_def Let_def)

lemma length_make_room: "length (make_room stale m) \<le> 4096"
  by (auto simp: make_room_def Let_def)

lemma distinct_make_room: "distinct (map fst m) \<Longrightarrow> distinct (map fst (make_room stale m))"
  by (auto simp: make_room_def Let_def distinct_filter_keys)

lemma map_of_make_room:
  assumes "distinct (map fst m)"
  shows "map_of (make_room stale m) key \<in> {None, map_of m key}"
proof -
  have "map_of (filter (\<lambda>(k, e). \<not> stale e) m) key \<in> {None, map_of m key}"
    unfolding map_of_filter_value [OF assms, of "\<lambda>e. \<not> stale e"] by (auto split: option.split)
  then show ?thesis using make_room_cases [of stale m] by auto
qed

lemma make_room_small: "length m \<le> 4096 \<Longrightarrow> make_room stale m = m"
  by (simp add: make_room_def)

section \<open>Negative cache\<close>

datatype neg_op =
    NGet string gotime
  | NPut string int CachedResponse duration gotime
  | NInvalidate int

fun neg_step :: "neg_op \<Rightarrow> NegativeCache \<Rightarrow> NegativeCache" where
  "neg_step (NGet key now) c = snd (neg_Get key now c)"
| "neg_step (NPut key g r ttl now) c = neg_Put key g r ttl now c"
| "neg_step (NInvalidate g) c = InvalidateGroup g c"

text \<open>The entry a cache of unlimited size and without expiry would hold, from the operations with
  the newest first.\<close>

fun neg_stored :: "string \<Rightarrow> neg_op list \<Rightarrow> negEntry option" where
  "neg_stored key [] = None"
| "neg_stored key (NGet k now # ops) = neg_stored key ops"
| "neg_stored key (NPut k g r ttl now # ops) =
     (if ttl \<le> 0 \<or> k \<noteq> key then neg_stored key ops
      else Some \<lparr>neg_resp = r, expires = now + ttl, neg_groupID = g\<rparr>)"
| "neg_stored key (NInvalidate g # ops) =
     (case neg_stored key ops of
        None \<Rightarrow> None
      | Some e \<Rightarrow> if g \<le> 0 \<or> neg_groupID e = g then None else Some e)"

definition neg_ok :: "NegativeCache \<Rightarrow> bool" where
  "neg_ok c = (distinct (map fst c) \<and> length c \<le> 4097)"

lemma neg_step_ok: "neg_ok c \<Longrightarrow> neg_ok (neg_step a c)"
proof (cases a)
  case (NGet key now)
  assume "neg_ok c"
  moreover have "length (AList.delete key c) \<le> length c" by (simp add: AList.delete_eq)
  ultimately show ?thesis using NGet
    by (auto simp: neg_ok_def neg_Get_def distinct_delete split: option.split)
next
  case (NPut key g r ttl now)
  assume ok: "neg_ok c"
  let ?m = "make_room (\<lambda>e. \<not> time_Before now (expires e)) c"
  have "length (AList.update key v ?m) \<le> 4097" for v
    using length_update [of key v ?m] length_make_room [of "\<lambda>e. \<not> time_Before now (expires e)" c] by linarith
  with ok NPut show ?thesis by (auto simp: neg_ok_def neg_Put_def distinct_update distinct_make_room)
next
  case (NInvalidate g)
  assume ok: "neg_ok c"
  then have "length (filter P c) \<le> 4097" for P unfolding neg_ok_def
    by (meson length_filter_le order.trans)
  with ok NInvalidate show ?thesis by (auto simp: neg_ok_def InvalidateGroup_def distinct_filter_keys)
qed

lemma neg_step_stored:
  assumes "distinct (map fst c)" "map_of c key \<in> {None, neg_stored key ops}"
  shows "map_of (neg_step a c) key \<in> {None, neg_stored key (a # ops)}"
proof (cases a)
  case (NGet k now)
  with assms show ?thesis
    by (auto simp: neg_Get_def delete_conv fun_upd_def split: option.split)
next
  case (NPut k g r ttl now)
  with assms(2) map_of_make_room [OF assms(1), of "\<lambda>e. \<not> time_Before now (expires e)" key]
  show ?thesis by (auto simp: neg_Put_def update_conv time_Add_def)
next
  case (NInvalidate g)
  have "map_of (filter (\<lambda>(k, e). neg_groupID e \<noteq> g) c) key =
      (case map_of c key of None \<Rightarrow> None | Some e \<Rightarrow> if neg_groupID e \<noteq> g then Some e else None)"
    using assms(1) by (rule map_of_filter_value)
  with assms(2) NInvalidate show ?thesis by (auto simp: InvalidateGroup_def split: option.split)
qed

lemma neg_run_stored:
  "neg_ok (fold neg_step ops []) \<and> map_of (fold neg_step ops []) key \<in> {None, neg_stored key (rev ops)}"
proof (induction ops rule: rev_induct)
  case (snoc a ops)
  then show ?case using neg_step_ok neg_step_stored [of "fold neg_step ops []" key "rev ops" a]
    by (auto simp: neg_ok_def simp del: neg_stored.simps)
qed (simp add: neg_ok_def)

definition answer0 :: CachedResponse where
  "answer0 = \<lparr>cr_Status = 503, cr_Body = ''no account'', cr_Header = [], RetryAt = 40 * second,
     cr_Model = ''gpt'', cr_Scope = ''responses''\<rparr>"

text \<open>What the table should answer: the response of the last \<open>Put\<close> while it is live.\<close>

definition neg_live :: "string \<Rightarrow> gotime \<Rightarrow> neg_op list \<Rightarrow> CachedResponse option" where
  "neg_live key now ops =
     (case neg_stored key (rev ops) of
        None \<Rightarrow> None
      | Some e \<Rightarrow> if now < expires e then Some (neg_resp e) else None)"

text \<open>
  whatever calls the process made, a lookup in the negative cache answers nothing, or the
  response of the last \<open>Put\<close> for its key, if that has not expired and its group has not been
  invalidated since; right after a \<open>Put\<close> with a positive time to live it does answer. The table
  never exceeds 4097 entries.
\<close>

theorem negative_cache_sound:
  assumes "0 < ttl"
  shows "fst (neg_Get key now (fold neg_step ops [])) \<in> {None, neg_live key now ops} \<and>
    fst (neg_Get key now (fold neg_step (ops @ [NPut key g r ttl t]) [])) =
      (if now < t + ttl then Some r else None) \<and>
    length (fold neg_step ops []) \<le> 4097"
proof -
  have get: "fst (neg_Get key now c) =
      (case map_of c key of None \<Rightarrow> None | Some e \<Rightarrow> if now < expires e then Some (neg_resp e) else None)" for c
    by (simp add: neg_Get_def time_Before_def split: option.split)
  have "fst (neg_Get key now (fold neg_step ops [])) \<in> {None, neg_live key now ops}"
    using neg_run_stored [of ops key] by (auto simp: get neg_live_def)
  moreover have "fst (neg_Get key now (fold neg_step (ops @ [NPut key g r ttl t]) [])) =
      (if now < t + ttl then Some r else None)"
    using assms by (simp add: get neg_Put_def update_conv time_Add_def)
  moreover have "length (fold neg_step ops []) \<le> 4097"
    using neg_run_stored [of ops key] by (simp add: neg_ok_def)
  ultimately show ?thesis by blast
qed

theorem negative_cache_sound_witness:
  "fst (neg_Get ''k'' 9 (fold neg_step ([] @ [NPut ''k'' 7 answer0 5 6]) [])) = Some answer0"
  using negative_cache_sound [of 5 "''k''" 9 "[]" 7 answer0 6] by simp

section \<open>Fast fail\<close>

definition observe :: "int \<Rightarrow> string \<Rightarrow> CachedResponse \<Rightarrow> duration \<Rightarrow> int \<Rightarrow> gotime \<Rightarrow> FastFailTable \<Rightarrow> FastFailTable" where
  "observe a sig r w n t f = snd (Observe a sig r w n t f)"

lemma Observe_small:
  assumes "0 < a" "1 \<le> n" "length f < 2048" "min_int64 < w" "w \<le> max_int64"
  shows "Observe a sig r w n t f =
    (let ts = (case map_of f a of None \<Rightarrow> [] | Some k \<Rightarrow>
           if signature k \<noteq> sig then [] else filter (\<lambda>x. t - w < x) (times k)) @ [t];
         trip = (case map_of f a of None \<Rightarrow> 0 | Some k \<Rightarrow> if signature k \<noteq> sig then 0 else tripUntil k)
     in (n \<le> int (length ts),
         AList.update a \<lparr>signature = sig, times = ts, ff_resp = r,
           tripUntil = (if n \<le> int (length ts) then t + w else trip), lastSeen = t\<rparr> f))"
proof -
  have "wrap64 (- w) = - w" using assms(4,5) by (intro wrap64_id) auto
  with assms(1-3) show ?thesis
    by (cases "map_of f a") (auto simp: Observe_def gcLocked_def Let_def time_Add_def time_After_def
        intro!: arg_cong [where f = "\<lambda>k. AList.update a k f"] fastFailKey.equality)
qed

lemma refilter_times:
  assumes "ts \<noteq> []" "last ts \<le> (t :: int)"
  shows "filter (\<lambda>x. t - w < x) (filter (\<lambda>x. last ts - w < x) (butlast ts) @ [last ts]) = filter (\<lambda>x. t - w < x) ts"
proof -
  have "filter (\<lambda>x. t - w < x) (filter (\<lambda>x. last ts - w < x) (butlast ts)) = filter (\<lambda>x. t - w < x) (butlast ts)"
    unfolding filter_filter using assms(2) by (intro filter_cong) auto
  then have "filter (\<lambda>x. t - w < x) (filter (\<lambda>x. last ts - w < x) (butlast ts) @ [last ts]) =
      filter (\<lambda>x. t - w < x) (butlast ts @ [last ts])"
    by (simp only: filter_append)
  then show ?thesis unfolding append_butlast_last_id [OF assms(1)] .
qed

lemma observed_times:
  assumes "0 < a" "1 \<le> n" "length (ff_Reset a f) < 2047" "0 \<le> w" "w \<le> max_int64" "sorted ts" "ts \<noteq> []"
  shows "\<exists>k. map_of (fold (observe a sig r w n) ts (ff_Reset a f)) a = Some k \<and> signature k = sig \<and>
    times k = filter (\<lambda>x. last ts - w < x) (butlast ts) @ [last ts] \<and>
    length (fold (observe a sig r w n) ts (ff_Reset a f)) < 2048"
  using assms(6,7)
proof (induction ts rule: rev_induct)
  case (snoc t ts)
  let ?f = "fold (observe a sig r w n) ts (ff_Reset a f)"
  have none: "map_of (ff_Reset a f) a = None" by (simp add: ff_Reset_def delete_conv)
  show ?case
  proof (cases "ts = []")
    case True
    have "length (AList.update a v (ff_Reset a f)) < 2048" for v
      using length_update [of a v "ff_Reset a f"] assms(3) by linarith
    with True none assms(1-5) show ?thesis
      by (simp add: observe_def Observe_small Let_def update_conv)
  next
    case False
    with snoc have s: "sorted ts" "\<forall>x \<in> set ts. x \<le> t" by (auto simp: sorted_append)
    obtain k where k: "map_of ?f a = Some k" "signature k = sig"
        "times k = filter (\<lambda>x. last ts - w < x) (butlast ts) @ [last ts]" "length ?f < 2048"
      using snoc.IH [OF s(1) False] by auto
    have f: "filter (\<lambda>x. t - w < x) (times k) = filter (\<lambda>x. t - w < x) ts"
      unfolding k(3) using False s(2) by (intro refilter_times) auto
    have "observe a sig r w n t ?f = AList.update a \<lparr>signature = sig, times = filter (\<lambda>x. t - w < x) ts @ [t],
        ff_resp = r, tripUntil = (if n \<le> int (length (filter (\<lambda>x. t - w < x) ts @ [t])) then t + w else tripUntil k),
        lastSeen = t\<rparr> ?f"
      using k(1,2,4) f assms(1-5) by (simp add: observe_def Observe_small Let_def)
    moreover have "length (AList.update a v ?f) = length ?f" for v
      using k(1) by (rule length_update_same)
    moreover have "fold (observe a sig r w n) (ts @ [t]) (ff_Reset a f) = observe a sig r w n t ?f" by simp
    ultimately show ?thesis using k(4) by (simp add: update_conv)
  qed
qed simp

text \<open>
  after a reset of the key, a run of identical 503 answers trips the fast fail exactly when
  at least \<open>threshold\<close> of them, the last one included, lie within the window before the last one.
\<close>

theorem fast_fail_trips_at_threshold:
  assumes "0 < a" "1 \<le> n" "length (ff_Reset a f) < 2047" "0 \<le> w" "w \<le> max_int64" "sorted (ts @ [now])"
  shows "fst (Observe a sig r w n now (fold (observe a sig r w n) ts (ff_Reset a f))) =
    (n \<le> int (length (filter (\<lambda>t. now - w < t) ts)) + 1)"
proof (cases "ts = []")
  case True
  have "map_of (ff_Reset a f) a = None" by (simp add: ff_Reset_def delete_conv)
  with True assms show ?thesis by (simp add: Observe_small Let_def)
next
  case False
  from assms(6) have s: "sorted ts" "\<forall>x \<in> set ts. x \<le> now" by (auto simp: sorted_append)
  obtain k where k: "map_of (fold (observe a sig r w n) ts (ff_Reset a f)) a = Some k" "signature k = sig"
      "times k = filter (\<lambda>x. last ts - w < x) (butlast ts) @ [last ts]"
      "length (fold (observe a sig r w n) ts (ff_Reset a f)) < 2048"
    using observed_times [OF assms(1-5) s(1) False] by auto
  have "filter (\<lambda>x. now - w < x) (times k) = filter (\<lambda>x. now - w < x) ts"
    unfolding k(3) using False s(2) by (intro refilter_times) auto
  then show ?thesis using k(1,2,4) assms(1-5) by (simp add: Observe_small Let_def add.commute)
qed


theorem fast_fail_trips_at_threshold_witness:
  "\<not> fst (Observe 1 ''s'' answer0 (30 * second) 3 (50 * second)
      (fold (observe 1 ''s'' answer0 (30 * second) 3) [10 * second, 40 * second] (ff_Reset 1 [])))"
  using fast_fail_trips_at_threshold
    [of 1 3 "[]" "30 * second" "[10 * second, 40 * second]" "50 * second" "''s''" answer0]
  by (simp add: ff_Reset_def)

text \<open>
  a tripped key replays the stored answer until its window ends or the answer's own retry
  time has come; in the latter case the next request is let through and the key starts afresh, so
  it is never answered from memory again before \<open>threshold\<close> new failures.
\<close>

theorem fast_fail_replay:
  assumes "Observe a sig r w n now f = (True, f')" "0 < a" "now + w \<noteq> 0"
  shows "fst (ff_Check a t f') =
      (if t < now + w \<and> (RetryAt r = 0 \<or> t < RetryAt r) then Some r else None) \<and>
    (t < now + w \<and> RetryAt r \<noteq> 0 \<and> RetryAt r \<le> t \<longrightarrow>
       fst (ff_Check a t' (snd (ff_Check a t f'))) = None)"
proof -
  obtain k where k: "map_of f' a = Some k" "tripUntil k = now + w" "ff_resp k = r"
    using assms(1,2) by (auto simp: Observe_def Let_def update_conv time_Add_def split: if_splits option.splits)
  show ?thesis using assms(2,3) k by (auto simp: ff_Check_def time_Before_def update_conv)
qed

theorem fast_fail_replay_witness:
  "fst (ff_Check 1 (20 * second) (snd (Observe 1 ''s'' answer0 (30 * second) 1 (10 * second) []))) = Some answer0"
proof -
  obtain f where f: "Observe 1 ''s'' answer0 (30 * second) 1 (10 * second) [] = (True, f)"
    by (simp add: Observe_def gcLocked_def Let_def)
  show ?thesis using fast_fail_replay [OF f, of "20 * second"] f by (simp add: answer0_def)
qed

section \<open>Failed turns\<close>

datatype turn_op = TFail string gotime | TReset string

fun turn_step :: "duration \<Rightarrow> turn_op \<Rightarrow> TurnCapTable \<Rightarrow> TurnCapTable" where
  "turn_step w (TFail key now) t = snd (Fail key w now t)"
| "turn_step w (TReset key) t = turn_Reset key t"

fun turn_key :: "turn_op \<Rightarrow> string" where
  "turn_key (TFail key now) = key"
| "turn_key (TReset key) = key"

text \<open>The failures of a conversation since its last success, newest first, from the operations
  with the newest first.\<close>

fun failures :: "string \<Rightarrow> turn_op list \<Rightarrow> gotime list" where
  "failures key [] = []"
| "failures key (TFail k now # ops) = (if k = key then now # failures key ops else failures key ops)"
| "failures key (TReset k # ops) = (if k = key then [] else failures key ops)"

text \<open>The length of the streak that ends with the newest failure.\<close>

fun streak :: "duration \<Rightarrow> gotime list \<Rightarrow> int" where
  "streak w [] = 0"
| "streak w [t] = 1"
| "streak w (t # u # ts) = (if w < time_Sub t u then 1 else 1 + streak w (u # ts))"

lemma turn_keys:
  "fst ` set (fold (turn_step w) ops []) \<subseteq> turn_key ` set ops \<and> distinct (map fst (fold (turn_step w) ops []))"
proof (induction ops rule: rev_induct)
  case (snoc a ops)
  let ?t = "fold (turn_step w) ops []"
  have sub: "fst ` set (make_room P ?t) \<subseteq> fst ` set ?t" for P by (auto simp: make_room_def Let_def)
  show ?case
  proof (cases a)
    case (TFail k t)
    with snoc sub show ?thesis
      by (force simp: Fail_def Let_def dom_update distinct_update distinct_make_room)
  next
    case (TReset k)
    have "fst ` set (AList.delete k ?t) \<subseteq> fst ` set ?t" "distinct (map fst (AList.delete k ?t))"
      using snoc distinct_filter_keys by (auto simp: AList.delete_eq)
    with snoc TReset show ?thesis by (cases "k = []") (auto simp: turn_Reset_def)
  qed
qed simp

lemma length_le_keys:
  assumes "distinct (map fst m)" "fst ` set m \<subseteq> K" "finite K"
  shows "length m \<le> card K"
proof -
  have "length m = card (fst ` set m)" using assms(1) by (metis distinct_card length_map list.set_map)
  with assms(2,3) show ?thesis by (simp add: card_mono)
qed

lemma turn_run:
  assumes "card (turn_key ` set ops) \<le> 4096" "key \<noteq> []"
  shows "case map_of (fold (turn_step w) ops []) key of
      None \<Rightarrow> failures key (rev ops) = []
    | Some e \<Rightarrow> (\<exists>ts. failures key (rev ops) = last_fail e # ts) \<and> count e = streak w (failures key (rev ops))"
  using assms(1)
proof (induction ops rule: rev_induct)
  case (snoc a ops)
  let ?t = "fold (turn_step w) ops []"
  have "card (turn_key ` set ops) \<le> card (turn_key ` set (ops @ [a]))" by (intro card_mono) auto
  with snoc.prems have c: "card (turn_key ` set ops) \<le> 4096" by linarith
  then have room: "make_room P ?t = ?t" for P
    using length_le_keys [of ?t "turn_key ` set ops"] turn_keys [of w ops] by (intro make_room_small) simp
  note IH = snoc.IH [OF c]
  show ?case
  proof (cases a)
    case (TFail k t)
    show ?thesis
    proof (cases "k = key")
      case True
      show ?thesis
      proof (cases "map_of ?t key")
        case None
        with IH True TFail assms(2) show ?thesis by (simp add: Fail_def room Let_def update_conv)
      next
        case (Some e)
        with IH obtain ts where "failures key (rev ops) = last_fail e # ts" "count e = streak w (failures key (rev ops))"
          by auto
        with Some True TFail assms(2) show ?thesis by (auto simp: Fail_def room Let_def update_conv)
      qed
    next
      case False
      have "failures key (rev (ops @ [a])) = failures key (rev ops)" using False TFail by simp
      moreover have "map_of (fold (turn_step w) (ops @ [a]) []) key = map_of ?t key"
        using False TFail by (simp add: Fail_def room Let_def update_conv)
      ultimately show ?thesis using IH by (simp only:)
    qed
  next
    case (TReset k)
    show ?thesis
    proof (cases "k = key")
      case False
      have "failures key (rev (ops @ [a])) = failures key (rev ops)" using False TReset by simp
      moreover have "map_of (fold (turn_step w) (ops @ [a]) []) key = map_of ?t key"
        using False TReset by (simp add: turn_Reset_def delete_conv)
      ultimately show ?thesis using IH by (simp only:)
    qed (use TReset assms(2) in \<open>simp add: turn_Reset_def delete_conv\<close>)
  qed
qed simp

text \<open>
  the failed-turn cap counts exactly the consecutive failures of the conversation since its
  last success, with a new streak after every gap longer than the window; failures and successes
  of other conversations do not disturb it as long as there are at most 4096 of them.
\<close>

theorem turn_cap_counts_streak:
  assumes "card (turn_key ` set ops) \<le> 4096" "key \<noteq> []"
  shows "fst (Fail key w now (fold (turn_step w) ops [])) = streak w (now # failures key (rev ops))"
proof -
  let ?t = "fold (turn_step w) ops []"
  have room: "make_room P ?t = ?t" for P
    using assms(1) length_le_keys [of ?t "turn_key ` set ops"] turn_keys [of w ops]
    by (intro make_room_small) simp
  show ?thesis
  proof (cases "map_of ?t key")
    case None
    with turn_run [OF assms, of w] assms(2) show ?thesis by (simp add: Fail_def room Let_def)
  next
    case (Some e)
    with turn_run [OF assms, of w] obtain ts where
      "failures key (rev ops) = last_fail e # ts" "count e = streak w (failures key (rev ops))" by auto
    with Some assms(2) show ?thesis by (auto simp: Fail_def room Let_def)
  qed
qed

theorem turn_cap_counts_streak_witness:
  "fst (Fail ''k'' (120 * second) (300 * second) (fold (turn_step (120 * second))
     [TFail ''k'' (10 * second), TFail ''other'' (150 * second), TFail ''k'' (200 * second)] [])) = 2"
  using turn_cap_counts_streak
    [of "[TFail ''k'' (10 * second), TFail ''other'' (150 * second), TFail ''k'' (200 * second)]" "''k''"
      "120 * second" "300 * second"]
  by (simp add: time_Sub_def card_insert_if)

section \<open>Decimal texts and keys\<close>

lemma itoa_digits_eq: "itoa_digits v b = (if 0 < v then nat_digits (nat v) @ b else b)"
proof (induction v b rule: itoa_digits.induct)
  case (1 v b)
  show ?case
  proof (cases "0 < v")
    case True
    have d: "nat (v div 10) = nat v div 10" "nat (v mod 10) = nat v mod 10"
      using True by (simp_all add: nat_div_distrib nat_mod_distrib)
    have "itoa_digits v b = itoa_digits (v div 10) (char_of (48 + nat (v mod 10)) # b)"
      using True by (subst itoa_digits.simps) simp
    also have "\<dots> = nat_digits (nat v) @ b"
    proof (cases "v < 10")
      case True
      with \<open>0 < v\<close> show ?thesis
        by (simp add: itoa_digits.simps [of 0] nat_digits.simps [of "nat v"] d add.commute)
    next
      case False
      then show ?thesis
        using 1 [OF \<open>0 < v\<close>] by (simp add: nat_digits.simps [of "nat v"] d add.commute)
    qed
    finally show ?thesis using True by simp
  qed (simp add: itoa_digits.simps [of v])
qed

lemma char_zero: "char_of (48::nat) = CHR ''0''"
  by code_simp

lemma itoa64_Itoa: "min_int64 < v \<Longrightarrow> v \<le> max_int64 \<Longrightarrow> itoa64 v = Itoa v"
  by (auto simp: char_zero itoa64_def Itoa_def Let_def itoa_digits_eq nat_digits.simps [of 0])

lemma itoa64_min: "itoa64 min_int64 = ''-''"
  by (simp add: itoa64_def wrap64_def itoa_digits.simps)

lemma Itoa_chars: "set (Itoa v) \<subseteq> insert (CHR 0x2D) (char_of ` {48..<58::nat})"
  using nat_digits_chars by (auto simp: Itoa_def)

lemma digit_not_minus: "nat_digits n \<noteq> CHR 0x2D # xs"
proof
  assume "nat_digits n = CHR 0x2D # xs"
  then have "CHR 0x2D \<in> char_of ` {48..<58::nat}" using nat_digits_chars [of n] by auto
  then obtain k :: nat where "CHR 0x2D = char_of k" "48 \<le> k" "k < 58" by auto
  then have "(of_char (CHR 0x2D) :: nat) = k mod 256" by (simp only: of_char_of)
  with \<open>48 \<le> k\<close> \<open>k < 58\<close> show False by simp
qed

lemma Itoa_inj: "Itoa v = Itoa w \<Longrightarrow> v = w"
  using digit_not_minus by (auto simp: Itoa_def dest: nat_digits_inj split: if_splits) metis+

lemma Itoa_no_NUL: "CHR 0x00 \<notin> set (Itoa v)"
proof
  assume "CHR 0x00 \<in> set (Itoa v)"
  then obtain k :: nat where "CHR 0x00 = char_of k" "48 \<le> k" "k < 58" using Itoa_chars [of v] by auto
  then have "(of_char (CHR 0x00) :: nat) = k mod 256" by (simp only: of_char_of)
  with \<open>48 \<le> k\<close> \<open>k < 58\<close> show False by simp
qed

lemma NUL_split:
  "c \<notin> set xs \<Longrightarrow> c \<notin> set xs' \<Longrightarrow> xs @ [c] @ ys = xs' @ [c] @ ys' \<Longrightarrow> xs = xs' \<and> ys = ys'"
proof (induction xs arbitrary: xs')
  case Nil
  then show ?case by (cases xs') auto
next
  case (Cons x xs)
  then show ?case by (cases xs') auto
qed

text \<open>
  two requests count as the same conversation only if they have the same API key, group,
  model and session hash: the key string cannot collide (model names do not contain a NUL byte).
\<close>

theorem turn_key_injective:
  assumes "TurnKey a g m s = TurnKey a' g' m' s'"
    and "CHR 0x00 \<notin> set m" "CHR 0x00 \<notin> set m'"
    and "{a, g, a', g'} \<subseteq> {min_int64<..max_int64}"
  shows "a = a' \<and> g = g' \<and> m = m' \<and> s = s'"
proof -
  have "Itoa a @ NUL @ Itoa g @ NUL @ m @ NUL @ s = Itoa a' @ NUL @ Itoa g' @ NUL @ m' @ NUL @ s'"
    using assms(1,4) by (simp add: TurnKey_def itoa64_Itoa)
  then have "Itoa a = Itoa a'" "Itoa g = Itoa g'" "m = m'" "s = s'"
    using NUL_split Itoa_no_NUL assms(2,3) unfolding NUL_def by metis+
  then show ?thesis using Itoa_inj by blast
qed

theorem turn_key_injective_witness: "TurnKey 1 23 ''m'' ''s'' \<noteq> TurnKey 12 3 ''m'' ''s''"
  using turn_key_injective [of 1 23 "''m''" "''s''" 12 3 "''m''" "''s''"] by auto

end
