(* ===== verification/Resil_Classify_Props.thy ===== *)
theory Resil_Classify_Props
  imports Resil_Classify
begin

text \<open>
  Properties of the classification: what every result satisfies, the precedence of balance
  evidence, that no failure counts as a success, and what the switch \<open>decision_v2\<close> can change.
\<close>

section \<open>Stages\<close>

lemma first_result_pred: "P d \<Longrightarrow> list_all (pred_option P) rs \<Longrightarrow> P (first_result rs d)"
  by (induction rs d rule: first_result.induct) auto

lemma result_simps [simp]:
  "rCategory (result c s) = c" "rReason (result c s) = s" "rRetryAfter (result c s) = 0"
  "rStateFamily (result c s) = StateNone"
  "rCategory (result_after c d s) = c" "rReason (result_after c d s) = s"
  "rRetryAfter (result_after c d s) = d" "rStateFamily (result_after c d s) = StateNone"
  by (simp_all add: result_def result_after_def)

lemmas reason_consts = ReasonContentPolicy_def ReasonUpstreamRequestRestriction_def
  ReasonEncryptedContent_def ReasonConversationState_def

lemmas stage_defs = stage_balance_def stage_client_def stage_auth_def stage_capacity_def stage_rate_def
  stage_status_def stage_server_def

text \<open>What holds of every result.\<close>

definition sound_result :: "Result \<Rightarrow> bool" where
  "sound_result r =
     ((rCategory r = CategoryRateLimitReset \<longrightarrow> 0 < rRetryAfter r) \<and>
      (rRetryAfter r \<noteq> 0 \<longrightarrow> rCategory r \<in> {CategoryRateLimitReset, CategoryTransient, CategoryCapacityShed}) \<and>
      (rReason r \<in> {ReasonContentPolicy, ReasonEncryptedContent, ReasonConversationState} \<longrightarrow>
         rCategory r = CategoryClientError) \<and>
      (rStateFamily r \<noteq> StateNone) = (rReason r \<in> {ReasonEncryptedContent, ReasonConversationState}))"

lemma sound_result_result:
  "sound_result (result c s) = (c \<noteq> CategoryRateLimitReset \<and>
     (s = ReasonContentPolicy \<longrightarrow> c = CategoryClientError) \<and>
     s \<noteq> ReasonEncryptedContent \<and> s \<noteq> ReasonConversationState)"
  by (auto simp: sound_result_def)

lemma sound_result_after:
  "sound_result (result_after c d s) \<longleftrightarrow>
     (c = CategoryRateLimitReset \<longrightarrow> 0 < d) \<and>
     (d \<noteq> 0 \<longrightarrow> c \<in> {CategoryRateLimitReset, CategoryTransient, CategoryCapacityShed}) \<and>
     (s = ReasonContentPolicy \<longrightarrow> c = CategoryClientError) \<and>
     s \<noteq> ReasonEncryptedContent \<and> s \<noteq> ReasonConversationState"
  by (auto simp: sound_result_def)

lemmas sound_simps = sound_result_result sound_result_after

text \<open>A stage satisfies a predicate when all its results do.\<close>

lemma pred_option_if: "pred_option Q (if P then a else b) = (if P then pred_option Q a else pred_option Q b)"
  by simp

lemma pred_option_Some: "pred_option Q (Some r) = Q r"
  by simp

lemma pred_option_None: "pred_option Q None"
  by simp

lemmas pred_stage = pred_option_if pred_option_Some pred_option_None if_True if_False if_cancel

lemma sound_plain:
  "c \<noteq> CategoryRateLimitReset \<Longrightarrow> s \<notin> {ReasonContentPolicy, ReasonEncryptedContent, ReasonConversationState} \<Longrightarrow>
   sound_result (result c s) = True"
  "c = CategoryClientError \<Longrightarrow> sound_result (result c ReasonContentPolicy) = True"
  "c \<in> {CategoryTransient, CategoryCapacityShed} \<Longrightarrow>
   s \<notin> {ReasonContentPolicy, ReasonEncryptedContent, ReasonConversationState} \<Longrightarrow>
   sound_result (result_after c d s) = True"
  by (auto simp: sound_simps reason_consts)

lemma sound_balance: "pred_option sound_result (stage_balance extra g)"
  unfolding stage_balance_def pred_stage by (simp add: sound_plain reason_consts)

lemma sound_auth: "pred_option sound_result (stage_auth g)"
  unfolding stage_auth_def pred_stage by (simp add: sound_simps reason_consts)

lemma sound_capacity: "pred_option sound_result (stage_capacity v2 g)"
  unfolding stage_capacity_def Let_def pred_stage by (simp add: sound_plain reason_consts)

lemma sound_rate: "pred_option sound_result (stage_rate v2 E h g)"
  unfolding stage_rate_def Let_def pred_stage by (simp add: sound_simps reason_consts)

lemma sound_status: "pred_option sound_result (stage_status E out g)"
  unfolding stage_status_def pred_stage by (simp add: sound_plain reason_consts)

lemma sound_state_rejection:
  "RequestScoped rej \<Longrightarrow> sound_result ((result CategoryClientError
     (if Encrypted rej then ReasonEncryptedContent else ReasonConversationState))\<lparr>rStateFamily := Family rej\<rparr>)"
  by (simp add: sound_result_def RequestScoped_def)

lemma sound_client: "pred_option sound_result (stage_client E g)"
  unfolding stage_client_def Let_def pred_stage
  by (simp add: sound_simps sound_state_rejection [THEN eqTrueI] reason_consts)

lemma sound_server: "sound_result (stage_server g)"
  by (simp add: stage_server_def sound_simps reason_consts)

lemmas sound_stages = sound_balance sound_client sound_auth sound_capacity sound_rate sound_status

lemma sound_classify: "sound_result (classify E out extra v2)"
proof -
  have "sound_result (result CategorySuccess [])" by (simp add: sound_simps reason_consts)
  then have "sound_result (classify_answer E out extra v2)"
    by (simp add: classify_answer_def Let_def first_result_pred sound_stages sound_server del: first_result.simps)
  then show ?thesis
    by (cases "oSource out"; cases "oErr out")
      (simp_all add: classify_def sound_simps networkReason_def reason_consts)
qed

text \<open>
  C11: what the callers may rely on for every classified attempt. A hard state always names an
  account failure that allows a switch; a soft cooldown always counts for the session; a content
  refusal and a rejected conversation state are client errors, so they never switch accounts and
  never penalise one; a known reset distance is positive; only rate limits with a reset, transient
  failures and capacity shedding carry a delay.
\<close>

theorem classified_result_sound:
  "(let r = classify E out extra v2; c = rCategory r in
     (Hard r \<longrightarrow> SwitchAccount c \<and> AccountScoped c) \<and>
     (SoftCooldown c \<longrightarrow> CountsForSession c \<and> AccountScoped c) \<and>
     (ContentPolicy r \<or> rStateFamily r \<noteq> StateNone \<longrightarrow>
        c = CategoryClientError \<and> \<not> SwitchAccount c \<and> \<not> AccountScoped c \<and> \<not> CountsForSession c) \<and>
     (c = CategoryRateLimitReset \<longrightarrow> 0 < rRetryAfter r) \<and>
     (rRetryAfter r \<noteq> 0 \<longrightarrow> c \<in> {CategoryRateLimitReset, CategoryTransient, CategoryCapacityShed}))"
  using sound_classify [of E out extra v2]
  by (auto simp: sound_result_def Let_def Hard_def SwitchAccount_def AccountScoped_def SoftCooldown_def
      CountsForSession_def ContentPolicy_def split: Category.splits)

definition env1 :: classify_env where
  "env1 = \<lparr>headers_env = \<lparr>ParseFloat = (\<lambda>_. None), ParseTime = (\<lambda>_. None), time_Now = 0\<rparr>,
     decode_model_error = (\<lambda>_. None), gjson_String = (\<lambda>_ _. []), gjson_Valid = (\<lambda>_. False)\<rparr>"

definition answer :: "int \<Rightarrow> string \<Rightarrow> string \<Rightarrow> Outcome" where
  "answer status code message = \<lparr>oSource = SourceHTTP, StatusCode = status, oCode = code, oType = [],
     oMessage = message, oBody = [], oHeaders = [], oErr = None\<rparr>"

theorem classified_result_sound_witness:
  "Hard (classify env1 (answer 401 ''invalid_api_key'' []) [] False) \<and>
   SwitchAccount (rCategory (classify env1 (answer 401 ''invalid_api_key'' []) [] False))"
proof -
  have "classify env1 (answer 401 ''invalid_api_key'' []) [] False = result CategoryAuth ''auth_code''"
    by code_simp
  then have "Hard (classify env1 (answer 401 ''invalid_api_key'' []) [] False)" by (simp add: Hard_def)
  with classified_result_sound [of env1 "answer 401 ''invalid_api_key'' []" "[]" False] show ?thesis
    by (simp add: Let_def)
qed

section \<open>Precedence\<close>

definition from_upstream :: "Outcome \<Rightarrow> bool" where
  "from_upstream out = (oSource out = SourceHTTP \<or> oSource out = SourceStreamEvent)"

lemma classify_upstream: "from_upstream out \<Longrightarrow> classify E out extra v2 = classify_answer E out extra v2"
  by (auto simp: from_upstream_def classify_def)

text \<open>
  balance evidence wins over everything else. If the error code or type of an upstream
  answer or stream event is a balance code, or its text contains a balance keyword of the gateway
  or of the administrator, the attempt is BALANCE, whatever the status, the other fields and the
  settings say; only a 2xx answer without any error field is exempt.
\<close>

theorem balance_evidence_wins:
  assumes "from_upstream out" "\<not> plain_success (signals_of E out)"
    and "IsBalanceCode (oCode out) \<or> IsBalanceCode (oType out) \<or>
      (\<exists>kw \<in> set (defaultBalanceKeywords @ map (\<lambda>k. ToLower (TrimSpace k)) extra).
         kw \<noteq> [] \<and> Contains (gText (signals_of E out)) kw)"
  shows "rCategory (classify E out extra v2) = CategoryBalance"
proof -
  let ?g = "signals_of E out"
  have g: "gCode ?g = ToLower (TrimSpace (oCode out))" "gTyp ?g = ToLower (TrimSpace (oType out))"
    by (simp_all add: signals_of_def Let_def)
  have "gCode ?g \<in> set defaultBalanceCodes \<or> gTyp ?g \<in> set defaultBalanceCodes \<or>
      containsAny (gText ?g) defaultBalanceKeywords \<or> containsAnyFold (gText ?g) extra"
    using assms(3) unfolding g IsBalanceCode_def
    by (auto simp: containsAny_def containsAnyFold_def list_ex_iff Let_def simp del: Contains.simps)
  then have "map_option rCategory (stage_balance extra ?g) = Some CategoryBalance"
    by (auto simp: stage_balance_def)
  then obtain r where "stage_balance extra ?g = Some r" "rCategory r = CategoryBalance" by auto
  with assms(2) show ?thesis by (simp add: classify_upstream [OF assms(1)] classify_answer_def Let_def)
qed

theorem balance_evidence_wins_witness:
  "rCategory (classify env1 (answer 401 ''Insufficient_Quota '' []) [] True) = CategoryBalance"
  by (rule balance_evidence_wins) code_simp+

lemma failing_stages:
  "pred_option (\<lambda>r. rCategory r \<noteq> CategorySuccess) (stage_balance extra g)"
  "pred_option (\<lambda>r. rCategory r \<noteq> CategorySuccess) (stage_client E g)"
  "pred_option (\<lambda>r. rCategory r \<noteq> CategorySuccess) (stage_auth g)"
  "pred_option (\<lambda>r. rCategory r \<noteq> CategorySuccess) (stage_capacity v2 g)"
  "pred_option (\<lambda>r. rCategory r \<noteq> CategorySuccess) (stage_rate v2 E h g)"
  "pred_option (\<lambda>r. rCategory r \<noteq> CategorySuccess) (stage_status E out g)"
  by (simp_all add: stage_defs Let_def pred_stage if_bool_eq_conj)

text \<open>
  no failure counts as a success: an answer with status 400 or more and every stream event
  that is classified is assigned a failure category.
\<close>

theorem no_failure_is_success:
  assumes "oSource out = SourceStreamEvent \<or> (oSource out = SourceHTTP \<and> 400 \<le> StatusCode out)"
  shows "rCategory (classify E out extra v2) \<noteq> CategorySuccess"
proof -
  let ?g = "signals_of E out"
  have g: "gEvent ?g \<or> 400 \<le> gStatus ?g" "\<not> plain_success ?g"
    using assms by (auto simp: signals_of_def plain_success_def Let_def)
  have server: "rCategory (stage_server ?g) \<noteq> CategorySuccess" using g(1) by (auto simp: stage_server_def)
  have "rCategory (classify_answer E out extra v2) \<noteq> CategorySuccess"
    unfolding classify_answer_def Let_def if_not_P [OF g(2)]
    using server by (rule first_result_pred [where P = "\<lambda>r. rCategory r \<noteq> CategorySuccess"])
      (simp add: failing_stages)
  with assms show ?thesis by (auto simp: classify_upstream from_upstream_def)
qed

theorem no_failure_is_success_witness:
  "rCategory (classify env1 (answer 418 [] []) [] True) \<noteq> CategorySuccess"
  by (rule no_failure_is_success) (simp add: answer_def)

text \<open>The categories between which \<open>decision_v2\<close> moves attempts.\<close>

definition shed_or_limited :: "Category \<Rightarrow> bool" where
  "shed_or_limited c = (c \<in> {CategoryCapacityShed, CategoryRateLimit, CategoryRateLimitReset})"

text \<open>
  the switch \<open>decision_v2\<close> only moves attempts into or out of capacity shedding and rate
  limiting: wherever the two policies disagree, one of them says so.
\<close>

theorem decision_v2_scope:
  "classify E out extra True = classify E out extra False \<or>
   shed_or_limited (rCategory (classify E out extra True)) \<or>
   shed_or_limited (rCategory (classify E out extra False))"
proof -
  let ?g = "signals_of E out"
  have cap: "stage_capacity v ?g = Some r \<Longrightarrow>
      shed_or_limited (rCategory r) \<or> (\<forall>w. stage_capacity w ?g = Some r)" for v r
    by (auto simp: stage_capacity_def shed_or_limited_def Let_def split: if_splits)
  have rate: "stage_rate v E (oHeaders out) ?g = Some r \<Longrightarrow> shed_or_limited (rCategory r)" for v r
    by (auto simp: stage_rate_def shed_or_limited_def Let_def split: if_splits)
  let ?c = "\<lambda>v. first_result [stage_capacity v ?g, stage_rate v E (oHeaders out) ?g, stage_status E out ?g]
      (stage_server ?g)"
  have "?c True = ?c False \<or> shed_or_limited (rCategory (?c True)) \<or> shed_or_limited (rCategory (?c False))"
    using cap rate
    by (cases "stage_capacity True ?g"; cases "stage_capacity False ?g";
        cases "stage_rate True E (oHeaders out) ?g"; cases "stage_rate False E (oHeaders out) ?g") force+
  then show ?thesis
    by (cases "stage_balance extra ?g"; cases "stage_client E ?g"; cases "stage_auth ?g")
      (auto simp: classify_def classify_answer_def Let_def split: Source.split option.split)
qed

end
