(* ===== verification/Resil_Metrics.thy ===== *)
theory Resil_Metrics
  imports Go_Base "HOL-Library.AList" "HOL-Library.List_Lexorder" "HOL-Library.Product_Lexorder"
begin

text \<open>
  The counters of the resilience layer (\<open>resilience/metrics.go\<close>): one-minute buckets with bounded
  memory and the snapshot over a window. A bucket's map is an association list with distinct keys;
  \<open>sort.Slice\<close> compares by all the fields of a row, so rows of different keys are never tied and
  the sorted list is unique.
\<close>

section \<open>State\<close>

record MetricKey =
  mk_Name :: string
  mk_GroupID :: int
  mk_AccountID :: int
  mk_Label :: string

record metricBucket =
  minute_no :: int
  counts :: "(MetricKey \<times> int) list"

type_synonym metricStore = "metricBucket list"

definition MetricsRetention :: duration where "MetricsRetention = hour"
definition maxMetricKeysPerBucket :: nat where "maxMetricKeysPerBucket = 4096"

text \<open>\<open>t.Unix() / 60\<close>; a \<open>gotime\<close> counts from January 1 of year 1.\<close>

definition Unix :: "gotime \<Rightarrow> int" where
  "Unix t = t div second - 62135596800"

definition minute_of :: "gotime \<Rightarrow> int" where
  "minute_of t = go_div (Unix t) 60"

section \<open>Operations\<close>

text \<open>Opens the bucket of the minute and drops the buckets that are out of retention.\<close>

definition roll :: "int \<Rightarrow> metricStore \<Rightarrow> metricStore" where
  "roll m bs =
     (if bs = [] \<or> minute_no (last bs) \<noteq> m then
        (let bs = bs @ [\<lparr>minute_no = m, counts = []\<rparr>];
             cut = m - MetricsRetention div minute
         in dropWhile (\<lambda>b. minute_no b \<le> cut) bs)
      else bs)"

definition bump :: "MetricKey \<Rightarrow> metricBucket \<Rightarrow> metricBucket" where
  "bump key b =
     (let key = (if map_of (counts b) key = None \<and> maxMetricKeysPerBucket \<le> length (counts b)
                 then \<lparr>mk_Name = mk_Name key, mk_GroupID = 0, mk_AccountID = 0, mk_Label = ''overflow''\<rparr>
                 else key);
          n = (case map_of (counts b) key of None \<Rightarrow> 0 | Some n \<Rightarrow> n)
      in b\<lparr>counts := AList.update key (n + 1) (counts b)\<rparr>)"

definition metric_add :: "MetricKey \<Rightarrow> gotime \<Rightarrow> metricStore \<Rightarrow> metricStore" where
  "metric_add key now bs =
     (let bs = roll (minute_of now) bs in butlast bs @ [bump key (last bs)])"

definition Count :: "string \<Rightarrow> int \<Rightarrow> int \<Rightarrow> string \<Rightarrow> gotime \<Rightarrow> metricStore \<Rightarrow> metricStore" where
  "Count name groupID accountID label now =
     metric_add \<lparr>mk_Name = name, mk_GroupID = groupID, mk_AccountID = accountID, mk_Label = label\<rparr> now"

text \<open>\<open>sum[k] += v\<close> over the entries of the buckets in the window.\<close>

fun sum_counts :: "(MetricKey \<times> int) list \<Rightarrow> (MetricKey \<times> int) list \<Rightarrow> (MetricKey \<times> int) list" where
  "sum_counts acc [] = acc"
| "sum_counts acc ((k, v) # kvs) =
     sum_counts (AList.update k ((case map_of acc k of None \<Rightarrow> 0 | Some n \<Rightarrow> n) + v) acc) kvs"

fun str_less :: "string \<Rightarrow> string \<Rightarrow> bool" where
  "str_less [] [] = False"
| "str_less [] (d # ds) = True"
| "str_less (c # cs) [] = False"
| "str_less (c # cs) (d # ds) = (if c = d then str_less cs ds else (of_char c :: nat) < of_char d)"

definition row_before :: "MetricKey \<times> int \<Rightarrow> MetricKey \<times> int \<Rightarrow> bool" where
  "row_before a b =
     (if mk_Name (fst a) \<noteq> mk_Name (fst b) then str_less (mk_Name (fst a)) (mk_Name (fst b))
      else if snd a \<noteq> snd b then snd b < snd a
      else if mk_GroupID (fst a) \<noteq> mk_GroupID (fst b) then mk_GroupID (fst a) < mk_GroupID (fst b)
      else if mk_AccountID (fst a) \<noteq> mk_AccountID (fst b) then mk_AccountID (fst a) < mk_AccountID (fst b)
      else str_less (mk_Label (fst a)) (mk_Label (fst b)))"

definition snapshot :: "duration \<Rightarrow> gotime \<Rightarrow> metricStore \<Rightarrow> (MetricKey \<times> int) list" where
  "snapshot window now bs =
     (let window = (if window \<le> 0 \<or> MetricsRetention < window then MetricsRetention else window);
          from = minute_of (time_Add now (- window));
          sum = sum_counts [] (concat (map counts (filter (\<lambda>b. \<not> minute_no b < from) bs)))
      in SliceStable row_before sum)"

text \<open>\<open>CDNCutBucket\<close>: the comparisons of the duration in seconds, whose float is exact to well
  below a nanosecond in this range.\<close>

definition CDNCutBucket :: "duration \<Rightarrow> string" where
  "CDNCutBucket elapsed =
     (if 85 * second \<le> elapsed \<and> elapsed < 95 * second then ''90s''
      else if 120 * second \<le> elapsed \<and> elapsed < 130 * second then ''125s''
      else if 290 * second \<le> elapsed \<and> elapsed < 310 * second then ''300s''
      else ''other'')"

section \<open>The order of the rows\<close>

text \<open>\<open>str_less\<close> is the lexicographic order of the library, and the rows are ordered by a rank.\<close>

lemma str_less_iff: "str_less a b \<longleftrightarrow> a < b"
  by (induction a b rule: str_less.induct) (auto simp: less_char_def)

definition row_rank :: "MetricKey \<times> int \<Rightarrow> string \<times> int \<times> int \<times> int \<times> string" where
  "row_rank r = (mk_Name (fst r), - snd r, mk_GroupID (fst r), mk_AccountID (fst r), mk_Label (fst r))"

lemma row_before_rank: "row_before a b \<longleftrightarrow> row_rank a < row_rank b"
  by (auto simp: row_before_def row_rank_def str_less_iff)

lemma row_rank_inj: "row_rank a = row_rank b \<Longrightarrow> a = b"
  by (cases a; cases b) (simp add: row_rank_def)

interpretation rows: strict_keyed row_before "\<lambda>r. r"
proof
  show "row_before a b \<or> row_before b a" if "a \<noteq> b" for a b
    using that row_rank_inj [of a b] unfolding row_before_rank by (metis linorder_less_linear)
qed (auto simp: row_before_rank)

section \<open>Totals\<close>

definition name_total :: "string \<Rightarrow> (MetricKey \<times> int) list \<Rightarrow> int" where
  "name_total n kvs = sum_list (map snd (filter (\<lambda>(k, v). mk_Name k = n) kvs))"

lemma name_total_simps [simp]:
  "name_total n [] = 0"
  "name_total n ((k, v) # kvs) = (if mk_Name k = n then v else 0) + name_total n kvs"
  "name_total n (xs @ ys) = name_total n xs + name_total n ys"
  by (simp_all add: name_total_def)

lemma name_total_update:
  "distinct (map fst m) \<Longrightarrow>
   name_total n (AList.update k v m) = name_total n m +
     (if mk_Name k = n then v - (case map_of m k of None \<Rightarrow> 0 | Some x \<Rightarrow> x) else 0)"
proof (induction m)
  case (Cons kv m)
  obtain k' x where kv: "kv = (k', x)" by force
  from Cons.prems have "k = k' \<Longrightarrow> map_of m k = None" by (auto simp: kv map_of_eq_None_iff)
  with Cons show ?case by (auto simp: kv)
qed simp

lemma name_total_sum_counts:
  "distinct (map fst acc) \<Longrightarrow> name_total n (sum_counts acc kvs) = name_total n acc + name_total n kvs"
proof (induction acc kvs rule: sum_counts.induct)
  case (2 acc k v kvs)
  then show ?case by (simp add: distinct_update name_total_update)
qed simp

lemma name_total_perm: "mset xs = mset ys \<Longrightarrow> name_total n xs = name_total n ys"
proof -
  assume "mset xs = mset ys"
  then have "mset (map snd (filter P xs)) = mset (map snd (filter P ys))" for P by simp
  then show ?thesis unfolding name_total_def sum_mset_sum_list [symmetric] by (simp only:)
qed

section \<open>Windows\<close>

definition epoch :: gotime where "epoch = 62135596800 * second"

lemma minute_of_epoch: "epoch \<le> t \<Longrightarrow> minute_of t = (t div second - 62135596800) div 60"
  by (simp add: minute_of_def Unix_def epoch_def zdiv_mono1)

lemma minute_of_mono: "epoch \<le> t \<Longrightarrow> t \<le> u \<Longrightarrow> minute_of t \<le> minute_of u"
  by (simp add: minute_of_epoch zdiv_mono1)

lemma div60_shift: "(x - 3540) div 60 = x div 60 - (59 :: int)"
proof -
  have "(x + (- 59) * 60) div 60 = - 59 + x div 60" by (rule div_mult_self1) simp
  then show ?thesis by simp
qed

lemma div_second_shift: "(x - 59 * minute) div second = x div second - (3540 :: int)"
proof -
  have "(x + (- 3540) * second) div second = - 3540 + x div second" by (rule div_mult_self1) simp
  then show ?thesis by simp
qed

lemma minute_of_window:
  assumes "epoch + hour \<le> now" "w \<le> 59 * minute"
  shows "minute_of now - 60 < minute_of (now - w)"
proof -
  have e: "epoch \<le> now" "epoch \<le> now - 59 * minute" using assms(1) by auto
  have "minute_of (now - 59 * minute) = (now div second - 3540 - 62135596800) div 60"
    unfolding minute_of_epoch [OF e(2)] div_second_shift ..
  also have "\<dots> = (now div second - 62135596800 - 3540) div 60" by (simp only: diff_diff_eq add.commute)
  also have "\<dots> = minute_of now - 59" unfolding div60_shift minute_of_epoch [OF e(1)] ..
  finally have "minute_of (now - 59 * minute) = minute_of now - 59" .
  moreover have "minute_of (now - 59 * minute) \<le> minute_of (now - w)"
    using e assms(2) by (intro minute_of_mono) auto
  ultimately show ?thesis by linarith
qed

definition window_total :: "string \<Rightarrow> int \<Rightarrow> metricStore \<Rightarrow> int" where
  "window_total n lo bs = sum_list (map (\<lambda>b. name_total n (counts b)) (filter (\<lambda>b. \<not> minute_no b < lo) bs))"

lemma window_total_simps [simp]:
  "window_total n lo [] = 0"
  "window_total n lo (b # bs) = (if minute_no b < lo then 0 else name_total n (counts b)) + window_total n lo bs"
  "window_total n lo (bs @ cs) = window_total n lo bs + window_total n lo cs"
  by (simp_all add: window_total_def)

lemma window_total_dropWhile:
  "k < lo \<Longrightarrow> window_total n lo (dropWhile (\<lambda>b. minute_no b \<le> k) bs) = window_total n lo bs"
  by (induction bs) auto

lemma name_total_concat:
  "name_total n (concat (map counts (filter (\<lambda>b. \<not> minute_no b < lo) bs))) = window_total n lo bs"
  by (induction bs) auto

definition store_ok :: "int \<Rightarrow> metricStore \<Rightarrow> bool" where
  "store_ok m bs =
     (bs \<noteq> [] \<and> minute_no (last bs) = m \<and>
      (\<forall>b \<in> set bs. distinct (map fst (counts b))))"

lemma roll_ok:
  assumes "bs = [] \<or> store_ok k bs"
  shows "store_ok m (roll m bs)"
    and "m - 60 < lo \<Longrightarrow> window_total n lo (roll m bs) = window_total n lo bs"
proof -
  have r: "MetricsRetention div minute = 60" by (simp add: MetricsRetention_def)
  let ?b = "\<lparr>minute_no = m, counts = []\<rparr>"
  let ?d = "dropWhile (\<lambda>b. minute_no b \<le> m - 60) (bs @ [?b])"
  have d: "?d \<noteq> []" by (simp add: dropWhile_eq_Nil_conv)
  have l: "last ?d = ?b" using d by (metis last_appendR last_snoc list.distinct(1) takeWhile_dropWhile_id)
  have s: "set ?d \<subseteq> set bs \<union> {?b}" using set_dropWhileD by fastforce
  show "store_ok m (roll m bs)"
  proof (cases "bs = [] \<or> minute_no (last bs) \<noteq> m")
    case True
    then have "roll m bs = ?d" by (simp add: roll_def r)
    with d l s assms show ?thesis by (fastforce simp: store_ok_def)
  next
    case False
    with assms show ?thesis by (auto simp: roll_def store_ok_def)
  qed
  show "window_total n lo (roll m bs) = window_total n lo bs" if "m - 60 < lo"
    using window_total_dropWhile [OF that, of n "bs @ [?b]"] by (simp add: roll_def r)
qed

lemma bump_total:
  "distinct (map fst (counts b)) \<Longrightarrow>
   name_total n (counts (bump key b)) = name_total n (counts b) + (if mk_Name key = n then 1 else 0)"
  by (auto simp: bump_def Let_def name_total_update)

lemma bump_simps [simp]:
  "minute_no (bump key b) = minute_no b"
  "distinct (map fst (counts b)) \<Longrightarrow> distinct (map fst (counts (bump key b)))"
  by (simp_all add: bump_def Let_def distinct_update)

lemma metric_add_ok:
  assumes "bs = [] \<or> store_ok k bs"
  shows "store_ok (minute_of t) (metric_add key t bs)"
    and "minute_of t - 60 < lo \<Longrightarrow> window_total n lo (metric_add key t bs) =
      window_total n lo bs + (if mk_Name key = n \<and> lo \<le> minute_of t then 1 else 0)"
proof -
  let ?r = "roll (minute_of t) bs"
  have ok: "store_ok (minute_of t) ?r" using assms by (rule roll_ok)
  then have r: "?r = butlast ?r @ [last ?r]" "minute_no (last ?r) = minute_of t"
    "distinct (map fst (counts (last ?r)))" by (auto simp: store_ok_def)
  have add: "metric_add key t bs = butlast ?r @ [bump key (last ?r)]" by (simp add: metric_add_def Let_def)
  show "store_ok (minute_of t) (metric_add key t bs)"
    using ok r unfolding add store_ok_def by (auto dest: in_set_butlastD)
  show "window_total n lo (metric_add key t bs) =
      window_total n lo bs + (if mk_Name key = n \<and> lo \<le> minute_of t then 1 else 0)"
    if lo: "minute_of t - 60 < lo"
  proof -
    have "window_total n lo bs = window_total n lo (butlast ?r @ [last ?r])"
      unfolding r(1) [symmetric] using roll_ok(2) [OF assms lo] by simp
    then show ?thesis unfolding add using r(2,3) by (simp add: bump_total)
  qed
qed

definition add_ops :: "(MetricKey \<times> gotime) list \<Rightarrow> metricStore" where
  "add_ops cs = fold (\<lambda>(key, t). metric_add key t) cs []"

lemma add_ops_total:
  "sorted (map snd cs) \<Longrightarrow> \<forall>c \<in> set cs. epoch \<le> snd c \<Longrightarrow> cs \<noteq> [] \<Longrightarrow>
   store_ok (minute_of (snd (last cs))) (add_ops cs) \<and>
   (\<forall>lo > minute_of (snd (last cs)) - 60. window_total n lo (add_ops cs) =
      int (length (filter (\<lambda>(key, t). mk_Name key = n \<and> lo \<le> minute_of t) cs)))"
proof (induction cs rule: rev_induct)
  case (snoc c cs)
  obtain key t where c: "c = (key, t)" by force
  have add: "add_ops (cs @ [c]) = metric_add key t (add_ops cs)" by (simp add: add_ops_def c)
  show ?case
  proof (cases "cs = []")
    case True
    have "add_ops cs = []" using True by (simp add: add_ops_def)
    then show ?thesis
      unfolding add using metric_add_ok [OF disjI1 [OF refl], where t = t and key = key] True c by (auto simp del: window_total_simps(2))
  next
    case False
    with snoc have IH: "store_ok (minute_of (snd (last cs))) (add_ops cs)"
      "\<forall>lo > minute_of (snd (last cs)) - 60. window_total n lo (add_ops cs) =
        int (length (filter (\<lambda>(key, t). mk_Name key = n \<and> lo \<le> minute_of t) cs))"
      by (auto simp: sorted_append)
    have "snd (last cs) \<le> t" "epoch \<le> snd (last cs)"
      using False snoc.prems by (auto simp: sorted_append c)
    then have "minute_of (snd (last cs)) \<le> minute_of t" by (simp add: minute_of_mono)
    with IH(2) metric_add_ok [OF disjI2 [OF IH(1)], where t = t and key = key] show ?thesis
      unfolding add by (auto simp: c)
  qed
qed simp

text \<open>
  the counters are exact per name: over a window of up to 59 minutes the snapshot's counts of
  a name add up to the number of \<open>Count\<close> calls for that name in the window's minutes, although the
  memory is bounded and the detail of a crowded minute is folded into an overflow row; the rows
  are sorted.
\<close>

theorem metrics_exact_per_name:
  assumes "sorted (map snd cs @ [now])" "\<forall>c \<in> set cs. epoch \<le> snd c" "epoch + hour \<le> now"
    and "0 < window" "window \<le> 59 * minute"
  shows "name_total n (snapshot window now (add_ops cs)) =
      int (length (filter (\<lambda>(key, t). mk_Name key = n \<and> minute_of (now - window) \<le> minute_of t) cs)) \<and>
    sorted_wrt (\<lambda>a b. \<not> row_before b a) (snapshot window now (add_ops cs))"
proof -
  let ?lo = "minute_of (now - window)"
  let ?sum = "sum_counts [] (concat (map counts (filter (\<lambda>b. \<not> minute_no b < ?lo) (add_ops cs))))"
  have snap: "snapshot window now (add_ops cs) = SliceStable row_before ?sum"
    using assms(4,5) by (simp add: snapshot_def MetricsRetention_def Let_def time_Add_def)
  have "name_total n (SliceStable row_before ?sum) = name_total n ?sum" by (rule name_total_perm) simp
  then have tot: "name_total n (snapshot window now (add_ops cs)) = window_total n ?lo (add_ops cs)"
    by (simp add: snap name_total_sum_counts name_total_concat)
  have "window_total n ?lo (add_ops cs) =
      int (length (filter (\<lambda>(key, t). mk_Name key = n \<and> ?lo \<le> minute_of t) cs))"
  proof (cases "cs = []")
    case False
    then have "snd (last cs) \<le> now" "epoch \<le> snd (last cs)" using assms(1,2) by (auto simp: sorted_append)
    then have "minute_of (snd (last cs)) \<le> minute_of now" by (simp add: minute_of_mono)
    then have "minute_of (snd (last cs)) - 60 < ?lo" using minute_of_window [OF assms(3,5)] by simp
    with add_ops_total [of cs n] assms(1,2) False show ?thesis by (simp add: sorted_append)
  qed (simp add: add_ops_def)
  with tot show ?thesis by (simp add: snap rows.sorted_SliceStable)
qed

definition metric_key :: "string \<Rightarrow> int \<Rightarrow> MetricKey" where
  "metric_key n g = \<lparr>mk_Name = n, mk_GroupID = g, mk_AccountID = 0, mk_Label = []\<rparr>"

theorem metrics_exact_per_name_witness:
  "name_total ''stall'' (snapshot (5 * minute) (epoch + 65 * minute)
     (add_ops [(metric_key ''stall'' 1, epoch), (metric_key ''stall'' 2, epoch + 62 * minute),
        (metric_key ''turn_cap'' 1, epoch + 63 * minute), (metric_key ''stall'' 2, epoch + 64 * minute)])) = 2"
  using metrics_exact_per_name
    [of "[(metric_key ''stall'' 1, epoch), (metric_key ''stall'' 2, epoch + 62 * minute),
        (metric_key ''turn_cap'' 1, epoch + 63 * minute), (metric_key ''stall'' 2, epoch + 64 * minute)]"
      "epoch + 65 * minute" "5 * minute" "''stall''"]
  by (simp add: metric_key_def minute_of_def Unix_def epoch_def)

end
