(* ===== verification/Resil_Advice.thy ===== *)
theory Resil_Advice
  imports Resil_Retry_Hint
begin

text \<open>
  Client retry advice (the pure part of \<open>resilience/retry_advice.go\<close>): normalisation, the header,
  the message suffix and the eligibility of a failure. The expression of the suffix has one way to
  match at a position; a match always reaches the end of the message, so replacing all matches is
  replacing the leftmost one.
\<close>

record RetryAdvice =
  Seconds :: int
  ra_Source :: string
  Suppress :: bool

definition no_advice :: RetryAdvice where
  "no_advice = \<lparr>Seconds = 0, ra_Source = [], Suppress = False\<rparr>"

definition normalized :: "RetryAdvice \<Rightarrow> RetryAdvice" where
  "normalized a = (if Suppress a then a\<lparr>Seconds := 0\<rparr> else a\<lparr>Seconds := max 0 (min (Seconds a) 10)\<rparr>)"

definition Headers :: "RetryAdvice \<Rightarrow> (string \<times> string) list" where
  "Headers a =
     (if Suppress a \<or> Seconds a \<le> 0 then [] else [(''retry-after'', Itoa (min (Seconds a) 10))])"

text \<open>The punctuation \<open>.!?\<close> and its full-width forms.\<close>

definition punctuation :: "string list" where
  "punctuation = [''.'', ''!'', ''?'', [CHR 0xE3, CHR 0x80, CHR 0x82], [CHR 0xEF, CHR 0xBC, CHR 0x81],
     [CHR 0xEF, CHR 0xBC, CHR 0x9F]]"

text \<open>\<open>Please try again in [0-9]+s\.\s*$\<close>\<close>

definition delay_suffix :: "string \<Rightarrow> bool" where
  "delay_suffix s =
     (let p = ''Please try again in ''; r = drop (length p) s; ds = takeWhile is_digit r
      in prefix p s \<and> ds \<noteq> [] \<and> prefix ''s.'' (drop (length ds) r) \<and>
         skip_ws (drop (length ds + 2) r) = [])"

text \<open>The captured \<open>$1\<close> of a match at a position that is not the start of the message.\<close>

definition m_punct_suffix :: "string \<Rightarrow> string option" where
  "m_punct_suffix s =
     (case find (\<lambda>p. prefix p s) punctuation of
        None \<Rightarrow> None
      | Some p \<Rightarrow>
          let r = drop (length p) s; w = takeWhile is_space r
          in if w \<noteq> [] \<and> delay_suffix (drop (length w) r) then Some (p @ w) else None)"

fun strip_delay :: "string \<Rightarrow> string option" where
  "strip_delay [] = None"
| "strip_delay (c # s) =
     (case m_punct_suffix (c # s) of Some cap \<Rightarrow> Some cap | None \<Rightarrow> map_option ((#) c) (strip_delay s))"

text \<open>\<open>strings.TrimRight(s, " \t\r\n")\<close>\<close>

definition trim_right_ws :: "string \<Rightarrow> string" where
  "trim_right_ws s = rev (dropWhile (\<lambda>c. c \<in> {CHR 0x20, CHR 0x09, CHR 0x0D, CHR 0x0A}) (rev s))"

definition Message :: "RetryAdvice \<Rightarrow> string \<Rightarrow> string" where
  "Message a message =
     (let original = message;
          message = (if delay_suffix message then trim_right_ws []
                     else (case strip_delay message of None \<Rightarrow> message | Some m \<Rightarrow> trim_right_ws m));
          a = normalized a
      in if Seconds a = 0 then (if TrimSpace message = [] then original else message)
         else
           let base = TrimSpace message;
               base = (if base \<noteq> [] then
                   (if strip_seqs (map rev punctuation) (rev base) = rev base then base @ ''.'' else base) @ '' ''
                 else base)
           in base @ ''Please try again in '' @ Itoa (Seconds a) @ ''s.'')"

definition terminal_codes :: "string list" where
  "terminal_codes = [''invalid_request_error'', ''invalid_request'', ''authentication_error'', ''authentication_failed'',
     ''permission_error'', ''permission_denied'', ''model_not_found'', ''not_found_error'',
     ''billing_service_error'', ''context_length_exceeded'', ''insufficient_balance'', ''insufficient_quota'',
     ''content_policy_violation'', ''content_filter'']"

definition transient_codes :: "string list" where
  "transient_codes = [''api_error'', ''server_error'', ''upstream_error'', ''overloaded_error'', ''server_is_overloaded'',
     ''rate_limit_error'', ''rate_limit_exceeded'', ''no_available_accounts'', ''account_unavailable'']"

definition RetryAdviceEligible :: "int \<Rightarrow> string \<Rightarrow> string \<Rightarrow> bool" where
  "RetryAdviceEligible status errType code =
     (if list_ex (\<lambda>v. ToLower v \<in> set terminal_codes) [errType, code] then False
      else if status \<noteq> 0 then status = 429 \<or> (500 \<le> status \<and> status < 600)
      else list_ex (\<lambda>v. ToLower v \<in> set transient_codes) [errType, code])"

lemma normalized_range: "0 \<le> Seconds (normalized a) \<and> Seconds (normalized a) \<le> 10"
  by (simp add: normalized_def)

lemma normalized_idem [simp]: "normalized (normalized a) = normalized a"
  by (cases a) (auto simp: normalized_def)

lemma Suppress_normalized [simp]: "Suppress (normalized a) = Suppress a"
  by (simp add: normalized_def)

end
