(* ===== verification/Resil_State.thy ===== *)
theory Resil_State
  imports Resil_Budget Resil_Storm Resil_Advice
begin

text \<open>
  The per-request resilience state (\<open>resilience/state.go\<close>, with \<open>attempt_profile.go\<close>,
  \<open>prelude_trace.go\<close> and the stateful part of \<open>retry_advice.go\<close>).

  A nil \<open>*RequestState\<close> is \<open>None\<close>: \<open>on\<close> applies an update, \<open>read\<close> reads with the code's default.
  Every method holds the state's mutex, so it is one atomic step. \<open>StateFrom(ctx)\<close> is the optional
  state. Values of type \<open>any\<close> are tagged with their dynamic type. Calls on the session recorder
  are returned as values. The mutable fields of the delivery part are in \<open>Resil_Delivery\<close>'s record
  \<open>delivery\<close>, declared here because \<open>RequestState\<close> contains it.
\<close>

section \<open>State\<close>

text \<open>A comparable dynamic value: its type and its identity.\<close>

datatype any = AnyNil | Any string nat

record PreludeReleaseSchema =
  EventKeys :: string
  ItemType :: string
  ItemKeys :: string
  HasEncrypted :: bool

record preludeTrace =
  createdAt :: gotime
  releaseEvent :: string
  releaseAfterCreatedMS :: int
  schema :: PreludeReleaseSchema

record AttemptProfile =
  AccountID :: account_id
  ap_Model :: string
  AttemptStart :: gotime
  ap_Warm :: bool
  ap_Stream :: bool
  BodyBytes :: int

record PostOutputFailureFact =
  fact_AccountID :: account_id
  fact_AccountName :: string
  fact_Platform :: string
  fact_ProxyID :: "int option"
  fact_ProxyName :: string
  fact_AtUnixMs :: int
  fact_Reason :: string
  fact_Category :: Category
  fact_Message :: string
  SendBoundary :: "64 word"
  HasSendBoundary :: bool

record delivery =
  d_client :: bool
  d_started :: gotime
  d_apiKeyID :: int
  d_probe :: bool
  d_stage :: string
  d_finished :: bool
  semanticOutput :: gotime
  recoveryOutcome :: string
  once_done :: bool
  d_disconnected :: bool
  d_delivered :: bool
  d_abuse :: bool
  disconnectAt :: gotime
  stageAtCut :: string
  usageJSON :: string
  upstreamCost :: rat
  d_billed :: bool
  recordWritten :: bool

record RequestState =
  st_budget :: "Budget option"
  st_stateSwitch :: nat
  retryAdvice :: RetryAdvice
  retryAdviceSet :: bool
  retryAdviceProvider :: bool
  prelude :: preludeTrace
  requestID :: string
  firstOutput :: gotime
  firstOutputNoted :: bool
  attemptProfile :: AttemptProfile
  selectionEligibility :: any
  st_groupID :: int
  st_d :: delivery
  stickyOwner :: account_id
  keptSticky :: account_id
  stickyBypassReason :: string
  stickyBypassLogged :: bool
  stickyBypassChangesBinding :: bool
  stateRepairAvoidedAccount :: account_id
  st_lastResort :: account_id
  lastResortSessionLimited :: bool
  st_edge :: string
  originGroupID :: int
  fallbackUsed :: bool
  fallbackOrigin :: any
  st_configError :: bool
  st_groupNoAccount :: bool
  sessionGroupID :: int
  sessionHash :: string
  sessionRec :: any
  turnGroupID :: int
  turnModel :: string
  turnSession :: string
  turnNoted :: bool
  turnFailed :: bool
  avoided :: "account_id set"
  failedAccounts :: "account_id set"
  streamFailures :: "(account_id \<times> any) list"
  opsUpstreamEventSequence :: "64 word"
  opsUpstreamSendBoundaries :: "(account_id \<times> 64 word) list"
  postOutputFailureFacts :: "PostOutputFailureFact list"

definition empty_schema :: PreludeReleaseSchema where
  "empty_schema = \<lparr>EventKeys = [], ItemType = [], ItemKeys = [], HasEncrypted = False\<rparr>"

definition empty_prelude :: preludeTrace where
  "empty_prelude = \<lparr>createdAt = 0, releaseEvent = [], releaseAfterCreatedMS = 0, schema = empty_schema\<rparr>"

definition empty_profile :: AttemptProfile where
  "empty_profile = \<lparr>AccountID = 0, ap_Model = [], AttemptStart = 0, ap_Warm = False, ap_Stream = False, BodyBytes = 0\<rparr>"

definition empty_delivery :: delivery where
  "empty_delivery = \<lparr>d_client = False, d_started = 0, d_apiKeyID = 0, d_probe = False, d_stage = [],
     d_finished = False, semanticOutput = 0, recoveryOutcome = [], once_done = False, d_disconnected = False,
     d_delivered = False, d_abuse = False, disconnectAt = 0, stageAtCut = [], usageJSON = [], upstreamCost = 0,
     d_billed = False, recordWritten = False\<rparr>"

text \<open>\<open>NewRequestState\<close>, with the UUID drawn for it.\<close>

definition NewRequestState :: "string \<Rightarrow> RequestState" where
  "NewRequestState uuid =
     \<lparr>st_budget = None, st_stateSwitch = 0, retryAdvice = no_advice, retryAdviceSet = False,
      retryAdviceProvider = False, prelude = empty_prelude, requestID = uuid, firstOutput = 0,
      firstOutputNoted = False, attemptProfile = empty_profile, selectionEligibility = AnyNil, st_groupID = 0,
      st_d = empty_delivery, stickyOwner = 0, keptSticky = 0, stickyBypassReason = [],
      stickyBypassLogged = False, stickyBypassChangesBinding = False, stateRepairAvoidedAccount = 0,
      st_lastResort = 0, lastResortSessionLimited = False, st_edge = [], originGroupID = 0,
      fallbackUsed = False, fallbackOrigin = AnyNil, st_configError = False, st_groupNoAccount = False,
      sessionGroupID = 0, sessionHash = [], sessionRec = AnyNil, turnGroupID = 0, turnModel = [],
      turnSession = [], turnNoted = False, turnFailed = False, avoided = {}, failedAccounts = {},
      streamFailures = [], opsUpstreamEventSequence = 0, opsUpstreamSendBoundaries = [],
      postOutputFailureFacts = []\<rparr>"

type_synonym state = "RequestState option"

definition on :: "(RequestState \<Rightarrow> RequestState) \<Rightarrow> state \<Rightarrow> state" where
  "on f s = map_option f s"

definition read :: "'a \<Rightarrow> (RequestState \<Rightarrow> 'a) \<Rightarrow> state \<Rightarrow> 'a" where
  "read d f s = (case s of None \<Rightarrow> d | Some r \<Rightarrow> f r)"

lemma on_simps [simp]: "on f None = None" "on f (Some r) = Some (f r)"
  by (simp_all add: on_def)

lemma read_simps [simp]: "read d f None = d" "read d f (Some r) = f r"
  by (simp_all add: read_def)

section \<open>Session and avoidance\<close>

definition st_AllowStateSwitch :: "state \<Rightarrow> bool \<times> state" where
  "st_AllowStateSwitch s = (case s of
       None \<Rightarrow> (True, None)
     | Some r \<Rightarrow> if 1 \<le> st_stateSwitch r then (False, Some r)
         else (True, Some (r\<lparr>st_stateSwitch := st_stateSwitch r + 1\<rparr>)))"

definition SetSession :: "int \<Rightarrow> string \<Rightarrow> any \<Rightarrow> state \<Rightarrow> state" where
  "SetSession groupID hash rec s =
     (if hash = [] \<or> rec = AnyNil then s
      else on (\<lambda>r. r\<lparr>sessionGroupID := groupID, sessionHash := hash, sessionRec := rec\<rparr>) s)"

definition SetAvoided :: "account_id set \<Rightarrow> state \<Rightarrow> state" where
  "SetAvoided ids = on (\<lambda>r. r\<lparr>avoided := ids\<rparr>)"

definition AddAvoided :: "account_id \<Rightarrow> state \<Rightarrow> state" where
  "AddAvoided a s = (if a \<le> 0 then s else on (\<lambda>r. r\<lparr>avoided := insert a (avoided r)\<rparr>) s)"

definition Avoided :: "account_id \<Rightarrow> state \<Rightarrow> bool" where
  "Avoided a = read False (\<lambda>r. a \<in> avoided r)"

definition NoteTurn :: "int \<Rightarrow> string \<Rightarrow> string \<Rightarrow> state \<Rightarrow> state" where
  "NoteTurn groupID model hash =
     on (\<lambda>r. r\<lparr>turnGroupID := groupID, turnModel := model, turnSession := hash, turnNoted := True\<rparr>)"

definition st_TurnKey :: "state \<Rightarrow> string" where
  "st_TurnKey = read [] (\<lambda>r.
     let apiKeyID = d_apiKeyID (st_d r)
     in if \<not> turnNoted r \<or> apiKeyID \<le> 0 \<or> turnSession r = [] then []
        else TurnKey apiKeyID (turnGroupID r) (turnModel r) (turnSession r))"

definition st_Model :: "state \<Rightarrow> string" where
  "st_Model = read [] turnModel"

definition MarkTurnFailed :: "state \<Rightarrow> state" where
  "MarkTurnFailed = on (\<lambda>r. r\<lparr>turnFailed := True\<rparr>)"

definition TurnFailed :: "state \<Rightarrow> bool" where
  "TurnFailed = read False turnFailed"

definition MarkAccountFailed :: "account_id \<Rightarrow> state \<Rightarrow> state" where
  "MarkAccountFailed a s = (if a \<le> 0 then s else on (\<lambda>r. r\<lparr>failedAccounts := insert a (failedAccounts r)\<rparr>) s)"

definition AccountFailed :: "account_id \<Rightarrow> state \<Rightarrow> bool" where
  "AccountFailed a = read False (\<lambda>r. a \<in> failedAccounts r)"

definition ReportStreamFailure :: "account_id \<Rightarrow> any \<Rightarrow> state \<Rightarrow> bool \<times> state" where
  "ReportStreamFailure a attempt s = (case s of
       None \<Rightarrow> (True, None)
     | Some r \<Rightarrow>
         if map_of (streamFailures r) a = Some attempt then (False, Some r)
         else (True, Some (r\<lparr>streamFailures := AList.update a attempt (streamFailures r)\<rparr>)))"

definition StreamFailureReported :: "account_id \<Rightarrow> state \<Rightarrow> bool" where
  "StreamFailureReported a = read False (\<lambda>r. map_of (streamFailures r) a \<noteq> None)"

section \<open>Upstream events and post-output facts\<close>

definition RecordOpsUpstreamEvent :: "state \<Rightarrow> 64 word \<times> state" where
  "RecordOpsUpstreamEvent s = (case s of
       None \<Rightarrow> (0, None)
     | Some r \<Rightarrow> let r = r\<lparr>opsUpstreamEventSequence := opsUpstreamEventSequence r + 1\<rparr>
         in (opsUpstreamEventSequence r, Some r))"

definition MarkOpsUpstreamSendBoundary :: "account_id \<Rightarrow> state \<Rightarrow> state" where
  "MarkOpsUpstreamSendBoundary a s =
     (if a \<le> 0 then s
      else on (\<lambda>r. r\<lparr>opsUpstreamSendBoundaries :=
        AList.update a (opsUpstreamEventSequence r) (opsUpstreamSendBoundaries r)\<rparr>) s)"

definition OpsUpstreamSendBoundary :: "account_id \<Rightarrow> state \<Rightarrow> 64 word option" where
  "OpsUpstreamSendBoundary a s = (if a \<le> 0 then None else read None (\<lambda>r. map_of (opsUpstreamSendBoundaries r) a) s)"

definition OpsUpstreamEventSequence :: "state \<Rightarrow> 64 word" where
  "OpsUpstreamEventSequence = read 0 opsUpstreamEventSequence"

definition RecordPostOutputFailureFact :: "PostOutputFailureFact \<Rightarrow> state \<Rightarrow> state" where
  "RecordPostOutputFailureFact pf s =
     (if fact_AccountID pf \<le> 0 then s
      else on (\<lambda>r.
        let pf = (case map_of (opsUpstreamSendBoundaries r) (fact_AccountID pf) of
              None \<Rightarrow> pf
            | Some boundary \<Rightarrow> pf\<lparr>SendBoundary := boundary, HasSendBoundary := True\<rparr>)
        in r\<lparr>postOutputFailureFacts := postOutputFailureFacts r @ [pf]\<rparr>) s)"

definition TakePostOutputFailureFacts :: "state \<Rightarrow> PostOutputFailureFact list \<times> state" where
  "TakePostOutputFailureFacts s = (read [] postOutputFailureFacts s, on (\<lambda>r. r\<lparr>postOutputFailureFacts := []\<rparr>) s)"

definition ResetPostOutputOpsTracking :: "state \<Rightarrow> state" where
  "ResetPostOutputOpsTracking = on (\<lambda>r. r\<lparr>opsUpstreamEventSequence := 0, opsUpstreamSendBoundaries := [],
     postOutputFailureFacts := []\<rparr>)"

section \<open>Session recorder\<close>

text \<open>A call on the recorder: the recorder, group, session, account, and for a failure its category
  and the post-output mark of the context.\<close>

datatype recorder_call =
    RecFailure any int string account_id Category bool
  | RecSuccess any int string account_id

definition st_session :: "state \<Rightarrow> int \<times> string \<times> any" where
  "st_session = read (0, [], AnyNil) (\<lambda>r. (sessionGroupID r, sessionHash r, sessionRec r))"

definition SessionIdentity :: "state \<Rightarrow> int \<times> string" where
  "SessionIdentity s = (case st_session s of (g, h, _) \<Rightarrow> (g, h))"

definition SessionFailure :: "bool \<Rightarrow> account_id \<Rightarrow> Category \<Rightarrow> state \<Rightarrow> recorder_call option" where
  "SessionFailure ctx_post_output a c s = (case st_session s of (g, h, rec) \<Rightarrow>
     if rec = AnyNil \<or> a \<le> 0 then None else Some (RecFailure rec g h a c ctx_post_output))"

definition SessionFailureAfterOutput :: "account_id \<Rightarrow> Category \<Rightarrow> state \<Rightarrow> recorder_call option" where
  "SessionFailureAfterOutput a c s = SessionFailure True a c s"

definition SessionSuccess :: "account_id \<Rightarrow> state \<Rightarrow> recorder_call option" where
  "SessionSuccess a s = (case st_session s of (g, h, rec) \<Rightarrow>
     if rec = AnyNil \<or> a \<le> 0 then None else Some (RecSuccess rec g h a))"

definition SetSelectionEligibility :: "any \<Rightarrow> state \<Rightarrow> state" where
  "SetSelectionEligibility v = on (\<lambda>r. r\<lparr>selectionEligibility := v\<rparr>)"

text \<open>The gate for the caller's type, or that type's zero value (\<open>AnyNil\<close>).\<close>

definition SelectionEligibility :: "string \<Rightarrow> state \<Rightarrow> any" where
  "SelectionEligibility typ = read AnyNil (\<lambda>r. case selectionEligibility r of
     Any t v \<Rightarrow> if t = typ then Any t v else AnyNil | AnyNil \<Rightarrow> AnyNil)"

definition GatewayRequestID :: "state \<Rightarrow> string" where
  "GatewayRequestID = read [] requestID"

section \<open>First output and attempt\<close>

definition NoteFirstOutput :: "gotime \<Rightarrow> state \<Rightarrow> state" where
  "NoteFirstOutput t = on (\<lambda>r.
     if IsZero t \<or> firstOutputNoted r then r
     else if IsZero (firstOutput r) then r\<lparr>firstOutput := t, firstOutputNoted := True\<rparr> else r)"

definition FirstOutputNoted :: "state \<Rightarrow> bool" where
  "FirstOutputNoted = read False firstOutputNoted"

definition FirstOutput :: "state \<Rightarrow> gotime" where
  "FirstOutput = read 0 firstOutput"

definition MSSinceFirstOutput :: "gotime \<Rightarrow> state \<Rightarrow> int" where
  "MSSinceFirstOutput now = read 0 (\<lambda>r.
     if IsZero (firstOutput r) then 0 else max 0 (Milliseconds (time_Sub now (firstOutput r))))"

definition SetAttemptProfile :: "AttemptProfile \<Rightarrow> state \<Rightarrow> state" where
  "SetAttemptProfile p = on (\<lambda>r. r\<lparr>attemptProfile := p\<rparr>)"

definition st_AttemptProfile :: "state \<Rightarrow> AttemptProfile" where
  "st_AttemptProfile = read empty_profile attemptProfile"

definition NotePreludeCreated :: "gotime \<Rightarrow> state \<Rightarrow> state" where
  "NotePreludeCreated t = on (\<lambda>r. r\<lparr>prelude := empty_prelude\<lparr>createdAt := t\<rparr>\<rparr>)"

definition NotePreludeReleased :: "string \<Rightarrow> gotime \<Rightarrow> PreludeReleaseSchema \<Rightarrow> state \<Rightarrow> state" where
  "NotePreludeReleased eventType t sch = on (\<lambda>r.
     if eventType = [] \<or> releaseEvent (prelude r) \<noteq> [] then r
     else
       let p = (prelude r)\<lparr>releaseEvent := eventType, schema := sch\<rparr>;
           p = (if \<not> IsZero (createdAt p)
                then p\<lparr>releaseAfterCreatedMS := max 0 (Milliseconds (time_Sub t (createdAt p)))\<rparr> else p)
       in r\<lparr>prelude := p\<rparr>)"

definition PreludeTrace :: "state \<Rightarrow> string \<times> int \<times> PreludeReleaseSchema" where
  "PreludeTrace = read ([], 0, empty_schema)
     (\<lambda>r. (releaseEvent (prelude r), releaseAfterCreatedMS (prelude r), schema (prelude r)))"

section \<open>Group, budget and sticky binding\<close>

definition SetGroup :: "int \<Rightarrow> state \<Rightarrow> state" where "SetGroup g = on (\<lambda>r. r\<lparr>st_groupID := g\<rparr>)"
definition st_GroupID :: "state \<Rightarrow> int" where "st_GroupID = read 0 st_groupID"

definition SetBudget :: "Budget option \<Rightarrow> state \<Rightarrow> state" where "SetBudget b = on (\<lambda>r. r\<lparr>st_budget := b\<rparr>)"
definition st_Budget :: "state \<Rightarrow> Budget option" where "st_Budget = read None st_budget"

definition NoteStickyOwner :: "account_id \<Rightarrow> state \<Rightarrow> state" where
  "NoteStickyOwner a s = (if a \<le> 0 then s else on (\<lambda>r. r\<lparr>stickyOwner := a\<rparr>) s)"
definition StickyOwner :: "state \<Rightarrow> account_id" where "StickyOwner = read 0 stickyOwner"

definition NoteStateRepairAvoidance :: "account_id \<Rightarrow> state \<Rightarrow> state" where
  "NoteStateRepairAvoidance a s = (if a \<le> 0 then s else on (\<lambda>r. r\<lparr>stateRepairAvoidedAccount := a\<rparr>) s)"
definition StateRepairAvoided :: "account_id \<Rightarrow> state \<Rightarrow> bool" where
  "StateRepairAvoided a s = (if a \<le> 0 then False else read False (\<lambda>r. stateRepairAvoidedAccount r = a) s)"

definition NoteStickyBypassReason :: "string \<Rightarrow> state \<Rightarrow> state" where
  "NoteStickyBypassReason reason s =
     (if TrimSpace reason = [] then s
      else on (\<lambda>r. if stickyBypassReason r = [] then r\<lparr>stickyBypassReason := TrimSpace reason\<rparr> else r) s)"
definition StickyBypassReason :: "state \<Rightarrow> string" where "StickyBypassReason = read [] stickyBypassReason"

definition ResetStickyBypassReason :: "state \<Rightarrow> state" where
  "ResetStickyBypassReason = on (\<lambda>r. r\<lparr>stickyBypassReason := [], stickyBypassChangesBinding := False\<rparr>)"
definition NoteStickyBypassBindingChange :: "state \<Rightarrow> state" where
  "NoteStickyBypassBindingChange = on (\<lambda>r. r\<lparr>stickyBypassChangesBinding := True\<rparr>)"
definition StickyBypassChangesBinding :: "state \<Rightarrow> bool" where
  "StickyBypassChangesBinding = read False stickyBypassChangesBinding"

definition ClaimStickyBypassLog :: "state \<Rightarrow> bool \<times> state" where
  "ClaimStickyBypassLog s = (case s of
       None \<Rightarrow> (True, None)
     | Some r \<Rightarrow> if stickyBypassLogged r then (False, Some r) else (True, Some (r\<lparr>stickyBypassLogged := True\<rparr>)))"

definition KeepSticky :: "account_id \<Rightarrow> state \<Rightarrow> state" where
  "KeepSticky a s = (if a \<le> 0 then s else on (\<lambda>r. r\<lparr>keptSticky := a\<rparr>) s)"
definition KeptSticky :: "state \<Rightarrow> account_id" where "KeptSticky = read 0 keptSticky"

definition ClearKeptStickyIfOwner :: "account_id \<Rightarrow> state \<Rightarrow> bool \<times> state" where
  "ClearKeptStickyIfOwner owner s = (case s of
       None \<Rightarrow> (False, None)
     | Some r \<Rightarrow>
         if owner \<le> 0 then (False, Some r)
         else if keptSticky r \<noteq> owner then (False, Some r)
         else (True, Some (r\<lparr>keptSticky := 0\<rparr>)))"

section \<open>Selection outcomes\<close>

definition SetLastResort :: "account_id \<Rightarrow> state \<Rightarrow> state" where "SetLastResort a = on (\<lambda>r. r\<lparr>st_lastResort := a\<rparr>)"
definition st_LastResort :: "state \<Rightarrow> account_id" where "st_LastResort = read 0 st_lastResort"
definition SetEdge :: "string \<Rightarrow> state \<Rightarrow> state" where "SetEdge e = on (\<lambda>r. r\<lparr>st_edge := e\<rparr>)"
definition Edge :: "state \<Rightarrow> string" where "Edge = read [] st_edge"

definition MarkFallback :: "int \<Rightarrow> state \<Rightarrow> bool \<times> state" where
  "MarkFallback originGroup s = (case s of
       None \<Rightarrow> (False, None)
     | Some r \<Rightarrow> if fallbackUsed r then (False, Some r)
         else (True, Some (r\<lparr>fallbackUsed := True, originGroupID := originGroup\<rparr>)))"

definition OriginGroupID :: "state \<Rightarrow> int" where "OriginGroupID = read 0 originGroupID"
definition SetFallbackOrigin :: "any \<Rightarrow> state \<Rightarrow> state" where
  "SetFallbackOrigin v = on (\<lambda>r. r\<lparr>fallbackOrigin := v\<rparr>)"
definition FallbackOrigin :: "state \<Rightarrow> any" where "FallbackOrigin = read AnyNil fallbackOrigin"
definition MarkConfigError :: "state \<Rightarrow> state" where "MarkConfigError = on (\<lambda>r. r\<lparr>st_configError := True\<rparr>)"
definition ConfigError :: "state \<Rightarrow> bool" where "ConfigError = read False st_configError"
definition MarkGroupNoAccount :: "state \<Rightarrow> state" where
  "MarkGroupNoAccount = on (\<lambda>r. r\<lparr>st_groupNoAccount := True\<rparr>)"
definition GroupNoAccount :: "state \<Rightarrow> bool" where "GroupNoAccount = read False st_groupNoAccount"
definition MarkLastResortSessionLimited :: "state \<Rightarrow> state" where
  "MarkLastResortSessionLimited = on (\<lambda>r. r\<lparr>lastResortSessionLimited := True\<rparr>)"
definition LastResortSessionLimited :: "state \<Rightarrow> bool" where
  "LastResortSessionLimited = read False lastResortSessionLimited"

section \<open>Retry advice of the request\<close>

definition SetRetryAdvice :: "RetryAdvice \<Rightarrow> state \<Rightarrow> bool \<times> state" where
  "SetRetryAdvice advice s = (case s of
       None \<Rightarrow> (False, None)
     | Some r \<Rightarrow> if Suppress (retryAdvice r) then (True, Some r)
         else (True, Some (r\<lparr>retryAdvice := normalized advice, retryAdviceSet := True\<rparr>)))"

definition RetryAdviceFrom :: "state \<Rightarrow> RetryAdvice" where
  "RetryAdviceFrom = read no_advice retryAdvice"

text \<open>\<open>WithRetryAdvice\<close> attaches a fresh state (with the drawn UUID) where there is none.\<close>

definition WithRetryAdvice :: "string \<Rightarrow> RetryAdvice \<Rightarrow> state \<Rightarrow> state" where
  "WithRetryAdvice uuid advice s =
     (let s = (if s = None then Some (NewRequestState uuid) else s) in snd (SetRetryAdvice advice s))"

definition WithRetryAdviceProvider :: "string \<Rightarrow> bool \<Rightarrow> state \<Rightarrow> state" where
  "WithRetryAdviceProvider uuid provider s =
     (let s = (if s = None then Some (NewRequestState uuid) else s)
      in on (\<lambda>r. r\<lparr>retryAdviceProvider := provider\<rparr>) s)"

text \<open>
  \<open>ResolveRetryAdvice\<close>: the state at the first lock, what the provider returned within 100 ms of an
  uncanceled context (\<open>None\<close> otherwise), and the state at the second lock, which a terminal writer
  may have changed in between.
\<close>

definition ResolveRetryAdvice :: "state \<Rightarrow> RetryAdvice option \<Rightarrow> state \<Rightarrow> RetryAdvice" where
  "ResolveRetryAdvice s provided later = (case s of
       None \<Rightarrow> no_advice
     | Some r \<Rightarrow>
         if retryAdviceSet r \<or> \<not> retryAdviceProvider r then retryAdvice r
         else
           let res = (case provided of None \<Rightarrow> no_advice | Some a \<Rightarrow> a)
           in read (normalized res) (\<lambda>r'. if retryAdviceSet r' then retryAdvice r' else normalized res) later)"

end
