(* ===== verification/Resil_Delivery.thy ===== *)
theory Resil_Delivery
  imports Resil_State Resil_Metrics
begin

text \<open>
  Client delivery and disconnects (\<open>resilience/delivery.go\<close>): the stages of a request, what a
  client disconnect means (decided once per request), the single undelivered record, the effect of
  a disconnect on the detached upstream work, and the first-output times.

  What the code observes from outside is a parameter (\<open>surroundings\<close>): the published settings,
  whether the client's context has ended, the bytes the delivery probe returns, the clock, and the
  registered abuse counter. Metric counts are returned as values; log lines are not modelled.
\<close>

section \<open>Stages\<close>

definition StageUpload :: string where "StageUpload = ''upload''"
definition StageSelect :: string where "StageSelect = ''select''"
definition StageHeaderWait :: string where "StageHeaderWait = ''header_wait''"
definition StagePreOutput :: string where "StagePreOutput = ''pre_output''"
definition StageStreaming :: string where "StageStreaming = ''streaming''"

lemmas stage_consts = StageUpload_def StageSelect_def StageHeaderWait_def StagePreOutput_def StageStreaming_def

record surroundings =
  cfg :: Settings
  client_ended :: bool
  probe_bytes :: int
  clock :: gotime
  abuse_check :: "(int \<Rightarrow> bool) option"

type_synonym metric = "string \<times> int \<times> int \<times> string"

definition on_d :: "(delivery \<Rightarrow> delivery) \<Rightarrow> state \<Rightarrow> state" where
  "on_d f = on (\<lambda>r. r\<lparr>st_d := f (st_d r)\<rparr>)"

definition read_d :: "'a \<Rightarrow> (delivery \<Rightarrow> 'a) \<Rightarrow> state \<Rightarrow> 'a" where
  "read_d v f = read v (\<lambda>r. f (st_d r))"

lemma on_d_simps [simp]: "on_d f None = None" "on_d f (Some r) = Some (r\<lparr>st_d := f (st_d r)\<rparr>)"
  by (simp_all add: on_d_def)

lemma read_d_simps [simp]: "read_d v f None = v" "read_d v f (Some r) = f (st_d r)"
  by (simp_all add: read_d_def)

text \<open>The client's context and the probe may be nil.\<close>

definition InitDelivery :: "bool \<Rightarrow> gotime \<Rightarrow> bool \<Rightarrow> state \<Rightarrow> state" where
  "InitDelivery client started_at probe =
     on_d (\<lambda>d. d\<lparr>d_client := client, d_started := started_at, d_probe := probe, d_stage := StageSelect\<rparr>)"

definition SetAPIKey :: "int \<Rightarrow> state \<Rightarrow> state" where "SetAPIKey k = on_d (\<lambda>d. d\<lparr>d_apiKeyID := k\<rparr>)"
definition SetStage :: "string \<Rightarrow> state \<Rightarrow> state" where "SetStage stage = on_d (\<lambda>d. d\<lparr>d_stage := stage\<rparr>)"

definition swapStage :: "string \<Rightarrow> string \<Rightarrow> state \<Rightarrow> state" where
  "swapStage src to = on_d (\<lambda>d. if d_stage d = src then d\<lparr>d_stage := to\<rparr> else d)"

definition BeginUpload :: "state \<Rightarrow> state" where "BeginUpload = swapStage StageSelect StageUpload"
definition EndUpload :: "state \<Rightarrow> state" where "EndUpload = swapStage StageUpload StageSelect"

definition delivered_bytes :: "surroundings \<Rightarrow> delivery \<Rightarrow> int" where
  "delivered_bytes w d = (if d_probe d then probe_bytes w else 0)"

definition DeliveredBytes :: "surroundings \<Rightarrow> state \<Rightarrow> int" where
  "DeliveredBytes w = read_d 0 (delivered_bytes w)"

definition MarkFinished :: "state \<Rightarrow> state" where "MarkFinished = on_d (\<lambda>d. d\<lparr>d_finished := True\<rparr>)"
definition Finished :: "state \<Rightarrow> bool" where "Finished = read_d False d_finished"

definition client_gone :: "surroundings \<Rightarrow> delivery \<Rightarrow> bool" where
  "client_gone w d = (d_client d \<and> client_ended w)"

definition ClientGone :: "surroundings \<Rightarrow> state \<Rightarrow> bool" where
  "ClientGone w = read_d False (client_gone w)"

section \<open>Disconnects\<close>

text \<open>The cut: what the first part of \<open>ResolveDisconnect\<close> records under the lock.\<close>

definition record_cut :: "surroundings \<Rightarrow> int \<Rightarrow> delivery \<Rightarrow> delivery" where
  "record_cut w bytes d =
     d\<lparr>d_disconnected := True, disconnectAt := clock w, d_delivered := 0 < bytes,
       stageAtCut := (if 0 < bytes then StageStreaming else d_stage d)\<rparr>"

text \<open>The body of \<open>d.once.Do\<close> for a request of a group: the new delivery part and the metrics it
  counts.\<close>

definition resolve_once :: "surroundings \<Rightarrow> int \<Rightarrow> delivery \<Rightarrow> delivery \<times> metric list" where
  "resolve_once w groupID d =
     (if d_finished d \<or> \<not> DisconnectOn (Some (cfg w)) \<or> \<not> client_gone w d then (d, [])
      else
        let bytes = delivered_bytes w d;
            d = record_cut w bytes d;
            apiKeyID = d_apiKeyID d;
            stage = stageAtCut d;
            elapsed = time_Sub (disconnectAt d) (d_started d)
        in if 0 < bytes then (d, [])
           else
             let ms = [(''undelivered'', groupID, 0, stage)] @
                   (if stage = StageHeaderWait \<or> stage = StagePreOutput
                    then [(''cdn_cut'', groupID, 0, CDNCutBucket elapsed)] else [])
             in if apiKeyID \<le> 0 \<or> stage = StageUpload then (d, ms)
                else (case abuse_check w of
                    None \<Rightarrow> (d, ms)
                  | Some f \<Rightarrow>
                      if f apiKeyID then (d\<lparr>d_abuse := True\<rparr>, ms @ [(''abuse_guard'', groupID, 0, [])])
                      else (d, ms)))"

definition ResolveDisconnect :: "surroundings \<Rightarrow> state \<Rightarrow> (bool \<times> bool \<times> bool) \<times> state \<times> metric list" where
  "ResolveDisconnect w s = (case s of
       None \<Rightarrow> ((False, False, False), None, [])
     | Some r \<Rightarrow>
         let (d, ms) = (if once_done (st_d r) then (st_d r, [])
               else (case resolve_once w (st_groupID r) (st_d r) of (d, ms) \<Rightarrow> (d\<lparr>once_done := True\<rparr>, ms)))
         in ((d_disconnected d, d_delivered d, d_abuse d), Some (r\<lparr>st_d := d\<rparr>), ms))"

definition st_Disconnect :: "state \<Rightarrow> bool \<times> bool \<times> bool" where
  "st_Disconnect = read_d (False, False, False) (\<lambda>d. (d_disconnected d, d_delivered d, d_abuse d))"

definition Undelivered :: "state \<Rightarrow> bool" where
  "Undelivered s = (case st_Disconnect s of (disconnected, delivered, _) \<Rightarrow> disconnected \<and> \<not> delivered)"

definition DisconnectInfo :: "state \<Rightarrow> string \<times> duration" where
  "DisconnectInfo = read_d ([], 0) (\<lambda>d.
     if \<not> d_disconnected d then ([], 0)
     else (stageAtCut d, if IsZero (d_started d) then 0 else time_Sub (disconnectAt d) (d_started d)))"

definition NoteUndeliveredUsage :: "string \<Rightarrow> rat \<Rightarrow> bool \<Rightarrow> state \<Rightarrow> state" where
  "NoteUndeliveredUsage usage cost billed = on_d (\<lambda>d. d\<lparr>usageJSON := usage, upstreamCost := cost, d_billed := billed\<rparr>)"

definition UndeliveredUsage :: "state \<Rightarrow> string \<times> rat \<times> bool" where
  "UndeliveredUsage = read_d ([], 0, False) (\<lambda>d. (usageJSON d, upstreamCost d, d_billed d))"

definition ClaimUndeliveredRecord :: "state \<Rightarrow> bool \<times> state" where
  "ClaimUndeliveredRecord s = (case s of
       None \<Rightarrow> (False, None)
     | Some r \<Rightarrow>
         if \<not> d_disconnected (st_d r) \<or> d_delivered (st_d r) \<or> recordWritten (st_d r) then (False, Some r)
         else (True, Some (r\<lparr>st_d := (st_d r)\<lparr>recordWritten := True\<rparr>\<rparr>)))"

text \<open>What happens to the detached upstream context when the client's context ends: nothing, a
  cancellation at once, or a cancellation after a delay. \<open>watch\<close> tells whether
  \<open>UpstreamContextOnDisconnect\<close> installs the callback at all.\<close>

datatype upstream_effect = Undisturbed | CancelNow | CancelAfter duration

definition watch :: "bool \<Rightarrow> surroundings \<Rightarrow> state \<Rightarrow> bool" where
  "watch client_cancelable w s = (s \<noteq> None \<and> client_cancelable \<and> DisconnectOn (Some (cfg w)))"

text \<open>\<open>opened\<close> are the settings that were current when the callback was installed.\<close>

definition on_client_end :: "Settings \<Rightarrow> surroundings \<Rightarrow> state \<Rightarrow> upstream_effect \<times> state \<times> metric list" where
  "on_client_end opened w s =
     (let ((disconnected, delivered, abuse), s, ms) = ResolveDisconnect w s
      in if \<not> disconnected then (Undisturbed, s, ms)
         else if \<not> delivered \<and> \<not> abuse \<and> CancelUndelivered (Disconnect opened) then (CancelNow, s, ms)
         else
           let drain = seconds (PartialDrainMaxSeconds (Disconnect opened))
           in if drain \<le> 0 then (CancelNow, s, ms) else (CancelAfter drain, s, ms))"

section \<open>First output\<close>

definition NoteSemanticOutput :: "gotime \<Rightarrow> state \<Rightarrow> state" where
  "NoteSemanticOutput t = on_d (\<lambda>d. if IsZero (semanticOutput d) then d\<lparr>semanticOutput := t\<rparr> else d)"

definition SemanticOutputAt :: "state \<Rightarrow> gotime" where "SemanticOutputAt = read_d 0 semanticOutput"

definition EndToEndFirstOutputMs :: "state \<Rightarrow> int option" where
  "EndToEndFirstOutputMs = read_d None (\<lambda>d.
     if IsZero (d_started d) \<or> IsZero (semanticOutput d) then None
     else Some (max 0 (Milliseconds (time_Sub (semanticOutput d) (d_started d)))))"

definition AttemptFirstOutputMs :: "state \<Rightarrow> int option" where
  "AttemptFirstOutputMs s =
     (if s = None then None
      else
        let start = AttemptStart (st_AttemptProfile s); output = SemanticOutputAt s
        in if IsZero start \<or> IsZero output \<or> time_Before output start then None
           else Some (Milliseconds (time_Sub output start)))"

definition SetRecoveryOutcome :: "string \<Rightarrow> state \<Rightarrow> state" where
  "SetRecoveryOutcome v = on_d (\<lambda>d. d\<lparr>recoveryOutcome := v\<rparr>)"

definition RecoveryOutcome :: "state \<Rightarrow> string option" where
  "RecoveryOutcome = read_d None (\<lambda>d. if recoveryOutcome d = [] then None else Some (recoveryOutcome d))"

end
