(* ===== verification/Resil_State_Props.thy ===== *)
theory Resil_State_Props
  imports Resil_Delivery
begin

text \<open>
  Properties of the request state over arbitrary sequences of its operations: the permissions
  granted once, the finality of suppressed retry advice and of a resolved disconnect, and the
  effect of a disconnect on the upstream work.
\<close>

section \<open>Sequences of operations\<close>

text \<open>The mutating methods of a request state, each with its arguments.\<close>

datatype st_op =
    DoStateSwitch | DoClaimLog | DoFallback int | DoClaimRecord | DoResolve surroundings
  | DoAdvice RetryAdvice | DoProvider bool | DoReport account_id any | DoEvent | DoBoundary account_id
  | DoFact PostOutputFailureFact | DoTakeFacts | DoResetOps | DoFirstOutput gotime | DoSemantic gotime
  | DoCreated gotime | DoReleased string gotime PreludeReleaseSchema | DoStage string | DoUpload | DoUploaded
  | DoFinished | DoInit bool gotime bool | DoKey int | DoUsage string rat bool | DoOutcome string
  | DoSession int string any | DoAvoid account_id | DoTurn int string string | DoTurnFailed
  | DoAccountFailed account_id | DoProfile AttemptProfile | DoGroup int | DoBudget "Budget option"
  | DoOwner account_id | DoRepair account_id | DoBypass string | DoBypassReset | DoBypassChange
  | DoKeep account_id | DoClearKeep account_id | DoLastResort account_id | DoEdge string | DoOrigin any
  | DoConfigError | DoNoAccount | DoSessionLimited | DoGate any | DoAvoidSet "account_id set"

fun st_apply :: "st_op \<Rightarrow> state \<Rightarrow> bool \<times> state" where
  "st_apply DoStateSwitch s = st_AllowStateSwitch s"
| "st_apply DoClaimLog s = ClaimStickyBypassLog s"
| "st_apply (DoFallback g) s = MarkFallback g s"
| "st_apply DoClaimRecord s = ClaimUndeliveredRecord s"
| "st_apply (DoResolve w) s = (True, fst (snd (ResolveDisconnect w s)))"
| "st_apply (DoAdvice a) s = SetRetryAdvice a s"
| "st_apply (DoProvider p) s = (True, on (\<lambda>r. r\<lparr>retryAdviceProvider := p\<rparr>) s)"
| "st_apply (DoReport a t) s = ReportStreamFailure a t s"
| "st_apply DoEvent s = (True, snd (RecordOpsUpstreamEvent s))"
| "st_apply (DoBoundary a) s = (True, MarkOpsUpstreamSendBoundary a s)"
| "st_apply (DoFact f) s = (True, RecordPostOutputFailureFact f s)"
| "st_apply DoTakeFacts s = (True, snd (TakePostOutputFailureFacts s))"
| "st_apply DoResetOps s = (True, ResetPostOutputOpsTracking s)"
| "st_apply (DoFirstOutput t) s = (True, NoteFirstOutput t s)"
| "st_apply (DoSemantic t) s = (True, NoteSemanticOutput t s)"
| "st_apply (DoCreated t) s = (True, NotePreludeCreated t s)"
| "st_apply (DoReleased e t c) s = (True, NotePreludeReleased e t c s)"
| "st_apply (DoStage t) s = (True, SetStage t s)"
| "st_apply DoUpload s = (True, BeginUpload s)"
| "st_apply DoUploaded s = (True, EndUpload s)"
| "st_apply DoFinished s = (True, MarkFinished s)"
| "st_apply (DoInit c t p) s = (True, InitDelivery c t p s)"
| "st_apply (DoKey k) s = (True, SetAPIKey k s)"
| "st_apply (DoUsage u c b) s = (True, NoteUndeliveredUsage u c b s)"
| "st_apply (DoOutcome v) s = (True, SetRecoveryOutcome v s)"
| "st_apply (DoSession g h c) s = (True, SetSession g h c s)"
| "st_apply (DoAvoid a) s = (True, AddAvoided a s)"
| "st_apply (DoTurn g m h) s = (True, NoteTurn g m h s)"
| "st_apply DoTurnFailed s = (True, MarkTurnFailed s)"
| "st_apply (DoAccountFailed a) s = (True, MarkAccountFailed a s)"
| "st_apply (DoProfile p) s = (True, SetAttemptProfile p s)"
| "st_apply (DoGroup g) s = (True, SetGroup g s)"
| "st_apply (DoBudget b) s = (True, SetBudget b s)"
| "st_apply (DoOwner a) s = (True, NoteStickyOwner a s)"
| "st_apply (DoRepair a) s = (True, NoteStateRepairAvoidance a s)"
| "st_apply (DoBypass t) s = (True, NoteStickyBypassReason t s)"
| "st_apply DoBypassReset s = (True, ResetStickyBypassReason s)"
| "st_apply DoBypassChange s = (True, NoteStickyBypassBindingChange s)"
| "st_apply (DoKeep a) s = (True, KeepSticky a s)"
| "st_apply (DoClearKeep a) s = ClearKeptStickyIfOwner a s"
| "st_apply (DoLastResort a) s = (True, SetLastResort a s)"
| "st_apply (DoEdge e) s = (True, SetEdge e s)"
| "st_apply (DoOrigin v) s = (True, SetFallbackOrigin v s)"
| "st_apply DoConfigError s = (True, MarkConfigError s)"
| "st_apply DoNoAccount s = (True, MarkGroupNoAccount s)"
| "st_apply DoSessionLimited s = (True, MarkLastResortSessionLimited s)"
| "st_apply (DoGate v) s = (True, SetSelectionEligibility v s)"
| "st_apply (DoAvoidSet ids) s = (True, SetAvoided ids s)"

definition st_step :: "st_op \<Rightarrow> RequestState \<Rightarrow> bool \<times> RequestState" where
  "st_step c r = (fst (st_apply c (Some r)), the (snd (st_apply c (Some r))))"

definition st_run :: "st_op list \<Rightarrow> RequestState \<Rightarrow> RequestState" where
  "st_run cs r = fold (\<lambda>c r. snd (st_step c r)) cs r"

lemma st_run_simps [simp]:
  "st_run [] r = r" "st_run (c # cs) r = st_run cs (snd (st_step c r))"
  "st_run (cs @ ds) r = st_run ds (st_run cs r)"
  by (simp_all add: st_run_def)

lemmas st_op_defs = SetSession_def SetAvoided_def AddAvoided_def NoteTurn_def MarkTurnFailed_def
  MarkAccountFailed_def ReportStreamFailure_def RecordOpsUpstreamEvent_def MarkOpsUpstreamSendBoundary_def
  RecordPostOutputFailureFact_def TakePostOutputFailureFacts_def ResetPostOutputOpsTracking_def
  SetSelectionEligibility_def NoteFirstOutput_def SetAttemptProfile_def NotePreludeCreated_def
  NotePreludeReleased_def SetGroup_def SetBudget_def NoteStickyOwner_def NoteStateRepairAvoidance_def
  NoteStickyBypassReason_def ResetStickyBypassReason_def NoteStickyBypassBindingChange_def
  KeepSticky_def ClearKeptStickyIfOwner_def SetLastResort_def SetEdge_def SetFallbackOrigin_def
  MarkConfigError_def MarkGroupNoAccount_def MarkLastResortSessionLimited_def

lemmas d_op_defs = InitDelivery_def SetAPIKey_def SetStage_def swapStage_def BeginUpload_def EndUpload_def
  MarkFinished_def NoteUndeliveredUsage_def NoteSemanticOutput_def SetRecoveryOutcome_def

lemmas gate_op_defs = st_AllowStateSwitch_def ClaimStickyBypassLog_def MarkFallback_def
  ClaimUndeliveredRecord_def SetRetryAdvice_def

text \<open>The delivery part after a resolution.\<close>

definition resolved :: "surroundings \<Rightarrow> int \<Rightarrow> delivery \<Rightarrow> delivery" where
  "resolved w g d = (if once_done d then d else (fst (resolve_once w g d))\<lparr>once_done := True\<rparr>)"

lemma ResolveDisconnect_Some:
  "fst (snd (ResolveDisconnect w (Some r))) = Some (r\<lparr>st_d := resolved w (st_groupID r) (st_d r)\<rparr>)"
  "fst (ResolveDisconnect w (Some r)) =
     (let d = resolved w (st_groupID r) (st_d r) in (d_disconnected d, d_delivered d, d_abuse d))"
  by (simp_all add: ResolveDisconnect_def resolved_def Let_def split: prod.split)

lemma resolve_once_keeps:
  "recordWritten (fst (resolve_once w g d)) = recordWritten d"
  "d_client (fst (resolve_once w g d)) = d_client d"
  by (simp_all add: resolve_once_def record_cut_def Let_def split: option.split)

lemma resolved_keeps [simp]: "recordWritten (resolved w g d) = recordWritten d" "once_done (resolved w g d)"
  by (simp_all add: resolved_def resolve_once_keeps)

lemmas all_op_defs = st_step_def st_op_defs d_op_defs gate_op_defs Let_def

text \<open>What a step does to the fields that the properties follow.\<close>

lemma step_stateSwitch:
  "st_stateSwitch (snd (st_step c r)) =
     st_stateSwitch r + (if c = DoStateSwitch \<and> st_stateSwitch r < 1 then 1 else 0)"
  by (cases c) (simp_all add: all_op_defs ResolveDisconnect_Some)

lemma step_bypassLogged:
  "stickyBypassLogged (snd (st_step c r)) = (stickyBypassLogged r \<or> c = DoClaimLog)"
  by (cases c) (simp_all add: all_op_defs ResolveDisconnect_Some)

lemma step_fallbackUsed:
  "fallbackUsed (snd (st_step c r)) = (fallbackUsed r \<or> (\<exists>g. c = DoFallback g))"
  by (cases c) (simp_all add: all_op_defs ResolveDisconnect_Some)

lemma step_suppress:
  "Suppress (retryAdvice r) \<Longrightarrow> retryAdvice (snd (st_step c r)) = retryAdvice r \<and>
     retryAdviceSet (snd (st_step c r)) = retryAdviceSet r"
  by (cases c) (simp_all add: all_op_defs ResolveDisconnect_Some)

definition outcome_of :: "delivery \<Rightarrow> bool \<times> bool \<times> bool \<times> bool \<times> bool" where
  "outcome_of d = (once_done d, d_disconnected d, d_delivered d, d_abuse d, recordWritten d)"

lemma step_delivery:
  "outcome_of (st_d (snd (st_step c r))) =
     (case c of
        DoResolve w \<Rightarrow> outcome_of (resolved w (st_groupID r) (st_d r))
      | DoClaimRecord \<Rightarrow>
          (once_done (st_d r), d_disconnected (st_d r), d_delivered (st_d r), d_abuse (st_d r),
           recordWritten (st_d r) \<or> fst (st_step DoClaimRecord r))
      | _ \<Rightarrow> outcome_of (st_d r))"
  by (cases c) (simp_all add: all_op_defs ResolveDisconnect_Some outcome_of_def)

lemma st_run_delivery:
  "once_done (st_d r) \<Longrightarrow> once_done (st_d (st_run cs r)) \<and>
     st_Disconnect (Some (st_run cs r)) = st_Disconnect (Some r)"
proof (induction cs arbitrary: r)
  case (Cons c cs)
  have "once_done (st_d (snd (st_step c r))) \<and>
      st_Disconnect (Some (snd (st_step c r))) = st_Disconnect (Some r)"
    using step_delivery [of c r] Cons.prems
    by (auto simp: outcome_of_def st_Disconnect_def resolved_def split: st_op.splits)
  with Cons.IH show ?case by simp
qed simp

lemma step_claim_record:
  "fst (st_step DoClaimRecord r) = (Undelivered (Some r) \<and> \<not> recordWritten (st_d r))"
  by (auto simp: st_step_def ClaimUndeliveredRecord_def Undelivered_def st_Disconnect_def)

lemma step_recordWritten:
  "recordWritten (st_d (snd (st_step c r))) =
     (recordWritten (st_d r) \<or> (c = DoClaimRecord \<and> fst (st_step DoClaimRecord r)))"
  using step_delivery [of c r] by (auto simp: outcome_of_def split: st_op.splits)

section \<open>Permissions granted once\<close>

interpretation state_switch_gate: eager_gate st_step "\<lambda>c. c = DoStateSwitch" st_stateSwitch "\<lambda>_. 1"
  by unfold_locales (auto simp: step_stateSwitch, auto simp: st_step_def st_AllowStateSwitch_def split: if_splits)

interpretation bypass_log_gate:
  eager_gate st_step "\<lambda>c. c = DoClaimLog" "\<lambda>r. of_bool (stickyBypassLogged r)" "\<lambda>_. 1"
  by unfold_locales (auto simp: step_bypassLogged, auto simp: st_step_def ClaimStickyBypassLog_def split: if_splits)

interpretation fallback_gate:
  eager_gate st_step "\<lambda>c. \<exists>g. c = DoFallback g" "\<lambda>r. of_bool (fallbackUsed r)" "\<lambda>_. 1"
  by unfold_locales (auto simp: step_fallbackUsed, auto simp: st_step_def MarkFallback_def split: if_splits)

interpretation record_gate:
  gate st_step "\<lambda>c. c = DoClaimRecord" "\<lambda>r. of_bool (recordWritten (st_d r))" "\<lambda>_. 1"
  by unfold_locales (auto simp: step_recordWritten step_claim_record)

text \<open>
  over any sequence of calls on the state of a request, the state-repair switch, the sticky
  bypass log line and the availability fallback are each granted to the first caller that asks and
  to nobody else, and at most one undelivered record is written.
\<close>

theorem request_grants_once:
  "grants st_step (\<lambda>c. c = DoStateSwitch) ops (NewRequestState u) =
     min (length (filter (\<lambda>c. c = DoStateSwitch) ops)) 1 \<and>
   grants st_step (\<lambda>c. c = DoClaimLog) ops (NewRequestState u) =
     min (length (filter (\<lambda>c. c = DoClaimLog) ops)) 1 \<and>
   grants st_step (\<lambda>c. \<exists>g. c = DoFallback g) ops (NewRequestState u) =
     min (length (filter (\<lambda>c. \<exists>g. c = DoFallback g) ops)) 1 \<and>
   grants st_step (\<lambda>c. c = DoClaimRecord) ops (NewRequestState u) \<le> 1"
  using state_switch_gate.grants_exact [of "NewRequestState u" ops]
    bypass_log_gate.grants_exact [of "NewRequestState u" ops]
    fallback_gate.grants_exact [of "NewRequestState u" ops]
    record_gate.grants_le_limit [of "NewRequestState u" ops]
  by (simp add: NewRequestState_def empty_delivery_def)

section \<open>Suppressed retry advice\<close>

lemma run_suppress:
  "Suppress (retryAdvice r) \<Longrightarrow> retryAdvice (st_run cs r) = retryAdvice r \<and>
     retryAdviceSet (st_run cs r) = retryAdviceSet r"
  by (induction cs arbitrary: r) (simp_all add: step_suppress)

lemma step_advice_set:
  "(Suppress (retryAdvice r) \<longrightarrow> retryAdviceSet r) \<Longrightarrow>
   Suppress (retryAdvice (snd (st_step c r))) \<longrightarrow> retryAdviceSet (snd (st_step c r))"
  by (cases c) (simp_all add: all_op_defs ResolveDisconnect_Some)

lemma run_advice_set:
  "(Suppress (retryAdvice r) \<longrightarrow> retryAdviceSet r) \<Longrightarrow>
   Suppress (retryAdvice (st_run cs r)) \<longrightarrow> retryAdviceSet (st_run cs r)"
proof (induction cs arbitrary: r)
  case (Cons c cs)
  show ?case using Cons.IH [OF step_advice_set [OF Cons.prems, of c]] by simp
qed simp

lemma advise_suppress:
  "Suppress a \<Longrightarrow> Suppress (retryAdvice (snd (st_step (DoAdvice a) r)))"
  by (simp add: st_step_def SetRetryAdvice_def)

text \<open>
  suppressed retry advice is final: once a handler has suppressed it, no later call of the
  request brings a retry delay back, not even a query of the advice provider that was already
  running.
\<close>

theorem suppression_is_final:
  assumes "Suppress a" "r = st_run (cs @ DoAdvice a # ds) (NewRequestState u)"
  shows "Suppress (ResolveRetryAdvice (Some r) provided later) \<and>
    Headers (ResolveRetryAdvice (Some r) provided later) = [] \<and>
    (\<not> retryAdviceSet q \<and> retryAdviceProvider q \<longrightarrow>
       Headers (ResolveRetryAdvice (Some q) provided (Some r)) = [])"
proof -
  let ?q = "snd (st_step (DoAdvice a) (st_run cs (NewRequestState u)))"
  have r: "r = st_run ds ?q" using assms(2) by simp
  have s: "Suppress (retryAdvice ?q)" using assms(1) by (rule advise_suppress)
  have "Suppress (retryAdvice r)" using run_suppress [OF s, of ds] s r by simp
  moreover have "retryAdviceSet r"
    using run_advice_set [of "NewRequestState u" "cs @ DoAdvice a # ds"] calculation assms(2)
    by (simp add: NewRequestState_def no_advice_def)
  ultimately show ?thesis by (simp add: ResolveRetryAdvice_def Headers_def Let_def)
qed

theorem suppression_is_final_witness:
  "Headers (ResolveRetryAdvice (Some (st_run [DoAdvice \<lparr>Seconds = 5, ra_Source = [], Suppress = True\<rparr>,
     DoAdvice \<lparr>Seconds = 7, ra_Source = [], Suppress = False\<rparr>] (NewRequestState ''id''))) None None) = []"
  using suppression_is_final [of "\<lparr>Seconds = 5, ra_Source = [], Suppress = True\<rparr>" _ "[]"
      "[DoAdvice \<lparr>Seconds = 7, ra_Source = [], Suppress = False\<rparr>]" "''id''" None None]
  by simp

section \<open>Disconnects\<close>

lemma step_resolve:
  "st_d (snd (st_step (DoResolve w) r)) = resolved w (st_groupID r) (st_d r)"
  by (simp add: st_step_def ResolveDisconnect_Some)

text \<open>
  what a disconnect means is decided once: whatever happens after the first resolution, the
  answer stays the same, no further metric is counted, and the undelivered record can only be
  claimed if that first answer was an undelivered disconnect.
\<close>

theorem disconnect_decided_once:
  "st_Disconnect (Some (st_run (cs @ DoResolve w # ds) r)) = st_Disconnect (Some (st_run (cs @ [DoResolve w]) r)) \<and>
   fst (ResolveDisconnect w' (Some (st_run (cs @ DoResolve w # ds) r))) =
     st_Disconnect (Some (st_run (cs @ [DoResolve w]) r)) \<and>
   snd (snd (ResolveDisconnect w' (Some (st_run (cs @ DoResolve w # ds) r)))) = [] \<and>
   fst (st_step DoClaimRecord (st_run (cs @ DoResolve w # ds) r)) =
     (Undelivered (Some (st_run (cs @ [DoResolve w]) r)) \<and>
      \<not> recordWritten (st_d (st_run (cs @ DoResolve w # ds) r)))"
proof -
  let ?q = "snd (st_step (DoResolve w) (st_run cs r))"
  let ?e = "st_run ds ?q"
  have "once_done (st_d ?q)" by (simp add: step_resolve)
  from st_run_delivery [OF this, of ds]
  have e: "once_done (st_d ?e)" "st_Disconnect (Some ?e) = st_Disconnect (Some ?q)" by auto
  have "fst (ResolveDisconnect w' (Some ?e)) = st_Disconnect (Some ?e)"
    "snd (snd (ResolveDisconnect w' (Some ?e))) = []"
    using e(1) by (simp_all add: ResolveDisconnect_def st_Disconnect_def)
  with e show ?thesis by (simp add: step_claim_record Undelivered_def)
qed

lemma step_unresolved:
  assumes "outcome_of (st_d r) = (False, False, False, False, b)"
  shows "once_done (st_d (snd (st_step c r))) \<or>
    (\<exists>b. outcome_of (st_d (snd (st_step c r))) = (False, False, False, False, b))"
  using step_delivery [of c r] assms by (auto simp: outcome_of_def split: st_op.splits)

lemma run_unresolved:
  assumes "\<not> once_done (st_d (st_run cs (NewRequestState u)))"
  shows "\<exists>b. outcome_of (st_d (st_run cs (NewRequestState u))) = (False, False, False, False, b)"
  using assms
proof (induction cs rule: rev_induct)
  case Nil
  show ?case
    by (intro exI [of _ False]) (simp add: NewRequestState_def empty_delivery_def outcome_of_def)
next
  case (snoc c cs)
  let ?r = "st_run cs (NewRequestState u)"
  have "\<not> once_done (st_d ?r)" using snoc.prems st_run_delivery [of ?r "[c]"] by auto
  then obtain b where "outcome_of (st_d ?r) = (False, False, False, False, b)" using snoc.IH by blast
  from step_unresolved [OF this, of c] snoc.prems show ?case by simp
qed

lemma Validate_drain:
  "Validate s = [] \<Longrightarrow> 1 \<le> PartialDrainMaxSeconds (Disconnect s) \<and> PartialDrainMaxSeconds (Disconnect s) \<le> 3600"
  by (simp add: Validate_def validate_disconnect_def in_range_def)

definition abusive :: "surroundings \<Rightarrow> delivery \<Rightarrow> bool" where
  "abusive w d = (0 < d_apiKeyID d \<and> d_stage d \<noteq> StageUpload \<and>
     (case abuse_check w of None \<Rightarrow> False | Some f \<Rightarrow> f (d_apiKeyID d)))"

text \<open>
  when the client's context ends, the detached upstream work of a request that was not
  resolved before is undisturbed if the handler had returned or disconnect handling is off; it is
  cancelled at once if no semantic byte had been delivered, \<open>cancel_undelivered\<close> is set and the
  abuse guard does not bill the key; otherwise it is read on for the configured drain time, which
  under validated settings lies between a second and an hour.
\<close>

theorem client_end_effect:
  assumes "Validate opened = []" "r = st_run cs (NewRequestState u)" "\<not> once_done (st_d r)"
    and "client_gone w (st_d r)"
  shows "fst (on_client_end opened w (Some r)) =
     (if d_finished (st_d r) \<or> \<not> DisconnectOn (Some (cfg w)) then Undisturbed
      else if delivered_bytes w (st_d r) \<le> 0 \<and> CancelUndelivered (Disconnect opened) \<and> \<not> abusive w (st_d r)
      then CancelNow
      else CancelAfter (PartialDrainMaxSeconds (Disconnect opened) * second))"
proof -
  obtain b where o: "outcome_of (st_d r) = (False, False, False, False, b)"
    using run_unresolved assms(2,3) by blast
  have d: "seconds (PartialDrainMaxSeconds (Disconnect opened)) = PartialDrainMaxSeconds (Disconnect opened) * second"
    "0 < PartialDrainMaxSeconds (Disconnect opened)"
    using Validate_drain [OF assms(1)] by (simp_all add: seconds_exact)
  have res: "fst (ResolveDisconnect w (Some r)) =
      (if d_finished (st_d r) \<or> \<not> DisconnectOn (Some (cfg w)) then (False, False, False)
       else (True, 0 < delivered_bytes w (st_d r), \<not> 0 < delivered_bytes w (st_d r) \<and> abusive w (st_d r)))"
    using o assms(4)
    by (auto simp: ResolveDisconnect_Some(2) resolved_def resolve_once_def record_cut_def Let_def outcome_of_def
        abusive_def split: option.split)
  obtain x s ms where x: "ResolveDisconnect w (Some r) = (x, s, ms)" by (metis prod_cases3)
  then have "x = fst (ResolveDisconnect w (Some r))" by simp
  with x show ?thesis unfolding res on_client_end_def using d by (auto split: if_splits)
qed

definition client_left :: surroundings where
  "client_left = \<lparr>cfg = Defaults, client_ended = True, probe_bytes = 0, clock = 95 * second, abuse_check = None\<rparr>"

theorem client_end_effect_witness:
  "fst (on_client_end Defaults client_left (Some (st_run [DoInit True (5 * second) True] (NewRequestState ''id'')))) = CancelNow"
proof -
  let ?r = "st_run [DoInit True (5 * second) True] (NewRequestState ''id'')"
  have d: "st_d ?r = empty_delivery\<lparr>d_client := True, d_started := 5 * second, d_probe := True, d_stage := StageSelect\<rparr>"
    by (simp add: st_step_def InitDelivery_def NewRequestState_def)
  have "\<not> once_done (st_d ?r)" "client_gone client_left (st_d ?r)"
    unfolding d by (simp_all add: empty_delivery_def client_gone_def client_left_def)
  from client_end_effect [OF Defaults_valid refl this] show ?thesis
    unfolding d by (simp add: empty_delivery_def client_left_def delivered_bytes_def abusive_def
        DisconnectOn_def Defaults_def)
qed

end
