(* ===== verification/Resil_Balance.thy ===== *)
theory Resil_Balance
  imports Resil_Retry_Hint
begin

text \<open>
  Balance pauses and the penalty tiers of temporary restrictions (\<open>resilience/balance.go\<close>), and
  the CDN edge markers of a request (\<open>resilience/edge.go\<close>).
\<close>

section \<open>Balance pauses\<close>

definition ReasonPrefixBalanceExhausted :: string where "ReasonPrefixBalanceExhausted = ''balance:exhausted''"
definition ReasonPrefixTransient :: string where "ReasonPrefixTransient = ''transient:''"
definition Reason403Cooldown :: string where "Reason403Cooldown = ''auth:403_cooldown''"
definition legacyOpenAI403CooldownPrefix :: string where
  "legacyOpenAI403CooldownPrefix = ''OpenAI 403 temporary cooldown''"

text \<open>\<open>strconv.Atoi\<close>: an optional sign and digits, within \<open>int64\<close>.\<close>

definition Atoi :: "string \<Rightarrow> int option" where
  "Atoi s =
     (let neg = (s \<noteq> [] \<and> hd s = CHR ''-'');
          ds = (if s \<noteq> [] \<and> (hd s = CHR ''-'' \<or> hd s = CHR ''+'') then tl s else s);
          v = (if neg then - int (digits_val ds) else int (digits_val ds))
      in if ds = [] \<or> \<not> list_all is_digit ds \<or> v < min_int64 \<or> max_int64 < v then None else Some v)"

text \<open>\<open>truncate\<close> cuts back to a rune boundary: \<open>n\<close> is moved down while it points at a
  continuation byte.\<close>

definition cont :: "char \<Rightarrow> bool" where
  "cont c = (0x80 \<le> (of_char c :: nat) \<and> (of_char c :: nat) < 0xC0)"

fun rune_cut :: "string \<Rightarrow> nat \<Rightarrow> nat" where
  "rune_cut s 0 = 0"
| "rune_cut s (Suc n) = (if cont (s ! Suc n) then rune_cut s n else Suc n)"

definition truncate :: "string \<Rightarrow> nat \<Rightarrow> string" where
  "truncate s n = (let s = TrimSpace s in if length s \<le> n then s else take (rune_cut s n) s)"

definition BalancePauseReasonAtStep :: "int \<Rightarrow> string \<Rightarrow> string" where
  "BalancePauseReasonAtStep step evidence =
     (let step = (if step < 1 \<or> 3 < step then 1 else step)
      in ReasonPrefixBalanceExhausted @ ''[step='' @ Itoa step @ '']: '' @ truncate evidence 200)"

definition BalancePauseReason :: "string \<Rightarrow> string" where
  "BalancePauseReason evidence = BalancePauseReasonAtStep 1 evidence"

definition BalancePauseStep :: "string \<Rightarrow> int" where
  "BalancePauseStep reason =
     (let reason = TrimSpace reason; pre = ReasonPrefixBalanceExhausted @ ''[step=''
      in if \<not> HasPrefix reason pre then 1
         else
           let rest = drop (length pre) reason
           in if CHR '']'' \<notin> set rest then 1
              else (case Atoi (takeWhile (\<lambda>c. c \<noteq> CHR '']'') rest) of
                  None \<Rightarrow> 1
                | Some step \<Rightarrow> if step < 1 \<or> 3 < step then 1 else step))"

definition IsBalancePause :: "string \<Rightarrow> bool" where
  "IsBalancePause reason = HasPrefix (TrimSpace reason) ''balance:''"

definition BalancePauseStepForFailure :: "string \<Rightarrow> gotime \<Rightarrow> gotime \<Rightarrow> gotime \<Rightarrow> int" where
  "BalancePauseStepForFailure reason previousUntil attemptStartedAt now =
     (if \<not> IsBalancePause reason then 1
      else
        let step = BalancePauseStep reason
        in if IsZero previousUntil \<or> IsZero attemptStartedAt \<or> time_Before now previousUntil \<or>
              \<not> time_After attemptStartedAt previousUntil
           then step else (if step < 3 then step + 1 else step))"

datatype PenaltyTier = TierNone | TierSoft | TierHard

definition softReasonPrefixes :: "string list" where
  "softReasonPrefixes = [ReasonPrefixTransient, Reason403Cooldown, legacyOpenAI403CooldownPrefix]"

definition SoftReasonPrefixes :: "string list" where "SoftReasonPrefixes = softReasonPrefixes"

definition TempUnschedTier :: "string \<Rightarrow> PenaltyTier" where
  "TempUnschedTier reason =
     (let r = TrimSpace reason
      in if r = [] then TierHard
         else if list_ex (\<lambda>p. HasPrefix r p) softReasonPrefixes then TierSoft else TierHard)"

section \<open>Edge markers\<close>

definition cdnLoopEdges :: "string \<Rightarrow> string" where
  "cdnLoopEdges k = (if k = ''cloudflare'' then ''cf'' else if k = ''esa'' then ''esa'' else [])"

definition EdgeOf :: "string \<Rightarrow> bool \<Rightarrow> string list \<Rightarrow> string" where
  "EdgeOf headerValue trustedPeer allowed =
     (if \<not> trustedPeer then []
      else let v = ToLower (TrimSpace headerValue)
        in if v = [] then [] else if v \<in> set allowed then v else [])"

text \<open>The edges a request passed, nearest the origin last.\<close>

definition cdn_entries :: "string \<Rightarrow> string list" where
  "cdn_entries v = filter (\<lambda>e. e \<noteq> [])
     (map (\<lambda>entry. cdnLoopEdges (ToLower (TrimSpace (CutBefore entry (CHR '';''))))) (Split v (CHR '','')))"

definition seen_edges :: "Header \<Rightarrow> string list" where
  "seen_edges h =
     (if Header_Get h ''Cf-Ray'' \<noteq> [] then [''cf''] else []) @
     concat (map cdn_entries (Header_Values h ''Cdn-Loop''))"

fun nearest_allowed :: "string list \<Rightarrow> string list \<Rightarrow> string" where
  "nearest_allowed [] allowed = []"
| "nearest_allowed (e # es) allowed = (if e \<in> set allowed then e else nearest_allowed es allowed)"

definition EdgeFromCDNHeaders :: "Header \<Rightarrow> string list \<Rightarrow> string" where
  "EdgeFromCDNHeaders h allowed = nearest_allowed (rev (seen_edges h)) allowed"

section \<open>Trimming a text with a solid core\<close>

lemma strip_seqs_stops:
  "(\<And>w. w \<in> set ws \<Longrightarrow> c \<notin> set w) \<Longrightarrow> \<exists>y. strip_seqs ws (x @ c # z) = y @ c # z"
proof (induction ws "x @ c # z" arbitrary: x rule: strip_seqs.induct)
  case (1 ws)
  show ?case
  proof (cases "find (\<lambda>w. w \<noteq> [] \<and> prefix w (x @ c # z)) ws")
    case None
    then have "strip_seqs ws (x @ c # z) = x @ c # z" by (simp add: strip_seqs.simps [of ws "x @ c # z"])
    then show ?thesis by blast
  next
    case (Some w)
    then have w: "w \<in> set ws" "prefix w (x @ c # z)" by (auto simp: find_Some_iff)
    from w(2) have "prefix w x \<or> (\<exists>v. w = x @ c # v)" by (auto simp: prefix_append prefix_Cons)
    with 1(2) [OF w(1)] have "prefix w x" by auto
    then obtain x' where x: "x = w @ x'" by (auto simp: prefix_def)
    have "\<exists>y. strip_seqs ws (x' @ c # z) = y @ c # z"
      using 1(1) [OF Some, of x'] 1(2) x by simp
    moreover have "strip_seqs ws (x @ c # z) = strip_seqs ws (drop (length w) (x @ c # z))"
      using Some by (simp add: strip_seqs.simps [of ws "x @ c # z"])
    ultimately show ?thesis using x by simp
  qed
qed

definition solid :: "char \<Rightarrow> bool" where
  "solid c = list_all (\<lambda>w. c \<notin> set w) space_seqs"

lemma TrimSpace_core:
  assumes "solid a" "solid c"
  shows "\<exists>y. TrimSpace (a # p @ c # x) = a # p @ c # y"
proof -
  let ?s = "a # p @ c # x"
  have "\<not> prefix w ?s" if w: "w \<in> set space_seqs" "w \<noteq> []" for w
  proof -
    have "a \<notin> set w" using assms(1) w(1) unfolding solid_def list_all_iff by blast
    with w(2) show ?thesis by (cases w) auto
  qed
  then have "strip_seqs space_seqs ?s = ?s" by (rule strip_seqs_fixed)
  moreover have "\<exists>y. strip_seqs (map rev space_seqs) (rev x @ c # rev (a # p)) = y @ c # rev (a # p)"
    by (rule strip_seqs_stops) (use assms(2) in \<open>auto simp: solid_def list_all_iff\<close>)
  then obtain y where "strip_seqs (map rev space_seqs) (rev x @ c # rev (a # p)) = y @ c # rev (a # p)" ..
  ultimately have "TrimSpace ?s = rev (y @ c # rev (a # p))" by (simp add: TrimSpace_def)
  also have "\<dots> = a # p @ c # rev y" by simp
  finally show ?thesis by blast
qed

section \<open>Properties\<close>

lemma pause_reason_shape:
  assumes "1 \<le> k" "k \<le> 3"
  obtains y where "TrimSpace (BalancePauseReasonAtStep k ev) = ''balance:exhausted[step='' @ Itoa k @ '']'' @ y"
proof -
  have "solid (CHR ''b'')" "solid (CHR '']'')" by code_simp+
  from TrimSpace_core [OF this, of "''alance:exhausted[step='' @ Itoa k" "'': '' @ truncate ev 200"] assms that
  show ?thesis by (auto simp: BalancePauseReasonAtStep_def ReasonPrefixBalanceExhausted_def Let_def)
qed

lemma Itoa_steps: "Itoa 1 = ''1''" "Itoa 2 = ''2''" "Itoa 3 = ''3''"
  by code_simp+

lemma Atoi_steps: "Atoi ''1'' = Some 1" "Atoi ''2'' = Some 2" "Atoi ''3'' = Some 3"
  by code_simp+

text \<open>
  the ladder of balance pauses. The step written into a pause reason is read back whatever the
  evidence is; a failure advances it, up to the third step, exactly when its attempt began after
  the previous pause had expired, so a late answer of an older attempt never does; and the pause
  is a hard restriction.
\<close>

theorem balance_ladder:
  assumes "1 \<le> k" "k \<le> 3"
  shows "BalancePauseStepForFailure (BalancePauseReasonAtStep k ev) until start now =
      (if until \<noteq> 0 \<and> start \<noteq> 0 \<and> until \<le> now \<and> until < start then min 3 (k + 1) else k) \<and>
    TempUnschedTier (BalancePauseReasonAtStep k ev) = TierHard"
proof -
  obtain y where y: "TrimSpace (BalancePauseReasonAtStep k ev) = ''balance:exhausted[step='' @ Itoa k @ '']'' @ y"
    using assms by (rule pause_reason_shape)
  have step: "BalancePauseStep (BalancePauseReasonAtStep k ev) = k"
  proof -
    consider "k = 1" | "k = 2" | "k = 3" using assms by force
    then show ?thesis
      by cases (use y in \<open>simp_all add: BalancePauseStep_def ReasonPrefixBalanceExhausted_def HasPrefix_def
        Itoa_steps Atoi_steps Let_def\<close>)
  qed
  moreover have "IsBalancePause (BalancePauseReasonAtStep k ev)"
    by (simp add: IsBalancePause_def y HasPrefix_def)
  moreover have "TempUnschedTier (BalancePauseReasonAtStep k ev) = TierHard"
    by (simp add: TempUnschedTier_def y softReasonPrefixes_def ReasonPrefixTransient_def Reason403Cooldown_def
        legacyOpenAI403CooldownPrefix_def HasPrefix_def Let_def)
  ultimately show ?thesis
    using assms by (auto simp: BalancePauseStepForFailure_def time_Before_def time_After_def Let_def)
qed

theorem balance_ladder_witness:
  "BalancePauseStepForFailure (BalancePauseReasonAtStep 1 ''no credit'') (10 * second) (11 * second) (12 * second) = 2"
  using balance_ladder [of 1 "''no credit''" "10 * second" "11 * second" "12 * second"] by simp

lemma nearest_allowed_rev:
  "nearest_allowed (rev es) allowed = (case filter (\<lambda>e. e \<in> set allowed) es of [] \<Rightarrow> [] | xs \<Rightarrow> last xs)"
proof (induction es rule: rev_induct)
  case (snoc e es)
  then show ?case by (auto split: list.splits)
qed simp

text \<open>
  the edge inferred from CDN headers is the last allowed one that the request passed, never
  an edge that the administrator did not allow; a marker header counts only from a trusted peer.
\<close>

theorem edge_nearest_allowed:
  "EdgeFromCDNHeaders h allowed =
     (case filter (\<lambda>e. e \<in> set allowed) (seen_edges h) of [] \<Rightarrow> [] | xs \<Rightarrow> last xs) \<and>
   EdgeFromCDNHeaders h allowed \<in> insert [] (set allowed \<inter> {''cf'', ''esa''}) \<and>
   EdgeOf v trusted allowed \<in> (if trusted then insert [] (set allowed) else {[]})"
proof -
  have seen: "set (seen_edges h) \<subseteq> {''cf'', ''esa''}"
    by (auto simp: seen_edges_def cdn_entries_def cdnLoopEdges_def)
  have "EdgeFromCDNHeaders h allowed =
      (case filter (\<lambda>e. e \<in> set allowed) (seen_edges h) of [] \<Rightarrow> [] | xs \<Rightarrow> last xs)"
    by (simp add: EdgeFromCDNHeaders_def nearest_allowed_rev)
  moreover have "EdgeFromCDNHeaders h allowed \<in> insert [] (set allowed \<inter> {''cf'', ''esa''})"
  proof (cases "filter (\<lambda>e. e \<in> set allowed) (seen_edges h) = []")
    case False
    then have "last (filter (\<lambda>e. e \<in> set allowed) (seen_edges h)) \<in> set (filter (\<lambda>e. e \<in> set allowed) (seen_edges h))"
      by (rule last_in_set)
    with seen False show ?thesis
      by (auto simp: EdgeFromCDNHeaders_def nearest_allowed_rev split: list.split)
  qed (simp add: EdgeFromCDNHeaders_def nearest_allowed_rev)
  ultimately show ?thesis by (simp add: EdgeOf_def Let_def)
qed

end
