(* ===== verification/Stream_Prelude.thy ===== *)
theory Stream_Prelude
  imports Resil_Classify
begin

text \<open>
  The classification of stream events (\<open>resilience/prelude.go\<close>): which events open a stream and may
  be held back and replayed, which carry output, and which end it.

  The JSON library (\<open>gjson\<close>) is a parameter: the record \<open>gjson\<close> holds the operations on its values
  of type \<open>'r\<close> that the code calls; \<open>g_ForEach\<close> lists the pairs that the library's iteration visits,
  in order. \<open>Current()\<close> is the argument \<open>cur\<close>.
\<close>

section \<open>The JSON library\<close>

datatype gtype = GNull | GFalse | GNumber | GString | GTrue | GJSON

record 'r gjson =
  g_Parse :: "string \<Rightarrow> 'r"
  g_Valid :: "string \<Rightarrow> bool"
  g_Get :: "'r \<Rightarrow> string \<Rightarrow> 'r"
  g_Type :: "'r \<Rightarrow> gtype"
  g_Str :: "'r \<Rightarrow> string"
  g_Num :: "'r \<Rightarrow> float64"
  g_String :: "'r \<Rightarrow> string"
  g_Int :: "'r \<Rightarrow> int"
  g_Exists :: "'r \<Rightarrow> bool"
  g_IsObject :: "'r \<Rightarrow> bool"
  g_IsArray :: "'r \<Rightarrow> bool"
  g_Array :: "'r \<Rightarrow> 'r list"
  g_ForEach :: "'r \<Rightarrow> ('r \<times> 'r) list"

section \<open>Events\<close>

datatype EventKind = Unknown | Prelude | Content | TerminalSuccess | TerminalFailure

record EventClass =
  evKind :: EventKind
  Retryable :: bool

record ResponsesOutputDisposition =
  Matched :: bool
  dsKind :: EventKind
  Visible :: bool
  SemanticOutput :: bool
  BlankPlaceholder :: bool

definition unmatched :: ResponsesOutputDisposition where
  "unmatched = \<lparr>Matched = False, dsKind = Unknown, Visible = False, SemanticOutput = False, BlankPlaceholder = False\<rparr>"

definition responsesVisibleDisposition :: ResponsesOutputDisposition where
  "responsesVisibleDisposition =
     \<lparr>Matched = True, dsKind = Content, Visible = True, SemanticOutput = True, BlankPlaceholder = False\<rparr>"

text \<open>A staged opening event, with or without a blank text placeholder.\<close>

definition staged :: "bool \<Rightarrow> ResponsesOutputDisposition" where
  "staged blank =
     \<lparr>Matched = True, dsKind = Prelude, Visible = False, SemanticOutput = False, BlankPlaceholder = blank\<rparr>"

section \<open>Shapes of JSON values\<close>

definition responsesEmptyFieldMaxDepth :: nat where "responsesEmptyFieldMaxDepth = 32"

function responsesFieldValueIsEmptyAtDepth :: "'r gjson \<Rightarrow> 'r \<Rightarrow> nat \<Rightarrow> bool" where
  "responsesFieldValueIsEmptyAtDepth G value depth =
     (case g_Type G value of
        GNull \<Rightarrow> True
      | GString \<Rightarrow> g_Str G value = []
      | GNumber \<Rightarrow> True | GTrue \<Rightarrow> True | GFalse \<Rightarrow> True
      | GJSON \<Rightarrow>
          if g_IsArray G value \<or> g_IsObject G value then
            (if responsesEmptyFieldMaxDepth < depth + 1 then False
             else list_all (\<lambda>(k, child). responsesFieldValueIsEmptyAtDepth G child (depth + 1)) (g_ForEach G value))
          else False)"
  by pat_completeness auto
termination
  by (relation "measure (\<lambda>(G, v, depth). responsesEmptyFieldMaxDepth + 1 - depth)") auto

declare responsesFieldValueIsEmptyAtDepth.simps [simp del]

definition responsesFieldValueIsEmpty :: "'r gjson \<Rightarrow> 'r \<Rightarrow> bool" where
  "responsesFieldValueIsEmpty G value = responsesFieldValueIsEmptyAtDepth G value 0"

definition responsesObjectHasUniqueFields :: "'r gjson \<Rightarrow> 'r \<Rightarrow> bool" where
  "responsesObjectHasUniqueFields G value =
     (if \<not> g_IsObject G value then False
      else distinct (map (\<lambda>(key, field). g_String G key) (g_ForEach G value)))"

definition responsesAnnotationsAreEmpty :: "'r gjson \<Rightarrow> 'r \<Rightarrow> bool" where
  "responsesAnnotationsAreEmpty G value =
     (\<not> g_Exists G value \<or> (g_IsArray G value \<and> length (g_Array G value) = 0))"

text \<open>\<open>field.Num >= 0 && field.Num == math.Trunc(field.Num)\<close>\<close>

definition whole_number :: "float64 \<Rightarrow> bool" where
  "whole_number x = (case x of
     NInf \<Rightarrow> False | PInf \<Rightarrow> True | Fin r \<Rightarrow> 0 \<le> r \<and> r = of_int \<lfloor>r\<rfloor>)"

text \<open>The wire types of the structural fields.\<close>

definition structural_field_ok :: "'r gjson \<Rightarrow> string \<Rightarrow> 'r \<Rightarrow> bool" where
  "structural_field_ok G name field =
     (if name \<in> {''type'', ''id'', ''item_id'', ''response_id'', ''status'', ''role'', ''phase'', ''call_id'',
         ''name'', ''arguments'', ''input'', ''text'', ''delta'', ''obfuscation''}
      then g_Type G field = GString
      else if name \<in> {''sequence_number'', ''output_index'', ''content_index'', ''summary_index'', ''index''}
      then g_Type G field = GNumber \<and> whole_number (g_Num G field)
      else if name \<in> {''part'', ''item'', ''response'', ''metadata''} then g_IsObject G field
      else if name \<in> {''content'', ''summary'', ''output''} then g_IsArray G field
      else if name \<in> {''annotations'', ''logprobs''} then g_IsArray G field \<and> length (g_Array G field) = 0
      else if name = ''encrypted_content'' then g_Type G field = GString \<or> g_Type G field = GNull
      else True)"

definition responsesObjectHasOnlyFields :: "'r gjson \<Rightarrow> 'r \<Rightarrow> string list \<Rightarrow> bool" where
  "responsesObjectHasOnlyFields G value allowed =
     (if \<not> responsesObjectHasUniqueFields G value then False
      else list_all (\<lambda>(key, field).
             let name = g_String G key
             in if 0 < length allowed \<and> name \<notin> set allowed then responsesFieldValueIsEmpty G field
                else structural_field_ok G name field)
           (g_ForEach G value))"

section \<open>Responses events\<close>

definition responsesTextDisposition :: "'r gjson \<Rightarrow> 'r \<Rightarrow> ResponsesOutputDisposition" where
  "responsesTextDisposition G text =
     (if \<not> g_Exists G text \<or> g_Type G text \<noteq> GString then responsesVisibleDisposition
      else if TrimSpace (g_Str G text) = [] then staged True
      else responsesVisibleDisposition)"

text \<open>A part of a message that the loop of \<open>responsesMessageItemDisposition\<close> lets pass.\<close>

definition blank_message_part :: "'r gjson \<Rightarrow> 'r \<Rightarrow> bool" where
  "blank_message_part G part =
     (g_IsObject G part \<and>
      TrimSpace (g_String G (g_Get G part ''type'')) = ''output_text'' \<and>
      responsesObjectHasOnlyFields G part [''type'', ''text'', ''annotations'', ''logprobs''] \<and>
      responsesAnnotationsAreEmpty G (g_Get G part ''annotations'') \<and>
      g_Type G (g_Get G part ''text'') = GString \<and>
      TrimSpace (g_Str G (g_Get G part ''text'')) = [])"

definition responsesMessageItemDisposition :: "'r gjson \<Rightarrow> 'r \<Rightarrow> ResponsesOutputDisposition" where
  "responsesMessageItemDisposition G item =
     (if \<not> g_IsObject G item \<or> TrimSpace (g_String G (g_Get G item ''type'')) \<noteq> ''message'' \<or>
         TrimSpace (g_String G (g_Get G item ''role'')) \<noteq> ''assistant''
      then responsesVisibleDisposition
      else if \<not> responsesObjectHasOnlyFields G item
           [''id'', ''type'', ''status'', ''role'', ''index'', ''phase'', ''content'']
      then responsesVisibleDisposition
      else
        let content = g_Get G item ''content''
        in if \<not> g_Exists G content \<or> \<not> g_IsArray G content then responsesVisibleDisposition
           else if list_all (blank_message_part G) (g_Array G content) then staged True
           else responsesVisibleDisposition)"

definition responsesEmptyStringItemDisposition ::
  "'r gjson \<Rightarrow> 'r \<Rightarrow> string \<Rightarrow> string list \<Rightarrow> ResponsesOutputDisposition" where
  "responsesEmptyStringItemDisposition G item valueField allowed =
     (if \<not> responsesObjectHasOnlyFields G item allowed then responsesVisibleDisposition
      else
        let value = g_Get G item valueField
        in if g_Type G value = GString \<and> g_Exists G value \<and> g_Str G value = [] then staged False
           else responsesVisibleDisposition)"

definition responsesCompletedHasSemanticOutput :: "'r gjson \<Rightarrow> 'r \<Rightarrow> bool" where
  "responsesCompletedHasSemanticOutput G doc =
     (let response = g_Get G doc ''response''
      in if g_Exists G response \<and> \<not> responsesObjectHasUniqueFields G response then True
         else
           let output = g_Get G doc ''response.output''
           in if \<not> g_Exists G output then False
              else if \<not> g_IsArray G output then True
              else list_ex (\<lambda>item. SemanticOutput (responsesMessageItemDisposition G item)) (g_Array G output))"

text \<open>The cases of the last \<open>switch\<close>, one function per shape.\<close>

definition part_disposition :: "'r gjson \<Rightarrow> 'r \<Rightarrow> ResponsesOutputDisposition" where
  "part_disposition G doc =
     (if \<not> responsesObjectHasOnlyFields G doc
           [''type'', ''sequence_number'', ''item_id'', ''output_index'', ''content_index'', ''part'']
      then responsesVisibleDisposition
      else
        let part = g_Get G doc ''part''
        in if \<not> g_IsObject G part then responsesVisibleDisposition
           else if TrimSpace (g_String G (g_Get G part ''type'')) \<noteq> ''output_text'' then responsesVisibleDisposition
           else if \<not> responsesObjectHasOnlyFields G part [''type'', ''text'', ''annotations'', ''logprobs''] \<or>
                \<not> responsesAnnotationsAreEmpty G (g_Get G part ''annotations'')
           then responsesVisibleDisposition
           else responsesTextDisposition G (g_Get G part ''text''))"

definition summary_part_disposition :: "'r gjson \<Rightarrow> 'r \<Rightarrow> ResponsesOutputDisposition" where
  "summary_part_disposition G doc =
     (if \<not> responsesObjectHasOnlyFields G doc
           [''type'', ''sequence_number'', ''item_id'', ''output_index'', ''content_index'', ''part'']
      then responsesVisibleDisposition
      else
        let part = g_Get G doc ''part''
        in if \<not> g_IsObject G part \<or> TrimSpace (g_String G (g_Get G part ''type'')) \<noteq> ''summary_text'' \<or>
              \<not> responsesObjectHasOnlyFields G part [''type'', ''text'']
           then responsesVisibleDisposition
           else
             let text = g_Get G part ''text''
             in if g_Type G text \<noteq> GString then responsesVisibleDisposition
                else if g_Str G text = [] then staged False
                else responsesVisibleDisposition)"

definition reasoning_item_disposition :: "'r gjson \<Rightarrow> 'r \<Rightarrow> ResponsesOutputDisposition" where
  "reasoning_item_disposition G item =
     (if \<not> responsesObjectHasOnlyFields G item
           [''id'', ''type'', ''status'', ''index'', ''summary'', ''encrypted_content'']
      then responsesVisibleDisposition
      else
        let encrypted = g_Get G item ''encrypted_content''; summary = g_Get G item ''summary''
        in if g_Exists G encrypted \<and> g_Type G encrypted \<noteq> GNull \<and>
              (g_Type G encrypted \<noteq> GString \<or> g_Str G encrypted \<noteq> [])
           then responsesVisibleDisposition
           else if g_Exists G summary \<and> (\<not> g_IsArray G summary \<or> length (g_Array G summary) \<noteq> 0)
           then responsesVisibleDisposition
           else staged False)"

definition item_disposition :: "'r gjson \<Rightarrow> string \<Rightarrow> 'r \<Rightarrow> ResponsesOutputDisposition" where
  "item_disposition G typ doc =
     (if \<not> responsesObjectHasOnlyFields G doc [''type'', ''sequence_number'', ''output_index'', ''item'']
      then responsesVisibleDisposition
      else
        let item = g_Get G doc ''item''
        in if \<not> g_IsObject G item then responsesVisibleDisposition
           else if typ = ''response.output_item.done'' \<and> g_String G (g_Get G item ''type'') \<noteq> ''message''
           then responsesVisibleDisposition
           else
             let kind = TrimSpace (g_String G (g_Get G item ''type''))
             in if kind = ''message'' then responsesMessageItemDisposition G item
                else if kind = ''reasoning'' then reasoning_item_disposition G item
                else if kind = ''function_call'' then
                  responsesEmptyStringItemDisposition G item ''arguments''
                    [''id'', ''type'', ''status'', ''index'', ''call_id'', ''name'', ''arguments'']
                else if kind = ''custom_tool_call'' then
                  responsesEmptyStringItemDisposition G item ''input''
                    [''id'', ''type'', ''status'', ''index'', ''call_id'', ''name'', ''input'']
                else if kind = ''compaction'' then
                  responsesEmptyStringItemDisposition G item ''encrypted_content''
                    [''id'', ''type'', ''status'', ''index'', ''encrypted_content'']
                else responsesVisibleDisposition)"

definition shape_disposition :: "Settings option \<Rightarrow> 'r gjson \<Rightarrow> string \<Rightarrow> 'r \<Rightarrow> ResponsesOutputDisposition" where
  "shape_disposition cur G typ doc =
     (if typ \<in> {''response.created'', ''response.in_progress'', ''response.queued''} then staged False
      else if typ = ''response.metadata'' then
        (if NativePreludeWhitelistOn cur then staged False else unmatched)
      else if typ = ''response.output_text.delta'' then
        (if \<not> responsesObjectHasOnlyFields G doc [''type'', ''sequence_number'', ''item_id'', ''output_index'',
              ''content_index'', ''delta'', ''logprobs'', ''obfuscation'']
         then responsesVisibleDisposition
         else responsesTextDisposition G (g_Get G doc ''delta''))
      else if typ = ''response.output_text.done'' then
        (if \<not> responsesObjectHasOnlyFields G doc [''type'', ''sequence_number'', ''item_id'', ''output_index'',
              ''content_index'', ''text'', ''logprobs'']
         then responsesVisibleDisposition
         else responsesTextDisposition G (g_Get G doc ''text''))
      else if typ \<in> {''response.content_part.added'', ''response.content_part.done''} then part_disposition G doc
      else if typ = ''response.reasoning_summary_part.added'' then summary_part_disposition G doc
      else if typ \<in> {''response.output_item.added'', ''response.output_item.done''} then item_disposition G typ doc
      else responsesVisibleDisposition)"

text \<open>The type that an event is judged by, or \<open>None\<close> when payload and header contradict each other.\<close>

definition event_type :: "'r gjson \<Rightarrow> string \<Rightarrow> bool \<Rightarrow> 'r \<Rightarrow> string option" where
  "event_type G eventType validObject doc =
     (let declaredType = TrimSpace eventType;
          payloadType = TrimSpace (g_String G (g_Get G doc ''type''))
      in if validObject \<and> payloadType \<noteq> [] then
           (if HasPrefix declaredType ''response.'' \<and> payloadType \<noteq> declaredType \<and>
               (declaredType \<noteq> ''response.metadata'' \<or> payloadType \<noteq> ''codex.response.metadata'')
            then None else Some payloadType)
         else Some declaredType)"

definition ResponsesEventOutputDisposition ::
  "Settings option \<Rightarrow> 'r gjson \<Rightarrow> string \<Rightarrow> string \<Rightarrow> ResponsesOutputDisposition" where
  "ResponsesEventOutputDisposition cur G eventType payload =
     (let doc = g_Parse G payload;
          validObject = (g_Valid G payload \<and> g_IsObject G doc)
      in case event_type G eventType validObject doc of
           None \<Rightarrow> responsesVisibleDisposition
         | Some typ \<Rightarrow>
             if \<not> HasPrefix typ ''response.'' then
               (if typ \<in> {''error'', ''keepalive'', ''codex.response.metadata'', ''codex.rate_limits''}
                then unmatched else responsesVisibleDisposition)
             else
               let interrupted = (typ = ''response.incomplete'' \<and>
                     g_String G (g_Get G doc ''response.incomplete_details.reason'') = ''interrupted'')
               in if typ = ''response.failed'' \<or> (typ = ''response.incomplete'' \<and> \<not> interrupted) then unmatched
                  else if validObject \<and> \<not> responsesObjectHasOnlyFields G doc [] then responsesVisibleDisposition
                  else if typ = ''response.completed'' \<or> typ = ''response.done'' \<or> interrupted then
                    \<lparr>Matched = True, dsKind = TerminalSuccess, Visible = True,
                     SemanticOutput = (\<not> validObject \<or> responsesCompletedHasSemanticOutput G doc),
                     BlankPlaceholder = False\<rparr>
                  else if \<not> validObject then responsesVisibleDisposition
                  else shape_disposition cur G typ doc)"

section \<open>Chat and Messages events\<close>

definition event :: "EventKind \<Rightarrow> EventClass" where
  "event k = \<lparr>evKind = k, Retryable = False\<rparr>"

definition chatErrorValue :: "'r gjson \<Rightarrow> 'r \<Rightarrow> bool" where
  "chatErrorValue G value =
     (case g_Type G value of
        GString \<Rightarrow> TrimSpace (g_Str G value) \<noteq> []
      | GNumber \<Rightarrow> g_Num G value \<noteq> Fin 0
      | _ \<Rightarrow> False)"

definition ChatErrorField :: "'r gjson \<Rightarrow> 'r \<Rightarrow> bool" where
  "ChatErrorField G doc =
     (let err = g_Get G doc ''error''
      in if g_Type G err = GString then TrimSpace (g_Str G err) \<noteq> []
         else if \<not> g_IsObject G err then False
         else chatErrorValue G (g_Get G err ''message'') \<or> chatErrorValue G (g_Get G err ''code'') \<or>
           chatErrorValue G (g_Get G err ''type''))"

definition eventContentUnlessEmpty :: "string \<Rightarrow> EventClass" where
  "eventContentUnlessEmpty value = (if value = [] then event Prelude else event Content)"

definition opening_field :: "'r gjson \<Rightarrow> 'r \<times> 'r \<Rightarrow> bool" where
  "opening_field G kv =
     (let key = g_String G (fst kv); value = snd kv
      in key = ''role'' \<or>
         (key \<in> {''content'', ''reasoning_content'', ''reasoning'', ''refusal''} \<and>
          (g_Type G value = GNull \<or> g_String G value = [])))"

fun chat_choices :: "'r gjson \<Rightarrow> 'r list \<Rightarrow> bool \<Rightarrow> EventKind" where
  "chat_choices G [] terminal = (if terminal then TerminalSuccess else Prelude)"
| "chat_choices G (ch # chs) terminal =
     (let f = g_Get G ch ''finish_reason'';
          terminal = (terminal \<or> (g_Exists G f \<and> g_Type G f \<noteq> GNull));
          delta = g_Get G ch ''delta''
      in if \<not> g_IsObject G delta then Unknown
         else if \<not> list_all (opening_field G) (g_ForEach G delta) then Content
         else chat_choices G chs terminal)"

definition classifyChatChunk :: "'r gjson \<Rightarrow> 'r \<Rightarrow> EventKind" where
  "classifyChatChunk G doc =
     (let u = g_Get G doc ''usage''; choices = g_Get G doc ''choices''
      in if g_Exists G u \<and> g_Type G u \<noteq> GNull then TerminalSuccess
         else if \<not> g_IsArray G choices \<or> length (g_Array G choices) = 0 then Unknown
         else chat_choices G (g_Array G choices) False)"

definition classify_messages :: "'r gjson \<Rightarrow> string \<Rightarrow> 'r \<Rightarrow> EventClass" where
  "classify_messages G typ doc =
     (if typ \<in> {''message_start'', ''ping''} then event Prelude
      else if typ = ''message_stop'' then event TerminalSuccess
      else if typ = ''content_block_start'' then
        (let block = g_Get G doc ''content_block''
         in if \<not> g_IsObject G block then event Unknown
            else if g_String G (g_Get G block ''type'') = ''text''
            then eventContentUnlessEmpty (g_String G (g_Get G block ''text''))
            else if g_String G (g_Get G block ''type'') = ''thinking''
            then eventContentUnlessEmpty (g_String G (g_Get G block ''thinking''))
            else event Content)
      else if typ \<in> {''content_block_delta'', ''content_block_stop'', ''message_delta''} then event Content
      else event Unknown)"

definition classify_responses :: "Settings option \<Rightarrow> string \<Rightarrow> EventClass" where
  "classify_responses cur typ =
     (if typ \<in> {''response.created'', ''response.in_progress'', ''response.queued'', ''keepalive''} then event Prelude
      else if typ \<in> {''response.metadata'', ''codex.response.metadata'', ''codex.rate_limits''} then
        (if NativePreludeWhitelistOn cur then event Prelude else event Unknown)
      else if typ \<in> {''response.completed'', ''response.done''} then event TerminalSuccess
      else event Content)"

definition failure_event :: "classify_env \<Rightarrow> Settings option \<Rightarrow> 'r gjson \<Rightarrow> 'r \<Rightarrow> string \<Rightarrow> EventClass" where
  "failure_event E cur G doc payload =
     (let err = g_Get G doc ''response.error'';
          err = (if \<not> g_IsObject G err then g_Get G doc ''error'' else err);
          err = (if \<not> g_IsObject G err then doc else err);
          status = g_Int G (g_Get G err ''status_code'');
          status = (if status = 0 then g_Int G (g_Get G doc ''status_code'') else status);
          result = ClassifyWithSettings E
            \<lparr>oSource = SourceStreamEvent, StatusCode = status,
             oCode = g_String G (g_Get G err ''code''), oType = g_String G (g_Get G err ''type''),
             oMessage = g_String G (g_Get G err ''message''), oBody = payload, oHeaders = [], oErr = None\<rparr> cur
      in \<lparr>evKind = TerminalFailure, Retryable = SwitchAccount (rCategory result)\<rparr>)"

definition classify_object :: "classify_env \<Rightarrow> Settings option \<Rightarrow> 'r gjson \<Rightarrow> string \<Rightarrow> string \<Rightarrow> 'r \<Rightarrow> string \<Rightarrow> EventClass" where
  "classify_object E cur G protocol eventType doc payload =
     (let typ = TrimSpace (g_String G (g_Get G doc ''type''));
          typ = (if typ = [] then TrimSpace eventType else typ)
      in if typ = ''response.incomplete'' then event TerminalFailure
         else if typ = ''response.failed'' \<or> typ = ''error'' \<or> (protocol = ''chat'' \<and> ChatErrorField G doc)
         then failure_event E cur G doc payload
         else if protocol = ''responses'' \<and> HasPrefix typ ''response.'' then
           (if typ = ''response.metadata'' then event Unknown else event Content)
         else if protocol = ''responses'' then classify_responses cur typ
         else if protocol = ''chat'' then event (classifyChatChunk G doc)
         else classify_messages G typ doc)"

definition ClassifyStreamEvent ::
  "classify_env \<Rightarrow> Settings option \<Rightarrow> 'r gjson \<Rightarrow> string \<Rightarrow> string \<Rightarrow> string \<Rightarrow> EventClass" where
  "ClassifyStreamEvent E cur G protocol eventType payload =
     (let protocol = ToLower (TrimSpace protocol);
          malformed = (if protocol = ''responses'' then event Content else event Unknown);
          disposition = ResponsesEventOutputDisposition cur G eventType payload
      in if protocol \<noteq> ''responses'' \<and> protocol \<noteq> ''chat'' \<and> protocol \<noteq> ''messages'' then event Unknown
         else if protocol = ''chat'' \<and> TrimSpace payload = ''[DONE]'' then event TerminalSuccess
         else if protocol = ''responses'' \<and> Matched disposition then event (dsKind disposition)
         else if \<not> g_Valid G payload then malformed
         else if \<not> g_IsObject G (g_Parse G payload) then malformed
         else classify_object E cur G protocol eventType (g_Parse G payload) payload)"

end
