(* ===== verification/Stream_Prelude_Props.thy ===== *)
theory Stream_Prelude_Props
  imports Stream_Prelude
begin

text \<open>
  Properties of the stream event classification: the shapes of its answers, that failures are
  terminal, and, for a JSON library that behaves like lookup in JSON trees, that an event is held
  back only if it carries no text.
\<close>

section \<open>JSON trees\<close>

datatype json = JNull | JBool bool | JNum float64 | JStr string | JArr "json list" | JObj "(string \<times> json) list"

fun tree_path :: "json option \<Rightarrow> string list \<Rightarrow> json option" where
  "tree_path v [] = v"
| "tree_path (Some (JObj kvs)) (k # ks) = tree_path (map_of kvs k) ks"
| "tree_path _ (k # ks) = None"

fun tree_type :: "json option \<Rightarrow> gtype" where
  "tree_type (Some (JBool b)) = (if b then GTrue else GFalse)"
| "tree_type (Some (JNum n)) = GNumber"
| "tree_type (Some (JStr s)) = GString"
| "tree_type (Some (JArr vs)) = GJSON"
| "tree_type (Some (JObj kvs)) = GJSON"
| "tree_type _ = GNull"

fun tree_array :: "json option \<Rightarrow> json option list" where
  "tree_array (Some (JArr vs)) = map Some vs"
| "tree_array (Some JNull) = []"
| "tree_array None = []"
| "tree_array v = [v]"

fun tree_pairs :: "json option \<Rightarrow> (json option \<times> json option) list" where
  "tree_pairs (Some (JObj kvs)) = map (\<lambda>(k, v). (Some (JStr k), Some v)) kvs"
| "tree_pairs (Some (JArr vs)) = map (\<lambda>v. (None, Some v)) vs"
| "tree_pairs (Some JNull) = []"
| "tree_pairs None = []"
| "tree_pairs v = [(None, v)]"

fun is_obj :: "json option \<Rightarrow> bool" where
  "is_obj (Some (JObj kvs)) = True" | "is_obj _ = False"

fun is_arr :: "json option \<Rightarrow> bool" where
  "is_arr (Some (JArr vs)) = True" | "is_arr _ = False"

text \<open>
  The library on JSON trees, over any parser; \<open>raw\<close> gives the text of a value that is not a string
  and \<open>int_of\<close> its integer value.
\<close>

definition tree_api :: "(string \<Rightarrow> json option) \<Rightarrow> (json \<Rightarrow> string) \<Rightarrow> (json option \<Rightarrow> int) \<Rightarrow> json option gjson" where
  "tree_api parse raw int_of =
     \<lparr>g_Parse = parse, g_Valid = (\<lambda>s. parse s \<noteq> None), g_Get = (\<lambda>v path. tree_path v (Split path CHR ''.'')),
      g_Type = tree_type, g_Str = (\<lambda>v. case v of Some (JStr s) \<Rightarrow> s | _ \<Rightarrow> []),
      g_Num = (\<lambda>v. case v of Some (JNum n) \<Rightarrow> n | _ \<Rightarrow> Fin 0),
      g_String = (\<lambda>v. case v of None \<Rightarrow> [] | Some JNull \<Rightarrow> [] | Some (JStr s) \<Rightarrow> s | Some w \<Rightarrow> raw w),
      g_Int = int_of, g_Exists = (\<lambda>v. v \<noteq> None), g_IsObject = is_obj, g_IsArray = is_arr,
      g_Array = tree_array, g_ForEach = tree_pairs\<rparr>"

lemma tree_api_simps [simp]:
  "g_Parse (tree_api p r i) = p" "g_Valid (tree_api p r i) s = (p s \<noteq> None)"
  "g_Get (tree_api p r i) v path = tree_path v (Split path CHR ''.'')"
  "g_Type (tree_api p r i) = tree_type" "g_Exists (tree_api p r i) v = (v \<noteq> None)"
  "g_Str (tree_api p r i) (Some (JStr t)) = t" "g_String (tree_api p r i) (Some (JStr t)) = t"
  "g_IsObject (tree_api p r i) = is_obj" "g_IsArray (tree_api p r i) = is_arr"
  "g_Array (tree_api p r i) = tree_array" "g_ForEach (tree_api p r i) = tree_pairs"
  by (simp_all add: tree_api_def)

lemma tree_type_iff [simp]:
  "tree_type v = GString \<longleftrightarrow> (\<exists>s. v = Some (JStr s))"
  "tree_type v = GNumber \<longleftrightarrow> (\<exists>n. v = Some (JNum n))"
  "tree_type v = GNull \<longleftrightarrow> v = None \<or> v = Some JNull"
  by (cases v rule: tree_type.cases; simp)+

lemma is_obj_iff: "is_obj v \<longleftrightarrow> (\<exists>kvs. v = Some (JObj kvs))"
  by (cases v rule: is_obj.cases) auto

lemma is_arr_iff: "is_arr v \<longleftrightarrow> (\<exists>vs. v = Some (JArr vs))"
  by (cases v rule: is_arr.cases) auto

section \<open>The text of a value\<close>

fun all_strings :: "json \<Rightarrow> string list" where
  "all_strings (JStr s) = [s]"
| "all_strings (JArr vs) = concat (map all_strings vs)"
| "all_strings (JObj kvs) = concat (map (\<lambda>(k, v). all_strings v) kvs)"
| "all_strings _ = []"

text \<open>The fields that identify an event or an item; their strings are not client output.\<close>

definition protocol_keys :: "string set" where
  "protocol_keys = {''type'', ''id'', ''item_id'', ''status'', ''role'', ''phase'', ''call_id'', ''name'', ''obfuscation''}"

fun texts :: "json \<Rightarrow> string list" where
  "texts (JStr s) = [s]"
| "texts (JArr vs) = concat (map texts vs)"
| "texts (JObj kvs) = concat (map (\<lambda>(k, v). if k \<in> protocol_keys then [] else texts v) kvs)"
| "texts _ = []"

text \<open>The levels of arrays and objects.\<close>

fun nesting :: "json \<Rightarrow> nat" where
  "nesting (JArr vs) = Suc (fold max (map nesting vs) 0)"
| "nesting (JObj kvs) = Suc (fold max (map (\<lambda>(k, v). nesting v) kvs) 0)"
| "nesting _ = 0"

lemma fold_max_le: "(fold max xs a \<le> (n::nat)) = (a \<le> n \<and> (\<forall>x \<in> set xs. x \<le> n))"
  by (induction xs arbitrary: a) auto

lemma texts_strings: "set (texts v) \<subseteq> set (all_strings v)"
  by (induction v) (fastforce split: if_splits)+

lemma level_iff:
  "(Suc d \<le> m \<and> (\<forall>n \<in> set ns. n = 0 \<or> Suc d + n \<le> m)) = (d + Suc (fold max ns 0) \<le> (m::nat))"
proof -
  have "d + Suc (fold max ns 0) \<le> m \<longleftrightarrow> Suc d \<le> m \<and> fold max ns 0 \<le> m - Suc d" by auto
  also have "\<dots> \<longleftrightarrow> Suc d \<le> m \<and> (\<forall>n \<in> set ns. n \<le> m - Suc d)" by (simp add: fold_max_le)
  also have "\<dots> \<longleftrightarrow> Suc d \<le> m \<and> (\<forall>n \<in> set ns. n = 0 \<or> Suc d + n \<le> m)" by auto
  finally show ?thesis by simp
qed

lemma empty_unfold:
  "responsesFieldValueIsEmptyAtDepth (tree_api p r i) (Some (JArr vs)) d =
     (Suc d \<le> responsesEmptyFieldMaxDepth \<and>
      (\<forall>v \<in> set vs. responsesFieldValueIsEmptyAtDepth (tree_api p r i) (Some v) (Suc d)))"
  "responsesFieldValueIsEmptyAtDepth (tree_api p r i) (Some (JObj kvs)) d =
     (Suc d \<le> responsesEmptyFieldMaxDepth \<and>
      (\<forall>kv \<in> set kvs. responsesFieldValueIsEmptyAtDepth (tree_api p r i) (Some (snd kv)) (Suc d)))"
  by (simp_all add: responsesFieldValueIsEmptyAtDepth.simps [of _ "Some (JArr vs)"]
      responsesFieldValueIsEmptyAtDepth.simps [of _ "Some (JObj kvs)"] list_all_iff split_beta not_less)

lemma empty_at_depth_iff:
  "responsesFieldValueIsEmptyAtDepth (tree_api p r i) (Some v) d =
     ((nesting v = 0 \<or> d + nesting v \<le> responsesEmptyFieldMaxDepth) \<and> (\<forall>s \<in> set (all_strings v). s = []))"
proof (induction v arbitrary: d)
  case (JArr vs)
  have "responsesFieldValueIsEmptyAtDepth (tree_api p r i) (Some (JArr vs)) d =
      ((Suc d \<le> responsesEmptyFieldMaxDepth \<and>
        (\<forall>n \<in> set (map nesting vs). n = 0 \<or> Suc d + n \<le> responsesEmptyFieldMaxDepth)) \<and>
       (\<forall>v \<in> set vs. \<forall>s \<in> set (all_strings v). s = []))"
    unfolding empty_unfold by (simp add: JArr) blast
  then show ?case unfolding level_iff by simp
next
  case (JObj kvs)
  have IH: "responsesFieldValueIsEmptyAtDepth (tree_api p r i) (Some (snd kv)) (Suc d) =
      ((nesting (snd kv) = 0 \<or> Suc d + nesting (snd kv) \<le> responsesEmptyFieldMaxDepth) \<and>
       (\<forall>s \<in> set (all_strings (snd kv)). s = []))" if "kv \<in> set kvs" for kv
    using JObj [of kv "snd kv" "Suc d"] that by (cases kv) simp
  have "responsesFieldValueIsEmptyAtDepth (tree_api p r i) (Some (JObj kvs)) d =
      ((Suc d \<le> responsesEmptyFieldMaxDepth \<and>
        (\<forall>n \<in> set (map (\<lambda>(k, v). nesting v) kvs). n = 0 \<or> Suc d + n \<le> responsesEmptyFieldMaxDepth)) \<and>
       (\<forall>kv \<in> set kvs. \<forall>s \<in> set (all_strings (snd kv)). s = []))"
    unfolding empty_unfold by (simp add: IH split_beta) blast
  then show ?case unfolding level_iff by (simp add: split_beta)
qed (simp_all add: responsesFieldValueIsEmptyAtDepth.simps)

section \<open>What may be held back\<close>

definition blank :: "json \<Rightarrow> bool" where
  "blank v = (\<forall>s \<in> set (texts v). TrimSpace s = [])"

lemma blank_simps [simp]:
  "blank (JStr s) = (TrimSpace s = [])" "blank (JArr vs) = (\<forall>v \<in> set vs. blank v)"
  "blank (JObj kvs) = (\<forall>kv \<in> set kvs. fst kv \<in> protocol_keys \<or> blank (snd kv))"
  "blank (JNum n)" "blank JNull" "blank (JBool b)"
  by (auto simp: blank_def split_beta)

lemma all_empty_blank: "\<forall>s \<in> set (all_strings v). s = [] \<Longrightarrow> blank v"
  unfolding blank_def using texts_strings [of v] by (metis TrimSpace_Nil subsetD)

text \<open>The fields whose required wire type cannot hold text.\<close>

definition inert_keys :: "string set" where
  "inert_keys = {''sequence_number'', ''output_index'', ''content_index'', ''summary_index'', ''index'',
     ''annotations'', ''logprobs''}"

lemma structural_inert:
  "structural_field_ok G ''sequence_number'' w = (g_Type G w = GNumber \<and> whole_number (g_Num G w))"
  "structural_field_ok G ''output_index'' w = (g_Type G w = GNumber \<and> whole_number (g_Num G w))"
  "structural_field_ok G ''content_index'' w = (g_Type G w = GNumber \<and> whole_number (g_Num G w))"
  "structural_field_ok G ''summary_index'' w = (g_Type G w = GNumber \<and> whole_number (g_Num G w))"
  "structural_field_ok G ''index'' w = (g_Type G w = GNumber \<and> whole_number (g_Num G w))"
  "structural_field_ok G ''annotations'' w = (g_IsArray G w \<and> length (g_Array G w) = 0)"
  "structural_field_ok G ''logprobs'' w = (g_IsArray G w \<and> length (g_Array G w) = 0)"
  by (simp_all add: structural_field_ok_def)

lemma inert_blank:
  assumes "structural_field_ok (tree_api p r i) k (Some w)" "k \<in> inert_keys"
  shows "blank w"
  using assms(2,1) unfolding inert_keys_def
  by (elim insertE; clarsimp simp: structural_inert is_arr_iff)

lemma only_fields:
  assumes "responsesObjectHasOnlyFields (tree_api p r i) (Some v) allowed"
  obtains kvs where "v = JObj kvs" "distinct (map fst kvs)"
    "\<And>k w. (k, w) \<in> set kvs \<Longrightarrow> (if allowed \<noteq> [] \<and> k \<notin> set allowed then \<forall>s \<in> set (all_strings w). s = []
       else structural_field_ok (tree_api p r i) k (Some w))"
proof -
  from assms obtain kvs where v: "v = JObj kvs"
    by (auto simp: responsesObjectHasOnlyFields_def responsesObjectHasUniqueFields_def is_obj_iff split: if_splits)
  have "distinct (map fst kvs)"
    using assms by (simp add: v responsesObjectHasOnlyFields_def responsesObjectHasUniqueFields_def
        split_beta comp_def split: if_splits)
  moreover have "if allowed \<noteq> [] \<and> k \<notin> set allowed then \<forall>s \<in> set (all_strings w). s = []
       else structural_field_ok (tree_api p r i) k (Some w)" if "(k, w) \<in> set kvs" for k w
    using assms that
    by (auto simp: v responsesObjectHasOnlyFields_def list_all_iff split_beta Let_def
        responsesFieldValueIsEmpty_def empty_at_depth_iff split: if_splits)
  ultimately show thesis using v that by blast
qed

lemma only_fields_blank:
  assumes "responsesObjectHasOnlyFields (tree_api p r i) (Some v) allowed" "allowed \<noteq> []"
    and "set allowed \<subseteq> protocol_keys \<union> inert_keys \<union> C"
    and "\<And>k w. k \<in> C \<Longrightarrow> tree_path (Some v) [k] = Some w \<Longrightarrow> blank w"
  shows "blank v"
  using assms(1)
proof (rule only_fields)
  fix kvs assume v: "v = JObj kvs" and d: "distinct (map fst kvs)"
    and ok: "\<And>k w. (k, w) \<in> set kvs \<Longrightarrow> (if allowed \<noteq> [] \<and> k \<notin> set allowed then \<forall>s \<in> set (all_strings w). s = []
       else structural_field_ok (tree_api p r i) k (Some w))"
  have "k \<in> protocol_keys \<or> blank w" if kw: "(k, w) \<in> set kvs" for k w
  proof (cases "k \<in> set allowed")
    case False
    with ok [OF kw] assms(2) show ?thesis by (simp add: all_empty_blank)
  next
    case True
    then consider "k \<in> protocol_keys" | "k \<in> inert_keys" | "k \<in> C" using assms(3) by blast
    then show ?thesis
    proof cases
      case 2
      with ok [OF kw] True show ?thesis by (simp add: inert_blank)
    next
      case 3
      have "map_of kvs k = Some w" using d kw by (simp add: map_of_is_SomeI)
      with assms(4) [OF 3] v show ?thesis by simp
    qed simp
  qed
  then show ?thesis by (auto simp: v)
qed

lemma single_field [simp]:
  "CHR ''.'' \<notin> set k \<Longrightarrow> Split k CHR ''.'' = [k]"
  by (induction k "CHR ''.''" rule: Split.induct) auto

abbreviation staged_blank :: "ResponsesOutputDisposition \<Rightarrow> bool" where
  "staged_blank d \<equiv> dsKind d = Prelude"

lemma disposition_kinds [simp]:
  "dsKind responsesVisibleDisposition = Content" "dsKind (staged b) = Prelude" "dsKind unmatched = Unknown"
  "SemanticOutput responsesVisibleDisposition" "\<not> SemanticOutput (staged b)" "\<not> SemanticOutput unmatched"
  by (simp_all add: responsesVisibleDisposition_def staged_def unmatched_def)

lemma if_staged [simp]:
  "dsKind (if b then responsesVisibleDisposition else d) = Prelude \<longleftrightarrow> \<not> b \<and> dsKind d = Prelude"
  "dsKind (if b then d else responsesVisibleDisposition) = Prelude \<longleftrightarrow> b \<and> dsKind d = Prelude"
  by simp_all

lemma text_staged:
  "dsKind (responsesTextDisposition (tree_api p r i) v) = Prelude \<longleftrightarrow> (\<exists>t. v = Some (JStr t) \<and> TrimSpace t = [])"
  by (auto simp: responsesTextDisposition_def)

lemma key_mem [simp]:
  "''type'' \<in> protocol_keys" "''id'' \<in> protocol_keys" "''item_id'' \<in> protocol_keys"
  "''status'' \<in> protocol_keys" "''role'' \<in> protocol_keys" "''phase'' \<in> protocol_keys"
  "''call_id'' \<in> protocol_keys" "''name'' \<in> protocol_keys" "''obfuscation'' \<in> protocol_keys"
  "''sequence_number'' \<in> inert_keys" "''output_index'' \<in> inert_keys" "''content_index'' \<in> inert_keys"
  "''index'' \<in> inert_keys" "''annotations'' \<in> inert_keys" "''logprobs'' \<in> inert_keys"
  unfolding protocol_keys_def inert_keys_def by (rule insertI1 insertI2)+

lemma key_sets:
  "set [''type'', ''text'', ''annotations'', ''logprobs''] \<subseteq> protocol_keys \<union> inert_keys \<union> {''text''}"
  "set [''type'', ''text''] \<subseteq> protocol_keys \<union> inert_keys \<union> {''text''}"
  "set [''type'', ''sequence_number'', ''item_id'', ''output_index'', ''content_index'', ''part'']
     \<subseteq> protocol_keys \<union> inert_keys \<union> {''part''}"
  "set [''type'', ''sequence_number'', ''output_index'', ''item''] \<subseteq> protocol_keys \<union> inert_keys \<union> {''item''}"
  "set [''id'', ''type'', ''status'', ''role'', ''index'', ''phase'', ''content''] \<subseteq> protocol_keys \<union> inert_keys \<union> {''content''}"
  "set [''id'', ''type'', ''status'', ''index'', ''summary'', ''encrypted_content'']
     \<subseteq> protocol_keys \<union> inert_keys \<union> {''summary'', ''encrypted_content''}"
  "set [''id'', ''type'', ''status'', ''index'', ''call_id'', ''name'', ''arguments'']
     \<subseteq> protocol_keys \<union> inert_keys \<union> {''arguments''}"
  "set [''id'', ''type'', ''status'', ''index'', ''call_id'', ''name'', ''input''] \<subseteq> protocol_keys \<union> inert_keys \<union> {''input''}"
  "set [''id'', ''type'', ''status'', ''index'', ''encrypted_content''] \<subseteq> protocol_keys \<union> inert_keys \<union> {''encrypted_content''}"
  "set [''type'', ''sequence_number'', ''item_id'', ''output_index'', ''content_index'', ''delta'', ''logprobs'', ''obfuscation'']
     \<subseteq> protocol_keys \<union> inert_keys \<union> {''delta''}"
  "set [''type'', ''sequence_number'', ''item_id'', ''output_index'', ''content_index'', ''text'', ''logprobs'']
     \<subseteq> protocol_keys \<union> inert_keys \<union> {''text''}"
  by (simp_all only: list.set insert_subset Un_iff key_mem insertI1 insertI2 singletonI empty_subsetI HOL.simp_thms)

lemma message_part_blank:
  assumes "blank_message_part (tree_api p r i) (Some v)"
  shows "blank v"
proof (rule only_fields_blank)
  show "responsesObjectHasOnlyFields (tree_api p r i) (Some v) [''type'', ''text'', ''annotations'', ''logprobs'']"
    using assms by (simp add: blank_message_part_def)
  show "blank w" if "k \<in> {''text''}" "tree_path (Some v) [k] = Some w" for k w
    using assms that by (auto simp: blank_message_part_def)
qed (use key_sets in simp_all)

lemma message_item_blank:
  assumes "dsKind (responsesMessageItemDisposition (tree_api p r i) (Some v)) = Prelude"
  shows "blank v"
proof (rule only_fields_blank)
  show "responsesObjectHasOnlyFields (tree_api p r i) (Some v)
      [''id'', ''type'', ''status'', ''role'', ''index'', ''phase'', ''content'']"
    using assms unfolding responsesMessageItemDisposition_def if_staged by simp
  show "blank w" if "k \<in> {''content''}" "tree_path (Some v) [k] = Some w" for k w
  proof -
    have "is_arr (Some w)" "list_all (blank_message_part (tree_api p r i)) (tree_array (Some w))"
      using assms that unfolding responsesMessageItemDisposition_def if_staged Let_def by auto
    then show ?thesis using message_part_blank by (fastforce simp: is_arr_iff list_all_iff)
  qed
qed (use key_sets in simp_all)

lemma empty_string_item_blank:
  assumes "dsKind (responsesEmptyStringItemDisposition (tree_api p r i) (Some v) key allowed) = Prelude"
    and "allowed \<noteq> []" "set allowed \<subseteq> protocol_keys \<union> inert_keys \<union> {key}" "CHR ''.'' \<notin> set key"
  shows "blank v"
proof (rule only_fields_blank)
  show "responsesObjectHasOnlyFields (tree_api p r i) (Some v) allowed"
    using assms(1) unfolding responsesEmptyStringItemDisposition_def if_staged by simp
  show "blank w" if "k \<in> {key}" "tree_path (Some v) [k] = Some w" for k w
    using assms(1,4) that unfolding responsesEmptyStringItemDisposition_def if_staged Let_def by auto
qed (use assms in simp_all)

lemma reasoning_item_blank:
  assumes "dsKind (reasoning_item_disposition (tree_api p r i) (Some v)) = Prelude"
  shows "blank v"
proof (rule only_fields_blank)
  show "responsesObjectHasOnlyFields (tree_api p r i) (Some v)
      [''id'', ''type'', ''status'', ''index'', ''summary'', ''encrypted_content'']"
    using assms unfolding reasoning_item_disposition_def if_staged by simp
  show "blank w" if "k \<in> {''summary'', ''encrypted_content''}" "tree_path (Some v) [k] = Some w" for k w
    using assms that unfolding reasoning_item_disposition_def if_staged Let_def
    by (elim insertE) (auto simp: is_arr_iff)
qed (use key_sets in simp_all)

lemma item_blank:
  assumes "dsKind (item_disposition (tree_api p r i) typ (Some v)) = Prelude"
  shows "blank v"
proof (rule only_fields_blank)
  show "responsesObjectHasOnlyFields (tree_api p r i) (Some v) [''type'', ''sequence_number'', ''output_index'', ''item'']"
    using assms unfolding item_disposition_def if_staged by simp
  show "blank w" if "k \<in> {''item''}" "tree_path (Some v) [k] = Some w" for k w
  proof -
    let ?T = "tree_api p r i"
    have "dsKind (responsesMessageItemDisposition ?T (Some w)) = Prelude \<or>
        dsKind (reasoning_item_disposition ?T (Some w)) = Prelude \<or>
        dsKind (responsesEmptyStringItemDisposition ?T (Some w) ''arguments''
           [''id'', ''type'', ''status'', ''index'', ''call_id'', ''name'', ''arguments'']) = Prelude \<or>
        dsKind (responsesEmptyStringItemDisposition ?T (Some w) ''input''
           [''id'', ''type'', ''status'', ''index'', ''call_id'', ''name'', ''input'']) = Prelude \<or>
        dsKind (responsesEmptyStringItemDisposition ?T (Some w) ''encrypted_content''
           [''id'', ''type'', ''status'', ''index'', ''encrypted_content'']) = Prelude"
      using assms that unfolding item_disposition_def if_staged Let_def
      by (simp split: if_split_asm)
    then show ?thesis
      by (elim disjE) (rule message_item_blank reasoning_item_blank empty_string_item_blank, assumption,
          (simp_all add: key_sets)?)+
  qed
qed (use key_sets in simp_all)

lemma part_blank:
  assumes "dsKind (part_disposition (tree_api p r i) (Some v)) = Prelude"
  shows "blank v"
proof (rule only_fields_blank)
  show "responsesObjectHasOnlyFields (tree_api p r i) (Some v)
      [''type'', ''sequence_number'', ''item_id'', ''output_index'', ''content_index'', ''part'']"
    using assms unfolding part_disposition_def if_staged by simp
  show "blank w" if k: "k \<in> {''part''}" "tree_path (Some v) [k] = Some w" for k w
  proof (rule only_fields_blank)
    show "responsesObjectHasOnlyFields (tree_api p r i) (Some w) [''type'', ''text'', ''annotations'', ''logprobs'']"
      using assms k unfolding part_disposition_def if_staged Let_def by simp
    show "blank u" if "l \<in> {''text''}" "tree_path (Some w) [l] = Some u" for l u
      using assms k that unfolding part_disposition_def if_staged Let_def text_staged by auto
  qed (use key_sets in simp_all)
qed (use key_sets in simp_all)

lemma summary_part_blank:
  assumes "dsKind (summary_part_disposition (tree_api p r i) (Some v)) = Prelude"
  shows "blank v"
proof (rule only_fields_blank)
  show "responsesObjectHasOnlyFields (tree_api p r i) (Some v)
      [''type'', ''sequence_number'', ''item_id'', ''output_index'', ''content_index'', ''part'']"
    using assms unfolding summary_part_disposition_def if_staged by simp
  show "blank w" if k: "k \<in> {''part''}" "tree_path (Some v) [k] = Some w" for k w
  proof (rule only_fields_blank)
    show "responsesObjectHasOnlyFields (tree_api p r i) (Some w) [''type'', ''text'']"
      using assms k unfolding summary_part_disposition_def if_staged Let_def by simp
    show "blank u" if "l \<in> {''text''}" "tree_path (Some w) [l] = Some u" for l u
      using assms k that unfolding summary_part_disposition_def if_staged Let_def by auto
  qed (use key_sets in simp_all)
qed (use key_sets in simp_all)

lemma shape_blank:
  assumes "dsKind (shape_disposition cur (tree_api p r i) typ (Some v)) = Prelude"
    and "typ \<notin> {''response.created'', ''response.in_progress'', ''response.queued'', ''response.metadata''}"
  shows "blank v"
proof -
  let ?T = "tree_api p r i"
  let ?delta = "[''type'', ''sequence_number'', ''item_id'', ''output_index'', ''content_index'', ''delta'', ''logprobs'', ''obfuscation'']"
  let ?text = "[''type'', ''sequence_number'', ''item_id'', ''output_index'', ''content_index'', ''text'', ''logprobs'']"
  have held: "blank v" if "responsesObjectHasOnlyFields ?T (Some v) ks" "ks \<noteq> []"
      "set ks \<subseteq> protocol_keys \<union> inert_keys \<union> {k}" "CHR ''.'' \<notin> set k"
      "dsKind (responsesTextDisposition ?T (g_Get ?T (Some v) k)) = Prelude" for ks k
    using that(1-3) by (rule only_fields_blank) (use that(4,5) in \<open>auto simp: text_staged\<close>)
  have "(responsesObjectHasOnlyFields ?T (Some v) ?delta \<and>
         dsKind (responsesTextDisposition ?T (g_Get ?T (Some v) ''delta'')) = Prelude) \<or>
      (responsesObjectHasOnlyFields ?T (Some v) ?text \<and>
         dsKind (responsesTextDisposition ?T (g_Get ?T (Some v) ''text'')) = Prelude) \<or>
      dsKind (part_disposition ?T (Some v)) = Prelude \<or> dsKind (summary_part_disposition ?T (Some v)) = Prelude \<or>
      dsKind (item_disposition ?T typ (Some v)) = Prelude"
    using assms unfolding shape_disposition_def by (simp del: tree_api_simps split: if_split_asm)
  then consider
      "responsesObjectHasOnlyFields ?T (Some v) ?delta" "dsKind (responsesTextDisposition ?T (g_Get ?T (Some v) ''delta'')) = Prelude"
    | "responsesObjectHasOnlyFields ?T (Some v) ?text" "dsKind (responsesTextDisposition ?T (g_Get ?T (Some v) ''text'')) = Prelude"
    | "dsKind (part_disposition ?T (Some v)) = Prelude" | "dsKind (summary_part_disposition ?T (Some v)) = Prelude"
    | "dsKind (item_disposition ?T typ (Some v)) = Prelude" by blast
  then show ?thesis
  proof cases
    case 1
    show ?thesis by (rule held [OF 1(1) _ key_sets(10) _ 1(2)]) simp_all
  next
    case 2
    show ?thesis by (rule held [OF 2(1) _ key_sets(11) _ 2(2)]) simp_all
  qed (fact part_blank summary_part_blank item_blank)+
qed

section \<open>Properties\<close>

definition lifecycle_types :: "string set" where
  "lifecycle_types = {''response.created'', ''response.in_progress'', ''response.queued'', ''response.metadata''}"

text \<open>
  C21: no client text is held back. With a JSON library that behaves like lookup in JSON trees, an
  event other than the four lifecycle types is staged (held back for a transparent replay) only if
  every string of its payload outside the identifying fields is blank, at any depth.
\<close>

theorem staged_event_has_no_text:
  assumes "dsKind (ResponsesEventOutputDisposition cur (tree_api parse raw int_of) eventType payload) = Prelude"
    and "event_type (tree_api parse raw int_of) eventType (is_obj (parse payload)) (parse payload) \<notin> Some ` lifecycle_types"
  shows "\<exists>doc. parse payload = Some doc \<and> (\<forall>s \<in> set (texts doc). TrimSpace s = [])"
proof -
  let ?T = "tree_api parse raw int_of"
  have v: "(g_Valid ?T payload \<and> g_IsObject ?T (g_Parse ?T payload)) = is_obj (parse payload)"
    by (auto simp: is_obj_iff)
  obtain ty where ty: "event_type ?T eventType (is_obj (parse payload)) (parse payload) = Some ty"
      "is_obj (parse payload)" "dsKind (shape_disposition cur ?T ty (parse payload)) = Prelude"
    using assms(1) unfolding ResponsesEventOutputDisposition_def Let_def v
    by (auto split: option.splits if_split_asm)
  then obtain doc where doc: "parse payload = Some doc" by (auto simp: is_obj_iff)
  with ty assms(2) have "blank doc"
    by (intro shape_blank [of cur parse raw int_of ty]) (auto simp: lifecycle_types_def)
  with doc show ?thesis by (simp add: blank_def)
qed

text \<open>A blank delta, read by a parser that knows one payload.\<close>

definition blank_delta :: json where
  "blank_delta = JObj [(''type'', JStr ''response.output_text.delta''), (''delta'', JStr '' ''), (''extra'', JArr [JBool True])]"

theorem staged_event_has_no_text_witness:
  "[s \<leftarrow> texts blank_delta. TrimSpace s \<noteq> []] = [] \<and> texts blank_delta \<noteq> []"
proof -
  let ?T = "tree_api (\<lambda>s. Some blank_delta) (\<lambda>v. []) (\<lambda>v. 0)"
  have "dsKind (ResponsesEventOutputDisposition None ?T ''response.output_text.delta'' ''x'') = Prelude"
    by code_simp
  moreover have "event_type ?T ''response.output_text.delta'' True (Some blank_delta) = Some ''response.output_text.delta''"
    by code_simp
  moreover have "texts blank_delta \<noteq> []" "is_obj (Some blank_delta)" "''response.output_text.delta'' \<notin> lifecycle_types" by code_simp+
  ultimately show ?thesis
    using staged_event_has_no_text [of None "\<lambda>s. Some blank_delta" "\<lambda>v. []" "\<lambda>v. 0" "''response.output_text.delta''" "''x''"]
    by (auto simp: filter_empty_conv)
qed

text \<open>
  an unknown field of an event counts as empty exactly when no string in it has a character
  and its arrays and objects are nested at most 32 levels deep; the recursion always ends.
\<close>

theorem empty_field_spec:
  "responsesFieldValueIsEmpty (tree_api parse raw int_of) (Some v) =
     (nesting v \<le> 32 \<and> (\<forall>s \<in> set (all_strings v). s = []))"
  by (auto simp: responsesFieldValueIsEmpty_def empty_at_depth_iff responsesEmptyFieldMaxDepth_def)

theorem empty_field_spec_witness:
  "responsesFieldValueIsEmpty (tree_api (\<lambda>s. None) (\<lambda>v. []) (\<lambda>v. 0)) (Some (JObj [(''a'', JArr [JStr [], JNum (Fin 1)])]))"
  by (simp add: empty_field_spec)

section \<open>Failures\<close>

text \<open>The answers about an output event: visible content, or staged.\<close>

definition ordinary :: "ResponsesOutputDisposition \<Rightarrow> bool" where
  "ordinary d = (d \<in> {responsesVisibleDisposition, staged True, staged False})"

named_theorems ordinary_intros

lemma ordinary_basic [ordinary_intros]:
  "ordinary responsesVisibleDisposition" "ordinary (staged b)"
  "ordinary x \<Longrightarrow> ordinary y \<Longrightarrow> ordinary (if b then x else y)"
  by (auto simp: ordinary_def) (cases b; simp)

lemma ordinary_text [ordinary_intros]: "ordinary (responsesTextDisposition G v)"
  unfolding responsesTextDisposition_def by (intro ordinary_intros)

lemma ordinary_items [ordinary_intros]:
  "ordinary (responsesMessageItemDisposition G v)" "ordinary (reasoning_item_disposition G v)"
  "ordinary (responsesEmptyStringItemDisposition G v key allowed)" "ordinary (part_disposition G v)"
  "ordinary (summary_part_disposition G v)"
  unfolding responsesMessageItemDisposition_def reasoning_item_disposition_def part_disposition_def
    responsesEmptyStringItemDisposition_def summary_part_disposition_def Let_def
  by (intro ordinary_intros)+

lemma ordinary_item [ordinary_intros]: "ordinary (item_disposition G ty v)"
  unfolding item_disposition_def Let_def by (intro ordinary_intros)

lemma shape_metadata:
  "\<not> NativePreludeWhitelistOn cur \<Longrightarrow> shape_disposition cur G ''response.metadata'' doc = unmatched"
  by (simp add: shape_disposition_def)

lemma shape_ordinary:
  assumes "\<not> (ty = ''response.metadata'' \<and> \<not> NativePreludeWhitelistOn cur)"
  shows "ordinary (shape_disposition cur G ty doc)"
proof (cases "ty = ''response.metadata''")
  case True
  with assms show ?thesis by (simp add: shape_disposition_def ordinary_intros)
next
  case False
  then show ?thesis unfolding shape_disposition_def by (simp only: if_False, intro ordinary_intros)
qed

lemma event_simps [simp]:
  "evKind (event k) = k" "\<not> Retryable (event k)" "evKind (failure_event E cur G doc payload) = TerminalFailure"
  by (simp_all add: event_def failure_event_def Let_def)

lemma chat_choices_kind: "chat_choices G chs b \<noteq> TerminalFailure"
  by (induction G chs b rule: chat_choices.induct) (simp_all add: Let_def)

lemma protocol_kinds [simp]:
  "classifyChatChunk G doc \<noteq> TerminalFailure"
  "evKind (classify_messages G ty doc) \<noteq> TerminalFailure" "\<not> Retryable (classify_messages G ty doc)"
  "evKind (classify_responses cur ty) \<noteq> TerminalFailure" "\<not> Retryable (classify_responses cur ty)"
  by (simp_all add: classifyChatChunk_def chat_choices_kind classify_messages_def classify_responses_def
      eventContentUnlessEmpty_def Let_def)

text \<open>The type that an object event is judged by after the Responses disposition.\<close>

definition object_type :: "'r gjson \<Rightarrow> string \<Rightarrow> 'r \<Rightarrow> string" where
  "object_type G eventType doc =
     (if TrimSpace (g_String G (g_Get G doc ''type'')) = [] then TrimSpace eventType
      else TrimSpace (g_String G (g_Get G doc ''type'')))"

text \<open>When an event says that the upstream failed.\<close>

definition reports_failure :: "'r gjson \<Rightarrow> string \<Rightarrow> string \<Rightarrow> string \<Rightarrow> bool" where
  "reports_failure G protocol eventType payload =
     (let doc = g_Parse G payload; ty = object_type G eventType doc
      in g_Valid G payload \<and> g_IsObject G doc \<and>
         (if protocol = ''responses'' then
            event_type G eventType True doc \<noteq> None \<and>
            (ty \<in> {''response.failed'', ''error''} \<or>
             (ty = ''response.incomplete'' \<and>
              g_String G (g_Get G doc ''response.incomplete_details.reason'') \<noteq> ''interrupted''))
          else
            ty \<in> {''response.failed'', ''error'', ''response.incomplete''} \<and>
              (protocol = ''messages'' \<or> (protocol = ''chat'' \<and> TrimSpace payload \<noteq> ''[DONE]'')) \<or>
            (protocol = ''chat'' \<and> TrimSpace payload \<noteq> ''[DONE]'' \<and> ChatErrorField G doc)))"

lemma event_type_ty: "event_type G eventType True doc = Some ty \<Longrightarrow> object_type G eventType doc = ty"
  by (auto simp: event_type_def object_type_def Let_def split: if_splits)

lemma classify_object_alt:
  "classify_object E cur G protocol eventType doc payload =
     (let ty = object_type G eventType doc
      in if ty = ''response.incomplete'' then event TerminalFailure
         else if ty = ''response.failed'' \<or> ty = ''error'' \<or> (protocol = ''chat'' \<and> ChatErrorField G doc)
         then failure_event E cur G doc payload
         else if protocol = ''responses'' \<and> HasPrefix ty ''response.'' then
           (if ty = ''response.metadata'' then event Unknown else event Content)
         else if protocol = ''responses'' then classify_responses cur ty
         else if protocol = ''chat'' then event (classifyChatChunk G doc)
         else classify_messages G ty doc)"
  by (simp add: classify_object_def object_type_def Let_def)

definition calm :: "EventClass \<Rightarrow> bool" where
  "calm e = (Retryable e \<longrightarrow> evKind e = TerminalFailure)"

lemma calm_intros:
  "calm (event k)" "calm (failure_event E cur G doc payload)" "calm (classify_responses cur ty)"
  "calm (classify_messages G ty doc)" "calm x \<Longrightarrow> calm y \<Longrightarrow> calm (if b then x else y)"
  by (simp_all add: calm_def)

lemma object_failure:
  "evKind (classify_object E cur G protocol eventType doc payload) = TerminalFailure \<longleftrightarrow>
     object_type G eventType doc \<in> {''response.failed'', ''error'', ''response.incomplete''} \<or>
     (protocol = ''chat'' \<and> ChatErrorField G doc)"
  "calm (classify_object E cur G protocol eventType doc payload)"
proof -
  show "evKind (classify_object E cur G protocol eventType doc payload) = TerminalFailure \<longleftrightarrow>
     object_type G eventType doc \<in> {''response.failed'', ''error'', ''response.incomplete''} \<or>
     (protocol = ''chat'' \<and> ChatErrorField G doc)"
    unfolding classify_object_alt Let_def by (simp split: if_split)
  show "calm (classify_object E cur G protocol eventType doc payload)"
    unfolding classify_object_alt Let_def by (intro calm_intros)
qed

lemma disposition_failure:
  "dsKind (ResponsesEventOutputDisposition cur G eventType payload) \<noteq> TerminalFailure"
  "Matched (ResponsesEventOutputDisposition cur G eventType payload) \<Longrightarrow> g_Valid G payload \<Longrightarrow>
     g_IsObject G (g_Parse G payload) \<Longrightarrow> \<not> reports_failure G ''responses'' eventType payload"
  "\<not> Matched (ResponsesEventOutputDisposition cur G eventType payload) \<Longrightarrow> g_Valid G payload \<Longrightarrow>
     g_IsObject G (g_Parse G payload) \<Longrightarrow>
     reports_failure G ''responses'' eventType payload \<longleftrightarrow>
       object_type G eventType (g_Parse G payload) \<in> {''response.failed'', ''error'', ''response.incomplete''}"
proof -
  let ?d = "ResponsesEventOutputDisposition cur G eventType payload" and ?doc = "g_Parse G payload"
  have ord: "dsKind d \<noteq> TerminalFailure" "Matched d" if "ordinary d" for d
    using that by (auto simp: ordinary_def responsesVisibleDisposition_def staged_def)
  have shape: "dsKind (shape_disposition cur G ty doc) \<noteq> TerminalFailure"
      "\<not> Matched (shape_disposition cur G ty doc) \<Longrightarrow> ty = ''response.metadata''" for ty doc
    using shape_ordinary [of ty cur G doc] shape_metadata [of cur G doc] ord
    by (cases "ty = ''response.metadata'' \<and> \<not> NativePreludeWhitelistOn cur"; auto)+
  show "dsKind ?d \<noteq> TerminalFailure"
    unfolding ResponsesEventOutputDisposition_def Let_def
    by (simp add: shape split: option.split)
  have visible: "Matched responsesVisibleDisposition" "\<not> Matched unmatched"
    by (simp_all add: responsesVisibleDisposition_def unmatched_def)
  assume v: "g_Valid G payload" "g_IsObject G ?doc"
  show "\<not> reports_failure G ''responses'' eventType payload" if "Matched ?d"
  proof (cases "event_type G eventType True ?doc")
    case (Some ty)
    with that v event_type_ty [OF Some] show ?thesis
      unfolding ResponsesEventOutputDisposition_def Let_def reports_failure_def
      by (auto simp: visible HasPrefix_def split: if_split_asm)
  qed (simp add: reports_failure_def Let_def)
  show "reports_failure G ''responses'' eventType payload \<longleftrightarrow>
       object_type G eventType ?doc \<in> {''response.failed'', ''error'', ''response.incomplete''}" if "\<not> Matched ?d"
  proof (cases "event_type G eventType True ?doc")
    case None
    with that v show ?thesis by (simp add: ResponsesEventOutputDisposition_def Let_def visible)
  next
    case (Some ty)
    with that v event_type_ty [OF Some] shape(2) [of ty ?doc] show ?thesis
      unfolding ResponsesEventOutputDisposition_def Let_def reports_failure_def
      by (auto simp: visible HasPrefix_def split: if_split_asm)
  qed
qed

text \<open>
  an event is a terminal failure exactly when it reports one: a failed, error or incomplete
  event of any protocol (an interrupted Responses answer aside), or a chat chunk with failure
  evidence in its error field. Nothing else is ever retryable, so no failure is held back as an
  opening event or passed on as content.
\<close>

theorem failure_events_terminal:
  assumes "p = ToLower (TrimSpace protocol)"
  shows "(evKind (ClassifyStreamEvent E cur G protocol eventType payload) = TerminalFailure \<longleftrightarrow>
      p \<in> {''responses'', ''chat'', ''messages''} \<and> reports_failure G p eventType payload) \<and>
    (Retryable (ClassifyStreamEvent E cur G protocol eventType payload) \<longrightarrow>
      evKind (ClassifyStreamEvent E cur G protocol eventType payload) = TerminalFailure)"
proof -
  have calm: "calm (ClassifyStreamEvent E cur G protocol eventType payload)"
    unfolding ClassifyStreamEvent_def Let_def by (intro calm_intros object_failure)
  note disp = disposition_failure [of cur G eventType payload]
  have "evKind (ClassifyStreamEvent E cur G protocol eventType payload) = TerminalFailure \<longleftrightarrow>
      p \<in> {''responses'', ''chat'', ''messages''} \<and> reports_failure G p eventType payload"
  proof (cases "p = ''responses''")
    case True
    with assms disp show ?thesis
      by (auto simp: ClassifyStreamEvent_def Let_def object_failure reports_failure_def)
  next
    case False
    with assms show ?thesis
      by (auto simp: ClassifyStreamEvent_def Let_def object_failure reports_failure_def)
  qed
  with calm show ?thesis by (simp add: calm_def)
qed

definition error_chunk :: json where
  "error_chunk = JObj [(''error'', JStr ''overloaded'')]"

theorem failure_events_terminal_witness:
  "\<forall>E. evKind (ClassifyStreamEvent E None (tree_api (\<lambda>s. Some error_chunk) (\<lambda>v. []) (\<lambda>v. 0)) '' Chat '' [] ''x'') = TerminalFailure"
proof
  fix E
  have "ToLower (TrimSpace '' Chat '') = ''chat''" by code_simp
  moreover have "reports_failure (tree_api (\<lambda>s. Some error_chunk) (\<lambda>v. []) (\<lambda>v. 0)) ''chat'' [] ''x''" by code_simp
  ultimately show "evKind (ClassifyStreamEvent E None (tree_api (\<lambda>s. Some error_chunk) (\<lambda>v. []) (\<lambda>v. 0)) '' Chat '' [] ''x'') = TerminalFailure"
    using failure_events_terminal [of "''chat''" "'' Chat ''" E None "tree_api (\<lambda>s. Some error_chunk) (\<lambda>v. []) (\<lambda>v. 0)"
      "[]" "''x''"] by simp
qed

end
