(* ===== verification/Resil_Capability.thy ===== *)
theory Resil_Capability
  imports Resil_Classify
begin

text \<open>
  Learning that an upstream account serves only streaming requests (\<open>resilience/capability.go\<close>):
  what the current request knows, and the recognition of a "streaming required" failure.

  The request's entry in the context is \<open>None\<close> when it was not recorded. \<open>encoding/json\<close> is the
  parameter \<open>json_env\<close>: a raw message is \<open>None\<close> when the member is absent, \<open>decode_envelope\<close> reads the
  struct of the error envelope, and \<open>decode_any\<close> decodes a document into nested Go values.
\<close>

section \<open>What a request knows\<close>

definition CapabilityProtocolResponses :: string where "CapabilityProtocolResponses = ''responses''"
definition CapabilityProtocolChat :: string where "CapabilityProtocolChat = ''chat''"
definition CapabilityModeStreamOnly :: string where "CapabilityModeStreamOnly = ''stream_only''"
definition ReasonCapabilityStreamOnly :: string where "ReasonCapabilityStreamOnly = ''capability_stream_only''"

record LearnedCapability =
  lc_Protocol :: string
  lc_Mode :: string
  lc_ExpiresAt :: gotime

record capabilityRequest =
  cr_protocol :: string
  cr_stream :: bool
  cr_excluded :: "account_id set"
  capabilityAttempt :: bool
  otherAttempt :: bool

definition WithCapabilityRequest :: "string \<Rightarrow> bool \<Rightarrow> capabilityRequest option" where
  "WithCapabilityRequest protocol stream =
     Some \<lparr>cr_protocol = protocol, cr_stream = stream, cr_excluded = {}, capabilityAttempt = False, otherAttempt = False\<rparr>"

definition validCapabilityProtocol :: "string \<Rightarrow> bool" where
  "validCapabilityProtocol protocol = (protocol = CapabilityProtocolResponses \<or> protocol = CapabilityProtocolChat)"

definition CapabilityRequestFrom :: "capabilityRequest option \<Rightarrow> string \<times> bool \<times> bool" where
  "CapabilityRequestFrom ctx = (case ctx of
       None \<Rightarrow> ([], False, False)
     | Some r \<Rightarrow> (cr_protocol r, cr_stream r, validCapabilityProtocol (cr_protocol r)))"

definition NoteCapabilityExcluded :: "account_id \<Rightarrow> capabilityRequest option \<Rightarrow> capabilityRequest option" where
  "NoteCapabilityExcluded a ctx = (case ctx of
       None \<Rightarrow> None
     | Some r \<Rightarrow> if a \<le> 0 then Some r else Some (r\<lparr>cr_excluded := insert a (cr_excluded r)\<rparr>))"

definition CapabilityExcluded :: "account_id \<Rightarrow> capabilityRequest option \<Rightarrow> bool" where
  "CapabilityExcluded a ctx = (case ctx of
       None \<Rightarrow> False
     | Some r \<Rightarrow> if 0 < a then a \<in> cr_excluded r else cr_excluded r \<noteq> {})"

definition NoteCapabilityAttempt :: "bool \<Rightarrow> capabilityRequest option \<Rightarrow> capabilityRequest option" where
  "NoteCapabilityAttempt capability ctx = (case CapabilityRequestFrom ctx of (_, _, ok) \<Rightarrow>
     if \<not> ok then ctx
     else map_option (\<lambda>r. if capability then r\<lparr>capabilityAttempt := True\<rparr> else r\<lparr>otherAttempt := True\<rparr>) ctx)"

definition CapabilityOnlyAttempts :: "capabilityRequest option \<Rightarrow> bool" where
  "CapabilityOnlyAttempts ctx = (case CapabilityRequestFrom ctx of (_, _, ok) \<Rightarrow>
     if \<not> ok then False
     else (case ctx of None \<Rightarrow> False | Some r \<Rightarrow> capabilityAttempt r \<and> \<not> otherAttempt r))"

section \<open>Phrases\<close>

definition stream_only_phrases :: "string list" where
  "stream_only_phrases =
     [''only accepts streaming requests'', ''only supports streaming requests'', ''only streaming requests are supported'',
      ''stream must be true'', [CHR 0x22] @ ''stream'' @ [CHR 0x22] @ '' must be true'',
      [CHR 0x27] @ ''stream'' @ [CHR 0x27] @ '' must be true'', ''stream=true is required'']"

definition containsStreamOnlyPhrase :: "string \<Rightarrow> bool" where
  "containsStreamOnlyPhrase txt =
     (let message = ToLower (Join (Fields txt) '' '')
      in list_ex (Contains message) stream_only_phrases)"

text \<open>A decoded JSON document as nested Go values.\<close>

datatype goval = GoString string | GoList "goval list" | GoMap "(string \<times> goval) list" | GoOther

fun phrase_in :: "goval \<Rightarrow> bool" where
  "phrase_in (GoString s) = containsStreamOnlyPhrase s"
| "phrase_in (GoList vs) = list_ex phrase_in vs"
| "phrase_in (GoMap kvs) = list_ex (\<lambda>(k, v). containsStreamOnlyPhrase k \<or> phrase_in v) kvs"
| "phrase_in GoOther = False"

section \<open>Recognition of a failure\<close>

record errorFields =
  ef_Code :: string
  ef_Type :: string
  ef_Message :: string
  ef_Param :: "string option"

definition no_fields :: errorFields where
  "no_fields = \<lparr>ef_Code = [], ef_Type = [], ef_Message = [], ef_Param = None\<rparr>"

record envelope =
  en_fields :: errorFields
  en_Error :: "string option"
  en_Response_Error :: errorFields

record json_env =
  json_Valid :: "string \<Rightarrow> bool"
  decode_envelope :: "string \<Rightarrow> envelope option"
  decode_fields :: "string \<Rightarrow> errorFields option"
  decode_string :: "string \<Rightarrow> string option"
  decode_any :: "string \<Rightarrow> goval option"

definition containsStreamOnlyRequestPhrase :: "json_env \<Rightarrow> string \<Rightarrow> bool" where
  "containsStreamOnlyRequestPhrase J body =
     (if length body = 0 then False
      else if containsStreamOnlyPhrase body then True
      else (case decode_any J body of None \<Rightarrow> False | Some v \<Rightarrow> phrase_in v))"

text \<open>The error fields of a body, or \<open>None\<close> where the code gives up.\<close>

definition envelope_fields :: "json_env \<Rightarrow> envelope \<Rightarrow> errorFields" where
  "envelope_fields J env =
     (let ef = en_fields env;
          ef = (case en_Error env of
              None \<Rightarrow> ef
            | Some raw \<Rightarrow> (case decode_fields J raw of
                  Some nested \<Rightarrow> nested
                | None \<Rightarrow> (case decode_string J raw of
                      Some message \<Rightarrow> ef\<lparr>ef_Message := message\<rparr>
                    | None \<Rightarrow> ef)))
      in if ef_Code ef = [] \<and> ef_Type ef = [] \<and> ef_Message ef = [] then en_Response_Error env else ef)"

definition error_fields :: "json_env \<Rightarrow> string \<Rightarrow> errorFields option" where
  "error_fields J body =
     (let trimmed = TrimSpace body
      in if json_Valid J body then map_option (envelope_fields J) (decode_envelope J body)
         else if HasPrefix trimmed ''{'' \<or> HasPrefix trimmed ''['' then None
         else Some (no_fields\<lparr>ef_Message := trimmed\<rparr>))"

definition stream_only_codes :: "string list" where
  "stream_only_codes =
     [''streaming_required'', ''stream_required'', ''stream_only'', ''streaming_only'', ''non_streaming_not_supported'']"

text \<open>A parameter other than \<open>stream\<close> is to blame.\<close>

definition other_param :: "json_env \<Rightarrow> errorFields \<Rightarrow> bool" where
  "other_param J ef = (case ef_Param ef of
       None \<Rightarrow> False
     | Some raw \<Rightarrow> (case decode_string J raw of
           None \<Rightarrow> True
         | Some param \<Rightarrow> TrimSpace param \<noteq> [] \<and> param \<noteq> ''stream''))"

definition IsStreamOnlyFailure :: "classify_env \<Rightarrow> json_env \<Rightarrow> int \<Rightarrow> string \<Rightarrow> string list \<Rightarrow> bool" where
  "IsStreamOnlyFailure E J status body outboundBodies =
     (if status \<noteq> 400 \<or> length body = 0 \<or> inspectLimit < length body then False
      else (case error_fields J body of
          None \<Rightarrow> False
        | Some ef \<Rightarrow>
            if other_param J ef then False
            else if list_ex (containsStreamOnlyRequestPhrase J) outboundBodies then False
            else
              let result = Classify E
                    \<lparr>oSource = SourceHTTP, StatusCode = status, oCode = ef_Code ef, oType = ef_Type ef,
                     oMessage = ef_Message ef, oBody = [], oHeaders = [], oErr = None\<rparr> []
              in if Hard result \<or> ContentPolicy result then False
                 else if list_ex (\<lambda>code. ToLower (TrimSpace code) \<in> set stream_only_codes) [ef_Code ef, ef_Type ef]
                 then True
                 else containsStreamOnlyPhrase (ef_Message ef)))"

section \<open>Properties\<close>

text \<open>Every string of a decoded document, member names included.\<close>

fun strings_in :: "goval \<Rightarrow> string list" where
  "strings_in (GoString s) = [s]"
| "strings_in (GoList vs) = concat (map strings_in vs)"
| "strings_in (GoMap kvs) = concat (map (\<lambda>(k, v). k # strings_in v) kvs)"
| "strings_in GoOther = []"

lemma phrase_in_iff: "phrase_in v = list_ex containsStreamOnlyPhrase (strings_in v)"
  by (induction v) (fastforce simp: list_ex_iff)+

text \<open>
  A failure teaches that an account serves only streaming requests only if no outgoing request
  body carries one of the streaming phrases itself, neither as text nor in any string or key of the
  decoded document: a client's own words cannot trigger the learning.
\<close>

theorem stream_only_needs_clean_request:
  assumes "IsStreamOnlyFailure E J status body outbound" "req \<in> set outbound" "req \<noteq> []"
  shows "\<not> containsStreamOnlyPhrase req \<and>
    (\<forall>v. decode_any J req = Some v \<longrightarrow> (\<forall>s \<in> set (strings_in v). \<not> containsStreamOnlyPhrase s))"
proof -
  have "\<not> containsStreamOnlyRequestPhrase J req"
    using assms(1,2) by (auto simp: IsStreamOnlyFailure_def list_ex_iff split: option.splits if_split_asm)
  with assms(3) show ?thesis
    by (auto simp: containsStreamOnlyRequestPhrase_def phrase_in_iff list_ex_iff split: if_split_asm)
qed

definition plain_json :: json_env where
  "plain_json =
     \<lparr>json_Valid = (\<lambda>s. True), decode_envelope = (\<lambda>s. Some \<lparr>en_fields = no_fields\<lparr>ef_Code := ''invalid_prompt'', ef_Type := ''stream_only''\<rparr>,
        en_Error = None, en_Response_Error = no_fields\<rparr>),
      decode_fields = (\<lambda>s. None), decode_string = (\<lambda>s. None), decode_any = (\<lambda>s. Some (GoMap [(''model'', GoString s)]))\<rparr>"

definition plain_classify :: classify_env where
  "plain_classify =
     \<lparr>headers_env = \<lparr>ParseFloat = (\<lambda>_. None), ParseTime = (\<lambda>_. None), time_Now = 0\<rparr>,
      decode_model_error = (\<lambda>_. None), gjson_String = (\<lambda>_ _. []), gjson_Valid = (\<lambda>_. False)\<rparr>"

definition refused :: Outcome where
  "refused = \<lparr>oSource = SourceHTTP, StatusCode = 400, oCode = ''invalid_prompt'', oType = ''stream_only'',
     oMessage = [], oBody = [], oHeaders = [], oErr = None\<rparr>"
definition refused_signals :: signals where
  "refused_signals = \<lparr>gCode = ''invalid_prompt'', gTyp = ''stream_only'', gMsg = [], gBody = [], gLowerBody = [],
     gText = ''invalid_prompt stream_only '', gRetryAfter = 0, gStatus = 400, gEvent = False\<rparr>"
lemma refused_classified: "Classify plain_classify refused [] = result CategoryClientError ''client_code''"
proof -
  have "signals_of plain_classify refused = refused_signals" by code_simp
  moreover have "\<not> plain_success refused_signals" by code_simp
  moreover have "stage_balance [] refused_signals = None" by code_simp
  moreover have "stage_client plain_classify refused_signals = Some (result CategoryClientError ''client_code'')" by code_simp
  ultimately show ?thesis by (simp add: Classify_def classify_def classify_answer_def refused_def Let_def)
qed
theorem stream_only_needs_clean_request_witness:
  "\<not> containsStreamOnlyPhrase ''hi''"
proof -
  let ?ef = "no_fields\<lparr>ef_Code := ''invalid_prompt'', ef_Type := ''stream_only''\<rparr>"
  have "error_fields plain_json ''x'' = Some ?ef" by code_simp
  moreover have "\<not> containsStreamOnlyRequestPhrase plain_json ''hi''" by code_simp
  moreover have "ToLower (TrimSpace ''stream_only'') \<in> set stream_only_codes" by code_simp
  moreover have "\<not> other_param plain_json ?ef" by code_simp
  moreover have "Classify plain_classify \<lparr>oSource = SourceHTTP, StatusCode = 400, oCode = ef_Code ?ef, oType = ef_Type ?ef,
      oMessage = ef_Message ?ef, oBody = [], oHeaders = [], oErr = None\<rparr> [] = result CategoryClientError ''client_code''"
    using refused_classified by (simp add: refused_def no_fields_def)
  ultimately have "IsStreamOnlyFailure plain_classify plain_json 400 ''x'' [''hi'']"
    by (simp add: IsStreamOnlyFailure_def inspectLimit_def no_fields_def result_def Hard_def ContentPolicy_def
          ReasonContentPolicy_def Let_def)
  from stream_only_needs_clean_request [OF this, of "''hi''"] show ?thesis by simp
qed

text \<open>The attempts of a request, in order; \<open>True\<close> marks a streaming-only refusal.\<close>

lemma note_attempt:
  "validCapabilityProtocol (cr_protocol r) \<Longrightarrow> NoteCapabilityAttempt a (Some r) =
     Some (if a then r\<lparr>capabilityAttempt := True\<rparr> else r\<lparr>otherAttempt := True\<rparr>)"
  by (simp add: NoteCapabilityAttempt_def CapabilityRequestFrom_def)

lemma attempts_recorded:
  assumes "validCapabilityProtocol protocol"
  shows "\<exists>r. fold NoteCapabilityAttempt as (WithCapabilityRequest protocol stream) = Some r \<and>
      cr_protocol r = protocol \<and> capabilityAttempt r = (True \<in> set as) \<and> otherAttempt r = (False \<in> set as)"
proof (induction as rule: rev_induct)
  case (snoc a as)
  then obtain r where "fold NoteCapabilityAttempt as (WithCapabilityRequest protocol stream) = Some r"
      "cr_protocol r = protocol" "capabilityAttempt r = (True \<in> set as)" "otherAttempt r = (False \<in> set as)" by blast
  with assms show ?case by (cases a) (simp_all add: note_attempt)
qed (simp add: WithCapabilityRequest_def)

text \<open>
  A request is answered as "streaming required" only if it made an attempt and every one of its
  attempts failed for that reason, in any order of the attempts.
\<close>

theorem capability_attempts_exact:
  assumes "validCapabilityProtocol protocol"
  shows "CapabilityOnlyAttempts (fold NoteCapabilityAttempt as (WithCapabilityRequest protocol stream)) =
    (as \<noteq> [] \<and> (\<forall>a \<in> set as. a))"
proof -
  obtain r where r: "fold NoteCapabilityAttempt as (WithCapabilityRequest protocol stream) = Some r"
      "cr_protocol r = protocol" "capabilityAttempt r = (True \<in> set as)" "otherAttempt r = (False \<in> set as)"
    using attempts_recorded [OF assms] by blast
  have "(True \<in> set as \<and> False \<notin> set as) = (as \<noteq> [] \<and> (\<forall>a \<in> set as. a))"
    by (induction as) auto
  with r assms show ?thesis by (simp add: CapabilityOnlyAttempts_def CapabilityRequestFrom_def)
qed

theorem capability_attempts_exact_witness:
  "CapabilityOnlyAttempts (fold NoteCapabilityAttempt [True, False] (WithCapabilityRequest ''chat'' False)) = False"
  using capability_attempts_exact [of "''chat''" "[True, False]" False]
  by (simp add: validCapabilityProtocol_def CapabilityProtocolChat_def)

end
