(* ===== verification/Failover_Errors.thy ===== *)
theory Failover_Errors
  imports Resil_Capability Stream_Prelude
begin

text \<open>
  The failure of an upstream attempt as the failover loops see it: the type
  \<open>UpstreamFailoverError\<close> and its predicates (\<open>service/gateway_service.go\<close>), the texts read out of an
  error answer (\<open>service/gateway_upstream_response.go\<close>), and the classification of such an error
  (\<open>service/resilience_penalty.go\<close>).

  A nil \<open>*UpstreamFailoverError\<close> is \<open>None\<close>. The environment \<open>failover_env\<close> holds the parameters of
  the classifier (\<open>Resil_Classify\<close>), the JSON library (\<open>Stream_Prelude\<close>) and \<open>resilience.Current()\<close>.
\<close>

section \<open>The error\<close>

definition GatewayFailureStageInference :: string where "GatewayFailureStageInference = ''inference''"
definition GatewayFailureStageAccountAuth :: string where "GatewayFailureStageAccountAuth = ''account_auth''"

definition GatewayFailureScopeAccount :: string where "GatewayFailureScopeAccount = ''account''"
definition GatewayFailureScopeProvider :: string where "GatewayFailureScopeProvider = ''provider''"
definition GatewayFailureScopeRequest :: string where "GatewayFailureScopeRequest = ''request''"

datatype NextAccountAction = NextAccountLegacyRetry | NextAccountRetry | NextAccountStop

definition PlannedFirstOutputTimeoutReason :: string where
  "PlannedFirstOutputTimeoutReason = ''planned_first_output_timeout''"
definition OpenAIAlphaSearchE5001Reason :: string where
  "OpenAIAlphaSearchE5001Reason = ''openai_alpha_search_e5001_server_error''"
definition OpenAIStateRepairReason :: string where "OpenAIStateRepairReason = ''openai_state_repair''"
definition openAIModelUnavailableReason :: string where "openAIModelUnavailableReason = ''openai_model_unavailable''"
definition openAIUpstreamRequestRestrictionReason :: string where
  "openAIUpstreamRequestRestrictionReason = ReasonUpstreamRequestRestriction"
definition OpenAIStreamForbiddenReason :: string where
  "OpenAIStreamForbiddenReason = ''openai_stream_forbidden_transient''"

lemmas reason_consts = PlannedFirstOutputTimeoutReason_def OpenAIAlphaSearchE5001Reason_def OpenAIStateRepairReason_def
  openAIModelUnavailableReason_def openAIUpstreamRequestRestrictionReason_def OpenAIStreamForbiddenReason_def
  ReasonUpstreamRequestRestriction_def ReasonCapabilityStreamOnly_def

definition PlatformOpenAI :: string where "PlatformOpenAI = ''openai''"
definition PlatformGrok :: string where "PlatformGrok = ''grok''"
definition PlatformGemini :: string where "PlatformGemini = ''gemini''"
definition PlatformAntigravity :: string where "PlatformAntigravity = ''antigravity''"
definition AccountTypeAPIKey :: string where "AccountTypeAPIKey = ''apikey''"

text \<open>Go's \<open>error\<close> values are known here only by their text.\<close>

record UpstreamFailoverError =
  fe_cause :: "string option"
  PreDispatchSelectionInvalidated :: bool
  UpstreamPlatform :: string
  UpstreamAccountType :: string
  fe_StatusCode :: int
  ResponseBody :: string
  ResponseHeaders :: Header
  fe_ForceCacheBilling :: bool
  RetryableOnSameAccount :: bool
  SameAccountRetryDelay :: duration
  SameAccountRetryDeadline :: gotime
  SameAccountRetryMax :: int
  RequestScopedTransient :: bool
  SafeToFailoverAfterWrite :: bool
  fe_Stage :: string
  fe_Scope :: string
  fe_Reason :: string
  fe_NextAccountAction :: NextAccountAction
  ClientStatusCode :: int
  ClientMessage :: string
  M3Cause :: string
  WrappedStatus :: int

text \<open>The error with the given status and zero values elsewhere.\<close>

definition failover_error :: "int \<Rightarrow> UpstreamFailoverError" where
  "failover_error code =
     \<lparr>fe_cause = None, PreDispatchSelectionInvalidated = False, UpstreamPlatform = [], UpstreamAccountType = [],
      fe_StatusCode = code, ResponseBody = [], ResponseHeaders = [], fe_ForceCacheBilling = False,
      RetryableOnSameAccount = False, SameAccountRetryDelay = 0, SameAccountRetryDeadline = 0,
      SameAccountRetryMax = 0, RequestScopedTransient = False, SafeToFailoverAfterWrite = False, fe_Stage = [],
      fe_Scope = [], fe_Reason = [], fe_NextAccountAction = NextAccountLegacyRetry, ClientStatusCode = 0,
      ClientMessage = [], M3Cause = [], WrappedStatus = 0\<rparr>"

type_synonym failure = "UpstreamFailoverError option"

text \<open>The account given as its platform and type; \<open>None\<close> is a nil account.\<close>

definition annotateUpstreamFailoverAccount :: "failure \<Rightarrow> (string \<times> string) option \<Rightarrow> failure" where
  "annotateUpstreamFailoverAccount e account = (case (e, account) of
       (Some e, Some (platform, ty)) \<Rightarrow> Some (e\<lparr>UpstreamPlatform := platform, UpstreamAccountType := ty\<rparr>)
     | _ \<Rightarrow> e)"

definition Error_text :: "UpstreamFailoverError \<Rightarrow> string" where
  "Error_text e =
     (if fe_Stage e = GatewayFailureStageAccountAuth then ''credential failure: '' @ fe_Reason e @ '' (failover)''
      else ''upstream error: '' @ Itoa (fe_StatusCode e) @ '' (failover)'')"

definition Unwrap :: "failure \<Rightarrow> string option" where
  "Unwrap e = (case e of None \<Rightarrow> None | Some e \<Rightarrow> fe_cause e)"

definition ShouldRetryNextAccount :: "failure \<Rightarrow> bool" where
  "ShouldRetryNextAccount e = (case e of None \<Rightarrow> False | Some e \<Rightarrow> fe_NextAccountAction e \<noteq> NextAccountStop)"

definition IsCredentialFailure :: "failure \<Rightarrow> bool" where
  "IsCredentialFailure e = (case e of None \<Rightarrow> False | Some e \<Rightarrow> fe_Stage e = GatewayFailureStageAccountAuth)"

definition IsOpenAIModelUnavailable :: "failure \<Rightarrow> bool" where
  "IsOpenAIModelUnavailable e = (case e of None \<Rightarrow> False | Some e \<Rightarrow> fe_Reason e = openAIModelUnavailableReason)"

definition isOpenAIWrappedRequestRejection :: "failure \<Rightarrow> bool" where
  "isOpenAIWrappedRequestRejection e = (case e of
       None \<Rightarrow> False
     | Some e \<Rightarrow> (WrappedStatus e = 401 \<or> WrappedStatus e = 403) \<and>
         fe_Scope e = GatewayFailureScopeRequest \<and> fe_NextAccountAction e = NextAccountStop)"

definition IsCapabilityStreamOnly :: "failure \<Rightarrow> bool" where
  "IsCapabilityStreamOnly e = (case e of None \<Rightarrow> False | Some e \<Rightarrow> fe_Reason e = ReasonCapabilityStreamOnly)"

definition IsCapabilityOnlyExhaustion :: "capabilityRequest option \<Rightarrow> failure \<Rightarrow> bool" where
  "IsCapabilityOnlyExhaustion cap e = (IsCapabilityStreamOnly e \<and> CapabilityOnlyAttempts cap)"

definition ShouldReportAccountScheduleFailure :: "failure \<Rightarrow> bool" where
  "ShouldReportAccountScheduleFailure e = (case e of
       None \<Rightarrow> False
     | Some r \<Rightarrow>
         if IsCapabilityStreamOnly e \<or> fe_Reason r = OpenAIStreamForbiddenReason \<or> fe_Reason r = OpenAIStateRepairReason
            \<or> fe_Reason r = openAIModelUnavailableReason \<or> fe_Reason r = openAIUpstreamRequestRestrictionReason
            \<or> isOpenAIWrappedRequestRejection e
         then False
         else \<not> IsCredentialFailure e \<or> fe_Scope r = GatewayFailureScopeAccount)"

section \<open>Texts of an error answer\<close>

record 'r failover_env =
  fo_classify :: classify_env
  fo_json :: "'r gjson"
  fo_current :: "Settings option"

definition json_text :: "'r failover_env \<Rightarrow> string \<Rightarrow> string \<Rightarrow> string" where
  "json_text V body path = g_String (fo_json V) (g_Get (fo_json V) (g_Parse (fo_json V) body) path)"

definition extractUpstreamErrorMessage :: "'r failover_env \<Rightarrow> string \<Rightarrow> string" where
  "extractUpstreamErrorMessage V body =
     (let m = json_text V body ''error.message''
      in if TrimSpace m \<noteq> [] then
           (let inner = TrimSpace m;
                innerMsg = json_text V inner ''error.message''
            in if HasPrefix inner ''{'' \<and> TrimSpace innerMsg \<noteq> [] then innerMsg else m)
         else (let d = json_text V body ''detail''
               in if TrimSpace d \<noteq> [] then d else json_text V body ''message''))"

text \<open>\<open>inner[:LastIndex(inner, c) + 1]\<close>, empty when \<open>c\<close> does not occur.\<close>

definition up_to_last :: "char \<Rightarrow> string \<Rightarrow> string" where
  "up_to_last c s = rev (dropWhile (\<lambda>x. x \<noteq> c) (rev s))"

definition extractUpstreamErrorCode :: "'r failover_env \<Rightarrow> string \<Rightarrow> string" where
  "extractUpstreamErrorCode V body =
     (let code = TrimSpace (json_text V body ''error.code'')
      in if code \<noteq> [] then code
         else let inner = TrimSpace (json_text V body ''error.message'')
           in if \<not> HasPrefix inner ''{'' then []
              else let code = TrimSpace (json_text V inner ''error.code'')
                in if code \<noteq> [] then code
                   else if CHR ''}'' \<in> set inner
                     then TrimSpace (json_text V (up_to_last CHR ''}'' inner) ''error.code'')
                   else [])"

fun firstNonEmpty :: "string list \<Rightarrow> string" where
  "firstNonEmpty [] = []"
| "firstNonEmpty (v # vs) = (if TrimSpace v \<noteq> [] then TrimSpace v else firstNonEmpty vs)"

definition detectOpenAICyberPolicy :: "'r failover_env \<Rightarrow> string \<Rightarrow> (string \<times> string) option" where
  "detectOpenAICyberPolicy V payload =
     (let code = json_text V payload ''error.code'';
          code = (if code = [] then json_text V payload ''response.error.code'' else code)
      in if \<not> EqualFold (TrimSpace code) ''cyber_policy'' then None
         else let msg = json_text V payload ''error.message'';
                  msg = (if msg = [] then json_text V payload ''response.error.message'' else msg)
           in Some (''cyber_policy'', TrimSpace msg))"

definition OpenAIWrappedRequestRejectionCode :: "'r failover_env \<Rightarrow> failure \<Rightarrow> string" where
  "OpenAIWrappedRequestRejectionCode V e =
     (if \<not> isOpenAIWrappedRequestRejection e then []
      else let body = ResponseBody (the e) in
        if IsContextWindowError (fo_classify V) (extractUpstreamErrorMessage V body) body then ''context_length_exceeded''
        else (case detectOpenAICyberPolicy V body of Some (code, _) \<Rightarrow> code | None \<Rightarrow> ''invalid_prompt''))"

section \<open>Classification\<close>

definition classifyUpstreamOutcome :: "'r failover_env \<Rightarrow> Outcome \<Rightarrow> Result" where
  "classifyUpstreamOutcome V out =
     (let body = oBody out;
          out = out\<lparr>oCode := firstNonEmpty [oCode out, extractUpstreamErrorCode V body,
                    json_text V body ''response.error.code'']\<rparr>;
          out = out\<lparr>oType := firstNonEmpty [oType out, json_text V body ''error.type'',
                    json_text V body ''response.error.type'']\<rparr>;
          out = out\<lparr>oMessage := firstNonEmpty [oMessage out, extractUpstreamErrorMessage V body,
                    json_text V body ''response.error.message'']\<rparr>
      in ClassifyWithSettings (fo_classify V) out (fo_current V))"

definition classifyUpstreamHTTP :: "'r failover_env \<Rightarrow> int \<Rightarrow> Header \<Rightarrow> string \<Rightarrow> string \<Rightarrow> Result" where
  "classifyUpstreamHTTP V statusCode headers body upstreamMsg =
     classifyUpstreamOutcome V
       \<lparr>oSource = SourceHTTP, StatusCode = statusCode, oCode = [], oType = [], oMessage = upstreamMsg, oBody = body,
        oHeaders = headers, oErr = None\<rparr>"

definition grokRequestErrorFieldAbsent :: "'r gjson \<Rightarrow> 'r \<Rightarrow> bool" where
  "grokRequestErrorFieldAbsent G value =
     (if \<not> g_Exists G value \<or> g_Type G value = GNull then True
      else g_Type G value = GString \<and> TrimSpace (g_String G value) = [])"

definition isGrokTemporaryUnavailable422Shape :: "'r gjson \<Rightarrow> int \<Rightarrow> string \<Rightarrow> bool" where
  "isGrokTemporaryUnavailable422Shape G statusCode responseBody =
     (if statusCode \<noteq> 422 \<or> length responseBody = 0 then False
      else let errNode = g_Get G (g_Parse G responseBody) ''error'' in
        g_Type G errNode = GJSON \<and>
        TrimSpace (g_String G (g_Get G errNode ''type'')) = ''api_error'' \<and>
        TrimSpace (g_String G (g_Get G errNode ''message'')) = ''Service temporarily unavailable'' \<and>
        grokRequestErrorFieldAbsent G (g_Get G errNode ''code'') \<and>
        grokRequestErrorFieldAbsent G (g_Get G errNode ''param''))"

definition isGrokTemporaryUnavailable422Failover :: "'r gjson \<Rightarrow> failure \<Rightarrow> bool" where
  "isGrokTemporaryUnavailable422Failover G e = (case e of
       None \<Rightarrow> False
     | Some e \<Rightarrow> UpstreamPlatform e = PlatformGrok \<and> UpstreamAccountType e = AccountTypeAPIKey \<and>
         isGrokTemporaryUnavailable422Shape G (fe_StatusCode e) (ResponseBody e))"

text \<open>The answer read from the body: the last part of \<open>ClassifyFailoverError\<close>.\<close>

definition classify_failed_answer :: "'r failover_env \<Rightarrow> UpstreamFailoverError \<Rightarrow> Result" where
  "classify_failed_answer V e =
     (let msg = TrimSpace (extractUpstreamErrorMessage V (ResponseBody e));
          res = classifyUpstreamHTTP V (fe_StatusCode e) (ResponseHeaders e) (ResponseBody e) msg
      in if rCategory res = CategorySuccess \<and> RequestScopedTransient e
         then result CategoryTransient ''request_scoped_transient''
         else res)"

text \<open>A wrapped rejection of the request: always a client error.\<close>

definition classify_wrapped_rejection :: "'r failover_env \<Rightarrow> UpstreamFailoverError \<Rightarrow> Result" where
  "classify_wrapped_rejection V e =
     (let msg = TrimSpace (extractUpstreamErrorMessage V (ResponseBody e));
          res = classifyUpstreamHTTP V 403 (ResponseHeaders e) (ResponseBody e) msg
      in if rCategory res \<noteq> CategoryClientError then result CategoryClientError ''wrapped_request_rejection'' else res)"

definition ClassifyFailoverError :: "'r failover_env \<Rightarrow> failure \<Rightarrow> Result" where
  "ClassifyFailoverError V e = (case e of
       None \<Rightarrow> result CategorySuccess []
     | Some r \<Rightarrow>
         if fe_Reason r = OpenAIStateRepairReason then result CategoryClientError OpenAIStateRepairReason
         else if fe_Reason r = openAIUpstreamRequestRestrictionReason then
           (if fe_Scope r = GatewayFailureScopeRequest
            then result CategoryClientError openAIUpstreamRequestRestrictionReason
            else result CategoryUpstreamRequestRestriction openAIUpstreamRequestRestrictionReason)
         else if fe_Reason r = openAIModelUnavailableReason then
           (if fe_Scope r = GatewayFailureScopeRequest
            then result CategoryClientError openAIModelUnavailableReason
            else result CategoryModelUnsupported openAIModelUnavailableReason)
         else if IsCapabilityStreamOnly e then result CategoryClientError ReasonCapabilityStreamOnly
         else if RequestScopedTransient r \<and> \<not> DecisionV2On (fo_current V)
           then result CategoryCapacityShed ''request_scoped''
         else if isOpenAIWrappedRequestRejection e then classify_wrapped_rejection V r
         else if IsCredentialFailure e then result CategoryAuth ''credential_failure''
         else if fe_Reason r = OpenAIStreamForbiddenReason then result CategoryTransient OpenAIStreamForbiddenReason
         else if fe_Reason r = OpenAIAlphaSearchE5001Reason then result CategoryTransient OpenAIAlphaSearchE5001Reason
         else if isGrokTemporaryUnavailable422Failover (fo_json V) e
           then result CategoryTransient ''grok_service_temporarily_unavailable''
         else classify_failed_answer V r)"

end
