(* ===== verification/Failover_Loop.thy ===== *)
theory Failover_Loop
  imports Failover_Errors Resil_Delivery
begin

text \<open>
  The failover loop of the HTTP handlers (\<open>handler/failover_loop.go\<close>, \<open>handler/resilience_budget.go\<close>,
  \<open>handler/resilience_failover.go\<close>, \<open>handler/resilience_recovery_outcome.go\<close>): what a failed upstream
  attempt and an exhausted account selection lead to.

  The request's context is the record \<open>ctx\<close>: the resilience state, the entry about capabilities, and
  the calls made on other services, in order. What a step reads of its surroundings (clock,
  cancellation, random draw, whether a wait ran to its end) is the record \<open>readings\<close>, one field for
  each reading. \<open>Jitter\<close> computes in \<open>float64\<close> as the code does.
\<close>

section \<open>Context\<close>

datatype effect =
    Recorded recorder_call
  | Counted string int account_id string
  | TempUnscheduled account_id UpstreamFailoverError

record ctx =
  cx_state :: state
  cx_capability :: "capabilityRequest option"
  cx_effects :: "effect list"

record readings =
  rd_canceled :: bool
  rd_charge_now :: gotime
  rd_charge_canceled :: bool
  rd_retry_now :: gotime
  rd_clamp_now :: gotime
  rd_delay_now :: gotime
  rd_jitter :: rat
  rd_wait_done :: bool

definition emit :: "effect \<Rightarrow> ctx \<Rightarrow> ctx" where
  "emit ef c = c\<lparr>cx_effects := cx_effects c @ [ef]\<rparr>"

definition set_outcome :: "string \<Rightarrow> ctx \<Rightarrow> ctx" where
  "set_outcome v c = c\<lparr>cx_state := SetRecoveryOutcome v (cx_state c)\<rparr>"

definition requestBudget :: "ctx \<Rightarrow> Budget option" where
  "requestBudget c = st_Budget (cx_state c)"

text \<open>The budget is shared with the state: a call on it writes it back.\<close>

definition put_budget :: "Budget option \<Rightarrow> ctx \<Rightarrow> ctx" where
  "put_budget b c = c\<lparr>cx_state := SetBudget b (cx_state c)\<rparr>"

definition on_budget :: "(Budget option \<Rightarrow> bool \<times> Budget option) \<Rightarrow> ctx \<Rightarrow> bool \<times> ctx" where
  "on_budget f c = (case f (requestBudget c) of (ok, b) \<Rightarrow> (ok, put_budget b c))"

fun Exhaustion_text :: "Exhaustion \<Rightarrow> string" where
  "Exhaustion_text NotExhausted = []"
| "Exhaustion_text ExhaustedAttempts = ''attempts''"
| "Exhaustion_text ExhaustedDeadline = ''deadline''"
| "Exhaustion_text ExhaustedCanceled = ''canceled''"

definition count_exhausted :: "account_id \<Rightarrow> ctx \<Rightarrow> ctx" where
  "count_exhausted a c =
     emit (Counted ''budget_exhausted'' (st_GroupID (cx_state c)) a (Exhaustion_text (Exhausted (requestBudget c)))) c"

section \<open>Reporting a failed attempt\<close>

definition resilienceReportAttemptFailure :: "'r failover_env \<Rightarrow> account_id \<Rightarrow> failure \<Rightarrow> ctx \<Rightarrow> ctx" where
  "resilienceReportAttemptFailure V a e c = (case (cx_state c, e) of
       (Some _, Some r) \<Rightarrow>
         if fe_Reason r = PlannedFirstOutputTimeoutReason \<or> StreamFailureReported a (cx_state c) then c
         else (case SessionFailure False a (rCategory (ClassifyFailoverError V e)) (cx_state c) of
             None \<Rightarrow> c
           | Some call \<Rightarrow> emit (Recorded call) c)
     | _ \<Rightarrow> c)"

definition resilienceContentRejected :: "'r failover_env \<Rightarrow> failure \<Rightarrow> bool" where
  "resilienceContentRejected V e =
     (e \<noteq> None \<and> FailureOn (fo_current V) \<and> ContentPolicy (ClassifyFailoverError V e))"

definition resilienceStateRejected :: "'r failover_env \<Rightarrow> failure \<Rightarrow> bool" where
  "resilienceStateRejected V e = (e \<noteq> None \<and> rStateFamily (ClassifyFailoverError V e) \<noteq> StateNone)"

text \<open>An OpenAI state repair: the request goes on only with its one reserved switch.\<close>

definition state_repair_failed ::
  "readings \<Rightarrow> account_id \<Rightarrow> UpstreamFailoverError \<Rightarrow> ctx \<Rightarrow> bool \<times> UpstreamFailoverError \<times> ctx" where
  "state_repair_failed rd a r c =
     (if requestBudget c \<noteq> None then
        (let c = put_budget (snd (RecordAttemptAt (rd_charge_now rd) (requestBudget c))) c;
             (ok, c) = on_budget (CanAttempt (rd_charge_canceled rd) (rd_charge_now rd)) c
         in if \<not> ok then (True, r\<lparr>M3Cause := ''budget''\<rparr>, count_exhausted a (set_outcome ''budget_exhausted'' c))
            else let (granted, c) = on_budget AllowStateSwitch c
              in if \<not> granted then (True, r\<lparr>M3Cause := ''switch_exhausted''\<rparr>, c) else (False, r, c))
      else if cx_state c = None then (True, r\<lparr>M3Cause := ''switch_exhausted''\<rparr>, c)
      else let (granted, s) = st_AllowStateSwitch (cx_state c); c = c\<lparr>cx_state := s\<rparr>
        in if \<not> granted then (True, r\<lparr>M3Cause := ''switch_exhausted''\<rparr>, c) else (False, r, c))"

text \<open>The charge of an attempt that was no terminal rejection.\<close>

definition charge_attempt :: "readings \<Rightarrow> account_id \<Rightarrow> ctx \<Rightarrow> bool \<times> ctx" where
  "charge_attempt rd a c =
     (if requestBudget c = None then (False, c)
      else let (ended, c) = on_budget (charge_failed_attempt (rd_charge_canceled rd) (rd_charge_now rd)) c
        in if \<not> ended then (False, c) else (True, count_exhausted a (set_outcome ''budget_exhausted'' c)))"

definition resilienceAttemptFailed ::
  "'r failover_env \<Rightarrow> readings \<Rightarrow> account_id \<Rightarrow> failure \<Rightarrow> ctx \<Rightarrow> bool \<times> failure \<times> ctx" where
  "resilienceAttemptFailed V rd a e c =
     (if e \<noteq> None \<and> fe_Reason (the e) = OpenAIStateRepairReason then
        (case state_repair_failed rd a (the e) c of (ended, r, c) \<Rightarrow> (ended, Some r, c))
      else
        let c = (if e \<noteq> None
                 then c\<lparr>cx_capability := NoteCapabilityAttempt (IsCapabilityStreamOnly e) (cx_capability c)\<rparr> else c);
            c = (if \<not> IsCapabilityStreamOnly e then resilienceReportAttemptFailure V a e c else c)
        in if resilienceStateRejected V e \<or> resilienceContentRejected V e
           then (True, e, set_outcome ''terminal_rejection'' c)
           else (case charge_attempt rd a c of (ended, c) \<Rightarrow> (ended, e, c)))"

section \<open>Retrying the same account\<close>

definition maxSameAccountRetries :: int where "maxSameAccountRetries = 3"
definition sameAccountRetryDelay :: duration where "sameAccountRetryDelay = 500 * millisecond"
definition maxRequestScopedRetryDelay :: duration where "maxRequestScopedRetryDelay = 8 * second"
definition singleAccountBackoffDelay :: duration where "singleAccountBackoffDelay = 2 * second"
definition maxProfitVetoAttempts :: int where "maxProfitVetoAttempts = 10"
definition resilienceSlowAttempt :: duration where "resilienceSlowAttempt = 60 * second"

text \<open>The doubling loop, with \<open>n\<close> rounds left.\<close>

fun double_delay :: "nat \<Rightarrow> duration \<Rightarrow> duration" where
  "double_delay 0 delay = delay"
| "double_delay (Suc n) delay =
     (if go_div maxRequestScopedRetryDelay 2 \<le> delay then maxRequestScopedRetryDelay
      else double_delay n (delay * 2))"

definition sameAccountRetryDelayFor :: "failure \<Rightarrow> int \<Rightarrow> duration" where
  "sameAccountRetryDelayFor e retryCount = (case e of
       None \<Rightarrow> sameAccountRetryDelay
     | Some r \<Rightarrow>
         if 0 < SameAccountRetryDelay r then SameAccountRetryDelay r
         else if \<not> RequestScopedTransient r \<or> retryCount \<le> 1 then sameAccountRetryDelay
         else double_delay (nat (retryCount - 1)) sameAccountRetryDelay)"

definition sameAccountRetryDeadlineAllows :: "failure \<Rightarrow> gotime \<Rightarrow> bool" where
  "sameAccountRetryDeadlineAllows e now = (case e of
       None \<Rightarrow> True
     | Some r \<Rightarrow> IsZero (SameAccountRetryDeadline r) \<or> time_Before now (SameAccountRetryDeadline r))"

definition sameAccountRetryAllowed :: "failure \<Rightarrow> int \<Rightarrow> int \<Rightarrow> gotime \<Rightarrow> bool" where
  "sameAccountRetryAllowed e retryCount retryLimit now = (case e of
       None \<Rightarrow> False
     | Some r \<Rightarrow>
         if \<not> RetryableOnSameAccount r then False
         else if \<not> sameAccountRetryDeadlineAllows e now then False
         else if 0 < SameAccountRetryMax r then
           (if retryLimit \<le> 0 then False
            else retryCount < (if SameAccountRetryMax r < retryLimit then SameAccountRetryMax r else retryLimit))
         else if \<not> IsZero (SameAccountRetryDeadline r) then True
         else 0 < retryLimit \<and> retryCount < retryLimit)"

text \<open>The account's retry setting is the argument \<open>poolLimit\<close>, \<open>None\<close> for a nil account.\<close>

definition effectiveSameAccountRetryLimit :: "failure \<Rightarrow> int option \<Rightarrow> int" where
  "effectiveSameAccountRetryLimit e poolLimit = (case poolLimit of
       None \<Rightarrow> 0
     | Some limit \<Rightarrow> (case e of
           None \<Rightarrow> limit
         | Some r \<Rightarrow> if 0 < limit \<and> 0 < SameAccountRetryMax r \<and> SameAccountRetryMax r < limit
             then SameAccountRetryMax r else limit))"

definition resilienceAccountLevelFailure :: "'r failover_env \<Rightarrow> failure \<Rightarrow> duration \<Rightarrow> bool" where
  "resilienceAccountLevelFailure V e attempt = (case e of
       None \<Rightarrow> True
     | Some r \<Rightarrow>
         if fe_StatusCode r = 504 \<or> fe_StatusCode r = 524 then True
         else if resilienceSlowAttempt \<le> attempt then True
         else let res = ClassifyFailoverError V e in rCategory res = CategoryModelUnsupported \<or> Hard res)"

definition hard_categories :: "Category list" where
  "hard_categories = [CategoryBalance, CategoryAuth, CategoryModelUnsupported]"

definition sameAccountRetryAllowedCtx ::
  "'r failover_env \<Rightarrow> readings \<Rightarrow> account_id \<Rightarrow> failure \<Rightarrow> int \<Rightarrow> int \<Rightarrow> ctx \<Rightarrow> bool \<times> ctx" where
  "sameAccountRetryAllowedCtx V rd a e retryCount retryLimit c =
     (if \<not> sameAccountRetryAllowed e retryCount retryLimit (rd_retry_now rd) then (False, c)
      else if FailureOn (fo_current V) \<and> rCategory (ClassifyFailoverError V e) \<in> set hard_categories then (False, c)
      else let b = requestBudget c in
        if b = None then (True, c)
        else if resilienceAccountLevelFailure V e (LastAttemptDuration b) then (False, c)
        else let wait = SameAccountRetryDelay (the e) in
          if 0 < wait \<and> ((0 < RetryAfterCap b \<and> RetryAfterCap b < wait) \<or> ClampWait wait (rd_clamp_now rd) b < wait)
          then (False, c)
          else on_budget (AllowSameAccountRetry a) c)"

text \<open>\<open>resilience.Jitter\<close> with the random draw in [0, 1); ratio and draw are doubles.\<close>

definition Jitter :: "rat \<Rightarrow> duration \<Rightarrow> rat \<Rightarrow> duration" where
  "Jitter draw d ratio =
     (if d \<le> 0 \<or> ratio \<le> 0 then d
      else let f = f64_rat (f64_rat (1 - ratio) + f64_mul (f64_mul draw 2) ratio)
        in to_int64 (Fin (f64_mul (f64_of_int d) f)))"

text \<open>The double nearest to 0.2.\<close>

definition resilienceBackoffJitter :: rat where
  "resilienceBackoffJitter = 3602879701896397 / 18014398509481984"

definition resilienceRetryDelay :: "readings \<Rightarrow> ctx \<Rightarrow> duration \<Rightarrow> duration" where
  "resilienceRetryDelay rd c d =
     (let b = requestBudget c
      in if b = None \<or> d \<le> 0 then d
         else ClampWait (Jitter (rd_jitter rd) d resilienceBackoffJitter) (rd_delay_now rd) b)"

text \<open>A wait, which does not complete when the context ends before the timer.\<close>

definition sleepWithContext :: "bool \<Rightarrow> duration \<Rightarrow> bool" where
  "sleepWithContext wait_done d = (d \<le> 0 \<or> wait_done)"

section \<open>Switching the account\<close>

text \<open>
  \<open>hosts\<close> is the gateway service's \<open>ResilienceSameHostAccountIDs\<close>, \<open>None\<close> when the service does not
  implement it.
\<close>

type_synonym host_sharer = "(account_id \<Rightarrow> account_id list) option"

definition exclude_host :: "host_sharer \<Rightarrow> account_id \<Rightarrow> account_id set \<Rightarrow> account_id set" where
  "exclude_host hosts a excluded = (case hosts of None \<Rightarrow> excluded | Some ids \<Rightarrow> excluded \<union> set (ids a))"

definition resilienceBeforeSwitch ::
  "'r failover_env \<Rightarrow> host_sharer \<Rightarrow> account_id \<Rightarrow> failure \<Rightarrow> account_id set \<Rightarrow> ctx \<Rightarrow> bool \<times> account_id set \<times> ctx" where
  "resilienceBeforeSwitch V hosts a e excluded c =
     (if e \<noteq> None \<and> fe_Reason (the e) = OpenAIStreamForbiddenReason then
        (if UpstreamPlatform (the e) \<noteq> PlatformOpenAI \<or> UpstreamAccountType (the e) \<noteq> AccountTypeAPIKey
         then (False, excluded, c)
         else (False, exclude_host hosts a excluded, c))
      else if requestBudget c = None \<or> e = None \<or> rCategory (ClassifyFailoverError V e) \<noteq> CategoryCapacityShed
        then (False, excluded, c)
      else let (ok, c) = on_budget AllowCapacitySwitch c
        in if \<not> ok then (True, excluded, c) else (False, exclude_host hosts a excluded, c))"

section \<open>The loop's state\<close>

datatype FailoverAction = FailoverContinue | FailoverExhausted | FailoverCanceled

record FailoverState =
  SwitchCount :: int
  MaxSwitches :: int
  FailedAccountIDs :: "account_id set"
  SameAccountRetryCount :: "account_id \<Rightarrow> int"
  LastFailoverErr :: failure
  ForceCacheBilling :: bool
  hasBoundSession :: bool
  profitVetoedAccountIDs :: "account_id set"
  profitVetoCount :: int

definition NewFailoverState :: "int \<Rightarrow> bool \<Rightarrow> FailoverState" where
  "NewFailoverState maxSwitches bound =
     \<lparr>SwitchCount = 0, MaxSwitches = maxSwitches, FailedAccountIDs = {}, SameAccountRetryCount = (\<lambda>_. 0),
      LastFailoverErr = None, ForceCacheBilling = False, hasBoundSession = bound, profitVetoedAccountIDs = {},
      profitVetoCount = 0\<rparr>"

definition RecordProfitVeto :: "account_id \<Rightarrow> FailoverState \<Rightarrow> FailoverAction \<times> FailoverState" where
  "RecordProfitVeto a s =
     (let s = s\<lparr>FailedAccountIDs := insert a (FailedAccountIDs s)\<rparr>;
          s = s\<lparr>profitVetoedAccountIDs := insert a (profitVetoedAccountIDs s)\<rparr>;
          s = s\<lparr>profitVetoCount := profitVetoCount s + 1\<rparr>
      in (if maxProfitVetoAttempts \<le> profitVetoCount s then FailoverExhausted else FailoverContinue, s))"

definition allExclusionsAreProfitVetoed :: "FailoverState \<Rightarrow> bool" where
  "allExclusionsAreProfitVetoed s =
     (if profitVetoedAccountIDs s = {} \<or> FailedAccountIDs s = {} then False
      else FailedAccountIDs s \<subseteq> profitVetoedAccountIDs s)"

definition needForceCacheBilling :: "bool \<Rightarrow> failure \<Rightarrow> bool \<Rightarrow> bool" where
  "needForceCacheBilling bound e sameAccountRetry =
     ((bound \<and> \<not> sameAccountRetry) \<or> (case e of None \<Rightarrow> False | Some r \<Rightarrow> fe_ForceCacheBilling r))"

end
