(* ===== verification/Failover_Handle.thy ===== *)
theory Failover_Handle
  imports Failover_Loop
begin

text \<open>
  The decisions of the failover loop: \<open>HandleFailoverError\<close> after a failed attempt,
  \<open>HandleSelectionExhausted\<close> after a selection that found no account, and the outcome recorded for
  the request (\<open>handler/failover_loop.go\<close>, \<open>handler/resilience_budget.go\<close>,
  \<open>handler/resilience_recovery_outcome.go\<close>). The request and the gin context are not nil.
\<close>

section \<open>A failed attempt\<close>

text \<open>The retry of the same account: one more retry counted, and a wait.\<close>

definition retry_same :: "readings \<Rightarrow> account_id \<Rightarrow> failure \<Rightarrow> FailoverState \<Rightarrow> ctx \<Rightarrow> FailoverAction \<times> FailoverState \<times> ctx" where
  "retry_same rd a e s c =
     (let s = s\<lparr>SameAccountRetryCount := (SameAccountRetryCount s)(a := SameAccountRetryCount s a + 1)\<rparr>;
          retryDelay = resilienceRetryDelay rd c (sameAccountRetryDelayFor e (SameAccountRetryCount s a))
      in (if sleepWithContext (rd_wait_done rd) retryDelay then FailoverContinue else FailoverCanceled, s, c))"

text \<open>The switch to another account, once no retry of this one is allowed.\<close>

definition switch_account ::
  "'r failover_env \<Rightarrow> readings \<Rightarrow> host_sharer \<Rightarrow> account_id \<Rightarrow> string \<Rightarrow> failure \<Rightarrow> FailoverState \<Rightarrow> ctx
     \<Rightarrow> FailoverAction \<times> FailoverState \<times> ctx" where
  "switch_account V rd hosts a platform e s c =
     (let c = (if RetryableOnSameAccount (the e) then emit (TempUnscheduled a (the e)) c else c);
          s = s\<lparr>FailedAccountIDs := insert a (FailedAccountIDs s)\<rparr>
      in if MaxSwitches s \<le> SwitchCount s then (FailoverExhausted, s, c)
         else (case resilienceBeforeSwitch V hosts a e (FailedAccountIDs s) c of (ended, excluded, c) \<Rightarrow>
           let s = s\<lparr>FailedAccountIDs := excluded\<rparr>
           in if ended then (FailoverExhausted, s, c)
              else
                let s = s\<lparr>SwitchCount := SwitchCount s + 1\<rparr>
                in if platform = PlatformAntigravity \<and>
                      \<not> sleepWithContext (rd_wait_done rd) (wrap64 ((SwitchCount s - 1) * second))
                   then (FailoverCanceled, s, c)
                   else (FailoverContinue, s, c)))"

definition HandleFailoverError ::
  "'r failover_env \<Rightarrow> readings \<Rightarrow> host_sharer \<Rightarrow> account_id \<Rightarrow> string \<Rightarrow> int \<Rightarrow> failure \<Rightarrow> FailoverState \<Rightarrow> ctx
     \<Rightarrow> FailoverAction \<times> FailoverState \<times> ctx" where
  "HandleFailoverError V rd hosts a platform retryLimit e s c =
     (if rd_canceled rd then (FailoverCanceled, s, c)
      else
        let s = s\<lparr>LastFailoverErr := e\<rparr>
        in if \<not> ShouldRetryNextAccount e then (FailoverExhausted, s, c)
           else (case resilienceAttemptFailed V rd a e c of (ended, e, c) \<Rightarrow>
             let s = s\<lparr>LastFailoverErr := e\<rparr>
             in if ended then (FailoverExhausted, s, c)
                else (case sameAccountRetryAllowedCtx V rd a e (SameAccountRetryCount s a) retryLimit c of
                  (sameAccountRetry, c) \<Rightarrow>
                    let s = (if needForceCacheBilling (hasBoundSession s) e sameAccountRetry
                             then s\<lparr>ForceCacheBilling := True\<rparr> else s)
                    in if sameAccountRetry then retry_same rd a e s c
                       else switch_account V rd hosts a platform e s c)))"

section \<open>An exhausted selection\<close>

text \<open>
  The readings: whether the request's context and the budget's context have ended and the clock, for
  the recorded outcome and then for the decision, and whether the back-off ran to its end.
\<close>

record exhausted_readings =
  er_note_canceled :: bool
  er_note_ended :: bool
  er_note_now :: gotime
  er_canceled :: bool
  er_ended :: bool
  er_now :: gotime
  er_wait_done :: bool

definition recordSelectionExhausted :: "exhausted_readings \<Rightarrow> ctx \<Rightarrow> ctx" where
  "recordSelectionExhausted er c =
     (if er_note_canceled er then set_outcome ''client_cancel'' c
      else if requestBudget c = None then set_outcome ''selection_exhausted'' c
      else let (ok, c) = on_budget (CanAttempt (er_note_ended er) (er_note_now er)) c
        in set_outcome (if \<not> ok then ''budget_exhausted'' else ''selection_exhausted'') c)"

text \<open>The budget's part: whether the request ends.\<close>

definition selection_budget_ended :: "'r failover_env \<Rightarrow> exhausted_readings \<Rightarrow> failure \<Rightarrow> ctx \<Rightarrow> bool \<times> ctx" where
  "selection_budget_ended V er e c =
     (if requestBudget c = None then (False, c)
      else let (ok, c) = on_budget (CanAttempt (er_ended er) (er_now er)) c
        in if \<not> ok then (True, c)
           else (CapacitySwitchUsed (requestBudget c) \<and> e \<noteq> None \<and>
                 rCategory (ClassifyFailoverError V e) = CategoryCapacityShed, c))"

text \<open>After the back-off only the profit-vetoed accounts stay excluded.\<close>

definition clear_exclusions :: "FailoverState \<Rightarrow> FailoverState" where
  "clear_exclusions s = s\<lparr>FailedAccountIDs := profitVetoedAccountIDs s\<rparr>"

definition HandleSelectionExhausted ::
  "'r failover_env \<Rightarrow> exhausted_readings \<Rightarrow> FailoverState \<Rightarrow> ctx \<Rightarrow> FailoverAction \<times> FailoverState \<times> ctx" where
  "HandleSelectionExhausted V er s c =
     (let c = recordSelectionExhausted er c; e = LastFailoverErr s
      in if er_canceled er then (FailoverCanceled, s, c)
         else if e \<noteq> None \<and> rCategory (ClassifyFailoverError V e) \<in> set hard_categories then (FailoverExhausted, s, c)
         else (case selection_budget_ended V er e c of (ended, c) \<Rightarrow>
           if ended then (FailoverExhausted, s, c)
           else if e \<noteq> None \<and> fe_StatusCode (the e) = 503 \<and> SwitchCount s \<le> MaxSwitches s then
             (if allExclusionsAreProfitVetoed s then (FailoverExhausted, s, c)
              else if \<not> sleepWithContext (er_wait_done er) singleAccountBackoffDelay then (FailoverCanceled, s, c)
              else (FailoverContinue, clear_exclusions s, c))
           else (FailoverExhausted, s, c)))"

section \<open>The recorded outcome\<close>

text \<open>
  The error of a forward: nil, or what \<open>errors.As\<close> finds in it: a request rejection, and an upstream
  failure (which may be a nil pointer).
\<close>

datatype forward_error = NoError | ForwardError (is_rejection: bool) (upstream: failure)

definition terminal_failure :: "'r failover_env \<Rightarrow> failure \<Rightarrow> bool" where
  "terminal_failure V e =
     (e \<noteq> None \<and> (\<not> ShouldRetryNextAccount e \<or> resilienceContentRejected V e \<or> resilienceStateRejected V e))"

definition recordForwardRecovery :: "'r failover_env \<Rightarrow> bool \<Rightarrow> forward_error \<Rightarrow> bool \<Rightarrow> bool \<Rightarrow> ctx \<Rightarrow> ctx" where
  "recordForwardRecovery V ctx_canceled err disconnected completed c =
     set_outcome
       (if disconnected \<or> ctx_canceled then ''client_cancel''
        else (case err of
            NoError \<Rightarrow> if completed then ''completed'' else ''upstream_failure''
          | ForwardError rejected e \<Rightarrow>
              if rejected \<or> terminal_failure V e then ''terminal_rejection'' else ''upstream_failure'')) c"

definition recoveryOutcome :: "surroundings \<Rightarrow> state \<Rightarrow> string option" where
  "recoveryOutcome w s =
     (let outcome = RecoveryOutcome s
      in if ClientGone w s \<or> outcome = Some ''client_cancel'' then Some ''client_cancel''
         else if outcome \<noteq> None \<and> outcome \<noteq> Some ''completed'' \<and> EndToEndFirstOutputMs s \<noteq> None
           then Some ''post_output_failure''
         else outcome)"

text \<open>\<open>canceled\<close> and \<open>canceled_later\<close> are the two readings of the context's end.\<close>

definition recordExhaustedRecovery :: "'r failover_env \<Rightarrow> bool \<Rightarrow> bool \<Rightarrow> failure \<Rightarrow> ctx \<Rightarrow> ctx" where
  "recordExhaustedRecovery V canceled canceled_later e c =
     (let c = (if RecoveryOutcome (cx_state c) = None
               then recordForwardRecovery V canceled (ForwardError False e) False False c else c)
      in if canceled_later then set_outcome ''client_cancel'' c
         else if resilienceContentRejected V e \<or> resilienceStateRejected V e \<or> (e \<noteq> None \<and> \<not> ShouldRetryNextAccount e)
           then set_outcome ''terminal_rejection'' c
         else if requestBudget c \<noteq> None \<and> Exhausted (requestBudget c) \<noteq> NotExhausted
           then set_outcome ''budget_exhausted'' c
         else c)"

section \<open>The answer to the client\<close>

text \<open>The response headers and the gin key that \<open>resilienceCapacityExhausted\<close> may change.\<close>

record reply =
  rp_header :: "(string \<times> string) list"
  rp_retry_after :: "int option"

definition CapabilityOnlyMessage :: string where
  "CapabilityOnlyMessage =
     ''No available account in this group supports non-streaming requests; retry with '' @
     [CHR 0x22] @ ''stream'' @ [CHR 0x22] @ '': true''"

definition suppress_retry :: "reply \<Rightarrow> reply" where
  "suppress_retry r =
     r\<lparr>rp_header := AList.update ''x-should-retry'' ''false'' (AList.delete ''Retry-After'' (rp_header r)),
       rp_retry_after := Some 0\<rparr>"

definition resilienceCapacityExhausted ::
  "'r failover_env \<Rightarrow> failure \<Rightarrow> int \<times> string \<times> string \<Rightarrow> reply \<Rightarrow> ctx \<Rightarrow> (int \<times> string \<times> string) \<times> reply \<times> ctx" where
  "resilienceCapacityExhausted V e answer rp c =
     (if IsCapabilityStreamOnly e then
        (if IsCapabilityOnlyExhaustion (cx_capability c) e then
           ((503, ''api_error'', CapabilityOnlyMessage), suppress_retry rp,
            c\<lparr>cx_state := snd (SetRetryAdvice
                \<lparr>Seconds = 0, ra_Source = ReasonCapabilityStreamOnly, Suppress = True\<rparr> (cx_state c))\<rparr>)
         else ((503, ''api_error'', ''No available account supports this non-streaming request''), rp, c))
      else if e = None \<or> fst answer = 503 \<or> requestBudget c = None \<or>
              rCategory (ClassifyFailoverError V e) \<noteq> CategoryCapacityShed
        then (answer, rp, c)
      else ((503, ''api_error'', ''Service temporarily unavailable''), rp, c))"

definition resilienceSlotWaitTimeout :: "ctx \<Rightarrow> gotime \<Rightarrow> duration \<Rightarrow> duration" where
  "resilienceSlotWaitTimeout c now timeout =
     (let rem = Remaining now (requestBudget c) in if 0 < rem \<and> rem < timeout then rem else timeout)"

end
