(* ===== verification/Failover_Run.thy ===== *)
theory Failover_Run
  imports Failover_Handle
begin

text \<open>
  The selection and forward loop of the chat-completions handler
  (\<open>handler/gateway_handler_chat_completions.go\<close>): one iteration as a function of what it meets
  outside (the selection, the slot, the admission, the forward), and the runs of the loop.

  The gateway services are parameters: what they return in an iteration is its input. The result is
  the answer that ends the request, or none when the code continues with the next iteration.
\<close>

section \<open>One iteration\<close>

record 'r cc_config =
  cc_env :: "'r failover_env"
  cc_hosts :: host_sharer
  groupPlatform :: string

text \<open>
  A retry or repair that a gateway service makes in place, on the same account and inside its forward:
  it draws from the request's budget at once (\<open>geminiInPlaceRetryAllowed\<close>, the loop of
  \<open>antigravity_gateway_retry.go\<close>, \<open>resilienceInServiceRetryAllowed\<close> and the repairs of the OpenAI
  services). Recorded is what the call of \<open>ConsumeInPlaceRetry\<close> is made with and sees.
\<close>

record in_place =
  ip_canceled :: bool
  ip_account :: account_id
  ip_same :: bool
  ip_now :: gotime
  ip_reason :: "string list"

definition charge_in_place :: "in_place \<Rightarrow> ctx \<Rightarrow> bool \<times> ctx" where
  "charge_in_place p =
     on_budget (ConsumeInPlaceRetry (ip_canceled p) (ip_account p) (ip_same p) (ip_now p) (ip_reason p))"

fun in_place_charges :: "in_place list \<Rightarrow> ctx \<Rightarrow> ctx" where
  "in_place_charges [] c = c"
| "in_place_charges (p # ps) c = in_place_charges ps (snd (charge_in_place p c))"

text \<open>
  A forward: the charges it made, its error, its result (nil, or whether the client disconnected),
  whether the context had ended, whether bytes were written, whether the error is a cancellation, and
  the readings of the failover decision.
\<close>

record forward_result =
  fr_in_place :: "in_place list"
  fr_error :: forward_error
  fr_result :: "bool option"
  fr_ctx_canceled :: bool
  fr_written :: bool
  fr_gone_error :: bool
  fr_readings :: readings

datatype forward = NotConfigured | Forwarded forward_result

text \<open>The admission check: a veto, or the latest account with its platform and retry setting.\<close>

datatype admission = Vetoed | Admitted string int forward

datatype slot = SlotUnavailable | SlotError | SlotHeld admission

datatype selection = SelectFailed bool exhausted_readings | Selected account_id slot

record cc_input =
  in_gone :: bool
  in_selection :: selection

datatype verdict =
    ClientLeft | NoAccounts | FailoverReply failure | AllExhausted | SlotBusy | SlotFailed | VetoLimit
  | Unconfigured | ForwardFailed | Served

type_synonym loop = "FailoverState \<times> ctx"

definition after_action :: "failure \<Rightarrow> FailoverAction \<Rightarrow> verdict option" where
  "after_action e action = (case action of
       FailoverContinue \<Rightarrow> None
     | FailoverExhausted \<Rightarrow> Some (FailoverReply e)
     | FailoverCanceled \<Rightarrow> Some ClientLeft)"

definition select_failed :: "'r cc_config \<Rightarrow> bool \<Rightarrow> exhausted_readings \<Rightarrow> loop \<Rightarrow> verdict option \<times> loop" where
  "select_failed C gone er l = (case l of (s, c) \<Rightarrow>
     if gone then (Some ClientLeft, (s, recordSelectionExhausted er c))
     else if FailedAccountIDs s = {} then (Some NoAccounts, (s, recordSelectionExhausted er c))
     else (case HandleSelectionExhausted (cc_env C) er s c of (action, s, c) \<Rightarrow>
       (case action of
          FailoverContinue \<Rightarrow> None
        | FailoverCanceled \<Rightarrow> Some ClientLeft
        | FailoverExhausted \<Rightarrow> Some (if LastFailoverErr s \<noteq> None then FailoverReply (LastFailoverErr s) else AllExhausted),
        (s, c))))"

definition forward_done ::
  "'r cc_config \<Rightarrow> account_id \<Rightarrow> string \<Rightarrow> int \<Rightarrow> forward_result \<Rightarrow> loop \<Rightarrow> verdict option \<times> loop" where
  "forward_done C a platform retryLimit fr l = (case l of (s, c) \<Rightarrow>
     let c = recordForwardRecovery (cc_env C) (fr_ctx_canceled fr) (fr_error fr) (fr_result fr = Some True)
               (fr_result fr \<noteq> None) (in_place_charges (fr_in_place fr) c)
     in case fr_error fr of
          NoError \<Rightarrow> (Some Served, (s, c))
        | ForwardError rejected (Some e) \<Rightarrow>
            if fr_written fr then (Some (FailoverReply (Some e)), (s, c))
            else (case HandleFailoverError (cc_env C) (fr_readings fr) (cc_hosts C) a platform retryLimit (Some e) s c of
              (action, s, c) \<Rightarrow> (after_action (LastFailoverErr s) action, (s, c)))
        | ForwardError rejected None \<Rightarrow>
            (Some (if fr_result fr \<noteq> None then Served
                   else if fr_gone_error fr then ClientLeft else ForwardFailed), (s, c)))"

definition admitted :: "'r cc_config \<Rightarrow> account_id \<Rightarrow> string \<Rightarrow> int \<Rightarrow> forward \<Rightarrow> loop \<Rightarrow> verdict option \<times> loop" where
  "admitted C a platform retryLimit fwd l = (case l of (s, c) \<Rightarrow>
     if groupPlatform C = PlatformGemini \<and> platform \<noteq> PlatformGemini
     then (None, (s\<lparr>FailedAccountIDs := insert a (FailedAccountIDs s)\<rparr>, c))
     else (case fwd of
         NotConfigured \<Rightarrow> (Some Unconfigured, (s, c))
       | Forwarded fr \<Rightarrow> forward_done C a platform retryLimit fr (s, c)))"

definition selected :: "'r cc_config \<Rightarrow> account_id \<Rightarrow> slot \<Rightarrow> loop \<Rightarrow> verdict option \<times> loop" where
  "selected C a sl l = (case l of (s, c) \<Rightarrow> case sl of
       SlotUnavailable \<Rightarrow> (Some SlotBusy, (s, c))
     | SlotError \<Rightarrow> (Some SlotFailed, (s, c))
     | SlotHeld Vetoed \<Rightarrow> (case RecordProfitVeto a s of (action, s) \<Rightarrow>
         (if action = FailoverExhausted then Some VetoLimit else None, (s, c)))
     | SlotHeld (Admitted platform retryLimit fwd) \<Rightarrow> admitted C a platform retryLimit fwd (s, c))"

definition iteration :: "'r cc_config \<Rightarrow> cc_input \<Rightarrow> loop \<Rightarrow> verdict option \<times> loop" where
  "iteration C i l =
     (if in_gone i then (Some ClientLeft, l)
      else (case in_selection i of
          SelectFailed gone er \<Rightarrow> select_failed C gone er l
        | Selected a sl \<Rightarrow> selected C a sl l))"

section \<open>Runs\<close>

text \<open>
  The iterations so far, all of which went on to the next one. \<open>ok\<close> restricts the inputs, such as
  by the contract of the account selection.
\<close>

inductive run :: "(cc_input \<Rightarrow> loop \<Rightarrow> bool) \<Rightarrow> 'r cc_config \<Rightarrow> loop \<Rightarrow> cc_input list \<Rightarrow> loop \<Rightarrow> bool" for ok C l where
  run_start: "run ok C l [] l"
| run_step: "run ok C l xs l' \<Longrightarrow> ok i l' \<Longrightarrow> iteration C i l' = (None, l'') \<Longrightarrow> run ok C l (xs @ [i]) l''"

text \<open>The selection never returns an account that the loop has excluded.\<close>

definition fresh :: "cc_input \<Rightarrow> loop \<Rightarrow> bool" where
  "fresh i l = (case in_selection i of
       SelectFailed gone er \<Rightarrow> True
     | Selected a sl \<Rightarrow> a \<notin> FailedAccountIDs (fst l))"

text \<open>The loop with its first answer: \<open>None\<close> while it is still going.\<close>

fun serve :: "'r cc_config \<Rightarrow> cc_input list \<Rightarrow> loop \<Rightarrow> verdict option \<times> loop" where
  "serve C [] l = (None, l)"
| "serve C (i # xs) l = (case iteration C i l of (Some v, l) \<Rightarrow> (Some v, l) | (None, l) \<Rightarrow> serve C xs l)"

definition cc_state :: "'r cc_config \<Rightarrow> int \<Rightarrow> int \<Rightarrow> FailoverState" where
  "cc_state C maxAccountSwitches maxAccountSwitchesGemini =
     (if groupPlatform C = PlatformGemini then NewFailoverState maxAccountSwitchesGemini False
      else NewFailoverState maxAccountSwitches False)"

end
