(* ===== verification/Failover_Props.thy ===== *)
theory Failover_Props
  imports Failover_Run
begin

text \<open>
  Properties of the failover loop: what an iteration that goes on may change, as moves of a small
  abstract machine; the bounds on switches, retries, vetoes and attempts that follow; that the loop
  ends between two back-offs; and the back-off that can repeat without an attempt.
\<close>

section \<open>The budget in the context\<close>

lemma requestBudget_simps [simp]:
  "requestBudget (emit ef c) = requestBudget c"
  "requestBudget (set_outcome v c) = requestBudget c"
  "requestBudget (c\<lparr>cx_capability := k\<rparr>) = requestBudget c"
  "requestBudget (count_exhausted a c) = requestBudget c"
  by (cases "cx_state c"; simp add: requestBudget_def emit_def set_outcome_def count_exhausted_def
        SetRecoveryOutcome_def st_Budget_def on_d_def on_def read_def)+

lemma put_budget_simps [simp]:
  "requestBudget c \<noteq> None \<Longrightarrow> requestBudget (put_budget b c) = b"
  "requestBudget c = None \<Longrightarrow> requestBudget (put_budget None c) = None"
  by (cases "cx_state c"; simp add: requestBudget_def put_budget_def st_Budget_def SetBudget_def)+

text \<open>The attempts counted and the limit on them.\<close>

definition spent :: "ctx \<Rightarrow> (nat \<times> int) option" where
  "spent c = map_option (\<lambda>b. (attempts b, maxAttempts b)) (requestBudget c)"

definition spent_of :: "Budget option \<Rightarrow> (nat \<times> int) option" where
  "spent_of b = map_option (\<lambda>b. (attempts b, maxAttempts b)) b"

lemma spent_simps [simp]:
  "spent (emit ef c) = spent c" "spent (set_outcome v c) = spent c"
  "spent (c\<lparr>cx_capability := k\<rparr>) = spent c" "spent (count_exhausted a c) = spent c"
  by (simp_all add: spent_def)

lemma on_budget_proj:
  assumes "\<And>b. map_option g (snd (f b)) = map_option g b" and "on_budget f c = (ok, c')"
  shows "map_option g (requestBudget c') = map_option g (requestBudget c)"
proof (cases "requestBudget c")
  case None
  then have "snd (f None) = None" using assms(1)[of None] by simp
  with None assms(2) show ?thesis by (auto simp: on_budget_def split: prod.splits)
next
  case (Some b)
  with assms(2) assms(1)[of "Some b"] show ?thesis by (auto simp: on_budget_def split: prod.splits)
qed

lemma on_budget_spent:
  assumes "\<And>b. spent_of (snd (f b)) = spent_of b" and "on_budget f c = (ok, c')"
  shows "spent c' = spent c"
  using on_budget_proj [of "\<lambda>b. (attempts b, maxAttempts b)", OF _ assms(2)] assms(1)
  by (simp add: spent_def spent_of_def)

lemma budget_calls_spent:
  "spent_of (snd (CanAttempt canceled now b)) = spent_of b"
  "spent_of (snd (AllowSameAccountRetry a b)) = spent_of b"
  "spent_of (snd (AllowCapacitySwitch b)) = spent_of b"
  "spent_of (snd (AllowStateSwitch b)) = spent_of b"
  by (cases b; simp add: CanAttempt_def AllowSameAccountRetry_def AllowCapacitySwitch_def AllowStateSwitch_def
        spent_of_def)+

lemmas on_budget_keeps = budget_calls_spent [THEN on_budget_spent]

text \<open>The charges that a forward makes in place: those that the budget admits are counted.\<close>

fun in_place_granted :: "in_place list \<Rightarrow> ctx \<Rightarrow> nat" where
  "in_place_granted [] c = 0"
| "in_place_granted (p # ps) c =
     (if fst (charge_in_place p c) then 1 else 0) + in_place_granted ps (snd (charge_in_place p c))"

lemma consume_spent:
  "snd (ConsumeInPlaceRetry canceled a same now reason (Some b)) = Some b' \<Longrightarrow>
    attempts b' = attempts b + (if fst (ConsumeInPlaceRetry canceled a same now reason (Some b)) then 1 else 0) \<and>
    maxAttempts b' = maxAttempts b \<and> deadline b' = deadline b"
  by (auto simp: ConsumeInPlaceRetry_def Let_def split: if_splits)

lemma consume_some: "\<exists>b'. snd (ConsumeInPlaceRetry canceled a same now reason (Some b)) = Some b'"
  by (simp add: ConsumeInPlaceRetry_def Let_def)

text \<open>A charge of a request with a budget: the budget afterwards.\<close>

lemma charge_in_place_budget:
  assumes "requestBudget c = Some b"
  shows "\<exists>b'. requestBudget (snd (charge_in_place p c)) = Some b' \<and>
    attempts b' = attempts b + (if fst (charge_in_place p c) then 1 else 0) \<and> maxAttempts b' = maxAttempts b \<and>
    deadline b' = deadline b"
proof -
  let ?f = "ConsumeInPlaceRetry (ip_canceled p) (ip_account p) (ip_same p) (ip_now p) (ip_reason p)"
  obtain b' where b': "snd (?f (Some b)) = Some b'" using consume_some by blast
  have "fst (charge_in_place p c) = fst (?f (Some b))" "requestBudget (snd (charge_in_place p c)) = Some b'"
    using assms b' by (simp_all add: charge_in_place_def on_budget_def split_beta)
  with consume_spent [OF b'] show ?thesis by simp
qed

lemma charge_in_place_spent:
  "spent c = Some (n, m) \<Longrightarrow> spent (snd (charge_in_place p c)) = Some (n + (if fst (charge_in_place p c) then 1 else 0), m)"
  using charge_in_place_budget [of c _ p] by (auto simp: spent_def)

lemma in_place_spent:
  "spent c = Some (n, m) \<Longrightarrow> spent (in_place_charges ps c) = Some (n + in_place_granted ps c, m)"
proof (induction ps arbitrary: c n)
  case (Cons p ps)
  from Cons.IH [OF charge_in_place_spent [OF Cons.prems, of p]] show ?case by simp
qed simp

section \<open>A failed attempt\<close>

lemma attempt_failed_same_error:
  "resilienceAttemptFailed V rd a e c = (False, e', c') \<Longrightarrow> e' = e"
  by (auto simp: resilienceAttemptFailed_def state_repair_failed_def Let_def split: prod.splits if_splits)

lemma charge_attempt_spent:
  "charge_attempt rd a c = (False, c') \<Longrightarrow> spent c = Some (n, m) \<Longrightarrow> spent c' = Some (n + 1, m) \<and> int (n + 1) < m"
  by (auto simp: charge_attempt_def on_budget_def charge_failed_attempt_def RecordAttemptAt_def CanAttempt_def
        spent_def Let_def split: prod.splits if_splits option.splits)

lemma report_spent [simp]: "spent (resilienceReportAttemptFailure V a e c) = spent c"
  by (simp add: resilienceReportAttemptFailure_def split: option.splits)

lemma state_repair_spent:
  "state_repair_failed rd a r c = (False, r', c') \<Longrightarrow> spent c = Some (n, m) \<Longrightarrow>
     spent c' = Some (n + 1, m) \<and> int (n + 1) < m"
  by (auto simp: state_repair_failed_def on_budget_def RecordAttemptAt_def CanAttempt_def AllowStateSwitch_def
        spent_def Let_def split: prod.splits if_splits option.splits)

lemma attempt_failed_spent:
  assumes "resilienceAttemptFailed V rd a e c = (False, e', c')" and "spent c = Some (n, m)"
  shows "spent c' = Some (n + 1, m) \<and> int (n + 1) < m"
  using assms state_repair_spent [of rd a "the e" c _ c' n m]
  by (auto simp: resilienceAttemptFailed_def Let_def split: prod.splits if_splits
        dest!: charge_attempt_spent [where n = n and m = m])

section \<open>Retry or switch\<close>

lemma same_retry_ctx:
  assumes "sameAccountRetryAllowedCtx V rd a e n limit c = (ok, c')"
  shows "spent c' = spent c \<and> (ok \<longrightarrow> sameAccountRetryAllowed e n limit (rd_retry_now rd))"
  using assms
  by (auto simp: sameAccountRetryAllowedCtx_def Let_def split: if_splits dest: on_budget_keeps(2))

text \<open>A retry is limited unless only a deadline bounds it.\<close>

definition counted_retry :: "failure \<Rightarrow> bool" where
  "counted_retry e = (case e of None \<Rightarrow> True | Some r \<Rightarrow> 0 < SameAccountRetryMax r \<or> IsZero (SameAccountRetryDeadline r))"

lemma retry_allowed_below:
  "sameAccountRetryAllowed e n limit now \<Longrightarrow> counted_retry e \<Longrightarrow> n < limit"
  by (auto simp: sameAccountRetryAllowed_def counted_retry_def split: option.splits if_splits)

lemma before_switch:
  assumes "resilienceBeforeSwitch V hosts a e X c = (ended, X', c')"
  shows "spent c' = spent c" "X \<subseteq> X'" "X' \<subseteq> X \<union> (case hosts of None \<Rightarrow> {} | Some ids \<Rightarrow> set (ids a))"
  using assms
  by (auto simp: resilienceBeforeSwitch_def exclude_host_def split: if_splits prod.splits option.splits
        dest: on_budget_keeps(3))

definition retried :: "account_id \<Rightarrow> FailoverState \<Rightarrow> FailoverState \<Rightarrow> bool" where
  "retried a s s' =
     (SameAccountRetryCount s' = (SameAccountRetryCount s)(a := SameAccountRetryCount s a + 1) \<and>
      SwitchCount s' = SwitchCount s \<and> FailedAccountIDs s' = FailedAccountIDs s)"

definition switched :: "host_sharer \<Rightarrow> account_id \<Rightarrow> FailoverState \<Rightarrow> FailoverState \<Rightarrow> bool" where
  "switched hosts a s s' =
     (SwitchCount s < MaxSwitches s \<and> SwitchCount s' = SwitchCount s + 1 \<and>
      SameAccountRetryCount s' = SameAccountRetryCount s \<and> insert a (FailedAccountIDs s) \<subseteq> FailedAccountIDs s' \<and>
      FailedAccountIDs s' \<subseteq> insert a (FailedAccountIDs s) \<union> (case hosts of None \<Rightarrow> {} | Some ids \<Rightarrow> set (ids a)))"

definition vetoes_kept :: "FailoverState \<Rightarrow> FailoverState \<Rightarrow> bool" where
  "vetoes_kept s s' =
     (profitVetoedAccountIDs s' = profitVetoedAccountIDs s \<and> profitVetoCount s' = profitVetoCount s \<and>
      MaxSwitches s' = MaxSwitches s)"

lemma retry_same_continue:
  "retry_same rd a e s c = (act, s', c') \<Longrightarrow> c' = c \<and> retried a s s' \<and> vetoes_kept s s'"
  by (auto simp: retry_same_def retried_def vetoes_kept_def Let_def)

lemma switch_account_continue:
  assumes "switch_account V rd hosts a platform e s c = (FailoverContinue, s', c')"
  shows "switched hosts a s s' \<and> vetoes_kept s s' \<and> spent c' = spent c"
proof -
  let ?c = "if RetryableOnSameAccount (the e) then emit (TempUnscheduled a (the e)) c else c"
  obtain ended X c1 where b: "resilienceBeforeSwitch V hosts a e (insert a (FailedAccountIDs s)) ?c = (ended, X, c1)"
    by (metis prod_cases3)
  from assms b have less: "SwitchCount s < MaxSwitches s" and "\<not> ended" and
    s': "s' = s\<lparr>FailedAccountIDs := X, SwitchCount := SwitchCount s + 1\<rparr>" and c': "c' = c1"
    by (auto simp: switch_account_def Let_def split: if_splits)
  from before_switch [OF b] less show ?thesis
    by (auto simp: switched_def vetoes_kept_def s' c')
qed

lemma handle_continue:
  assumes "HandleFailoverError V rd hosts a platform limit e s c = (FailoverContinue, s', c')"
  shows "(retried a s s' \<and> sameAccountRetryAllowed e (SameAccountRetryCount s a) limit (rd_retry_now rd)
          \<or> switched hosts a s s') \<and> vetoes_kept s s'"
    and "spent c = Some (n, m) \<Longrightarrow> spent c' = Some (n + 1, m) \<and> int (n + 1) < m"
    and "LastFailoverErr s' = e"
proof -
  obtain ended e1 c1 where f: "resilienceAttemptFailed V rd a e c = (ended, e1, c1)" by (metis prod_cases3)
  with assms have "\<not> ended" by (auto simp: HandleFailoverError_def Let_def split: if_splits)
  with f have e1: "e1 = e" and f: "resilienceAttemptFailed V rd a e c = (False, e, c1)"
    using attempt_failed_same_error by (auto split: if_splits)
  obtain ok c2 where r: "sameAccountRetryAllowedCtx V rd a e (SameAccountRetryCount s a) limit c1 = (ok, c2)" by force
  let ?s = "s\<lparr>LastFailoverErr := e\<rparr>"
  define s1 where "s1 = (if needForceCacheBilling (hasBoundSession s) e ok then ?s\<lparr>ForceCacheBilling := True\<rparr> else ?s)"
  have go: "(if ok then retry_same rd a e s1 c2 else switch_account V rd hosts a platform e s1 c2) = (FailoverContinue, s', c')"
    using assms f r by (auto simp: HandleFailoverError_def Let_def s1_def split: if_splits)
  have s1: "retried a s1 s' = retried a s s'" "switched hosts a s1 s' = switched hosts a s s'"
    "vetoes_kept s1 s' = vetoes_kept s s'" "LastFailoverErr s1 = e"
    by (auto simp: s1_def retried_def switched_def vetoes_kept_def)
  have res: "(if ok then retried a s1 s' \<and> c' = c2 else switched hosts a s1 s' \<and> spent c' = spent c2) \<and> vetoes_kept s1 s'"
    using go retry_same_continue switch_account_continue by (metis (full_types))
  with same_retry_ctx [OF r]
  show "(retried a s s' \<and> sameAccountRetryAllowed e (SameAccountRetryCount s a) limit (rd_retry_now rd)
          \<or> switched hosts a s s') \<and> vetoes_kept s s'"
    by (auto simp: s1 split: if_splits)
  show "spent c' = Some (n + 1, m) \<and> int (n + 1) < m" if "spent c = Some (n, m)"
    using attempt_failed_spent [OF f that] same_retry_ctx [OF r] res by (auto split: if_splits)
  show "LastFailoverErr s' = e"
    using go s1(4) by (auto simp: retry_same_def switch_account_def Let_def split: if_splits prod.splits)
qed

text \<open>What \<open>resilienceAttemptFailed\<close> keeps: whether there is a budget.\<close>

lemma attempt_failed_budget:
  "resilienceAttemptFailed V rd a e c = (False, e', c') \<Longrightarrow> requestBudget c \<noteq> None \<Longrightarrow> requestBudget c' \<noteq> None"
  using attempt_failed_spent [of V rd a e c e' c'] by (auto simp: spent_def)

lemma same_retry_conditions:
  assumes "sameAccountRetryAllowedCtx V rd a e n limit c = (True, c')"
  shows "e \<noteq> None \<and> RetryableOnSameAccount (the e) \<and>
    (FailureOn (fo_current V) \<longrightarrow> rCategory (ClassifyFailoverError V e) \<notin> set hard_categories) \<and>
    (requestBudget c \<noteq> None \<longrightarrow> fe_StatusCode (the e) \<notin> {504, 524} \<and> \<not> Hard (ClassifyFailoverError V e))"
  using assms
  by (auto simp: sameAccountRetryAllowedCtx_def sameAccountRetryAllowed_def resilienceAccountLevelFailure_def Let_def
        split: if_splits option.splits)

lemma handle_retry:
  assumes "HandleFailoverError V rd hosts a platform limit e s c = (FailoverContinue, s', c')"
    and "SwitchCount s' = SwitchCount s"
  shows "e \<noteq> None \<and> RetryableOnSameAccount (the e) \<and>
    (FailureOn (fo_current V) \<longrightarrow> rCategory (ClassifyFailoverError V e) \<notin> set hard_categories) \<and>
    (requestBudget c \<noteq> None \<longrightarrow> fe_StatusCode (the e) \<notin> {504, 524} \<and> \<not> Hard (ClassifyFailoverError V e))"
proof -
  obtain ended e1 c1 where f: "resilienceAttemptFailed V rd a e c = (ended, e1, c1)" by (metis prod_cases3)
  with assms have "\<not> ended" by (auto simp: HandleFailoverError_def Let_def split: if_splits)
  with f have f: "resilienceAttemptFailed V rd a e c = (False, e, c1)"
    using attempt_failed_same_error by (auto split: if_splits)
  obtain ok c2 where r: "sameAccountRetryAllowedCtx V rd a e (SameAccountRetryCount s a) limit c1 = (ok, c2)" by force
  have ok
  proof (rule ccontr)
    assume "\<not> ok"
    define s1 where "s1 = (if needForceCacheBilling (hasBoundSession s) e False
      then s\<lparr>LastFailoverErr := e, ForceCacheBilling := True\<rparr> else s\<lparr>LastFailoverErr := e\<rparr>)"
    have "switch_account V rd hosts a platform e s1 c2 = (FailoverContinue, s', c')"
      using \<open>\<not> ok\<close> assms(1) f r unfolding s1_def HandleFailoverError_def Let_def by (simp split: if_splits)
    then have "SwitchCount s' = SwitchCount s1 + 1" using switch_account_continue by (fastforce simp: switched_def)
    with assms(2) show False by (simp add: s1_def split: if_splits)
  qed
  with r have "sameAccountRetryAllowedCtx V rd a e (SameAccountRetryCount s a) limit c1 = (True, c2)" by simp
  from same_retry_conditions [OF this] attempt_failed_budget [OF f] show ?thesis by simp
qed

text \<open>A failure that the upstream or the request's content makes final.\<close>

definition final_failure :: "'r failover_env \<Rightarrow> failure \<Rightarrow> bool" where
  "final_failure V e = (\<not> ShouldRetryNextAccount e \<or>
     (fe_Reason (the e) \<noteq> OpenAIStateRepairReason \<and> (resilienceStateRejected V e \<or> resilienceContentRejected V e)))"

lemma handle_final:
  assumes "final_failure V e" "\<not> rd_canceled rd"
  shows "\<exists>c'. HandleFailoverError V rd hosts a platform limit e s c = (FailoverExhausted, s\<lparr>LastFailoverErr := e\<rparr>, c')
    \<and> requestBudget c' = requestBudget c"
proof (cases "ShouldRetryNextAccount e")
  case False
  with assms(2) show ?thesis by (simp add: HandleFailoverError_def)
next
  case True
  with assms(1) have e: "e \<noteq> None" "fe_Reason (the e) \<noteq> OpenAIStateRepairReason"
    "resilienceStateRejected V e \<or> resilienceContentRejected V e"
    by (auto simp: final_failure_def ShouldRetryNextAccount_def split: option.splits)
  have rep: "requestBudget (resilienceReportAttemptFailure V a e c) = requestBudget c" for c
    by (simp add: resilienceReportAttemptFailure_def split: option.splits)
  from e obtain c' where "resilienceAttemptFailed V rd a e c = (True, e, c')" "requestBudget c' = requestBudget c"
    by (simp add: resilienceAttemptFailed_def Let_def rep)
  with True assms(2) show ?thesis by (simp add: HandleFailoverError_def)
qed

end
