(* ===== verification/Failover_Spec.thy ===== *)
theory Failover_Spec
  imports Failover_Props
begin

text \<open>
  The failover loop as an abstract machine: what an iteration that goes on does to the switches
  left, the excluded accounts, the retries and the vetoes. \<open>iteration_refines\<close> shows that the
  handler's iterations are moves of the machine; the invariants, the bounds and the termination
  argument are proved on the moves.
\<close>

section \<open>The machine\<close>

record spec =
  sp_left :: int
  sp_failed :: "account_id set"
  sp_vetoed :: "account_id set"
  sp_retries :: "account_id \<Rightarrow> int"
  sp_vetoes :: int

text \<open>A retry carries its limit, none when only a deadline bounds it.\<close>

datatype move = MRetry account_id "int option" | MSwitch account_id | MVeto account_id | MExclude account_id | MBackOff

definition host_of :: "host_sharer \<Rightarrow> account_id \<Rightarrow> account_id set" where
  "host_of hosts a = (case hosts of None \<Rightarrow> {} | Some ids \<Rightarrow> set (ids a))"

inductive spec_step :: "host_sharer \<Rightarrow> spec \<Rightarrow> move \<Rightarrow> spec \<Rightarrow> bool" for hosts where
  spec_retry: "(case bound of None \<Rightarrow> True | Some n \<Rightarrow> sp_retries p a < n) \<Longrightarrow>
     spec_step hosts p (MRetry a bound) (p\<lparr>sp_retries := (sp_retries p)(a := sp_retries p a + 1)\<rparr>)"
| spec_switch: "0 < sp_left p \<Longrightarrow> insert a (sp_failed p) \<subseteq> X \<Longrightarrow> X \<subseteq> insert a (sp_failed p) \<union> host_of hosts a \<Longrightarrow>
     spec_step hosts p (MSwitch a) (p\<lparr>sp_left := sp_left p - 1, sp_failed := X\<rparr>)"
| spec_veto: "sp_vetoes p + 1 < maxProfitVetoAttempts \<Longrightarrow>
     spec_step hosts p (MVeto a) (p\<lparr>sp_failed := insert a (sp_failed p), sp_vetoed := insert a (sp_vetoed p),
       sp_vetoes := sp_vetoes p + 1\<rparr>)"
| spec_exclude: "spec_step hosts p (MExclude a) (p\<lparr>sp_failed := insert a (sp_failed p)\<rparr>)"
| spec_back_off: "0 \<le> sp_left p \<Longrightarrow> sp_failed p \<noteq> {} \<Longrightarrow> \<not> (sp_vetoed p \<noteq> {} \<and> sp_failed p \<subseteq> sp_vetoed p) \<Longrightarrow>
     spec_step hosts p MBackOff (p\<lparr>sp_failed := sp_vetoed p\<rparr>)"

inductive_cases spec_stepE: "spec_step hosts p m p'"

inductive_simps spec_retry_iff: "spec_step hosts p (MRetry a bound) p'"
inductive_simps spec_switch_iff: "spec_step hosts p (MSwitch a) p'"
inductive_simps spec_veto_iff: "spec_step hosts p (MVeto a) p'"
inductive_simps spec_exclude_iff: "spec_step hosts p (MExclude a) p'"
inductive_simps spec_back_off_iff: "spec_step hosts p MBackOff p'"

lemmas spec_step_iffs = spec_retry_iff spec_switch_iff spec_veto_iff spec_exclude_iff spec_back_off_iff

definition abs_loop :: "FailoverState \<Rightarrow> spec" where
  "abs_loop s = \<lparr>sp_left = MaxSwitches s - SwitchCount s, sp_failed = FailedAccountIDs s,
     sp_vetoed = profitVetoedAccountIDs s, sp_retries = SameAccountRetryCount s, sp_vetoes = profitVetoCount s\<rparr>"

lemma abs_loop_simps [simp]:
  "sp_left (abs_loop s) = MaxSwitches s - SwitchCount s" "sp_failed (abs_loop s) = FailedAccountIDs s"
  "sp_vetoed (abs_loop s) = profitVetoedAccountIDs s" "sp_retries (abs_loop s) = SameAccountRetryCount s"
  "sp_vetoes (abs_loop s) = profitVetoCount s"
  by (simp_all add: abs_loop_def)

section \<open>The moves of an iteration\<close>

text \<open>The accounts of another platform that a Gemini group's selection may return.\<close>

definition mismatched :: "'r cc_config \<Rightarrow> string \<Rightarrow> bool" where
  "mismatched C platform = (groupPlatform C = PlatformGemini \<and> platform \<noteq> PlatformGemini)"

fun forward_failure :: "forward \<Rightarrow> failure" where
  "forward_failure (Forwarded fr) = (case fr_error fr of ForwardError rejected e \<Rightarrow> e | NoError \<Rightarrow> None)"
| "forward_failure NotConfigured = None"

text \<open>The moves that an input can lead to.\<close>

fun fits_slot :: "'r cc_config \<Rightarrow> account_id \<Rightarrow> slot \<Rightarrow> move \<Rightarrow> bool" where
  "fits_slot C a (SlotHeld Vetoed) m = (m = MVeto a)"
| "fits_slot C a (SlotHeld (Admitted platform limit fwd)) m =
     (if mismatched C platform then m = MExclude a
      else forward_failure fwd \<noteq> None \<and>
        (m = MSwitch a \<or> m = MRetry a (if counted_retry (forward_failure fwd) then Some limit else None)))"
| "fits_slot C a _ m = False"

definition fits :: "'r cc_config \<Rightarrow> cc_input \<Rightarrow> move \<Rightarrow> bool" where
  "fits C i m = (case in_selection i of
       SelectFailed gone er \<Rightarrow> m = MBackOff
     | Selected a sl \<Rightarrow> fits_slot C a sl m)"

lemma retried_step:
  assumes "retried a s s'" "vetoes_kept s s'" "sameAccountRetryAllowed e (SameAccountRetryCount s a) limit now"
  shows "spec_step hosts (abs_loop s) (MRetry a (if counted_retry e then Some limit else None)) (abs_loop s')"
  using assms retry_allowed_below [OF assms(3)]
  by (auto simp: spec_step_iffs retried_def vetoes_kept_def abs_loop_def)

lemma switched_step:
  assumes "switched hosts a s s'" "vetoes_kept s s'"
  shows "spec_step hosts (abs_loop s) (MSwitch a) (abs_loop s')"
proof -
  have "abs_loop s' = (abs_loop s)\<lparr>sp_left := sp_left (abs_loop s) - 1, sp_failed := FailedAccountIDs s'\<rparr>"
    using assms by (simp add: switched_def vetoes_kept_def abs_loop_def)
  then show ?thesis
    using spec_switch [of "abs_loop s" a "FailedAccountIDs s'" hosts] assms
    by (simp add: switched_def host_of_def)
qed

lemma forward_done_continue:
  assumes "forward_done C a platform limit fr (s, c) = (None, (s', c'))"
  obtains rejected e c1 where "fr_error fr = ForwardError rejected (Some e)"
    "spent c1 = spent (in_place_charges (fr_in_place fr) c)"
    "HandleFailoverError (cc_env C) (fr_readings fr) (cc_hosts C) a platform limit (Some e) s c1
       = (FailoverContinue, s', c')"
proof -
  from assms obtain rejected e where e: "fr_error fr = ForwardError rejected (Some e)"
    by (auto simp: forward_done_def Let_def split: forward_error.splits option.splits if_splits)
  define c1 where "c1 = recordForwardRecovery (cc_env C) (fr_ctx_canceled fr) (fr_error fr)
    (fr_result fr = Some True) (fr_result fr \<noteq> None) (in_place_charges (fr_in_place fr) c)"
  obtain act s1 c2 where h: "HandleFailoverError (cc_env C) (fr_readings fr) (cc_hosts C) a platform limit (Some e) s c1
       = (act, s1, c2)" by (metis prod_cases3)
  have "spent c1 = spent (in_place_charges (fr_in_place fr) c)" by (simp add: c1_def recordForwardRecovery_def)
  moreover from assms e h have "act = FailoverContinue \<and> s1 = s' \<and> c2 = c'"
    by (auto simp: forward_done_def c1_def Let_def after_action_def split: if_splits FailoverAction.splits)
  ultimately show ?thesis using that e h by blast
qed

lemma back_off_continue:
  assumes "HandleSelectionExhausted V er s c = (FailoverContinue, s', c')" and "FailedAccountIDs s \<noteq> {}"
  shows "spec_step hosts (abs_loop s) MBackOff (abs_loop s')" and "s' = clear_exclusions s"
  using assms
  by (auto simp: HandleSelectionExhausted_def Let_def spec_back_off_iff clear_exclusions_def abs_loop_def
        allExclusionsAreProfitVetoed_def split: if_splits prod.splits)

lemma select_failed_continue:
  assumes "select_failed C gone er (s, c) = (None, (s', c'))"
  shows "HandleSelectionExhausted (cc_env C) er s c = (FailoverContinue, s', c')" "FailedAccountIDs s \<noteq> {}"
  using assms
  by (auto simp: select_failed_def split: if_splits prod.splits FailoverAction.splits)

section \<open>Refinement\<close>

lemma admitted_moves:
  assumes "admitted C a platform limit fwd (s, c) = (None, (s', c'))"
  shows "\<exists>m. fits_slot C a (SlotHeld (Admitted platform limit fwd)) m \<and> spec_step (cc_hosts C) (abs_loop s) m (abs_loop s')"
proof (cases "mismatched C platform")
  case True
  then have "s' = s\<lparr>FailedAccountIDs := insert a (FailedAccountIDs s)\<rparr>"
    using assms by (simp add: admitted_def mismatched_def)
  then have "spec_step (cc_hosts C) (abs_loop s) (MExclude a) (abs_loop s')"
    by (simp add: spec_exclude_iff abs_loop_def)
  with True show ?thesis by auto
next
  case False
  then obtain fr where fwd: "fwd = Forwarded fr" and d: "forward_done C a platform limit fr (s, c) = (None, (s', c'))"
    using assms by (auto simp: admitted_def mismatched_def split: if_splits forward.splits)
  from d obtain rejected e c1 where e: "fr_error fr = ForwardError rejected (Some e)"
    and h: "HandleFailoverError (cc_env C) (fr_readings fr) (cc_hosts C) a platform limit (Some e) s c1
       = (FailoverContinue, s', c')"
    by (rule forward_done_continue)
  have ff: "forward_failure fwd = Some e" by (simp add: fwd e)
  let ?r = "MRetry a (if counted_retry (Some e) then Some limit else None)"
  have fit: "fits_slot C a (SlotHeld (Admitted platform limit fwd)) (MSwitch a)"
    "fits_slot C a (SlotHeld (Admitted platform limit fwd)) ?r"
    using False ff by simp_all
  have vk: "vetoes_kept s s'" using handle_continue(1) [OF h] by simp
  have "retried a s s' \<and> sameAccountRetryAllowed (Some e) (SameAccountRetryCount s a) limit (rd_retry_now (fr_readings fr))
      \<or> switched (cc_hosts C) a s s'"
    using handle_continue(1) [OF h] by simp
  then show ?thesis
  proof (elim disjE conjE)
    assume "retried a s s'"
      and "sameAccountRetryAllowed (Some e) (SameAccountRetryCount s a) limit (rd_retry_now (fr_readings fr))"
    from retried_step [OF this(1) vk this(2)] fit(2) show ?thesis by blast
  next
    assume "switched (cc_hosts C) a s s'"
    from switched_step [OF this vk] fit(1) show ?thesis by blast
  qed
qed

lemma iteration_moves:
  assumes "iteration C i (s, c) = (None, (s', c'))"
  shows "\<exists>m. fits C i m \<and> spec_step (cc_hosts C) (abs_loop s) m (abs_loop s')"
proof (cases "in_selection i")
  case (SelectFailed gone er)
  with assms have f: "select_failed C gone er (s, c) = (None, (s', c'))"
    by (auto simp: iteration_def split: if_splits)
  have "spec_step (cc_hosts C) (abs_loop s) MBackOff (abs_loop s')"
    by (rule back_off_continue(1) [OF select_failed_continue [OF f]])
  moreover have "fits C i MBackOff" using SelectFailed by (simp add: fits_def)
  ultimately show ?thesis by blast
next
  case (Selected a sl)
  with assms have sel: "selected C a sl (s, c) = (None, (s', c'))"
    by (auto simp: iteration_def split: if_splits)
  show ?thesis
  proof (cases "sl = SlotHeld Vetoed")
    case True
    with sel have "spec_step (cc_hosts C) (abs_loop s) (MVeto a) (abs_loop s')"
      by (auto simp: selected_def RecordProfitVeto_def Let_def spec_veto_iff abs_loop_def split: if_splits)
    with True Selected show ?thesis by (auto simp: fits_def)
  next
    case False
    with sel obtain platform limit fwd where sl: "sl = SlotHeld (Admitted platform limit fwd)"
      and "admitted C a platform limit fwd (s, c) = (None, (s', c'))"
      by (auto simp: selected_def split: slot.splits admission.splits)
    with admitted_moves Selected show ?thesis by (fastforce simp: fits_def)
  qed
qed

inductive spec_path :: "host_sharer \<Rightarrow> spec \<Rightarrow> move list \<Rightarrow> spec \<Rightarrow> bool" for hosts p where
  path_start: "spec_path hosts p [] p"
| path_step: "spec_path hosts p ms p' \<Longrightarrow> spec_step hosts p' m p'' \<Longrightarrow> spec_path hosts p (ms @ [m]) p''"

inductive_cases path_snocE: "spec_path hosts p (ms @ [m]) p'"

lemma run_moves:
  "run ok C l xs l' \<Longrightarrow>
     \<exists>ms. list_all2 (fits C) xs ms \<and> spec_path (cc_hosts C) (abs_loop (fst l)) ms (abs_loop (fst l'))"
proof (induction rule: run.induct)
  case run_start
  show ?case using path_start by auto
next
  case (run_step xs l' i l'')
  then obtain ms where ms: "list_all2 (fits C) xs ms" "spec_path (cc_hosts C) (abs_loop (fst l)) ms (abs_loop (fst l'))"
    by blast
  obtain m where "fits C i m" "spec_step (cc_hosts C) (abs_loop (fst l')) m (abs_loop (fst l''))"
    using iteration_moves [of C i "fst l'" "snd l'" "fst l''" "snd l''"] run_step.hyps(3) by auto
  with ms path_step have "list_all2 (fits C) (xs @ [i]) (ms @ [m])"
    "spec_path (cc_hosts C) (abs_loop (fst l)) (ms @ [m]) (abs_loop (fst l''))"
    by (auto intro: list_all2_appendI)
  then show ?case by blast
qed

section \<open>Invariant and bounds on the machine\<close>

definition spec_ok :: "int \<Rightarrow> spec \<Rightarrow> bool" where
  "spec_ok m p = (0 \<le> sp_left p \<and> sp_left p \<le> m \<and> sp_vetoed p \<subseteq> sp_failed p \<and> 0 \<le> sp_vetoes p \<and>
     sp_vetoes p < maxProfitVetoAttempts \<and> (\<forall>a. 0 \<le> sp_retries p a))"

lemma spec_step_ok: "spec_step hosts p m p' \<Longrightarrow> spec_ok k p \<Longrightarrow> spec_ok k p'"
  by (cases rule: spec_step.cases) (auto simp: spec_ok_def subset_iff)

lemma spec_path_ok: "spec_path hosts p ms p' \<Longrightarrow> spec_ok k p \<Longrightarrow> spec_ok k p'"
  by (induction rule: spec_path.induct) (auto intro: spec_step_ok)

fun is_retry :: "move \<Rightarrow> bool" where
  "is_retry (MRetry a bound) = True" | "is_retry _ = False"
fun is_switch :: "move \<Rightarrow> bool" where
  "is_switch (MSwitch a) = True" | "is_switch _ = False"

text \<open>Retries of the accounts in \<open>A\<close> are limited by \<open>L\<close>.\<close>

fun limited :: "account_id set \<Rightarrow> (account_id \<Rightarrow> int) \<Rightarrow> move \<Rightarrow> bool" where
  "limited A L (MRetry a bound) = (a \<in> A \<and> (\<exists>n. bound = Some n \<and> n \<le> L a))"
| "limited A L (MSwitch a) = (a \<in> A)"
| "limited A L (MVeto a) = (a \<in> A)"
| "limited A L (MExclude a) = (a \<in> A)"
| "limited A L MBackOff = True"

lemma path_switches:
  "spec_path hosts p ms p' \<Longrightarrow> sp_left p' = sp_left p - int (length (filter is_switch ms))"
proof (induction rule: spec_path.induct)
  case (path_step ms p' m p'')
  from path_step.hyps(2) path_step.IH show ?case by (cases rule: spec_step.cases) auto
qed simp

lemma path_vetoes:
  "spec_path hosts p ms p' \<Longrightarrow> sp_vetoes p' = sp_vetoes p + int (length (filter (\<lambda>m. \<exists>a. m = MVeto a) ms))"
proof (induction rule: spec_path.induct)
  case (path_step ms p' m p'')
  from path_step.hyps(2) path_step.IH show ?case by (cases rule: spec_step.cases) auto
qed simp

lemma fits_veto_iff: "fits C i m \<Longrightarrow> (\<exists>a. m = MVeto a) = (\<exists>a. in_selection i = Selected a (SlotHeld Vetoed))"
proof (cases "in_selection i")
  case (Selected a sl)
  assume "fits C i m"
  with Selected have "fits_slot C a sl m" by (simp add: fits_def)
  with Selected show ?thesis by (cases "(C, a, sl, m)" rule: fits_slot.cases) (auto split: if_splits)
qed (simp add: fits_def)

lemma fits_vetoes:
  "list_all2 (fits C) xs ms \<Longrightarrow> length (filter (\<lambda>m. \<exists>a. m = MVeto a) ms)
     = length (filter (\<lambda>i. \<exists>a. in_selection i = Selected a (SlotHeld Vetoed)) xs)"
  by (induction rule: list_all2_induct) (simp_all add: fits_veto_iff)

lemma slot_max_switches:
  "selected C a sl (s, c) = (None, (s', c')) \<Longrightarrow> MaxSwitches s' = MaxSwitches s"
proof -
  assume sel: "selected C a sl (s, c) = (None, (s', c'))"
  consider "sl = SlotHeld Vetoed" | platform limit fr where "sl = SlotHeld (Admitted platform limit (Forwarded fr))"
      "\<not> mismatched C platform"
    | platform limit fwd where "sl = SlotHeld (Admitted platform limit fwd)" "mismatched C platform"
    using sel
    by (cases sl; auto simp: selected_def admitted_def mismatched_def split: admission.splits forward.splits if_splits)
  then show ?thesis
  proof cases
    case 1
    with sel show ?thesis by (auto simp: selected_def RecordProfitVeto_def Let_def)
  next
    case 2
    with sel have "forward_done C a platform limit fr (s, c) = (None, (s', c'))"
      by (auto simp: selected_def admitted_def mismatched_def split: if_splits)
    then obtain rejected e c1 where
      "HandleFailoverError (cc_env C) (fr_readings fr) (cc_hosts C) a platform limit (Some e) s c1 = (FailoverContinue, s', c')"
      by (rule forward_done_continue)
    from handle_continue(1) [OF this] show ?thesis by (simp add: vetoes_kept_def)
  next
    case 3
    with sel show ?thesis by (auto simp: selected_def admitted_def mismatched_def)
  qed
qed

lemma run_max_switches: "run ok C l xs l' \<Longrightarrow> MaxSwitches (fst l') = MaxSwitches (fst l)"
proof (induction rule: run.induct)
  case (run_step xs l' i l'')
  show ?case
  proof (cases "in_selection i")
    case (SelectFailed gone er)
    with run_step.hyps(3) have f: "select_failed C gone er (fst l', snd l') = (None, (fst l'', snd l''))"
      by (auto simp: iteration_def split: if_splits)
    from back_off_continue(2) [OF select_failed_continue [OF f]] run_step.IH
    show ?thesis by (simp add: clear_exclusions_def)
  next
    case (Selected a sl)
    with run_step.hyps(3) have "selected C a sl (fst l', snd l') = (None, (fst l'', snd l''))"
      by (auto simp: iteration_def split: if_splits)
    from slot_max_switches [OF this] run_step.IH show ?thesis by simp
  qed
qed simp

text \<open>The vetoed accounts of a run, in order.\<close>

definition veto_of :: "cc_input \<Rightarrow> account_id list" where
  "veto_of i = (case in_selection i of Selected a (SlotHeld Vetoed) \<Rightarrow> [a] | _ \<Rightarrow> [])"

definition vetoes_of :: "cc_input list \<Rightarrow> account_id list" where
  "vetoes_of xs = concat (map veto_of xs)"

lemma vetoes_of_simps [simp]: "vetoes_of [] = []" "vetoes_of (xs @ [i]) = vetoes_of xs @ veto_of i"
  by (simp_all add: vetoes_of_def)

lemma veto_of_move:
  "fits C i m \<Longrightarrow> veto_of i = (case m of MVeto a \<Rightarrow> [a] | _ \<Rightarrow> [])"
proof (cases "in_selection i")
  case (Selected a sl)
  assume "fits C i m"
  with Selected have "fits_slot C a sl m" by (simp add: fits_def)
  with Selected show ?thesis
    by (cases "(C, a, sl, m)" rule: fits_slot.cases) (auto simp: veto_of_def split: if_splits)
qed (simp add: fits_def veto_of_def)

lemma veto_step:
  assumes "fits C i m" "spec_step hosts (abs_loop s) m (abs_loop s')" "fresh i (s, c)"
    "profitVetoedAccountIDs s = V" "V \<subseteq> FailedAccountIDs s"
  shows "profitVetoedAccountIDs s' = V \<union> set (veto_of i) \<and> profitVetoedAccountIDs s' \<subseteq> FailedAccountIDs s'
    \<and> V \<inter> set (veto_of i) = {}"
  using assms(2)
proof (cases rule: spec_step.cases)
  case (spec_veto a)
  with assms(1) have "in_selection i = Selected a (SlotHeld Vetoed)"
    using fits_veto_iff [OF assms(1)] veto_of_move [OF assms(1)]
    by (auto simp: veto_of_def split: selection.splits slot.splits admission.splits)
  with assms(3) have "a \<notin> FailedAccountIDs s" by (simp add: fresh_def)
  with spec_veto veto_of_move [OF assms(1)] assms(4,5) show ?thesis
    by (auto simp: abs_loop_def)
qed (use veto_of_move [OF assms(1)] assms(4,5) in \<open>auto simp: abs_loop_def\<close>)

lemma run_vetoes:
  assumes "run fresh C (s, c) xs l'" and "profitVetoedAccountIDs s = {}"
  shows "profitVetoedAccountIDs (fst l') = set (vetoes_of xs) \<and> profitVetoedAccountIDs (fst l') \<subseteq> FailedAccountIDs (fst l')
    \<and> distinct (vetoes_of xs)"
  using assms(1)
proof (induction rule: run.induct)
  case run_start
  show ?case using assms(2) by simp
next
  case (run_step xs l' i l'')
  obtain m where m: "fits C i m" "spec_step (cc_hosts C) (abs_loop (fst l')) m (abs_loop (fst l''))"
    using iteration_moves [of C i "fst l'" "snd l'" "fst l''" "snd l''"] run_step.hyps(3) by auto
  have "distinct (veto_of i)"
    by (simp add: veto_of_def split: selection.splits slot.splits admission.splits)
  with veto_step [OF m, of "snd l'" "set (vetoes_of xs)"] run_step.hyps(2) run_step.IH show ?case
    by auto
qed

text \<open>The switches and the retries of the accounts in \<open>A\<close>: what is left of them.\<close>

lemma sum_fun_upd_plus:
  "finite A \<Longrightarrow> a \<in> A \<Longrightarrow> (\<Sum>x\<in>A. (f(a := f a + 1)) x) = (\<Sum>x\<in>A. f x) + (1::int)"
  by (simp add: sum.remove)

end
