(* ===== verification/Failover_Bounds.thy ===== *)
theory Failover_Bounds
  imports Failover_Spec
begin

text \<open>
  Bounds and termination of the failover loop over its runs: vetoes, switches and attempts, the
  length of a run between two back-offs, the back-offs within the request's time window, and a
  back-off that repeats without any attempt.
\<close>

section \<open>Attempts and the request budget\<close>

text \<open>The inputs on which the handler forwards the request.\<close>

fun forwards_slot :: "'r cc_config \<Rightarrow> slot \<Rightarrow> bool" where
  "forwards_slot C (SlotHeld (Admitted platform limit (Forwarded fr))) = (\<not> mismatched C platform)"
| "forwards_slot C _ = False"

definition forwards :: "'r cc_config \<Rightarrow> cc_input \<Rightarrow> bool" where
  "forwards C i = (case in_selection i of SelectFailed gone er \<Rightarrow> False | Selected a sl \<Rightarrow> forwards_slot C sl)"

definition forward_count :: "'r cc_config \<Rightarrow> cc_input list \<Rightarrow> nat" where
  "forward_count C xs = length (filter (forwards C) xs)"

lemma forward_count_simps [simp]:
  "forward_count C [] = 0"
  "forward_count C (xs @ [i]) = forward_count C xs + (if forwards C i then 1 else 0)"
  by (simp_all add: forward_count_def)

lemma exhausted_spent:
  "HandleSelectionExhausted V er s c = (FailoverContinue, s', c') \<Longrightarrow> spent c' = spent c"
  by (auto simp: HandleSelectionExhausted_def recordSelectionExhausted_def selection_budget_ended_def Let_def
        split: if_splits prod.splits dest!: on_budget_keeps(1))

text \<open>The in-place charges that an iteration's forward is granted, and those of a list of iterations.\<close>

fun slot_in_place :: "slot \<Rightarrow> in_place list" where
  "slot_in_place (SlotHeld (Admitted platform limit (Forwarded fr))) = fr_in_place fr"
| "slot_in_place _ = []"

definition granted_in :: "'r cc_config \<Rightarrow> cc_input \<Rightarrow> loop \<Rightarrow> nat" where
  "granted_in C i l = (case in_selection i of
       SelectFailed gone er \<Rightarrow> 0
     | Selected a sl \<Rightarrow> if forwards_slot C sl then in_place_granted (slot_in_place sl) (snd l) else 0)"

fun granted_run :: "'r cc_config \<Rightarrow> cc_input list \<Rightarrow> loop \<Rightarrow> nat" where
  "granted_run C [] l = 0"
| "granted_run C (i # xs) l = granted_in C i l + granted_run C xs (snd (iteration C i l))"

lemma granted_run_snoc:
  "granted_run C (xs @ [i]) l = granted_run C xs l + granted_in C i (foldl (\<lambda>l i. snd (iteration C i l)) l xs)"
  by (induction xs arbitrary: l) simp_all

lemma run_state: "run ok C l xs l' \<Longrightarrow> foldl (\<lambda>l i. snd (iteration C i l)) l xs = l'"
  by (induction rule: run.induct) simp_all

lemma slot_spent:
  assumes "selected C a sl (s, c) = (None, (s', c'))" and "spent c = Some (n, m)"
  shows "if forwards_slot C sl
    then spent c' = Some (n + in_place_granted (slot_in_place sl) c + 1, m) \<and> int (n + in_place_granted (slot_in_place sl) c + 1) < m
    else spent c' = Some (n, m)"
proof (cases "forwards_slot C sl")
  case True
  then obtain platform limit fr where sl: "sl = SlotHeld (Admitted platform limit (Forwarded fr))"
    and mm: "\<not> mismatched C platform" by (cases "(C, sl)" rule: forwards_slot.cases) auto
  with assms(1) have "forward_done C a platform limit fr (s, c) = (None, (s', c'))"
    by (auto simp: selected_def admitted_def mismatched_def split: if_splits)
  then obtain rejected e c1 where c1: "spent c1 = spent (in_place_charges (fr_in_place fr) c)"
    and h: "HandleFailoverError (cc_env C) (fr_readings fr) (cc_hosts C) a platform limit (Some e) s c1
       = (FailoverContinue, s', c')"
    by (rule forward_done_continue)
  have "spent c1 = Some (n + in_place_granted (fr_in_place fr) c, m)"
    using c1 in_place_spent [OF assms(2)] by simp
  from handle_continue(2) [OF h this] True sl show ?thesis by simp
next
  case False
  then have "c' = c"
    using assms(1)
    by (auto simp: selected_def admitted_def mismatched_def RecordProfitVeto_def Let_def
          split: slot.splits admission.splits forward.splits if_splits)
  with False assms(2) show ?thesis by simp
qed

lemma iteration_spent:
  assumes "iteration C i l = (None, l')" and "spent (snd l) = Some (n, m)"
  shows "if forwards C i then spent (snd l') = Some (n + granted_in C i l + 1, m) \<and> int (n + granted_in C i l + 1) < m
    else spent (snd l') = Some (n, m) \<and> granted_in C i l = 0"
proof (cases "in_selection i")
  case (SelectFailed gone er)
  with assms(1) have "select_failed C gone er (fst l, snd l) = (None, (fst l', snd l'))"
    by (auto simp: iteration_def split: if_splits)
  from exhausted_spent [OF select_failed_continue(1) [OF this]] assms(2) SelectFailed
  show ?thesis by (simp add: forwards_def granted_in_def)
next
  case (Selected a sl)
  with assms(1) have "selected C a sl (fst l, snd l) = (None, (fst l', snd l'))"
    by (auto simp: iteration_def split: if_splits)
  from slot_spent [OF this assms(2)] Selected show ?thesis by (auto simp: forwards_def granted_in_def)
qed

lemma run_spent:
  assumes "run ok C l xs l'" and "spent (snd l) = Some (n, m)"
  shows "spent (snd l') = Some (n + forward_count C xs + granted_run C xs l, m)
    \<and> (0 < forward_count C xs \<longrightarrow> int (n + forward_count C xs + granted_run C xs l) < m)"
  using assms(1)
proof (induction rule: run.induct)
  case run_start
  show ?case using assms(2) by simp
next
  case (run_step xs l' i l'')
  let ?k = "n + forward_count C xs + granted_run C xs l"
  have g: "granted_run C (xs @ [i]) l = granted_run C xs l + granted_in C i l'"
    using granted_run_snoc [of C xs i l] run_state [OF run_step.hyps(1)] by simp
  from run_step.IH have "spent (snd l') = Some (?k, m)" by simp
  from iteration_spent [OF run_step.hyps(3) this] run_step.IH show ?case
    by (auto simp: g add.commute add.left_commute split: if_splits)
qed

section \<open>The length of a run\<close>

definition backs_off :: "cc_input \<Rightarrow> bool" where
  "backs_off i = (case in_selection i of SelectFailed gone er \<Rightarrow> True | _ \<Rightarrow> False)"

text \<open>The accounts are in \<open>A\<close>; the retries of \<open>a\<close> are counted and limited by \<open>L a\<close>.\<close>

fun orderly_slot :: "(account_id \<Rightarrow> int) \<Rightarrow> account_id \<Rightarrow> slot \<Rightarrow> bool" where
  "orderly_slot L a (SlotHeld (Admitted platform limit fwd)) = (counted_retry (forward_failure fwd) \<and> limit \<le> L a)"
| "orderly_slot L a _ = True"

definition orderly :: "account_id set \<Rightarrow> (account_id \<Rightarrow> int) \<Rightarrow> cc_input \<Rightarrow> loop \<Rightarrow> bool" where
  "orderly A L i l = (fresh i l \<and> (case in_selection i of
       SelectFailed gone er \<Rightarrow> True
     | Selected a sl \<Rightarrow> a \<in> A \<and> orderly_slot L a sl))"

definition room :: "account_id set \<Rightarrow> (account_id \<Rightarrow> int) \<Rightarrow> spec \<Rightarrow> nat" where
  "room A L p = card (A - sp_failed p) + (\<Sum>a\<in>A. nat (L a - sp_retries p a))"

lemma room_excluded:
  assumes "finite A" "a \<in> A" "a \<notin> sp_failed p" "insert a (sp_failed p) \<subseteq> sp_failed p'"
    "sp_retries p' = sp_retries p"
  shows "room A L p' < room A L p"
proof -
  have "A - sp_failed p' \<subset> A - sp_failed p" using assms(2-4) by auto
  then have "card (A - sp_failed p') < card (A - sp_failed p)" using assms(1) by (simp add: psubset_card_mono)
  then show ?thesis using assms(5) by (simp add: room_def)
qed

lemma room_retried:
  assumes "finite A" "a \<in> A" "sp_retries p a < n" "n \<le> L a" "sp_failed p' = sp_failed p"
    "sp_retries p' = (sp_retries p)(a := sp_retries p a + 1)"
  shows "room A L p' < room A L p"
proof -
  have "(\<Sum>x\<in>A. nat (L x - sp_retries p' x)) < (\<Sum>x\<in>A. nat (L x - sp_retries p x))"
    by (rule sum_strict_mono_ex1 [OF assms(1)]) (use assms in auto)
  then show ?thesis using assms(5) by (simp add: room_def)
qed

lemma orderly_step:
  assumes "finite A" "orderly A L i (s, c)" "\<not> backs_off i" "fits C i m"
    "spec_step hosts (abs_loop s) m (abs_loop s')"
  shows "room A L (abs_loop s') < room A L (abs_loop s)"
proof -
  from assms(2,3) obtain a sl where sel: "in_selection i = Selected a sl" "a \<in> A" "orderly_slot L a sl"
    "a \<notin> FailedAccountIDs s"
    by (auto simp: orderly_def backs_off_def fresh_def split: selection.splits)
  with assms(4) have fit: "fits_slot C a sl m" by (simp add: fits_def)
  from assms(5) show ?thesis
  proof (cases rule: spec_step.cases)
    case (spec_retry bound b)
    then obtain platform limit fwd where "sl = SlotHeld (Admitted platform limit fwd)" and b: "b = a"
      and "bound = (if counted_retry (forward_failure fwd) then Some limit else None)"
      using fit by (cases "(C, a, sl, m)" rule: fits_slot.cases) (auto split: if_splits)
    with sel(3) have "bound = Some limit" "limit \<le> L a" by auto
    with spec_retry b show ?thesis by (intro room_retried [OF assms(1) sel(2), of _ limit]) auto
  next
    case (spec_switch b X)
    with fit have "b = a" by (cases "(C, a, sl, m)" rule: fits_slot.cases) (auto split: if_splits)
    with spec_switch sel(4) show ?thesis by (intro room_excluded [OF assms(1) sel(2)]) auto
  next
    case (spec_veto b)
    with fit have "b = a" by (cases "(C, a, sl, m)" rule: fits_slot.cases) (auto split: if_splits)
    with spec_veto sel(4) show ?thesis by (intro room_excluded [OF assms(1) sel(2)]) auto
  next
    case (spec_exclude b)
    with fit have "b = a" by (cases "(C, a, sl, m)" rule: fits_slot.cases) (auto split: if_splits)
    with spec_exclude sel(4) show ?thesis by (intro room_excluded [OF assms(1) sel(2)]) auto
  next
    case spec_back_off
    with fit show ?thesis by (cases "(C, a, sl, m)" rule: fits_slot.cases) (auto split: if_splits)
  qed
qed

lemma run_room:
  assumes "run (orderly A L) C l xs l'" and "finite A" and "list_all (\<lambda>i. \<not> backs_off i) xs"
  shows "length xs + room A L (abs_loop (fst l')) \<le> room A L (abs_loop (fst l))"
  using assms(1,3)
proof (induction rule: run.induct)
  case run_start
  show ?case by simp
next
  case (run_step xs l' i l'')
  obtain m where m: "fits C i m" "spec_step (cc_hosts C) (abs_loop (fst l')) m (abs_loop (fst l''))"
    using iteration_moves [of C i "fst l'" "snd l'" "fst l''" "snd l''"] run_step.hyps(3) by auto
  have "room A L (abs_loop (fst l'')) < room A L (abs_loop (fst l'))"
    using orderly_step [OF assms(2), of L i "fst l'" "snd l'", OF _ _ m] run_step.hyps(2) run_step.prems by simp
  with run_step.IH run_step.prems show ?case by simp
qed

section \<open>Back-offs and the time window\<close>

definition until :: "ctx \<Rightarrow> gotime option" where
  "until c = map_option deadline (requestBudget c)"

lemma until_simps [simp]:
  "until (emit ef c) = until c" "until (set_outcome v c) = until c"
  "until (c\<lparr>cx_capability := k\<rparr>) = until c" "until (count_exhausted a c) = until c"
  "until (recordForwardRecovery V x err d compl c) = until c"
  by (simp_all add: until_def recordForwardRecovery_def)

lemma report_until [simp]: "until (resilienceReportAttemptFailure V a e c) = until c"
  by (simp add: resilienceReportAttemptFailure_def split: option.splits)

lemma budget_calls_deadline:
  "map_option deadline (snd (CanAttempt canceled now b)) = map_option deadline b"
  "map_option deadline (snd (AllowSameAccountRetry a b)) = map_option deadline b"
  "map_option deadline (snd (AllowCapacitySwitch b)) = map_option deadline b"
  "map_option deadline (snd (AllowStateSwitch b)) = map_option deadline b"
  "map_option deadline (snd (RecordAttemptAt now b)) = map_option deadline b"
  "map_option deadline (snd (charge_failed_attempt canceled now b)) = map_option deadline b"
  by (cases b; simp add: CanAttempt_def AllowSameAccountRetry_def AllowCapacitySwitch_def AllowStateSwitch_def
        RecordAttemptAt_def charge_failed_attempt_def Let_def split: prod.splits)+

lemma on_budget_until:
  "on_budget (CanAttempt canceled now) c = (ok, c') \<Longrightarrow> until c' = until c"
  "on_budget (AllowSameAccountRetry a) c = (ok, c') \<Longrightarrow> until c' = until c"
  "on_budget AllowCapacitySwitch c = (ok, c') \<Longrightarrow> until c' = until c"
  "on_budget AllowStateSwitch c = (ok, c') \<Longrightarrow> until c' = until c"
  "on_budget (charge_failed_attempt canceled now) c = (ok, c') \<Longrightarrow> until c' = until c"
  unfolding until_def by (erule on_budget_proj [rotated], simp only: budget_calls_deadline)+

lemma record_until:
  "requestBudget c = Some b \<Longrightarrow> until (put_budget (snd (RecordAttemptAt now (Some b))) c) = until c"
  using budget_calls_deadline(5) [of now "Some b"] by (simp add: until_def)

lemma state_repair_until:
  "state_repair_failed rd a r c = (ended, r', c') \<Longrightarrow> requestBudget c \<noteq> None \<Longrightarrow> until c' = until c"
  by (auto simp: state_repair_failed_def Let_def record_until split: if_splits prod.splits
        dest!: on_budget_until(1) on_budget_until(4))

lemma attempt_failed_until:
  "resilienceAttemptFailed V rd a e c = (ended, e', c') \<Longrightarrow> requestBudget c \<noteq> None \<Longrightarrow> until c' = until c"
  by (auto simp: resilienceAttemptFailed_def charge_attempt_def Let_def split: if_splits prod.splits
        dest!: on_budget_until(5) state_repair_until)

lemma same_retry_until:
  "sameAccountRetryAllowedCtx V rd a e n limit c = (ok, c') \<Longrightarrow> until c' = until c"
  by (auto simp: sameAccountRetryAllowedCtx_def Let_def split: if_splits dest: on_budget_until(2))

lemma before_switch_until:
  "resilienceBeforeSwitch V hosts a e X c = (ended, X', c') \<Longrightarrow> until c' = until c"
  by (auto simp: resilienceBeforeSwitch_def split: if_splits prod.splits dest: on_budget_until(3))

lemma switch_until:
  "switch_account V rd hosts a platform e s c = (act, s', c') \<Longrightarrow> until c' = until c"
  by (auto simp: switch_account_def Let_def split: if_splits prod.splits dest!: before_switch_until)

lemma handle_until:
  assumes "HandleFailoverError V rd hosts a platform limit e s c = (FailoverContinue, s', c')" "requestBudget c \<noteq> None"
  shows "until c' = until c"
proof -
  obtain ended e1 c1 where f: "resilienceAttemptFailed V rd a e c = (ended, e1, c1)" by (metis prod_cases3)
  obtain ok c2 where r: "sameAccountRetryAllowedCtx V rd a e1 (SameAccountRetryCount s a) limit c1 = (ok, c2)" by force
  from assms(1) f r obtain s1 where
    "(if ok then retry_same rd a e1 s1 c2 else switch_account V rd hosts a platform e1 s1 c2) = (FailoverContinue, s', c')"
    by (auto simp: HandleFailoverError_def Let_def split: if_splits)
  then have "until c' = until c2" using retry_same_continue switch_until by (metis (full_types))
  with same_retry_until [OF r] attempt_failed_until [OF f assms(2)] show ?thesis by simp
qed

text \<open>The clock readings of the back-offs.\<close>

definition back_off_time :: "cc_input \<Rightarrow> gotime list" where
  "back_off_time i = (case in_selection i of SelectFailed gone er \<Rightarrow> [er_now er] | _ \<Rightarrow> [])"

definition back_off_times :: "cc_input list \<Rightarrow> gotime list" where
  "back_off_times xs = concat (map back_off_time xs)"

lemma back_off_times_simps [simp]:
  "back_off_times [] = []" "back_off_times (xs @ [i]) = back_off_times xs @ back_off_time i"
  by (simp_all add: back_off_times_def)

lemma exhausted_window:
  assumes "HandleSelectionExhausted V er s c = (FailoverContinue, s', c')" and "until c = Some D"
  shows "until c' = Some D" "D \<noteq> 0 \<Longrightarrow> er_now er + minAttemptWindow \<le> D"
proof -
  let ?c = "recordSelectionExhausted er c"
  have u: "until ?c = Some D"
    using assms(2) by (auto simp: recordSelectionExhausted_def Let_def split: prod.splits dest!: on_budget_until(1))
  then obtain b where b: "requestBudget ?c = Some b" "deadline b = D" by (auto simp: until_def)
  obtain ok c1 where k: "on_budget (CanAttempt (er_ended er) (er_now er)) ?c = (ok, c1)" by force
  from assms(1) b k have ok: "ok" and "c' = c1"
    by (auto simp: HandleSelectionExhausted_def selection_budget_ended_def Let_def split: if_splits)
  with on_budget_until(1) [OF k] u show "until c' = Some D" by simp
  from ok k b have "\<not> window_closed b (er_now er)"
    by (auto simp: on_budget_def CanAttempt_def split: if_splits)
  then show "er_now er + minAttemptWindow \<le> D" if "D \<noteq> 0"
    using that b(2) sat64_less_iff [of minAttemptWindow "D - er_now er"]
    by (simp add: window_closed_def time_Sub_def minAttemptWindow_def not_less)
qed

lemma in_place_until: "until c = Some D \<Longrightarrow> until (in_place_charges ps c) = Some D"
proof (induction ps arbitrary: c)
  case (Cons p ps)
  from Cons.prems have "until (snd (charge_in_place p c)) = Some D"
    using charge_in_place_budget [of c _ p] by (auto simp: until_def)
  from Cons.IH [OF this] show ?case by simp
qed simp

lemma slot_until:
  assumes "selected C a sl (s, c) = (None, (s', c'))" and "until c = Some D"
  shows "until c' = Some D"
proof (cases "forwards_slot C sl")
  case True
  then obtain platform limit fr where sl: "sl = SlotHeld (Admitted platform limit (Forwarded fr))"
    and mm: "\<not> mismatched C platform" by (cases "(C, sl)" rule: forwards_slot.cases) auto
  let ?c1 = "recordForwardRecovery (cc_env C) (fr_ctx_canceled fr) (fr_error fr) (fr_result fr = Some True)
    (fr_result fr \<noteq> None) (in_place_charges (fr_in_place fr) c)"
  from sl mm assms(1) obtain e where
    "HandleFailoverError (cc_env C) (fr_readings fr) (cc_hosts C) a platform limit (Some e) s ?c1 = (FailoverContinue, s', c')"
    by (auto simp: selected_def admitted_def mismatched_def forward_done_def Let_def after_action_def
          split: if_splits forward_error.splits option.splits prod.splits FailoverAction.splits)
  moreover have "until ?c1 = Some D" using in_place_until [OF assms(2)] by simp
  moreover from this have "requestBudget ?c1 \<noteq> None" by (auto simp: until_def)
  ultimately show ?thesis using handle_until by fastforce
next
  case False
  then have "c' = c"
    using assms(1)
    by (auto simp: selected_def admitted_def mismatched_def RecordProfitVeto_def Let_def
          split: slot.splits admission.splits forward.splits if_splits)
  with assms(2) show ?thesis by simp
qed

lemma run_window:
  assumes "run ok C l xs l'" and "until (snd l) = Some D" and "D \<noteq> 0"
  shows "until (snd l') = Some D \<and> list_all (\<lambda>t. t + minAttemptWindow \<le> D) (back_off_times xs)"
  using assms(1)
proof (induction rule: run.induct)
  case run_start
  show ?case using assms(2) by simp
next
  case (run_step xs l' i l'')
  show ?case
  proof (cases "in_selection i")
    case (SelectFailed gone er)
    with run_step.hyps(3) have "select_failed C gone er (fst l', snd l') = (None, (fst l'', snd l''))"
      by (auto simp: iteration_def split: if_splits)
    from exhausted_window [OF select_failed_continue(1) [OF this]] run_step.IH assms(3) SelectFailed
    show ?thesis by (simp add: back_off_time_def)
  next
    case (Selected a sl)
    with run_step.hyps(3) have "selected C a sl (fst l', snd l') = (None, (fst l'', snd l''))"
      by (auto simp: iteration_def split: if_splits)
    from slot_until [OF this] run_step.IH Selected show ?thesis by (simp add: back_off_time_def)
  qed
qed

text \<open>Each back-off waits before the loop goes on.\<close>

fun paced :: "gotime list \<Rightarrow> bool" where
  "paced (t # u # ts) = (t + singleAccountBackoffDelay \<le> u \<and> paced (u # ts))"
| "paced _ = True"

lemma paced_span:
  "paced (t # ts) \<Longrightarrow> t + int (length ts) * singleAccountBackoffDelay \<le> last (t # ts)"
  by (induction ts arbitrary: t) (auto simp: algebra_simps, fastforce)

section \<open>Forwards counted by switches and retries\<close>

lemma fits_forwards: "fits C i m \<Longrightarrow> forwards C i = (is_retry m \<or> is_switch m)"
proof (cases "in_selection i")
  case (Selected a sl)
  assume "fits C i m"
  with Selected have f: "fits_slot C a sl m" by (simp add: fits_def)
  have "forwards_slot C sl = (is_retry m \<or> is_switch m)"
  proof (cases "(C, a, sl, m)" rule: fits_slot.cases)
    case (2 C' a' platform limit fwd m')
    with f show ?thesis by (cases fwd) (auto split: if_splits)
  qed (use f in auto)
  with Selected show ?thesis by (simp add: forwards_def)
qed (simp add: fits_def forwards_def)

definition used :: "account_id set \<Rightarrow> spec \<Rightarrow> int" where
  "used A p = (\<Sum>a\<in>A. sp_retries p a) - sp_left p"

lemma orderly_retry:
  assumes "orderly A L i l" "fits C i (MRetry a bound)"
  shows "a \<in> A \<and> (\<exists>n. bound = Some n \<and> n \<le> L a)"
proof -
  from assms(2) obtain b sl where sel: "in_selection i = Selected b sl" and fit: "fits_slot C b sl (MRetry a bound)"
    by (auto simp: fits_def split: selection.splits)
  from assms(1) sel have b: "b \<in> A" "orderly_slot L b sl" by (auto simp: orderly_def)
  with fit show ?thesis by (cases "(C, b, sl, MRetry a bound)" rule: fits_slot.cases) (auto split: if_splits)
qed

lemma used_step:
  assumes "finite A" "orderly A L i l" "fits C i m" "spec_step hosts p m p'"
  shows "used A p' = used A p + (if forwards C i then 1 else 0)"
    and "(\<forall>a. sp_retries p a \<le> max 0 (L a)) \<Longrightarrow> (\<forall>a. sp_retries p' a \<le> max 0 (L a))"
proof -
  have fw: "forwards C i = (is_retry m \<or> is_switch m)" by (rule fits_forwards [OF assms(3)])
  show "used A p' = used A p + (if forwards C i then 1 else 0)"
    using assms(4)
  proof (cases rule: spec_step.cases)
    case (spec_retry bound a)
    with orderly_retry assms(2,3) have "a \<in> A" by blast
    with spec_retry fw sum_fun_upd_plus [OF assms(1)] show ?thesis by (simp add: used_def)
  qed (use fw in \<open>simp_all add: used_def\<close>)
  show "\<forall>a. sp_retries p' a \<le> max 0 (L a)" if "\<forall>a. sp_retries p a \<le> max 0 (L a)"
    using assms(4)
  proof (cases rule: spec_step.cases)
    case (spec_retry bound a)
    with orderly_retry assms(2,3) obtain n where "bound = Some n" "n \<le> L a" by blast
    with spec_retry that show ?thesis by (auto intro: order_trans [OF _ max.cobounded2])
  qed (use that in simp_all)
qed

lemma run_used:
  assumes "run (orderly A L) C l xs l'" "finite A" "\<forall>a. sp_retries (abs_loop (fst l)) a \<le> max 0 (L a)"
  shows "used A (abs_loop (fst l')) = used A (abs_loop (fst l)) + int (forward_count C xs) \<and>
    (\<forall>a. sp_retries (abs_loop (fst l')) a \<le> max 0 (L a))"
  using assms(1)
proof (induction rule: run.induct)
  case run_start
  show ?case using assms(3) by simp
next
  case (run_step xs l' i l'')
  obtain m where m: "fits C i m" "spec_step (cc_hosts C) (abs_loop (fst l')) m (abs_loop (fst l''))"
    using iteration_moves [of C i "fst l'" "snd l'" "fst l''" "snd l''"] run_step.hyps(3) by auto
  from used_step [OF assms(2) run_step.hyps(2) m] run_step.IH show ?case by auto
qed

end
