(* ===== verification/Failover_Main.thy ===== *)
theory Failover_Main
  imports Failover_Bounds
begin

text \<open>
  The properties of the failover loop over its runs, with their witnesses on a small environment:
  a JSON library that finds nothing, a classifier without header evidence, the default settings.
\<close>

section \<open>A small environment\<close>

definition quiet_classify :: classify_env where
  "quiet_classify =
     \<lparr>headers_env = \<lparr>ParseFloat = (\<lambda>_. None), ParseTime = (\<lambda>_. None), time_Now = 0\<rparr>,
      decode_model_error = (\<lambda>_. None), gjson_String = (\<lambda>_ _. []), gjson_Valid = (\<lambda>_. False)\<rparr>"

definition empty_json :: "unit gjson" where
  "empty_json =
     \<lparr>g_Parse = (\<lambda>_. ()), g_Valid = (\<lambda>_. False), g_Get = (\<lambda>_ _. ()), g_Type = (\<lambda>_. GNull), g_Str = (\<lambda>_. []),
      g_Num = (\<lambda>_. Fin 0), g_String = (\<lambda>_. []), g_Int = (\<lambda>_. 0), g_Exists = (\<lambda>_. False), g_IsObject = (\<lambda>_. False),
      g_IsArray = (\<lambda>_. False), g_Array = (\<lambda>_. []), g_ForEach = (\<lambda>_. [])\<rparr>"

definition quiet_env :: "unit failover_env" where
  "quiet_env = \<lparr>fo_classify = quiet_classify, fo_json = empty_json, fo_current = None\<rparr>"

definition quiet_config :: "unit cc_config" where
  "quiet_config = \<lparr>cc_env = quiet_env, cc_hosts = None, groupPlatform = PlatformGemini\<rparr>"

definition bare_ctx :: ctx where
  "bare_ctx = \<lparr>cx_state = None, cx_capability = None, cx_effects = []\<rparr>"

definition calm_readings :: readings where
  "calm_readings = \<lparr>rd_canceled = False, rd_charge_now = 5 * second, rd_charge_canceled = False,
     rd_retry_now = 5 * second, rd_clamp_now = 5 * second, rd_delay_now = 5 * second, rd_jitter = 0, rd_wait_done = True\<rparr>"

definition calm_exhausted :: "gotime \<Rightarrow> exhausted_readings" where
  "calm_exhausted now = \<lparr>er_note_canceled = False, er_note_ended = False, er_note_now = now, er_canceled = False,
     er_ended = False, er_now = now, er_wait_done = True\<rparr>"

definition shed_error :: "int \<Rightarrow> UpstreamFailoverError" where
  "shed_error code = (failover_error code)\<lparr>RequestScopedTransient := True\<rparr>"

text \<open>A forward on the account that fails with the status, and a selection without an account.\<close>

definition failed_forward :: "account_id \<Rightarrow> int \<Rightarrow> cc_input" where
  "failed_forward a code = \<lparr>in_gone = False, in_selection = Selected a (SlotHeld (Admitted PlatformGemini 3
     (Forwarded \<lparr>fr_in_place = [], fr_error = ForwardError False (Some (shed_error code)), fr_result = None, fr_ctx_canceled = False,
        fr_written = False, fr_gone_error = False, fr_readings = calm_readings\<rparr>)))\<rparr>"

definition no_selection :: "gotime \<Rightarrow> cc_input" where
  "no_selection now = \<lparr>in_gone = False, in_selection = SelectFailed False (calm_exhausted now)\<rparr>"

definition veto :: "account_id \<Rightarrow> cc_input" where
  "veto a = \<lparr>in_gone = False, in_selection = Selected a (SlotHeld Vetoed)\<rparr>"

definition other_platform :: "account_id \<Rightarrow> string \<Rightarrow> cc_input" where
  "other_platform a platform =
     \<lparr>in_gone = False, in_selection = Selected a (SlotHeld (Admitted platform 3 NotConfigured))\<rparr>"

lemma quiet_shed: "ClassifyFailoverError quiet_env (Some (shed_error code)) = result CategoryCapacityShed ''request_scoped''"
  by (simp add: ClassifyFailoverError_def shed_error_def failover_error_def reason_consts IsCapabilityStreamOnly_def
        quiet_env_def DecisionV2On_def switch_def master_def)

lemma quiet_current [simp]: "fo_current quiet_env = None"
  by (simp add: quiet_env_def)

lemma quiet_shed_terminal:
  "resilienceStateRejected quiet_env (Some (shed_error code)) = False"
  "resilienceContentRejected quiet_env (Some (shed_error code)) = False"
  by (simp_all add: resilienceStateRejected_def resilienceContentRejected_def quiet_shed result_def
        FailureOn_def master_def)

lemma run_one: "ok i l \<Longrightarrow> iteration C i l = (None, l') \<Longrightarrow> run ok C l [i] l'"
  using run_step [OF run_start, of ok i l C l'] by simp

lemma shed_fields [simp]:
  "fe_Reason (shed_error code) = []" "fe_StatusCode (shed_error code) = code"
  "RetryableOnSameAccount (shed_error code) = False" "fe_NextAccountAction (shed_error code) = NextAccountLegacyRetry"
  "fe_ForceCacheBilling (shed_error code) = False"
  by (simp_all add: shed_error_def failover_error_def)

lemmas loop_defs = iteration_def selected_def admitted_def forward_done_def select_failed_def RecordProfitVeto_def
  HandleFailoverError_def resilienceAttemptFailed_def resilienceReportAttemptFailure_def charge_attempt_def
  sameAccountRetryAllowedCtx_def sameAccountRetryAllowed_def switch_account_def resilienceBeforeSwitch_def
  recordForwardRecovery_def terminal_failure_def ShouldRetryNextAccount_def IsCapabilityStreamOnly_def
  after_action_def needForceCacheBilling_def fresh_def

definition start :: "FailoverState" where
  "start = NewFailoverState 3 False"

definition after_one :: "account_id \<Rightarrow> int \<Rightarrow> FailoverState" where
  "after_one a code = start\<lparr>LastFailoverErr := Some (shed_error code), FailedAccountIDs := {a}, SwitchCount := 1\<rparr>"

lemma failed_forward_step:
  "iteration quiet_config (failed_forward a code) (start, bare_ctx) = (None, (after_one a code, bare_ctx))"
  by (simp add: loop_defs failed_forward_def quiet_config_def quiet_shed_terminal reason_consts calm_readings_def
        Let_def bare_ctx_def requestBudget_def st_Budget_def set_outcome_def SetRecoveryOutcome_def
        NoteCapabilityAttempt_def CapabilityRequestFrom_def start_def after_one_def NewFailoverState_def quiet_shed
        result_def PlatformGemini_def PlatformAntigravity_def)

lemma sample_run: "ok (failed_forward 7 503) (start, bare_ctx) \<Longrightarrow>
    run ok quiet_config (start, bare_ctx) [failed_forward 7 503] (after_one 7 503, bare_ctx)"
  by (rule run_one [OF _ failed_forward_step])

section \<open>Refinement and invariant\<close>

text \<open>
  C2: Every run of the handler's loop is a path of the abstract machine, input by input: an iteration
  that goes on is one retry of the same account within its limit, one switch that uses up one of the
  switches left and excludes the account (and at most its host), one profit veto below the limit, the
  exclusion of an account of another platform, or a back-off that keeps only the vetoed accounts
  excluded.
\<close>

theorem failover_run_refines:
  assumes "run ok C (s, c) xs (s', c')"
  shows "\<exists>ms. list_all2 (fits C) xs ms \<and> spec_path (cc_hosts C) (abs_loop s) ms (abs_loop s')"
  using run_moves [OF assms] by simp

theorem failover_run_refines_witness:
  "\<exists>ms. list_all2 (fits quiet_config) [failed_forward 7 503] ms \<and>
     spec_path (cc_hosts quiet_config) (abs_loop start) ms (abs_loop (after_one 7 503))"
  by (rule failover_run_refines [OF sample_run [of "\<lambda>_ _. True"]]) simp

lemma start_ok: "0 \<le> m \<Longrightarrow> spec_ok m (abs_loop (NewFailoverState m bound))"
  by (simp add: spec_ok_def NewFailoverState_def maxProfitVetoAttempts_def)

text \<open>
  C10: While a request's loop goes on, whatever the selections and the upstreams return: at most
  \<open>MaxSwitches\<close> switches were made, fewer than ten candidates were vetoed, the vetoed accounts are
  excluded (also after a back-off), and the veto counter equals the number of vetoes.
\<close>

theorem failover_invariant:
  assumes "0 \<le> m" and "run ok C (NewFailoverState m bound, c) xs (s', c')"
  shows "0 \<le> SwitchCount s' \<and> SwitchCount s' \<le> m \<and> MaxSwitches s' - SwitchCount s' \<ge> 0 \<and>
    profitVetoedAccountIDs s' \<subseteq> FailedAccountIDs s' \<and> profitVetoCount s' < maxProfitVetoAttempts \<and>
    profitVetoCount s' = int (length (filter (\<lambda>i. \<exists>a. in_selection i = Selected a (SlotHeld Vetoed)) xs))"
proof -
  obtain ms where fit: "list_all2 (fits C) xs ms"
    and path: "spec_path (cc_hosts C) (abs_loop (NewFailoverState m bound)) ms (abs_loop s')"
    using run_moves [OF assms(2)] by auto
  from spec_path_ok [OF path start_ok [OF assms(1)]] have ok: "spec_ok m (abs_loop s')" .
  have sw: "sp_left (abs_loop s') = m - int (length (filter is_switch ms))"
    using path_switches [OF path] by (simp add: NewFailoverState_def)
  have ve: "profitVetoCount s' = int (length (filter (\<lambda>m. \<exists>a. m = MVeto a) ms))"
    using path_vetoes [OF path] by (simp add: NewFailoverState_def)
  have ms: "MaxSwitches s' = m" using run_max_switches [OF assms(2)] by (simp add: NewFailoverState_def)
  have fc: "length (filter (\<lambda>m. \<exists>a. m = MVeto a) ms)
      = length (filter (\<lambda>i. \<exists>a. in_selection i = Selected a (SlotHeld Vetoed)) xs)"
    using fit by (rule fits_vetoes)
  from ok sw ve ms fc show ?thesis by (auto simp: spec_ok_def)
qed

theorem failover_invariant_witness:
  "0 \<le> SwitchCount (after_one 7 503) \<and> SwitchCount (after_one 7 503) \<le> 3 \<and>
    MaxSwitches (after_one 7 503) - SwitchCount (after_one 7 503) \<ge> 0 \<and>
    profitVetoedAccountIDs (after_one 7 503) \<subseteq> FailedAccountIDs (after_one 7 503) \<and>
    profitVetoCount (after_one 7 503) < maxProfitVetoAttempts \<and>
    profitVetoCount (after_one 7 503) =
      int (length (filter (\<lambda>i. \<exists>a. in_selection i = Selected a (SlotHeld Vetoed)) [failed_forward 7 503]))"
  by (rule failover_invariant [OF _ sample_run [of "\<lambda>_ _. True", unfolded start_def]]) simp_all

section \<open>Bounds and termination\<close>

text \<open>
  C19: With a request budget, a run that goes on after a forward has counted fewer attempts than
  \<open>max_attempts\<close>, whatever the upstreams, the retry limits and the number of accounts. The budget's
  counter is exact: the attempts before the loop, plus one for each failed forward of the run, plus
  the retries and repairs that the gateway services made in place during the forwards and that the
  budget admitted.
\<close>

theorem failover_attempts_within_budget:
  assumes "run ok C (s, c) xs (s', c')" and "requestBudget c = Some b" and "0 < forward_count C xs"
  shows "\<exists>b'. requestBudget c' = Some b' \<and> maxAttempts b' = maxAttempts b \<and>
    attempts b' = attempts b + forward_count C xs + granted_run C xs (s, c) \<and> int (attempts b') < maxAttempts b"
  using run_spent [OF assms(1), of "attempts b" "maxAttempts b"] assms(2,3) by (auto simp: spent_def)

definition budget_ctx :: ctx where
  "budget_ctx = \<lparr>cx_state = Some ((NewRequestState [])\<lparr>st_budget := NewBudget (Some Defaults) KindText (2 * second)\<rparr>),
     cx_capability = None, cx_effects = []\<rparr>"

text \<open>A forward that is retried in place once and then fails with the status.\<close>

definition repaired_forward :: "account_id \<Rightarrow> int \<Rightarrow> cc_input" where
  "repaired_forward a code = \<lparr>in_gone = False, in_selection = Selected a (SlotHeld (Admitted PlatformGemini 3
     (Forwarded \<lparr>fr_in_place = [\<lparr>ip_canceled = False, ip_account = 0, ip_same = False, ip_now = 3 * second, ip_reason = []\<rparr>],
        fr_error = ForwardError False (Some (shed_error code)), fr_result = None, fr_ctx_canceled = False,
        fr_written = False, fr_gone_error = False, fr_readings = calm_readings\<rparr>)))\<rparr>"

lemmas budget_ctx_defs = budget_ctx_def requestBudget_def st_Budget_def NewRequestState_def on_budget_def put_budget_def
  SetBudget_def NewBudget_def BudgetOn_def switch_def master_def Defaults_def window_closed_def minAttemptWindow_def
  time_Sub_def time_Add_def seconds_def wrap64_def sat64_def

lemma repair_admitted: "granted_run quiet_config [repaired_forward 7 503] (start, budget_ctx) = 1"
  by (simp add: granted_in_def repaired_forward_def mismatched_def quiet_config_def PlatformGemini_def charge_in_place_def
    ConsumeInPlaceRetry_def encrypted_repair_def Let_def budget_ctx_defs)

lemma budget_forward:
  "\<exists>l. iteration quiet_config (repaired_forward 7 503) (start, budget_ctx) = (None, l)"
  by (simp add: loop_defs repaired_forward_def charge_in_place_def ConsumeInPlaceRetry_def encrypted_repair_def
        quiet_config_def quiet_shed_terminal reason_consts calm_readings_def
        Let_def set_outcome_def SetRecoveryOutcome_def
        NoteCapabilityAttempt_def CapabilityRequestFrom_def start_def NewFailoverState_def quiet_shed
        result_def PlatformGemini_def PlatformAntigravity_def
        charge_failed_attempt_def RecordAttemptAt_def CanAttempt_def budget_ctx_defs
        StreamFailureReported_def SessionFailure_def st_session_def AllowCapacitySwitch_def empty_delivery_def)

theorem failover_attempts_within_budget_witness:
  "\<exists>b s' c' b'. requestBudget budget_ctx = Some b \<and>
    run (\<lambda>_ _. True) quiet_config (start, budget_ctx) [repaired_forward 7 503] (s', c') \<and>
    requestBudget c' = Some b' \<and> attempts b' = attempts b + 2 \<and> int (attempts b + 2) < maxAttempts b"
proof -
  obtain s' c' where "iteration quiet_config (repaired_forward 7 503) (start, budget_ctx) = (None, (s', c'))"
    using budget_forward by auto
  then have r: "run (\<lambda>_ _. True) quiet_config (start, budget_ctx) [repaired_forward 7 503] (s', c')"
    by (rule run_one [rotated]) simp
  have n: "forward_count quiet_config [repaired_forward 7 503] = 1"
    by (simp add: forward_count_def forwards_def repaired_forward_def mismatched_def quiet_config_def PlatformGemini_def)
  have "requestBudget budget_ctx \<noteq> None"
    by (simp add: budget_ctx_defs)
  then obtain b where b: "requestBudget budget_ctx = Some b" by auto
  from failover_attempts_within_budget [OF r b] n repair_admitted obtain b' where "requestBudget c' = Some b'"
    "attempts b' = attempts b + 2" "int (attempts b') < maxAttempts b" by auto
  with r b show ?thesis by (metis of_nat_add of_nat_numeral)
qed

text \<open>
  C23: Without a budget the forwards are still bounded: if the selection keeps its contract and every
  retry is counted (not bounded by a deadline alone), the forwards of a run are at most
  \<open>MaxSwitches\<close> plus the retry limits of the accounts.
\<close>

theorem failover_forward_bound:
  assumes "finite A" and "run (orderly A L) C (NewFailoverState m bound, c) xs (s', c')" and "0 \<le> m"
  shows "int (forward_count C xs) \<le> m + (\<Sum>a\<in>A. max 0 (L a))"
proof -
  let ?p = "abs_loop s'"
  have "used A ?p = used A (abs_loop (NewFailoverState m bound)) + int (forward_count C xs) \<and> (\<forall>a. sp_retries ?p a \<le> max 0 (L a))"
    using run_used [OF assms(2,1)] by (simp add: NewFailoverState_def)
  then have u: "used A ?p = int (forward_count C xs) - m" and r: "\<And>a. sp_retries ?p a \<le> max 0 (L a)"
    by (simp_all add: used_def NewFailoverState_def)
  obtain ms where "spec_path (cc_hosts C) (abs_loop (NewFailoverState m bound)) ms ?p"
    using run_moves [OF assms(2)] by auto
  from spec_path_ok [OF this start_ok [OF assms(3)]] have "0 \<le> sp_left ?p" by (simp add: spec_ok_def)
  moreover have "(\<Sum>a\<in>A. sp_retries ?p a) \<le> (\<Sum>a\<in>A. max 0 (L a))" using r by (intro sum_mono) simp
  ultimately show ?thesis using u by (simp add: used_def)
qed

lemma sample_orderly: "orderly {7} (\<lambda>_. 3) (failed_forward 7 503) (start, bare_ctx)"
  by (simp add: orderly_def fresh_def failed_forward_def start_def NewFailoverState_def counted_retry_def
        shed_error_def failover_error_def)

lemma sample_orderly_run:
  "run (orderly {7} (\<lambda>_. 3)) quiet_config (start, bare_ctx) [failed_forward 7 503] (after_one 7 503, bare_ctx)"
  by (rule sample_run [of "orderly {7} (\<lambda>_. 3)", OF sample_orderly])

theorem failover_forward_bound_witness:
  "int (forward_count quiet_config [failed_forward 7 503]) \<le> 3 + (\<Sum>a\<in>{7::int}. max 0 3)"
  by (rule failover_forward_bound [OF _ sample_orderly_run [unfolded start_def]]) simp_all

text \<open>
  C20: Between two back-offs the loop ends: with finitely many accounts, a selection that keeps its
  contract and counted retries, a run without a back-off has at most one iteration for each account
  and one for each retry that the limits allow.
\<close>

theorem failover_terminates_between_back_offs:
  assumes "finite A" and "run (orderly A L) C (s, c) xs (s', c')" and "list_all (\<lambda>i. \<not> backs_off i) xs"
    and "\<forall>a. 0 \<le> SameAccountRetryCount s a"
  shows "length xs \<le> card A + (\<Sum>a\<in>A. nat (L a))"
proof -
  have "length xs \<le> room A L (abs_loop s)" using run_room [OF assms(2,1,3)] by simp
  also have "\<dots> \<le> card A + (\<Sum>a\<in>A. nat (L a))"
    using assms(1,4) by (auto simp: room_def intro!: add_mono card_mono sum_mono nat_mono)
  finally show ?thesis .
qed

theorem failover_terminates_between_back_offs_witness:
  "length [failed_forward 7 503] \<le> card {7::int} + (\<Sum>a\<in>{7::int}. nat 3)"
  by (rule failover_terminates_between_back_offs [OF _ sample_orderly_run])
     (simp_all add: backs_off_def failed_forward_def start_def NewFailoverState_def)

text \<open>
  The back-offs of a request with a text budget end: they lie at least 2 s apart, and none
  starts later than 2 s before the end of the pre-output window, so all of them fit into it.
\<close>

theorem failover_back_offs_fit_window:
  assumes "run ok C (s, c) xs (s', c')" and "requestBudget c = Some b" and "deadline b \<noteq> 0"
    and "back_off_times xs = t # ts" and "paced (t # ts)"
  shows "t + int (length (t # ts)) * singleAccountBackoffDelay \<le> deadline b"
proof -
  have "list_all (\<lambda>t. t + minAttemptWindow \<le> deadline b) (t # ts)"
    using run_window [OF assms(1), of "deadline b"] assms(2-4) by (simp add: until_def)
  then have "last (t # ts) + minAttemptWindow \<le> deadline b" by (simp add: list_all_iff)
  with paced_span [OF assms(5)] show ?thesis
    by (simp add: minAttemptWindow_def singleAccountBackoffDelay_def algebra_simps)
qed

lemmas exhausted_defs = select_failed_def HandleSelectionExhausted_def recordSelectionExhausted_def
  selection_budget_ended_def clear_exclusions_def allExclusionsAreProfitVetoed_def sleepWithContext_def hard_categories_def

lemma budget_back_off: "\<exists>l. iteration quiet_config (no_selection (10 * second)) (after_one 7 503, budget_ctx) = (None, l)"
  by (simp add: iteration_def exhausted_defs no_selection_def calm_exhausted_def after_one_def start_def
        NewFailoverState_def quiet_config_def quiet_shed result_def budget_ctx_def requestBudget_def st_Budget_def
        set_outcome_def SetRecoveryOutcome_def NewRequestState_def on_budget_def put_budget_def SetBudget_def
        CanAttempt_def NewBudget_def BudgetOn_def switch_def master_def Defaults_def window_closed_def
        minAttemptWindow_def time_Sub_def time_Add_def seconds_def wrap64_def sat64_def CapacitySwitchUsed_def
        empty_delivery_def)

theorem failover_back_offs_fit_window_witness:
  "\<exists>b s' c'. requestBudget budget_ctx = Some b \<and>
     run (\<lambda>_ _. True) quiet_config (after_one 7 503, budget_ctx) [no_selection (10 * second)] (s', c') \<and>
     10 * second + singleAccountBackoffDelay \<le> deadline b"
proof -
  obtain s' c' where "iteration quiet_config (no_selection (10 * second)) (after_one 7 503, budget_ctx) = (None, (s', c'))"
    using budget_back_off by auto
  then have r: "run (\<lambda>_ _. True) quiet_config (after_one 7 503, budget_ctx) [no_selection (10 * second)] (s', c')"
    by (rule run_one [rotated]) simp
  have "\<exists>b. requestBudget budget_ctx = Some b \<and> deadline b \<noteq> 0"
    by (simp add: budget_ctx_def requestBudget_def st_Budget_def NewBudget_def BudgetOn_def switch_def master_def
          Defaults_def time_Add_def seconds_def wrap64_def)
  then obtain b where b: "requestBudget budget_ctx = Some b" "deadline b \<noteq> 0" by auto
  have "back_off_times [no_selection (10 * second)] = [10 * second]"
    by (simp add: back_off_times_def back_off_time_def no_selection_def calm_exhausted_def)
  from failover_back_offs_fit_window [OF r b this] r b(1) show ?thesis by auto
qed

text \<open>
  A request never asks the admission check about a vetoed account again, not even after a
  back-off has cleared the exclusions: the vetoed accounts are pairwise different and stay excluded.
\<close>

theorem failover_vetoes_once:
  assumes "run fresh C (NewFailoverState m bound, c) xs (s', c')"
  shows "distinct (vetoes_of xs) \<and> profitVetoedAccountIDs s' = set (vetoes_of xs) \<and> set (vetoes_of xs) \<subseteq> FailedAccountIDs s'"
  using run_vetoes [OF assms] by (auto simp: NewFailoverState_def)

definition after_veto :: "account_id \<Rightarrow> FailoverState" where
  "after_veto a = start\<lparr>FailedAccountIDs := {a}, profitVetoedAccountIDs := {a}, profitVetoCount := 1\<rparr>"

theorem failover_vetoes_once_witness:
  "distinct (vetoes_of [veto 5]) \<and> profitVetoedAccountIDs (after_veto 5) = set (vetoes_of [veto 5]) \<and>
     set (vetoes_of [veto 5]) \<subseteq> FailedAccountIDs (after_veto 5)"
proof -
  have "iteration quiet_config (veto 5) (start, bare_ctx) = (None, (after_veto 5, bare_ctx))"
    by (simp add: iteration_def selected_def RecordProfitVeto_def veto_def after_veto_def start_def NewFailoverState_def
          maxProfitVetoAttempts_def Let_def)
  then have "run fresh quiet_config (start, bare_ctx) [veto 5] (after_veto 5, bare_ctx)"
    by (rule run_one [rotated]) (simp add: fresh_def veto_def start_def NewFailoverState_def)
  from failover_vetoes_once [OF this [unfolded start_def]] show ?thesis .
qed

section \<open>A back-off that repeats\<close>

lemma run_append:
  assumes "run ok C l' ys l''" and "run ok C l xs l'"
  shows "run ok C l (xs @ ys) l''"
  using assms(1)
proof (induction rule: run.induct)
  case run_start
  show ?case using assms(2) by simp
next
  case (run_step ys l1 i l2)
  from run.run_step [OF run_step.IH run_step.hyps(2,3)] show ?case by simp
qed

definition idle_ctx :: "ctx \<Rightarrow> bool" where
  "idle_ctx c = (requestBudget c = None \<and> set_outcome ''selection_exhausted'' c = c)"

lemma idle_round:
  assumes "groupPlatform C = PlatformGemini" "platform \<noteq> PlatformGemini" "idle_ctx c"
    "LastFailoverErr s = Some e" "fe_StatusCode e = 503"
    "rCategory (ClassifyFailoverError (cc_env C) (Some e)) \<notin> set hard_categories" "SwitchCount s \<le> MaxSwitches s"
    "FailedAccountIDs s = {}" "profitVetoedAccountIDs s = {}"
  shows "run fresh C (s, c) [other_platform a platform, no_selection now] (s, c)"
proof -
  let ?s = "s\<lparr>FailedAccountIDs := {a}\<rparr>"
  have 1: "iteration C (other_platform a platform) (s, c) = (None, (?s, c))"
    using assms by (simp add: iteration_def selected_def admitted_def other_platform_def)
  have 2: "iteration C (no_selection now) (?s, c) = (None, (s, c))"
    using assms by (simp add: iteration_def exhausted_defs no_selection_def calm_exhausted_def idle_ctx_def)
  have "run fresh C (s, c) [other_platform a platform] (?s, c)"
    by (rule run_one [OF _ 1]) (simp add: fresh_def other_platform_def assms(8))
  from run.run_step [OF this _ 2] show ?thesis by (simp add: fresh_def no_selection_def)
qed

text \<open>
  C34: Without a request budget the loop need not end: in a Gemini group whose last failure was a 503,
  if the selection keeps offering only an account of another platform, the loop excludes it, backs
  off, forgets the exclusion and starts again, for any number of rounds, without one attempt and
  without using up a switch.
\<close>

theorem failover_back_off_repeats:
  assumes "groupPlatform C = PlatformGemini" "platform \<noteq> PlatformGemini" "idle_ctx c"
    "LastFailoverErr s = Some e" "fe_StatusCode e = 503"
    "rCategory (ClassifyFailoverError (cc_env C) (Some e)) \<notin> set hard_categories" "SwitchCount s \<le> MaxSwitches s"
    "FailedAccountIDs s = {}" "profitVetoedAccountIDs s = {}"
  shows "\<exists>xs. run fresh C (s, c) xs (s, c) \<and> forward_count C xs = 0 \<and> length (back_off_times xs) = n"
proof (induction n)
  case 0
  show ?case using run_start [of fresh C "(s, c)"] by (intro exI [of _ "[]"]) simp
next
  case (Suc n)
  then obtain xs where xs: "run fresh C (s, c) xs (s, c)" "forward_count C xs = 0" "length (back_off_times xs) = n"
    by blast
  let ?r = "[other_platform a platform, no_selection now]"
  have "forward_count C ?r = 0" "length (back_off_times ?r) = 1"
    by (simp_all add: forward_count_def forwards_def other_platform_def no_selection_def back_off_times_def back_off_time_def)
  with xs run_append [OF idle_round [OF assms] xs(1)] show ?case
    by (intro exI [of _ "xs @ ?r"]) (simp add: forward_count_def back_off_times_def)
qed

definition idle_state :: FailoverState where
  "idle_state = clear_exclusions (after_one 7 503)"

theorem failover_back_off_repeats_witness:
  "\<exists>xs. run fresh quiet_config (idle_state, bare_ctx) xs (idle_state, bare_ctx) \<and>
     forward_count quiet_config xs = 0 \<and> length (back_off_times xs) = 1000"
  by (rule failover_back_off_repeats [of _ PlatformAntigravity _ _ "shed_error 503"])
     (simp_all add: quiet_config_def quiet_shed result_def hard_categories_def idle_state_def after_one_def start_def
        NewFailoverState_def clear_exclusions_def idle_ctx_def bare_ctx_def requestBudget_def st_Budget_def
        set_outcome_def SetRecoveryOutcome_def PlatformGemini_def PlatformAntigravity_def)

section \<open>Which failures are retried\<close>

text \<open>
  A failure that the upstream or the content of the request makes final (a stop action, a state
  rejection, a refusal of the content) ends the request at once: no retry, no switch, no exclusion,
  and no attempt charged.
\<close>

theorem failover_final_failure_ends:
  assumes "final_failure V e" "\<not> rd_canceled rd"
  shows "\<exists>c'. HandleFailoverError V rd hosts a platform limit e s c = (FailoverExhausted, s\<lparr>LastFailoverErr := e\<rparr>, c')
    \<and> requestBudget c' = requestBudget c"
  by (rule handle_final [OF assms])

theorem failover_final_failure_ends_witness:
  "\<exists>c'. HandleFailoverError quiet_env calm_readings None 7 PlatformGemini 3
      (Some ((shed_error 400)\<lparr>fe_NextAccountAction := NextAccountStop\<rparr>)) start bare_ctx
    = (FailoverExhausted, start\<lparr>LastFailoverErr := Some ((shed_error 400)\<lparr>fe_NextAccountAction := NextAccountStop\<rparr>)\<rparr>, c')
    \<and> requestBudget c' = requestBudget bare_ctx"
  by (rule failover_final_failure_ends)
     (simp_all add: final_failure_def ShouldRetryNextAccount_def calm_readings_def)

text \<open>
  The same account is tried again only for a failure marked as retryable; with failure handling
  on never for a balance, authentication or missing-model failure, and under a budget never for a
  504 or 524 or for any hard failure.
\<close>

theorem failover_same_account_conditions:
  assumes "HandleFailoverError V rd hosts a platform limit e s c = (FailoverContinue, s', c')"
    and "SwitchCount s' = SwitchCount s"
  shows "e \<noteq> None \<and> RetryableOnSameAccount (the e) \<and>
    (FailureOn (fo_current V) \<longrightarrow> rCategory (ClassifyFailoverError V e) \<notin> set hard_categories) \<and>
    (requestBudget c \<noteq> None \<longrightarrow> fe_StatusCode (the e) \<notin> {504, 524} \<and> \<not> Hard (ClassifyFailoverError V e))"
  by (rule handle_retry [OF assms])

definition retry_error :: UpstreamFailoverError where
  "retry_error = (shed_error 503)\<lparr>RetryableOnSameAccount := True\<rparr>"

lemma retry_error_simps [simp]:
  "fe_Reason retry_error = []" "fe_NextAccountAction retry_error = NextAccountLegacyRetry" "RetryableOnSameAccount retry_error"
  "fe_ForceCacheBilling retry_error = False" "SameAccountRetryMax retry_error = 0" "SameAccountRetryDeadline retry_error = 0"
  by (simp_all add: retry_error_def shed_error_def failover_error_def)

lemma quiet_retry_error: "ClassifyFailoverError quiet_env (Some retry_error) = result CategoryCapacityShed ''request_scoped''"
  by (simp add: ClassifyFailoverError_def retry_error_def shed_error_def failover_error_def reason_consts
        IsCapabilityStreamOnly_def DecisionV2On_def switch_def master_def)

lemma retry_step:
  "\<exists>s'. HandleFailoverError quiet_env calm_readings None 7 PlatformGemini 3 (Some retry_error) start bare_ctx
     = (FailoverContinue, s', bare_ctx) \<and> SwitchCount s' = SwitchCount start"
  by (simp add: loop_defs retry_same_def resilienceStateRejected_def resilienceContentRejected_def quiet_retry_error result_def
        reason_consts calm_readings_def Let_def bare_ctx_def requestBudget_def st_Budget_def FailureOn_def master_def
        NoteCapabilityAttempt_def CapabilityRequestFrom_def start_def NewFailoverState_def sleepWithContext_def
        sameAccountRetryDeadlineAllows_def)

theorem failover_same_account_conditions_witness:
  "Some retry_error \<noteq> None \<and> RetryableOnSameAccount (the (Some retry_error))"
proof -
  obtain s' where "HandleFailoverError quiet_env calm_readings None 7 PlatformGemini 3 (Some retry_error) start bare_ctx
     = (FailoverContinue, s', bare_ctx)" "SwitchCount s' = SwitchCount start" using retry_step by auto
  from failover_same_account_conditions [OF this] show ?thesis by simp
qed

end
