(* ===== verification/Idem_Store.thy ===== *)
theory Idem_Store
  imports Go_Base
begin

text \<open>
  The store of idempotency records (\<open>repository/idempotency_repo.go\<close>, the record and the repository
  interface of \<open>service/idempotency.go\<close>). The table is a list of rows; each SQL statement is one atomic
  function of it. \<open>db_now\<close> is the database's \<open>NOW()\<close>; the identifiers come from a sequence that advances
  on every insert, also on one that finds a conflict. Times are kept exactly.
\<close>

section \<open>Records\<close>

definition IdempotencyStatusProcessing :: string where "IdempotencyStatusProcessing = ''processing''"
definition IdempotencyStatusSucceeded :: string where "IdempotencyStatusSucceeded = ''succeeded''"
definition IdempotencyStatusFailedRetryable :: string where "IdempotencyStatusFailedRetryable = ''failed_retryable''"

lemma status_distinct [simp]:
  "IdempotencyStatusProcessing \<noteq> IdempotencyStatusSucceeded" "IdempotencyStatusSucceeded \<noteq> IdempotencyStatusProcessing"
  "IdempotencyStatusProcessing \<noteq> IdempotencyStatusFailedRetryable"
  "IdempotencyStatusFailedRetryable \<noteq> IdempotencyStatusProcessing"
  "IdempotencyStatusSucceeded \<noteq> IdempotencyStatusFailedRetryable"
  "IdempotencyStatusFailedRetryable \<noteq> IdempotencyStatusSucceeded"
  by (simp_all add: IdempotencyStatusProcessing_def IdempotencyStatusSucceeded_def IdempotencyStatusFailedRetryable_def)

record IdempotencyRecord =
  ir_ID :: int
  ir_Scope :: string
  IdempotencyKeyHash :: string
  RequestFingerprint :: string
  ir_Status :: string
  ResponseStatus :: "int option"
  ir_ResponseBody :: "string option"
  ErrorReason :: "string option"
  LockedUntil :: "gotime option"
  ir_ExpiresAt :: gotime
  ir_CreatedAt :: gotime
  ir_UpdatedAt :: gotime

record store =
  rows :: "IdempotencyRecord list"
  next_id :: int

definition empty_store :: store where
  "empty_store = \<lparr>rows = [], next_id = 1\<rparr>"

section \<open>Statements\<close>

definition same_key :: "string \<Rightarrow> string \<Rightarrow> IdempotencyRecord \<Rightarrow> bool" where
  "same_key scope keyHash r = (ir_Scope r = scope \<and> IdempotencyKeyHash r = keyHash)"

definition GetByScopeAndKeyHash :: "string \<Rightarrow> string \<Rightarrow> store \<Rightarrow> IdempotencyRecord option" where
  "GetByScopeAndKeyHash scope keyHash st = find (same_key scope keyHash) (rows st)"

text \<open>\<open>INSERT ... ON CONFLICT DO NOTHING RETURNING\<close>: the stored record when the key was free.\<close>

definition CreateProcessing :: "gotime \<Rightarrow> IdempotencyRecord \<Rightarrow> store \<Rightarrow> IdempotencyRecord option \<times> store" where
  "CreateProcessing db_now r st =
     (let new_id = next_id st; st = st\<lparr>next_id := new_id + 1\<rparr>
      in if GetByScopeAndKeyHash (ir_Scope r) (IdempotencyKeyHash r) st \<noteq> None then (None, st)
         else let r = r\<lparr>ir_ID := new_id, ResponseStatus := None, ir_ResponseBody := None, ErrorReason := None,
                ir_CreatedAt := db_now, ir_UpdatedAt := db_now\<rparr>
           in (Some r, st\<lparr>rows := rows st @ [r]\<rparr>))"

text \<open>An \<open>UPDATE\<close> of the rows that match, and whether a row was affected.\<close>

definition update_rows ::
  "(IdempotencyRecord \<Rightarrow> bool) \<Rightarrow> (IdempotencyRecord \<Rightarrow> IdempotencyRecord) \<Rightarrow> store \<Rightarrow> bool \<times> store" where
  "update_rows cond f st =
     (list_ex cond (rows st), st\<lparr>rows := map (\<lambda>r. if cond r then f r else r) (rows st)\<rparr>)"

definition TryReclaim :: "gotime \<Rightarrow> int \<Rightarrow> string \<Rightarrow> gotime \<Rightarrow> gotime \<Rightarrow> gotime \<Rightarrow> store \<Rightarrow> bool \<times> store" where
  "TryReclaim db_now rid fromStatus now newLockedUntil newExpiresAt =
     update_rows
       (\<lambda>r. ir_ID r = rid \<and> ir_Status r = fromStatus \<and> (case LockedUntil r of None \<Rightarrow> True | Some t \<Rightarrow> t \<le> now))
       (\<lambda>r. r\<lparr>ir_Status := IdempotencyStatusProcessing, LockedUntil := Some newLockedUntil, ErrorReason := None,
          ir_UpdatedAt := db_now, ir_ExpiresAt := newExpiresAt\<rparr>)"

definition ExtendProcessingLock :: "gotime \<Rightarrow> int \<Rightarrow> string \<Rightarrow> gotime \<Rightarrow> gotime \<Rightarrow> store \<Rightarrow> bool \<times> store" where
  "ExtendProcessingLock db_now rid requestFingerprint newLockedUntil newExpiresAt =
     update_rows
       (\<lambda>r. ir_ID r = rid \<and> ir_Status r = IdempotencyStatusProcessing \<and> RequestFingerprint r = requestFingerprint)
       (\<lambda>r. r\<lparr>LockedUntil := Some newLockedUntil, ir_ExpiresAt := newExpiresAt, ir_UpdatedAt := db_now\<rparr>)"

definition MarkSucceeded :: "gotime \<Rightarrow> int \<Rightarrow> int \<Rightarrow> string \<Rightarrow> gotime \<Rightarrow> store \<Rightarrow> store" where
  "MarkSucceeded db_now rid responseStatus responseBody expiresAt st =
     snd (update_rows (\<lambda>r. ir_ID r = rid)
       (\<lambda>r. r\<lparr>ir_Status := IdempotencyStatusSucceeded, ResponseStatus := Some responseStatus,
          ir_ResponseBody := Some responseBody, ErrorReason := None, LockedUntil := None, ir_ExpiresAt := expiresAt,
          ir_UpdatedAt := db_now\<rparr>) st)"

definition MarkFailedRetryable :: "gotime \<Rightarrow> int \<Rightarrow> string \<Rightarrow> gotime \<Rightarrow> gotime \<Rightarrow> store \<Rightarrow> store" where
  "MarkFailedRetryable db_now rid errorReason lockedUntil expiresAt st =
     snd (update_rows (\<lambda>r. ir_ID r = rid)
       (\<lambda>r. r\<lparr>ir_Status := IdempotencyStatusFailedRetryable, ErrorReason := Some errorReason,
          LockedUntil := Some lockedUntil, ir_ExpiresAt := expiresAt, ir_UpdatedAt := db_now\<rparr>) st)"

text \<open>The expired rows, the earliest expiry first, at most \<open>limit\<close> (500 when not positive), are deleted.\<close>

definition DeleteExpired :: "gotime \<Rightarrow> int \<Rightarrow> store \<Rightarrow> int \<times> store" where
  "DeleteExpired now limit st =
     (let limit = (if limit \<le> 0 then 500 else limit);
          victims = map ir_ID (take (nat limit) (sort_key ir_ExpiresAt (filter (\<lambda>r. ir_ExpiresAt r \<le> now) (rows st))));
          kept = filter (\<lambda>r. ir_ID r \<notin> set victims) (rows st)
      in (int (length (rows st)) - int (length kept), st\<lparr>rows := kept\<rparr>))"

section \<open>Well-formed stores\<close>

definition row_key :: "IdempotencyRecord \<Rightarrow> string \<times> string" where
  "row_key r = (ir_Scope r, IdempotencyKeyHash r)"

definition store_ok :: "store \<Rightarrow> bool" where
  "store_ok st = (distinct (map ir_ID (rows st)) \<and> distinct (map row_key (rows st)) \<and>
     list_all (\<lambda>r. 0 < ir_ID r \<and> ir_ID r < next_id st) (rows st) \<and> 0 < next_id st)"

lemma empty_store_ok: "store_ok empty_store"
  by (simp add: store_ok_def empty_store_def)

lemma get_some:
  "GetByScopeAndKeyHash scope keyHash st = Some r \<Longrightarrow> r \<in> set (rows st) \<and> row_key r = (scope, keyHash)"
  by (auto simp: GetByScopeAndKeyHash_def find_Some_iff same_key_def row_key_def)

lemma get_none:
  "GetByScopeAndKeyHash scope keyHash st = None \<longleftrightarrow> (\<forall>r \<in> set (rows st). row_key r \<noteq> (scope, keyHash))"
  by (auto simp: GetByScopeAndKeyHash_def find_None_iff same_key_def row_key_def)

lemma update_rows_ok:
  assumes "\<And>r. ir_ID (f r) = ir_ID r" "\<And>r. row_key (f r) = row_key r" "store_ok st"
  shows "store_ok (snd (update_rows cond f st))"
proof -
  let ?st = "snd (update_rows cond f st)"
  have ids: "map ir_ID (rows ?st) = map ir_ID (rows st)" and keys: "map row_key (rows ?st) = map row_key (rows st)"
    using assms(1,2) by (simp_all add: update_rows_def)
  have "list_all (\<lambda>r. 0 < ir_ID r \<and> ir_ID r < next_id ?st) (rows ?st)"
    using assms(1,3) by (auto simp: store_ok_def list_all_iff update_rows_def)
  moreover have "next_id ?st = next_id st" by (simp add: update_rows_def)
  ultimately show ?thesis using assms(3) by (simp only: store_ok_def ids keys)
qed

lemma update_rows_none:
  assumes "\<And>r. r \<in> set (rows st) \<Longrightarrow> \<not> cond r"
  shows "update_rows cond f st = (False, st)"
proof -
  have "map (\<lambda>r. if cond r then f r else r) (rows st) = rows st" using assms by (simp add: map_idI)
  with assms show ?thesis by (auto simp: update_rows_def list_ex_iff)
qed

lemma create_ok: "store_ok st \<Longrightarrow> store_ok (snd (CreateProcessing now r st))"
  by (auto simp: CreateProcessing_def Let_def store_ok_def get_none row_key_def list_all_iff GetByScopeAndKeyHash_def
        find_None_iff same_key_def)

lemma statements_ok:
  "store_ok st \<Longrightarrow> store_ok (snd (TryReclaim db_now rid from now lu ex st))"
  "store_ok st \<Longrightarrow> store_ok (snd (ExtendProcessingLock db_now rid fp lu ex st))"
  "store_ok st \<Longrightarrow> store_ok (MarkSucceeded db_now rid code body ex st)"
  "store_ok st \<Longrightarrow> store_ok (MarkFailedRetryable db_now rid reason lu ex st)"
  "store_ok st \<Longrightarrow> store_ok (snd (DeleteExpired now limit st))"
  unfolding TryReclaim_def ExtendProcessingLock_def MarkSucceeded_def MarkFailedRetryable_def
  by (auto intro!: update_rows_ok simp: row_key_def)
     (auto simp: DeleteExpired_def Let_def store_ok_def distinct_map_filter list_all_iff)

section \<open>Ownership of rows\<close>

text \<open>
  What a client of the store relies on, over the statuses of the rows: a row becomes \<open>processing\<close> only
  for the client whose insert or reclaim succeeded, and a reclaim succeeds only from the status that
  the client names. \<open>owners\<close> gives the row that each client is working on.
\<close>

locale lease_table =
  fixes status_of :: "'s \<Rightarrow> int \<Rightarrow> string option"
    and create :: "'s \<Rightarrow> 's \<Rightarrow> int \<Rightarrow> bool"
    and reclaim :: "'s \<Rightarrow> 's \<Rightarrow> string \<Rightarrow> int \<Rightarrow> bool"
    and finish :: "'s \<Rightarrow> 's \<Rightarrow> int \<Rightarrow> bool"
  assumes create_law: "create s s' k \<Longrightarrow> status_of s k = None \<and>
      status_of s' = (status_of s)(k \<mapsto> IdempotencyStatusProcessing)"
    and reclaim_law: "reclaim s s' src k \<Longrightarrow> status_of s k = Some src \<and>
      status_of s' = (status_of s)(k \<mapsto> IdempotencyStatusProcessing)"
    and finish_law: "finish s s' k \<Longrightarrow> j \<noteq> k \<Longrightarrow> status_of s' j = status_of s j"
begin

definition owned :: "'s \<Rightarrow> ('c \<Rightarrow> int option) \<Rightarrow> bool" where
  "owned s owners = ((\<forall>i k. owners i = Some k \<longrightarrow> status_of s k = Some IdempotencyStatusProcessing) \<and>
     (\<forall>i j k. owners i = Some k \<longrightarrow> owners j = Some k \<longrightarrow> i = j))"

lemma owned_same: "owned s owners \<Longrightarrow> status_of s' = status_of s \<Longrightarrow> owned s' owners"
  by (simp add: owned_def)

lemma owned_create:
  assumes "owned s owners" "create s s' k"
  shows "owned s' (owners(i \<mapsto> k))"
proof -
  from create_law [OF assms(2)] have new: "status_of s k = None"
    and s': "status_of s' = (status_of s)(k \<mapsto> IdempotencyStatusProcessing)" by simp_all
  from assms(1) new have "\<And>j. owners j \<noteq> Some k" by (fastforce simp: owned_def)
  with assms(1) s' show ?thesis by (auto simp: owned_def)
qed

lemma owned_reclaim:
  assumes "owned s owners" "reclaim s s' src k" "src \<noteq> IdempotencyStatusProcessing"
  shows "owned s' (owners(i \<mapsto> k))"
proof -
  from reclaim_law [OF assms(2)] have old: "status_of s k = Some src"
    and s': "status_of s' = (status_of s)(k \<mapsto> IdempotencyStatusProcessing)" by simp_all
  from assms(1,3) old have "\<And>j. owners j \<noteq> Some k" by (fastforce simp: owned_def)
  with assms(1) s' show ?thesis by (auto simp: owned_def)
qed

lemma owned_finish:
  assumes "owned s owners" "finish s s' k" "owners i = Some k"
  shows "owned s' (owners(i := None))"
  using assms finish_law [OF assms(2)] by (auto simp: owned_def) metis+

lemma owned_drop: "owned s owners \<Longrightarrow> owned s (owners(i := None))"
  by (auto simp: owned_def)

end

definition status_of :: "store \<Rightarrow> int \<Rightarrow> string option" where
  "status_of st k = map_option ir_Status (find (\<lambda>r. ir_ID r = k) (rows st))"

definition created :: "store \<Rightarrow> store \<Rightarrow> int \<Rightarrow> bool" where
  "created st st' k = (store_ok st \<and> (\<exists>now r r'. ir_Status r = IdempotencyStatusProcessing \<and>
     CreateProcessing now r st = (Some r', st') \<and> k = ir_ID r'))"

definition reclaimed :: "store \<Rightarrow> store \<Rightarrow> string \<Rightarrow> int \<Rightarrow> bool" where
  "reclaimed st st' src k = (store_ok st \<and> (\<exists>db_now now lu ex. TryReclaim db_now k src now lu ex st = (True, st')))"

definition finished :: "store \<Rightarrow> store \<Rightarrow> int \<Rightarrow> bool" where
  "finished st st' k = (\<exists>now code body reason lu ex. st' = MarkSucceeded now k code body ex st \<or>
     st' = MarkFailedRetryable now k reason lu ex st)"

lemma status_of_update:
  assumes "\<And>r. ir_ID (f r) = ir_ID r"
  shows "status_of (snd (update_rows cond f st)) k =
    map_option (\<lambda>r. ir_Status (if cond r then f r else r)) (find (\<lambda>r. ir_ID r = k) (rows st))"
proof -
  have "find (\<lambda>r. ir_ID r = k) (map (\<lambda>r. if cond r then f r else r) rs) =
      map_option (\<lambda>r. if cond r then f r else r) (find (\<lambda>r. ir_ID r = k) rs)" for rs
    using assms by (induction rs) auto
  then show ?thesis by (simp add: status_of_def update_rows_def option.map_comp comp_def)
qed

lemma status_of_update_other:
  assumes "\<And>r. ir_ID (f r) = ir_ID r" "\<And>r. cond r \<Longrightarrow> ir_ID r = k" "j \<noteq> k"
  shows "status_of (snd (update_rows cond f st)) j = status_of st j"
proof (cases "find (\<lambda>r. ir_ID r = j) (rows st)")
  case None
  then show ?thesis by (subst status_of_update [OF assms(1)]) (simp add: status_of_def)
next
  case (Some r)
  then have "ir_ID r = j" by (auto simp: find_Some_iff)
  with assms(2,3) have "\<not> cond r" by blast
  with Some show ?thesis by (subst status_of_update [OF assms(1)]) (simp add: status_of_def)
qed

lemma status_of_none: "status_of st k = None \<longleftrightarrow> (\<forall>r \<in> set (rows st). ir_ID r \<noteq> k)"
  by (auto simp: status_of_def find_None_iff)

lemma status_of_row:
  "store_ok st \<Longrightarrow> r \<in> set (rows st) \<Longrightarrow> status_of st (ir_ID r) = Some (ir_Status r)"
proof -
  assume ok: "store_ok st" and r: "r \<in> set (rows st)"
  then obtain r' where f: "find (\<lambda>x. ir_ID x = ir_ID r) (rows st) = Some r'"
    by (metis (mono_tags, lifting) find_None_iff not_Some_eq)
  then have "r' \<in> set (rows st)" "ir_ID r' = ir_ID r" by (auto simp: find_Some_iff)
  with ok r have "r' = r" by (auto simp: store_ok_def distinct_map inj_on_def)
  with f show ?thesis by (simp add: status_of_def)
qed

interpretation leases: lease_table status_of created reclaimed finished
proof unfold_locales
  show "status_of s k = None \<and> status_of s' = (status_of s)(k \<mapsto> IdempotencyStatusProcessing)" if "created s s' k" for s s' k
  proof -
    from that obtain now r r' where ok: "store_ok s" and p: "ir_Status r = IdempotencyStatusProcessing"
      and c: "CreateProcessing now r s = (Some r', s')" and k: "k = ir_ID r'" by (auto simp: created_def)
    from c have k': "k = next_id s" and rows: "rows s' = rows s @ [r']" and st: "ir_Status r' = IdempotencyStatusProcessing"
      using k p by (auto simp: CreateProcessing_def Let_def split: if_splits)
    from ok k' have none: "find (\<lambda>r. ir_ID r = k) (rows s) = None"
      by (auto simp: store_ok_def list_all_iff find_None_iff)
    have app: "find P (xs @ [y]) = (case find P xs of None \<Rightarrow> if P y then Some y else None | Some z \<Rightarrow> Some z)"
      for P :: "IdempotencyRecord \<Rightarrow> bool" and xs y by (induction xs) auto
    from none k st show ?thesis
      by (auto simp: status_of_def rows app fun_eq_iff split: option.splits)
  qed
  show "status_of s k = Some src \<and> status_of s' = (status_of s)(k \<mapsto> IdempotencyStatusProcessing)"
    if "reclaimed s s' src k" for s s' src k
  proof -
    from that obtain db_now now lu ex where ok: "store_ok s" and t: "TryReclaim db_now k src now lu ex s = (True, s')"
      by (auto simp: reclaimed_def)
    then obtain r where r: "r \<in> set (rows s)" "ir_ID r = k" "ir_Status r = src"
      "case LockedUntil r of None \<Rightarrow> True | Some t \<Rightarrow> t \<le> now"
      by (auto simp: TryReclaim_def update_rows_def list_ex_iff)
    have f: "find (\<lambda>x. ir_ID x = k) (rows s) = Some r"
    proof -
      obtain r' where f: "find (\<lambda>x. ir_ID x = k) (rows s) = Some r'"
        using r by (metis (mono_tags, lifting) find_None_iff not_Some_eq)
      then have "r' \<in> set (rows s)" "ir_ID r' = ir_ID r" using r by (auto simp: find_Some_iff)
      with ok r(1) have "r' = r" by (auto simp: store_ok_def distinct_map inj_on_def)
      with f show ?thesis by simp
    qed
    have s': "s' = snd (TryReclaim db_now k src now lu ex s)" using t by simp
    have "status_of s' j = ((status_of s)(k \<mapsto> IdempotencyStatusProcessing)) j" for j
    proof (cases "j = k")
      case True
      with f r show ?thesis unfolding s' TryReclaim_def by (subst status_of_update) auto
    next
      case False
      then show ?thesis unfolding s' TryReclaim_def
        by (subst status_of_update_other [where k = k]) auto
    qed
    then have "status_of s' = (status_of s)(k \<mapsto> IdempotencyStatusProcessing)" by blast
    with f r show ?thesis by (simp add: status_of_def)
  qed
  show "status_of s' j = status_of s j" if "finished s s' k" "j \<noteq> k" for s s' k j
    using that unfolding finished_def MarkSucceeded_def MarkFailedRetryable_def
    by (auto intro!: status_of_update_other [where k = k])
qed

end
