(* ===== verification/Idem_Execute.thy ===== *)
theory Idem_Execute
  imports Idem_Store Resil_Settings Float64 Resil_Retry_Hint
begin

text \<open>
  The idempotency coordinator (\<open>service/idempotency.go\<close>): keys, fingerprints, stored responses, and
  \<open>Execute\<close> as a machine whose steps are its calls on the store and on the guarded operation, so that
  several requests can interleave between the calls.

  SHA-256 (with its hexadecimal text), \<open>encoding/json\<close> on payloads and results, and the redaction of
  secrets (\<open>logredact.RedactText\<close>) are the parameters \<open>idem_env\<close>; \<open>'p\<close> is the type of payloads, \<open>'d\<close> of
  results. A store that fails is an event of the step. The nil repository, metrics and audit log are
  not modelled.
\<close>

section \<open>Configuration, keys and fingerprints\<close>

record IdempotencyConfig =
  DefaultTTL :: duration
  SystemOperationTTL :: duration
  ProcessingTimeout :: duration
  FailedRetryBackoff :: duration
  MaxStoredResponseLen :: int
  ObserveOnly :: bool

definition DefaultIdempotencyConfig :: IdempotencyConfig where
  "DefaultIdempotencyConfig =
     \<lparr>DefaultTTL = 24 * hour, SystemOperationTTL = 1 * hour, ProcessingTimeout = 30 * second,
      FailedRetryBackoff = 5 * second, MaxStoredResponseLen = 64 * 1024, ObserveOnly = True\<rparr>"

text \<open>The errors; the two conflicts may carry a \<open>retry_after\<close> in seconds.\<close>

datatype idem_error =
    KeyRequired | KeyInvalid | KeyConflict | InProgress "int option" | RetryBackoff "int option"
  | StoreUnavail | InvalidPayload | ScopeRequired | ExecutorNil | ExecutionFailed string

definition NormalizeIdempotencyKey :: "string \<Rightarrow> idem_error + string" where
  "NormalizeIdempotencyKey raw =
     (let key = TrimSpace raw
      in if key = [] then Inr []
         else if 128 < length key then Inl KeyInvalid
         else if list_ex (\<lambda>c. (of_char c :: nat) < 33 \<or> 126 < (of_char c :: nat)) key then Inl KeyInvalid
         else Inr key)"

record ('p, 'd) idem_env =
  sha256_hex :: "string \<Rightarrow> string"
  marshal_payload :: "'p \<Rightarrow> string option"
  marshal_data :: "'d \<Rightarrow> string option"
  RedactText :: "string \<Rightarrow> string"
  unmarshal_data :: "string \<Rightarrow> 'd option"
  empty_data :: 'd

definition HashIdempotencyKey :: "('p, 'd) idem_env \<Rightarrow> string \<Rightarrow> string" where
  "HashIdempotencyKey E key = sha256_hex E key"

definition newline :: string where "newline = [CHR 0x0A]"

definition BuildIdempotencyFingerprint ::
  "('p, 'd) idem_env \<Rightarrow> string \<Rightarrow> string \<Rightarrow> string \<Rightarrow> 'p \<Rightarrow> idem_error + string" where
  "BuildIdempotencyFingerprint E method route actorScope payload =
     (let method = (if method = [] then ''POST'' else method);
          route = (if route = [] then ''/'' else route);
          actorScope = (if actorScope = [] then ''anonymous'' else actorScope)
      in case marshal_payload E payload of
           None \<Rightarrow> Inl InvalidPayload
         | Some raw \<Rightarrow> Inr (sha256_hex E
             (map upper_char method @ newline @ route @ newline @ actorScope @ newline @ raw)))"

section \<open>Stored responses\<close>

function valid_utf8 :: "nat list \<Rightarrow> bool" where
  "valid_utf8 [] = True"
| "valid_utf8 (b # bs) =
     (let n = rune_len (b # bs @ [0, 0, 0])
      in (1 < n \<or> b < 0x80) \<and> valid_utf8 (drop (n - 1) bs))"
  by pat_completeness auto
termination by (relation "measure length") auto

fun truncate_loop :: "string \<Rightarrow> nat \<Rightarrow> string" where
  "truncate_loop s 0 = []"
| "truncate_loop s (Suc n) =
     (if valid_utf8 (map of_char (take (Suc n) s)) then take (Suc n) s else truncate_loop s n)"

definition truncateUTF8 :: "string \<Rightarrow> int \<Rightarrow> string" where
  "truncateUTF8 s maxBytes =
     (if maxBytes \<le> 0 \<or> int (length s) \<le> maxBytes then s else truncate_loop s (nat maxBytes))"

definition truncation_mark :: string where "truncation_mark = ''...(truncated)''"

definition marshalStoredResponse :: "('p, 'd) idem_env \<Rightarrow> IdempotencyConfig \<Rightarrow> 'd \<Rightarrow> string option" where
  "marshalStoredResponse E cfg data = (case marshal_data E data of
       None \<Rightarrow> None
     | Some raw \<Rightarrow>
         let redacted = RedactText E raw
         in Some (if 0 < MaxStoredResponseLen cfg \<and> MaxStoredResponseLen cfg < int (length redacted)
                  then truncateUTF8 redacted (MaxStoredResponseLen cfg) @ truncation_mark else redacted))"

definition decodeStoredResponse :: "('p, 'd) idem_env \<Rightarrow> string option \<Rightarrow> 'd option" where
  "decodeStoredResponse E stored = (case stored of
       None \<Rightarrow> Some (empty_data E)
     | Some body \<Rightarrow> if TrimSpace body = [] then Some (empty_data E) else unmarshal_data E body)"

text \<open>\<open>int(d.Seconds())\<close>, with the float arithmetic of \<open>Seconds\<close>.\<close>

definition int_seconds :: "duration \<Rightarrow> int" where
  "int_seconds d =
     (let sec = go_div d second; nsec = d - sec * second
      in to_int64 (Fin (f64_rat (of_int sec + f64_rat (of_int nsec / 1000000000)))))"

definition conflictWithRetryAfter :: "(int option \<Rightarrow> idem_error) \<Rightarrow> gotime option \<Rightarrow> gotime \<Rightarrow> idem_error" where
  "conflictWithRetryAfter base lockedUntil now = (case lockedUntil of
       None \<Rightarrow> base None
     | Some t \<Rightarrow> let sec = int_seconds (time_Sub t now) in base (Some (if sec \<le> 0 then 1 else sec)))"

section \<open>Execute: before the store\<close>

record 'p IdempotencyExecuteOptions =
  op_Scope :: string
  ActorScope :: string
  Method :: string
  Route :: string
  IdempotencyKey :: string
  Payload :: 'p
  op_TTL :: duration
  RequireKey :: bool
  ExecutionTimeout :: duration

text \<open>What a request claims: its record, the clock at the claim, the time to live.\<close>

record claim =
  cl_record :: IdempotencyRecord
  cl_now :: gotime
  cl_ttl :: duration
  cl_bounded :: bool

definition cl_locked :: "IdempotencyConfig \<Rightarrow> claim \<Rightarrow> gotime" where
  "cl_locked cfg cl = time_Add (cl_now cl) (ProcessingTimeout cfg)"

definition cl_expires :: "claim \<Rightarrow> gotime" where
  "cl_expires cl = time_Add (cl_now cl) (cl_ttl cl)"

datatype prepared = Refused idem_error | Unkeyed | Keyed claim

definition prepare ::
  "('p, 'd) idem_env \<Rightarrow> IdempotencyConfig \<Rightarrow> 'p IdempotencyExecuteOptions \<Rightarrow> bool \<Rightarrow> gotime \<Rightarrow> prepared" where
  "prepare E cfg opts executor now =
     (if \<not> executor then Refused ExecutorNil
      else case NormalizeIdempotencyKey (IdempotencyKey opts) of
        Inl err \<Rightarrow> Refused err
      | Inr key \<Rightarrow>
          if key = [] then (if RequireKey opts \<and> \<not> ObserveOnly cfg then Refused KeyRequired else Unkeyed)
          else if op_Scope opts = [] then Refused ScopeRequired
          else case BuildIdempotencyFingerprint E (Method opts) (Route opts) (ActorScope opts) (Payload opts) of
            Inl err \<Rightarrow> Refused err
          | Inr fingerprint \<Rightarrow>
              let ttl = (if op_TTL opts \<le> 0 then DefaultTTL cfg else op_TTL opts)
              in Keyed \<lparr>cl_record =
                   \<lparr>ir_ID = 0, ir_Scope = op_Scope opts, IdempotencyKeyHash = HashIdempotencyKey E key,
                    RequestFingerprint = fingerprint, ir_Status = IdempotencyStatusProcessing, ResponseStatus = None,
                    ir_ResponseBody = None, ErrorReason = None,
                    LockedUntil = Some (time_Add now (ProcessingTimeout cfg)), ir_ExpiresAt = time_Add now ttl,
                    ir_CreatedAt = 0, ir_UpdatedAt = 0\<rparr>,
                   cl_now = now, cl_ttl = ttl, cl_bounded = (0 < ExecutionTimeout opts)\<rparr>)"

section \<open>Execute: on the store\<close>

text \<open>
  The places between two calls: before the insert, before reading the existing record, before
  reclaiming it (\<open>True\<close>: because it expired), before reading it again after a lost reclaim, during the
  operation (with the renewal of the lease running or not), before storing its result, answered.
\<close>

datatype 'd pc =
    Claiming
  | Looking
  | Reclaiming bool IdempotencyRecord
  | LookingAgain
  | Executing int bool
  | Saving int "string + 'd"
  | Answered "idem_error + ('d \<times> bool)"
  | Gone

text \<open>
  What happens next: a call on the store fails, or runs (the database's clock and the process's clock);
  the operation returns a result or the reason of its error; the lease is renewed (the same two
  clocks); the process ends.
\<close>

datatype 'd event = StoreFails | StoreRuns gotime gotime | Returns "string + 'd" | Renews gotime gotime | Crashes

definition by_status :: "('p, 'd) idem_env \<Rightarrow> claim \<Rightarrow> IdempotencyRecord \<Rightarrow> 'd pc" where
  "by_status E cl ex =
     (if ir_Status ex = IdempotencyStatusSucceeded then
        (case decodeStoredResponse E (ir_ResponseBody ex) of
           None \<Rightarrow> Answered (Inl StoreUnavail)
         | Some data \<Rightarrow> Answered (Inr (data, True)))
      else if ir_Status ex = IdempotencyStatusProcessing then
        Answered (Inl (conflictWithRetryAfter InProgress (LockedUntil ex) (cl_now cl)))
      else if ir_Status ex = IdempotencyStatusFailedRetryable then
        (if LockedUntil ex \<noteq> None \<and> time_After (the (LockedUntil ex)) (cl_now cl)
         then Answered (Inl (conflictWithRetryAfter RetryBackoff (LockedUntil ex) (cl_now cl)))
         else Reclaiming False ex)
      else Answered (Inl KeyConflict))"

definition look :: "('p, 'd) idem_env \<Rightarrow> claim \<Rightarrow> IdempotencyRecord option \<Rightarrow> 'd pc" where
  "look E cl found = (case found of
       None \<Rightarrow> Answered (Inl StoreUnavail)
     | Some ex \<Rightarrow>
         if RequestFingerprint ex \<noteq> RequestFingerprint (cl_record cl) then Answered (Inl KeyConflict)
         else if \<not> time_After (ir_ExpiresAt ex) (cl_now cl) then Reclaiming True ex
         else by_status E cl ex)"

definition look_again :: "('p, 'd) idem_env \<Rightarrow> claim \<Rightarrow> IdempotencyRecord option \<Rightarrow> 'd pc" where
  "look_again E cl found = (case found of
       None \<Rightarrow> Answered (Inl StoreUnavail)
     | Some ex \<Rightarrow>
         if RequestFingerprint ex \<noteq> RequestFingerprint (cl_record cl) then Answered (Inl KeyConflict)
         else by_status E cl ex)"

text \<open>The claimed record; an identifier 0 means that the store returned none.\<close>

definition run_claimed :: "claim \<Rightarrow> int \<Rightarrow> 'd pc" where
  "run_claimed cl rid = (if rid = 0 then Answered (Inl StoreUnavail) else Executing rid (cl_bounded cl))"

definition reclaim_step ::
  "IdempotencyConfig \<Rightarrow> claim \<Rightarrow> bool \<Rightarrow> IdempotencyRecord \<Rightarrow> gotime \<Rightarrow> store \<Rightarrow> 'd pc \<times> store" where
  "reclaim_step cfg cl expired ex db_now st =
     (let src = (if expired then ir_Status ex else IdempotencyStatusFailedRetryable);
          (taken, st) = TryReclaim db_now (ir_ID ex) src (cl_now cl) (cl_locked cfg cl) (cl_expires cl) st
      in (if taken then run_claimed cl (ir_ID ex)
          else if expired then LookingAgain
          else Answered (Inl (conflictWithRetryAfter InProgress (LockedUntil ex) (cl_now cl))), st))"

text \<open>The result's expiry: counted from the end of the operation when its time is bounded.\<close>

definition save_expires :: "claim \<Rightarrow> gotime \<Rightarrow> gotime" where
  "save_expires cl now = (if cl_bounded cl then time_Add now (cl_ttl cl) else cl_expires cl)"

definition save_step ::
  "('p, 'd) idem_env \<Rightarrow> IdempotencyConfig \<Rightarrow> claim \<Rightarrow> int \<Rightarrow> string + 'd \<Rightarrow> (gotime \<times> gotime) option \<Rightarrow> store \<Rightarrow> 'd pc \<times> store" where
  "save_step E cfg cl rid res clocks st = (case res of
       Inl reason \<Rightarrow>
         let reason' = (if reason = [] then ''EXECUTION_FAILED'' else reason)
         in (Answered (Inl (ExecutionFailed reason)),
             (case clocks of
                None \<Rightarrow> st
              | Some (db_now, now) \<Rightarrow>
                  MarkFailedRetryable db_now rid reason' (time_Add now (FailedRetryBackoff cfg)) (save_expires cl now) st))
     | Inr data \<Rightarrow>
         (case marshalStoredResponse E cfg data of
            None \<Rightarrow> (Answered (Inl StoreUnavail), st)
          | Some body \<Rightarrow>
              (case clocks of
                 None \<Rightarrow> (Answered (Inl StoreUnavail), st)
               | Some (db_now, now) \<Rightarrow>
                   (Answered (Inr (data, False)), MarkSucceeded db_now rid 200 body (save_expires cl now) st))))"

text \<open>The lease of a renewal, and the renewal of a lease.\<close>

definition renew_lease :: "IdempotencyConfig \<Rightarrow> duration" where
  "renew_lease cfg = (if ProcessingTimeout cfg \<le> 0 then ProcessingTimeout DefaultIdempotencyConfig else ProcessingTimeout cfg)"

definition renew_step :: "IdempotencyConfig \<Rightarrow> claim \<Rightarrow> int \<Rightarrow> gotime \<Rightarrow> gotime \<Rightarrow> store \<Rightarrow> 'd pc \<times> store" where
  "renew_step cfg cl rid db_now now st =
     (let (alive, st) = ExtendProcessingLock db_now rid (RequestFingerprint (cl_record cl))
            (time_Add now (renew_lease cfg)) (time_Add now (cl_ttl cl)) st
      in (Executing rid alive, st))"

definition idem_step ::
  "('p, 'd) idem_env \<Rightarrow> IdempotencyConfig \<Rightarrow> claim \<Rightarrow> 'd event \<Rightarrow> 'd pc \<Rightarrow> store \<Rightarrow> 'd pc \<times> store" where
  "idem_step E cfg cl ev p st =
     (let r = cl_record cl; found = GetByScopeAndKeyHash (ir_Scope r) (IdempotencyKeyHash r) st
      in case (p, ev) of
        (Answered res, _) \<Rightarrow> (p, st)
      | (Gone, _) \<Rightarrow> (p, st)
      | (_, Crashes) \<Rightarrow> (Gone, st)
      | (Claiming, StoreFails) \<Rightarrow> (Answered (Inl StoreUnavail), st)
      | (Claiming, StoreRuns t now) \<Rightarrow>
          (case CreateProcessing t r st of
             (None, st) \<Rightarrow> (Looking, st)
           | (Some r, st) \<Rightarrow> (run_claimed cl (ir_ID r), st))
      | (Looking, StoreFails) \<Rightarrow> (Answered (Inl StoreUnavail), st)
      | (Looking, StoreRuns t now) \<Rightarrow> (look E cl found, st)
      | (LookingAgain, StoreFails) \<Rightarrow> (Answered (Inl StoreUnavail), st)
      | (LookingAgain, StoreRuns t now) \<Rightarrow> (look_again E cl found, st)
      | (Reclaiming expired ex, StoreFails) \<Rightarrow> (Answered (Inl StoreUnavail), st)
      | (Reclaiming expired ex, StoreRuns t now) \<Rightarrow> reclaim_step cfg cl expired ex t st
      | (Executing rid renewing, Returns res) \<Rightarrow> (Saving rid res, st)
      | (Executing rid True, Renews db_now now) \<Rightarrow> renew_step cfg cl rid db_now now st
      | (Saving rid res, StoreFails) \<Rightarrow> save_step E cfg cl rid res None st
      | (Saving rid res, StoreRuns t now) \<Rightarrow> save_step E cfg cl rid res (Some (t, now)) st
      | _ \<Rightarrow> (p, st))"

end
