(* ===== verification/Idem_Lock.thy ===== *)
theory Idem_Lock
  imports Idem_Execute
begin

text \<open>
  The global lock of system operations (\<open>service/system_operation_lock_service.go\<close>): one record of the
  idempotency store, whose fingerprint names the operation that holds it. \<open>Acquire\<close> is a machine of its
  calls on the store; renewal and release are single calls. Failures of the store are events; the
  renewal goroutine is the step \<open>renew_lock\<close>.
\<close>

definition systemOperationLockScope :: string where
  "systemOperationLockScope = ''admin.system.operations.global_lock''"
definition systemOperationLockKey :: string where
  "systemOperationLockKey = ''global-system-operation-lock''"

record SystemOperationLock =
  recordID :: int
  operationID :: string

definition OperationID :: "SystemOperationLock option \<Rightarrow> string" where
  "OperationID l = (case l of None \<Rightarrow> [] | Some l \<Rightarrow> operationID l)"

record lock_service =
  lease :: duration
  renewInterval :: duration
  lock_ttl :: duration

definition NewSystemOperationLockService :: "IdempotencyConfig \<Rightarrow> lock_service" where
  "NewSystemOperationLockService cfg =
     (let lease = (if ProcessingTimeout cfg \<le> 0 then 30 * second else ProcessingTimeout cfg);
          interval = go_div lease 3;
          interval = (if interval < second then second else interval);
          ttl = (if SystemOperationTTL cfg \<le> 0 then hour else SystemOperationTTL cfg)
      in \<lparr>lease = lease, renewInterval = interval, lock_ttl = ttl\<rparr>)"

text \<open>Busy carries the operation and the seconds to wait, when known.\<close>

datatype lock_error = LockStoreUnavail | OperationIDRequired | Busy "string option" "int option"

definition busyError :: "string \<Rightarrow> gotime option \<Rightarrow> gotime \<Rightarrow> lock_error" where
  "busyError operation lockedUntil now =
     Busy (if operation \<noteq> [] then Some operation else None)
       (case lockedUntil of
          None \<Rightarrow> None
        | Some t \<Rightarrow> let sec = int_seconds (time_Sub t now) in Some (if sec \<le> 0 then 1 else sec))"

definition lock_record :: "('p, 'd) idem_env \<Rightarrow> lock_service \<Rightarrow> string \<Rightarrow> gotime \<Rightarrow> IdempotencyRecord" where
  "lock_record E s operation now =
     \<lparr>ir_ID = 0, ir_Scope = systemOperationLockScope, IdempotencyKeyHash = HashIdempotencyKey E systemOperationLockKey,
      RequestFingerprint = operation, ir_Status = IdempotencyStatusProcessing, ResponseStatus = None,
      ir_ResponseBody = None, ErrorReason = None, LockedUntil = Some (time_Add now (lease s)),
      ir_ExpiresAt = time_Add now (lock_ttl s), ir_CreatedAt = 0, ir_UpdatedAt = 0\<rparr>"

text \<open>\<open>Acquire\<close> between its calls; \<open>now\<close> is read once, at its start.\<close>

datatype acquire_pc =
    AcCreate
  | AcGet
  | AcReclaim IdempotencyRecord
  | AcLost
  | AcDone "lock_error + SystemOperationLock"

definition held :: "int \<Rightarrow> string \<Rightarrow> acquire_pc" where
  "held rid operation =
     (if rid = 0 then AcDone (Inl LockStoreUnavail) else AcDone (Inr \<lparr>recordID = rid, operationID = operation\<rparr>))"

text \<open>A step with a working store at the database time \<open>db_now\<close>, or a failing one (\<open>None\<close>).\<close>

definition acquire_step ::
  "('p, 'd) idem_env \<Rightarrow> lock_service \<Rightarrow> string \<Rightarrow> gotime \<Rightarrow> gotime option \<Rightarrow> acquire_pc \<Rightarrow> store \<Rightarrow> acquire_pc \<times> store" where
  "acquire_step E s operation now db p st =
     (let r = lock_record E s operation now; found = GetByScopeAndKeyHash (ir_Scope r) (IdempotencyKeyHash r) st
      in case p of
        AcDone res \<Rightarrow> (p, st)
      | AcCreate \<Rightarrow>
          if operation = [] then (AcDone (Inl OperationIDRequired), st)
          else (case db of
              None \<Rightarrow> (AcDone (Inl LockStoreUnavail), st)
            | Some t \<Rightarrow> (case CreateProcessing t r st of
                  (Some r, st) \<Rightarrow> (held (ir_ID r) operation, st)
                | (None, st) \<Rightarrow> (AcGet, st)))
      | AcGet \<Rightarrow> (case (db, found) of
            (Some t, Some ex) \<Rightarrow>
              if ir_Status ex = IdempotencyStatusProcessing \<and> LockedUntil ex \<noteq> None \<and>
                 time_After (the (LockedUntil ex)) now
              then (AcDone (Inl (busyError (RequestFingerprint ex) (LockedUntil ex) now)), st)
              else (AcReclaim ex, st)
          | _ \<Rightarrow> (AcDone (Inl LockStoreUnavail), st))
      | AcReclaim ex \<Rightarrow> (case db of
            None \<Rightarrow> (AcDone (Inl LockStoreUnavail), st)
          | Some t \<Rightarrow> (case TryReclaim t (ir_ID ex) (ir_Status ex) now (time_Add now (lease s))
                (time_Add now (lock_ttl s)) st of
                (True, st) \<Rightarrow> (held (ir_ID ex) operation, st)
              | (False, st) \<Rightarrow> (AcLost, st)))
      | AcLost \<Rightarrow> (case (db, found) of
            (Some t, Some latest) \<Rightarrow> (AcDone (Inl (busyError (RequestFingerprint latest) (LockedUntil latest) now)), st)
          | _ \<Rightarrow> (AcDone (Inl (Busy None None)), st)))"

fun acquire_steps ::
  "('p, 'd) idem_env \<Rightarrow> lock_service \<Rightarrow> string \<Rightarrow> gotime \<Rightarrow> gotime option list \<Rightarrow> acquire_pc \<Rightarrow> store \<Rightarrow> acquire_pc \<times> store" where
  "acquire_steps E s operation now [] p st = (p, st)"
| "acquire_steps E s operation now (db # dbs) p st =
     (case acquire_step E s operation now db p st of (p, st) \<Rightarrow> acquire_steps E s operation now dbs p st)"

text \<open>One round of the renewal loop: whether the loop goes on.\<close>

definition renew_lock :: "lock_service \<Rightarrow> SystemOperationLock \<Rightarrow> gotime \<Rightarrow> gotime option \<Rightarrow> store \<Rightarrow> bool \<times> store" where
  "renew_lock s l now db st = (case db of
       None \<Rightarrow> (True, st)
     | Some t \<Rightarrow> ExtendProcessingLock t (recordID l) (operationID l) (time_Add now (lease s))
         (time_Add now (lock_ttl s)) st)"

definition released_body :: "string \<Rightarrow> string" where
  "released_body operation =
     ''{'' @ [CHR 0x22] @ ''operation_id'' @ [CHR 0x22] @ '':'' @ [CHR 0x22] @ operation @ [CHR 0x22] @
     '','' @ [CHR 0x22] @ ''released'' @ [CHR 0x22] @ '':true}''"

definition Release ::
  "lock_service \<Rightarrow> SystemOperationLock option \<Rightarrow> bool \<Rightarrow> string \<Rightarrow> gotime \<Rightarrow> gotime \<Rightarrow> gotime option \<Rightarrow> store \<Rightarrow> store" where
  "Release s l succeeded failureReason now now' db st = (case (l, db) of
       (Some l, Some t) \<Rightarrow>
         let expiresAt = time_Add now (lock_ttl s)
         in if succeeded then MarkSucceeded t (recordID l) 200 (released_body (operationID l)) expiresAt st
            else MarkFailedRetryable t (recordID l)
              (if failureReason = [] then ''SYSTEM_OPERATION_FAILED'' else failureReason) now' expiresAt st
     | _ \<Rightarrow> st)"

end
