(* ===== verification/Idem_Props.thy ===== *)
theory Idem_Props
  imports Idem_Lock
begin

text \<open>
  Properties of the idempotency store's clients: requests that interleave in any way before the rows
  expire (one owner per key, one execution per key, replays), the stored responses, and the lock of
  the system operations.
\<close>

section \<open>Interleaved requests\<close>

text \<open>The requests by number, each with its claim, and the place where each is.\<close>

record 'd world =
  w_store :: store
  w_pc :: "nat \<Rightarrow> 'd pc"

text \<open>
  Before the horizon \<open>H\<close> no row expires: the clocks that are compared with expiries are before it, the
  expiries that are written are not.
\<close>

fun timely :: "gotime \<Rightarrow> claim \<Rightarrow> 'd event \<Rightarrow> bool" where
  "timely H cl (StoreRuns db_now now) = (H \<le> save_expires cl now)"
| "timely H cl (Renews db_now now) = (H \<le> time_Add now (cl_ttl cl))"
| "timely H cl ev = True"

definition claim_ok :: "gotime \<Rightarrow> claim \<Rightarrow> bool" where
  "claim_ok H cl = (cl_now cl < H \<and> H \<le> cl_expires cl \<and>
     ir_ExpiresAt (cl_record cl) = cl_expires cl \<and> ir_Status (cl_record cl) = IdempotencyStatusProcessing)"

inductive reachable ::
  "('p, 'd) idem_env \<Rightarrow> IdempotencyConfig \<Rightarrow> (nat \<Rightarrow> claim) \<Rightarrow> gotime \<Rightarrow> store \<Rightarrow> 'd world \<Rightarrow> bool"
  for E cfg claims H st0 where
  begin_run: "reachable E cfg claims H st0 \<lparr>w_store = st0, w_pc = (\<lambda>_. Claiming)\<rparr>"
| client_step: "reachable E cfg claims H st0 w \<Longrightarrow> timely H (claims i) ev \<Longrightarrow>
     idem_step E cfg (claims i) ev (w_pc w i) (w_store w) = (p, st) \<Longrightarrow>
     reachable E cfg claims H st0 \<lparr>w_store = st, w_pc = (w_pc w)(i := p)\<rparr>"
| purge_step: "reachable E cfg claims H st0 w \<Longrightarrow> now < H \<Longrightarrow>
     reachable E cfg claims H st0 (w\<lparr>w_store := snd (DeleteExpired now limit (w_store w))\<rparr>)"

fun owner_of :: "'d pc \<Rightarrow> int option" where
  "owner_of (Executing rid renewing) = Some rid"
| "owner_of (Saving rid res) = Some rid"
| "owner_of _ = None"

text \<open>The row of a claim: the row with its key and fingerprint.\<close>

definition row_of :: "claim \<Rightarrow> IdempotencyRecord \<Rightarrow> bool" where
  "row_of cl r = (row_key r = row_key (cl_record cl) \<and> RequestFingerprint r = RequestFingerprint (cl_record cl))"

definition fresh_rows :: "gotime \<Rightarrow> store \<Rightarrow> bool" where
  "fresh_rows H st = (\<forall>r \<in> set (rows st). H \<le> ir_ExpiresAt r)"

definition answer_row :: "claim \<Rightarrow> store \<Rightarrow> string option \<Rightarrow> bool" where
  "answer_row cl st body = (\<exists>r \<in> set (rows st). row_of cl r \<and> ir_Status r = IdempotencyStatusSucceeded \<and>
     ir_ResponseBody r = body)"

fun good :: "('p, 'd) idem_env \<Rightarrow> IdempotencyConfig \<Rightarrow> claim \<Rightarrow> store \<Rightarrow> 'd pc \<Rightarrow> bool" where
  "good E cfg cl st (Executing rid renewing) = (\<exists>r \<in> set (rows st). ir_ID r = rid \<and> row_of cl r)"
| "good E cfg cl st (Saving rid res) = (\<exists>r \<in> set (rows st). ir_ID r = rid \<and> row_of cl r)"
| "good E cfg cl st (Reclaiming expired ex) = (\<not> expired \<and> (\<exists>r \<in> set (rows st). ir_ID r = ir_ID ex \<and> row_of cl r))"
| "good E cfg cl st LookingAgain = False"
| "good E cfg cl st (Answered (Inr (data, False))) =
     (\<exists>body. marshalStoredResponse E cfg data = Some body \<and> answer_row cl st (Some body))"
| "good E cfg cl st (Answered (Inr (data, True))) =
     (\<exists>body. decodeStoredResponse E body = Some data \<and> answer_row cl st body)"
| "good E cfg cl st _ = True"

section \<open>What a step keeps\<close>

definition keeps :: "store \<Rightarrow> store \<Rightarrow> bool" where
  "keeps st st' = (\<forall>r \<in> set (rows st). \<exists>r' \<in> set (rows st'). ir_ID r' = ir_ID r \<and> row_key r' = row_key r \<and>
     RequestFingerprint r' = RequestFingerprint r \<and>
     (ir_Status r = IdempotencyStatusSucceeded \<longrightarrow>
        ir_Status r' = IdempotencyStatusSucceeded \<and> ir_ResponseBody r' = ir_ResponseBody r))"

lemma keeps_refl [simp]: "keeps st st"
  by (auto simp: keeps_def)

lemma keeps_row: "keeps st st' \<Longrightarrow> \<exists>r \<in> set (rows st). ir_ID r = k \<and> row_of cl r \<Longrightarrow>
    \<exists>r \<in> set (rows st'). ir_ID r = k \<and> row_of cl r"
  unfolding keeps_def row_of_def by metis

lemma keeps_answer: "keeps st st' \<Longrightarrow> answer_row cl st body \<Longrightarrow> answer_row cl st' body"
  unfolding keeps_def answer_row_def row_of_def by metis

lemma keeps_good: "keeps st st' \<Longrightarrow> good E cfg cl st p \<Longrightarrow> good E cfg cl st' p"
  by (induction E cfg cl st p rule: good.induct) (auto intro: keeps_row keeps_answer)

lemma keeps_update:
  assumes "\<And>r. ir_ID (f r) = ir_ID r" "\<And>r. row_key (f r) = row_key r" "\<And>r. RequestFingerprint (f r) = RequestFingerprint r"
    "\<And>r. r \<in> set (rows st) \<Longrightarrow> cond r \<Longrightarrow> ir_Status r \<noteq> IdempotencyStatusSucceeded"
  shows "keeps st (snd (update_rows cond f st))"
  unfolding keeps_def
proof
  fix r assume "r \<in> set (rows st)"
  then have "(if cond r then f r else r) \<in> set (rows (snd (update_rows cond f st)))" by (auto simp: update_rows_def)
  with assms \<open>r \<in> set (rows st)\<close> show "\<exists>r' \<in> set (rows (snd (update_rows cond f st))). ir_ID r' = ir_ID r \<and>
      row_key r' = row_key r \<and> RequestFingerprint r' = RequestFingerprint r \<and>
      (ir_Status r = IdempotencyStatusSucceeded \<longrightarrow>
        ir_Status r' = IdempotencyStatusSucceeded \<and> ir_ResponseBody r' = ir_ResponseBody r)"
    by (intro bexI) auto
qed

lemma keeps_create: "keeps st (snd (CreateProcessing now r st))"
  by (auto simp: keeps_def CreateProcessing_def Let_def)

lemma fresh_update:
  "fresh_rows H st \<Longrightarrow> (\<And>r. H \<le> ir_ExpiresAt r \<Longrightarrow> H \<le> ir_ExpiresAt (f r)) \<Longrightarrow> fresh_rows H (snd (update_rows cond f st))"
  by (auto simp: fresh_rows_def update_rows_def)

lemma fresh_create:
  "fresh_rows H st \<Longrightarrow> H \<le> ir_ExpiresAt r \<Longrightarrow> fresh_rows H (snd (CreateProcessing now r st))"
  by (auto simp: fresh_rows_def CreateProcessing_def Let_def)

lemma purge_nothing:
  assumes "fresh_rows H st" "now < H"
  shows "snd (DeleteExpired now limit st) = st"
proof -
  have "filter (\<lambda>r. ir_ExpiresAt r \<le> now) (rows st) = []"
    using assms by (fastforce simp: fresh_rows_def filter_empty_conv)
  then show ?thesis by (simp add: DeleteExpired_def)
qed

text \<open>What one step of a client owes: the invariants, its own claim on the store, the others' rows.\<close>

definition sound ::
  "('p, 'd) idem_env \<Rightarrow> IdempotencyConfig \<Rightarrow> claim \<Rightarrow> gotime \<Rightarrow> store \<Rightarrow> 'd pc \<Rightarrow> 'd pc \<times> store \<Rightarrow> bool" where
  "sound E cfg cl H st p out = (case out of (p', st') \<Rightarrow>
     store_ok st' \<and> fresh_rows H st' \<and> keeps st st' \<and> good E cfg cl st' p' \<and>
     (\<forall>(owners :: nat \<Rightarrow> int option) i. leases.owned st owners \<longrightarrow> owners i = owner_of p \<longrightarrow>
        leases.owned st' (owners(i := owner_of p'))))"

lemma sound_same:
  assumes "store_ok st" "fresh_rows H st" "good E cfg cl st p'" "owner_of p' = owner_of p \<or> owner_of p' = None"
  shows "sound E cfg cl H st p (p', st)"
proof -
  have "leases.owned st (owners(i := owner_of p'))" if "leases.owned st owners" "owners i = owner_of p"
    for owners :: "nat \<Rightarrow> int option" and i
    using that assms(4) leases.owned_drop [OF that(1), of i] by (metis fun_upd_triv)
  with assms show ?thesis by (simp add: sound_def)
qed

lemma sound_create:
  assumes "store_ok st" "fresh_rows H st" "claim_ok H cl" "CreateProcessing t (cl_record cl) st = (Some r, st')"
    "owner_of p = None"
  shows "sound E cfg cl H st p (run_claimed cl (ir_ID r), st')"
proof -
  have st': "st' = snd (CreateProcessing t (cl_record cl) st)" using assms(4) by simp
  have c: "created st st' (ir_ID r)" using assms(1,3,4) by (auto simp: created_def claim_ok_def)
  have r: "r \<in> set (rows st')" "row_of cl r" "0 < ir_ID r"
    using assms(1,4) by (auto simp: CreateProcessing_def Let_def row_of_def row_key_def store_ok_def split: if_splits)
  then have run: "run_claimed cl (ir_ID r) = Executing (ir_ID r) (cl_bounded cl)" by (simp add: run_claimed_def)
  have "H \<le> ir_ExpiresAt (cl_record cl)" using assms(3) by (simp add: claim_ok_def)
  then show ?thesis using r create_ok [OF assms(1)] fresh_create [OF assms(2)] keeps_create leases.owned_create [OF _ c]
    unfolding sound_def run st' by auto
qed

lemma sound_reclaim:
  assumes "store_ok st" "fresh_rows H st" "claim_ok H cl" "good E cfg cl st (Reclaiming expired ex :: 'd pc)"
  shows "sound E cfg cl H st (Reclaiming expired ex :: 'd pc) (reclaim_step cfg cl expired ex t st)"
proof -
  let ?cond = "\<lambda>r. ir_ID r = ir_ID ex \<and> ir_Status r = IdempotencyStatusFailedRetryable \<and>
    (case LockedUntil r of None \<Rightarrow> True | Some u \<Rightarrow> u \<le> cl_now cl)"
  obtain taken st' where t: "TryReclaim t (ir_ID ex) IdempotencyStatusFailedRetryable (cl_now cl) (cl_locked cfg cl)
      (cl_expires cl) st = (taken, st')" by fastforce
  then have st': "st' = snd (TryReclaim t (ir_ID ex) IdempotencyStatusFailedRetryable (cl_now cl) (cl_locked cfg cl)
      (cl_expires cl) st)" by simp
  have ok: "store_ok st'" unfolding st' by (rule statements_ok [OF assms(1)])
  have fr: "fresh_rows H st'" unfolding st' TryReclaim_def
    using assms(3) by (auto intro!: fresh_update [OF assms(2)] simp: claim_ok_def)
  have k: "keeps st st'" unfolding st' TryReclaim_def by (rule keeps_update) (auto simp: row_key_def)
  from assms(4) have ex: "\<not> expired" "\<exists>r \<in> set (rows st). ir_ID r = ir_ID ex \<and> row_of cl r" by simp_all
  with assms(1) have pos: "ir_ID ex \<noteq> 0" by (auto simp: store_ok_def list_all_iff)
  show ?thesis
  proof (cases taken)
    case True
    with t assms(1) have rc: "reclaimed st st' IdempotencyStatusFailedRetryable (ir_ID ex)"
      by (auto simp: reclaimed_def)
    have "reclaim_step cfg cl expired ex t st = (Executing (ir_ID ex) (cl_bounded cl) :: 'd pc, st')"
      using t ex(1) pos True by (simp add: reclaim_step_def run_claimed_def)
    with ok fr k keeps_row [OF k ex(2)] leases.owned_reclaim [OF _ rc] show ?thesis by (auto simp: sound_def)
  next
    case False
    then have "\<And>r. r \<in> set (rows st) \<Longrightarrow> \<not> ?cond r"
      using t by (auto simp: TryReclaim_def update_rows_def list_ex_iff)
    from update_rows_none [of st ?cond, OF this] have "st' = st" using t by (simp add: TryReclaim_def)
    moreover have "reclaim_step cfg cl expired ex t st =
        (Answered (Inl (conflictWithRetryAfter InProgress (LockedUntil ex) (cl_now cl))) :: 'd pc, st')"
      using t ex(1) False by (simp add: reclaim_step_def)
    ultimately show ?thesis using assms(1,2) by (simp add: sound_same)
  qed
qed

lemma owned_status:
  assumes "leases.owned st owners" "owners i = Some rid" "store_ok st" "r \<in> set (rows st)" "ir_ID r = rid"
  shows "ir_Status r = IdempotencyStatusProcessing"
  using assms status_of_row [OF assms(3,4)] by (auto simp: leases.owned_def)

text \<open>A row that is finished by its owner: only rows that are being worked on change.\<close>

lemma sound_finish:
  assumes "store_ok st" "fresh_rows H st" "st' = snd (update_rows (\<lambda>r. ir_ID r = rid) f st)"
    "finished st st' rid" "\<And>r. ir_ID (f r) = ir_ID r" "\<And>r. row_key (f r) = row_key r"
    "\<And>r. RequestFingerprint (f r) = RequestFingerprint r" "\<And>r. H \<le> ir_ExpiresAt (f r)"
    "leases.owned st owners" "owners i = Some rid" "owner_of p' = None"
    "keeps st st' \<Longrightarrow> good E cfg cl st' p'"
  shows "store_ok st' \<and> fresh_rows H st' \<and> keeps st st' \<and> good E cfg cl st' p' \<and>
    leases.owned st' (owners(i := owner_of p'))"
proof -
  have ok: "store_ok st'" unfolding assms(3) by (rule update_rows_ok [OF assms(5,6,1)])
  have fr: "fresh_rows H st'" unfolding assms(3) by (rule fresh_update [OF assms(2)]) (rule assms(8))
  have pr: "\<And>r. r \<in> set (rows st) \<Longrightarrow> ir_ID r = rid \<Longrightarrow> ir_Status r \<noteq> IdempotencyStatusSucceeded"
    using owned_status [OF assms(9,10,1)] by simp
  have k: "keeps st st'" unfolding assms(3) by (rule keeps_update [OF assms(5,6,7) pr])
  from leases.owned_finish [OF assms(9,4,10)] ok fr k assms(12) [OF k] show ?thesis by (simp add: assms(11))
qed

lemma renew_same_row:
  assumes "store_ok st" "fresh_rows H st" "H \<le> time_Add now (cl_ttl cl)" "good E cfg cl st (Executing rid renewing :: 'd pc)"
    "leases.owned st owners" "owners i = Some rid"
  shows "case renew_step cfg cl rid t now st of (p', st') \<Rightarrow>
    store_ok st' \<and> fresh_rows H st' \<and> keeps st st' \<and> good E cfg cl st' (p' :: 'd pc) \<and>
    leases.owned st' (owners(i := owner_of p'))"
proof -
  obtain alive st' where e: "ExtendProcessingLock t rid (RequestFingerprint (cl_record cl))
      (time_Add now (renew_lease cfg)) (time_Add now (cl_ttl cl)) st = (alive, st')" by fastforce
  then have st': "st' = snd (ExtendProcessingLock t rid (RequestFingerprint (cl_record cl))
      (time_Add now (renew_lease cfg)) (time_Add now (cl_ttl cl)) st)" by simp
  have ok: "store_ok st'" unfolding st' by (rule statements_ok [OF assms(1)])
  have fr: "fresh_rows H st'" unfolding st' ExtendProcessingLock_def
    using assms(3) by (auto intro!: fresh_update [OF assms(2)])
  have k: "keeps st st'" unfolding st' ExtendProcessingLock_def by (rule keeps_update) (auto simp: row_key_def)
  have "status_of st' = status_of st"
  proof
    fix j show "status_of st' j = status_of st j"
      unfolding st' ExtendProcessingLock_def
      by (subst status_of_update) (auto simp: status_of_def intro!: option.map_cong0 split: option.splits)
  qed
  from leases.owned_same [OF assms(5) this] assms(4,6) have "leases.owned st' (owners(i := Some rid))"
    by (metis fun_upd_triv)
  with e ok fr k keeps_row [OF k] assms(4) show ?thesis by (auto simp: renew_step_def)
qed

definition goes_on ::
  "('p, 'd) idem_env \<Rightarrow> IdempotencyConfig \<Rightarrow> claim \<Rightarrow> gotime \<Rightarrow> (nat \<Rightarrow> int option) \<Rightarrow> nat \<Rightarrow> store \<Rightarrow>
   'd pc \<times> store \<Rightarrow> bool" where
  "goes_on E cfg cl H owners i st out = (case out of (p', st') \<Rightarrow>
     store_ok st' \<and> fresh_rows H st' \<and> keeps st st' \<and> good E cfg cl st' p' \<and>
     leases.owned st' (owners(i := owner_of p')))"

lemma goes_on_sound:
  "sound E cfg cl H st p out \<Longrightarrow> leases.owned st owners \<Longrightarrow> owners i = owner_of p \<Longrightarrow>
    goes_on E cfg cl H owners i st out"
  by (auto simp: sound_def goes_on_def split: prod.splits)

lemma look_good:
  assumes "fresh_rows H st" "claim_ok H cl" "RequestFingerprint ex = RequestFingerprint (cl_record cl)"
    "GetByScopeAndKeyHash (ir_Scope (cl_record cl)) (IdempotencyKeyHash (cl_record cl)) st = Some ex"
  shows "good E cfg cl st (by_status E cl ex :: 'd pc)" "owner_of (by_status E cl ex :: 'd pc) = None"
proof -
  from get_some [OF assms(4)] assms(3) have r: "ex \<in> set (rows st)" "row_of cl ex"
    by (auto simp: row_of_def row_key_def)
  then have "answer_row cl st (ir_ResponseBody ex)" if "ir_Status ex = IdempotencyStatusSucceeded"
    using that by (auto simp: answer_row_def)
  with r show "good E cfg cl st (by_status E cl ex :: 'd pc)"
    by (auto simp: by_status_def split: option.splits)
  show "owner_of (by_status E cl ex :: 'd pc) = None" by (auto simp: by_status_def split: option.splits)
qed

lemma look_sound:
  assumes "fresh_rows H st" "claim_ok H cl"
  shows "good E cfg cl st (look E cl (GetByScopeAndKeyHash (ir_Scope (cl_record cl)) (IdempotencyKeyHash (cl_record cl)) st) :: 'd pc)"
    "owner_of (look E cl (GetByScopeAndKeyHash (ir_Scope (cl_record cl)) (IdempotencyKeyHash (cl_record cl)) st) :: 'd pc) = None"
proof -
  have t: "time_After (ir_ExpiresAt ex) (cl_now cl)"
    if "GetByScopeAndKeyHash (ir_Scope (cl_record cl)) (IdempotencyKeyHash (cl_record cl)) st = Some ex" for ex
    using assms get_some [OF that] by (fastforce simp: fresh_rows_def claim_ok_def time_After_def)
  show "good E cfg cl st (look E cl (GetByScopeAndKeyHash (ir_Scope (cl_record cl)) (IdempotencyKeyHash (cl_record cl)) st) :: 'd pc)"
    using t look_good(1) [OF assms] by (auto simp: look_def split: option.splits)
  show "owner_of (look E cl (GetByScopeAndKeyHash (ir_Scope (cl_record cl)) (IdempotencyKeyHash (cl_record cl)) st) :: 'd pc) = None"
    using t look_good(2) [OF assms, where E = E] by (auto simp: look_def split: option.splits)
qed

lemma finished_marks:
  "finished st (MarkSucceeded now k code body ex st) k"
  "finished st (MarkFailedRetryable now k reason lu ex st) k"
  unfolding finished_def by blast+

lemmas finished_updates = finished_marks [unfolded MarkSucceeded_def MarkFailedRetryable_def]

lemma save_goes_on:
  assumes "store_ok st" "fresh_rows H st" "claim_ok H cl" "good E cfg cl st (Saving rid res)"
    "leases.owned st owners" "owners i = Some rid" "\<And>t now. clocks = Some (t, now) \<Longrightarrow> H \<le> save_expires cl now"
  shows "goes_on E cfg cl H owners i st (save_step E cfg cl rid res clocks st)"
proof (cases "clocks = None \<or> (\<exists>data. res = Inr data \<and> marshalStoredResponse E cfg data = None)")
  case True
  then have "\<exists>e. save_step E cfg cl rid res clocks st = (Answered (Inl e), st)"
    by (auto simp: save_step_def Let_def split: sum.splits option.splits)
  with assms(1,2,5,6) show ?thesis by (auto intro!: goes_on_sound [where p = "Saving rid res"] sound_same)
next
  case False
  then obtain t now where c: "clocks = Some (t, now)" by (cases clocks) auto
  from assms(4) obtain r where r: "r \<in> set (rows st)" "ir_ID r = rid" "row_of cl r" by auto
  show ?thesis
  proof (cases res)
    case (Inl reason)
    show ?thesis unfolding goes_on_def save_step_def Inl c sum.case option.case prod.case Let_def
      unfolding MarkFailedRetryable_def
      by (rule sound_finish [OF assms(1,2) refl _ _ _ _ _ assms(5,6)])
         (auto simp: row_key_def assms(7) [OF c] intro: finished_updates)
  next
    case (Inr data)
    with False obtain body where b: "marshalStoredResponse E cfg data = Some body" by auto
    let ?f = "\<lambda>r. r\<lparr>ir_Status := IdempotencyStatusSucceeded, ResponseStatus := Some 200,
          ir_ResponseBody := Some body, ErrorReason := None, LockedUntil := None, ir_ExpiresAt := save_expires cl now,
          ir_UpdatedAt := t\<rparr>"
    have "?f r \<in> set (rows (snd (update_rows (\<lambda>r. ir_ID r = rid) ?f st)))" using r by (force simp: update_rows_def)
    moreover have "row_of cl (?f r)" using r(3) by (simp add: row_of_def row_key_def)
    ultimately have a: "answer_row cl (snd (update_rows (\<lambda>r. ir_ID r = rid) ?f st)) (Some body)"
      unfolding answer_row_def by (intro bexI [of _ "?f r"]) auto
    show ?thesis unfolding goes_on_def save_step_def Inr c b sum.case option.case prod.case Let_def
      unfolding MarkSucceeded_def
      by (rule sound_finish [OF assms(1,2) refl _ _ _ _ _ assms(5,6)])
         (auto simp: row_key_def assms(7) [OF c] b a intro: finished_updates)
  qed
qed

lemma step_goes_on:
  assumes inv: "store_ok st" "fresh_rows H st" "claim_ok H cl" "good E cfg cl st p"
    and own: "leases.owned st owners" "owners i = owner_of p"
    and time: "timely H cl ev"
  shows "goes_on E cfg cl H owners i st (idem_step E cfg cl ev p st)"
proof -
  have same: "goes_on E cfg cl H owners i st (p', st)"
    if "good E cfg cl st p'" "owner_of p' = owner_of p \<or> owner_of p' = None" for p'
    by (rule goes_on_sound [OF sound_same own]) (use inv that in auto)
  have stay: "goes_on E cfg cl H owners i st (p, st)" by (rule same) (use inv in auto)
  have quit: "goes_on E cfg cl H owners i st (Gone, st)"
    "goes_on E cfg cl H owners i st (Answered (Inl e), st)" for e
    by (rule same; use inv in simp)+
  show ?thesis
  proof (cases p)
    case Claiming
    show ?thesis
    proof (cases ev)
      case (StoreRuns t now)
      obtain o' st' where c: "CreateProcessing t (cl_record cl) st = (o', st')" by fastforce
      show ?thesis
      proof (cases o')
        case None
        with c have st': "st' = snd (CreateProcessing t (cl_record cl) st)" by simp
        have "status_of st' = status_of st" using c None
          by (auto simp: CreateProcessing_def Let_def status_of_def fun_eq_iff split: if_splits)
        from leases.owned_same [OF own(1) this] own(2) Claiming have "leases.owned st' (owners(i := None))"
          by (metis owner_of.simps(3) fun_upd_triv)
        moreover have "idem_step E cfg cl ev p st = (Looking, st')" using c None Claiming StoreRuns
          by (simp add: idem_step_def)
        moreover have "fresh_rows H st'" unfolding st'
          by (rule fresh_create [OF inv(2)]) (use inv(3) in \<open>simp add: claim_ok_def\<close>)
        moreover have "store_ok st'" "keeps st st'" unfolding st' by (rule create_ok [OF inv(1)] keeps_create)+
        ultimately show ?thesis by (simp add: goes_on_def)
      next
        case (Some r)
        with c Claiming StoreRuns goes_on_sound [OF sound_create [OF inv(1-3) c [unfolded Some]] own] show ?thesis
          by (simp add: idem_step_def)
      qed
    qed (use Claiming stay quit in \<open>auto simp: idem_step_def\<close>)
  next
    case Looking
    have "goes_on E cfg cl H owners i st (look E cl (GetByScopeAndKeyHash (ir_Scope (cl_record cl))
        (IdempotencyKeyHash (cl_record cl)) st), st)"
      by (rule same) (use look_sound [OF inv(2,3), where E = E] in auto)
    with Looking stay quit show ?thesis by (cases ev) (auto simp: idem_step_def Let_def)
  next
    case (Reclaiming expired ex)
    then have p: "good E cfg cl st (Reclaiming expired ex)" using inv(4) by simp
    from goes_on_sound [OF sound_reclaim [OF inv(1-3) p]] own Reclaiming stay quit show ?thesis
      by (cases ev) (auto simp: idem_step_def)
  next
    case LookingAgain
    with inv(4) show ?thesis by simp
  next
    case (Executing rid renewing)
    with inv(4) own(2) have g: "good E cfg cl st (Executing rid renewing)" "owners i = Some rid" by simp_all
    have save: "goes_on E cfg cl H owners i st (Saving rid res, st)" for res
      by (rule same) (use inv Executing in auto)
    from renew_same_row [OF inv(1,2) _ g(1) own(1) g(2)] Executing time stay quit save show ?thesis
      by (cases ev; cases renewing) (auto simp: idem_step_def goes_on_def split: prod.splits)
  next
    case (Saving rid res)
    with inv(4) own(2) have g: "good E cfg cl st (Saving rid res)" "owners i = Some rid" by simp_all
    have kept: "goes_on E cfg cl H owners i st (save_step E cfg cl rid res (Some (t, now)) st)"
      if "H \<le> save_expires cl now" for t now
      by (rule save_goes_on [OF inv(1-3) g(1) own(1) g(2)]) (use that in auto)
    have lost: "goes_on E cfg cl H owners i st (save_step E cfg cl rid res None st)"
      by (rule save_goes_on [OF inv(1-3) g(1) own(1) g(2)]) auto
    from kept lost Saving time stay quit show ?thesis
      by (cases ev) (auto simp: idem_step_def)
  qed (use stay in \<open>auto simp: idem_step_def\<close>)
qed

section \<open>The invariant of the interleaved requests\<close>

definition world_ok :: "('p, 'd) idem_env \<Rightarrow> IdempotencyConfig \<Rightarrow> (nat \<Rightarrow> claim) \<Rightarrow> gotime \<Rightarrow> 'd world \<Rightarrow> bool" where
  "world_ok E cfg claims H w =
     (store_ok (w_store w) \<and> fresh_rows H (w_store w) \<and> (\<forall>i. good E cfg (claims i) (w_store w) (w_pc w i)) \<and>
      leases.owned (w_store w) (\<lambda>i. owner_of (w_pc w i)))"

lemma world_invariant:
  assumes "reachable E cfg claims H st0 w" "store_ok st0" "fresh_rows H st0" "\<And>i. claim_ok H (claims i)"
  shows "world_ok E cfg claims H w"
  using assms(1)
proof induction
  case begin_run
  from assms(2,3) show ?case by (simp add: world_ok_def leases.owned_def)
next
  case (client_step w i ev p st)
  from client_step.IH have inv: "store_ok (w_store w)" "fresh_rows H (w_store w)"
    "\<And>j. good E cfg (claims j) (w_store w) (w_pc w j)" "leases.owned (w_store w) (\<lambda>i. owner_of (w_pc w i))"
    by (simp_all add: world_ok_def)
  from step_goes_on [OF inv(1,2) assms(4) inv(3) inv(4) refl client_step.hyps(2)] client_step.hyps(3)
  have out: "store_ok st" "fresh_rows H st" "keeps (w_store w) st" "good E cfg (claims i) st p"
    "leases.owned st ((\<lambda>i. owner_of (w_pc w i))(i := owner_of p))" by (simp_all add: goes_on_def)
  have "(\<lambda>j. owner_of (((w_pc w)(i := p)) j)) = (\<lambda>i. owner_of (w_pc w i))(i := owner_of p)" by auto
  with out keeps_good [OF out(3) inv(3)] show ?case by (simp add: world_ok_def)
next
  case (purge_step w now limit)
  then show ?case by (simp add: world_ok_def purge_nothing [of H])
qed

end
