(* ===== verification/Idem_Main.thy ===== *)
theory Idem_Main
  imports Idem_Props
begin

text \<open>
  The properties of the idempotency coordinator and of the system operation lock. The requests of the
  first ones interleave in any order, fail in the store or crash at any place; the horizon \<open>H\<close> is a time
  before which no row expires. The later ones say what happens to responses that are too long to be
  stored, to the key of a crashed request, and to a lock that changes hands.
\<close>

section \<open>Runs to evaluate\<close>

fun play ::
  "('p, 'd) idem_env \<Rightarrow> IdempotencyConfig \<Rightarrow> (nat \<Rightarrow> claim) \<Rightarrow> (nat \<times> 'd event) list \<Rightarrow> 'd world \<Rightarrow> 'd world" where
  "play E cfg claims [] w = w"
| "play E cfg claims ((i, ev) # evs) w =
     (case idem_step E cfg (claims i) ev (w_pc w i) (w_store w) of
        (p, st) \<Rightarrow> play E cfg claims evs \<lparr>w_store = st, w_pc = (w_pc w)(i := p)\<rparr>)"

lemma play_reachable:
  "reachable E cfg claims H st0 w \<Longrightarrow> list_all (\<lambda>(i, ev). timely H (claims i) ev) evs \<Longrightarrow>
    reachable E cfg claims H st0 (play E cfg claims evs w)"
  by (induction evs arbitrary: w) (auto split: prod.splits intro: client_step)

definition text_env :: "(string, string) idem_env" where
  "text_env = \<lparr>sha256_hex = (\<lambda>s. s), marshal_payload = Some, marshal_data = Some, RedactText = (\<lambda>s. s),
     unmarshal_data = (\<lambda>s. if s \<noteq> [] \<and> last s = CHR '')'' then None else Some s), empty_data = []\<rparr>"

definition sample_claim :: "string \<Rightarrow> claim" where
  "sample_claim fp = \<lparr>cl_record = \<lparr>ir_ID = 0, ir_Scope = ''s'', IdempotencyKeyHash = ''k'', RequestFingerprint = fp,
     ir_Status = IdempotencyStatusProcessing, ResponseStatus = None, ir_ResponseBody = None, ErrorReason = None,
     LockedUntil = Some 30, ir_ExpiresAt = 100, ir_CreatedAt = 0, ir_UpdatedAt = 0\<rparr>,
     cl_now = 0, cl_ttl = 100, cl_bounded = False\<rparr>"

definition start_world :: "string world" where
  "start_world = \<lparr>w_store = empty_store, w_pc = (\<lambda>_. Claiming)\<rparr>"

lemma start_reachable: "reachable text_env cfg claims H empty_store start_world"
  unfolding start_world_def by (rule begin_run)

lemma sample_ok: "claim_ok 100 (sample_claim fp)"
  by (simp add: claim_ok_def sample_claim_def cl_expires_def time_Add_def)

lemma empty_fresh: "fresh_rows H empty_store"
  by (simp add: fresh_rows_def empty_store_def)

lemmas sample_start = start_reachable empty_store_ok empty_fresh sample_ok

section \<open>Rows are determined by their keys\<close>

lemma same_row:
  "store_ok st \<Longrightarrow> r \<in> set (rows st) \<Longrightarrow> r' \<in> set (rows st) \<Longrightarrow> row_key r = row_key r' \<Longrightarrow> r = r'"
  by (auto simp: store_ok_def distinct_map inj_on_def)

text \<open>The row that a request works on, or has answered from.\<close>

fun served :: "'d pc \<Rightarrow> bool" where
  "served (Executing rid renewing) = True"
| "served (Saving rid res) = True"
| "served (Answered (Inr answer)) = True"
| "served _ = False"

lemma owner_served: "owner_of p = Some rid \<Longrightarrow> served p"
  by (cases p) auto

lemma owner_row: "good E cfg cl st p \<Longrightarrow> owner_of p = Some rid \<Longrightarrow> \<exists>r \<in> set (rows st). ir_ID r = rid \<and> row_of cl r"
  by (cases p) auto

lemma served_row: "good E cfg cl st p \<Longrightarrow> served p \<Longrightarrow> \<exists>r \<in> set (rows st). row_of cl r"
  by (induction E cfg cl st p rule: good.induct) (auto simp: answer_row_def)

section \<open>One owner, one execution\<close>

text \<open>
  C13: however the requests interleave, at most one of those with the same key is executing.\<close>

theorem idem_one_owner:
  assumes "reachable E cfg claims H st0 w" "store_ok st0" "fresh_rows H st0" "\<And>i. claim_ok H (claims i)"
    and "row_key (cl_record (claims i)) = row_key (cl_record (claims j))"
    and "owner_of (w_pc w i) = Some k" "owner_of (w_pc w j) = Some l"
  shows "i = j"
proof -
  from world_invariant [OF assms(1-4)] have inv: "store_ok (w_store w)" "\<And>i. good E cfg (claims i) (w_store w) (w_pc w i)"
    "leases.owned (w_store w) (\<lambda>i. owner_of (w_pc w i))" by (simp_all add: world_ok_def)
  from owner_row [OF inv(2) assms(6)] owner_row [OF inv(2) assms(7)] assms(5) same_row [OF inv(1)]
  have "k = l" unfolding row_of_def by metis
  with inv(3) assms(6,7) show ?thesis by (auto simp: leases.owned_def)
qed

lemma idem_one_owner_witness:
  "\<not> (\<exists>l. owner_of (w_pc (play text_env DefaultIdempotencyConfig (\<lambda>i. sample_claim ''f'')
      [(0, StoreRuns 1 1), (1, StoreRuns 1 1)] start_world) 1) = Some l)"
proof
  let ?w = "play text_env DefaultIdempotencyConfig (\<lambda>i. sample_claim ''f'') [(0, StoreRuns 1 1), (1, StoreRuns 1 1)] start_world"
  have r: "reachable text_env DefaultIdempotencyConfig (\<lambda>i. sample_claim ''f'') 100 empty_store ?w"
    by (rule play_reachable [OF start_reachable]) (simp add: save_expires_def sample_claim_def cl_expires_def time_Add_def)
  have o: "owner_of (w_pc ?w 0) = Some 1" by code_simp
  assume "\<exists>l. owner_of (w_pc ?w 1) = Some l"
  then obtain l where "owner_of (w_pc ?w 1) = Some l" by blast
  from idem_one_owner [OF r empty_store_ok empty_fresh sample_ok refl o this] show False by simp
qed

text \<open>Once a request has answered with its own result, no other of its key executes or answers with its own.\<close>

lemma answered_owner:
  assumes "world_ok E cfg claims H w" "row_key (cl_record (claims i)) = row_key (cl_record (claims j))"
    "w_pc w i = Answered (Inr (data, False))"
  shows "owner_of (w_pc w j) = None"
proof (rule ccontr)
  assume "owner_of (w_pc w j) \<noteq> None"
  then obtain k where k: "owner_of (w_pc w j) = Some k" by blast
  from assms(1) have inv: "store_ok (w_store w)" "\<And>i. good E cfg (claims i) (w_store w) (w_pc w i)"
    "leases.owned (w_store w) (\<lambda>i. owner_of (w_pc w i))" by (simp_all add: world_ok_def)
  from inv(2) [of i] assms(3) obtain r where r: "r \<in> set (rows (w_store w))" "row_of (claims i) r"
    "ir_Status r = IdempotencyStatusSucceeded" by (auto simp: answer_row_def)
  from owner_row [OF inv(2) k] obtain r' where r': "r' \<in> set (rows (w_store w))" "ir_ID r' = k" "row_of (claims j) r'" by blast
  from owned_status [OF inv(3) k inv(1) r'(1,2)] same_row [OF inv(1) r(1) r'(1)] r r' assms(2)
  show False by (simp add: row_of_def)
qed

definition fresh_once :: "(nat \<Rightarrow> claim) \<Rightarrow> 'd world \<Rightarrow> bool" where
  "fresh_once claims w = (\<forall>i j d d'. row_key (cl_record (claims i)) = row_key (cl_record (claims j)) \<longrightarrow>
     w_pc w i = Answered (Inr (d, False)) \<longrightarrow> w_pc w j = Answered (Inr (d', False)) \<longrightarrow> i = j)"

lemma fresh_from_saving:
  assumes "idem_step E cfg cl ev p st = (Answered (Inr (d, False)), st')" "p \<noteq> Answered (Inr (d, False))"
  shows "\<exists>rid res. p = Saving rid res"
  using assms
  by (cases p; cases ev) (auto simp: idem_step_def Let_def run_claimed_def look_def look_again_def by_status_def
    reclaim_step_def renew_step_def split: if_splits option.splits prod.splits bool.splits)

lemma fresh_once_reachable:
  assumes "reachable E cfg claims H st0 w" "store_ok st0" "fresh_rows H st0" "\<And>i. claim_ok H (claims i)"
  shows "fresh_once claims w"
  using assms(1)
proof induction
  case begin_run
  show ?case by (simp add: fresh_once_def)
next
  case (client_step w i ev p st)
  have inv: "world_ok E cfg claims H w" by (rule world_invariant [OF client_step.hyps(1) assms(2-4)])
  have other: "w_pc w j \<noteq> Answered (Inr (d', False))"
    if "j \<noteq> i" "p = Answered (Inr (d, False))" "row_key (cl_record (claims i)) = row_key (cl_record (claims j))" for j d d'
  proof
    assume a: "w_pc w j = Answered (Inr (d', False))"
    show False
    proof (cases "w_pc w i = p")
      case True
      with a that client_step.IH show False unfolding fresh_once_def by metis
    next
      case False
      with fresh_from_saving client_step.hyps(3) that(2) obtain rid res where "w_pc w i = Saving rid res" by metis
      with answered_owner [OF inv that(3) [symmetric] a] show False by simp
    qed
  qed
  from client_step.IH other show ?case unfolding fresh_once_def by (auto split: if_splits)
next
  case (purge_step w now limit)
  then show ?case by (simp add: fresh_once_def)
qed

text \<open>
  C4: before the horizon \<open>H\<close> at which the records expire, once a request has answered with the result of
  its own execution, every other request with its key neither executes nor answers with a result of
  its own, and a replay is decoded from what the first answer stored. (After its expiry a record is
  purged, and a request of the key executes again.)
\<close>

theorem idem_one_execution:
  assumes "reachable E cfg claims H st0 w" "store_ok st0" "fresh_rows H st0" "\<And>i. claim_ok H (claims i)"
    and "row_key (cl_record (claims i)) = row_key (cl_record (claims j))" "i \<noteq> j"
    and "w_pc w i = Answered (Inr (data, False))"
  shows "owner_of (w_pc w j) = None \<and> w_pc w j \<noteq> Answered (Inr (data', False)) \<and>
    (w_pc w j = Answered (Inr (data', True)) \<longrightarrow>
       (\<exists>body. marshalStoredResponse E cfg data = Some body \<and> decodeStoredResponse E (Some body) = Some data'))"
proof (intro conjI impI)
  note inv = world_invariant [OF assms(1-4)]
  show "owner_of (w_pc w j) = None" by (rule answered_owner [OF inv assms(5,7)])
  from fresh_once_reachable [OF assms(1-4)] assms(5-7) show "w_pc w j \<noteq> Answered (Inr (data', False))"
    unfolding fresh_once_def by metis
  assume r: "w_pc w j = Answered (Inr (data', True))"
  from inv have ok: "store_ok (w_store w)" "\<And>i. good E cfg (claims i) (w_store w) (w_pc w i)"
    by (simp_all add: world_ok_def)
  from ok(2) [of i] assms(7) obtain body r1 where a: "marshalStoredResponse E cfg data = Some body"
    "r1 \<in> set (rows (w_store w))" "row_of (claims i) r1" "ir_ResponseBody r1 = Some body" by (auto simp: answer_row_def)
  from ok(2) [of j] r obtain body' r2 where b: "decodeStoredResponse E body' = Some data'"
    "r2 \<in> set (rows (w_store w))" "row_of (claims j) r2" "ir_ResponseBody r2 = body'" by (auto simp: answer_row_def)
  from same_row [OF ok(1) a(2) b(2)] a(3) b(3) assms(5) have "r1 = r2" by (simp add: row_of_def)
  with a b show "\<exists>body. marshalStoredResponse E cfg data = Some body \<and> decodeStoredResponse E (Some body) = Some data'"
    by auto
qed

lemma idem_one_execution_witness:
  "\<exists>body. marshalStoredResponse text_env DefaultIdempotencyConfig ''x'' = Some body \<and>
     decodeStoredResponse text_env (Some body) = Some ''x''"
proof -
  let ?w = "play text_env DefaultIdempotencyConfig (\<lambda>i. sample_claim ''f'')
    [(0, StoreRuns 1 1), (1, StoreRuns 1 1), (0, Returns (Inr ''x'')), (0, StoreRuns 2 2), (1, StoreRuns 3 3)] start_world"
  have r: "reachable text_env DefaultIdempotencyConfig (\<lambda>i. sample_claim ''f'') 100 empty_store ?w"
    by (rule play_reachable [OF start_reachable]) (simp add: save_expires_def sample_claim_def cl_expires_def time_Add_def)
  have o: "w_pc ?w 0 = Answered (Inr (''x'', False))" "w_pc ?w 1 = Answered (Inr (''x'', True))" by code_simp+
  show ?thesis
    using idem_one_execution [OF r empty_store_ok empty_fresh sample_ok refl _ o(1), of 1 "''x''"] o(2) by simp
qed

text \<open>
  of requests with the same key, only those with the same fingerprint execute or answer with a result.\<close>

theorem idem_one_fingerprint:
  assumes "reachable E cfg claims H st0 w" "store_ok st0" "fresh_rows H st0" "\<And>i. claim_ok H (claims i)"
    and "row_key (cl_record (claims i)) = row_key (cl_record (claims j))"
    and "served (w_pc w i)" "served (w_pc w j)"
  shows "RequestFingerprint (cl_record (claims i)) = RequestFingerprint (cl_record (claims j))"
proof -
  from world_invariant [OF assms(1-4)] have ok: "store_ok (w_store w)"
    "\<And>i. good E cfg (claims i) (w_store w) (w_pc w i)" by (simp_all add: world_ok_def)
  from served_row [OF ok(2) assms(6)] served_row [OF ok(2) assms(7)] assms(5) same_row [OF ok(1)]
  show ?thesis unfolding row_of_def by metis
qed

lemma idem_one_fingerprint_witness:
  "\<not> served (w_pc (play text_env DefaultIdempotencyConfig (\<lambda>i. sample_claim (if i = 0 then ''f'' else ''g''))
      [(0, StoreRuns 1 1), (1, StoreRuns 1 1), (0, Returns (Inr ''x'')), (0, StoreRuns 2 2), (1, StoreRuns 3 3)]
      start_world) 1)"
proof
  let ?c = "\<lambda>i. sample_claim (if i = (0::nat) then ''f'' else ''g'')"
  let ?w = "play text_env DefaultIdempotencyConfig ?c
    [(0, StoreRuns 1 1), (1, StoreRuns 1 1), (0, Returns (Inr ''x'')), (0, StoreRuns 2 2), (1, StoreRuns 3 3)] start_world"
  have r: "reachable text_env DefaultIdempotencyConfig ?c 100 empty_store ?w"
    by (rule play_reachable [OF start_reachable]) (simp add: save_expires_def sample_claim_def cl_expires_def time_Add_def)
  have s: "served (w_pc ?w 0)" by code_simp
  have k: "row_key (cl_record (?c 0)) = row_key (cl_record (?c 1))" by (simp add: sample_claim_def row_key_def)
  assume "served (w_pc ?w 1)"
  from idem_one_fingerprint [OF r empty_store_ok empty_fresh sample_ok k s this] show False
    by (simp add: sample_claim_def)
qed

section \<open>Responses that are too long, requests that crash\<close>

lemma strip_seqs_keeps: "c \<in> set s \<Longrightarrow> \<forall>w \<in> set ws. c \<notin> set w \<Longrightarrow> c \<in> set (strip_seqs ws s)"
proof (induction ws s rule: strip_seqs.induct)
  case (1 ws s)
  show ?case
  proof (cases "find (\<lambda>w. w \<noteq> [] \<and> prefix w s) ws")
    case None
    with 1 show ?thesis by (simp add: strip_seqs.simps [of ws s])
  next
    case (Some w)
    then have w: "w \<in> set ws" "prefix w s" by (auto simp: find_Some_iff)
    then obtain u where u: "s = w @ u" by (auto simp: prefix_def)
    with 1 w(1) Some have "c \<in> set (strip_seqs ws u)" by auto
    moreover have "strip_seqs ws s = strip_seqs ws u" using Some u by (subst strip_seqs.simps) simp
    ultimately show ?thesis by simp
  qed
qed

lemma not_blank: "CHR '')'' \<in> set s \<Longrightarrow> TrimSpace s \<noteq> []"
proof -
  assume "CHR '')'' \<in> set s"
  moreover have "\<forall>w \<in> set space_seqs. CHR '')'' \<notin> set w" "\<forall>w \<in> set (map rev space_seqs). CHR '')'' \<notin> set w"
    by (simp_all add: space_seqs_def)
  ultimately have "CHR '')'' \<in> set (TrimSpace s)" by (simp add: TrimSpace_def strip_seqs_keeps)
  then show ?thesis by auto
qed

lemma fresh_row_look:
  assumes "store_ok st" "claim_ok H cl" "fresh_rows H st" "r \<in> set (rows st)" "row_of cl r"
  shows "GetByScopeAndKeyHash (ir_Scope (cl_record cl)) (IdempotencyKeyHash (cl_record cl)) st = Some r"
    "idem_step E cfg cl (StoreRuns t now) Looking st = (by_status E cl r, st)"
proof -
  from assms(4,5) obtain r' where g: "GetByScopeAndKeyHash (ir_Scope (cl_record cl)) (IdempotencyKeyHash (cl_record cl)) st
      = Some r'" by (metis get_none not_Some_eq row_of_def row_key_def)
  from get_some [OF g] assms(5) have "r' = r"
    by (intro same_row [OF assms(1) _ assms(4)]) (auto simp: row_of_def row_key_def)
  with g show f: "GetByScopeAndKeyHash (ir_Scope (cl_record cl)) (IdempotencyKeyHash (cl_record cl)) st = Some r" by simp
  from assms(2-4) have "time_After (ir_ExpiresAt r) (cl_now cl)"
    by (fastforce simp: fresh_rows_def claim_ok_def time_After_def)
  with f assms(5) show "idem_step E cfg cl (StoreRuns t now) Looking st = (by_status E cl r, st)"
    by (simp add: idem_step_def look_def row_of_def Let_def)
qed

text \<open>
  C35: a response that is longer than the store allows is stored with the mark of its truncation, so a
  request that repeats an answered one is not answered with the result but with a failure of the
  store. (The hypothesis on the decoder: no JSON text ends in a closing parenthesis.)
\<close>

theorem idem_long_response_lost:
  assumes "reachable E cfg claims H st0 w" "store_ok st0" "fresh_rows H st0" "\<And>i. claim_ok H (claims i)"
    and "row_key (cl_record (claims i)) = row_key (cl_record (claims j))"
    and "RequestFingerprint (cl_record (claims i)) = RequestFingerprint (cl_record (claims j))"
    and "w_pc w i = Answered (Inr (data, False))" "w_pc w j = Looking"
    and "marshal_data E data = Some raw" "0 < MaxStoredResponseLen cfg"
    and "MaxStoredResponseLen cfg < int (length (RedactText E raw))"
    and "\<And>t. unmarshal_data E (t @ '')'') = None"
  shows "idem_step E cfg (claims j) (StoreRuns t now) (w_pc w j) (w_store w) = (Answered (Inl StoreUnavail), w_store w)"
proof -
  from world_invariant [OF assms(1-4)] have ok: "store_ok (w_store w)" "fresh_rows H (w_store w)"
    "good E cfg (claims i) (w_store w) (w_pc w i)" by (simp_all add: world_ok_def)
  have m: "marshalStoredResponse E cfg data =
      Some (truncateUTF8 (RedactText E raw) (MaxStoredResponseLen cfg) @ truncation_mark)"
    using assms(9-11) by (simp add: marshalStoredResponse_def)
  with ok(3) assms(7) obtain r where r: "r \<in> set (rows (w_store w))" "row_of (claims i) r"
    "ir_Status r = IdempotencyStatusSucceeded"
    "ir_ResponseBody r = Some (truncateUTF8 (RedactText E raw) (MaxStoredResponseLen cfg) @ truncation_mark)"
    by (auto simp: answer_row_def)
  have "decodeStoredResponse E (ir_ResponseBody r) = None"
    using r(4) assms(12) [of "truncateUTF8 (RedactText E raw) (MaxStoredResponseLen cfg) @ ''...(truncated''"]
    by (simp add: decodeStoredResponse_def truncation_mark_def not_blank)
  then have "by_status E (claims j) r = Answered (Inl StoreUnavail)" using r(3) by (simp add: by_status_def)
  moreover have "row_of (claims j) r" using r(2) assms(5,6) by (simp add: row_of_def)
  ultimately show ?thesis using fresh_row_look(2) [OF ok(1) assms(4) ok(2) r(1), where E = E] assms(8) by simp
qed

lemma idem_long_response_lost_witness:
  "let cfg = DefaultIdempotencyConfig\<lparr>MaxStoredResponseLen := 3\<rparr>;
       w = play text_env cfg (\<lambda>i. sample_claim ''f'') [(0, StoreRuns 1 1), (1, StoreRuns 1 1), (0, Returns (Inr ''[1,2]'')),
         (0, StoreRuns 2 2)] start_world
   in idem_step text_env cfg (sample_claim ''f'') (StoreRuns 3 3) (w_pc w 1) (w_store w)
      = (Answered (Inl StoreUnavail), w_store w)"
proof -
  let ?cfg = "DefaultIdempotencyConfig\<lparr>MaxStoredResponseLen := 3\<rparr>"
  let ?w = "play text_env ?cfg (\<lambda>i. sample_claim ''f'') [(0, StoreRuns 1 1), (1, StoreRuns 1 1), (0, Returns (Inr ''[1,2]'')),
         (0, StoreRuns 2 2)] start_world"
  have r: "reachable text_env ?cfg (\<lambda>i. sample_claim ''f'') 100 empty_store ?w"
    by (rule play_reachable [OF start_reachable]) (simp add: save_expires_def sample_claim_def cl_expires_def time_Add_def)
  have o: "w_pc ?w 0 = Answered (Inr (''[1,2]'', False))" "w_pc ?w 1 = Looking" by code_simp+
  have h: "marshal_data text_env ''[1,2]'' = Some ''[1,2]''" "0 < MaxStoredResponseLen ?cfg"
    "MaxStoredResponseLen ?cfg < int (length (RedactText text_env ''[1,2]''))"
    "\<And>t. unmarshal_data text_env (t @ '')'') = None" by (simp_all add: text_env_def)
  show ?thesis unfolding Let_def
    by (rule idem_long_response_lost [OF r empty_store_ok empty_fresh sample_ok refl refl o h])
qed

text \<open>
  a key whose request is recorded as processing is refused as in progress until the record expires,
  also after the time that the record is locked for.
\<close>

theorem idem_processing_outlives_lock:
  assumes "reachable E cfg claims H st0 w" "store_ok st0" "fresh_rows H st0" "\<And>i. claim_ok H (claims i)"
    and "r \<in> set (rows (w_store w))" "row_of (claims j) r" "ir_Status r = IdempotencyStatusProcessing"
    and "w_pc w j = Looking"
  shows "idem_step E cfg (claims j) (StoreRuns t now) (w_pc w j) (w_store w) =
    (Answered (Inl (conflictWithRetryAfter InProgress (LockedUntil r) (cl_now (claims j)))), w_store w)"
proof -
  from world_invariant [OF assms(1-4)] have ok: "store_ok (w_store w)" "fresh_rows H (w_store w)"
    by (simp_all add: world_ok_def)
  show ?thesis unfolding assms(8) fresh_row_look(2) [OF ok(1) assms(4) ok(2) assms(5,6), where E = E]
    by (simp add: by_status_def assms(7))
qed

definition late_claim :: claim where
  "late_claim = (sample_claim ''f'')\<lparr>cl_now := 99,
     cl_record := (cl_record (sample_claim ''f''))\<lparr>LockedUntil := Some 129, ir_ExpiresAt := 199\<rparr>\<rparr>"

lemma idem_processing_outlives_lock_witness:
  "let w = play text_env DefaultIdempotencyConfig (\<lambda>i. if i = 0 then sample_claim ''f'' else late_claim)
         [(0, StoreRuns 1 1), (0, Crashes), (1, StoreRuns 99 99)] start_world
   in \<exists>secs. idem_step text_env DefaultIdempotencyConfig late_claim (StoreRuns 99 99) (w_pc w 1) (w_store w) =
        (Answered (Inl (InProgress secs)), w_store w)"
proof -
  let ?c = "\<lambda>i. if i = (0::nat) then sample_claim ''f'' else late_claim"
  let ?w = "play text_env DefaultIdempotencyConfig ?c [(0, StoreRuns 1 1), (0, Crashes), (1, StoreRuns 99 99)] start_world"
  let ?r = "(cl_record (sample_claim ''f''))\<lparr>ir_ID := 1, ir_CreatedAt := 1, ir_UpdatedAt := 1\<rparr>"
  have late: "claim_ok 100 late_claim"
    by (simp add: late_claim_def claim_ok_def sample_claim_def cl_expires_def time_Add_def)
  have ok: "\<And>i. claim_ok 100 (?c i)" using late sample_ok by simp
  have r: "reachable text_env DefaultIdempotencyConfig ?c 100 empty_store ?w"
    by (rule play_reachable [OF start_reachable])
       (simp add: save_expires_def sample_claim_def late_claim_def cl_expires_def time_Add_def)
  have row: "?r \<in> set (rows (w_store ?w))" by code_simp
  have p: "w_pc ?w 1 = Looking" by code_simp
  have o: "row_of (?c 1) ?r" by (simp add: row_of_def row_key_def late_claim_def sample_claim_def)
  have st: "ir_Status ?r = IdempotencyStatusProcessing" by (simp add: sample_claim_def)
  have e: "\<exists>secs. conflictWithRetryAfter InProgress (LockedUntil ?r) (cl_now late_claim) = InProgress secs"
    unfolding conflictWithRetryAfter_def Let_def by (auto split: option.split)
  note t = idem_processing_outlives_lock [OF r empty_store_ok empty_fresh ok row o st p, of 99 99]
  from e t show ?thesis unfolding Let_def by (simp only: one_neq_zero if_False) blast
qed

section \<open>The lock of the system operations\<close>

lemma create_taken:
  "GetByScopeAndKeyHash (ir_Scope r) (IdempotencyKeyHash r) st = Some ex \<Longrightarrow>
    CreateProcessing t r st = (None, st\<lparr>next_id := next_id st + 1\<rparr>)"
  by (simp add: CreateProcessing_def GetByScopeAndKeyHash_def)

lemma get_next_id [simp]: "GetByScopeAndKeyHash sc k (st\<lparr>next_id := n\<rparr>) = GetByScopeAndKeyHash sc k st"
  by (simp add: GetByScopeAndKeyHash_def)

lemma store_ok_next_id: "store_ok st \<Longrightarrow> store_ok (st\<lparr>next_id := next_id st + 1\<rparr>)"
  by (auto simp: store_ok_def list_all_iff)

abbreviation "lock_row E \<equiv> GetByScopeAndKeyHash systemOperationLockScope (HashIdempotencyKey E systemOperationLockKey)"

abbreviation "unlocked now r \<equiv> (case LockedUntil r of None \<Rightarrow> True | Some t \<Rightarrow> t \<le> now)"

lemma get_updated:
  assumes "\<And>r. row_key (f r) = row_key r"
  shows "GetByScopeAndKeyHash sc k (snd (update_rows cond f st)) =
    map_option (\<lambda>r. if cond r then f r else r) (GetByScopeAndKeyHash sc k st)"
proof -
  have "same_key sc k (if cond r then f r else r) = same_key sc k r" for r
    using assms [of r] by (auto simp: same_key_def row_key_def)
  then have "find (same_key sc k) (map (\<lambda>r. if cond r then f r else r) rs) =
      map_option (\<lambda>r. if cond r then f r else r) (find (same_key sc k) rs)" for rs
    by (induction rs) auto
  then show ?thesis by (simp add: GetByScopeAndKeyHash_def update_rows_def)
qed

text \<open>A record that is not locked is taken over, and keeps the name of the operation that created it.\<close>

lemma take_over:
  assumes "store_ok st" "lock_row E st = Some ex" "unlocked now ex" "operation \<noteq> []"
  shows "\<exists>st' ex'. acquire_steps E s operation now [Some t1, Some t2, Some t3] AcCreate st =
      (AcDone (Inr \<lparr>recordID = ir_ID ex, operationID = operation\<rparr>), st') \<and> store_ok st' \<and>
    lock_row E st' = Some ex' \<and> ir_ID ex' = ir_ID ex \<and> RequestFingerprint ex' = RequestFingerprint ex \<and>
    LockedUntil ex' = Some (time_Add now (lease s)) \<and> ir_Status ex' = IdempotencyStatusProcessing"
proof -
  let ?st = "st\<lparr>next_id := next_id st + 1\<rparr>"
  let ?out = "TryReclaim t3 (ir_ID ex) (ir_Status ex) now (time_Add now (lease s)) (time_Add now (lock_ttl s)) ?st"
  have ok: "store_ok ?st" by (rule store_ok_next_id [OF assms(1)])
  from get_some [OF assms(2)] have ex: "ex \<in> set (rows st)" by simp
  with assms(1) have id: "ir_ID ex \<noteq> 0" by (auto simp: store_ok_def list_all_iff)
  have live: "\<not> (ir_Status ex = IdempotencyStatusProcessing \<and> LockedUntil ex \<noteq> None \<and>
      time_After (the (LockedUntil ex)) now)"
    using assms(3) by (auto simp: time_After_def split: option.splits)
  have taken: "fst ?out" using ex assms(3) by (auto simp: TryReclaim_def update_rows_def list_ex_iff)
  then obtain st3 where out: "?out = (True, st3)" by (metis prod.collapse)
  have c: "CreateProcessing t1 (lock_record E s operation now) st = (None, ?st)"
    by (rule create_taken [of _ _ ex]) (simp add: lock_record_def assms(2))
  have "acquire_steps E s operation now [Some t1, Some t2, Some t3] AcCreate st =
      (AcDone (Inr \<lparr>recordID = ir_ID ex, operationID = operation\<rparr>), st3)"
    using c live out assms(2,4) id
    by (simp add: acquire_step_def Let_def lock_record_def held_def)
  moreover have st3: "st3 = snd ?out" using out by simp
  have "store_ok st3" unfolding st3 by (rule statements_ok [OF ok])
  moreover have "\<exists>ex'. lock_row E st3 = Some ex' \<and> ir_ID ex' = ir_ID ex \<and>
    RequestFingerprint ex' = RequestFingerprint ex \<and>
    LockedUntil ex' = Some (time_Add now (lease s)) \<and> ir_Status ex' = IdempotencyStatusProcessing"
    unfolding st3 TryReclaim_def by (subst get_updated) (use assms(2,3) in \<open>auto simp: row_key_def\<close>)
  ultimately show ?thesis by blast
qed

lemma found_unique:
  "store_ok st \<Longrightarrow> lock_row E st = Some ex \<Longrightarrow> r \<in> set (rows st) \<Longrightarrow> ir_ID r = ir_ID ex \<Longrightarrow> r = ex"
  using get_some by (fastforce simp: store_ok_def distinct_map inj_on_def)

text \<open>
  C36: an operation that takes over the record of an earlier one cannot renew its lease: the record still
  names the earlier operation. So once the first lease has passed, a third operation gets the same lock,
  without any release by the second.
\<close>

theorem lock_taken_over_is_lost:
  assumes "store_ok st" "lock_row E st = Some ex" "unlocked now ex"
    and "operation \<noteq> []" "third \<noteq> []" "RequestFingerprint ex \<noteq> operation" "time_Add now (lease s) \<le> now3"
  shows "\<exists>st2 st3.
    acquire_steps E s operation now [Some t1, Some t2, Some t3] AcCreate st =
      (AcDone (Inr \<lparr>recordID = ir_ID ex, operationID = operation\<rparr>), st2) \<and>
    renew_lock s \<lparr>recordID = ir_ID ex, operationID = operation\<rparr> later (Some t) st2 = (False, st2) \<and>
    acquire_steps E s third now3 [Some t4, Some t5, Some t6] AcCreate st2 =
      (AcDone (Inr \<lparr>recordID = ir_ID ex, operationID = third\<rparr>), st3)"
proof -
  from take_over [OF assms(1-4), where s = s and ?t1.0 = t1 and ?t2.0 = t2 and ?t3.0 = t3] obtain st2 ex2 where
    a: "acquire_steps E s operation now [Some t1, Some t2, Some t3] AcCreate st =
      (AcDone (Inr \<lparr>recordID = ir_ID ex, operationID = operation\<rparr>), st2)" and ok: "store_ok st2"
    and g: "lock_row E st2 = Some ex2" and ex2: "ir_ID ex2 = ir_ID ex" "RequestFingerprint ex2 = RequestFingerprint ex"
    "LockedUntil ex2 = Some (time_Add now (lease s))" by blast
  have "unlocked now3 ex2" using ex2(3) assms(7) by simp
  from take_over [OF ok g this assms(5), where s = s and ?t1.0 = t4 and ?t2.0 = t5 and ?t3.0 = t6] obtain st3 where
    b: "acquire_steps E s third now3 [Some t4, Some t5, Some t6] AcCreate st2 =
      (AcDone (Inr \<lparr>recordID = ir_ID ex, operationID = third\<rparr>), st3)" using ex2(1) by auto
  have "RequestFingerprint r \<noteq> operation" if "r \<in> set (rows st2)" "ir_ID r = ir_ID ex" for r
    using found_unique [OF ok g that(1)] that(2) ex2(1,2) assms(6) by simp
  then have "renew_lock s \<lparr>recordID = ir_ID ex, operationID = operation\<rparr> later (Some t) st2 = (False, st2)"
    unfolding renew_lock_def ExtendProcessingLock_def by (simp, intro update_rows_none) blast
  with a b show ?thesis by blast
qed

definition released_store :: store where
  "released_store = \<lparr>rows = [(lock_record text_env (NewSystemOperationLockService DefaultIdempotencyConfig) ''a'' 0)
     \<lparr>ir_ID := 1, ir_Status := IdempotencyStatusSucceeded, LockedUntil := None\<rparr>], next_id = 2\<rparr>"

lemma lock_taken_over_is_lost_witness:
  "\<exists>st2 st3.
    acquire_steps text_env (NewSystemOperationLockService DefaultIdempotencyConfig) ''b'' 5 [Some 5, Some 5, Some 5] AcCreate released_store =
      (AcDone (Inr \<lparr>recordID = 1, operationID = ''b''\<rparr>), st2) \<and>
    renew_lock (NewSystemOperationLockService DefaultIdempotencyConfig) \<lparr>recordID = 1, operationID = ''b''\<rparr> 9 (Some 9) st2 = (False, st2) \<and>
    acquire_steps text_env (NewSystemOperationLockService DefaultIdempotencyConfig) ''c'' (31 * second) [Some 7, Some 8, Some 9] AcCreate st2 =
      (AcDone (Inr \<lparr>recordID = 1, operationID = ''c''\<rparr>), st3)"
proof -
  let ?s = "NewSystemOperationLockService DefaultIdempotencyConfig"
  let ?ex = "(lock_record text_env ?s ''a'' 0)\<lparr>ir_ID := 1, ir_Status := IdempotencyStatusSucceeded, LockedUntil := None\<rparr>"
  have ok: "store_ok released_store" by (simp add: store_ok_def released_store_def)
  have g: "lock_row text_env released_store = Some ?ex"
    by (simp add: released_store_def GetByScopeAndKeyHash_def same_key_def lock_record_def)
  have u: "unlocked 5 ?ex" by simp
  have f: "RequestFingerprint ?ex \<noteq> ''b''" by (simp add: lock_record_def)
  have l: "time_Add 5 (lease ?s) \<le> 31 * second"
    by (simp add: NewSystemOperationLockService_def DefaultIdempotencyConfig_def Let_def time_Add_def)
  have id: "ir_ID ?ex = 1" by simp
  show ?thesis
    using lock_taken_over_is_lost [OF ok g u _ _ f l, where third = "''c''" and ?t1.0 = 5 and ?t2.0 = 5 and ?t3.0 = 5
      and ?t4.0 = 7 and ?t5.0 = 8 and ?t6.0 = 9 and later = 9 and t = 9] unfolding id by simp
qed

end
