(* ===== verification/Idem_Lock_Run.thy ===== *)
theory Idem_Lock_Run
  imports Idem_Main
begin

text \<open>
  The lock of system operations while several operations run: the one that created the record renews
  it, any number of others try to acquire it, call by call and interleaved, expired records are
  purged, and other users of the table work on their own records.
\<close>

section \<open>The machine\<close>

text \<open>The attempts of the others: their operation, the clock reading at their start, and where they are.\<close>

record lock_world =
  lw_store :: store
  lw_clock :: gotime
  lw_tries :: "nat \<Rightarrow> (string \<times> gotime \<times> acquire_pc) option"

text \<open>
  The lease of the record has not passed, and the record has not expired. Only clock readings of those
  who start an attempt and of the purge are bound to it: an attempt may act on its reading any time
  later.
\<close>

definition in_time :: "('p, 'd) idem_env \<Rightarrow> gotime \<Rightarrow> store \<Rightarrow> bool" where
  "in_time E now st = (case lock_row E st of
     None \<Rightarrow> False
   | Some r \<Rightarrow> (case LockedUntil r of None \<Rightarrow> False | Some t \<Rightarrow> now < t) \<and> now < ir_ExpiresAt r)"

inductive lock_goes :: "('p, 'd) idem_env \<Rightarrow> lock_service \<Rightarrow> SystemOperationLock \<Rightarrow> lock_world \<Rightarrow> lock_world \<Rightarrow> bool"
  for E s l where
  renews: "lw_clock w \<le> now \<Longrightarrow> renew_lock s l now db (lw_store w) = (going, st) \<Longrightarrow>
    lock_goes E s l w (w\<lparr>lw_store := st, lw_clock := now\<rparr>)"
| starts: "lw_tries w i = None \<Longrightarrow> in_time E start (lw_store w) \<Longrightarrow>
    lock_goes E s l w (w\<lparr>lw_tries := (lw_tries w)(i \<mapsto> (other, start, AcCreate))\<rparr>)"
| acts: "lw_tries w i = Some (other, start, p) \<Longrightarrow> acquire_step E s other start db p (lw_store w) = (q, st) \<Longrightarrow>
    lock_goes E s l w (w\<lparr>lw_store := st, lw_tries := (lw_tries w)(i \<mapsto> (other, start, q))\<rparr>)"
| purges: "in_time E now (lw_store w) \<Longrightarrow> DeleteExpired now limit (lw_store w) = (deleted, st) \<Longrightarrow>
    lock_goes E s l w (w\<lparr>lw_store := st\<rparr>)"
| others_work: "store_ok st \<Longrightarrow> lock_row E st = lock_row E (lw_store w) \<Longrightarrow> next_id (lw_store w) \<le> next_id st \<Longrightarrow>
    lock_goes E s l w (w\<lparr>lw_store := st\<rparr>)"

section \<open>The invariant\<close>

text \<open>The record of the creator: processing, named after it, and locked no further than a lease from its last renewal.\<close>

definition record_kept :: "('p, 'd) idem_env \<Rightarrow> lock_service \<Rightarrow> SystemOperationLock \<Rightarrow> gotime \<Rightarrow> gotime \<Rightarrow> store \<Rightarrow> bool" where
  "record_kept E s l clock until st = (store_ok st \<and> (\<exists>r. lock_row E st = Some r \<and> ir_ID r = recordID l \<and>
     RequestFingerprint r = operationID l \<and> ir_Status r = IdempotencyStatusProcessing \<and>
     LockedUntil r = Some until \<and> until \<le> time_Add clock (lease s)))"

definition turned_away :: "SystemOperationLock \<Rightarrow> string \<Rightarrow> gotime \<Rightarrow> lock_error \<Rightarrow> bool" where
  "turned_away l other start err = (err = LockStoreUnavail \<or> err = OperationIDRequired \<and> other = [] \<or>
     (\<exists>until. start < until \<and> err = busyError (operationID l) (Some until) start))"

definition try_ok :: "SystemOperationLock \<Rightarrow> gotime \<Rightarrow> string \<times> gotime \<times> acquire_pc \<Rightarrow> bool" where
  "try_ok l until t = (case t of (other, start, p) \<Rightarrow> start < until \<and>
     (p = AcCreate \<or> p = AcGet \<or> (\<exists>err. p = AcDone (Inl err) \<and> turned_away l other start err)))"

definition lock_inv :: "('p, 'd) idem_env \<Rightarrow> lock_service \<Rightarrow> SystemOperationLock \<Rightarrow> lock_world \<Rightarrow> bool" where
  "lock_inv E s l w = (\<exists>until. record_kept E s l (lw_clock w) until (lw_store w) \<and>
     (\<forall>i t. lw_tries w i = Some t \<longrightarrow> try_ok l until t))"

lemma try_ok_later: "try_ok l u t \<Longrightarrow> u \<le> v \<Longrightarrow> try_ok l v t"
  by (auto simp: try_ok_def)

lemma kept_store: "record_kept E s l c u st \<Longrightarrow> store_ok st"
  by (simp add: record_kept_def)

lemma kept_row: "record_kept E s l c u st \<Longrightarrow> lock_row E st' = lock_row E st \<Longrightarrow> store_ok st' \<Longrightarrow> record_kept E s l c u st'"
  by (simp add: record_kept_def)

text \<open>A step of another attempt leaves the record alone, and does not acquire it.\<close>

lemma kept_step:
  assumes "record_kept E s l c u st" "acquire_step E s other start db p st = (q, st')" "try_ok l u (other, start, p)"
  shows "record_kept E s l c u st' \<and> try_ok l u (other, start, q)"
proof -
  obtain r where r: "lock_row E st = Some r" "RequestFingerprint r = operationID l"
    "ir_Status r = IdempotencyStatusProcessing" "LockedUntil r = Some u" using assms(1) by (auto simp: record_kept_def)
  have taken: "CreateProcessing t (lock_record E s other start) st = (None, st\<lparr>next_id := next_id st + 1\<rparr>)" for t
    by (rule create_taken [of _ _ r]) (simp add: lock_record_def r(1))
  have counted: "record_kept E s l c u (st\<lparr>next_id := next_id st + 1\<rparr>)"
    by (rule kept_row [OF assms(1)]) (simp_all add: GetByScopeAndKeyHash_def store_ok_next_id kept_store [OF assms(1)])
  from assms(3) consider "p = AcCreate" | "p = AcGet" | "\<exists>err. p = AcDone (Inl err)" by (auto simp: try_ok_def)
  then show ?thesis
  proof cases
    case 1
    with assms counted show ?thesis
      by (cases db) (auto simp: acquire_step_def Let_def taken try_ok_def turned_away_def split: if_splits)
  next
    case 2
    with assms r show ?thesis
      by (cases db) (auto simp: acquire_step_def Let_def lock_record_def try_ok_def turned_away_def time_After_def)
  next
    case 3
    with assms show ?thesis by (auto simp: acquire_step_def Let_def)
  qed
qed

text \<open>A renewal that finds a working store succeeds, at any time.\<close>

lemma kept_renews:
  assumes "record_kept E s l c u st"
  shows "fst (renew_lock s l now db st)"
proof -
  obtain r where "lock_row E st = Some r" "ir_ID r = recordID l" "RequestFingerprint r = operationID l"
    "ir_Status r = IdempotencyStatusProcessing" using assms by (auto simp: record_kept_def)
  then show ?thesis
    by (auto simp: renew_lock_def ExtendProcessingLock_def update_rows_def list_ex_iff dest: get_some split: option.split)
qed

lemma kept_renew:
  assumes "record_kept E s l c u st" "c \<le> now" "renew_lock s l now db st = (going, st')"
  shows "going \<and> (\<exists>v. u \<le> v \<and> record_kept E s l now v st')"
proof (cases db)
  case None
  with assms show ?thesis by (auto simp: renew_lock_def record_kept_def time_Add_def)
next
  case (Some t)
  obtain r where r: "lock_row E st = Some r" "ir_ID r = recordID l" "RequestFingerprint r = operationID l"
    "ir_Status r = IdempotencyStatusProcessing" "u \<le> time_Add c (lease s)" using assms(1) by (auto simp: record_kept_def)
  let ?out = "ExtendProcessingLock t (recordID l) (operationID l) (time_Add now (lease s)) (time_Add now (lock_ttl s)) st"
  have out: "?out = (going, st')" using assms(3) Some by (simp add: renew_lock_def)
  have going: "fst ?out" using kept_renews [OF assms(1), of now db] Some by (simp add: renew_lock_def)
  have "lock_row E (snd ?out) = Some (r\<lparr>LockedUntil := Some (time_Add now (lease s)),
      ir_ExpiresAt := time_Add now (lock_ttl s), ir_UpdatedAt := t\<rparr>)"
    unfolding ExtendProcessingLock_def by (subst get_updated) (use r in \<open>simp_all add: row_key_def\<close>)
  moreover have "store_ok (snd ?out)" by (rule statements_ok [OF kept_store [OF assms(1)]])
  ultimately have "record_kept E s l now (time_Add now (lease s)) st'" using r out by (simp add: record_kept_def)
  moreover have "u \<le> time_Add now (lease s)" using r(5) assms(2) by (simp add: time_Add_def)
  ultimately show ?thesis using going out by auto
qed

lemma row_key_unique:
  "store_ok st \<Longrightarrow> a \<in> set (rows st) \<Longrightarrow> b \<in> set (rows st) \<Longrightarrow> row_key a = row_key b \<Longrightarrow> a = b"
  by (auto simp: store_ok_def distinct_map dest: inj_onD)

lemma kept_purge:
  assumes "record_kept E s l c u st" "in_time E now st" "DeleteExpired now limit st = (n, st')"
  shows "record_kept E s l c u st'"
proof (rule kept_row [OF assms(1)])
  have st: "store_ok st" by (rule kept_store [OF assms(1)])
  then have "store_ok (snd (DeleteExpired now limit st))" by (rule statements_ok)
  with assms(3) show ok: "store_ok st'" by simp
  obtain r where r: "lock_row E st = Some r" "now < ir_ExpiresAt r"
    using assms(2) by (auto simp: in_time_def split: option.splits)
  note row = get_some [OF r(1)]
  have sub: "set (rows st') \<subseteq> set (rows st)" using assms(3) by (auto simp: DeleteExpired_def Let_def)
  have kept: "ir_ID x \<noteq> ir_ID r" if "x \<in> set (rows st)" "ir_ExpiresAt x \<le> now" for x
    using found_unique [OF st r(1) that(1)] that(2) r(2) by auto
  then have mem: "r \<in> set (rows st')"
  proof -
    have "ir_ID r \<notin> ir_ID ` set (take m (sort_key ir_ExpiresAt (filter (\<lambda>x. ir_ExpiresAt x \<le> now) (rows st))))" for m
    proof
      assume "ir_ID r \<in> ir_ID ` set (take m (sort_key ir_ExpiresAt (filter (\<lambda>x. ir_ExpiresAt x \<le> now) (rows st))))"
      then obtain x where x: "ir_ID x = ir_ID r" "x \<in> set (take m (sort_key ir_ExpiresAt (filter (\<lambda>x. ir_ExpiresAt x \<le> now) (rows st))))"
        by auto
      from in_set_takeD [OF x(2)] have "x \<in> set (rows st)" "ir_ExpiresAt x \<le> now" by simp_all
      with kept x(1) show False by blast
    qed
    with row assms(3) show ?thesis by (auto simp: DeleteExpired_def Let_def)
  qed
  obtain x where x: "lock_row E st' = Some x"
    using mem row by (metis get_none not_Some_eq)
  then have "x = r" using get_some [OF x] row sub by (intro row_key_unique [OF st]) auto
  with x r(1) show "lock_row E st' = lock_row E st" by simp
qed

lemma lock_inv_store:
  "lock_inv E s l w \<Longrightarrow>
    (\<And>u. record_kept E s l (lw_clock w) u (lw_store w) \<Longrightarrow> record_kept E s l (lw_clock w) u st) \<Longrightarrow>
    lock_inv E s l (w\<lparr>lw_store := st\<rparr>)"
  by (auto simp: lock_inv_def)

lemma lock_inv_step: "lock_goes E s l w w' \<Longrightarrow> lock_inv E s l w \<Longrightarrow> lock_inv E s l w'"
proof (induction rule: lock_goes.induct)
  case (renews w now db going st)
  then obtain u where u: "record_kept E s l (lw_clock w) u (lw_store w)" "\<forall>i t. lw_tries w i = Some t \<longrightarrow> try_ok l u t"
    by (auto simp: lock_inv_def)
  from kept_renew [OF u(1) renews(1,2)] obtain v where "u \<le> v" "record_kept E s l now v st" by blast
  moreover from this(1) have "\<forall>i t. lw_tries w i = Some t \<longrightarrow> try_ok l v t" using u(2) try_ok_later by blast
  ultimately show ?case by (auto simp: lock_inv_def)
next
  case (starts w i start other)
  then show ?case by (fastforce simp: lock_inv_def try_ok_def in_time_def record_kept_def)
next
  case (acts w i other start p db q st)
  then obtain u where u: "record_kept E s l (lw_clock w) u (lw_store w)" "\<forall>i t. lw_tries w i = Some t \<longrightarrow> try_ok l u t"
    by (auto simp: lock_inv_def)
  with acts kept_step [OF u(1) acts(2)] show ?case by (auto simp: lock_inv_def)
next
  case (purges now w limit deleted st)
  then show ?case by (intro lock_inv_store) (auto intro: kept_purge)
next
  case (others_work st w)
  then show ?case by (intro lock_inv_store) (auto intro: kept_row)
qed

lemma lock_inv_start:
  assumes "store_ok st" "lock_row E st = None" "operation \<noteq> []"
  shows "\<exists>st1. acquire_steps E s operation now [Some t] AcCreate st = (AcDone (Inr \<lparr>recordID = next_id st, operationID = operation\<rparr>), st1) \<and>
    lock_inv E s \<lparr>recordID = next_id st, operationID = operation\<rparr> \<lparr>lw_store = st1, lw_clock = now, lw_tries = \<lambda>i. None\<rparr>"
proof -
  let ?r = "(lock_record E s operation now)\<lparr>ir_ID := next_id st, ir_CreatedAt := t, ir_UpdatedAt := t\<rparr>"
  let ?st1 = "\<lparr>rows = rows st @ [?r], next_id = next_id st + 1\<rparr>"
  have c: "CreateProcessing t (lock_record E s operation now) st = (Some ?r, ?st1)"
    using assms(2) by (simp add: CreateProcessing_def lock_record_def GetByScopeAndKeyHash_def Let_def)
  have id: "next_id st \<noteq> 0" using assms(1) by (simp add: store_ok_def)
  have "store_ok ?st1" using create_ok [OF assms(1), of t "lock_record E s operation now"] c by simp
  moreover have "lock_row E ?st1 = Some ?r"
  proof -
    have "find P (xs @ [y]) = (case find P xs of None \<Rightarrow> if P y then Some y else None | Some z \<Rightarrow> Some z)"
      for P :: "IdempotencyRecord \<Rightarrow> bool" and xs y by (induction xs) auto
    then show ?thesis using assms(2)
      by (simp add: GetByScopeAndKeyHash_def same_key_def lock_record_def)
  qed
  moreover have "ir_ID ?r = next_id st" "RequestFingerprint ?r = operation" "ir_Status ?r = IdempotencyStatusProcessing"
    "LockedUntil ?r = Some (time_Add now (lease s))" by (simp_all add: lock_record_def)
  ultimately have "record_kept E s \<lparr>recordID = next_id st, operationID = operation\<rparr> now (time_Add now (lease s)) ?st1"
    unfolding record_kept_def by (intro conjI exI [of _ ?r]) simp_all
  then have "lock_inv E s \<lparr>recordID = next_id st, operationID = operation\<rparr> \<lparr>lw_store = ?st1, lw_clock = now, lw_tries = \<lambda>i. None\<rparr>"
    unfolding lock_inv_def by (intro exI [of _ "time_Add now (lease s)"]) simp
  moreover have "acquire_steps E s operation now [Some t] AcCreate st = (AcDone (Inr \<lparr>recordID = next_id st, operationID = operation\<rparr>), ?st1)"
    using c assms(3) id by (simp add: acquire_step_def Let_def held_def)
  ultimately show ?thesis by blast
qed

section \<open>Exclusion\<close>

text \<open>
  C37: an operation that created the record holds the lock alone, whatever the others do: in every run of
  its renewals (at times that do not go back) with any number of attempts of others, interleaved call by
  call and with failures of the store, purges of expired records and work on other records, every
  attempt that ends is turned away, and the next renewal still succeeds. This holds as long as every
  attempt begins before the end of the current lease, and no purge comes after the record's expiry
  (with a time to live below the lease, a purge can delete the record while it is held).
\<close>

theorem lock_creator_excludes:
  assumes "store_ok st" "lock_row E st = None" "operation \<noteq> []"
    and "acquire_steps E s operation now [Some t] AcCreate st = (p, st1)" "l = \<lparr>recordID = next_id st, operationID = operation\<rparr>"
    and "(lock_goes E s l)\<^sup>*\<^sup>* \<lparr>lw_store = st1, lw_clock = now, lw_tries = \<lambda>i. None\<rparr> w"
  shows "p = AcDone (Inr l) \<and> fst (renew_lock s l later db (lw_store w)) \<and>
    (case lw_tries w i of
       Some (other, start, AcDone res) \<Rightarrow> \<exists>err. res = Inl err \<and> turned_away l other start err
     | _ \<Rightarrow> True)"
proof -
  have inv: "lock_inv E s l \<lparr>lw_store = st1, lw_clock = now, lw_tries = \<lambda>i. None\<rparr>" and p: "p = AcDone (Inr l)"
    using lock_inv_start [OF assms(1-3), of s now t] assms(4,5) by auto
  from assms(6) inv have "lock_inv E s l w"
    by (induction rule: rtranclp_induct) (auto intro: lock_inv_step)
  then obtain u where u: "record_kept E s l (lw_clock w) u (lw_store w)" "\<forall>i t. lw_tries w i = Some t \<longrightarrow> try_ok l u t"
    by (auto simp: lock_inv_def)
  have "fst (renew_lock s l later db (lw_store w))"
    using kept_renews [OF u(1), of later db] .
  moreover have "case lw_tries w i of
       Some (other, start, AcDone res) \<Rightarrow> \<exists>err. res = Inl err \<and> turned_away l other start err | _ \<Rightarrow> True"
    using u(2) by (cases "lw_tries w i") (fastforce simp: try_ok_def split: acquire_pc.split)+
  ultimately show ?thesis using p by blast
qed

text \<open>The creator renews after ten seconds; another asks a second before the lease would end.\<close>

abbreviation "demo_service \<equiv> NewSystemOperationLockService DefaultIdempotencyConfig"

definition demo_lock :: SystemOperationLock where
  "demo_lock = \<lparr>recordID = next_id empty_store, operationID = ''a''\<rparr>"

definition created_store :: store where
  "created_store = snd (acquire_steps text_env demo_service ''a'' 0 [Some 0] AcCreate empty_store)"

definition renewed_store :: store where
  "renewed_store = snd (renew_lock demo_service demo_lock (10 * second) (Some 0) created_store)"

lemma demo_service: "lease demo_service = 30 * second" "lock_ttl demo_service = hour"
  by (simp_all add: NewSystemOperationLockService_def DefaultIdempotencyConfig_def Let_def)

definition demo_record :: IdempotencyRecord where
  "demo_record = (lock_record text_env demo_service ''a'' 0)\<lparr>ir_ID := 1\<rparr>"

lemma created: "created_store = \<lparr>rows = [demo_record], next_id = 2\<rparr>"
  by (simp add: created_store_def acquire_step_def CreateProcessing_def GetByScopeAndKeyHash_def empty_store_def held_def Let_def
    demo_record_def lock_record_def)

lemma renewed: "renewed_store =
    \<lparr>rows = [demo_record\<lparr>LockedUntil := Some (40 * second), ir_ExpiresAt := 3610 * second\<rparr>], next_id = 2\<rparr>"
  by (simp add: renewed_store_def renew_lock_def ExtendProcessingLock_def update_rows_def created demo_service demo_lock_def
    empty_store_def time_Add_def) (simp add: demo_record_def lock_record_def)

lemma demo_row: "lock_row text_env \<lparr>rows = [demo_record\<lparr>LockedUntil := lu, ir_ExpiresAt := ex\<rparr>], next_id = n\<rparr> =
    Some (demo_record\<lparr>LockedUntil := lu, ir_ExpiresAt := ex\<rparr>)"
  by (simp add: GetByScopeAndKeyHash_def same_key_def demo_record_def lock_record_def)

definition asked :: "acquire_pc \<times> store" where
  "asked = acquire_step text_env demo_service ''b'' (39 * second) (Some 0) AcCreate renewed_store"

lemma asked: "asked = (AcGet, renewed_store\<lparr>next_id := 3\<rparr>)"
  by (simp add: asked_def acquire_step_def CreateProcessing_def Let_def renewed)
    (simp add: lock_record_def GetByScopeAndKeyHash_def same_key_def demo_record_def)

definition told :: "acquire_pc \<times> store" where
  "told = acquire_step text_env demo_service ''b'' (39 * second) (Some 0) (fst asked) (snd asked)"

definition race_world :: lock_world where
  "race_world = \<lparr>lw_store = snd told, lw_clock = 10 * second, lw_tries = [0 \<mapsto> (''b'', 39 * second, fst told)]\<rparr>"

lemma race_world: "(lock_goes text_env demo_service demo_lock)\<^sup>*\<^sup>* \<lparr>lw_store = created_store, lw_clock = 0, lw_tries = \<lambda>i. None\<rparr> race_world"
proof -
  let ?g = "lock_goes text_env demo_service demo_lock"
  let ?w1 = "\<lparr>lw_store = renewed_store, lw_clock = 10 * second, lw_tries = \<lambda>i. None\<rparr>"
  let ?w2 = "?w1\<lparr>lw_tries := (lw_tries ?w1)(0 \<mapsto> (''b'', 39 * second, AcCreate))\<rparr>"
  let ?w3 = "?w2\<lparr>lw_store := snd asked, lw_tries := (lw_tries ?w2)(0 \<mapsto> (''b'', 39 * second, fst asked))\<rparr>"
  let ?w4 = "?w3\<lparr>lw_store := snd told, lw_tries := (lw_tries ?w3)(0 \<mapsto> (''b'', 39 * second, fst told))\<rparr>"
  have time: "in_time text_env (39 * second) renewed_store"
    by (simp add: in_time_def renewed demo_row)
  have 1: "?g \<lparr>lw_store = created_store, lw_clock = 0, lw_tries = \<lambda>i. None\<rparr> ?w1"
    using lock_goes.renews [of "\<lparr>lw_store = created_store, lw_clock = 0, lw_tries = \<lambda>i. None\<rparr>" "10 * second" demo_service demo_lock
      "Some 0" "fst (renew_lock demo_service demo_lock (10 * second) (Some 0) created_store)" renewed_store text_env]
    by (simp add: renewed_store_def)
  have 2: "?g ?w1 ?w2" by (rule lock_goes.starts) (use time in simp_all)
  have 3: "?g ?w2 ?w3" by (rule lock_goes.acts [where p = AcCreate and db = "Some 0"]) (simp_all add: asked_def)
  have 4: "?g ?w3 ?w4" by (rule lock_goes.acts [where p = "fst asked" and db = "Some 0"]) (simp_all add: told_def)
  have "?w4 = race_world" by (simp add: race_world_def)
  with 1 2 3 4 show ?thesis
    by (metis (no_types, lifting) rtranclp.rtrancl_refl rtranclp.rtrancl_into_rtrancl)
qed

theorem lock_creator_excludes_witness:
  "fst (acquire_steps text_env demo_service ''a'' 0 [Some 0] AcCreate empty_store) = AcDone (Inr demo_lock) \<and>
   fst (renew_lock demo_service demo_lock (20 * second) (Some 0) (lw_store race_world)) \<and>
   (\<exists>err. fst told = AcDone (Inl err) \<and> turned_away demo_lock ''b'' (39 * second) err)"
proof -
  have row: "lock_row text_env empty_store = None" by (simp add: empty_store_def GetByScopeAndKeyHash_def)
  have ended: "\<exists>res. fst told = AcDone res"
    by (simp add: told_def asked renewed acquire_step_def Let_def GetByScopeAndKeyHash_def same_key_def demo_record_def lock_record_def
      time_After_def)
  have "fst (acquire_steps text_env demo_service ''a'' 0 [Some 0] AcCreate empty_store) = AcDone (Inr demo_lock) \<and>
    fst (renew_lock demo_service demo_lock (20 * second) (Some 0) (lw_store race_world)) \<and>
    (case lw_tries race_world 0 of
       Some (other, start, AcDone res) \<Rightarrow> \<exists>err. res = Inl err \<and> turned_away demo_lock other start err
     | _ \<Rightarrow> True)"
    by (rule lock_creator_excludes [OF empty_store_ok row _ prod.collapse [symmetric] _ race_world [unfolded created_store_def]])
      (simp_all add: demo_lock_def)
  then show ?thesis using ended by (auto simp: race_world_def)
qed

end
