(* ===== verification/Pay_Types.thy ===== *)
theory Pay_Types
  imports Float64
begin

text \<open>
  The data of the payment component (\<open>internal/payment\<close> and the \<open>payment_*.go\<close> files of
  \<open>internal/service\<close>): floats with NaN, currencies and their minor units, order statuses, the
  order row, provider snapshots and the checks of a payment notification against them.
\<close>

section \<open>Floats with NaN\<close>

datatype gofloat = NaN | Num float64

definition is_finite :: "gofloat \<Rightarrow> bool" where
  [go_defs]: "is_finite x = (case x of Num (Fin q) \<Rightarrow> True | _ \<Rightarrow> False)"

text \<open>Every comparison with a NaN is false.\<close>

definition fl_less :: "gofloat \<Rightarrow> gofloat \<Rightarrow> bool" where
  [go_defs]: "fl_less x y = (case (x, y) of (Num a, Num b) \<Rightarrow> a < b | _ \<Rightarrow> False)"

definition fl_leq :: "gofloat \<Rightarrow> gofloat \<Rightarrow> bool" where
  [go_defs]: "fl_leq x y = (case (x, y) of (Num a, Num b) \<Rightarrow> a \<le> b | _ \<Rightarrow> False)"

definition fl_eq :: "gofloat \<Rightarrow> gofloat \<Rightarrow> bool" where
  "fl_eq x y = (x = y \<and> x \<noteq> NaN)"

fun neg64 :: "float64 \<Rightarrow> float64" where
  "neg64 (Fin q) = Fin (- q)"
| "neg64 PInf = NInf"
| "neg64 NInf = PInf"

fun add64 :: "float64 \<Rightarrow> float64 \<Rightarrow> gofloat" where
  "add64 (Fin a) (Fin b) = Num (f64 (a + b))"
| "add64 (Fin a) y = Num y"
| "add64 x (Fin b) = Num x"
| "add64 x y = (if x = y then Num x else NaN)"

definition fl_neg :: "gofloat \<Rightarrow> gofloat" where
  [go_defs]: "fl_neg x = (case x of NaN \<Rightarrow> NaN | Num a \<Rightarrow> Num (neg64 a))"

definition fl_sub :: "gofloat \<Rightarrow> gofloat \<Rightarrow> gofloat" where
  [go_defs]: "fl_sub x y = (case (x, y) of (Num a, Num b) \<Rightarrow> add64 a (neg64 b) | _ \<Rightarrow> NaN)"

definition fl_add :: "gofloat \<Rightarrow> gofloat \<Rightarrow> gofloat" where
  [go_defs]: "fl_add x y = (case (x, y) of (Num a, Num b) \<Rightarrow> add64 a b | _ \<Rightarrow> NaN)"

definition zero64 :: gofloat where [go_defs]: "zero64 = Num (Fin 0)"

definition fl_abs :: "gofloat \<Rightarrow> gofloat" where
  [go_defs]: "fl_abs x = (case x of NaN \<Rightarrow> NaN | Num (Fin q) \<Rightarrow> Num (Fin \<bar>q\<bar>) | Num y \<Rightarrow> Num PInf)"

text \<open>\<open>math.Min\<close> and \<open>math.Max\<close>: the infinity that decides wins over a NaN.\<close>

definition fl_min :: "gofloat \<Rightarrow> gofloat \<Rightarrow> gofloat" where
  [go_defs]: "fl_min x y = (if x = Num NInf \<or> y = Num NInf then Num NInf
     else case (x, y) of (Num a, Num b) \<Rightarrow> Num (min a b) | _ \<Rightarrow> NaN)"

definition fl_max :: "gofloat \<Rightarrow> gofloat \<Rightarrow> gofloat" where
  [go_defs]: "fl_max x y = (if x = Num PInf \<or> y = Num PInf then Num PInf
     else case (x, y) of (Num a, Num b) \<Rightarrow> Num (max a b) | _ \<Rightarrow> NaN)"

section \<open>Errors\<close>

text \<open>
  \<open>AppErr\<close> is an error of package \<open>infraerrors\<close> with its reason; \<open>NotFound\<close> is the not-found error
  of the data store, \<open>DbFailure\<close> any other error of it; \<open>Failure\<close> is a plain error with the text of
  its format. Wrapping with \<open>%w\<close> keeps the wrapped error, which is all that callers look at.
\<close>

datatype perr = AppErr string | NotFound | DbFailure | ErrOrderNotFound | Failure string

section \<open>Constants\<close>

definition TypeAlipay :: string where [go_defs]: "TypeAlipay = ''alipay''"
definition TypeWxpay :: string where [go_defs]: "TypeWxpay = ''wxpay''"
definition TypeStripe :: string where [go_defs]: "TypeStripe = ''stripe''"
definition TypeStripeHosted :: string where [go_defs]: "TypeStripeHosted = ''stripe_hosted''"
definition TypeCard :: string where [go_defs]: "TypeCard = ''card''"
definition TypeLink :: string where [go_defs]: "TypeLink = ''link''"
definition TypeEasyPay :: string where [go_defs]: "TypeEasyPay = ''easypay''"
definition TypeAirwallex :: string where [go_defs]: "TypeAirwallex = ''airwallex''"

datatype order_status =
  Pending | Processing | Paid | Recharging | Completed | Expired | Cancelled | OrderFailed
| RefundRequested | Refunding | RefundPending | PartiallyRefunded | Refunded | RefundFailed

definition OrderTypeBalance :: string where [go_defs]: "OrderTypeBalance = ''balance''"
definition OrderTypeSubscription :: string where [go_defs]: "OrderTypeSubscription = ''subscription''"

definition psIsRefundStatus :: "order_status \<Rightarrow> bool" where
  [go_defs]: "psIsRefundStatus s =
     (s \<in> set [RefundRequested, Refunding, RefundPending, PartiallyRefunded, Refunded, RefundFailed])"

definition ProviderStatusPending :: string where [go_defs]: "ProviderStatusPending = ''pending''"
definition ProviderStatusProcessing :: string where [go_defs]: "ProviderStatusProcessing = ''processing''"
definition ProviderStatusExpired :: string where [go_defs]: "ProviderStatusExpired = ''expired''"
definition ProviderStatusPaid :: string where [go_defs]: "ProviderStatusPaid = ''paid''"
definition ProviderStatusSuccess :: string where [go_defs]: "ProviderStatusSuccess = ''success''"
definition ProviderStatusFailed :: string where [go_defs]: "ProviderStatusFailed = ''failed''"
definition ProviderStatusRefunded :: string where [go_defs]: "ProviderStatusRefunded = ''refunded''"

definition GetBasePaymentType :: "string \<Rightarrow> string" where
  [go_defs]: "GetBasePaymentType t =
     (if t = TypeEasyPay then TypeEasyPay
      else if t = TypeAirwallex then TypeAirwallex
      else if t = TypeStripe \<or> t = TypeCard \<or> t = TypeLink then TypeStripe
      else if HasPrefix t TypeAlipay then TypeAlipay
      else if HasPrefix t TypeWxpay then TypeWxpay
      else t)"

section \<open>Currencies\<close>

record paymentCurrencyAmountUnit =
  apiMinorUnit :: int
  maxFractionDigits :: int

definition DefaultPaymentCurrency :: string where [go_defs]: "DefaultPaymentCurrency = ''CNY''"

definition zeroDecimalAmountUnit :: paymentCurrencyAmountUnit where
  [go_defs]: "zeroDecimalAmountUnit = \<lparr>apiMinorUnit = 0, maxFractionDigits = 0\<rparr>"
definition twoDecimalAmountUnit :: paymentCurrencyAmountUnit where
  [go_defs]: "twoDecimalAmountUnit = \<lparr>apiMinorUnit = 2, maxFractionDigits = 2\<rparr>"
definition threeDecimalAmountUnit :: paymentCurrencyAmountUnit where
  [go_defs]: "threeDecimalAmountUnit = \<lparr>apiMinorUnit = 3, maxFractionDigits = 3\<rparr>"
definition stripeLegacyZeroAmount :: paymentCurrencyAmountUnit where
  [go_defs]: "stripeLegacyZeroAmount = \<lparr>apiMinorUnit = 2, maxFractionDigits = 0\<rparr>"

definition paymentCurrencyAmountUnits :: "(string \<times> paymentCurrencyAmountUnit) list" where
  [go_defs]: "paymentCurrencyAmountUnits =
     map (\<lambda>c. (c, zeroDecimalAmountUnit))
       [''BIF'', ''CLP'', ''DJF'', ''GNF'', ''JPY'', ''KMF'', ''KRW'', ''MGA'', ''PYG'', ''RWF'', ''VND'',
        ''VUV'', ''XAF'', ''XOF'', ''XPF''] @
     map (\<lambda>c. (c, stripeLegacyZeroAmount)) [''ISK'', ''UGX''] @
     map (\<lambda>c. (c, threeDecimalAmountUnit)) [''BHD'', ''IQD'', ''JOD'', ''KWD'', ''LYD'', ''OMR'', ''TND'']"

definition upper_letter :: "char \<Rightarrow> bool" where
  [go_defs]: "upper_letter c = ((65::nat) \<le> of_char c \<and> (of_char c :: nat) \<le> 90)"

definition NormalizePaymentCurrency :: "string \<Rightarrow> perr + string" where
  [go_defs]: "NormalizePaymentCurrency raw =
     (let currency = ToUpper (TrimSpace raw)
      in if currency = [] then Inr DefaultPaymentCurrency
         else if length currency \<noteq> 3 then Inl (Failure ''payment currency must be a 3-letter ISO currency code'')
         else if \<not> list_all upper_letter currency
           then Inl (Failure ''payment currency must be a 3-letter ISO currency code'')
         else Inr currency)"

definition paymentCurrencyAmountUnitFor :: "string \<Rightarrow> paymentCurrencyAmountUnit" where
  [go_defs]: "paymentCurrencyAmountUnitFor currency =
     (case NormalizePaymentCurrency currency of
        Inl _ \<Rightarrow> twoDecimalAmountUnit
      | Inr normalized \<Rightarrow>
          (case map_of paymentCurrencyAmountUnits normalized of
             Some amountUnit \<Rightarrow> amountUnit
           | None \<Rightarrow> twoDecimalAmountUnit))"

definition CurrencyMinorUnit :: "string \<Rightarrow> int" where
  [go_defs]: "CurrencyMinorUnit currency = apiMinorUnit (paymentCurrencyAmountUnitFor currency)"

definition CurrencyMaxFractionDigits :: "string \<Rightarrow> int" where
  [go_defs]: "CurrencyMaxFractionDigits currency = maxFractionDigits (paymentCurrencyAmountUnitFor currency)"

text \<open>
  The decimal numbers of \<open>shopspring/decimal\<close>, as rationals: sums and products are exact, and the
  record holds the operations that round, print or parse.
\<close>

record decimal_lib =
  d_NewFromFloat :: "gofloat \<Rightarrow> rat"
  d_NewFromString :: "string \<Rightarrow> rat option"
  d_Round :: "rat \<Rightarrow> int \<Rightarrow> rat"
  d_RoundUp :: "rat \<Rightarrow> int \<Rightarrow> rat"
  d_Div :: "rat \<Rightarrow> rat \<Rightarrow> rat"
  d_InexactFloat64 :: "rat \<Rightarrow> gofloat"
  d_StringFixed :: "rat \<Rightarrow> int \<Rightarrow> string"

text \<open>\<open>Truncate(0)\<close> and \<open>IntPart\<close>.\<close>

definition rat_trunc :: "rat \<Rightarrow> int" where
  [go_defs]: "rat_trunc q = (if 0 \<le> q then \<lfloor>q\<rfloor> else - \<lfloor>- q\<rfloor>)"

definition FormatAmountForCurrency :: "decimal_lib \<Rightarrow> gofloat \<Rightarrow> string \<Rightarrow> string" where
  "FormatAmountForCurrency D amount currency =
     d_StringFixed D (d_NewFromFloat D amount) (CurrencyMaxFractionDigits currency)"

definition AmountToMinorUnit :: "decimal_lib \<Rightarrow> string \<Rightarrow> string \<Rightarrow> perr + int" where
  "AmountToMinorUnit D amountStr currency =
     (case d_NewFromString D (TrimSpace amountStr) of
        None \<Rightarrow> Inl (Failure ''invalid amount'')
      | Some d \<Rightarrow>
          (case NormalizePaymentCurrency currency of
             Inl err \<Rightarrow> Inl err
           | Inr normalizedCurrency \<Rightarrow>
               let amountUnit = paymentCurrencyAmountUnitFor normalizedCurrency;
                   scaledForPrecision = d * 10 ^ nat (maxFractionDigits amountUnit)
               in if scaledForPrecision \<noteq> of_int (rat_trunc scaledForPrecision)
                  then (if maxFractionDigits amountUnit = 0
                        then Inl (Failure ''payment amount must be a whole number'')
                        else Inl (Failure ''payment amount has too many decimal places''))
                  else
                    let minorAmount = d * 10 ^ nat (apiMinorUnit amountUnit)
                    in if rat_trunc minorAmount < min_int64 \<or> max_int64 < rat_trunc minorAmount
                       then Inl (Failure ''payment amount exceeds integer range'')
                       else Inr (rat_trunc minorAmount)))"

definition MinorUnitToAmount :: "decimal_lib \<Rightarrow> int \<Rightarrow> string \<Rightarrow> gofloat" where
  "MinorUnitToAmount D v currency =
     d_InexactFloat64 D (d_Div D (of_int v) (10 ^ nat (CurrencyMinorUnit currency)))"

definition YuanToFen :: "decimal_lib \<Rightarrow> string \<Rightarrow> perr + int" where
  "YuanToFen D yuanStr = AmountToMinorUnit D yuanStr DefaultPaymentCurrency"

definition FenToYuan :: "decimal_lib \<Rightarrow> int \<Rightarrow> gofloat" where
  "FenToYuan D fen = MinorUnitToAmount D fen DefaultPaymentCurrency"

definition CalculatePayAmountForCurrency :: "decimal_lib \<Rightarrow> gofloat \<Rightarrow> gofloat \<Rightarrow> string \<Rightarrow> string" where
  "CalculatePayAmountForCurrency D rechargeAmount feeRate currency =
     (let fractionDigits = CurrencyMaxFractionDigits currency; amount = d_NewFromFloat D rechargeAmount
      in if fl_leq feeRate zero64 then d_StringFixed D amount fractionDigits
         else
           let rate = d_NewFromFloat D feeRate;
               fee = d_RoundUp D (d_Div D (amount * rate) 100) fractionDigits
           in d_StringFixed D (amount + fee) fractionDigits)"

text \<open>The tolerance between what was asked and what was paid.\<close>

definition amountToleranceCNY :: gofloat where [go_defs]: "amountToleranceCNY = Num (f64 (1 / 100))"

definition paymentAmountToleranceForCurrency :: "string \<Rightarrow> gofloat" where
  "paymentAmountToleranceForCurrency currency =
     (let minorUnit = CurrencyMinorUnit currency
      in if minorUnit \<le> 2 then amountToleranceCNY
         else (case f64 (1 / 10 ^ nat minorUnit) of Fin p \<Rightarrow> Num (f64 (p / 2)) | x \<Rightarrow> Num x))"

definition isValidProviderAmount :: "gofloat \<Rightarrow> bool" where
  [go_defs]: "isValidProviderAmount amount = (fl_less zero64 amount \<and> is_finite amount)"

definition normalizeBalanceRechargeMultiplier :: "gofloat \<Rightarrow> gofloat" where
  "normalizeBalanceRechargeMultiplier m =
     (if \<not> is_finite m \<or> fl_leq m zero64 then Num (Fin 1) else m)"

definition calculateCreditedBalance :: "decimal_lib \<Rightarrow> gofloat \<Rightarrow> gofloat \<Rightarrow> gofloat" where
  "calculateCreditedBalance D paymentAmount multiplier =
     d_InexactFloat64 D (d_Round D
       (d_NewFromFloat D paymentAmount * d_NewFromFloat D (normalizeBalanceRechargeMultiplier multiplier)) 2)"

definition calculateGatewayRefundAmount ::
  "decimal_lib \<Rightarrow> gofloat \<Rightarrow> gofloat \<Rightarrow> gofloat \<Rightarrow> string \<Rightarrow> gofloat" where
  "calculateGatewayRefundAmount D orderAmount payAmount refundAmount currency =
     (if fl_leq orderAmount zero64 \<or> fl_leq payAmount zero64 \<or> fl_leq refundAmount zero64 then zero64
      else
        let fractionDigits = CurrencyMaxFractionDigits currency
        in if fl_leq (fl_abs (fl_sub refundAmount orderAmount)) (paymentAmountToleranceForCurrency currency)
           then d_InexactFloat64 D (d_Round D (d_NewFromFloat D payAmount) fractionDigits)
           else d_InexactFloat64 D (d_Round D
                  (d_Div D (d_NewFromFloat D payAmount * d_NewFromFloat D refundAmount) (d_NewFromFloat D orderAmount))
                  fractionDigits))"

end
