(* ===== verification/Pay_Order.thy ===== *)
theory Pay_Order
  imports Pay_Types
begin

text \<open>
  The order row of \<open>payment_orders\<close>, the provider snapshot it carries, the provider instances, and
  the pure checks on them: which provider may confirm an order, whether the identity in a
  notification is the one the order was created with, and what the provider is asked.
\<close>

section \<open>Rows\<close>

text \<open>
  The refund journal that a hosted order keeps in its snapshot, and a snapshot value: a string, a
  number (by its integer part), the journal, or any other JSON value.
\<close>

record hostedRefundJournal =
  j_Amount :: gofloat
  j_GatewayAmount :: string
  j_StartedAt :: int
  j_RefundID :: string
  j_BalanceHeld :: gofloat
  j_SubscriptionID :: int
  j_SubscriptionHeldSeconds :: gofloat
  j_SubscriptionDays :: int

datatype snap = SnapStr string | SnapNum int | SnapJournal hostedRefundJournal | SnapOther

type_synonym snapshot = "(string \<times> snap) list"

record PaymentOrder =
  o_ID :: int
  o_UserID :: int
  o_Amount :: gofloat
  o_PayAmount :: gofloat
  o_BonusAmount :: gofloat
  o_RechargeCode :: string
  o_OutTradeNo :: string
  o_PaymentType :: string
  o_PaymentTradeNo :: string
  o_PayURL :: "string option"
  o_OrderType :: string
  o_SubscriptionGroupID :: "int option"
  o_SubscriptionDays :: "int option"
  o_ProviderInstanceID :: "string option"
  o_ProviderKey :: "string option"
  o_ProviderSnapshot :: snapshot
  o_Status :: order_status
  o_RefundAmount :: gofloat
  o_RefundReason :: "string option"
  o_RefundAt :: "gotime option"
  o_ForceRefund :: bool
  o_RefundRequestedAt :: "gotime option"
  o_RefundRequestReason :: "string option"
  o_RefundRequestedBy :: "string option"
  o_ExpiresAt :: gotime
  o_PaidAt :: "gotime option"
  o_CompletedAt :: "gotime option"
  o_FailedAt :: "gotime option"
  o_FailedReason :: "perr option"
  o_CreatedAt :: gotime
  o_UpdatedAt :: gotime
  o_FeeRate :: gofloat
  o_PlanID :: "int option"
  o_IdempotencyKey :: "string option"

record ProviderInstance =
  inst_ID :: int
  inst_ProviderKey :: string
  inst_SupportedTypes :: string
  inst_AllowUserRefund :: bool
  inst_RefundEnabled :: bool
  inst_Enabled :: bool
  inst_Config :: string
  inst_Limits :: string
  inst_PaymentMode :: string
  inst_SortOrder :: int

section \<open>The provider snapshot\<close>

definition psStringValue :: "string option \<Rightarrow> string" where
  [go_defs]: "psStringValue v = (case v of None \<Rightarrow> '''' | Some s \<Rightarrow> s)"

definition psSnapshotStringValue :: "snap option \<Rightarrow> string" where
  [go_defs]: "psSnapshotStringValue v = (case v of Some (SnapStr s) \<Rightarrow> TrimSpace s | _ \<Rightarrow> '''')"

text \<open>\<open>strconv.ParseInt(s, 10, 64)\<close> and \<open>strconv.Atoi\<close>.\<close>

definition decimal_digit :: "char \<Rightarrow> bool" where
  [go_defs]: "decimal_digit c = ((48::nat) \<le> of_char c \<and> (of_char c :: nat) \<le> 57)"

definition digits_value :: "string \<Rightarrow> int" where
  [go_defs]: "digits_value ds = foldl (\<lambda>a c. 10 * a + (of_char c - 48)) 0 ds"

definition ParseInt :: "string \<Rightarrow> int option" where
  [go_defs]: "ParseInt s =
     (let (neg, ds) = (case s of c # r \<Rightarrow> if c = CHR ''-'' then (True, r) else if c = CHR ''+'' then (False, r) else (False, s)
                       | [] \<Rightarrow> (False, []));
          v = (if neg then - digits_value ds else digits_value ds)
      in if ds = [] \<or> \<not> list_all decimal_digit ds \<or> v < min_int64 \<or> max_int64 < v then None else Some v)"

definition psSnapshotIntValue :: "snap option \<Rightarrow> int" where
  [go_defs]: "psSnapshotIntValue v =
     (case v of
        Some (SnapNum n) \<Rightarrow> n
      | Some (SnapStr s) \<Rightarrow> (case ParseInt (TrimSpace s) of Some n \<Rightarrow> n | None \<Rightarrow> 0)
      | _ \<Rightarrow> 0)"

record paymentOrderProviderSnapshot =
  ps_SchemaVersion :: int
  ps_ProviderInstanceID :: string
  ps_ProviderKey :: string
  ps_PaymentMode :: string
  ps_MerchantAppID :: string
  ps_MerchantID :: string
  ps_Currency :: string

definition psOrderProviderSnapshot :: "PaymentOrder \<Rightarrow> paymentOrderProviderSnapshot option" where
  [go_defs]: "psOrderProviderSnapshot ord =
     (if o_ProviderSnapshot ord = [] then None
      else
        let str = (\<lambda>k. psSnapshotStringValue (map_of (o_ProviderSnapshot ord) k));
            p = \<lparr>ps_SchemaVersion = psSnapshotIntValue (map_of (o_ProviderSnapshot ord) ''schema_version''),
                 ps_ProviderInstanceID = str ''provider_instance_id'', ps_ProviderKey = str ''provider_key'',
                 ps_PaymentMode = str ''payment_mode'', ps_MerchantAppID = str ''merchant_app_id'',
                 ps_MerchantID = str ''merchant_id'', ps_Currency = str ''currency''\<rparr>
        in if ps_SchemaVersion p = 0 \<and> ps_ProviderInstanceID p = [] \<and> ps_ProviderKey p = [] \<and> ps_PaymentMode p = [] \<and>
              ps_MerchantAppID p = [] \<and> ps_MerchantID p = [] \<and> ps_Currency p = []
           then None else Some p)"

definition PaymentOrderCurrency :: "PaymentOrder \<Rightarrow> string" where
  [go_defs]: "PaymentOrderCurrency ord =
     (case psOrderProviderSnapshot ord of
        Some p \<Rightarrow> (case NormalizePaymentCurrency (ps_Currency p) of
                     Inr currency \<Rightarrow> currency | Inl _ \<Rightarrow> DefaultPaymentCurrency)
      | None \<Rightarrow> DefaultPaymentCurrency)"

section \<open>Who may confirm an order\<close>

text \<open>The registry maps payment types to provider keys; \<open>None\<close> is a missing registry.\<close>

type_synonym registry = "(string \<rightharpoonup> string) option"

definition registry_key :: "registry \<Rightarrow> string \<Rightarrow> string" where
  [go_defs]: "registry_key r t = (case r of None \<Rightarrow> '''' | Some m \<Rightarrow> (case m t of None \<Rightarrow> '''' | Some k \<Rightarrow> k))"

definition expectedNotificationProviderKey :: "registry \<Rightarrow> string \<Rightarrow> string \<Rightarrow> string \<Rightarrow> string" where
  [go_defs]: "expectedNotificationProviderKey r orderPaymentType orderProviderKey instanceProviderKey =
     (if TrimSpace instanceProviderKey \<noteq> [] then TrimSpace instanceProviderKey
      else if TrimSpace orderProviderKey \<noteq> [] then TrimSpace orderProviderKey
      else if TrimSpace (registry_key r orderPaymentType) \<noteq> [] then TrimSpace (registry_key r orderPaymentType)
      else TrimSpace orderPaymentType)"

definition expectedNotificationProviderKeyForOrder :: "registry \<Rightarrow> PaymentOrder \<Rightarrow> string \<Rightarrow> string" where
  [go_defs]: "expectedNotificationProviderKeyForOrder r ord instanceProviderKey =
     (let orderProviderKey =
            (case psOrderProviderSnapshot ord of
               Some p \<Rightarrow> if ps_ProviderKey p \<noteq> [] then ps_ProviderKey p else psStringValue (o_ProviderKey ord)
             | None \<Rightarrow> psStringValue (o_ProviderKey ord))
      in expectedNotificationProviderKey r (o_PaymentType ord) orderProviderKey instanceProviderKey)"

text \<open>The metadata of a notification; a missing key reads as the empty string.\<close>

type_synonym metadata = "(string \<times> string) list"

definition meta :: "metadata \<Rightarrow> string \<Rightarrow> string" where
  [go_defs]: "meta m k = (case map_of m k of None \<Rightarrow> '''' | Some v \<Rightarrow> v)"

text \<open>
  One identity field: when the snapshot expects a value, the metadata must carry it, up to case;
  \<open>conv\<close> is what the code does to the carried value first.
\<close>

definition identity_field :: "(string \<Rightarrow> string) \<Rightarrow> metadata \<Rightarrow> string \<Rightarrow> string \<Rightarrow> string \<Rightarrow> string \<Rightarrow> perr option" where
  [go_defs]: "identity_field conv m k expected missing mismatch =
     (if TrimSpace expected = [] then None
      else if conv (TrimSpace (meta m k)) = [] then Some (Failure missing)
      else if \<not> EqualFold (TrimSpace expected) (conv (TrimSpace (meta m k))) then Some (Failure mismatch)
      else None)"

definition state_field :: "metadata \<Rightarrow> string \<Rightarrow> string \<Rightarrow> string \<Rightarrow> perr option" where
  [go_defs]: "state_field m k wanted mismatch =
     (if TrimSpace (meta m k) \<noteq> [] \<and> \<not> EqualFold (TrimSpace (meta m k)) wanted
      then Some (Failure mismatch) else None)"

text \<open>The first error of a sequence of checks.\<close>

fun first_error :: "perr option list \<Rightarrow> perr option" where
  "first_error [] = None"
| "first_error (Some e # cs) = Some e"
| "first_error (None # cs) = first_error cs"

definition validateProviderSnapshotMetadata :: "PaymentOrder \<Rightarrow> string \<Rightarrow> metadata \<Rightarrow> perr option" where
  [go_defs]: "validateProviderSnapshotMetadata ord providerKey m =
     (if m = [] then None
      else (case psOrderProviderSnapshot ord of
          None \<Rightarrow> None
        | Some p \<Rightarrow>
            let k = TrimSpace providerKey
            in if k = TypeWxpay then first_error
                 [identity_field id m ''appid'' (ps_MerchantAppID p) ''wxpay notification missing appid'' ''wxpay appid mismatch'',
                  identity_field id m ''mchid'' (ps_MerchantID p) ''wxpay notification missing mchid'' ''wxpay mchid mismatch'',
                  identity_field ToUpper m ''currency'' (ps_Currency p) ''wxpay notification missing currency'' ''wxpay currency mismatch'',
                  state_field m ''trade_state'' ''SUCCESS'' ''wxpay trade_state mismatch'']
               else if k = TypeAlipay then
                 identity_field id m ''app_id'' (ps_MerchantAppID p) ''alipay app_id missing'' ''alipay app_id mismatch''
               else if k = TypeEasyPay then
                 identity_field id m ''pid'' (ps_MerchantID p) ''easypay pid missing'' ''easypay pid mismatch''
               else if k = TypeStripe \<or> k = TypeStripeHosted then
                 identity_field ToUpper m ''currency'' (ps_Currency p) ''stripe notification missing currency'' ''stripe currency mismatch''
               else if k = TypeAirwallex then first_error
                 [identity_field id m ''account_id'' (ps_MerchantID p) ''airwallex account_id missing'' ''airwallex account_id mismatch'',
                  identity_field ToUpper m ''currency'' (ps_Currency p) ''airwallex notification missing currency'' ''airwallex currency mismatch'',
                  state_field m ''status'' ''SUCCEEDED'' ''airwallex status mismatch'']
               else None))"

section \<open>Which provider instance an order belongs to\<close>

fun find_instance :: "int \<Rightarrow> ProviderInstance list \<Rightarrow> ProviderInstance option" where
  "find_instance i insts = find (\<lambda>x. inst_ID x = i) insts"

definition resolveSnapshotOrderProviderInstance ::
  "PaymentOrder \<Rightarrow> paymentOrderProviderSnapshot \<Rightarrow> ProviderInstance list \<Rightarrow> perr + ProviderInstance option" where
  [go_defs]: "resolveSnapshotOrderProviderInstance ord p insts =
     (let columnInstanceID = TrimSpace (psStringValue (o_ProviderInstanceID ord));
          snapshotInstanceID = (if TrimSpace (ps_ProviderInstanceID p) = [] then columnInstanceID
                                else TrimSpace (ps_ProviderInstanceID p))
      in if snapshotInstanceID = [] then Inl (Failure ''provider snapshot is missing provider_instance_id'')
         else if columnInstanceID \<noteq> [] \<and> ps_ProviderInstanceID p \<noteq> [] \<and>
                 \<not> EqualFold columnInstanceID (ps_ProviderInstanceID p)
           then Inl (Failure ''provider snapshot instance mismatch'')
         else (case ParseInt snapshotInstanceID of
             None \<Rightarrow> Inl (Failure ''provider snapshot instance id is invalid'')
           | Some instID \<Rightarrow>
               (case find_instance instID insts of
                  None \<Rightarrow> Inl (Failure ''provider snapshot instance is missing'')
                | Some inst \<Rightarrow>
                    if ps_ProviderKey p \<noteq> [] \<and> \<not> EqualFold (TrimSpace (inst_ProviderKey inst)) (ps_ProviderKey p)
                    then Inl (Failure ''provider snapshot key mismatch'')
                    else Inr (Some inst))))"

definition normalizeVisibleMethodSupportType :: "string \<Rightarrow> string" where
  [go_defs]: "normalizeVisibleMethodSupportType t =
     (let t = TrimSpace t
      in if t = TypeAlipay \<or> t = ''alipay_direct'' then TypeAlipay
         else if t = TypeWxpay \<or> t = ''wxpay_direct'' then TypeWxpay
         else t)"

definition InstanceSupportsType :: "string \<Rightarrow> string \<Rightarrow> bool" where
  [go_defs]: "InstanceSupportsType supportedTypes target =
     (supportedTypes = [] \<or>
      list_ex (\<lambda>t. TrimSpace t = target \<or>
          normalizeVisibleMethodSupportType (TrimSpace t) = normalizeVisibleMethodSupportType target)
        (Split supportedTypes (CHR '','')))"

definition psLegacyOrderMatchesInstance :: "string \<Rightarrow> ProviderInstance \<Rightarrow> bool" where
  [go_defs]: "psLegacyOrderMatchesInstance orderPaymentType inst =
     (let baseType = GetBasePaymentType (TrimSpace orderPaymentType);
          instanceProviderKey = TrimSpace (inst_ProviderKey inst)
      in if baseType = [] then False
         else if baseType = TypeStripe then instanceProviderKey = TypeStripe
         else if instanceProviderKey = TypeStripe then False
         else if instanceProviderKey = baseType then True
         else InstanceSupportsType (inst_SupportedTypes inst) baseType)"

definition psFilterLegacyOrderProviderInstances :: "string \<Rightarrow> ProviderInstance list \<Rightarrow> ProviderInstance list" where
  [go_defs]: "psFilterLegacyOrderProviderInstances orderPaymentType insts =
     (if insts = [] then []
      else if TrimSpace orderPaymentType = [] then insts
      else filter (psLegacyOrderMatchesInstance orderPaymentType) insts)"

definition only_one :: "'a list \<Rightarrow> 'a option" where
  [go_defs]: "only_one xs = (case xs of [x] \<Rightarrow> Some x | _ \<Rightarrow> None)"

definition resolveUniqueLegacyOrderProviderInstance :: "PaymentOrder \<Rightarrow> ProviderInstance list \<Rightarrow> ProviderInstance option" where
  [go_defs]: "resolveUniqueLegacyOrderProviderInstance ord insts =
     (let paymentType = GetBasePaymentType (TrimSpace (o_PaymentType ord));
          providerKey = TrimSpace (psStringValue (o_ProviderKey ord))
      in if providerKey \<noteq> [] then
           only_one (psFilterLegacyOrderProviderInstances paymentType
             (filter (\<lambda>i. inst_ProviderKey i = providerKey) insts))
         else if paymentType = [] then None
         else only_one (psFilterLegacyOrderProviderInstances paymentType insts))"

definition getOrderProviderInstance :: "PaymentOrder \<Rightarrow> ProviderInstance list \<Rightarrow> perr + ProviderInstance option" where
  [go_defs]: "getOrderProviderInstance ord insts =
     (case psOrderProviderSnapshot ord of
        Some p \<Rightarrow> resolveSnapshotOrderProviderInstance ord p insts
      | None \<Rightarrow>
          let instIDStr = TrimSpace (psStringValue (o_ProviderInstanceID ord))
          in if instIDStr = [] then Inr (resolveUniqueLegacyOrderProviderInstance ord insts)
             else (case ParseInt instIDStr of
                 None \<Rightarrow> Inr None
               | Some instID \<Rightarrow>
                   (case find_instance instID insts of None \<Rightarrow> Inl NotFound | Some inst \<Rightarrow> Inr (Some inst))))"

definition getRefundOrderProviderInstance :: "PaymentOrder \<Rightarrow> ProviderInstance list \<Rightarrow> perr + ProviderInstance option" where
  [go_defs]: "getRefundOrderProviderInstance ord insts =
     (case psOrderProviderSnapshot ord of
        Some p \<Rightarrow> resolveSnapshotOrderProviderInstance ord p insts
      | None \<Rightarrow>
          let instIDStr = TrimSpace (psStringValue (o_ProviderInstanceID ord))
          in if instIDStr = [] then Inr None
             else (case ParseInt instIDStr of
                 None \<Rightarrow> Inl (Failure ''refund provider instance id is invalid'')
               | Some instID \<Rightarrow>
                   (case find_instance instID insts of
                      None \<Rightarrow> Inl (Failure ''refund provider instance is missing'')
                    | Some inst \<Rightarrow> Inr (Some inst))))"

section \<open>Asking the provider\<close>

definition paymentOrderQueryReference :: "PaymentOrder \<Rightarrow> string \<Rightarrow> string" where
  [go_defs]: "paymentOrderQueryReference ord provKey =
     (let k = TrimSpace provKey;
          k = (if k \<noteq> [] then k
               else (case psOrderProviderSnapshot ord of Some p \<Rightarrow> TrimSpace (ps_ProviderKey p) | None \<Rightarrow> k));
          k = (if k \<noteq> [] then k else TrimSpace (psStringValue (o_ProviderKey ord)));
          k = (if k \<noteq> [] then k else TrimSpace (o_PaymentType ord))
      in if GetBasePaymentType k \<in> set [TypeAlipay, TypeEasyPay, TypeWxpay] then TrimSpace (o_OutTradeNo ord)
         else if TrimSpace (o_PaymentTradeNo ord) \<noteq> [] then TrimSpace (o_PaymentTradeNo ord)
         else TrimSpace (o_OutTradeNo ord))"

definition paymentOrderShouldPersistUpstreamTradeNo :: "string \<Rightarrow> string \<Rightarrow> string \<Rightarrow> bool" where
  [go_defs]: "paymentOrderShouldPersistUpstreamTradeNo queryRef upstreamTradeNo currentTradeNo =
     (let u = TrimSpace upstreamTradeNo
      in u \<noteq> [] \<and> \<not> EqualFold u (TrimSpace currentTradeNo) \<and> \<not> EqualFold u (TrimSpace queryRef))"

definition paymentOrderAllowsRegistryFallback :: "PaymentOrder \<Rightarrow> bool" where
  [go_defs]: "paymentOrderAllowsRegistryFallback ord =
     (psOrderProviderSnapshot ord = None \<and> TrimSpace (psStringValue (o_ProviderInstanceID ord)) = [] \<and>
      TrimSpace (psStringValue (o_ProviderKey ord)) = [])"

definition paymentOrderFallbackProviderKey :: "registry \<Rightarrow> PaymentOrder \<Rightarrow> string" where
  [go_defs]: "paymentOrderFallbackProviderKey r ord =
     (if TrimSpace (registry_key r (o_PaymentType ord)) \<noteq> [] then TrimSpace (registry_key r (o_PaymentType ord))
      else TrimSpace (GetBasePaymentType (TrimSpace (o_PaymentType ord))))"

definition orderIDPrefix :: string where [go_defs]: "orderIDPrefix = ''sub2_''"

text \<open>The order id in a legacy \<open>sub2_N\<close> reference, when the lookup did not find an order.\<close>

definition parseLegacyPaymentOrderID :: "string \<Rightarrow> perr \<Rightarrow> int option" where
  [go_defs]: "parseLegacyPaymentOrderID orderID lookupErr =
     (if lookupErr \<noteq> NotFound then None
      else
        let orderID = TrimSpace orderID
        in if \<not> HasPrefix orderID orderIDPrefix then None
           else
             let trimmed = drop (length orderIDPrefix) orderID
             in if trimmed = [] \<or> trimmed = orderID then None
                else (case ParseInt trimmed of None \<Rightarrow> None | Some oid \<Rightarrow> if oid \<le> 0 then None else Some oid))"

text \<open>The part of a balance order that was paid for, the base of the affiliate rebate.\<close>

definition paymentOrderAmountWithoutBonus :: "decimal_lib \<Rightarrow> PaymentOrder \<Rightarrow> gofloat" where
  "paymentOrderAmountWithoutBonus D ord =
     (if o_OrderType ord \<noteq> OrderTypeBalance \<or> fl_leq (o_BonusAmount ord) zero64 then o_Amount ord
      else
        let base = d_InexactFloat64 D (d_Round D
              (d_NewFromFloat D (o_Amount ord) - d_NewFromFloat D (o_BonusAmount ord)) 2)
        in if fl_less base zero64 then zero64 else base)"

definition affiliateRebateBaseAmount :: "decimal_lib \<Rightarrow> PaymentOrder \<Rightarrow> gofloat" where
  "affiliateRebateBaseAmount D ord =
     (if o_OrderType ord = OrderTypeBalance then paymentOrderAmountWithoutBonus D ord
      else if o_OrderType ord = OrderTypeSubscription then o_Amount ord
      else zero64)"

definition formatGatewayRefundAmount :: "decimal_lib \<Rightarrow> gofloat \<Rightarrow> PaymentOrder \<Rightarrow> string" where
  "formatGatewayRefundAmount D amount ord = FormatAmountForCurrency D amount (PaymentOrderCurrency ord)"

end
