(* ===== verification/Pay_Bonus.thy ===== *)
theory Pay_Bonus
  imports Pay_Order
begin

text \<open>
  The recharge bonus (\<open>service/payment_recharge_bonus.go\<close>): tiers of thresholds and percentages,
  their normalisation when an administrator writes them and when they are read back, the tier that
  an amount reaches, and the quote of a balance recharge in both modes. The JSON library is a
  parameter, as is the decimal library.
\<close>

section \<open>Tiers and modes\<close>

record RechargeBonusTier =
  rt_MinAmount :: gofloat
  rt_BonusPercent :: gofloat

type_synonym tiers = "RechargeBonusTier list"

record tiers_json =
  tj_Unmarshal :: "string \<Rightarrow> tiers option"
  tj_Marshal :: "tiers \<Rightarrow> string"

definition RechargeBonusModeBonus :: string where [go_defs]: "RechargeBonusModeBonus = ''bonus''"
definition RechargeBonusModeDiscount :: string where [go_defs]: "RechargeBonusModeDiscount = ''discount''"

definition maxRechargeBonusTiers :: nat where [go_defs]: "maxRechargeBonusTiers = 20"
definition maxRechargeBonusPercent :: gofloat where [go_defs]: "maxRechargeBonusPercent = Num (Fin 1000)"
definition rechargeBonusAmountEpsilon :: gofloat where "rechargeBonusAmountEpsilon = Num (f64 (1 / 1000000000))"
definition MaxFloat64 :: gofloat where [go_defs]: "MaxFloat64 = Num (Fin ((2 ^ 53 - 1) * 2 ^ 971))"
definition hundred :: gofloat where [go_defs]: "hundred = Num (Fin 100)"

definition NormalizeRechargeBonusMode :: "string \<Rightarrow> string \<times> bool" where
  "NormalizeRechargeBonusMode raw =
     (let m = ToLower (TrimSpace raw)
      in if m = [] \<or> m = RechargeBonusModeBonus then (RechargeBonusModeBonus, True)
         else if m = RechargeBonusModeDiscount then (RechargeBonusModeDiscount, True)
         else (RechargeBonusModeBonus, False))"

definition ValidateRechargeBonusTiersForMode :: "string \<Rightarrow> tiers \<Rightarrow> perr option" where
  "ValidateRechargeBonusTiersForMode mode ts =
     (if mode \<noteq> RechargeBonusModeDiscount then None
      else if list_ex (\<lambda>t. fl_leq hundred (rt_BonusPercent t)) ts
        then Some (Failure ''discount percent must be less than 100'')
      else None)"

definition rechargeBonusValueValid :: "decimal_lib \<Rightarrow> gofloat \<Rightarrow> gofloat \<Rightarrow> bool" where
  "rechargeBonusValueValid D v mx =
     (is_finite v \<and> \<not> fl_less v zero64 \<and> \<not> fl_less mx v \<and> d_NewFromFloat D v = d_Round D (d_NewFromFloat D v) 2)"

text \<open>The key of a threshold: equal numbers are printed equally, so the number stands for its text.\<close>

definition tier_key :: "decimal_lib \<Rightarrow> RechargeBonusTier \<Rightarrow> rat" where
  "tier_key D t = d_Round D (d_NewFromFloat D (rt_MinAmount t)) 2"

definition tier_less :: "RechargeBonusTier \<Rightarrow> RechargeBonusTier \<Rightarrow> bool" where
  "tier_less a b = fl_less (rt_MinAmount a) (rt_MinAmount b)"

definition sortRechargeBonusTiers :: "tiers \<Rightarrow> tiers" where
  "sortRechargeBonusTiers ts = SliceStable tier_less ts"

text \<open>The loop of the strict normalisation; \<open>seen\<close> are the keys so far.\<close>

fun normalize_tiers :: "decimal_lib \<Rightarrow> rat list \<Rightarrow> tiers \<Rightarrow> perr + tiers" where
  "normalize_tiers D seen [] = Inr []"
| "normalize_tiers D seen (t # ts) =
     (if \<not> rechargeBonusValueValid D (rt_MinAmount t) MaxFloat64
      then Inl (Failure ''recharge bonus tier min amount must be a non-negative number with at most 2 decimals'')
      else if \<not> rechargeBonusValueValid D (rt_BonusPercent t) maxRechargeBonusPercent
      then Inl (Failure ''recharge bonus tier percent must be between 0 and 1000 with at most 2 decimals'')
      else if tier_key D t \<in> set seen then Inl (Failure ''duplicate recharge bonus tier min amount'')
      else (case normalize_tiers D (tier_key D t # seen) ts of Inl err \<Rightarrow> Inl err | Inr out \<Rightarrow> Inr (t # out)))"

definition NormalizeRechargeBonusTiers :: "decimal_lib \<Rightarrow> tiers \<Rightarrow> perr + tiers" where
  "NormalizeRechargeBonusTiers D raw =
     (if raw = [] then Inr []
      else if maxRechargeBonusTiers < length raw then Inl (Failure ''recharge bonus tiers exceed limit of 20'')
      else (case normalize_tiers D [] raw of Inl err \<Rightarrow> Inl err | Inr out \<Rightarrow> Inr (sortRechargeBonusTiers out)))"

definition encodeRechargeBonusTiers :: "tiers_json \<Rightarrow> tiers \<Rightarrow> string" where
  "encodeRechargeBonusTiers J ts = (if ts = [] then [] else tj_Marshal J ts)"

text \<open>The loop of the lenient reading: invalid entries and repeated thresholds are dropped.\<close>

fun read_tiers :: "decimal_lib \<Rightarrow> rat list \<Rightarrow> tiers \<Rightarrow> tiers" where
  "read_tiers D seen [] = []"
| "read_tiers D seen (t # ts) =
     (if \<not> rechargeBonusValueValid D (rt_MinAmount t) MaxFloat64 \<or>
         \<not> rechargeBonusValueValid D (rt_BonusPercent t) maxRechargeBonusPercent then read_tiers D seen ts
      else if tier_key D t \<in> set seen then read_tiers D seen ts
      else t # read_tiers D (tier_key D t # seen) ts)"

definition parseRechargeBonusTiers :: "tiers_json \<Rightarrow> decimal_lib \<Rightarrow> string \<Rightarrow> tiers" where
  "parseRechargeBonusTiers J D raw =
     (if TrimSpace raw = [] then []
      else (case tj_Unmarshal J (TrimSpace raw) of
          None \<Rightarrow> []
        | Some items \<Rightarrow> sortRechargeBonusTiers (read_tiers D [] items)))"

section \<open>The update\<close>

definition SettingRechargeBonusTiers :: string where "SettingRechargeBonusTiers = ''RECHARGE_BONUS_TIERS''"
definition SettingRechargeBonusMode :: string where "SettingRechargeBonusMode = ''RECHARGE_BONUS_MODE''"

text \<open>The stored settings; a missing one reads as the empty text.\<close>

type_synonym settings = "string \<rightharpoonup> string"

definition setting :: "settings \<Rightarrow> string \<Rightarrow> string" where
  "setting m k = (case m k of None \<Rightarrow> [] | Some v \<Rightarrow> v)"

text \<open>The tiers and the mode of an update, each optional; a missing one is read from the settings.\<close>

definition update_tiers :: "tiers_json \<Rightarrow> decimal_lib \<Rightarrow> settings \<Rightarrow> tiers option \<Rightarrow> perr + tiers" where
  "update_tiers J D st reqTiers =
     (case reqTiers of
        Some raw \<Rightarrow> (case NormalizeRechargeBonusTiers D raw of
            Inl err \<Rightarrow> Inl (AppErr ''INVALID_RECHARGE_BONUS_TIERS'') | Inr ts \<Rightarrow> Inr ts)
      | None \<Rightarrow> Inr (parseRechargeBonusTiers J D (setting st SettingRechargeBonusTiers)))"

definition update_mode :: "settings \<Rightarrow> string option \<Rightarrow> perr + string" where
  "update_mode st reqMode =
     (case reqMode of
        Some raw \<Rightarrow> (case NormalizeRechargeBonusMode raw of
            (m, ok) \<Rightarrow> if ok then Inr m else Inl (AppErr ''INVALID_RECHARGE_BONUS_MODE''))
      | None \<Rightarrow> Inr (fst (NormalizeRechargeBonusMode (setting st SettingRechargeBonusMode))))"

text \<open>\<open>stored\<close> is the read of the present settings, which happens only when one of the two is missing.\<close>

definition resolveRechargeBonusUpdate ::
  "tiers_json \<Rightarrow> decimal_lib \<Rightarrow> perr + settings \<Rightarrow> tiers option \<Rightarrow> string option \<Rightarrow> perr + (string \<times> string)" where
  "resolveRechargeBonusUpdate J D stored reqTiers reqMode =
     (if reqTiers = None \<and> reqMode = None then Inr ([], [])
      else (case (if reqTiers = None \<or> reqMode = None then stored else Inr Map.empty) of
          Inl err \<Rightarrow> Inl err
        | Inr st \<Rightarrow>
            (case update_tiers J D st reqTiers of
              Inl err \<Rightarrow> Inl err
            | Inr ts \<Rightarrow>
                (case update_mode st reqMode of
                  Inl err \<Rightarrow> Inl err
                | Inr mode \<Rightarrow>
                    (case ValidateRechargeBonusTiersForMode mode ts of
                       Some _ \<Rightarrow> Inl (AppErr ''INVALID_RECHARGE_BONUS_TIERS'')
                     | None \<Rightarrow> Inr (encodeRechargeBonusTiers J ts, mode))))))"

section \<open>The quote\<close>

text \<open>The loop over the tiers, which ends at the first threshold that is not reached.\<close>

fun match_tiers :: "gofloat \<Rightarrow> tiers \<Rightarrow> RechargeBonusTier option \<Rightarrow> RechargeBonusTier option" where
  "match_tiers x [] matched = matched"
| "match_tiers x (t # ts) matched = (if fl_less x (rt_MinAmount t) then matched else match_tiers x ts (Some t))"

definition matchRechargeBonusTier :: "tiers \<Rightarrow> gofloat \<Rightarrow> RechargeBonusTier option" where
  "matchRechargeBonusTier ts paymentAmount =
     (if \<not> is_finite paymentAmount \<or> fl_leq paymentAmount zero64 then None
      else match_tiers (fl_add paymentAmount rechargeBonusAmountEpsilon) ts None)"

definition calculateRechargeBonus :: "decimal_lib \<Rightarrow> gofloat \<Rightarrow> gofloat \<Rightarrow> gofloat" where
  "calculateRechargeBonus D baseCredited bonusPercent =
     (if fl_leq baseCredited zero64 \<or> fl_leq bonusPercent zero64 \<or> baseCredited = NaN \<or> bonusPercent = NaN then zero64
      else d_InexactFloat64 D (d_Round D
        (d_Div D (d_NewFromFloat D baseCredited * d_NewFromFloat D bonusPercent) 100) 2))"

definition addRechargeBonus :: "decimal_lib \<Rightarrow> gofloat \<Rightarrow> gofloat \<Rightarrow> gofloat" where
  "addRechargeBonus D baseCredited bonus =
     d_InexactFloat64 D (d_Round D (d_NewFromFloat D baseCredited + d_NewFromFloat D bonus) 2)"

definition calculateDiscountedPayBase :: "decimal_lib \<Rightarrow> gofloat \<Rightarrow> gofloat \<Rightarrow> string \<Rightarrow> gofloat" where
  "calculateDiscountedPayBase D paymentAmount discountPercent currency =
     d_InexactFloat64 D (d_Round D
       (d_Div D (d_NewFromFloat D paymentAmount * (100 - d_NewFromFloat D discountPercent)) 100)
       (CurrencyMaxFractionDigits currency))"

record rechargeBonusQuote =
  q_PayBase :: gofloat
  q_Credited :: gofloat
  q_Bonus :: gofloat
  q_Percent :: gofloat

text \<open>
  The configuration of the component. A missing one counts for a quote as multiplier 1, no tiers and
  the bonus mode.
\<close>

record PaymentConfig =
  pc_Enabled :: bool
  pc_MinAmount :: gofloat
  pc_MaxAmount :: gofloat
  pc_DailyLimit :: gofloat
  pc_OrderTimeoutMin :: int
  pc_MaxPendingOrders :: int
  pc_EnabledTypes :: "string list"
  pc_BalanceDisabled :: bool
  pc_BalanceRechargeMultiplier :: gofloat
  pc_SubscriptionUSDToCNYRate :: gofloat
  pc_RechargeFeeRate :: gofloat
  pc_RechargeBonusTiers :: tiers
  pc_RechargeBonusMode :: string
  pc_RechargeBonusNotice :: string
  pc_LoadBalanceStrategy :: string
  pc_ProductNamePrefix :: string
  pc_ProductNameSuffix :: string
  pc_HelpImageURL :: string
  pc_HelpText :: string
  pc_StripePublishableKey :: string
  CancelRateLimitEnabled :: bool
  CancelRateLimitMax :: int
  CancelRateLimitWindow :: int
  CancelRateLimitUnit :: string
  CancelRateLimitMode :: string
  pc_AlipayForceQRCode :: bool
  pc_AlipayMobilePrecreateDeepLink :: bool

definition quoteRechargeBonus :: "decimal_lib \<Rightarrow> PaymentConfig option \<Rightarrow> gofloat \<Rightarrow> string \<Rightarrow> rechargeBonusQuote" where
  "quoteRechargeBonus D cfg paymentAmount currency =
     (let multiplier = (case cfg of None \<Rightarrow> Num (Fin 1) | Some c \<Rightarrow> pc_BalanceRechargeMultiplier c);
          ts = (case cfg of None \<Rightarrow> [] | Some c \<Rightarrow> pc_RechargeBonusTiers c);
          mode = (case cfg of None \<Rightarrow> RechargeBonusModeBonus | Some c \<Rightarrow> fst (NormalizeRechargeBonusMode (pc_RechargeBonusMode c)));
          base = calculateCreditedBalance D paymentAmount multiplier;
          quote = \<lparr>q_PayBase = paymentAmount, q_Credited = base, q_Bonus = zero64, q_Percent = zero64\<rparr>
      in case matchRechargeBonusTier ts paymentAmount of
           None \<Rightarrow> quote
         | Some tier \<Rightarrow>
             if fl_leq (rt_BonusPercent tier) zero64 then quote
             else if mode = RechargeBonusModeDiscount then
               if fl_leq hundred (rt_BonusPercent tier) then quote
               else
                 let payBase = calculateDiscountedPayBase D paymentAmount (rt_BonusPercent tier) currency
                 in if fl_leq payBase zero64 \<or> fl_leq paymentAmount payBase then quote
                    else
                      let paidCredit = calculateCreditedBalance D payBase multiplier;
                          bonus = d_InexactFloat64 D (d_Round D (d_NewFromFloat D base - d_NewFromFloat D paidCredit) 2);
                          bonus = (if fl_less bonus zero64 then zero64 else bonus)
                      in quote\<lparr>q_PayBase := payBase, q_Bonus := bonus, q_Percent := rt_BonusPercent tier\<rparr>
             else
               let bonus = calculateRechargeBonus D base (rt_BonusPercent tier)
               in if fl_leq bonus zero64 then quote
                  else quote\<lparr>q_Bonus := bonus, q_Credited := addRechargeBonus D base bonus, q_Percent := rt_BonusPercent tier\<rparr>)"

section \<open>Order and validity of the tiers\<close>

definition num_rat :: "gofloat \<Rightarrow> rat" where
  "num_rat x = (case x of Num (Fin q) \<Rightarrow> q | _ \<Rightarrow> 0)"

lemma fl_less_finite: "is_finite x \<Longrightarrow> is_finite y \<Longrightarrow> fl_less x y \<longleftrightarrow> num_rat x < num_rat y"
  by (auto simp: is_finite_def fl_less_def num_rat_def less_float64_def split: gofloat.splits float64.splits)

interpretation tier_sort: strict_weak "\<lambda>a b. num_rat (rt_MinAmount a) < num_rat (rt_MinAmount b)"
  by unfold_locales auto

definition tier_valid :: "decimal_lib \<Rightarrow> RechargeBonusTier \<Rightarrow> bool" where
  "tier_valid D t = (rechargeBonusValueValid D (rt_MinAmount t) MaxFloat64 \<and>
     rechargeBonusValueValid D (rt_BonusPercent t) maxRechargeBonusPercent)"

definition tiers_ok :: "decimal_lib \<Rightarrow> tiers \<Rightarrow> bool" where
  "tiers_ok D ts = (list_all (tier_valid D) ts \<and> distinct (map (tier_key D) ts) \<and>
     sorted_wrt (\<lambda>a b. \<not> tier_less b a) ts)"

lemma tier_valid_finite: "tier_valid D t \<Longrightarrow> is_finite (rt_MinAmount t)"
  by (simp add: tier_valid_def rechargeBonusValueValid_def)

lemma insert_stable_cong:
  "(\<And>y. y \<in> set ys \<Longrightarrow> lt y x = lt' y x) \<Longrightarrow> insert_stable lt x ys = insert_stable lt' x ys"
  by (induction ys) auto

lemma SliceStable_cong:
  "(\<And>a b. a \<in> set xs \<Longrightarrow> b \<in> set xs \<Longrightarrow> lt a b = lt' a b) \<Longrightarrow> SliceStable lt xs = SliceStable lt' xs"
  by (induction xs) (auto intro!: insert_stable_cong)

lemma sorted_tiers:
  assumes "list_all (tier_valid D) ts" "distinct (map (tier_key D) ts)"
  shows "tiers_ok D (sortRechargeBonusTiers ts)"
proof -
  let ?lt = "\<lambda>a b. num_rat (rt_MinAmount a) < num_rat (rt_MinAmount b)"
  have lt: "tier_less a b = ?lt a b" if "a \<in> set ts" "b \<in> set ts" for a b
    using that assms(1) fl_less_finite [OF tier_valid_finite tier_valid_finite, of D a D b]
    by (simp add: tier_less_def list_all_iff)
  then have eq: "sortRechargeBonusTiers ts = SliceStable ?lt ts"
    unfolding sortRechargeBonusTiers_def by (rule SliceStable_cong)
  have "sorted_wrt (\<lambda>a b. \<not> tier_less b a) (SliceStable ?lt ts)"
    by (rule sorted_wrt_mono_rel [OF _ tier_sort.sorted_SliceStable]) (simp add: lt)
  moreover have "distinct (map (tier_key D) (SliceStable ?lt ts))"
    using assms(2) mset_SliceStable [of ?lt ts] by (metis mset_map mset_eq_imp_distinct_iff)
  ultimately show ?thesis using assms(1) by (simp add: tiers_ok_def eq list_all_iff)
qed

lemma read_tiers_ok:
  "list_all (tier_valid D) (read_tiers D seen ts) \<and> distinct (map (tier_key D) (read_tiers D seen ts)) \<and>
    set (map (tier_key D) (read_tiers D seen ts)) \<inter> set seen = {}"
  by (induction D seen ts rule: read_tiers.induct) (auto simp: tier_valid_def)

lemma normalize_tiers_ok:
  "normalize_tiers D seen ts = Inr out \<Longrightarrow> out = ts \<and> list_all (tier_valid D) ts \<and> distinct (map (tier_key D) ts) \<and>
    set (map (tier_key D) ts) \<inter> set seen = {}"
  by (induction D seen ts arbitrary: out rule: normalize_tiers.induct)
    (auto simp: tier_valid_def split: if_splits sum.splits)

lemma read_tiers_id:
  "list_all (tier_valid D) ts \<Longrightarrow> distinct (map (tier_key D) ts) \<Longrightarrow> set (map (tier_key D) ts) \<inter> set seen = {} \<Longrightarrow>
    read_tiers D seen ts = ts"
  by (induction D seen ts rule: read_tiers.induct) (auto simp: tier_valid_def)

lemma parse_tiers_ok: "tiers_ok D (parseRechargeBonusTiers J D raw)"
proof -
  have "tiers_ok D (sortRechargeBonusTiers (read_tiers D [] items))" for items
    by (rule sorted_tiers) (simp_all add: read_tiers_ok)
  then show ?thesis by (simp add: parseRechargeBonusTiers_def tiers_ok_def split: option.split)
qed

lemma NormalizeRechargeBonusTiers_ok:
  "NormalizeRechargeBonusTiers D raw = Inr ts \<Longrightarrow> tiers_ok D ts \<and> mset ts = mset raw \<and> length ts \<le> maxRechargeBonusTiers"
proof -
  assume *: "NormalizeRechargeBonusTiers D raw = Inr ts"
  have "tiers_ok D (sortRechargeBonusTiers raw)" if "normalize_tiers D [] raw = Inr out" for out
    using normalize_tiers_ok [OF that] by (intro sorted_tiers) auto
  with * show ?thesis
    using normalize_tiers_ok [of D "[]" raw]
    by (auto simp: NormalizeRechargeBonusTiers_def sortRechargeBonusTiers_def tiers_ok_def split: if_splits sum.splits)
qed

text \<open>Sorting what is sorted changes nothing.\<close>

lemma SliceStable_sorted: "sorted_wrt (\<lambda>a b. \<not> lt b a) xs \<Longrightarrow> SliceStable lt xs = xs"
proof (induction xs)
  case (Cons x xs)
  then have "insert_stable lt x xs = x # xs" by (cases xs) auto
  with Cons show ?case by simp
qed simp

section \<open>The tier an amount reaches\<close>

definition reached :: "gofloat \<Rightarrow> RechargeBonusTier \<Rightarrow> bool" where
  "reached amount t = (\<not> fl_less (fl_add amount rechargeBonusAmountEpsilon) (rt_MinAmount t))"

lemma match_tiers_take:
  "match_tiers x ts m = (case rev (takeWhile (\<lambda>t. \<not> fl_less x (rt_MinAmount t)) ts) of [] \<Rightarrow> m | t # _ \<Rightarrow> Some t)"
  by (induction ts arbitrary: m) (auto split: list.splits)

lemma fl_less_trans: "fl_less x y \<Longrightarrow> \<not> fl_less z y \<Longrightarrow> is_finite z \<Longrightarrow> fl_less x z"
  by (auto simp: fl_less_def is_finite_def not_less split: gofloat.splits float64.splits)

lemma takeWhile_reached:
  "sorted_wrt (\<lambda>a b. \<not> tier_less b a) ts \<Longrightarrow> list_all (tier_valid D) ts \<Longrightarrow>
    takeWhile (\<lambda>t. \<not> fl_less x (rt_MinAmount t)) ts = filter (\<lambda>t. \<not> fl_less x (rt_MinAmount t)) ts"
proof (induction ts)
  case (Cons t ts)
  show ?case
  proof (cases "fl_less x (rt_MinAmount t)")
    case True
    then have "fl_less x (rt_MinAmount u)" if "u \<in> set ts" for u
      using Cons.prems that fl_less_trans [OF True, of "rt_MinAmount u"]
      by (auto simp: tier_less_def list_all_iff dest: tier_valid_finite)
    with True show ?thesis by (auto simp: filter_empty_conv)
  qed (use Cons in simp)
qed simp

end
