(* ===== verification/Pay_Config.thy ===== *)
theory Pay_Config
  imports Pay_Bonus
begin

text \<open>
  The payment settings (\<open>service/payment_config_service.go\<close>, \<open>payment_stripe_mode.go\<close> and the
  visible methods of \<open>payment_resume_service.go\<close>): what an update checks and stores, and what is
  read back from the stored texts. Printing and reading floats (\<open>strconv\<close>) is a parameter.
\<close>

section \<open>Visible methods and Stripe modes\<close>

definition NormalizeVisibleMethod :: "string \<Rightarrow> string" where
  [go_defs]: "NormalizeVisibleMethod m = GetBasePaymentType (TrimSpace m)"

text \<open>The loop keeps the first of equal methods and drops the empty one.\<close>

fun normalize_methods :: "string list \<Rightarrow> string list \<Rightarrow> string list" where
  "normalize_methods seen [] = []"
| "normalize_methods seen (m # ms) =
     (let n = NormalizeVisibleMethod m
      in if n = [] \<or> n \<in> set seen then normalize_methods seen ms else n # normalize_methods (n # seen) ms)"

definition NormalizeVisibleMethods :: "string list \<Rightarrow> string list" where
  "NormalizeVisibleMethods ms = normalize_methods [] ms"

fun stripe_mode :: "string \<Rightarrow> string list \<Rightarrow> string" where
  "stripe_mode mode [] = mode"
| "stripe_mode mode (k # ks) =
     (if k = TypeStripeHosted then k else stripe_mode (if k = TypeStripe then k else mode) ks)"

definition StripePaymentMode :: "string list \<Rightarrow> string" where
  "StripePaymentMode types = stripe_mode [] (NormalizeVisibleMethods types)"

definition normalizeStripePaymentTypes :: "string list \<Rightarrow> string list" where
  "normalizeStripePaymentTypes types =
     filter (\<lambda>k. \<not> ((k = TypeStripe \<or> k = TypeStripeHosted) \<and> k \<noteq> StripePaymentMode types)) (NormalizeVisibleMethods types)"

definition ValidateStripePaymentTypes :: "string list \<Rightarrow> perr option" where
  "ValidateStripePaymentTypes types =
     (if TypeStripe \<in> set (NormalizeVisibleMethods types) \<and> TypeStripeHosted \<in> set (NormalizeVisibleMethods types)
      then Some (AppErr ''STRIPE_MODE_CONFLICT'') else None)"

definition splitTypes :: "string \<Rightarrow> string list" where
  "splitTypes s = (if s = [] then [] else filter (\<lambda>p. p \<noteq> []) (map TrimSpace (Split s (CHR '',''))))"

section \<open>Texts of settings\<close>

record number_text =
  nt_Fixed2 :: "gofloat \<Rightarrow> string"
  nt_Exact :: "gofloat \<Rightarrow> string"
  nt_ParseFloat :: "string \<Rightarrow> gofloat option"

definition FormatBool :: "bool \<Rightarrow> string" where
  "FormatBool b = (if b then ''true'' else ''false'')"

definition formatPositiveFloat :: "number_text \<Rightarrow> gofloat \<Rightarrow> string" where
  "formatPositiveFloat N v = (if fl_leq v zero64 then [] else nt_Fixed2 N v)"

definition formatPositiveFloatExact :: "number_text \<Rightarrow> gofloat \<Rightarrow> string" where
  "formatPositiveFloatExact N v = (if fl_leq v zero64 then [] else nt_Exact N v)"

definition formatNonNegativeFloat :: "number_text \<Rightarrow> gofloat \<Rightarrow> string" where
  "formatNonNegativeFloat N v = (if fl_less v zero64 then [] else nt_Fixed2 N v)"

definition formatPositiveInt :: "int \<Rightarrow> string" where
  "formatPositiveInt v = (if v \<le> 0 then [] else Itoa v)"

definition pcParseFloat :: "number_text \<Rightarrow> string \<Rightarrow> gofloat \<Rightarrow> gofloat" where
  "pcParseFloat N s dflt = (if s = [] then dflt else (case nt_ParseFloat N s of None \<Rightarrow> dflt | Some v \<Rightarrow> v))"

definition pcParseInt :: "string \<Rightarrow> int \<Rightarrow> int" where
  "pcParseInt s dflt = (if s = [] then dflt else (case ParseInt s of None \<Rightarrow> dflt | Some v \<Rightarrow> v))"

text \<open>\<open>strconv.ParseBool\<close>, and a setting that an environment variable overrides.\<close>

definition ParseBool :: "string \<Rightarrow> bool option" where
  "ParseBool s =
     (if s \<in> set [''1'', ''t'', ''T'', ''true'', ''TRUE'', ''True''] then Some True
      else if s \<in> set [''0'', ''f'', ''F'', ''false'', ''FALSE'', ''False''] then Some False
      else None)"

definition pcEnvBoolOverride :: "string option \<Rightarrow> bool \<Rightarrow> bool" where
  "pcEnvBoolOverride env fallback =
     (case env of
        None \<Rightarrow> fallback
      | Some raw \<Rightarrow> if TrimSpace raw = [] then fallback
                     else (case ParseBool (TrimSpace raw) of None \<Rightarrow> fallback | Some b \<Rightarrow> b))"

definition normalizeSubscriptionUSDToCNYRate :: "gofloat \<Rightarrow> gofloat" where
  "normalizeSubscriptionUSDToCNYRate rate = (if \<not> is_finite rate \<or> fl_less rate zero64 then zero64 else rate)"

text \<open>\<open>utf8.RuneCountInString\<close>: an invalid byte counts as one rune.\<close>

definition byte_in :: "nat \<Rightarrow> nat \<Rightarrow> string \<Rightarrow> nat \<Rightarrow> bool" where
  "byte_in lo hi s i = (i < length s \<and> lo \<le> of_char (s ! i) \<and> (of_char (s ! i) :: nat) \<le> hi)"

definition rune_width :: "string \<Rightarrow> nat" where
  "rune_width s =
     (if byte_in 0xC2 0xDF s 0 \<and> byte_in 0x80 0xBF s 1 then 2
      else if byte_in 0xE0 0xEF s 0 \<and> byte_in (if byte_in 0xE0 0xE0 s 0 then 0xA0 else 0x80) (if byte_in 0xED 0xED s 0 then 0x9F else 0xBF) s 1 \<and>
              byte_in 0x80 0xBF s 2 then 3
      else if byte_in 0xF0 0xF4 s 0 \<and> byte_in (if byte_in 0xF0 0xF0 s 0 then 0x90 else 0x80) (if byte_in 0xF4 0xF4 s 0 then 0x8F else 0xBF) s 1 \<and>
              byte_in 0x80 0xBF s 2 \<and> byte_in 0x80 0xBF s 3 then 4
      else 1)"

function RuneCount :: "string \<Rightarrow> nat" where
  "RuneCount s = (if s = [] then 0 else 1 + RuneCount (drop (rune_width s) s))"
  by auto
termination
  by (relation "measure length") (auto simp: rune_width_def)

declare RuneCount.simps [simp del]

definition validateRechargeBonusNotice :: "string \<Rightarrow> perr option" where
  "validateRechargeBonusNotice notice =
     (if 10000 < RuneCount notice then Some (Failure ''recharge bonus notice exceeds 10000 characters'') else None)"

section \<open>The update\<close>

record UpdatePaymentConfigRequest =
  up_Enabled :: "bool option"
  up_MinAmount :: "gofloat option"
  up_MaxAmount :: "gofloat option"
  up_DailyLimit :: "gofloat option"
  up_OrderTimeoutMin :: "int option"
  up_MaxPendingOrders :: "int option"
  up_EnabledTypes :: "string list option"
  up_BalanceDisabled :: "bool option"
  up_BalanceRechargeMultiplier :: "gofloat option"
  up_SubscriptionUSDToCNYRate :: "gofloat option"
  up_RechargeFeeRate :: "gofloat option"
  up_RechargeBonusTiers :: "tiers option"
  up_RechargeBonusMode :: "string option"
  up_RechargeBonusNotice :: "string option"
  up_LoadBalanceStrategy :: "string option"
  up_ProductNamePrefix :: "string option"
  up_ProductNameSuffix :: "string option"
  up_HelpImageURL :: "string option"
  up_HelpText :: "string option"
  up_CancelRateLimitEnabled :: "bool option"
  up_CancelRateLimitMax :: "int option"
  up_CancelRateLimitWindow :: "int option"
  up_CancelRateLimitUnit :: "string option"
  up_CancelRateLimitMode :: "string option"
  up_AlipayForceQRCode :: "bool option"
  up_AlipayMobilePrecreateDeepLink :: "bool option"
  up_VisibleMethodAlipaySource :: "string option"
  up_VisibleMethodWxpaySource :: "string option"
  up_VisibleMethodAlipayEnabled :: "bool option"
  up_VisibleMethodWxpayEnabled :: "bool option"

text \<open>\<open>math.Round(v*100) != v*100\<close> for a finite \<open>v\<close>: the product is rounded, then compared.\<close>

definition rat_round :: "rat \<Rightarrow> int" where
  "rat_round q = (if 0 \<le> q then \<lfloor>q + 1 / 2\<rfloor> else - \<lfloor>- q + 1 / 2\<rfloor>)"

definition two_decimals :: "gofloat \<Rightarrow> bool" where
  "two_decimals v = (case v of Num (Fin q) \<Rightarrow> (case f64 (q * 100) of Fin p \<Rightarrow> of_int (rat_round p) = p | _ \<Rightarrow> True) | _ \<Rightarrow> True)"

definition check_update_numbers :: "UpdatePaymentConfigRequest \<Rightarrow> perr option" where
  "check_update_numbers req = first_error
     [(case up_BalanceRechargeMultiplier req of
         Some v \<Rightarrow> if \<not> is_finite v \<or> fl_leq v zero64 then Some (AppErr ''INVALID_BALANCE_RECHARGE_MULTIPLIER'') else None
       | None \<Rightarrow> None),
      (case up_SubscriptionUSDToCNYRate req of
         Some v \<Rightarrow> if \<not> is_finite v \<or> fl_less v zero64 then Some (AppErr ''INVALID_SUBSCRIPTION_USD_TO_CNY_RATE'') else None
       | None \<Rightarrow> None),
      (case up_RechargeFeeRate req of
         Some v \<Rightarrow> if \<not> is_finite v \<or> fl_less v zero64 \<or> fl_less hundred v then Some (AppErr ''INVALID_RECHARGE_FEE_RATE'')
                    else if \<not> two_decimals v then Some (AppErr ''INVALID_RECHARGE_FEE_RATE'') else None
       | None \<Rightarrow> None)]"

text \<open>The settings that an update writes, a field that is missing writes none.\<close>

definition put :: "string \<Rightarrow> ('a \<Rightarrow> string) \<Rightarrow> 'a option \<Rightarrow> (string \<times> string) list" where
  "put k f v = (case v of None \<Rightarrow> [] | Some x \<Rightarrow> [(k, f x)])"

definition update_writes :: "number_text \<Rightarrow> UpdatePaymentConfigRequest \<Rightarrow> string \<Rightarrow> string \<Rightarrow> (string \<times> string) list" where
  "update_writes N req tiersValue modeValue =
     put ''payment_enabled'' FormatBool (up_Enabled req) @
     put ''MIN_RECHARGE_AMOUNT'' (formatPositiveFloat N) (up_MinAmount req) @
     put ''MAX_RECHARGE_AMOUNT'' (formatPositiveFloat N) (up_MaxAmount req) @
     put ''DAILY_RECHARGE_LIMIT'' (formatPositiveFloat N) (up_DailyLimit req) @
     put ''ORDER_TIMEOUT_MINUTES'' formatPositiveInt (up_OrderTimeoutMin req) @
     put ''MAX_PENDING_ORDERS'' formatPositiveInt (up_MaxPendingOrders req) @
     put ''ENABLED_PAYMENT_TYPES'' (\<lambda>ts. Join ts '','') (up_EnabledTypes req) @
     put ''BALANCE_PAYMENT_DISABLED'' FormatBool (up_BalanceDisabled req) @
     put ''BALANCE_RECHARGE_MULTIPLIER'' (formatPositiveFloat N) (up_BalanceRechargeMultiplier req) @
     put ''SUBSCRIPTION_USD_TO_CNY_RATE'' (formatPositiveFloatExact N) (up_SubscriptionUSDToCNYRate req) @
     put ''RECHARGE_FEE_RATE'' (formatNonNegativeFloat N) (up_RechargeFeeRate req) @
     put SettingRechargeBonusTiers (\<lambda>_. tiersValue) (up_RechargeBonusTiers req) @
     put SettingRechargeBonusMode (\<lambda>_. modeValue) (up_RechargeBonusMode req) @
     put ''RECHARGE_BONUS_NOTICE'' TrimSpace (up_RechargeBonusNotice req) @
     put ''LOAD_BALANCE_STRATEGY'' id (up_LoadBalanceStrategy req) @
     put ''PRODUCT_NAME_PREFIX'' id (up_ProductNamePrefix req) @
     put ''PRODUCT_NAME_SUFFIX'' id (up_ProductNameSuffix req) @
     put ''PAYMENT_HELP_IMAGE_URL'' id (up_HelpImageURL req) @
     put ''PAYMENT_HELP_TEXT'' id (up_HelpText req) @
     put ''CANCEL_RATE_LIMIT_ENABLED'' FormatBool (up_CancelRateLimitEnabled req) @
     put ''CANCEL_RATE_LIMIT_MAX'' formatPositiveInt (up_CancelRateLimitMax req) @
     put ''CANCEL_RATE_LIMIT_WINDOW'' formatPositiveInt (up_CancelRateLimitWindow req) @
     put ''CANCEL_RATE_LIMIT_UNIT'' id (up_CancelRateLimitUnit req) @
     put ''CANCEL_RATE_LIMIT_WINDOW_MODE'' id (up_CancelRateLimitMode req) @
     put ''ALIPAY_FORCE_QRCODE'' FormatBool (up_AlipayForceQRCode req) @
     put ''ALIPAY_MOBILE_PRECREATE_DEEP_LINK'' FormatBool (up_AlipayMobilePrecreateDeepLink req) @
     put ''payment_visible_method_alipay_source'' id (up_VisibleMethodAlipaySource req) @
     put ''payment_visible_method_wxpay_source'' id (up_VisibleMethodWxpaySource req) @
     put ''payment_visible_method_alipay_enabled'' FormatBool (up_VisibleMethodAlipayEnabled req) @
     put ''payment_visible_method_wxpay_enabled'' FormatBool (up_VisibleMethodWxpayEnabled req)"

text \<open>
  \<open>stored\<close> is the read of the present tiers and mode; the result is what \<open>SetMultiple\<close> is called
  with.
\<close>

definition UpdatePaymentConfig ::
  "tiers_json \<Rightarrow> decimal_lib \<Rightarrow> number_text \<Rightarrow> perr + settings \<Rightarrow> UpdatePaymentConfigRequest \<Rightarrow> perr + (string \<times> string) list" where
  "UpdatePaymentConfig J D N stored req =
     (case ValidateStripePaymentTypes (case up_EnabledTypes req of None \<Rightarrow> [] | Some ts \<Rightarrow> ts) of
        Some err \<Rightarrow> Inl err
      | None \<Rightarrow>
          (case check_update_numbers req of
             Some err \<Rightarrow> Inl err
           | None \<Rightarrow>
               (case resolveRechargeBonusUpdate J D stored (up_RechargeBonusTiers req) (up_RechargeBonusMode req) of
                  Inl err \<Rightarrow> Inl err
                | Inr (tiersValue, modeValue) \<Rightarrow>
                    (case up_RechargeBonusNotice req of
                       Some n \<Rightarrow> if validateRechargeBonusNotice n \<noteq> None then Inl (AppErr ''INVALID_RECHARGE_BONUS_NOTICE'')
                                  else Inr (update_writes N req tiersValue modeValue)
                     | None \<Rightarrow> Inr (update_writes N req tiersValue modeValue)))))"

text \<open>The stored settings after an update; a failed update writes nothing.\<close>

definition apply_update :: "tiers_json \<Rightarrow> decimal_lib \<Rightarrow> number_text \<Rightarrow> settings \<Rightarrow> UpdatePaymentConfigRequest \<Rightarrow> settings" where
  "apply_update J D N st req =
     (case UpdatePaymentConfig J D N (Inr st) req of Inl _ \<Rightarrow> st | Inr ws \<Rightarrow> st ++ map_of ws)"

section \<open>Reading\<close>

definition default_one :: gofloat where "default_one = Num (Fin 1)"

definition parsePaymentConfig :: "tiers_json \<Rightarrow> decimal_lib \<Rightarrow> number_text \<Rightarrow> string option \<Rightarrow> settings \<Rightarrow> PaymentConfig" where
  "parsePaymentConfig J D N env st =
     (let v = setting st
      in \<lparr>pc_Enabled = (v ''payment_enabled'' = ''true''),
          pc_MinAmount = pcParseFloat N (v ''MIN_RECHARGE_AMOUNT'') default_one,
          pc_MaxAmount = pcParseFloat N (v ''MAX_RECHARGE_AMOUNT'') zero64,
          pc_DailyLimit = pcParseFloat N (v ''DAILY_RECHARGE_LIMIT'') zero64,
          pc_OrderTimeoutMin = pcParseInt (v ''ORDER_TIMEOUT_MINUTES'') 30,
          pc_MaxPendingOrders = pcParseInt (v ''MAX_PENDING_ORDERS'') 3,
          pc_EnabledTypes =
            (if v ''ENABLED_PAYMENT_TYPES'' = [] then []
             else normalizeStripePaymentTypes (filter (\<lambda>t. t \<noteq> []) (map TrimSpace (Split (v ''ENABLED_PAYMENT_TYPES'') (CHR '',''))))),
          pc_BalanceDisabled = (v ''BALANCE_PAYMENT_DISABLED'' = ''true''),
          pc_BalanceRechargeMultiplier =
            normalizeBalanceRechargeMultiplier (pcParseFloat N (v ''BALANCE_RECHARGE_MULTIPLIER'') default_one),
          pc_SubscriptionUSDToCNYRate =
            normalizeSubscriptionUSDToCNYRate (pcParseFloat N (v ''SUBSCRIPTION_USD_TO_CNY_RATE'') zero64),
          pc_RechargeFeeRate = pcParseFloat N (v ''RECHARGE_FEE_RATE'') zero64,
          pc_RechargeBonusTiers = parseRechargeBonusTiers J D (v SettingRechargeBonusTiers),
          pc_RechargeBonusMode = fst (NormalizeRechargeBonusMode (v SettingRechargeBonusMode)),
          pc_RechargeBonusNotice = v ''RECHARGE_BONUS_NOTICE'',
          pc_LoadBalanceStrategy =
            (if v ''LOAD_BALANCE_STRATEGY'' = [] then ''round-robin'' else v ''LOAD_BALANCE_STRATEGY''),
          pc_ProductNamePrefix = v ''PRODUCT_NAME_PREFIX'',
          pc_ProductNameSuffix = v ''PRODUCT_NAME_SUFFIX'',
          pc_HelpImageURL = v ''PAYMENT_HELP_IMAGE_URL'',
          pc_HelpText = v ''PAYMENT_HELP_TEXT'',
          pc_StripePublishableKey = [],
          CancelRateLimitEnabled = (v ''CANCEL_RATE_LIMIT_ENABLED'' = ''true''),
          CancelRateLimitMax = pcParseInt (v ''CANCEL_RATE_LIMIT_MAX'') 10,
          CancelRateLimitWindow = pcParseInt (v ''CANCEL_RATE_LIMIT_WINDOW'') 1,
          CancelRateLimitUnit = v ''CANCEL_RATE_LIMIT_UNIT'',
          CancelRateLimitMode = v ''CANCEL_RATE_LIMIT_WINDOW_MODE'',
          pc_AlipayForceQRCode = (v ''ALIPAY_FORCE_QRCODE'' = ''true''),
          pc_AlipayMobilePrecreateDeepLink = pcEnvBoolOverride env (v ''ALIPAY_MOBILE_PRECREATE_DEEP_LINK'' = ''true'')\<rparr>)"

section \<open>The bonus settings stay consistent\<close>

text \<open>No discount of a hundred percent or more is stored.\<close>

definition discount_ok :: "tiers_json \<Rightarrow> decimal_lib \<Rightarrow> settings \<Rightarrow> bool" where
  "discount_ok J D st =
     (ValidateRechargeBonusTiersForMode (fst (NormalizeRechargeBonusMode (setting st SettingRechargeBonusMode)))
        (parseRechargeBonusTiers J D (setting st SettingRechargeBonusTiers)) = None)"

text \<open>What is relied on of JSON: a list of finite tiers that was written is read back; its text has no outer space.\<close>

definition finite_tiers :: "tiers \<Rightarrow> bool" where
  "finite_tiers ts = list_all (\<lambda>t. is_finite (rt_MinAmount t) \<and> is_finite (rt_BonusPercent t)) ts"

definition tiers_roundtrip :: "tiers_json \<Rightarrow> bool" where
  "tiers_roundtrip J =
     (\<forall>ts. ts \<noteq> [] \<and> finite_tiers ts \<longrightarrow> tj_Unmarshal J (tj_Marshal J ts) = Some ts \<and> TrimSpace (tj_Marshal J ts) = tj_Marshal J ts \<and> tj_Marshal J ts \<noteq> [])"

lemma parse_encode:
  assumes "tiers_roundtrip J" "tiers_ok D ts"
  shows "parseRechargeBonusTiers J D (encodeRechargeBonusTiers J ts) = ts"
proof (cases "ts = []")
  case False
  have "read_tiers D [] ts = ts" using assms(2) by (intro read_tiers_id) (auto simp: tiers_ok_def)
  moreover have "sortRechargeBonusTiers ts = ts"
    using assms(2) by (simp add: sortRechargeBonusTiers_def tiers_ok_def SliceStable_sorted)
  moreover have "finite_tiers ts"
    using assms(2) by (auto simp: tiers_ok_def finite_tiers_def list_all_iff tier_valid_def rechargeBonusValueValid_def)
  ultimately show ?thesis
    using False assms(1) by (simp add: parseRechargeBonusTiers_def encodeRechargeBonusTiers_def tiers_roundtrip_def)
qed (simp add: parseRechargeBonusTiers_def encodeRechargeBonusTiers_def)

lemma NormalizeMode_again:
  "NormalizeRechargeBonusMode (fst (NormalizeRechargeBonusMode raw)) = (fst (NormalizeRechargeBonusMode raw), True)"
proof -
  have "NormalizeRechargeBonusMode RechargeBonusModeBonus = (RechargeBonusModeBonus, True)"
    "NormalizeRechargeBonusMode RechargeBonusModeDiscount = (RechargeBonusModeDiscount, True)"
    by code_simp+
  moreover have "fst (NormalizeRechargeBonusMode raw) \<in> {RechargeBonusModeBonus, RechargeBonusModeDiscount}"
    by (simp add: NormalizeRechargeBonusMode_def Let_def)
  ultimately show ?thesis by (metis insertE singletonD)
qed

lemma map_of_put [simp]: "map_of (put k f v) j = (if j = k then map_option f v else None)"
  by (cases v) (auto simp: put_def)

lemma map_of_puts [simp]:
  "map_of (put k f v @ ys) j = (if j \<noteq> k then map_of ys j else case v of Some x \<Rightarrow> Some (f x) | None \<Rightarrow> map_of ys j)"
  by (cases v) (auto simp: put_def)

lemma update_writes_bonus:
  "map_of (update_writes N req tv mv) SettingRechargeBonusTiers = map_option (\<lambda>_. tv) (up_RechargeBonusTiers req)"
  "map_of (update_writes N req tv mv) SettingRechargeBonusMode = map_option (\<lambda>_. mv) (up_RechargeBonusMode req)"
  unfolding update_writes_def SettingRechargeBonusTiers_def SettingRechargeBonusMode_def
  by (simp_all del: map_of_append split: option.split)

text \<open>What the tiers and the mode are after a successful check, as they are read back.\<close>

lemma resolve_consistent:
  assumes J: "tiers_roundtrip J" and res: "resolveRechargeBonusUpdate J D (Inr st) rt rm = Inr (tv, mv)"
    and some: "rt \<noteq> None \<or> rm \<noteq> None"
  shows "ValidateRechargeBonusTiersForMode
      (fst (NormalizeRechargeBonusMode (if rm = None then setting st SettingRechargeBonusMode else mv)))
      (parseRechargeBonusTiers J D (if rt = None then setting st SettingRechargeBonusTiers else tv)) = None"
proof -
  define v where "v = (if rt = None \<or> rm = None then st else Map.empty)"
  have "(if rt = None \<or> rm = None then Inr st else Inr Map.empty) = (Inr v :: perr + settings)" by (simp add: v_def)
  with res some obtain ts mode where ts: "update_tiers J D v rt = Inr ts" and mode: "update_mode v rm = Inr mode"
    and ok: "ValidateRechargeBonusTiersForMode mode ts = None" "tv = encodeRechargeBonusTiers J ts" "mv = mode"
    unfolding resolveRechargeBonusUpdate_def by (auto split: sum.splits option.splits)
  have "tiers_ok D ts \<and> (rt = None \<longrightarrow> ts = parseRechargeBonusTiers J D (setting st SettingRechargeBonusTiers))"
    using ts parse_tiers_ok [of D J] NormalizeRechargeBonusTiers_ok [of D]
    by (auto simp: update_tiers_def v_def split: option.splits sum.splits)
  then have "parseRechargeBonusTiers J D (if rt = None then setting st SettingRechargeBonusTiers else tv) = ts"
    using ok(2) parse_encode [OF J] by simp
  moreover have "fst (NormalizeRechargeBonusMode (if rm = None then setting st SettingRechargeBonusMode else mv)) = mode"
    using mode ok(3) NormalizeMode_again
    by (auto simp: update_mode_def v_def split: option.splits prod.splits if_splits) (metis fst_conv)
  ultimately show ?thesis using ok(1) by simp
qed

lemma apply_update_discount_ok:
  assumes J: "tiers_roundtrip J" and st: "discount_ok J D st"
  shows "discount_ok J D (apply_update J D N st req)"
proof (cases "UpdatePaymentConfig J D N (Inr st) req")
  case (Inr ws)
  then obtain tv mv where res: "resolveRechargeBonusUpdate J D (Inr st) (up_RechargeBonusTiers req) (up_RechargeBonusMode req) = Inr (tv, mv)"
    and ws: "ws = update_writes N req tv mv"
    unfolding UpdatePaymentConfig_def by (auto split: option.splits sum.splits prod.splits if_splits)
  have "setting (st ++ map_of ws) SettingRechargeBonusTiers =
      (if up_RechargeBonusTiers req = None then setting st SettingRechargeBonusTiers else tv)"
    "setting (st ++ map_of ws) SettingRechargeBonusMode =
      (if up_RechargeBonusMode req = None then setting st SettingRechargeBonusMode else mv)"
    by (auto simp: setting_def ws map_add_def update_writes_bonus)
  with st res resolve_consistent [OF J res] show ?thesis
    by (cases "up_RechargeBonusTiers req = None \<and> up_RechargeBonusMode req = None")
      (simp_all add: apply_update_def Inr discount_ok_def)
qed (simp add: apply_update_def st)

end
