(* ===== verification/Worker_Pool.thy ===== *)
theory Worker_Pool
  imports Main
begin

text \<open>
  Programs that work on a shared store, one atomic operation at a time.

  A program is a resumption: it has returned, or it waits to perform its next operation, which
  depends on the answer the outside gives (clock readings, failures, replies of other services)
  and on the store at that moment. Between two operations of a program any number of operations
  of others may happen. \<open>keeps\<close> is the rely-guarantee judgement for such a program: whatever the
  others do within the relation \<open>R\<close>, each of its own operations stays within \<open>R\<close> and keeps the
  invariant \<open>I\<close>, and if it returns, its result satisfies \<open>Q\<close>. The locale \<open>pool\<close> proves once that
  any number of such programs, started, interleaved and abandoned at will, keep the invariant.
\<close>

section \<open>Programs\<close>

datatype ('e, 's, 'a) prog = Return 'a | Step "'e \<Rightarrow> 's \<Rightarrow> ('e, 's, 'a) prog \<times> 's"

primrec and_then :: "('e, 's, 'a) prog \<Rightarrow> ('a \<Rightarrow> ('e, 's, 'b) prog) \<Rightarrow> ('e, 's, 'b) prog" where
  "and_then (Return a) k = k a"
| "and_then (Step f) k = Step (\<lambda>e s. map_prod (\<lambda>p. and_then p k) id (f e s))"

text \<open>One atomic operation, as a program that returns its result.\<close>

definition atomic :: "('e \<Rightarrow> 's \<Rightarrow> 'a \<times> 's) \<Rightarrow> ('e, 's, 'a) prog" where
  "atomic f = Step (\<lambda>e s. map_prod Return id (f e s))"

text \<open>The run of a program that nobody interrupts, under one answer for all its operations.\<close>

primrec alone :: "('e, 's, 'a) prog \<Rightarrow> 'e \<Rightarrow> 's \<Rightarrow> 'a \<times> 's" where
  "alone (Return a) e s = (a, s)"
| "alone (Step f) e s = (case map_prod (\<lambda>p. alone p e) id (f e s) of (g, s') \<Rightarrow> g s')"

lemma alone_and_then [simp]:
  "alone (and_then p k) e s = (case alone p e s of (a, s') \<Rightarrow> alone (k a) e s')"
proof (induction p arbitrary: s)
  case (Step f)
  obtain p s' where f: "f e s = (p, s')" by (cases "f e s")
  have "p \<in> Basic_BNFs.fsts (f e s)" by (simp add: f fsts.simps)
  then have "alone (and_then p k) e s' = (case alone p e s' of (a, s') \<Rightarrow> alone (k a) e s')"
    by (intro Step [of "f e" "f e s"]) simp_all
  with f show ?case by simp
qed simp

lemma alone_atomic [simp]: "alone (atomic f) e s = f e s"
  by (simp add: atomic_def split_beta)

lemma and_then_assoc: "and_then (and_then p k) l = and_then p (\<lambda>a. and_then (k a) l)"
proof (induction p)
  case (Step f)
  have "map_prod (\<lambda>p. and_then p l) id (map_prod (\<lambda>p. and_then p k) id (f e s)) =
      map_prod (\<lambda>p. and_then p (\<lambda>a. and_then (k a) l)) id (f e s)" for e s
  proof (cases "f e s")
    case (Pair p s')
    then have "p \<in> Basic_BNFs.fsts (f e s)" by (simp add: fsts.simps)
    then have "and_then (and_then p k) l = and_then p (\<lambda>a. and_then (k a) l)"
      by (intro Step [of "f e" "f e s"]) simp_all
    with Pair show ?thesis by simp
  qed
  then show ?case by simp
qed simp

lemma and_then_Return [simp]: "and_then p Return = p"
proof (induction p)
  case (Step f)
  have "map_prod (\<lambda>p. and_then p Return) id (f e s) = f e s" for e s
  proof (cases "f e s")
    case (Pair p s')
    then have "p \<in> Basic_BNFs.fsts (f e s)" by (simp add: fsts.simps)
    then have "and_then p Return = p" by (intro Step [of "f e" "f e s"]) simp_all
    with Pair show ?thesis by simp
  qed
  then show ?case by simp
qed simp

section \<open>The rely-guarantee judgement\<close>

inductive keeps ::
  "('s \<Rightarrow> bool) \<Rightarrow> ('s \<Rightarrow> 's \<Rightarrow> bool) \<Rightarrow> ('a \<Rightarrow> 's \<Rightarrow> bool) \<Rightarrow> ('e, 's, 'a) prog \<Rightarrow> 's \<Rightarrow> bool"
  for I :: "'s \<Rightarrow> bool" and R :: "'s \<Rightarrow> 's \<Rightarrow> bool" and Q :: "'a \<Rightarrow> 's \<Rightarrow> bool" where
  returns: "(\<And>s'. R s s' \<Longrightarrow> I s' \<Longrightarrow> Q a s') \<Longrightarrow> keeps I R Q (Return a) s"
| steps: "(\<And>e s'. R s s' \<Longrightarrow> I s' \<Longrightarrow>
      I (snd (f e s')) \<and> R s' (snd (f e s')) \<and> keeps I R Q (fst (f e s')) (snd (f e s')))
    \<Longrightarrow> keeps I R Q (Step f) s"

inductive_simps keeps_Return: "keeps I R Q (Return a) s"
inductive_simps keeps_Step: "keeps I R Q (Step f) s"

text \<open>
  The rules need the interference to compose; a component states its relation and interprets this
  locale once.
\<close>

locale pool =
  fixes I :: "'s \<Rightarrow> bool" and R :: "'s \<Rightarrow> 's \<Rightarrow> bool"
  assumes R_refl: "R s s" and R_trans: "R s t \<Longrightarrow> R t u \<Longrightarrow> R s u"
begin

lemma keeps_later: "keeps I R Q p s \<Longrightarrow> R s t \<Longrightarrow> keeps I R Q p t"
proof (induction rule: keeps.induct)
  case (returns s a)
  then show ?case using R_trans by (blast intro: keeps.returns)
next
  case (steps s f)
  then show ?case using R_trans by (intro keeps.steps) blast
qed

lemma keeps_mono: "keeps I R Q p s \<Longrightarrow> (\<And>a s'. R s s' \<Longrightarrow> I s' \<Longrightarrow> Q a s' \<Longrightarrow> Q' a s') \<Longrightarrow> keeps I R Q' p s"
proof (induction rule: keeps.induct)
  case (returns s a)
  then show ?case by (blast intro: keeps.returns)
next
  case (steps s f)
  show ?case
  proof (rule keeps.steps)
    fix e s' assume "R s s'" "I s'"
    with steps(1) have step: "I (snd (f e s'))" "R s' (snd (f e s'))"
      and IH: "(\<And>a u. R (snd (f e s')) u \<Longrightarrow> I u \<Longrightarrow> Q a u \<Longrightarrow> Q' a u) \<Longrightarrow>
        keeps I R Q' (fst (f e s')) (snd (f e s'))" by blast+
    have "keeps I R Q' (fst (f e s')) (snd (f e s'))"
      using steps(2) \<open>R s s'\<close> step(2) by (intro IH) (blast intro: R_trans)
    with step show "I (snd (f e s')) \<and> R s' (snd (f e s')) \<and> keeps I R Q' (fst (f e s')) (snd (f e s'))"
      by blast
  qed
qed

lemma keeps_and_then:
  "keeps I R P p s \<Longrightarrow> (\<And>a s'. R s s' \<Longrightarrow> I s' \<Longrightarrow> P a s' \<Longrightarrow> keeps I R Q (k a) s') \<Longrightarrow> I s \<Longrightarrow>
    keeps I R Q (and_then p k) s"
proof (induction rule: keeps.induct)
  case (returns s a)
  then show ?case using R_refl by simp
next
  case (steps s f)
  have "keeps I R Q (Step (\<lambda>e s. map_prod (\<lambda>p. and_then p k) id (f e s))) s"
  proof (rule keeps.steps)
    fix e s' assume "R s s'" "I s'"
    with steps(1) have step: "I (snd (f e s'))" "R s' (snd (f e s'))"
      and IH: "(\<And>a u. R (snd (f e s')) u \<Longrightarrow> I u \<Longrightarrow> P a u \<Longrightarrow> keeps I R Q (k a) u) \<Longrightarrow> I (snd (f e s')) \<Longrightarrow>
        keeps I R Q (and_then (fst (f e s')) k) (snd (f e s'))" by blast+
    have "keeps I R Q (and_then (fst (f e s')) k) (snd (f e s'))"
      using steps(2) \<open>R s s'\<close> step by (intro IH) (blast intro: R_trans)+
    with step show "I (snd (map_prod (\<lambda>p. and_then p k) id (f e s'))) \<and>
      R s' (snd (map_prod (\<lambda>p. and_then p k) id (f e s'))) \<and>
      keeps I R Q (fst (map_prod (\<lambda>p. and_then p k) id (f e s'))) (snd (map_prod (\<lambda>p. and_then p k) id (f e s')))"
      by simp
  qed
  then show ?case by simp
qed

lemma keeps_atomic:
  "(\<And>e s'. R s s' \<Longrightarrow> I s' \<Longrightarrow>
      I (snd (f e s')) \<and> R s' (snd (f e s')) \<and>
      (\<forall>u. R (snd (f e s')) u \<longrightarrow> I u \<longrightarrow> Q (fst (f e s')) u)) \<Longrightarrow> keeps I R Q (atomic f) s"
  unfolding atomic_def by (rule keeps.steps) (auto intro: keeps.returns)

text \<open>A run that nobody interrupts is one of the behaviours that the judgement speaks of.\<close>

lemma keeps_alone: "keeps I R Q p s \<Longrightarrow> I s \<Longrightarrow> alone p e s = (a, t) \<Longrightarrow> I t \<and> R s t \<and> Q a t"
proof (induction arbitrary: a t rule: keeps.induct)
  case (returns a s)
  then show ?case using R_refl by auto
next
  case (steps s f)
  obtain p u where f: "f e s = (p, u)" by (cases "f e s")
  have "I u \<and> R s u" and IH: "I u \<Longrightarrow> alone p e u = (b, v) \<Longrightarrow> I v \<and> R u v \<and> Q b v" for b v
    using steps(1) [OF R_refl steps(2), of e] f by auto
  moreover have "alone p e u = (a, t)" using steps(3) f by simp
  ultimately show ?case using R_trans by blast
qed

end

section \<open>A pool of workers\<close>

text \<open>
  Any number of workers, numbered by \<open>nat\<close>: a worker that has nothing to do may take up one of the
  \<open>jobs\<close>, a busy worker performs its next operation or dies between two operations.
\<close>

record ('e, 's, 'a) world =
  w_jobs :: "nat \<Rightarrow> ('e, 's, 'a) prog option"
  w_store :: 's

inductive goes :: "('e, 's, 'a) prog set \<Rightarrow> ('e, 's, 'a) world \<Rightarrow> ('e, 's, 'a) world \<Rightarrow> bool"
  for jobs :: "('e, 's, 'a) prog set" where
  takes: "w_jobs w i = None \<Longrightarrow> p \<in> jobs \<Longrightarrow> goes jobs w (w\<lparr>w_jobs := (w_jobs w)(i := Some p)\<rparr>)"
| works: "w_jobs w i = Some (Step f) \<Longrightarrow> f e (w_store w) = (p, s) \<Longrightarrow>
    goes jobs w (w\<lparr>w_jobs := (w_jobs w)(i := Some p), w_store := s\<rparr>)"
| dies: "goes jobs w (w\<lparr>w_jobs := (w_jobs w)(i := None)\<rparr>)"

inductive_cases goesE: "goes jobs w v"

definition idle :: "'s \<Rightarrow> ('e, 's, 'a) world" where
  "idle s = \<lparr>w_jobs = \<lambda>i. None, w_store = s\<rparr>"

definition reaches :: "('e, 's, 'a) prog set \<Rightarrow> 's \<Rightarrow> ('e, 's, 'a) world \<Rightarrow> bool" where
  "reaches jobs s w = (goes jobs)\<^sup>*\<^sup>* (idle s) w"

lemma reaches_induct [consumes 1, case_names start go]:
  assumes "reaches jobs s w" "P (idle s)"
    and "\<And>v w. reaches jobs s v \<Longrightarrow> P v \<Longrightarrow> goes jobs v w \<Longrightarrow> P w"
  shows "P w"
  using assms(1) unfolding reaches_def
  by (induction rule: rtranclp_induct) (use assms(2,3) in \<open>auto simp: reaches_def\<close>)

lemma reaches_idle: "reaches jobs s (idle s)"
  by (simp add: reaches_def)

lemma reaches_goes: "reaches jobs s v \<Longrightarrow> goes jobs v w \<Longrightarrow> reaches jobs s w"
  unfolding reaches_def by (rule rtranclp.rtrancl_into_rtrancl)

text \<open>A pool whose jobs all keep the invariant, whenever they are taken up.\<close>

locale crew = pool I R for I :: "'s \<Rightarrow> bool" and R :: "'s \<Rightarrow> 's \<Rightarrow> bool" +
  fixes jobs :: "('e, 's, 'a) prog set"
  assumes job: "p \<in> jobs \<Longrightarrow> I s \<Longrightarrow> keeps I R (\<lambda>a s. True) p s"
begin

lemma crew_invariant:
  assumes "reaches jobs s w" "I s"
  shows "I (w_store w) \<and> R s (w_store w) \<and>
    (\<forall>i p. w_jobs w i = Some p \<longrightarrow> keeps I R (\<lambda>a s. True) p (w_store w))"
  using assms
proof (induction rule: reaches_induct)
  case start
  then show ?case by (simp add: idle_def R_refl)
next
  case (go v w)
  then have inv: "I (w_store v)" "R s (w_store v)"
    and ok: "\<And>i p. w_jobs v i = Some p \<Longrightarrow> keeps I R (\<lambda>a s. True) p (w_store v)" by auto
  from go.hyps(2) show ?case
  proof (cases rule: goes.cases)
    case (takes i p)
    then show ?thesis using inv ok job by (auto split: if_splits)
  next
    case (works i f e p t)
    have "keeps I R (\<lambda>a s. True) (Step f) (w_store v)" using ok works(2) by blast
    then have "I (snd (f e (w_store v))) \<and> R (w_store v) (snd (f e (w_store v))) \<and>
        keeps I R (\<lambda>a s. True) (fst (f e (w_store v))) (snd (f e (w_store v)))"
      using inv R_refl [of "w_store v"] unfolding keeps_Step by blast
    with works(3) have step: "I t" "R (w_store v) t" "keeps I R (\<lambda>a s. True) p t" by auto
    then show ?thesis using works(1) inv ok by (auto split: if_splits intro: R_trans keeps_later)
  next
    case (dies i)
    then show ?thesis using inv ok by (auto split: if_splits)
  qed
qed

text \<open>What holds between a state and every later one.\<close>

lemma crew_step: "reaches jobs s v \<Longrightarrow> I s \<Longrightarrow> goes jobs v w \<Longrightarrow> R (w_store v) (w_store w)"
proof -
  assume r: "reaches jobs s v" "I s" and "goes jobs v w"
  from this(3) show ?thesis
  proof (cases rule: goes.cases)
    case (works i f e p t)
    have "keeps I R (\<lambda>a s. True) (Step f) (w_store v)" "I (w_store v)"
      using crew_invariant [OF r] works(2) by auto
    then have "R (w_store v) (snd (f e (w_store v)))"
      using R_refl [of "w_store v"] unfolding keeps_Step by blast
    with works(1,3) show ?thesis by simp
  qed (auto simp: R_refl)
qed

lemma crew_later:
  assumes "reaches jobs s v" "I s" "(goes jobs)\<^sup>*\<^sup>* v w"
  shows "R (w_store v) (w_store w)"
proof -
  from assms(3) have "reaches jobs s w \<and> R (w_store v) (w_store w)"
  proof (induction rule: rtranclp_induct)
    case base
    then show ?case using assms(1) R_refl by blast
  next
    case (step w x)
    then show ?case using assms(2) by (blast intro: reaches_goes crew_step R_trans)
  qed
  then show ?thesis by blast
qed

end

text \<open>A lone run is a run of the pool, by a worker that has taken the program up.\<close>

lemma alone_goes:
  "alone p e (w_store w) = (a, t) \<Longrightarrow> w_jobs w i = Some p \<Longrightarrow>
    (goes jobs)\<^sup>*\<^sup>* w (w\<lparr>w_jobs := (w_jobs w)(i := Some (Return a)), w_store := t\<rparr>)"
proof (induction p arbitrary: w)
  case (Return b)
  have "w\<lparr>w_jobs := (w_jobs w)(i := Some (Return a)), w_store := t\<rparr> = w" using Return by (cases w) (auto simp: fun_upd_idem)
  then show ?case by (simp del: fun_upd_apply)
next
  case (Step f)
  obtain p s where f: "f e (w_store w) = (p, s)" by (cases "f e (w_store w)")
  let ?v = "w\<lparr>w_jobs := (w_jobs w)(i := Some p), w_store := s\<rparr>"
  have "goes jobs w ?v" using Step.prems(2) f by (rule goes.works)
  moreover have "(goes jobs)\<^sup>*\<^sup>* ?v (?v\<lparr>w_jobs := (w_jobs ?v)(i := Some (Return a)), w_store := t\<rparr>)"
  proof (rule Step.IH [of "f e" "f e (w_store w)"])
    show "p \<in> Basic_BNFs.fsts (f e (w_store w))" by (simp add: f fsts.simps)
    show "alone p e (w_store ?v) = (a, t)" using Step.prems(1) f by simp
  qed simp_all
  ultimately show ?case by (simp add: converse_rtranclp_into_rtranclp del: fun_upd_apply)
qed

section \<open>Runs that only read\<close>

text \<open>Under the answer \<open>e\<close>, and while the store is \<open>s\<close>, the program comes to another one and changes nothing.\<close>

inductive quiet :: "'e \<Rightarrow> 's \<Rightarrow> ('e, 's, 'a) prog \<Rightarrow> ('e, 's, 'a) prog \<Rightarrow> bool" for e :: 'e and s :: 's where
  stays: "quiet e s p p"
| looks: "f e s = (p, s) \<Longrightarrow> quiet e s p q \<Longrightarrow> quiet e s (Step f) q"

lemma quiet_trans: "quiet e s p q \<Longrightarrow> quiet e s q r \<Longrightarrow> quiet e s p r"
  by (induction rule: quiet.induct) (auto intro: quiet.intros)

lemma quiet_and_then: "quiet e s p q \<Longrightarrow> quiet e s (and_then p k) (and_then q k)"
proof (induction rule: quiet.induct)
  case (looks f p q)
  then show ?case by (auto intro: quiet.looks)
qed (rule quiet.stays)

lemma quiet_atomic: "f e s = (a, s) \<Longrightarrow> quiet e s (atomic f) (Return a)"
  by (auto simp: atomic_def intro: quiet.looks [OF _ quiet.stays])

lemma quiet_goes:
  "quiet e s p q \<Longrightarrow> w_store w = s \<Longrightarrow> w_jobs w i = Some p \<Longrightarrow>
    (goes jobs)\<^sup>*\<^sup>* w (w\<lparr>w_jobs := (w_jobs w)(i := Some q)\<rparr>)"
proof (induction arbitrary: w rule: quiet.induct)
  case (stays p)
  then have "w\<lparr>w_jobs := (w_jobs w)(i := Some p)\<rparr> = w" by (cases w) (auto simp: fun_upd_idem)
  then show ?case by (simp del: fun_upd_apply)
next
  case (looks f p q)
  let ?v = "w\<lparr>w_jobs := (w_jobs w)(i := Some p), w_store := s\<rparr>"
  have "goes jobs w ?v" using looks.prems looks.hyps(1) by (intro goes.works [of w i f e p s]) simp_all
  moreover have "(goes jobs)\<^sup>*\<^sup>* ?v (?v\<lparr>w_jobs := (w_jobs ?v)(i := Some q)\<rparr>)" by (rule looks.IH) simp_all
  moreover have "?v\<lparr>w_jobs := (w_jobs ?v)(i := Some q)\<rparr> = w\<lparr>w_jobs := (w_jobs w)(i := Some q)\<rparr>"
    using looks.prems(1) by (cases w) simp
  ultimately show ?case by (simp add: converse_rtranclp_into_rtranclp del: fun_upd_apply)
qed

end
