(* ===== verification/Pay_Store.thy ===== *)
theory Pay_Store
  imports Pay_Config Worker_Pool
begin

text \<open>
  The database of the payment component and the operations on it, each as one atomic step: the
  queries and conditional updates that the service makes through \<open>ent\<close>, the repositories of
  users, redeem codes and subscriptions, and the audit log with its unique index on order and
  action (migration 131). A transaction of the code is one step; an operation can fail without
  effect, or take effect although its caller gets an error.
\<close>

section \<open>Tables\<close>

datatype code_status = Unused | Used | CodeExpired | CodeDisabled

record RedeemCode =
  rc_ID :: int
  rc_Code :: string
  rc_Type :: string
  rc_Value :: gofloat
  rc_Status :: code_status
  rc_UsedBy :: "int option"
  rc_UsedAt :: "gotime option"
  rc_ExpiresAt :: "gotime option"
  rc_GroupID :: "int option"
  rc_ValidityDays :: int

record user_row =
  u_Balance :: rat
  u_TotalRecharged :: rat
  u_Concurrency :: int
  u_Deleted :: bool
  u_Active :: bool

text \<open>What the later code reads back from the detail of an audit row.\<close>

datatype audit_detail = RefundDetail string bool | NoDetail

record audit_row =
  au_OrderID :: int
  au_Action :: string
  au_Detail :: audit_detail
  au_Operator :: string
  au_CreatedAt :: gotime

datatype sub_status = SubActive | SubExpired | SubSuspended

record UserSubscription =
  us_ID :: int
  us_UserID :: int
  us_GroupID :: int
  us_StartsAt :: gotime
  us_ExpiresAt :: gotime
  us_Status :: sub_status
  us_DailyWindowStart :: "gotime option"
  us_WeeklyWindowStart :: "gotime option"
  us_MonthlyWindowStart :: "gotime option"
  us_DailyUsageUSD :: rat
  us_WeeklyUsageUSD :: rat
  us_MonthlyUsageUSD :: rat
  us_AssignedAt :: gotime
  us_Notes :: string
  us_Deleted :: bool

record group_row =
  g_Active :: bool
  g_IsSubscriptionType :: bool

text \<open>A plan of subscriptions that is for sale, as orders use it.\<close>

record plan_row =
  pl_ID :: int
  pl_GroupID :: int
  pl_Price :: gofloat
  pl_ValidityDays :: int
  pl_ValidityUnit :: string
  pl_ForSale :: bool

record db =
  orders :: "PaymentOrder list"
  codes :: "RedeemCode list"
  next_code :: int
  users :: "int \<Rightarrow> user_row option"
  audits :: "audit_row list"
  subs :: "UserSubscription list"
  next_sub :: int
  rebates :: "(int \<times> gofloat) list"
  instances :: "ProviderInstance list"
  groups :: "int \<Rightarrow> group_row option"
  next_order :: int
  plans :: "int \<Rightarrow> plan_row option"
  stored_settings :: settings

section \<open>The outside\<close>

text \<open>
  The parameters: how the database driver stores a timestamp, reads a \<open>decimal\<close> column and writes
  a float to a column of two or of eight decimal places; the decimal library; calendar days and
  Unix seconds; which URLs parse and which are checkout pages; the provider registry; and whether
  the affiliate service is configured.
\<close>

record pay_env =
  pe_persist :: "gotime \<Rightarrow> gotime"
  pe_float :: "rat \<Rightarrow> gofloat"
  pe_cents :: "gofloat \<Rightarrow> gofloat"
  pe_units :: "gofloat \<Rightarrow> rat"
  pe_int :: "gofloat \<Rightarrow> int"
  pe_decimal :: decimal_lib
  pe_AddDays :: "gotime \<Rightarrow> int \<Rightarrow> gotime"
  pe_StartOfDay :: "gotime \<Rightarrow> gotime"
  pe_MaxExpiresAt :: gotime
  pe_Unix :: "int \<Rightarrow> gotime"
  pe_ValidURL :: "string \<Rightarrow> bool"
  pe_ValidStripeCheckoutURL :: "string \<Rightarrow> bool"
  pe_registry :: registry
  pe_affiliate :: bool

text \<open>A provider object: its key, the optional interfaces it has, and its own merchant identity.\<close>

record provider =
  pr_ProviderKey :: string
  pr_Cancelable :: bool
  pr_RefundQuery :: bool
  pr_MerchantIdentity :: metadata

record QueryOrderResponse =
  qo_TradeNo :: string
  qo_PayURL :: string
  qo_ExpiresAt :: int
  qo_Status :: string
  qo_Amount :: gofloat
  qo_Metadata :: metadata

record CreatePaymentResponse =
  cp_TradeNo :: string
  cp_PayURL :: string
  cp_ExpiresAt :: int

record RefundResponse =
  rr_RefundID :: string
  rr_Status :: string

text \<open>
  What the outside answers in a step: whether a database operation works, fails, or takes effect
  and still reports an error; the clock; the lock server; the payment provider; the affiliate
  service.
\<close>

datatype db_mode = Works | Fails | Lost

record answer =
  an_db :: "string \<Rightarrow> db_mode"
  an_now :: gotime
  an_lock :: "bool option"
  an_attempts :: "int option"
  an_provider :: "perr + provider"
  an_query :: "perr + QueryOrderResponse"
  an_create :: "perr + CreatePaymentResponse"
  an_cancel :: "perr option"
  an_refund :: "perr option \<times> RefundResponse option"
  an_refund_query :: "perr + RefundResponse option"
  an_rebate :: "perr + gofloat"
  an_cache :: bool
  an_counter :: "64 word"
  an_trade_nos :: "string list"

type_synonym 'a job = "(answer, db, 'a) prog"

definition db_ask :: "string \<Rightarrow> (answer \<Rightarrow> db \<Rightarrow> (perr + 'a) \<times> db) \<Rightarrow> (perr + 'a) job" where
  "db_ask opn f = atomic (\<lambda>e s.
     case an_db e opn of
       Works \<Rightarrow> f e s
     | Fails \<Rightarrow> (Inl DbFailure, s)
     | Lost \<Rightarrow> (Inl DbFailure, snd (f e s)))"

definition db_call :: "string \<Rightarrow> (gotime \<Rightarrow> db \<Rightarrow> (perr + 'a) \<times> db) \<Rightarrow> (perr + 'a) job" where
  "db_call opn f = db_ask opn (\<lambda>e. f (an_now e))"

definition read_db :: "string \<Rightarrow> (gotime \<Rightarrow> db \<Rightarrow> perr + 'a) \<Rightarrow> (perr + 'a) job" where
  "read_db opn f = db_call opn (\<lambda>now s. (f now s, s))"

definition ask :: "(answer \<Rightarrow> 'a) \<Rightarrow> 'a job" where
  "ask a = atomic (\<lambda>e s. (a e, s))"

text \<open>\<open>if err != nil { return err }\<close>.\<close>

definition or_fail :: "(perr + 'a) job \<Rightarrow> ('a \<Rightarrow> (perr + 'b) job) \<Rightarrow> (perr + 'b) job" where
  "or_fail p k = and_then p (\<lambda>r. case r of Inl err \<Rightarrow> Return (Inl err) | Inr a \<Rightarrow> k a)"

definition fails :: "perr \<Rightarrow> (perr + 'a) job" where
  "fails err = Return (Inl err)"

definition returns_ok :: "'a \<Rightarrow> (perr + 'a) job" where
  "returns_ok a = Return (Inr a)"

section \<open>Orders\<close>

definition find_order :: "int \<Rightarrow> db \<Rightarrow> PaymentOrder option" where
  "find_order oid s = find (\<lambda>ord. o_ID ord = oid) (orders s)"

definition GetOrder :: "int \<Rightarrow> (perr + PaymentOrder) job" where
  "GetOrder oid = read_db ''order.get''
     (\<lambda>now s. case find_order oid s of None \<Rightarrow> Inl NotFound | Some ord \<Rightarrow> Inr ord)"

text \<open>\<open>Query().Where(OutTradeNo(..)).Only()\<close>: more than one row is an error of its own.\<close>

definition OrderByOutTradeNo :: "string \<Rightarrow> (perr + PaymentOrder) job" where
  "OrderByOutTradeNo no = read_db ''order.by_trade_no''
     (\<lambda>now s. case filter (\<lambda>ord. o_OutTradeNo ord = no) (orders s) of
        [] \<Rightarrow> Inl NotFound | [ord] \<Rightarrow> Inr ord | _ \<Rightarrow> Inl DbFailure)"

text \<open>A saved update writes \<open>updated_at\<close> unless the update sets it.\<close>

definition touch :: "pay_env \<Rightarrow> gotime \<Rightarrow> PaymentOrder \<Rightarrow> PaymentOrder" where
  "touch E now ord = ord\<lparr>o_UpdatedAt := pe_persist E now\<rparr>"

definition update_rows_where :: "('r \<Rightarrow> bool) \<Rightarrow> ('r \<Rightarrow> 'r) \<Rightarrow> 'r list \<Rightarrow> nat \<times> 'r list" where
  "update_rows_where P f rs = (length (filter P rs), map (\<lambda>r. if P r then f r else r) rs)"

text \<open>
  \<open>Update().Where(IDEQ(oid), ...).Set...().Save()\<close>: the number of updated rows. The condition and
  the new values may use the clock reading that the caller takes before.
\<close>

definition UpdateOrder ::
  "pay_env \<Rightarrow> int \<Rightarrow> (gotime \<Rightarrow> PaymentOrder \<Rightarrow> bool) \<Rightarrow> (gotime \<Rightarrow> PaymentOrder \<Rightarrow> PaymentOrder) \<Rightarrow> (perr + nat) job" where
  "UpdateOrder E oid wh upd = db_call ''order.update''
     (\<lambda>now s. case update_rows_where (\<lambda>ord. o_ID ord = oid \<and> wh now ord) (\<lambda>ord. upd now (touch E now ord)) (orders s) of
        (n, rs) \<Rightarrow> (Inr n, s\<lparr>orders := rs\<rparr>))"

text \<open>\<open>UpdateOneID(oid).Set...().Save()\<close>.\<close>

definition UpdateOrderByID ::
  "pay_env \<Rightarrow> int \<Rightarrow> (gotime \<Rightarrow> PaymentOrder \<Rightarrow> PaymentOrder) \<Rightarrow> (perr + unit) job" where
  "UpdateOrderByID E oid upd = or_fail (UpdateOrder E oid (\<lambda>now ord. True) upd)
     (\<lambda>n. if n = 0 then fails NotFound else returns_ok ())"

section \<open>The audit log\<close>

definition has_audit :: "int \<Rightarrow> string \<Rightarrow> db \<Rightarrow> bool" where
  "has_audit oid action s = list_ex (\<lambda>a. au_OrderID a = oid \<and> au_Action a = action) (audits s)"

text \<open>An insert; \<open>None\<close> is the violation of the unique index.\<close>

definition insert_audit :: "gotime \<Rightarrow> int \<Rightarrow> string \<Rightarrow> audit_detail \<Rightarrow> string \<Rightarrow> db \<Rightarrow> db option" where
  "insert_audit now oid action d operator s =
     (if has_audit oid action s then None
      else Some (s\<lparr>audits := audits s @
        [\<lparr>au_OrderID = oid, au_Action = action, au_Detail = d, au_Operator = operator, au_CreatedAt = now\<rparr>]\<rparr>))"

text \<open>An error of the insert is logged, and nothing else.\<close>

definition writeAuditLog :: "int \<Rightarrow> string \<Rightarrow> string \<Rightarrow> audit_detail \<Rightarrow> unit job" where
  "writeAuditLog oid action operator d =
     and_then (db_call ''audit.create''
       (\<lambda>now s. case insert_audit now oid action d operator s of None \<Rightarrow> (Inl DbFailure, s) | Some s' \<Rightarrow> (Inr (), s')))
     (\<lambda>_. Return ())"

text \<open>A failed count reads as zero.\<close>

definition hasAuditLog :: "int \<Rightarrow> string \<Rightarrow> bool job" where
  "hasAuditLog oid action =
     and_then (read_db ''audit.count'' (\<lambda>now s. Inr (has_audit oid action s)))
       (\<lambda>r. Return (case r of Inl _ \<Rightarrow> False | Inr b \<Rightarrow> b))"

section \<open>Users\<close>

definition GetUser :: "pay_env \<Rightarrow> int \<Rightarrow> (perr + gofloat) job" where
  "GetUser E uid = read_db ''user.get''
     (\<lambda>now s. case users s uid of
        Some u \<Rightarrow> if u_Deleted u then Inl (AppErr ''USER_NOT_FOUND'') else Inr (pe_float E (u_Balance u))
      | None \<Rightarrow> Inl (AppErr ''USER_NOT_FOUND''))"

definition set_user :: "int \<Rightarrow> user_row \<Rightarrow> db \<Rightarrow> db" where
  "set_user uid u s = s\<lparr>users := (users s)(uid \<mapsto> u)\<rparr>"

text \<open>\<open>UpdateBalance\<close>: a positive amount also counts as recharged.\<close>

definition update_balance :: "pay_env \<Rightarrow> int \<Rightarrow> gofloat \<Rightarrow> db \<Rightarrow> (perr + unit) \<times> db" where
  "update_balance E uid amount s =
     (case users s uid of
        None \<Rightarrow> (Inl (AppErr ''USER_NOT_FOUND''), s)
      | Some u \<Rightarrow>
          let u = u\<lparr>u_Balance := u_Balance u + pe_units E amount\<rparr>;
              u = (if fl_less zero64 amount then u\<lparr>u_TotalRecharged := u_TotalRecharged u + pe_units E amount\<rparr> else u)
          in (Inr (), set_user uid u s))"

definition UpdateBalance :: "pay_env \<Rightarrow> int \<Rightarrow> gofloat \<Rightarrow> (perr + unit) job" where
  "UpdateBalance E uid amount = db_call ''balance.add'' (\<lambda>now s. update_balance E uid amount s)"

definition apply_redeem_balance_adjustment :: "pay_env \<Rightarrow> int \<Rightarrow> gofloat \<Rightarrow> db \<Rightarrow> (perr + unit) \<times> db" where
  "apply_redeem_balance_adjustment E uid delta s =
     (case users s uid of
        None \<Rightarrow> (Inl (AppErr ''USER_NOT_FOUND''), s)
      | Some u \<Rightarrow>
          if u_Deleted u then (Inl (AppErr ''USER_NOT_FOUND''), s)
          else (Inr (), set_user uid (u\<lparr>u_Balance := max (u_Balance u + pe_units E delta) 0\<rparr>) s))"

definition update_concurrency :: "int \<Rightarrow> int \<Rightarrow> db \<Rightarrow> (perr + unit) \<times> db" where
  "update_concurrency uid amount s =
     (case users s uid of
        None \<Rightarrow> (Inl (AppErr ''USER_NOT_FOUND''), s)
      | Some u \<Rightarrow> (Inr (), set_user uid (u\<lparr>u_Concurrency := u_Concurrency u + amount\<rparr>) s))"

definition apply_redeem_concurrency_adjustment :: "int \<Rightarrow> int \<Rightarrow> db \<Rightarrow> (perr + unit) \<times> db" where
  "apply_redeem_concurrency_adjustment uid delta s =
     (case users s uid of
        None \<Rightarrow> (Inl (AppErr ''USER_NOT_FOUND''), s)
      | Some u \<Rightarrow>
          if u_Deleted u then (Inl (AppErr ''USER_NOT_FOUND''), s)
          else (Inr (), set_user uid (u\<lparr>u_Concurrency := max (u_Concurrency u + delta) 0\<rparr>) s))"

text \<open>
  \<open>DeductAvailableBalance\<close>: takes \<open>min(amount, max(balance, 0))\<close> and returns what it took.
\<close>

definition deduct_available :: "pay_env \<Rightarrow> int \<Rightarrow> gofloat \<Rightarrow> db \<Rightarrow> (perr + gofloat) \<times> db" where
  "deduct_available E uid amount s =
     (if fl_less amount zero64 then (Inl (Failure ''deduction amount must be nonnegative''), s)
      else (case users s uid of
          None \<Rightarrow> (Inl (AppErr ''USER_NOT_FOUND''), s)
        | Some u \<Rightarrow>
            if u_Deleted u then (Inl (AppErr ''USER_NOT_FOUND''), s)
            else
              let taken = min (pe_units E amount) (max (u_Balance u) 0)
              in (Inr (pe_float E taken), set_user uid (u\<lparr>u_Balance := u_Balance u - taken\<rparr>) s)))"

definition deductAvailableBalance :: "pay_env \<Rightarrow> int \<Rightarrow> gofloat \<Rightarrow> (perr + gofloat) job" where
  "deductAvailableBalance E uid amount = db_call ''balance.deduct'' (\<lambda>now s. deduct_available E uid amount s)"

section \<open>Redeem codes\<close>

definition RedeemTypeBalance :: string where [go_defs]: "RedeemTypeBalance = ''balance''"
definition RedeemTypeConcurrency :: string where [go_defs]: "RedeemTypeConcurrency = ''concurrency''"
definition RedeemTypeSubscription :: string where [go_defs]: "RedeemTypeSubscription = ''subscription''"
definition RedeemTypeInvitation :: string where [go_defs]: "RedeemTypeInvitation = ''invitation''"

definition find_code :: "string \<Rightarrow> db \<Rightarrow> RedeemCode option" where
  "find_code c s = find (\<lambda>r. rc_Code r = c) (codes s)"

definition GetByCode :: "string \<Rightarrow> (perr + RedeemCode) job" where
  "GetByCode c = read_db ''code.get''
     (\<lambda>now s. case find_code c s of None \<Rightarrow> Inl (AppErr ''REDEEM_CODE_NOT_FOUND'') | Some r \<Rightarrow> Inr r)"

definition GetCodeByID :: "int \<Rightarrow> (perr + RedeemCode) job" where
  "GetCodeByID cid = read_db ''code.get_by_id''
     (\<lambda>now s. case find (\<lambda>r. rc_ID r = cid) (codes s) of
        None \<Rightarrow> Inl (AppErr ''REDEEM_CODE_NOT_FOUND'') | Some r \<Rightarrow> Inr r)"

text \<open>An insert; the code is unique and the id is the next of its sequence.\<close>

definition create_code :: "RedeemCode \<Rightarrow> db \<Rightarrow> (perr + unit) \<times> db" where
  "create_code r s =
     (if find_code (rc_Code r) s \<noteq> None then (Inl DbFailure, s\<lparr>next_code := next_code s + 1\<rparr>)
      else (Inr (), s\<lparr>codes := codes s @ [r\<lparr>rc_ID := next_code s\<rparr>], next_code := next_code s + 1\<rparr>))"

text \<open>\<open>Use\<close>: only an unused code can be used.\<close>

definition use_code :: "gotime \<Rightarrow> int \<Rightarrow> int \<Rightarrow> db \<Rightarrow> (perr + unit) \<times> db" where
  "use_code now cid uid s =
     (case update_rows_where (\<lambda>r. rc_ID r = cid \<and> rc_Status r = Unused)
         (\<lambda>r. r\<lparr>rc_Status := Used, rc_UsedBy := Some uid, rc_UsedAt := Some now\<rparr>) (codes s) of
        (n, rs) \<Rightarrow> if n = 0 then (Inl (AppErr ''REDEEM_CODE_USED''), s) else (Inr (), s\<lparr>codes := rs\<rparr>))"

section \<open>Subscriptions\<close>

definition MaxValidityDays :: int where "MaxValidityDays = 36500"

text \<open>The row of a user and a group that is not revoked; more than one is an error.\<close>

definition find_sub :: "int \<Rightarrow> int \<Rightarrow> db \<Rightarrow> UserSubscription option" where
  "find_sub uid gid s =
     only_one (filter (\<lambda>r. us_UserID r = uid \<and> us_GroupID r = gid \<and> \<not> us_Deleted r) (subs s))"

definition find_sub_by_id :: "int \<Rightarrow> db \<Rightarrow> UserSubscription option" where
  "find_sub_by_id sid s = find (\<lambda>r. us_ID r = sid \<and> \<not> us_Deleted r) (subs s)"

definition set_sub :: "int \<Rightarrow> (UserSubscription \<Rightarrow> UserSubscription) \<Rightarrow> db \<Rightarrow> db" where
  "set_sub sid f s = s\<lparr>subs := map (\<lambda>r. if us_ID r = sid then f r else r) (subs s)\<rparr>"

definition newline :: string where "newline = [CHR 0x0A]"

definition appendSubscriptionNotes :: "string \<Rightarrow> string \<Rightarrow> string" where
  "appendSubscriptionNotes existingNotes newNotes =
     (if newNotes = [] then existingNotes
      else if existingNotes = [] then newNotes
      else existingNotes @ newline @ newNotes)"

definition renewedSubscriptionTerm ::
  "pay_env \<Rightarrow> UserSubscription \<Rightarrow> string \<Rightarrow> gotime \<Rightarrow> gotime \<Rightarrow> UserSubscription" where
  "renewedSubscriptionTerm E r notes startsAt expiresAt =
     r\<lparr>us_StartsAt := startsAt, us_ExpiresAt := expiresAt, us_Status := SubActive,
       us_DailyWindowStart := Some (pe_StartOfDay E startsAt), us_WeeklyWindowStart := Some startsAt,
       us_MonthlyWindowStart := Some startsAt, us_DailyUsageUSD := 0, us_WeeklyUsageUSD := 0,
       us_MonthlyUsageUSD := 0, us_Notes := appendSubscriptionNotes (us_Notes r) notes\<rparr>"

text \<open>The renewal of an existing row, without the assignment semantics.\<close>

definition updateExistingSubscriptionTerm ::
  "pay_env \<Rightarrow> gotime \<Rightarrow> int \<Rightarrow> int \<Rightarrow> string \<Rightarrow> db \<Rightarrow> (perr + unit) \<times> db" where
  "updateExistingSubscriptionTerm E now sid validityDays notes s =
     (case find_sub_by_id sid s of
        None \<Rightarrow> (Inl (AppErr ''SUBSCRIPTION_NOT_FOUND''), s)
      | Some r \<Rightarrow>
          let isExpired = \<not> time_After (us_ExpiresAt r) now;
              newExpiresAt = (if isExpired then pe_AddDays E now validityDays
                              else pe_AddDays E (us_ExpiresAt r) validityDays);
              newExpiresAt = (if time_After newExpiresAt (pe_MaxExpiresAt E) then pe_MaxExpiresAt E else newExpiresAt)
          in if isExpired
             then (Inr (), set_sub sid (\<lambda>_. renewedSubscriptionTerm E r notes now newExpiresAt) s)
             else (Inr (), set_sub sid (\<lambda>r. r\<lparr>us_ExpiresAt := newExpiresAt, us_Status := SubActive,
                     us_Notes := appendSubscriptionNotes (us_Notes r) notes\<rparr>) s))"

definition normalizeAssignValidityDays :: "int \<Rightarrow> int" where
  "normalizeAssignValidityDays days =
     (let days = (if days \<le> 0 then 30 else days) in if MaxValidityDays < days then MaxValidityDays else days)"

definition createSubscription :: "pay_env \<Rightarrow> gotime \<Rightarrow> int \<Rightarrow> int \<Rightarrow> int \<Rightarrow> string \<Rightarrow> db \<Rightarrow> (perr + unit) \<times> db" where
  "createSubscription E now uid gid validityDays notes s =
     (let expiresAt = pe_AddDays E now (normalizeAssignValidityDays validityDays);
          expiresAt = (if time_After expiresAt (pe_MaxExpiresAt E) then pe_MaxExpiresAt E else expiresAt)
      in if filter (\<lambda>r. us_UserID r = uid \<and> us_GroupID r = gid \<and> \<not> us_Deleted r) (subs s) \<noteq> []
         then (Inl (AppErr ''SUBSCRIPTION_ALREADY_EXISTS''), s)
         else (Inr (), s\<lparr>subs := subs s @
            [\<lparr>us_ID = next_sub s, us_UserID = uid, us_GroupID = gid, us_StartsAt = now, us_ExpiresAt = expiresAt,
              us_Status = SubActive, us_DailyWindowStart = None, us_WeeklyWindowStart = None, us_MonthlyWindowStart = None,
              us_DailyUsageUSD = 0, us_WeeklyUsageUSD = 0, us_MonthlyUsageUSD = 0, us_AssignedAt = now,
              us_Notes = notes, us_Deleted = False\<rparr>], next_sub := next_sub s + 1\<rparr>))"

definition assignOrExtendSubscription ::
  "pay_env \<Rightarrow> gotime \<Rightarrow> int \<Rightarrow> int \<Rightarrow> int \<Rightarrow> string \<Rightarrow> db \<Rightarrow> (perr + unit) \<times> db" where
  "assignOrExtendSubscription E now uid gid validityDays notes s =
     (case groups s gid of
        None \<Rightarrow> (Inl (AppErr ''GROUP_NOT_FOUND''), s)
      | Some g \<Rightarrow>
          if \<not> g_IsSubscriptionType g then (Inl (AppErr ''GROUP_NOT_SUBSCRIPTION_TYPE''), s)
          else (case find_sub uid gid s of
              Some r \<Rightarrow> updateExistingSubscriptionTerm E now (us_ID r) (normalizeAssignValidityDays validityDays) notes s
            | None \<Rightarrow> createSubscription E now uid gid validityDays notes s))"

definition extend_subscription :: "pay_env \<Rightarrow> gotime \<Rightarrow> int \<Rightarrow> int \<Rightarrow> db \<Rightarrow> (perr + unit) \<times> db" where
  "extend_subscription E now sid days s =
     (case find_sub_by_id sid s of
        None \<Rightarrow> (Inl (AppErr ''SUBSCRIPTION_NOT_FOUND''), s)
      | Some r \<Rightarrow>
          let days = (if MaxValidityDays < days then MaxValidityDays else days);
              days = (if days < - MaxValidityDays then - MaxValidityDays else days);
              isExpired = \<not> time_After (us_ExpiresAt r) now
          in if isExpired \<and> days < 0 then (Inl (AppErr ''CANNOT_SHORTEN_EXPIRED''), s)
             else
               let newExpiresAt = (if isExpired then pe_AddDays E now days else pe_AddDays E (us_ExpiresAt r) days);
                   newExpiresAt = (if time_After newExpiresAt (pe_MaxExpiresAt E) then pe_MaxExpiresAt E else newExpiresAt)
               in if \<not> time_After newExpiresAt now then (Inl (AppErr ''ADJUST_WOULD_EXPIRE''), s)
                  else (Inr (), set_sub sid (\<lambda>r. r\<lparr>us_ExpiresAt := newExpiresAt,
                          us_Status := (if us_Status r = SubExpired then SubActive else us_Status r)\<rparr>) s))"

definition ExtendSubscription :: "pay_env \<Rightarrow> int \<Rightarrow> int \<Rightarrow> (perr + unit) job" where
  "ExtendSubscription E sid days =
     or_fail (db_call ''sub.extend'' (\<lambda>now s. extend_subscription E now sid days s))
       (\<lambda>_. read_db ''sub.get'' (\<lambda>now s. if find_sub_by_id sid s = None then Inl (AppErr ''SUBSCRIPTION_NOT_FOUND'') else Inr ()))"

definition RevokeSubscription :: "int \<Rightarrow> (perr + unit) job" where
  "RevokeSubscription sid =
     or_fail (read_db ''sub.get'' (\<lambda>now s. case find_sub_by_id sid s of None \<Rightarrow> Inl (AppErr ''SUBSCRIPTION_NOT_FOUND'') | Some r \<Rightarrow> Inr ()))
       (\<lambda>_. or_fail (db_call ''sub.delete'' (\<lambda>now s. (Inr (), set_sub sid (\<lambda>r. r\<lparr>us_Deleted := True\<rparr>) s)))
         (\<lambda>_. and_then (ask an_cache) (\<lambda>ok. if ok then returns_ok () else fails (Failure ''invalidate subscription cache''))))"

definition GetActiveSubscription :: "int \<Rightarrow> int \<Rightarrow> (perr + UserSubscription) job" where
  "GetActiveSubscription uid gid = read_db ''sub.active''
     (\<lambda>now s. case find_sub uid gid s of
        Some r \<Rightarrow> if us_Status r = SubActive \<and> time_After (us_ExpiresAt r) now then Inr r
                  else Inl (AppErr ''SUBSCRIPTION_NOT_FOUND'')
      | None \<Rightarrow> Inl (AppErr ''SUBSCRIPTION_NOT_FOUND''))"

end
