(* ===== verification/Pay_Fulfill.thy ===== *)
theory Pay_Fulfill
  imports Pay_Store
begin

text \<open>
  From a payment notification to the delivered goods (\<open>payment_fulfillment.go\<close>, the redemption in
  \<open>redeem_service.go\<close>): confirming an order, taking the fulfilment lease, crediting the balance
  through the order's redeem code, assigning the subscription, the affiliate rebate, and marking
  the order completed or failed. Emails and cache invalidations that cannot fail are left out.
\<close>

section \<open>Redemption\<close>

definition IsUsed :: "RedeemCode \<Rightarrow> bool" where
  [go_defs]: "IsUsed r = (rc_Status r = Used)"

definition IsExpiredAt :: "gotime \<Rightarrow> RedeemCode \<Rightarrow> bool" where
  [go_defs]: "IsExpiredAt now r =
     (rc_Status r = CodeExpired \<or>
      rc_Status r = Unused \<and> (case rc_ExpiresAt r of None \<Rightarrow> False | Some t \<Rightarrow> \<not> time_After t now))"

definition CanUse :: "gotime \<Rightarrow> RedeemCode \<Rightarrow> bool" where
  [go_defs]: "CanUse now r = (rc_Status r = Unused \<and> \<not> IsExpiredAt now r)"

text \<open>
  \<open>RedeemService.CreateCode\<close>: the checks of a code that a caller names, then the insert. (A code
  without a status, which becomes an unused one, has no value of \<open>code_status\<close>.)
\<close>

definition CreateCode :: "RedeemCode \<Rightarrow> (perr + unit) job" where
  "CreateCode code =
     (let code = code\<lparr>rc_Code := TrimSpace (rc_Code code)\<rparr>
      in if rc_Code code = [] then fails (Failure ''code is required'')
      else let code = (if rc_Type code = [] then code\<lparr>rc_Type := RedeemTypeBalance\<rparr> else code)
      in if rc_Type code \<noteq> RedeemTypeInvitation \<and> fl_eq (rc_Value code) zero64
        then fails (Failure ''value must not be zero'')
      else and_then (ask an_now) (\<lambda>now.
        if IsExpiredAt now code then fails (AppErr ''REDEEM_CODE_EXPIRED'')
        else db_call ''code.create'' (\<lambda>now s. create_code code s)))"

definition redeemMaxFailedAttempts :: int where "redeemMaxFailedAttempts = 30"

text \<open>The lock server: without an answer the redemption goes on.\<close>

definition checkRedeemRateLimit :: "(perr + unit) job" where
  "checkRedeemRateLimit = and_then (ask an_attempts)
     (\<lambda>c. case c of
        Some n \<Rightarrow> if redeemMaxFailedAttempts \<le> n then fails (AppErr ''REDEEM_RATE_LIMITED'') else returns_ok ()
      | None \<Rightarrow> returns_ok ())"

definition acquireRedeemLock :: "bool job" where
  "acquireRedeemLock = and_then (ask an_lock) (\<lambda>l. Return (case l of None \<Rightarrow> True | Some b \<Rightarrow> b))"

definition redeem_note :: "string \<Rightarrow> string" where
  "redeem_note c = [CHR 0xE9, CHR 0x80, CHR 0x9A, CHR 0xE8, CHR 0xBF, CHR 0x87, CHR 0xE5, CHR 0x85, CHR 0x91, CHR 0xE6, CHR 0x8D, CHR 0xA2, CHR 0xE7, CHR 0xA0, CHR 0x81, CHR 0x20] @ c @
     [CHR 0x20, CHR 0xE5, CHR 0x85, CHR 0x91, CHR 0xE6, CHR 0x8D, CHR 0xA2]"

definition reduce_note :: "string \<Rightarrow> int \<Rightarrow> string" where
  "reduce_note c days = [CHR 0xE9, CHR 0x80, CHR 0x9A, CHR 0xE8, CHR 0xBF, CHR 0x87, CHR 0xE5, CHR 0x85, CHR 0x91, CHR 0xE6, CHR 0x8D, CHR 0xA2, CHR 0xE7, CHR 0xA0, CHR 0x81, CHR 0x20] @ c @
     [CHR 0x20, CHR 0xE9, CHR 0x80, CHR 0x80, CHR 0xE6, CHR 0xAC, CHR 0xBE, CHR 0xE6, CHR 0x89, CHR 0xA3, CHR 0xE5, CHR 0x87, CHR 0x8F, CHR 0x20] @ Itoa days @
     [CHR 0x20, CHR 0xE5, CHR 0xA4, CHR 0xA9]"

definition reduceOrCancelSubscription ::
  "pay_env \<Rightarrow> gotime \<Rightarrow> int \<Rightarrow> int \<Rightarrow> int \<Rightarrow> string \<Rightarrow> db \<Rightarrow> (perr + unit) \<times> db" where
  "reduceOrCancelSubscription E now uid gid reduceDays code s =
     (case find_sub uid gid s of
        None \<Rightarrow> (Inl (AppErr ''SUBSCRIPTION_NOT_FOUND''), s)
      | Some r \<Rightarrow>
          let newExpiresAt = pe_AddDays E (us_ExpiresAt r) (- reduceDays);
              notes = appendSubscriptionNotes (us_Notes r) (reduce_note code reduceDays)
          in if \<not> time_After newExpiresAt now
             then (Inr (), set_sub (us_ID r) (\<lambda>r. r\<lparr>us_Status := SubExpired, us_ExpiresAt := now, us_Notes := notes\<rparr>) s)
             else (Inr (), set_sub (us_ID r) (\<lambda>r. r\<lparr>us_ExpiresAt := newExpiresAt, us_Notes := notes\<rparr>) s))"

definition supported_code :: "RedeemCode \<Rightarrow> perr option" where
  "supported_code r =
     (if rc_Type r = RedeemTypeBalance \<or> rc_Type r = RedeemTypeConcurrency then None
      else if rc_Type r = RedeemTypeSubscription
        then (if rc_GroupID r = None then Some (AppErr ''REDEEM_CODE_INVALID'') else None)
      else Some (AppErr ''REDEEM_CODE_UNSUPPORTED_TYPE''))"

text \<open>What a code grants, inside the transaction.\<close>

definition grant_code :: "pay_env \<Rightarrow> gotime \<Rightarrow> int \<Rightarrow> RedeemCode \<Rightarrow> db \<Rightarrow> (perr + unit) \<times> db" where
  "grant_code E now uid r s =
     (if rc_Type r = RedeemTypeBalance then
        (if fl_less (rc_Value r) zero64 then apply_redeem_balance_adjustment E uid (rc_Value r) s
         else update_balance E uid (rc_Value r) s)
      else if rc_Type r = RedeemTypeConcurrency then
        (let delta = pe_int E (rc_Value r)
         in if delta < 0 then apply_redeem_concurrency_adjustment uid delta s else update_concurrency uid delta s)
      else if rc_Type r = RedeemTypeSubscription then
        (if rc_ValidityDays r < 0
         then reduceOrCancelSubscription E now uid (the (rc_GroupID r)) (- rc_ValidityDays r) (rc_Code r) s
         else assignOrExtendSubscription E now uid (the (rc_GroupID r))
                (if rc_ValidityDays r = 0 then 30 else rc_ValidityDays r) (redeem_note (rc_Code r)) s)
      else (Inl (AppErr ''REDEEM_CODE_UNSUPPORTED_TYPE''), s))"

text \<open>The transaction: mark the code as used, then grant; any error rolls both back.\<close>

definition redeem_tx :: "pay_env \<Rightarrow> gotime \<Rightarrow> int \<Rightarrow> RedeemCode \<Rightarrow> db \<Rightarrow> (perr + unit) \<times> db" where
  "redeem_tx E now uid r s =
     (case use_code now (rc_ID r) uid s of
        (Inl err, _) \<Rightarrow> (Inl err, s)
      | (Inr _, s1) \<Rightarrow>
          (case grant_code E now uid r s1 of
             (Inl err, _) \<Rightarrow> (Inl err, s)
           | (Inr _, s2) \<Rightarrow> (Inr (), s2)))"

text \<open>\<open>limited\<close> tells whether the caller's failed attempts are counted and limited.\<close>

definition redeem :: "pay_env \<Rightarrow> bool \<Rightarrow> int \<Rightarrow> string \<Rightarrow> (perr + RedeemCode) job" where
  "redeem E limited uid code =
     or_fail (if limited then checkRedeemRateLimit else returns_ok ()) (\<lambda>_.
     and_then acquireRedeemLock (\<lambda>locked.
     if \<not> locked then fails (AppErr ''REDEEM_CODE_LOCKED'')
     else or_fail (GetByCode code) (\<lambda>r.
       and_then (ask an_now) (\<lambda>now.
       if IsExpiredAt now r then fails (AppErr ''REDEEM_CODE_EXPIRED'')
       else and_then (ask an_now) (\<lambda>now.
         if \<not> CanUse now r then fails (AppErr ''REDEEM_CODE_USED'')
         else (case supported_code r of
             Some err \<Rightarrow> fails err
           | None \<Rightarrow>
               or_fail (GetUser E uid) (\<lambda>_.
               or_fail (db_call ''redeem.tx'' (\<lambda>now s. redeem_tx E now uid r s)) (\<lambda>_.
               GetCodeByID (rc_ID r)))))))))"

definition redeemForPaymentFulfillment :: "pay_env \<Rightarrow> int \<Rightarrow> string \<Rightarrow> (perr + RedeemCode) job" where
  "redeemForPaymentFulfillment E = redeem E False"

definition Redeem :: "pay_env \<Rightarrow> int \<Rightarrow> string \<Rightarrow> (perr + RedeemCode) job" where
  "Redeem E = redeem E True"

section \<open>The fulfilment lease\<close>

definition paymentFulfillmentLeaseDuration :: duration where
  "paymentFulfillmentLeaseDuration = 5 * minute"

definition truncate_us :: "gotime \<Rightarrow> gotime" where
  "truncate_us t = t - t mod 1000"

text \<open>The lease is the stored \<open>updated_at\<close> of the order.\<close>

definition acquirePaymentFulfillmentLease :: "pay_env \<Rightarrow> PaymentOrder \<Rightarrow> (perr + gotime option) job" where
  "acquirePaymentFulfillmentLease E ord =
     or_fail (UpdateOrder E (o_ID ord)
        (\<lambda>now r. o_Status r \<in> set [Paid, OrderFailed] \<or>
           o_Status r = Recharging \<and>
           o_UpdatedAt r \<le> time_Add (truncate_us now) (- paymentFulfillmentLeaseDuration))
        (\<lambda>now r. r\<lparr>o_Status := Recharging, o_UpdatedAt := pe_persist E (truncate_us now),
           o_FailedAt := None, o_FailedReason := None\<rparr>)) (\<lambda>updated.
     or_fail (GetOrder (o_ID ord)) (\<lambda>current.
     if updated = 0 then
       (if o_Status current = Completed then returns_ok None else fails (AppErr ''CONFLICT''))
     else if o_Status current \<noteq> Recharging then fails (AppErr ''CONFLICT'')
     else returns_ok (Some (o_UpdatedAt current))))"

definition markCompleted :: "pay_env \<Rightarrow> PaymentOrder \<Rightarrow> gotime \<Rightarrow> string \<Rightarrow> (perr + unit) job" where
  "markCompleted E ord lease auditAction =
     or_fail (UpdateOrder E (o_ID ord)
        (\<lambda>now r. o_Status r = Recharging \<and> o_UpdatedAt r = lease)
        (\<lambda>now r. r\<lparr>o_Status := Completed, o_CompletedAt := Some now\<rparr>)) (\<lambda>updated.
     if updated = 0 then
       and_then (GetOrder (o_ID ord)) (\<lambda>current.
         case current of
           Inr c \<Rightarrow> if o_Status c = Completed then returns_ok () else fails (AppErr ''CONFLICT'')
         | Inl _ \<Rightarrow> fails (AppErr ''CONFLICT''))
     else
       and_then (hasAuditLog (o_ID ord) auditAction) (\<lambda>seen.
         if seen then returns_ok ()
         else and_then (writeAuditLog (o_ID ord) auditAction ''system'' NoDetail) (\<lambda>_. returns_ok ())))"

definition markFailed :: "pay_env \<Rightarrow> int \<Rightarrow> gotime \<Rightarrow> perr \<Rightarrow> unit job" where
  "markFailed E oid lease cause =
     and_then (UpdateOrder E oid
        (\<lambda>now r. o_Status r = Recharging \<and> o_UpdatedAt r = lease)
        (\<lambda>now r. r\<lparr>o_Status := OrderFailed, o_FailedAt := Some now, o_FailedReason := Some cause\<rparr>)) (\<lambda>n.
     case n of
       Inr c \<Rightarrow> if 0 < c then writeAuditLog oid ''FULFILLMENT_FAILED'' ''system'' NoDetail else Return ()
     | Inl _ \<Rightarrow> Return ())"

section \<open>The affiliate rebate\<close>

definition tryClaimAffiliateRebateAudit :: "gotime \<Rightarrow> int \<Rightarrow> db \<Rightarrow> db option" where
  "tryClaimAffiliateRebateAudit now oid s =
     (if has_audit oid ''AFFILIATE_REBATE_APPLIED'' s \<or> has_audit oid ''AFFILIATE_REBATE_SKIPPED'' s then None
      else insert_audit now oid ''AFFILIATE_REBATE_APPLIED'' NoDetail ''system'' s)"

definition updateClaimedAffiliateRebateAudit :: "int \<Rightarrow> string \<Rightarrow> db \<Rightarrow> db" where
  "updateClaimedAffiliateRebateAudit oid action s =
     s\<lparr>audits := map (\<lambda>a. if au_OrderID a = oid \<and> au_Action a = ''AFFILIATE_REBATE_APPLIED''
        then a\<lparr>au_Action := action, au_Detail := NoDetail, au_Operator := ''system''\<rparr> else a) (audits s)\<rparr>"

text \<open>
  The transaction: claim the audit row, ask the affiliate service for the rebate, which records
  what it accrued in the same transaction, and settle the claim.
\<close>

definition rebate_tx :: "int \<Rightarrow> answer \<Rightarrow> db \<Rightarrow> (perr + unit) \<times> db" where
  "rebate_tx oid e s =
     (case tryClaimAffiliateRebateAudit (an_now e) oid s of
        None \<Rightarrow> (Inr (), s)
      | Some s1 \<Rightarrow>
          (case an_rebate e of
             Inl err \<Rightarrow> (Inl err, s)
           | Inr amount \<Rightarrow>
               if fl_leq amount zero64
               then (Inr (), updateClaimedAffiliateRebateAudit oid ''AFFILIATE_REBATE_SKIPPED'' s1)
               else (Inr (), updateClaimedAffiliateRebateAudit oid ''AFFILIATE_REBATE_APPLIED''
                       (s1\<lparr>rebates := rebates s1 @ [(oid, amount)]\<rparr>))))"

definition applyAffiliateRebateForOrder :: "pay_env \<Rightarrow> PaymentOrder \<Rightarrow> (perr + unit) job" where
  "applyAffiliateRebateForOrder E ord =
     (if fl_leq (affiliateRebateBaseAmount (pe_decimal E) ord) zero64 then returns_ok ()
      else if \<not> pe_affiliate E then returns_ok ()
      else and_then (db_ask ''rebate.tx'' (rebate_tx (o_ID ord))) (\<lambda>r.
        case r of
          Inr _ \<Rightarrow> returns_ok ()
        | Inl err \<Rightarrow> and_then (writeAuditLog (o_ID ord) ''AFFILIATE_REBATE_FAILED'' ''system'' NoDetail) (\<lambda>_. fails err)))"

section \<open>Balance orders\<close>

datatype redeemAction = redeemActionCreate | redeemActionRedeem | redeemActionSkipCompleted

definition resolveRedeemAction :: "perr + RedeemCode \<Rightarrow> perr + redeemAction" where
  "resolveRedeemAction r =
     (case r of
        Inl err \<Rightarrow> if err = AppErr ''REDEEM_CODE_NOT_FOUND'' then Inr redeemActionCreate else Inl err
      | Inr existing \<Rightarrow> if IsUsed existing then Inr redeemActionSkipCompleted else Inr redeemActionRedeem)"

definition validatePaymentRedeemCode :: "PaymentOrder \<Rightarrow> RedeemCode \<Rightarrow> perr option" where
  "validatePaymentRedeemCode ord code =
     (if rc_Code code \<noteq> o_RechargeCode ord then Some (Failure ''payment redeem code mismatch'')
      else if rc_Type code \<noteq> RedeemTypeBalance then Some (Failure ''payment redeem code type mismatch'')
      else if \<not> is_finite (rc_Value code) \<or>
              fl_less (Num (f64 (1 / 100000000))) (fl_abs (fl_sub (rc_Value code) (o_Amount ord)))
        then Some (Failure ''payment redeem code amount mismatch'')
      else (case rc_Status code of
          Unused \<Rightarrow> if rc_UsedBy code \<noteq> None then Some (Failure ''unused payment redeem code has a user'') else None
        | Used \<Rightarrow> if rc_UsedBy code \<noteq> Some (o_UserID ord) then Some (Failure ''payment redeem code user mismatch'') else None
        | _ \<Rightarrow> Some (Failure ''payment redeem code has invalid status'')))"

definition payment_code :: "PaymentOrder \<Rightarrow> RedeemCode" where
  "payment_code ord =
     \<lparr>rc_ID = 0, rc_Code = o_RechargeCode ord, rc_Type = RedeemTypeBalance, rc_Value = o_Amount ord,
      rc_Status = Unused, rc_UsedBy = None, rc_UsedAt = None, rc_ExpiresAt = None, rc_GroupID = None,
      rc_ValidityDays = 0\<rparr>"

definition redeem_and_complete :: "pay_env \<Rightarrow> PaymentOrder \<Rightarrow> gotime \<Rightarrow> (perr + unit) job" where
  "redeem_and_complete E ord lease =
     or_fail (redeemForPaymentFulfillment E (o_UserID ord) (o_RechargeCode ord)) (\<lambda>_.
     or_fail (applyAffiliateRebateForOrder E ord) (\<lambda>_.
     markCompleted E ord lease ''RECHARGE_SUCCESS''))"

definition doBalance :: "pay_env \<Rightarrow> PaymentOrder \<Rightarrow> gotime \<Rightarrow> (perr + unit) job" where
  "doBalance E ord lease =
     and_then (GetByCode (o_RechargeCode ord)) (\<lambda>existing.
     case resolveRedeemAction existing of
       Inl err \<Rightarrow> fails err
     | Inr action \<Rightarrow>
         (case (case existing of Inr code \<Rightarrow> validatePaymentRedeemCode ord code | Inl _ \<Rightarrow> None) of
            Some err \<Rightarrow> fails err
          | None \<Rightarrow>
              (case action of
                 redeemActionSkipCompleted \<Rightarrow>
                   or_fail (applyAffiliateRebateForOrder E ord) (\<lambda>_. markCompleted E ord lease ''RECHARGE_SUCCESS'')
               | redeemActionCreate \<Rightarrow>
                   or_fail (CreateCode (payment_code ord)) (\<lambda>_. redeem_and_complete E ord lease)
               | redeemActionRedeem \<Rightarrow> redeem_and_complete E ord lease)))"

text \<open>The guards that both kinds of fulfilment start with.\<close>

datatype fulfil_guard = GoAhead | AlreadyDone | Refused perr

definition fulfil_guard_of :: "PaymentOrder \<Rightarrow> fulfil_guard" where
  "fulfil_guard_of ord =
     (if o_Status ord = Completed then AlreadyDone
      else if psIsRefundStatus (o_Status ord) then Refused (AppErr ''INVALID_STATUS'')
      else if o_Status ord \<noteq> Paid \<and> o_Status ord \<noteq> OrderFailed \<and> o_Status ord \<noteq> Recharging
        then Refused (AppErr ''INVALID_STATUS'')
      else GoAhead)"

definition with_lease :: "pay_env \<Rightarrow> PaymentOrder \<Rightarrow> (gotime \<Rightarrow> (perr + unit) job) \<Rightarrow> (perr + unit) job" where
  "with_lease E ord act =
     or_fail (acquirePaymentFulfillmentLease E ord) (\<lambda>lease.
     case lease of
       None \<Rightarrow> returns_ok ()
     | Some v \<Rightarrow>
         and_then (act v) (\<lambda>r.
           case r of
             Inl err \<Rightarrow> and_then (markFailed E (o_ID ord) v err) (\<lambda>_. fails err)
           | Inr _ \<Rightarrow> returns_ok ()))"

definition ExecuteBalanceFulfillment :: "pay_env \<Rightarrow> int \<Rightarrow> (perr + unit) job" where
  "ExecuteBalanceFulfillment E oid =
     and_then (GetOrder oid) (\<lambda>r.
     case r of
       Inl _ \<Rightarrow> fails (AppErr ''NOT_FOUND'')
     | Inr ord \<Rightarrow>
         (case fulfil_guard_of ord of
            AlreadyDone \<Rightarrow> returns_ok ()
          | Refused err \<Rightarrow> fails err
          | GoAhead \<Rightarrow> with_lease E ord (doBalance E ord)))"

section \<open>Subscription orders\<close>

definition paymentSubscriptionOrderNote :: "int \<Rightarrow> string" where
  "paymentSubscriptionOrderNote oid = ''payment order '' @ Itoa oid"

text \<open>\<open>strings.ReplaceAll(s, CRLF, LF)\<close>.\<close>

fun unix_lines :: "string \<Rightarrow> string" where
  "unix_lines (a # b # s) =
     (if a = CHR 0x0D \<and> b = CHR 0x0A then CHR 0x0A # unix_lines s else a # unix_lines (b # s))"
| "unix_lines s = s"

definition hasPaymentSubscriptionOrderNote :: "string \<Rightarrow> string \<Rightarrow> bool" where
  "hasPaymentSubscriptionOrderNote notes orderNote =
     list_ex (\<lambda>line. TrimSpace line = orderNote) (Split (unix_lines notes) (CHR 0x0A))"

definition assignment_audited :: "int \<Rightarrow> db \<Rightarrow> bool" where
  "assignment_audited oid s = (has_audit oid ''SUBSCRIPTION_ASSIGNED'' s \<or> has_audit oid ''SUBSCRIPTION_SUCCESS'' s)"

definition hasPaymentSubscriptionAssignmentAudit :: "int \<Rightarrow> (perr + bool) job" where
  "hasPaymentSubscriptionAssignmentAudit oid = read_db ''audit.assigned'' (\<lambda>now s. Inr (assignment_audited oid s))"

text \<open>
  The writing part of the transaction: the order's note on the subscription tells that it was
  assigned before, otherwise the subscription is assigned or extended; then the audit row, whose
  unique index rejects a second assignment and rolls everything back.
\<close>

definition assign_tx :: "pay_env \<Rightarrow> gotime \<Rightarrow> PaymentOrder \<Rightarrow> int \<Rightarrow> int \<Rightarrow> db \<Rightarrow> (perr + unit) \<times> db" where
  "assign_tx E now ord gid days s =
     (let orderNote = paymentSubscriptionOrderNote (o_ID ord);
          (r, s1) = (case find_sub (o_UserID ord) gid s of
             Some existing \<Rightarrow>
               if hasPaymentSubscriptionOrderNote (us_Notes existing) orderNote then (Inr (), s)
               else assignOrExtendSubscription E now (o_UserID ord) gid days orderNote s
           | None \<Rightarrow> assignOrExtendSubscription E now (o_UserID ord) gid days orderNote s)
      in case r of
           Inl err \<Rightarrow> (Inl err, s)
         | Inr _ \<Rightarrow>
             (case insert_audit now (o_ID ord) ''SUBSCRIPTION_ASSIGNED'' NoDetail ''system'' s1 of
                None \<Rightarrow> (Inl (Failure ''constraint''), s)
              | Some s2 \<Rightarrow> (Inr (), s2)))"

definition invalidate_caches :: "(perr + unit) job" where
  "invalidate_caches = and_then (ask an_cache)
     (\<lambda>ok. if ok then returns_ok () else fails (Failure ''invalidate subscription cache''))"

definition ensurePaymentSubscriptionAssigned :: "pay_env \<Rightarrow> PaymentOrder \<Rightarrow> int \<Rightarrow> int \<Rightarrow> (perr + unit) job" where
  "ensurePaymentSubscriptionAssigned E ord gid days =
     or_fail (hasPaymentSubscriptionAssignmentAudit (o_ID ord)) (\<lambda>alreadyAssigned.
     if alreadyAssigned then invalidate_caches
     else and_then (db_call ''assign.tx'' (\<lambda>now s. assign_tx E now ord gid days s)) (\<lambda>r.
       case r of
         Inr _ \<Rightarrow> invalidate_caches
       | Inl err \<Rightarrow>
           if err = Failure ''constraint'' then
             and_then (hasPaymentSubscriptionAssignmentAudit (o_ID ord)) (\<lambda>claimed.
               if claimed = Inr True then invalidate_caches else fails err)
           else fails err))"

definition GroupActive :: "int \<Rightarrow> (perr + bool) job" where
  "GroupActive gid = read_db ''group.get''
     (\<lambda>now s. case groups s gid of None \<Rightarrow> Inl NotFound | Some g \<Rightarrow> Inr (g_Active g))"

definition doSub :: "pay_env \<Rightarrow> PaymentOrder \<Rightarrow> int \<Rightarrow> int \<Rightarrow> gotime \<Rightarrow> (perr + unit) job" where
  "doSub E ord gid days lease =
     and_then (GroupActive gid) (\<lambda>g.
     if g \<noteq> Inr True then fails (Failure ''group no longer exists or inactive'')
     else or_fail (ensurePaymentSubscriptionAssigned E ord gid days) (\<lambda>_.
       or_fail (applyAffiliateRebateForOrder E ord) (\<lambda>_.
       markCompleted E ord lease ''SUBSCRIPTION_SUCCESS'')))"

definition ExecuteSubscriptionFulfillment :: "pay_env \<Rightarrow> int \<Rightarrow> (perr + unit) job" where
  "ExecuteSubscriptionFulfillment E oid =
     and_then (GetOrder oid) (\<lambda>r.
     case r of
       Inl _ \<Rightarrow> fails (AppErr ''NOT_FOUND'')
     | Inr ord \<Rightarrow>
         (case fulfil_guard_of ord of
            AlreadyDone \<Rightarrow> returns_ok ()
          | Refused err \<Rightarrow> fails err
          | GoAhead \<Rightarrow>
              (case (o_SubscriptionGroupID ord, o_SubscriptionDays ord) of
                 (Some gid, Some days) \<Rightarrow> with_lease E ord (doSub E ord gid days)
               | _ \<Rightarrow> fails (AppErr ''INVALID_STATUS''))))"

definition executeFulfillment :: "pay_env \<Rightarrow> int \<Rightarrow> (perr + unit) job" where
  "executeFulfillment E oid =
     or_fail (GetOrder oid) (\<lambda>ord.
     if o_OrderType ord = OrderTypeSubscription then ExecuteSubscriptionFulfillment E oid
     else ExecuteBalanceFulfillment E oid)"

definition RetryFulfillment :: "pay_env \<Rightarrow> int \<Rightarrow> (perr + unit) job" where
  "RetryFulfillment E oid =
     and_then (GetOrder oid) (\<lambda>r.
     case r of
       Inl _ \<Rightarrow> fails (AppErr ''NOT_FOUND'')
     | Inr ord \<Rightarrow>
         if o_PaidAt ord = None then fails (AppErr ''INVALID_STATUS'')
         else if psIsRefundStatus (o_Status ord) then fails (AppErr ''INVALID_STATUS'')
         else if o_Status ord = Completed then fails (AppErr ''INVALID_STATUS'')
         else if o_Status ord \<noteq> OrderFailed \<and> o_Status ord \<noteq> Paid \<and> o_Status ord \<noteq> Recharging
           then fails (AppErr ''INVALID_STATUS'')
         else and_then (writeAuditLog oid ''RECHARGE_RETRY'' ''admin'' NoDetail) (\<lambda>_. executeFulfillment E oid))"

section \<open>From the notification to PAID\<close>

definition paymentGraceMinutes :: int where "paymentGraceMinutes = 5"

definition alreadyProcessed :: "pay_env \<Rightarrow> PaymentOrder \<Rightarrow> (perr + unit) job" where
  "alreadyProcessed E ord =
     and_then (GetOrder (o_ID ord)) (\<lambda>r.
     case r of
       Inl err \<Rightarrow> if o_PaymentType ord = TypeStripeHosted then fails err else returns_ok ()
     | Inr cur \<Rightarrow>
         if o_Status cur \<in> set [Completed, Refunded] then returns_ok ()
         else if o_Status cur \<in> set [OrderFailed, Paid, Recharging] then executeFulfillment E (o_ID ord)
         else if o_Status cur = Expired then
           and_then (writeAuditLog (o_ID ord) ''PAYMENT_AFTER_EXPIRY'' ''system'' NoDetail) (\<lambda>_. returns_ok ())
         else returns_ok ())"

text \<open>Which orders a confirmed payment may move to PAID.\<close>

definition payable :: "gotime \<Rightarrow> PaymentOrder \<Rightarrow> bool" where
  "payable now r =
     (o_Status r = Pending \<or> o_Status r = Cancelled \<or>
      o_PaymentType r = TypeStripeHosted \<and> o_PaidAt r = None \<and> o_Status r \<in> set [Processing, Expired, OrderFailed] \<or>
      o_Status r = Expired \<and> time_Add now (- (paymentGraceMinutes * minute)) \<le> o_UpdatedAt r)"

definition toPaid :: "pay_env \<Rightarrow> PaymentOrder \<Rightarrow> string \<Rightarrow> gofloat \<Rightarrow> string \<Rightarrow> (perr + unit) job" where
  "toPaid E ord tradeNo paid pk =
     or_fail (UpdateOrder E (o_ID ord) payable
        (\<lambda>now r. r\<lparr>o_Status := Paid, o_PayAmount := pe_cents E paid, o_PaymentTradeNo := tradeNo,
           o_PaidAt := Some (pe_persist E now), o_FailedAt := None, o_FailedReason := None\<rparr>)) (\<lambda>c.
     if c = 0 then alreadyProcessed E ord
     else and_then
       (if o_Status ord = Cancelled \<or> o_Status ord = Expired
        then writeAuditLog (o_ID ord) ''ORDER_RECOVERED'' pk NoDetail else Return ()) (\<lambda>_.
       and_then (writeAuditLog (o_ID ord) ''ORDER_PAID'' pk NoDetail) (\<lambda>_.
       executeFulfillment E (o_ID ord))))"

definition OrderProviderInstance :: "PaymentOrder \<Rightarrow> (perr + ProviderInstance option) job" where
  "OrderProviderInstance ord = read_db ''instance.get'' (\<lambda>now s. getOrderProviderInstance ord (instances s))"

text \<open>The checks of a notification against the order, and the audit action of a failed one.\<close>

definition check_notification ::
  "pay_env \<Rightarrow> PaymentOrder \<Rightarrow> string \<Rightarrow> gofloat \<Rightarrow> string \<Rightarrow> metadata \<Rightarrow> (string \<times> perr) option" where
  "check_notification E ord instanceProviderKey paid pk m =
     (let expected = expectedNotificationProviderKeyForOrder (pe_registry E) ord instanceProviderKey
      in if expected \<noteq> [] \<and> TrimSpace pk \<noteq> [] \<and> \<not> EqualFold expected (TrimSpace pk)
         then Some (''PAYMENT_PROVIDER_MISMATCH'', Failure ''provider mismatch'')
         else (case validateProviderSnapshotMetadata ord pk m of
             Some err \<Rightarrow> Some (''PAYMENT_PROVIDER_METADATA_MISMATCH'', err)
           | None \<Rightarrow>
               if \<not> isValidProviderAmount paid
               then Some (''PAYMENT_INVALID_AMOUNT'', Failure ''invalid paid amount from provider'')
               else if fl_less (paymentAmountToleranceForCurrency (PaymentOrderCurrency ord))
                         (fl_abs (fl_sub paid (o_PayAmount ord)))
               then Some (''PAYMENT_AMOUNT_MISMATCH'', Failure ''amount mismatch'')
               else None))"

definition confirmPayment ::
  "pay_env \<Rightarrow> int \<Rightarrow> string \<Rightarrow> gofloat \<Rightarrow> string \<Rightarrow> metadata \<Rightarrow> (perr + unit) job" where
  "confirmPayment E oid tradeNo paid pk m =
     and_then (GetOrder oid) (\<lambda>r.
     case r of
       Inl _ \<Rightarrow> returns_ok ()
     | Inr ord \<Rightarrow>
         and_then (OrderProviderInstance ord) (\<lambda>i.
         let instanceProviderKey = (case i of Inr (Some inst) \<Rightarrow> inst_ProviderKey inst | _ \<Rightarrow> [])
         in (case check_notification E ord instanceProviderKey paid pk m of
               Some (action, err) \<Rightarrow> and_then (writeAuditLog (o_ID ord) action pk NoDetail) (\<lambda>_. fails err)
             | None \<Rightarrow> toPaid E ord tradeNo paid pk)))"

record PaymentNotification =
  n_TradeNo :: string
  n_OrderID :: string
  n_Amount :: gofloat
  n_Status :: string
  n_Metadata :: metadata

section \<open>Hosted orders\<close>

definition hosted_identity :: "(string \<times> string) list" where
  "hosted_identity =
     [(''instance_id'', ''provider_instance_id''), (''account_id'', ''account_id''), (''livemode'', ''livemode''),
      (''currency'', ''currency'')]"

definition validateHostedNotification :: "decimal_lib \<Rightarrow> PaymentOrder \<Rightarrow> PaymentNotification \<Rightarrow> perr option" where
  "validateHostedNotification D ord n =
     (if o_PaymentType ord \<noteq> TypeStripeHosted \<or> psStringValue (o_ProviderKey ord) \<noteq> TypeStripeHosted \<or>
         n_OrderID n \<noteq> o_OutTradeNo ord \<or> \<not> HasPrefix (n_TradeNo n) ''cs_''
      then Some (Failure ''hosted order identity mismatch'')
      else if o_PaymentTradeNo ord \<noteq> [] \<and> o_PaymentTradeNo ord \<noteq> n_TradeNo n
      then Some (Failure ''hosted session mismatch'')
      else if list_ex (\<lambda>(key, snapshotKey).
             let expected = psSnapshotStringValue (map_of (o_ProviderSnapshot ord) snapshotKey)
             in expected = [] \<or> meta (n_Metadata n) key \<noteq> expected) hosted_identity
      then Some (Failure ''hosted identity mismatch'')
      else (case AmountToMinorUnit D (psSnapshotStringValue (map_of (o_ProviderSnapshot ord) ''hosted_amount''))
                   (PaymentOrderCurrency ord) of
          Inl err \<Rightarrow> Some err
        | Inr expected \<Rightarrow>
            if meta (n_Metadata n) ''amount_minor'' \<noteq> Itoa expected then Some (Failure ''hosted amount mismatch'') else None))"

text \<open>An early callback binds the order to its session.\<close>

definition bind_session :: "pay_env \<Rightarrow> PaymentOrder \<Rightarrow> string \<Rightarrow> (perr + unit) job" where
  "bind_session E ord tradeNo =
     (if o_PaymentTradeNo ord \<noteq> [] then returns_ok ()
      else or_fail (UpdateOrder E (o_ID ord) (\<lambda>now r. o_PaymentTradeNo r = [])
             (\<lambda>now r. r\<lparr>o_PaymentTradeNo := tradeNo\<rparr>)) (\<lambda>changed.
        if changed \<noteq> 0 then returns_ok ()
        else or_fail (GetOrder (o_ID ord)) (\<lambda>current.
          if o_PaymentTradeNo current \<noteq> tradeNo then fails (Failure ''hosted session binding conflict'')
          else returns_ok ())))"

definition handleHostedNotification :: "pay_env \<Rightarrow> PaymentNotification \<Rightarrow> (perr + unit) job" where
  "handleHostedNotification E n =
     or_fail (OrderByOutTradeNo (n_OrderID n)) (\<lambda>ord.
     case validateHostedNotification (pe_decimal E) ord n of
       Some err \<Rightarrow> fails err
     | None \<Rightarrow>
         or_fail (bind_session E ord (n_TradeNo n)) (\<lambda>_.
         let ord = (if o_PaymentTradeNo ord = [] then ord\<lparr>o_PaymentTradeNo := n_TradeNo n\<rparr> else ord)
         in if n_Status n = ProviderStatusSuccess \<or> n_Status n = ProviderStatusPaid
            then toPaid E ord (n_TradeNo n) (n_Amount n) TypeStripeHosted
            else if n_Status n = ProviderStatusProcessing
            then or_fail (UpdateOrder E (o_ID ord) (\<lambda>now r. o_Status r = Pending)
                   (\<lambda>now r. r\<lparr>o_Status := Processing\<rparr>)) (\<lambda>_. returns_ok ())
            else if n_Status n = ProviderStatusFailed \<or> n_Status n = ProviderStatusExpired
            then or_fail (UpdateOrder E (o_ID ord)
                   (\<lambda>now r. o_PaidAt r = None \<and> o_Status r \<in> set [Pending, Processing])
                   (\<lambda>now r. r\<lparr>o_Status := (if n_Status n = ProviderStatusExpired then Expired else OrderFailed)\<rparr>))
                   (\<lambda>_. returns_ok ())
            else returns_ok ()))"

definition HandlePaymentNotification :: "pay_env \<Rightarrow> PaymentNotification \<Rightarrow> string \<Rightarrow> (perr + unit) job" where
  "HandlePaymentNotification E n pk =
     (if pk = TypeStripeHosted then handleHostedNotification E n
      else if n_Status n \<noteq> ProviderStatusSuccess then returns_ok ()
      else and_then (OrderByOutTradeNo (n_OrderID n)) (\<lambda>r.
        case r of
          Inr ord \<Rightarrow> confirmPayment E (o_ID ord) (n_TradeNo n) (n_Amount n) pk (n_Metadata n)
        | Inl err \<Rightarrow>
            (case parseLegacyPaymentOrderID (n_OrderID n) err of
               Some oid \<Rightarrow> confirmPayment E oid (n_TradeNo n) (n_Amount n) pk (n_Metadata n)
             | None \<Rightarrow> fails (if err = NotFound then ErrOrderNotFound else err))))"

end
