(* ===== verification/Pay_Cancel.thy ===== *)
theory Pay_Cancel
  imports Pay_Fulfill Pay_Config
begin

text \<open>
  The life of an order beside its notification (\<open>payment_order_lifecycle.go\<close> and the hosted
  checkout of \<open>payment_stripe_hosted.go\<close>): cancelling and expiring an order after asking the
  provider whether it was paid, verifying an order on demand, the periodic reconciliation, and
  the rate limit on cancellations.
\<close>

section \<open>Providers\<close>

text \<open>The provider that created the order, from its instance or, for a legacy order, the registry.\<close>

definition webhookRegistryFallbackAllowed :: "string \<Rightarrow> bool job" where
  "webhookRegistryFallbackAllowed providerKey =
     (let k = TrimSpace providerKey
      in if k = [] then Return False
         else and_then (read_db ''instance.count''
             (\<lambda>now s. Inr (length (filter (\<lambda>i. inst_ProviderKey i = k \<and> inst_Enabled i) (instances s)))))
           (\<lambda>r. Return (case r of Inl _ \<Rightarrow> False | Inr n \<Rightarrow> n \<le> (1::nat))))"

definition getOrderProvider :: "pay_env \<Rightarrow> PaymentOrder \<Rightarrow> (perr + provider) job" where
  "getOrderProvider E ord =
     or_fail (OrderProviderInstance ord) (\<lambda>inst.
     case inst of
       Some i \<Rightarrow> ask an_provider
     | None \<Rightarrow>
         if \<not> paymentOrderAllowsRegistryFallback ord then fails (Failure ''provider instance is unresolved'')
         else
           let providerKey = paymentOrderFallbackProviderKey (pe_registry E) ord
           in if providerKey = [] then fails (Failure ''provider fallback key is missing'')
              else and_then (webhookRegistryFallbackAllowed providerKey) (\<lambda>allowed.
                if \<not> allowed then fails (Failure ''provider fallback is ambiguous'') else ask an_provider))"

section \<open>Hosted checkout\<close>

text \<open>The result is the provider's status, empty when there is no session to ask about.\<close>

definition reconcileHostedOrder :: "pay_env \<Rightarrow> PaymentOrder \<Rightarrow> (perr + string) job" where
  "reconcileHostedOrder E ord =
     (if o_PaymentTradeNo ord = [] then returns_ok []
      else or_fail (getOrderProvider E ord) (\<lambda>p.
        or_fail (ask an_query) (\<lambda>r.
        or_fail (handleHostedNotification E
            \<lparr>n_TradeNo = qo_TradeNo r, n_OrderID = o_OutTradeNo ord, n_Amount = qo_Amount r, n_Status = qo_Status r,
             n_Metadata = qo_Metadata r\<rparr>) (\<lambda>_.
        if qo_Status r = ProviderStatusPending \<and> pe_ValidStripeCheckoutURL E (qo_PayURL r) \<and> 0 < qo_ExpiresAt r
        then or_fail (UpdateOrder E (o_ID ord) (\<lambda>now row. o_PaymentTradeNo row = qo_TradeNo r)
               (\<lambda>now row. row\<lparr>o_PayURL := Some (qo_PayURL r), o_ExpiresAt := pe_Unix E (qo_ExpiresAt r)\<rparr>))
               (\<lambda>_. returns_ok (qo_Status r))
        else returns_ok (qo_Status r)))))"

definition resumeHostedCreation :: "pay_env \<Rightarrow> PaymentOrder \<Rightarrow> (perr + PaymentOrder) job" where
  "resumeHostedCreation E ord =
     (if o_PaymentTradeNo ord \<noteq> [] then
        or_fail (reconcileHostedOrder E ord) (\<lambda>_. GetOrder (o_ID ord))
      else and_then (ask an_now) (\<lambda>now.
        if o_Status ord \<noteq> Pending \<or> 23 * hour < time_Sub now (o_CreatedAt ord) \<or> \<not> time_Before now (o_ExpiresAt ord)
        then fails (AppErr ''HOSTED_RECOVERY_EXPIRED'')
        else or_fail (getOrderProvider E ord) (\<lambda>p.
          if pr_ProviderKey p \<noteq> TypeStripeHosted then fails (Failure ''hosted provider mismatch'')
          else if \<not> pe_ValidURL E (psSnapshotStringValue (map_of (o_ProviderSnapshot ord) ''hosted_return_url''))
            then fails (Failure ''invalid return URL'')
          else if ParseInt (psSnapshotStringValue (map_of (o_ProviderSnapshot ord) ''hosted_expires_at'')) = None
            then fails (Failure ''invalid expiry'')
          else and_then (ask an_create) (\<lambda>c.
            case c of
              Inl _ \<Rightarrow> and_then (writeAuditLog (o_ID ord) ''HOSTED_CREATE_UNCERTAIN'' ''system'' NoDetail)
                         (\<lambda>_. fails (AppErr ''HOSTED_CREATE_RETRY''))
            | Inr result \<Rightarrow>
                or_fail (UpdateOrder E (o_ID ord)
                  (\<lambda>now row. o_PaymentTradeNo row = [] \<or> o_PaymentTradeNo row = cp_TradeNo result)
                  (\<lambda>now row. row\<lparr>o_PaymentTradeNo := cp_TradeNo result, o_PayURL := Some (cp_PayURL result),
                     o_ExpiresAt := pe_Unix E (cp_ExpiresAt result)\<rparr>)) (\<lambda>updated.
                if updated \<noteq> 1 then fails (Failure ''hosted session binding conflict'')
                else or_fail (GetOrder (o_ID ord)) (\<lambda>row.
                  and_then (writeAuditLog (o_ID row) ''HOSTED_SESSION_CREATED'' ''system'' NoDetail)
                    (\<lambda>_. returns_ok row)))))))"

definition ResumeStripeHostedOrder :: "pay_env \<Rightarrow> int \<Rightarrow> int \<Rightarrow> (perr + PaymentOrder) job" where
  "ResumeStripeHostedOrder E oid uid =
     and_then (GetOrder oid) (\<lambda>r.
     case r of
       Inl _ \<Rightarrow> fails (AppErr ''NOT_FOUND'')
     | Inr ord \<Rightarrow>
         if o_UserID ord \<noteq> uid then fails (AppErr ''FORBIDDEN'')
         else if o_PaymentType ord \<noteq> TypeStripeHosted then fails (AppErr ''INVALID_PROVIDER'')
         else resumeHostedCreation E ord)"

text \<open>The outcome of a cancellation.\<close>

datatype check_paid = AlreadyPaid | CancelledNow

definition cancelHostedOrder :: "pay_env \<Rightarrow> PaymentOrder \<Rightarrow> order_status \<Rightarrow> string \<Rightarrow> (perr + check_paid) job" where
  "cancelHostedOrder E ord finalStatus operator =
     (if o_PaymentTradeNo ord = [] then fails (AppErr ''HOSTED_CREATE_RETRY'')
      else or_fail (getOrderProvider E ord) (\<lambda>p.
        or_fail (reconcileHostedOrder E ord) (\<lambda>r.
        let finish = or_fail (UpdateOrder E (o_ID ord)
                (\<lambda>now row. o_Status row \<in> set [Pending, Expired] \<and> o_PaidAt row = None)
                (\<lambda>now row. row\<lparr>o_Status := finalStatus\<rparr>)) (\<lambda>changed.
              let audit = and_then (writeAuditLog (o_ID ord)
                    (if finalStatus = Expired then ''ORDER_EXPIRED'' else ''ORDER_CANCELLED'') operator NoDetail)
                    (\<lambda>_. returns_ok CancelledNow)
              in if changed \<noteq> 0 then audit
                 else or_fail (GetOrder (o_ID ord)) (\<lambda>current.
                   if o_PaidAt current \<noteq> None then returns_ok AlreadyPaid
                   else if o_Status current \<noteq> finalStatus then fails (AppErr ''PAYMENT_PROCESSING'')
                   else audit))
        in if r = ProviderStatusPaid then returns_ok AlreadyPaid
           else if r = ProviderStatusProcessing then fails (AppErr ''PAYMENT_PROCESSING'')
           else if r = ProviderStatusExpired then finish
           else if \<not> pr_Cancelable p then fails (Failure ''provider cannot expire session'')
           else and_then (ask an_cancel) (\<lambda>c.
             case c of
               None \<Rightarrow> finish
             | Some err \<Rightarrow>
                 and_then (reconcileHostedOrder E ord) (\<lambda>again.
                   if again = Inr ProviderStatusPaid then returns_ok AlreadyPaid else fails err)))))"

section \<open>Asking whether an order was paid\<close>

text \<open>After an invalid amount the provider is asked once more.\<close>

definition requeryPaidOrderOnce :: "string \<Rightarrow> QueryOrderResponse option job" where
  "requeryPaidOrderOnce queryRef =
     (if TrimSpace queryRef = [] then Return None
      else and_then (ask an_query) (\<lambda>q.
        case q of
          Inl _ \<Rightarrow> Return None
        | Inr r \<Rightarrow> Return (if qo_Status r \<noteq> ProviderStatusPaid \<or> \<not> isValidProviderAmount (qo_Amount r) then None else Some r)))"

text \<open>
  The paid order is confirmed like a notification; a trade number that the provider reports and
  the order does not have is stored first.
\<close>

definition confirm_paid :: "pay_env \<Rightarrow> PaymentOrder \<Rightarrow> string \<Rightarrow> string \<Rightarrow> QueryOrderResponse \<Rightarrow> bool job" where
  "confirm_paid E ord provKey queryRef r =
     (let upstream = TrimSpace (qo_TradeNo r);
          persist = paymentOrderShouldPersistUpstreamTradeNo queryRef upstream (o_PaymentTradeNo ord);
          tradeNo = (if persist then upstream else o_PaymentTradeNo ord)
      in and_then
           (if persist
            then and_then (UpdateOrder E (o_ID ord) (\<lambda>now row. True) (\<lambda>now row. row\<lparr>o_PaymentTradeNo := upstream\<rparr>))
                   (\<lambda>_. Return ())
            else Return ()) (\<lambda>_.
         and_then (HandlePaymentNotification E
             \<lparr>n_TradeNo = tradeNo, n_OrderID = o_OutTradeNo ord, n_Amount = qo_Amount r,
              n_Status = ProviderStatusSuccess, n_Metadata = qo_Metadata r\<rparr> provKey) (\<lambda>_.
         Return True)))"

text \<open>\<open>True\<close> is the result already-paid.\<close>

definition checkPaidWithOptions :: "pay_env \<Rightarrow> bool \<Rightarrow> PaymentOrder \<Rightarrow> bool job" where
  "checkPaidWithOptions E cancelIfUnpaid ord =
     (if o_PaymentType ord = TypeStripeHosted
      then and_then (reconcileHostedOrder E ord) (\<lambda>r. Return (r = Inr ProviderStatusPaid))
      else and_then (getOrderProvider E ord) (\<lambda>p.
        case p of
          Inl _ \<Rightarrow> Return False
        | Inr prov \<Rightarrow>
            let queryRef = paymentOrderQueryReference ord (pr_ProviderKey prov)
            in if queryRef = [] then Return False
               else and_then (ask an_query) (\<lambda>q.
                 case q of
                   Inl _ \<Rightarrow> Return False
                 | Inr r \<Rightarrow>
                     if qo_Status r = ProviderStatusPaid then
                       (if isValidProviderAmount (qo_Amount r) then confirm_paid E ord (pr_ProviderKey prov) queryRef r
                        else and_then (writeAuditLog (o_ID ord) ''PAYMENT_INVALID_AMOUNT'' (pr_ProviderKey prov) NoDetail) (\<lambda>_.
                          and_then (requeryPaidOrderOnce queryRef) (\<lambda>again.
                          case again of
                            None \<Rightarrow> Return False
                          | Some r \<Rightarrow> confirm_paid E ord (pr_ProviderKey prov) queryRef r)))
                     else if \<not> cancelIfUnpaid \<or> \<not> pr_Cancelable prov then Return False
                     else and_then (ask an_cancel) (\<lambda>_. Return False))))"

definition checkPaid :: "pay_env \<Rightarrow> PaymentOrder \<Rightarrow> bool job" where
  "checkPaid E = checkPaidWithOptions E True"

definition reconcilePaid :: "pay_env \<Rightarrow> PaymentOrder \<Rightarrow> bool job" where
  "reconcilePaid E = checkPaidWithOptions E False"

section \<open>Cancelling and expiring\<close>

definition cancelCore :: "pay_env \<Rightarrow> PaymentOrder \<Rightarrow> order_status \<Rightarrow> string \<Rightarrow> (perr + check_paid) job" where
  "cancelCore E ord fs operator =
     (if o_PaymentType ord = TypeStripeHosted then cancelHostedOrder E ord fs operator
      else and_then (if o_PaymentTradeNo ord \<noteq> [] \<or> o_PaymentType ord \<noteq> [] then checkPaid E ord else Return False) (\<lambda>paid.
        if paid then returns_ok AlreadyPaid
        else or_fail (UpdateOrder E (o_ID ord) (\<lambda>now row. o_Status row = Pending) (\<lambda>now row. row\<lparr>o_Status := fs\<rparr>)) (\<lambda>c.
          if 0 < c
          then and_then (writeAuditLog (o_ID ord) (if fs = Expired then ''ORDER_EXPIRED'' else ''ORDER_CANCELLED'') operator NoDetail)
                 (\<lambda>_. returns_ok CancelledNow)
          else returns_ok CancelledNow)))"

definition CancelOrder :: "pay_env \<Rightarrow> int \<Rightarrow> int \<Rightarrow> (perr + check_paid) job" where
  "CancelOrder E oid uid =
     and_then (GetOrder oid) (\<lambda>r.
     case r of
       Inl _ \<Rightarrow> fails (AppErr ''NOT_FOUND'')
     | Inr ord \<Rightarrow>
         if o_UserID ord \<noteq> uid then fails (AppErr ''FORBIDDEN'')
         else if o_Status ord \<noteq> Pending then fails (AppErr ''INVALID_STATUS'')
         else cancelCore E ord Cancelled (''user:'' @ Itoa uid))"

definition AdminCancelOrder :: "pay_env \<Rightarrow> int \<Rightarrow> (perr + check_paid) job" where
  "AdminCancelOrder E oid =
     and_then (GetOrder oid) (\<lambda>r.
     case r of
       Inl _ \<Rightarrow> fails (AppErr ''NOT_FOUND'')
     | Inr ord \<Rightarrow>
         if o_Status ord \<noteq> Pending then fails (AppErr ''INVALID_STATUS'')
         else cancelCore E ord Cancelled ''admin'')"

text \<open>A pass over a list of orders; the number counts the orders for which \<open>act\<close> answers \<open>True\<close>.\<close>

primrec for_orders :: "(PaymentOrder \<Rightarrow> bool job) \<Rightarrow> PaymentOrder list \<Rightarrow> nat \<Rightarrow> (perr + nat) job" where
  "for_orders act [] n = returns_ok n"
| "for_orders act (ord # rest) n =
     and_then (act ord) (\<lambda>b. for_orders act rest (if b then Suc n else n))"

definition ExpireTimedOutOrders :: "pay_env \<Rightarrow> (perr + nat) job" where
  "ExpireTimedOutOrders E =
     or_fail (read_db ''order.expired''
       (\<lambda>now s. Inr (filter (\<lambda>r. o_Status r = Pending \<and> o_ExpiresAt r \<le> now) (orders s)))) (\<lambda>rows.
     for_orders (\<lambda>ord. and_then (cancelCore E ord Expired ''system'')
       (\<lambda>outcome. Return (outcome = Inr CancelledNow))) rows 0)"

definition pendingPaymentReconcileLimit :: nat where "pendingPaymentReconcileLimit = 20"

text \<open>The rows in the order of a time, the first \<open>n\<close> of them.\<close>

definition oldest :: "nat \<Rightarrow> PaymentOrder list \<Rightarrow> PaymentOrder list" where
  "oldest n rows = take n (SliceStable (\<lambda>a b. o_CreatedAt a < o_CreatedAt b) rows)"

definition reconcilable_type :: "PaymentOrder \<Rightarrow> bool" where
  "reconcilable_type r =
     list_ex (\<lambda>t. o_PaymentType r = t \<or> HasPrefix (o_PaymentType r) (t @ ''_'') \<or>
        o_ProviderKey r = Some t \<or> (case o_ProviderKey r of None \<Rightarrow> False | Some k \<Rightarrow> HasPrefix k (t @ ''_'')))
       [TypeWxpay, TypeAlipay]"

definition ReconcilePendingPaymentOrders :: "pay_env \<Rightarrow> (perr + nat) job" where
  "ReconcilePendingPaymentOrders E =
     or_fail (read_db ''order.pending''
       (\<lambda>now s. Inr (oldest pendingPaymentReconcileLimit
          (filter (\<lambda>r. o_Status r = Pending \<and> now < o_ExpiresAt r \<and> reconcilable_type r) (orders s))))) (\<lambda>rows.
     for_orders (reconcilePaid E) rows 0)"

text \<open>
  The periodic pass over hosted orders goes on after the last order of the previous pass; the
  result is the number of paid orders and the new cursor.
\<close>

primrec hosted_pass :: "pay_env \<Rightarrow> PaymentOrder list \<Rightarrow> nat \<Rightarrow> (perr + nat) job" where
  "hosted_pass E [] n = returns_ok n"
| "hosted_pass E (ord # rest) n =
     and_then
       (if o_PaymentTradeNo ord = [] then
          and_then (ask an_now) (\<lambda>now.
            if time_Sub now (o_CreatedAt ord) < 23 * hour \<and> time_Before now (o_ExpiresAt ord)
            then or_fail (resumeHostedCreation E ord) (\<lambda>_. returns_ok False)
            else returns_ok False)
        else or_fail (reconcileHostedOrder E ord) (\<lambda>st. returns_ok (st = ProviderStatusPaid))) (\<lambda>r.
     case r of
       Inr b \<Rightarrow> hosted_pass E rest (if b then Suc n else n)
     | Inl _ \<Rightarrow> and_then (writeAuditLog (o_ID ord) ''HOSTED_RECONCILE_RETRY'' ''system'' NoDetail)
                  (\<lambda>_. hosted_pass E rest n))"

definition reconcileHostedOrders :: "pay_env \<Rightarrow> int \<Rightarrow> (perr + nat \<times> int) job" where
  "reconcileHostedOrders E cursor =
     or_fail (read_db ''order.hosted''
       (\<lambda>now s. Inr (take 20 (SliceStable (\<lambda>a b. o_ID a < o_ID b)
          (filter (\<lambda>r. cursor < o_ID r \<and> o_PaymentType r = TypeStripeHosted \<and>
             (o_Status r \<in> set [Pending, Processing, Paid, Recharging] \<or> o_Status r = OrderFailed \<and> o_PaidAt r \<noteq> None))
            (orders s)))))) (\<lambda>rows.
     if rows = [] then returns_ok (0, 0)
     else or_fail (hosted_pass E rows 0) (\<lambda>n. returns_ok (n, if length rows < 20 then 0 else o_ID (last rows))))"

section \<open>Verifying on demand\<close>

definition lookup_char :: "char \<Rightarrow> bool" where
  "lookup_char c = (let n = (of_char c :: nat)
     in 97 \<le> n \<and> n \<le> 122 \<or> 65 \<le> n \<and> n \<le> 90 \<or> 48 \<le> n \<and> n \<le> 57 \<or> n = 95 \<or> n = 45)"

definition normalizeOrderLookupOutTradeNo :: "string \<Rightarrow> perr + string" where
  "normalizeOrderLookupOutTradeNo raw =
     (let no = TrimSpace raw
      in if no = [] \<or> 64 < length no \<or> \<not> list_all lookup_char no
         then Inl (AppErr ''INVALID_OUT_TRADE_NO'') else Inr no)"

definition VerifyOrderByOutTradeNo :: "pay_env \<Rightarrow> string \<Rightarrow> int \<Rightarrow> (perr + PaymentOrder) job" where
  "VerifyOrderByOutTradeNo E raw uid =
     (case normalizeOrderLookupOutTradeNo raw of
        Inl err \<Rightarrow> fails err
      | Inr no \<Rightarrow>
          and_then (OrderByOutTradeNo no) (\<lambda>r.
          case r of
            Inl _ \<Rightarrow> fails (AppErr ''NOT_FOUND'')
          | Inr ord \<Rightarrow>
              if o_UserID ord \<noteq> uid then fails (AppErr ''FORBIDDEN'')
              else if o_PaymentType ord = TypeStripeHosted then
                (if o_Status ord \<noteq> Completed \<and> \<not> psIsRefundStatus (o_Status ord) then
                   or_fail (if o_PaymentTradeNo ord = []
                            then or_fail (resumeHostedCreation E ord) (\<lambda>_. returns_ok ())
                            else or_fail (reconcileHostedOrder E ord) (\<lambda>_. returns_ok ())) (\<lambda>_.
                   GetOrder (o_ID ord))
                 else returns_ok ord)
              else if o_Status ord \<in> set [Pending, Expired, Processing] then
                and_then (reconcilePaid E ord) (\<lambda>paid. if paid then GetOrder (o_ID ord) else returns_ok ord)
              else returns_ok ord))"

definition VerifyOrderPublic :: "string \<Rightarrow> (perr + PaymentOrder) job" where
  "VerifyOrderPublic raw =
     (case normalizeOrderLookupOutTradeNo raw of
        Inl err \<Rightarrow> fails err
      | Inr no \<Rightarrow>
          and_then (OrderByOutTradeNo no) (\<lambda>r.
          case r of Inl _ \<Rightarrow> fails (AppErr ''NOT_FOUND'') | Inr ord \<Rightarrow> returns_ok ord))"

section \<open>The rate limit on cancellations\<close>

text \<open>\<open>time.Truncate\<close> counts from the zero time.\<close>

definition time_Truncate :: "gotime \<Rightarrow> duration \<Rightarrow> gotime" where
  "time_Truncate t d = t - t mod d"

definition cancelRateLimitWindowStart :: "pay_env \<Rightarrow> PaymentConfig \<Rightarrow> gotime \<Rightarrow> gotime" where
  "cancelRateLimitWindowStart E cfg now =
     (let w = (if CancelRateLimitWindow cfg \<le> 0 then 1 else CancelRateLimitWindow cfg);
          unt = (if CancelRateLimitUnit cfg = [] then ''day'' else CancelRateLimitUnit cfg)
      in if CancelRateLimitMode cfg = ''fixed'' then
           (if unt = ''minute'' then time_Add (time_Truncate now minute) (wrap64 (- (w - 1) * minute))
            else if unt = ''day'' then pe_AddDays E (pe_StartOfDay E now) (- (w - 1))
            else time_Add (time_Truncate now hour) (wrap64 (- (w - 1) * hour)))
         else
           (if unt = ''minute'' then time_Add now (wrap64 (- w * minute))
            else if unt = ''day'' then pe_AddDays E now (- w)
            else time_Add now (wrap64 (- w * hour))))"

definition checkCancelRateLimit :: "pay_env \<Rightarrow> PaymentConfig \<Rightarrow> int \<Rightarrow> (perr + unit) job" where
  "checkCancelRateLimit E cfg uid =
     (if \<not> CancelRateLimitEnabled cfg \<or> CancelRateLimitMax cfg \<le> 0 then returns_ok ()
      else and_then (read_db ''audit.cancelled''
          (\<lambda>now s. Inr (int (length (filter (\<lambda>a. au_Action a = ''ORDER_CANCELLED'' \<and>
             au_Operator a = ''user:'' @ Itoa uid \<and> cancelRateLimitWindowStart E cfg now \<le> au_CreatedAt a) (audits s))))))
        (\<lambda>r. case r of
          Inl _ \<Rightarrow> returns_ok ()
        | Inr n \<Rightarrow> if CancelRateLimitMax cfg \<le> n then fails (AppErr ''CANCEL_RATE_LIMITED'') else returns_ok ()))"

end
