(* ===== verification/Pay_Select.thy ===== *)
theory Pay_Select
  imports Pay_Store
begin

text \<open>
  Which provider instance takes an order: the load balancer (\<open>payment/load_balancer.go\<close>), the
  routing of the user-facing methods (\<open>service/payment_visible_method_instances.go\<close>), and the limits
  and currencies that are shown for a method (\<open>service/payment_config_limits.go\<close>). Reading JSON,
  decrypting and the sum of a database column are parameters.
\<close>

section \<open>Configurations and limits of an instance\<close>

type_synonym config = "(string \<times> string) list"

record ChannelLimits =
  cl_DailyLimit :: gofloat
  cl_SingleMin :: gofloat
  cl_SingleMax :: gofloat

definition no_limits :: ChannelLimits where
  "no_limits = \<lparr>cl_DailyLimit = zero64, cl_SingleMin = zero64, cl_SingleMax = zero64\<rparr>"

text \<open>
  \<open>sl_Config\<close> and \<open>sl_Limits\<close> read JSON objects; \<open>sl_Decrypt\<close> is the decryption of an old record,
  with no result when there is no valid key; \<open>sl_Sum\<close> is the database's sum of a column.
\<close>

record select_lib =
  sl_Config :: "string \<Rightarrow> config option"
  sl_Limits :: "string \<Rightarrow> (string \<times> ChannelLimits) list option"
  sl_Decrypt :: "string \<Rightarrow> string option"
  sl_Sum :: "gofloat list \<Rightarrow> gofloat"

text \<open>An unreadable configuration counts as none.\<close>

definition decryptConfig :: "select_lib \<Rightarrow> string \<Rightarrow> config option" where
  "decryptConfig L stored =
     (if stored = [] then None
      else (case sl_Config L stored of
          Some cfg \<Rightarrow> Some cfg
        | None \<Rightarrow> (case sl_Decrypt L stored of None \<Rightarrow> None | Some plaintext \<Rightarrow> sl_Config L plaintext)))"

definition paymentProviderConfigCurrency :: "string \<Rightarrow> config \<Rightarrow> string" where
  "paymentProviderConfigCurrency providerKey cfg =
     (if TrimSpace providerKey \<in> set [TypeStripe, TypeStripeHosted, TypeAirwallex]
      then (case NormalizePaymentCurrency (meta cfg ''currency'') of Inr currency \<Rightarrow> currency | Inl _ \<Rightarrow> DefaultPaymentCurrency)
      else DefaultPaymentCurrency)"

definition legacyVisibleMethodAlias :: "string \<Rightarrow> string" where
  "legacyVisibleMethodAlias t =
     (if normalizeVisibleMethodSupportType t = TypeAlipay then ''alipay_direct''
      else if normalizeVisibleMethodSupportType t = TypeWxpay then ''wxpay_direct'' else [])"

definition getInstanceChannelLimits :: "select_lib \<Rightarrow> ProviderInstance \<Rightarrow> string \<Rightarrow> ChannelLimits" where
  "getInstanceChannelLimits L inst paymentType =
     (if inst_Limits inst = [] then no_limits
      else (case sl_Limits L (inst_Limits inst) of
          None \<Rightarrow> no_limits
        | Some limits \<Rightarrow>
            let lookupKey = (if inst_ProviderKey inst = ''stripe'' then ''stripe'' else paymentType)
            in (case map_of limits lookupKey of
                Some cl \<Rightarrow> cl
              | None \<Rightarrow>
                  if legacyVisibleMethodAlias lookupKey \<noteq> []
                  then (case map_of limits (legacyVisibleMethodAlias lookupKey) of Some cl \<Rightarrow> cl | None \<Rightarrow> no_limits)
                  else no_limits)))"

section \<open>The load balancer\<close>

definition resolveWxpayJSAPIAppID :: "config \<Rightarrow> string" where
  "resolveWxpayJSAPIAppID cfg =
     (if TrimSpace (meta cfg ''mpAppId'') \<noteq> [] then TrimSpace (meta cfg ''mpAppId'') else TrimSpace (meta cfg ''appId''))"

text \<open>
  The enabled instances that can take the payment type, by sort order; \<open>appID\<close> is the application
  that a payment inside WeChat needs, or empty.
\<close>

definition instance_matches :: "select_lib \<Rightarrow> string \<Rightarrow> string \<Rightarrow> ProviderInstance \<Rightarrow> bool" where
  "instance_matches L paymentType appID inst =
     (if paymentType = TypeStripe then inst_ProviderKey inst = TypeStripe
      else InstanceSupportsType (inst_SupportedTypes inst) paymentType \<and>
        (appID \<noteq> [] \<and> normalizeVisibleMethodSupportType paymentType = TypeWxpay \<and> inst_ProviderKey inst = TypeWxpay \<longrightarrow>
           resolveWxpayJSAPIAppID (case decryptConfig L (inst_Config inst) of None \<Rightarrow> [] | Some cfg \<Rightarrow> cfg) = appID))"

definition queryEnabledInstances ::
  "select_lib \<Rightarrow> ProviderInstance list \<Rightarrow> string \<Rightarrow> string \<Rightarrow> string \<Rightarrow> perr + ProviderInstance list" where
  "queryEnabledInstances L insts providerKey paymentType appID =
     (let rows = sort_key inst_SortOrder (filter (\<lambda>i. inst_Enabled i \<and> (providerKey \<noteq> [] \<longrightarrow> inst_ProviderKey i = providerKey)) insts);
          matched = filter (instance_matches L paymentType appID) rows
      in if matched = [] then Inl (Failure ''no enabled instance for payment type'') else Inr matched)"

type_synonym candidate = "ProviderInstance \<times> gofloat"

definition counts_today :: "gotime \<Rightarrow> PaymentOrder \<Rightarrow> bool" where
  "counts_today todayStart r =
     (o_Status r \<in> set [Pending, Processing, Paid, Completed, Recharging] \<and> todayStart \<le> o_CreatedAt r)"

text \<open>The use of an instance today; \<open>None\<close> is a failed query, which counts as no use.\<close>

definition daily_used :: "select_lib \<Rightarrow> pay_env \<Rightarrow> gotime \<Rightarrow> PaymentOrder list option \<Rightarrow> ProviderInstance \<Rightarrow> gofloat" where
  "daily_used L E now rows inst =
     (case rows of
        None \<Rightarrow> zero64
      | Some rs \<Rightarrow>
          let mine = filter (\<lambda>r. o_ProviderInstanceID r = Some (Itoa (inst_ID inst)) \<and> counts_today (pe_StartOfDay E now) r) rs
          in if mine = [] then zero64 else sl_Sum L (map o_PayAmount mine))"

definition attachDailyUsage :: "select_lib \<Rightarrow> pay_env \<Rightarrow> gotime \<Rightarrow> PaymentOrder list option \<Rightarrow> ProviderInstance list \<Rightarrow> candidate list" where
  "attachDailyUsage L E now rows insts = map (\<lambda>i. (i, daily_used L E now rows i)) insts"

definition within_limits :: "select_lib \<Rightarrow> string \<Rightarrow> gofloat \<Rightarrow> candidate \<Rightarrow> bool" where
  "within_limits L paymentType orderAmount c =
     (let cl = getInstanceChannelLimits L (fst c) paymentType
      in \<not> (fl_less zero64 (cl_SingleMin cl) \<and> fl_less orderAmount (cl_SingleMin cl)) \<and>
         \<not> (fl_less zero64 (cl_SingleMax cl) \<and> fl_less (cl_SingleMax cl) orderAmount) \<and>
         \<not> (fl_less zero64 (cl_DailyLimit cl) \<and> fl_less (cl_DailyLimit cl) (fl_add (snd c) orderAmount)))"

definition filterByLimits :: "select_lib \<Rightarrow> candidate list \<Rightarrow> string \<Rightarrow> gofloat \<Rightarrow> candidate list" where
  "filterByLimits L cands paymentType orderAmount = filter (within_limits L paymentType orderAmount) cands"

fun least_used :: "candidate \<Rightarrow> candidate list \<Rightarrow> candidate" where
  "least_used best [] = best"
| "least_used best (c # cs) = least_used (if fl_less (snd c) (snd best) then c else best) cs"

definition pickLeastAmount :: "candidate list \<Rightarrow> candidate" where
  "pickLeastAmount cands = least_used (hd cands) (tl cands)"

text \<open>The counter of the balancer is a 64-bit word that wraps around; the picked one and the counter after it.\<close>

definition pickByStrategy :: "candidate list \<Rightarrow> string \<Rightarrow> 64 word \<Rightarrow> candidate \<times> 64 word" where
  "pickByStrategy cands strategy counter =
     (if strategy = ''least-amount'' \<and> 1 < length cands then (pickLeastAmount cands, counter)
      else (cands ! (unat (counter + 1) mod length cands), counter + 1))"

record InstanceSelection =
  is_InstanceID :: string
  is_ProviderKey :: string
  is_Config :: config
  is_SupportedTypes :: string
  is_PaymentMode :: string

definition set_config :: "string \<Rightarrow> string \<Rightarrow> config \<Rightarrow> config" where
  "set_config k v cfg = (k, v) # filter (\<lambda>p. fst p \<noteq> k) cfg"

definition buildSelection :: "select_lib \<Rightarrow> ProviderInstance \<Rightarrow> InstanceSelection" where
  "buildSelection L inst =
     (let cfg = (case decryptConfig L (inst_Config inst) of None \<Rightarrow> [] | Some cfg \<Rightarrow> cfg);
          cfg = (if inst_PaymentMode inst \<noteq> [] then set_config ''paymentMode'' (inst_PaymentMode inst) cfg else cfg)
      in \<lparr>is_InstanceID = Itoa (inst_ID inst), is_ProviderKey = inst_ProviderKey inst, is_Config = cfg,
          is_SupportedTypes = inst_SupportedTypes inst, is_PaymentMode = inst_PaymentMode inst\<rparr>)"

text \<open>When no candidate is within its limits, all of them stay.\<close>

definition available_candidates :: "select_lib \<Rightarrow> candidate list \<Rightarrow> string \<Rightarrow> gofloat \<Rightarrow> candidate list" where
  "available_candidates L cands paymentType orderAmount =
     (if filterByLimits L cands paymentType orderAmount = [] then cands else filterByLimits L cands paymentType orderAmount)"

definition SelectInstance ::
  "select_lib \<Rightarrow> pay_env \<Rightarrow> gotime \<Rightarrow> ProviderInstance list \<Rightarrow> PaymentOrder list option \<Rightarrow> string \<Rightarrow> string \<Rightarrow> string \<Rightarrow> string \<Rightarrow>
   gofloat \<Rightarrow> 64 word \<Rightarrow> perr + (InstanceSelection \<times> 64 word)" where
  "SelectInstance L E now insts rows providerKey paymentType appID strategy orderAmount counter =
     (case queryEnabledInstances L insts providerKey paymentType appID of
        Inl err \<Rightarrow> Inl err
      | Inr matched \<Rightarrow>
          (case pickByStrategy (available_candidates L (attachDailyUsage L E now rows matched) paymentType orderAmount) strategy counter of
             (c, counter') \<Rightarrow> Inr (buildSelection L (fst c), counter')))"

text \<open>What an instance was paid today.\<close>

definition GetInstanceDailyAmount :: "select_lib \<Rightarrow> pay_env \<Rightarrow> gotime \<Rightarrow> PaymentOrder list \<Rightarrow> string \<Rightarrow> gofloat" where
  "GetInstanceDailyAmount L E now rows instanceID =
     sl_Sum L (map o_PayAmount (filter (\<lambda>r. o_ProviderInstanceID r = Some instanceID \<and>
       o_Status r \<in> set [Completed, Paid, Recharging] \<and>
       (case o_PaidAt r of None \<Rightarrow> False | Some t \<Rightarrow> pe_StartOfDay E now \<le> t)) rows))"

section \<open>The user-facing methods\<close>

definition NormalizeVisibleMethodSource :: "string \<Rightarrow> string \<Rightarrow> string" where
  "NormalizeVisibleMethodSource m source =
     (let s = TrimSpace (ToLower source)
      in if NormalizeVisibleMethod m = TypeAlipay then
           (if s \<in> set [''official_alipay'', TypeAlipay, ''alipay_direct'', ''official''] then ''official_alipay''
            else if s \<in> set [''easypay_alipay'', TypeEasyPay] then ''easypay_alipay'' else [])
         else if NormalizeVisibleMethod m = TypeWxpay then
           (if s \<in> set [''official_wxpay'', TypeWxpay, ''wxpay_direct'', ''wechat'', ''official''] then ''official_wxpay''
            else if s \<in> set [''easypay_wxpay'', TypeEasyPay] then ''easypay_wxpay'' else [])
         else [])"

definition VisibleMethodProviderKeyForSource :: "string \<Rightarrow> string \<Rightarrow> string option" where
  "VisibleMethodProviderKeyForSource m source =
     (let s = NormalizeVisibleMethodSource m source; n = NormalizeVisibleMethod m
      in if s = ''official_alipay'' \<and> n = TypeAlipay then Some TypeAlipay
         else if s = ''easypay_alipay'' \<and> n = TypeAlipay then Some TypeEasyPay
         else if s = ''official_wxpay'' \<and> n = TypeWxpay then Some TypeWxpay
         else if s = ''easypay_wxpay'' \<and> n = TypeWxpay then Some TypeEasyPay
         else None)"

definition normalizeVisibleMethodSettingSource :: "string \<Rightarrow> string \<Rightarrow> perr + string" where
  "normalizeVisibleMethodSettingSource m source =
     (if TrimSpace source = [] then Inr []
      else if NormalizeVisibleMethodSource m (TrimSpace source) = [] then Inl (AppErr ''INVALID_PAYMENT_VISIBLE_METHOD_SOURCE'')
      else Inr (NormalizeVisibleMethodSource m (TrimSpace source)))"

definition visibleMethodSourceSettingKey :: "string \<Rightarrow> string" where
  "visibleMethodSourceSettingKey m =
     (if NormalizeVisibleMethod m = TypeAlipay then ''payment_visible_method_alipay_source''
      else if NormalizeVisibleMethod m = TypeWxpay then ''payment_visible_method_wxpay_source'' else [])"

text \<open>The methods an instance serves: the set of them, listed with Alipay and WeChat first.\<close>

definition visible_method_set :: "string \<Rightarrow> string \<Rightarrow> string list" where
  "visible_method_set providerKey supportedTypes =
     (if TrimSpace providerKey = TypeAlipay then
        (if TrimSpace supportedTypes = [] \<or> list_ex (\<lambda>t. NormalizeVisibleMethod t = TypeAlipay) (splitTypes supportedTypes)
         then [TypeAlipay] else [])
      else if TrimSpace providerKey = TypeWxpay then
        (if TrimSpace supportedTypes = [] \<or> list_ex (\<lambda>t. NormalizeVisibleMethod t = TypeWxpay) (splitTypes supportedTypes)
         then [TypeWxpay] else [])
      else if TrimSpace providerKey = TypeEasyPay then
        filter (\<lambda>m. m \<noteq> []) (map NormalizeVisibleMethod (splitTypes supportedTypes))
      else [])"

fun take_listed :: "string list \<Rightarrow> string list \<Rightarrow> string list" where
  "take_listed avail [] = []"
| "take_listed avail (m # ms) = (if m \<in> set avail then m # take_listed (removeAll m avail) ms else take_listed avail ms)"

definition enabledVisibleMethodsForProvider :: "string \<Rightarrow> string \<Rightarrow> string list" where
  "enabledVisibleMethodsForProvider providerKey supportedTypes =
     take_listed (visible_method_set providerKey supportedTypes)
       ([TypeAlipay, TypeWxpay] @ map NormalizeVisibleMethod (splitTypes supportedTypes))"

definition providerSupportsVisibleMethod :: "ProviderInstance \<Rightarrow> string \<Rightarrow> bool" where
  "providerSupportsVisibleMethod inst m =
     (inst_Enabled inst \<and> NormalizeVisibleMethod m \<in> set (enabledVisibleMethodsForProvider (inst_ProviderKey inst) (inst_SupportedTypes inst)))"

definition filterEnabledVisibleMethodInstances :: "ProviderInstance list \<Rightarrow> string \<Rightarrow> ProviderInstance list" where
  "filterEnabledVisibleMethodInstances insts m = filter (\<lambda>i. providerSupportsVisibleMethod i m) insts"

definition filterVisibleMethodInstancesByProviderKey :: "ProviderInstance list \<Rightarrow> string \<Rightarrow> string \<Rightarrow> ProviderInstance list" where
  "filterVisibleMethodInstancesByProviderKey insts m providerKey =
     filter (\<lambda>i. providerSupportsVisibleMethod i m \<and> EqualFold (TrimSpace (inst_ProviderKey i)) (TrimSpace providerKey)) insts"

fun distinct_keys :: "string list \<Rightarrow> ProviderInstance list \<Rightarrow> string list" where
  "distinct_keys seen [] = []"
| "distinct_keys seen (i # is) =
     (let key = TrimSpace (inst_ProviderKey i)
      in if key = [] \<or> ToLower key \<in> set seen then distinct_keys seen is
         else key # distinct_keys (ToLower key # seen) is)"

definition distinctVisibleMethodProviderKeys :: "ProviderInstance list \<Rightarrow> string list" where
  "distinctVisibleMethodProviderKeys insts = distinct_keys [] insts"

definition selectVisibleMethodInstanceByProviderKey :: "ProviderInstance list \<Rightarrow> string \<Rightarrow> ProviderInstance option" where
  "selectVisibleMethodInstanceByProviderKey insts providerKey =
     (if TrimSpace providerKey = [] then None
      else find (\<lambda>i. EqualFold (TrimSpace (inst_ProviderKey i)) (TrimSpace providerKey)) insts)"

text \<open>\<open>source\<close> is the read of the setting with the method's source; a missing setting is the empty text.\<close>

definition resolveVisibleMethodSourceProviderKey :: "perr + string \<Rightarrow> string \<Rightarrow> perr + string" where
  "resolveVisibleMethodSourceProviderKey source m =
     (let m = NormalizeVisibleMethod m
      in case (if visibleMethodSourceSettingKey m = [] then Inr [] else source) of
           Inl err \<Rightarrow> Inl err
         | Inr raw \<Rightarrow>
             (case normalizeVisibleMethodSettingSource m raw of
                Inl err \<Rightarrow> Inl err
              | Inr n \<Rightarrow>
                  if n = [] then Inr []
                  else (case VisibleMethodProviderKeyForSource m n of
                      None \<Rightarrow> Inl (AppErr ''INVALID_PAYMENT_VISIBLE_METHOD_SOURCE'') | Some k \<Rightarrow> Inr k)))"

definition resolveVisibleMethodProviderKey :: "perr + string \<Rightarrow> string \<Rightarrow> ProviderInstance list \<Rightarrow> perr + string" where
  "resolveVisibleMethodProviderKey source m matching =
     (case distinctVisibleMethodProviderKeys matching of
        [] \<Rightarrow> Inr []
      | [k] \<Rightarrow> Inr (TrimSpace k)
      | _ \<Rightarrow>
          (case resolveVisibleMethodSourceProviderKey source m of
             Inl err \<Rightarrow> Inl err
           | Inr k \<Rightarrow>
               if k = [] then Inr []
               else (case selectVisibleMethodInstanceByProviderKey matching k of
                   None \<Rightarrow> Inl (AppErr ''INVALID_PAYMENT_VISIBLE_METHOD_SOURCE'')
                 | Some inst \<Rightarrow> Inr (TrimSpace (inst_ProviderKey inst)))))"

text \<open>
  The provider key that a visible method is routed to; \<open>Some []\<close> lets every provider take it, \<open>None\<close>
  means that no instance serves the method.
\<close>

definition resolveEnabledVisibleMethodInstance :: "perr + string \<Rightarrow> ProviderInstance list \<Rightarrow> string \<Rightarrow> perr + string option" where
  "resolveEnabledVisibleMethodInstance source insts m =
     (let m = NormalizeVisibleMethod m
      in if m = [] then Inr None
         else
           let matching = filterEnabledVisibleMethodInstances (sort_key inst_SortOrder (filter inst_Enabled insts)) m
           in case resolveVisibleMethodProviderKey source m matching of
                Inl err \<Rightarrow> Inl err
              | Inr k \<Rightarrow>
                  if k = [] then (if matching = [] then Inr None else Inr (Some []))
                  else Inr (map_option inst_ProviderKey (selectVisibleMethodInstanceByProviderKey matching k)))"

text \<open>The provider key with which the routed balancer calls the inner one.\<close>

definition route_method :: "perr + string \<Rightarrow> ProviderInstance list \<Rightarrow> string \<Rightarrow> string \<Rightarrow> perr + string" where
  "route_method source insts providerKey paymentType =
     (if providerKey \<noteq> [] \<or> NormalizeVisibleMethod paymentType \<notin> set [TypeAlipay, TypeWxpay] then Inr providerKey
      else (case resolveEnabledVisibleMethodInstance source insts (NormalizeVisibleMethod paymentType) of
          Inl err \<Rightarrow> Inl err
        | Inr None \<Rightarrow> Inl (Failure ''visible payment method has no enabled provider instance'')
        | Inr (Some k) \<Rightarrow> Inr k))"

end
