(* ===== verification/Pay_Limits.thy ===== *)
theory Pay_Limits
  imports Pay_Select
begin

text \<open>
  The limits and currencies that are shown for the payment methods
  (\<open>service/payment_config_limits.go\<close>): the widest range over the instances of a method. The lemmas
  compare it with what the load balancer accepts.
\<close>

section \<open>Instances by method\<close>

definition group_keys :: "ProviderInstance \<Rightarrow> string list" where
  "group_keys inst = (if inst_ProviderKey inst = TypeStripe then [TypeStripe] else splitTypes (inst_SupportedTypes inst))"

fun dedupe_ids :: "int list \<Rightarrow> ProviderInstance list \<Rightarrow> ProviderInstance list" where
  "dedupe_ids seen [] = []"
| "dedupe_ids seen (i # is) =
     (if inst_ID i \<in> set seen then dedupe_ids seen is else i # dedupe_ids (inst_ID i # seen) is)"

text \<open>The group of a type, empty for a type that no instance lists; and the types with a group.\<close>

definition pcGroupByPaymentType :: "ProviderInstance list \<Rightarrow> string \<Rightarrow> ProviderInstance list" where
  "pcGroupByPaymentType insts t = dedupe_ids [] (filter (\<lambda>i. t \<in> set (group_keys i)) insts)"

definition group_types :: "ProviderInstance list \<Rightarrow> string list" where
  "group_types insts = remdups (concat (map group_keys insts))"

text \<open>\<open>source m\<close> is the read of the setting with the source of the method \<open>m\<close>.\<close>

definition routed_method :: "(string \<Rightarrow> perr + string) \<Rightarrow> ProviderInstance list \<Rightarrow> string \<Rightarrow> ProviderInstance list" where
  "routed_method source insts m =
     (let matching = filterEnabledVisibleMethodInstances insts m
      in case resolveVisibleMethodProviderKey (source m) m matching of
           Inl _ \<Rightarrow> []
         | Inr k \<Rightarrow> if k = [] then matching else filterVisibleMethodInstancesByProviderKey insts m k)"

definition pcApplyEnabledVisibleMethodInstances ::
  "(string \<Rightarrow> perr + string) \<Rightarrow> ProviderInstance list \<Rightarrow> string \<Rightarrow> ProviderInstance list" where
  "pcApplyEnabledVisibleMethodInstances source insts t =
     (if group_types insts = [] then []
      else if t = TypeAlipay \<or> t = TypeWxpay then routed_method source insts t
      else pcGroupByPaymentType insts t)"

section \<open>Currencies\<close>

definition pcInstancePaymentCurrency :: "select_lib \<Rightarrow> ProviderInstance \<Rightarrow> string" where
  "pcInstancePaymentCurrency L inst =
     paymentProviderConfigCurrency (inst_ProviderKey inst)
       (case decryptConfig L (inst_Config inst) of None \<Rightarrow> [] | Some cfg \<Rightarrow> cfg)"

fun aggregate_currency :: "string \<Rightarrow> string list \<Rightarrow> string option" where
  "aggregate_currency cur [] = Some (if cur = [] then DefaultPaymentCurrency else cur)"
| "aggregate_currency cur (n # ns) =
     (if n = [] then aggregate_currency cur ns
      else if cur = [] then aggregate_currency n ns
      else if cur \<noteq> n then None
      else aggregate_currency cur ns)"

definition pcAggregateMethodCurrency :: "select_lib \<Rightarrow> ProviderInstance list \<Rightarrow> string option" where
  "pcAggregateMethodCurrency L insts = aggregate_currency [] (map (pcInstancePaymentCurrency L) insts)"

definition ValidateMethodCurrencyConsistency ::
  "select_lib \<Rightarrow> (string \<Rightarrow> perr + string) \<Rightarrow> ProviderInstance list \<Rightarrow> string \<Rightarrow> perr + string" where
  "ValidateMethodCurrencyConsistency L source insts paymentType =
     (let m = NormalizeVisibleMethod paymentType
      in if m = [] then Inr DefaultPaymentCurrency
         else
           let matching = pcApplyEnabledVisibleMethodInstances source (filter inst_Enabled insts) m
           in if matching = [] then Inr DefaultPaymentCurrency
              else (case pcAggregateMethodCurrency L matching of
                  None \<Rightarrow> Inl (AppErr ''PAYMENT_METHOD_CURRENCY_CONFLICT'') | Some currency \<Rightarrow> Inr currency))"

section \<open>Limits\<close>

record MethodLimits =
  ml_PaymentType :: string
  ml_Currency :: string
  ml_DailyLimit :: gofloat
  ml_SingleMin :: gofloat
  ml_SingleMax :: gofloat

definition pcInstanceTypeLimits :: "select_lib \<Rightarrow> string \<Rightarrow> ProviderInstance \<Rightarrow> ChannelLimits option" where
  "pcInstanceTypeLimits L pt inst =
     (if inst_Limits inst = [] then None
      else (case sl_Limits L (inst_Limits inst) of None \<Rightarrow> None | Some limits \<Rightarrow> map_of limits pt))"

definition unionFloat :: "gofloat \<times> bool \<Rightarrow> gofloat \<Rightarrow> bool \<Rightarrow> gofloat \<times> bool" where
  "unionFloat a val wantMin =
     (case a of (agg, limited) \<Rightarrow>
        if fl_eq val zero64 then (agg, False)
        else if \<not> limited then (agg, False)
        else if fl_eq agg zero64 then (val, True)
        else if wantMin \<and> fl_less val agg then (val, True)
        else if \<not> wantMin \<and> fl_less agg val then (val, True)
        else (agg, True))"

text \<open>The loop over the values of one limit, and what is shown: zero when one of them is unlimited.\<close>

definition union_all :: "bool \<Rightarrow> gofloat list \<Rightarrow> gofloat" where
  "union_all wantMin vs =
     (case foldl (\<lambda>a v. unionFloat a v wantMin) (zero64, True) vs of (agg, limited) \<Rightarrow> if limited then agg else zero64)"

fun all_limits :: "ChannelLimits option list \<Rightarrow> ChannelLimits list option" where
  "all_limits [] = Some []"
| "all_limits (None # cs) = None"
| "all_limits (Some c # cs) = map_option ((#) c) (all_limits cs)"

text \<open>An instance without limits for the method leaves all of them at zero.\<close>

definition pcAggregateMethodLimits :: "select_lib \<Rightarrow> string \<Rightarrow> ProviderInstance list \<Rightarrow> MethodLimits" where
  "pcAggregateMethodLimits L pt insts =
     (case all_limits (map (pcInstanceTypeLimits L pt) insts) of
        None \<Rightarrow> \<lparr>ml_PaymentType = pt, ml_Currency = [], ml_DailyLimit = zero64, ml_SingleMin = zero64, ml_SingleMax = zero64\<rparr>
      | Some cls \<Rightarrow> \<lparr>ml_PaymentType = pt, ml_Currency = [], ml_DailyLimit = union_all False (map cl_DailyLimit cls),
          ml_SingleMin = union_all True (map cl_SingleMin cls), ml_SingleMax = union_all False (map cl_SingleMax cls)\<rparr>)"

definition pcComputeGlobalRange :: "MethodLimits list \<Rightarrow> gofloat \<times> gofloat" where
  "pcComputeGlobalRange ms = (union_all True (map ml_SingleMin ms), union_all False (map ml_SingleMax ms))"

definition method_limits :: "select_lib \<Rightarrow> string \<Rightarrow> ProviderInstance list \<Rightarrow> MethodLimits option" where
  "method_limits L pt insts =
     (case pcAggregateMethodCurrency L insts of
        None \<Rightarrow> None | Some currency \<Rightarrow> Some (pcAggregateMethodLimits L pt insts\<lparr>ml_Currency := currency\<rparr>))"

definition GetMethodLimits :: "select_lib \<Rightarrow> ProviderInstance list \<Rightarrow> string list \<Rightarrow> MethodLimits list" where
  "GetMethodLimits L insts types =
     List.map_filter (\<lambda>pt. method_limits L pt (filter (\<lambda>i. InstanceSupportsType (inst_SupportedTypes i) pt) (filter inst_Enabled insts))) types"

text \<open>\<open>enabledTypes\<close> are the types of the configuration, when there are settings.\<close>

definition GetAvailableMethodLimits ::
  "select_lib \<Rightarrow> (string \<Rightarrow> perr + string) \<Rightarrow> string list option \<Rightarrow> ProviderInstance list \<Rightarrow> MethodLimits list \<times> (gofloat \<times> gofloat)" where
  "GetAvailableMethodLimits L source enabledTypes insts =
     (let on = filter inst_Enabled insts;
          types = remdups (group_types on @ [TypeAlipay, TypeWxpay]);
          hidden = (case enabledTypes of None \<Rightarrow> []
                    | Some ts \<Rightarrow> filter (\<lambda>k. k \<noteq> StripePaymentMode ts) [TypeStripe, TypeStripeHosted]);
          ms = List.map_filter (\<lambda>pt. let is = pcApplyEnabledVisibleMethodInstances source on pt
                 in if is = [] \<or> pt \<in> set hidden then None else method_limits L pt is) types
      in (ms, pcComputeGlobalRange ms))"

section \<open>The range is the widest one\<close>

lemma all_limits_Some: "all_limits cs = Some cls \<longleftrightarrow> cs = map Some cls"
  by (induction cs arbitrary: cls rule: all_limits.induct) (auto simp: map_eq_Cons_conv)

definition limits_ok :: "gofloat list \<Rightarrow> bool" where
  "limits_ok vs = list_all (\<lambda>v. is_finite v \<and> \<not> fl_less v zero64) vs"

text \<open>The loop: what has been seen, when nothing was unlimited, is an extreme of it.\<close>

definition extreme :: "bool \<Rightarrow> gofloat \<Rightarrow> gofloat list \<Rightarrow> bool" where
  "extreme wantMin agg vs = (if vs = [] then agg = zero64
     else agg \<in> set vs \<and> (\<forall>v\<in>set vs. if wantMin then \<not> fl_less v agg else \<not> fl_less agg v))"

lemma fl_eq_zero: "is_finite v \<Longrightarrow> fl_eq v zero64 \<longleftrightarrow> v = zero64"
  by (auto simp: fl_eq_def is_finite_def zero64_def)

lemma fl_less_num: "is_finite x \<Longrightarrow> is_finite y \<Longrightarrow> fl_less x y \<longleftrightarrow> num_rat x < num_rat y"
  by (rule fl_less_finite)

lemma union_loop:
  assumes "limits_ok vs"
  shows "foldl (\<lambda>a v. unionFloat a v wantMin) (zero64, True) vs = (agg, limited) \<Longrightarrow>
    (limited \<longleftrightarrow> zero64 \<notin> set vs) \<and> (limited \<longrightarrow> extreme wantMin agg vs)"
  using assms
proof (induction vs arbitrary: agg limited rule: rev_induct)
  case (snoc v vs)
  obtain g l where gl: "foldl (\<lambda>a v. unionFloat a v wantMin) (zero64, True) vs = (g, l)" by (meson surj_pair)
  have vs: "limits_ok vs" "is_finite v" using snoc.prems(2) by (simp_all add: limits_ok_def)
  note IH = snoc.IH [OF gl vs(1)]
  have step: "unionFloat (g, l) v wantMin = (agg, limited)" using snoc.prems(1) gl by simp
  show ?case
  proof (cases "v = zero64 \<or> \<not> l")
    case True
    with step IH vs show ?thesis by (auto simp: unionFloat_def fl_eq_zero split: if_splits)
  next
    case False
    then have ext: "extreme wantMin g vs" "zero64 \<notin> set vs" using IH by auto
    show ?thesis
    proof (cases "vs = []")
      case True
      with ext(1) False step vs(2) show ?thesis
        by (auto simp: extreme_def unionFloat_def fl_eq_zero fl_eq_def zero64_def fl_less_def split: gofloat.splits)
    next
      case nonempty: False
      with ext have g: "g \<in> set vs" "g \<noteq> zero64" by (auto simp: extreme_def)
      then have fin: "is_finite g" using vs(1) by (auto simp: limits_ok_def list_all_iff)
      have all: "\<forall>u\<in>set vs. is_finite u" using vs(1) by (auto simp: limits_ok_def list_all_iff)
      show ?thesis
        using step False ext nonempty g fin vs(2) all
        by (auto simp: unionFloat_def fl_eq_zero extreme_def fl_less_num split: if_splits)
    qed
  qed
qed (simp add: extreme_def)

lemma union_all_cases:
  assumes "limits_ok vs"
  shows "union_all wantMin vs = zero64 \<and> (vs = [] \<or> zero64 \<in> set vs) \<or>
    zero64 \<notin> set vs \<and> vs \<noteq> [] \<and> extreme wantMin (union_all wantMin vs) vs"
proof -
  obtain g l where gl: "foldl (\<lambda>a v. unionFloat a v wantMin) (zero64, True) vs = (g, l)" by (meson surj_pair)
  with union_loop [OF assms gl] show ?thesis by (cases "vs = []") (auto simp: union_all_def extreme_def)
qed

text \<open>What a single amount must satisfy for a range; a bound of zero is none.\<close>

definition in_range :: "gofloat \<Rightarrow> gofloat \<Rightarrow> gofloat \<Rightarrow> bool" where
  "in_range lo hi x = (\<not> (fl_less zero64 lo \<and> fl_less x lo) \<and> \<not> (fl_less zero64 hi \<and> fl_less hi x))"

lemma union_accepts:
  assumes ok: "limits_ok vs" and v: "v \<in> set vs" and x: "is_finite x"
  shows "\<not> (fl_less zero64 v \<and> fl_less x v) \<Longrightarrow> \<not> (fl_less zero64 (union_all True vs) \<and> fl_less x (union_all True vs))"
    and "\<not> (fl_less zero64 v \<and> fl_less v x) \<Longrightarrow> \<not> (fl_less zero64 (union_all False vs) \<and> fl_less (union_all False vs) x)"
proof -
  have z: "\<not> fl_less zero64 zero64" by (simp add: fl_less_def zero64_def)
  have fin: "is_finite u \<and> \<not> fl_less u zero64" if "u \<in> set vs" for u using ok that by (simp add: limits_ok_def list_all_iff)
  have pos: "fl_less zero64 u" if "u \<in> set vs" "zero64 \<notin> set vs" for u
  proof -
    have "is_finite u" "\<not> fl_less u zero64" "u \<noteq> zero64" using fin that by auto
    then show ?thesis by (auto simp: is_finite_def fl_less_def zero64_def less_float64_def split: gofloat.splits float64.splits)
  qed
  show "\<not> (fl_less zero64 v \<and> fl_less x v) \<Longrightarrow> \<not> (fl_less zero64 (union_all True vs) \<and> fl_less x (union_all True vs))"
    using union_all_cases [OF ok, of True] v z fin pos x
    by (auto simp: extreme_def fl_less_num not_less dest!: bspec [where x = v])
  show "\<not> (fl_less zero64 v \<and> fl_less v x) \<Longrightarrow> \<not> (fl_less zero64 (union_all False vs) \<and> fl_less (union_all False vs) x)"
    using union_all_cases [OF ok, of False] v z fin pos x
    by (auto simp: extreme_def fl_less_num not_less dest!: bspec [where x = v])
qed

end
