(* ===== verification/Pay_Create.thy ===== *)
theory Pay_Create
  imports Pay_Cancel Pay_Limits
begin

text \<open>
  The creation of orders (\<open>service/payment_order.go\<close> and the creating half of
  \<open>service/payment_stripe_hosted.go\<close>): validation, amounts, the selection of an instance, the
  transaction with its limits, the call of the provider, and what happens when that call fails. A
  statement of the transaction is one step; the row is inserted, and becomes visible, in the last
  one. The row locks of hosted orders are not modelled, so the steps of two creations interleave
  more freely here than in the database.
\<close>

section \<open>Requests\<close>

record CreateOrderRequest =
  cr_IdempotencyKey :: string
  cr_HostedSnapshot :: "snapshot option"
  cr_UserID :: int
  cr_Amount :: gofloat
  cr_PaymentType :: string
  cr_OpenID :: string
  cr_IsWeChatBrowser :: bool
  cr_OrderType :: string
  cr_PlanID :: int

text \<open>
  The parameters of the creation: the libraries; the environment variable that overrides a setting;
  the application of the WeChat credential; the errors of the return URL and of the resume token;
  the fingerprint of a hosted request (SHA-256 of JSON); the return URL, the account and the mode of
  a hosted provider, which may not be built; the title of a payment; how the column of the fee rate stores a float.
\<close>

record create_lib =
  c_select :: select_lib
  c_json :: tiers_json
  c_numbers :: number_text
  c_env :: "string option"
  c_wechat_app :: "perr + string"
  c_oauth_error :: "perr option"
  c_return_url :: "CreateOrderRequest \<Rightarrow> perr option"
  c_fingerprint :: "gofloat \<Rightarrow> int \<Rightarrow> string \<Rightarrow> string"
  c_hosted_new :: "perr option"
  c_hosted_account :: "perr + string \<times> bool"
  c_hosted_url :: "bool \<Rightarrow> perr + string"
  c_subject :: "gofloat \<Rightarrow> string"
  c_fee :: "gofloat \<Rightarrow> gofloat"

definition key_char :: "char \<Rightarrow> bool" where
  "key_char c =
     (let n = (of_char c :: nat)
      in 65 \<le> n \<and> n \<le> 90 \<or> 97 \<le> n \<and> n \<le> 122 \<or> 48 \<le> n \<and> n \<le> 57 \<or> c = CHR ''_'' \<or> c = CHR ''-'')"

definition hosted_key_ok :: "string \<Rightarrow> bool" where
  "hosted_key_ok k = (16 \<le> length k \<and> length k \<le> 128 \<and> list_all key_char k)"

definition hostedRequestFingerprint :: "create_lib \<Rightarrow> CreateOrderRequest \<Rightarrow> string" where
  "hostedRequestFingerprint C req = c_fingerprint C (cr_Amount req) (cr_PlanID req) (cr_OrderType req)"

section \<open>Amounts\<close>

definition validateCreateOrderAmountCurrency :: "create_lib \<Rightarrow> decimal_lib \<Rightarrow> gofloat \<Rightarrow> string \<Rightarrow> perr option" where
  "validateCreateOrderAmountCurrency C D amount currency =
     (case AmountToMinorUnit D (nt_Exact (c_numbers C) amount) currency of
        Inl _ \<Rightarrow> Some (AppErr ''INVALID_AMOUNT'') | Inr _ \<Rightarrow> None)"

definition calculateCreateOrderPayAmount ::
  "create_lib \<Rightarrow> decimal_lib \<Rightarrow> gofloat \<Rightarrow> gofloat \<Rightarrow> string \<Rightarrow> perr + (string \<times> gofloat)" where
  "calculateCreateOrderPayAmount C D limitAmount feeRate currency =
     (case validateCreateOrderAmountCurrency C D limitAmount currency of
        Some err \<Rightarrow> Inl err
      | None \<Rightarrow>
          let payAmountStr = CalculatePayAmountForCurrency D limitAmount feeRate currency
          in (case AmountToMinorUnit D payAmountStr currency of
              Inl _ \<Rightarrow> Inl (AppErr ''INVALID_AMOUNT'')
            | Inr _ \<Rightarrow>
                (case nt_ParseFloat (c_numbers C) payAmountStr of
                   None \<Rightarrow> Inl (AppErr ''INVALID_AMOUNT'') | Some v \<Rightarrow> Inr (payAmountStr, v))))"

definition calculateSubscriptionGatewayBaseAmount :: "decimal_lib \<Rightarrow> gofloat \<Rightarrow> gofloat \<Rightarrow> string \<Rightarrow> gofloat" where
  "calculateSubscriptionGatewayBaseAmount D amount usdToCnyRate currency =
     (let rate = normalizeSubscriptionUSDToCNYRate usdToCnyRate
      in if fl_leq rate zero64 \<or> currency \<noteq> DefaultPaymentCurrency then amount
         else d_InexactFloat64 D (d_Round D (d_NewFromFloat D amount * d_NewFromFloat D rate) (CurrencyMaxFractionDigits currency)))"

definition calculateCreateOrderPayAmountForOrderType ::
  "create_lib \<Rightarrow> decimal_lib \<Rightarrow> gofloat \<Rightarrow> gofloat \<Rightarrow> string \<Rightarrow> string \<Rightarrow> gofloat \<Rightarrow> perr + (string \<times> gofloat)" where
  "calculateCreateOrderPayAmountForOrderType C D limitAmount feeRate currency orderType usdToCnyRate =
     calculateCreateOrderPayAmount C D
       (if orderType = OrderTypeSubscription then calculateSubscriptionGatewayBaseAmount D limitAmount usdToCnyRate currency
        else limitAmount) feeRate currency"

definition validateSelectedCreateOrderAmountCurrency :: "decimal_lib \<Rightarrow> string \<Rightarrow> InstanceSelection \<Rightarrow> perr option" where
  "validateSelectedCreateOrderAmountCurrency D payAmount sel =
     (case AmountToMinorUnit D payAmount (paymentProviderConfigCurrency (is_ProviderKey sel) (is_Config sel)) of
        Inl _ \<Rightarrow> Some (AppErr ''INVALID_AMOUNT'') | Inr _ \<Rightarrow> None)"

text \<open>What is credited, what is charged and what is free; a plan has its price, a recharge its quote.\<close>

definition order_amounts ::
  "decimal_lib \<Rightarrow> PaymentConfig \<Rightarrow> CreateOrderRequest \<Rightarrow> plan_row option \<Rightarrow> string \<Rightarrow> gofloat \<times> gofloat \<times> gofloat" where
  "order_amounts D cfg req plan currency =
     (case plan of
        Some p \<Rightarrow> (pl_Price p, pl_Price p, zero64)
      | None \<Rightarrow>
          if cr_OrderType req = OrderTypeBalance
          then let q = quoteRechargeBonus D (Some cfg) (cr_Amount req) currency in (q_Credited q, q_PayBase q, q_Bonus q)
          else (cr_Amount req, cr_Amount req, zero64))"

section \<open>The snapshot of the provider\<close>

definition paymentOrderSnapshotWxpayAppID :: "InstanceSelection \<Rightarrow> CreateOrderRequest \<Rightarrow> string" where
  "paymentOrderSnapshotWxpayAppID sel req =
     (if TrimSpace (is_ProviderKey sel) \<noteq> TypeWxpay then []
      else if TrimSpace (cr_OpenID req) \<noteq> [] then TrimSpace (resolveWxpayJSAPIAppID (is_Config sel))
      else TrimSpace (meta (is_Config sel) ''appId''))"

definition snap_if :: "string \<Rightarrow> string \<Rightarrow> snapshot" where
  "snap_if k v = (if v = [] then [] else [(k, SnapStr v)])"

text \<open>An empty list is the missing snapshot.\<close>

definition buildPaymentOrderProviderSnapshot :: "InstanceSelection \<Rightarrow> CreateOrderRequest \<Rightarrow> snapshot" where
  "buildPaymentOrderProviderSnapshot sel req =
     (let k = TrimSpace (is_ProviderKey sel);
          cfg = (\<lambda>key. TrimSpace (meta (is_Config sel) key));
          currency = (''currency'', SnapStr (paymentProviderConfigCurrency k (is_Config sel)));
          fields = snap_if ''provider_instance_id'' (TrimSpace (is_InstanceID sel)) @ snap_if ''provider_key'' k @
            snap_if ''payment_mode'' (TrimSpace (is_PaymentMode sel)) @
            (if k = TypeWxpay then snap_if ''merchant_app_id'' (paymentOrderSnapshotWxpayAppID sel req) @
               snap_if ''merchant_id'' (cfg ''mchId'') @ [(''currency'', SnapStr DefaultPaymentCurrency)]
             else if k = TypeAlipay then snap_if ''merchant_app_id'' (cfg ''appId'')
             else if k = TypeEasyPay then snap_if ''merchant_id'' (cfg ''pid'')
             else if k = TypeStripe \<or> k = TypeStripeHosted then [currency]
             else if k = TypeAirwallex then snap_if ''merchant_id'' (cfg ''accountId'') @ [currency]
             else [])
      in if fields = [] then [] else (''schema_version'', SnapNum 2) # fields)"

text \<open>The keys of \<open>new\<close> replace those of the snapshot.\<close>

definition merge_snapshot :: "snapshot \<Rightarrow> snapshot \<Rightarrow> snapshot" where
  "merge_snapshot old new = new @ filter (\<lambda>p. fst p \<notin> fst ` set new) old"

section \<open>Limits\<close>

definition psStartOfDayUTC :: "gotime \<Rightarrow> gotime" where
  "psStartOfDayUTC t = time_Truncate t (24 * hour)"

definition since :: "gotime \<Rightarrow> gotime option \<Rightarrow> bool" where
  "since t x = (case x of None \<Rightarrow> False | Some v \<Rightarrow> t \<le> v)"

definition pending_count :: "int \<Rightarrow> PaymentOrder list \<Rightarrow> int" where
  "pending_count uid rs = int (length (filter (\<lambda>r. o_UserID r = uid \<and> o_Status r \<in> set [Pending, Processing]) rs))"

definition checkPendingLimit :: "int \<Rightarrow> int \<Rightarrow> (perr + unit) job" where
  "checkPendingLimit uid mx =
     or_fail (read_db ''order.count_pending'' (\<lambda>now s. Inr (pending_count uid (orders s)))) (\<lambda>c.
     if (if mx \<le> 0 then 3 else mx) \<le> c then fails (AppErr ''TOO_MANY_PENDING'') else returns_ok ())"

definition paid_today :: "int \<Rightarrow> gotime \<Rightarrow> PaymentOrder list \<Rightarrow> PaymentOrder list" where
  "paid_today uid now rs =
     filter (\<lambda>r. o_UserID r = uid \<and> o_Status r \<in> set [Paid, Recharging, Completed] \<and> since (psStartOfDayUTC now) (o_PaidAt r)) rs"

definition used_amount :: "PaymentOrder \<Rightarrow> gofloat" where
  "used_amount r = (if o_OrderType r = OrderTypeBalance then o_PayAmount r else o_Amount r)"

definition daily_use :: "int \<Rightarrow> gotime \<Rightarrow> PaymentOrder list \<Rightarrow> gofloat" where
  "daily_use uid now rs = foldl (\<lambda>used r. fl_add used (used_amount r)) zero64 (paid_today uid now rs)"

definition checkDailyLimit :: "int \<Rightarrow> gofloat \<Rightarrow> gofloat \<Rightarrow> (perr + unit) job" where
  "checkDailyLimit uid amount cap =
     (if fl_leq cap zero64 then returns_ok ()
      else or_fail (read_db ''order.daily'' (\<lambda>now s. Inr (daily_use uid now (orders s)))) (\<lambda>used.
        if fl_less cap (fl_add used amount) then fails (AppErr ''DAILY_LIMIT_EXCEEDED'') else returns_ok ()))"

text \<open>The use of a hosted order: the limit amount of its snapshot, or what it pays.\<close>

fun hosted_use :: "number_text \<Rightarrow> gofloat \<Rightarrow> PaymentOrder list \<Rightarrow> gofloat option" where
  "hosted_use N used [] = Some used"
| "hosted_use N used (r # rs) =
     (let raw = psSnapshotStringValue (map_of (o_ProviderSnapshot r) ''hosted_limit_amount'')
      in if raw \<noteq> [] then (case nt_ParseFloat N raw of None \<Rightarrow> None | Some a \<Rightarrow> hosted_use N (fl_add used a) rs)
         else hosted_use N (fl_add used (used_amount r)) rs)"

definition hosted_reserved :: "int \<Rightarrow> gotime \<Rightarrow> PaymentOrder \<Rightarrow> bool" where
  "hosted_reserved uid today r =
     (o_UserID r = uid \<and>
      (o_Status r \<in> set [Pending, Processing] \<and> today \<le> o_CreatedAt r \<or>
       o_Status r \<in> set [Paid, Recharging, Completed] \<and> since today (o_PaidAt r)))"

definition hosted_instance_use :: "ProviderInstance \<Rightarrow> gotime \<Rightarrow> PaymentOrder \<Rightarrow> bool" where
  "hosted_instance_use inst today r =
     (o_ProviderInstanceID r = Some (Itoa (inst_ID inst)) \<and> today \<le> o_CreatedAt r \<and>
      o_Status r \<in> set [Pending, Processing, Paid, Recharging, Completed])"

definition checkHostedCapacity ::
  "create_lib \<Rightarrow> ProviderInstance \<Rightarrow> int \<Rightarrow> gofloat \<Rightarrow> gofloat \<Rightarrow> gofloat \<Rightarrow> (perr + unit) job" where
  "checkHostedCapacity C inst uid payAmount limitAmount dailyLimit =
     (case (if inst_Limits inst = [] then Some [] else sl_Limits (c_select C) (inst_Limits inst)) of
        None \<Rightarrow> fails (Failure ''invalid limits'')
      | Some limits \<Rightarrow>
          let cl = (case map_of limits TypeStripeHosted of None \<Rightarrow> no_limits | Some c \<Rightarrow> c)
          in if fl_less zero64 (cl_SingleMin cl) \<and> fl_less payAmount (cl_SingleMin cl) \<or>
                fl_less zero64 (cl_SingleMax cl) \<and> fl_less (cl_SingleMax cl) payAmount
             then fails (AppErr ''NO_AVAILABLE_INSTANCE'')
             else or_fail
               (if \<not> fl_less zero64 (cl_DailyLimit cl) then returns_ok ()
                else or_fail (read_db ''order.instance_use'' (\<lambda>now s. Inr (foldl (\<lambda>used r. fl_add used (o_PayAmount r)) payAmount
                       (filter (hosted_instance_use inst (psStartOfDayUTC now)) (orders s))))) (\<lambda>used.
                  if fl_less (cl_DailyLimit cl) used then fails (AppErr ''NO_AVAILABLE_INSTANCE'') else returns_ok ())) (\<lambda>_.
               if \<not> fl_less zero64 dailyLimit then returns_ok ()
               else or_fail (read_db ''order.reserved'' (\<lambda>now s.
                      case hosted_use (c_numbers C) limitAmount (filter (hosted_reserved uid (psStartOfDayUTC now)) (orders s)) of
                        None \<Rightarrow> Inl (Failure ''invalid hosted limit amount'') | Some used \<Rightarrow> Inr used)) (\<lambda>used.
                 if fl_less dailyLimit used then fails (AppErr ''DAILY_LIMIT_EXCEEDED'') else returns_ok ())))"

section \<open>The transaction\<close>

text \<open>At most five candidates, drawn at random, are compared with the numbers in use.\<close>

fun allocateOutTradeNo :: "nat \<Rightarrow> nat \<Rightarrow> (perr + string) job" where
  "allocateOutTradeNo k 0 = fails (Failure ''generate unique out_trade_no: exhausted 5 attempts'')"
| "allocateOutTradeNo k (Suc n) =
     or_fail (db_ask ''order.exists'' (\<lambda>e s.
       let no = (case drop k (an_trade_nos e) of c # _ \<Rightarrow> c | [] \<Rightarrow> orderIDPrefix)
       in (Inr (no, list_ex (\<lambda>r. o_OutTradeNo r = no) (orders s)), s))) (\<lambda>(no, exists).
     if exists then allocateOutTradeNo (Suc k) n else returns_ok no)"

definition psComputeValidityDays :: "int \<Rightarrow> string \<Rightarrow> int" where
  "psComputeValidityDays days u =
     (if u \<in> set [''week'', ''weeks''] then wrap64 (days * 7)
      else if u \<in> set [''month'', ''months''] then wrap64 (days * 30) else days)"

definition recharge_code :: "pay_env \<Rightarrow> int \<Rightarrow> gotime \<Rightarrow> string" where
  "recharge_code E oid now =
     (let ns = wrap64 (now - pe_Unix E 0)
      in ''PAY-'' @ Itoa oid @ ''-'' @ Itoa (ns - 100000 * go_div ns 100000))"

text \<open>
  The insert and the commit: a number or an idempotency key of the user that is in use violates a
  unique index; the id is the next of its sequence, which moves on in any case.
\<close>

definition insert_order :: "pay_env \<Rightarrow> gotime \<Rightarrow> PaymentOrder \<Rightarrow> db \<Rightarrow> (perr + PaymentOrder) \<times> db" where
  "insert_order E now row s =
     (let s' = s\<lparr>next_order := next_order s + 1\<rparr>;
          row = row\<lparr>o_ID := next_order s, o_RechargeCode := recharge_code E (next_order s) now,
            o_CreatedAt := pe_persist E now, o_UpdatedAt := pe_persist E now\<rparr>
      in if o_OutTradeNo row \<noteq> [] \<and> list_ex (\<lambda>r. o_OutTradeNo r = o_OutTradeNo row) (orders s) then (Inl (Failure ''constraint''), s')
         else if o_IdempotencyKey row \<noteq> None \<and>
                 list_ex (\<lambda>r. o_UserID r = o_UserID row \<and> o_IdempotencyKey r = o_IdempotencyKey row) (orders s)
           then (Inl (Failure ''constraint''), s')
         else (Inr row, s'\<lparr>orders := orders s @ [row]\<rparr>))"

definition new_order ::
  "pay_env \<Rightarrow> create_lib \<Rightarrow> CreateOrderRequest \<Rightarrow> plan_row option \<Rightarrow> gotime \<Rightarrow> gofloat \<Rightarrow> gofloat \<Rightarrow> gofloat \<Rightarrow> gofloat \<Rightarrow> InstanceSelection \<Rightarrow> string \<Rightarrow>
   snapshot \<Rightarrow> PaymentOrder" where
  "new_order E C req plan expiry orderAmount feeRate payAmount bonusAmount sel outTradeNo snapshot =
     \<lparr>o_ID = 0, o_UserID = cr_UserID req, o_Amount = pe_cents E orderAmount, o_PayAmount = pe_cents E payAmount,
      o_BonusAmount = pe_cents E bonusAmount, o_RechargeCode = [], o_OutTradeNo = outTradeNo, o_PaymentType = cr_PaymentType req,
      o_PaymentTradeNo = [], o_PayURL = None, o_OrderType = cr_OrderType req,
      o_SubscriptionGroupID = map_option pl_GroupID plan,
      o_SubscriptionDays = map_option (\<lambda>p. psComputeValidityDays (pl_ValidityDays p) (pl_ValidityUnit p)) plan,
      o_ProviderInstanceID = (if TrimSpace (is_InstanceID sel) = [] then None else Some (TrimSpace (is_InstanceID sel))),
      o_ProviderKey = (if TrimSpace (is_ProviderKey sel) = [] then None else Some (TrimSpace (is_ProviderKey sel))),
      o_ProviderSnapshot = snapshot, o_Status = Pending, o_RefundAmount = zero64, o_RefundReason = None, o_RefundAt = None,
      o_ForceRefund = False, o_RefundRequestedAt = None, o_RefundRequestReason = None, o_RefundRequestedBy = None,
      o_ExpiresAt = pe_persist E expiry, o_PaidAt = None, o_CompletedAt = None, o_FailedAt = None, o_FailedReason = None,
      o_CreatedAt = 0, o_UpdatedAt = 0, o_FeeRate = c_fee C feeRate, o_PlanID = map_option pl_ID plan,
      o_IdempotencyKey = (if cr_PaymentType req = TypeStripeHosted then Some (cr_IdempotencyKey req) else None)\<rparr>"

text \<open>The configuration that was selected is still the one of the instance, which is enabled.\<close>

definition same_config :: "config option \<Rightarrow> config \<Rightarrow> bool" where
  "same_config cur cfg =
     (case cur of None \<Rightarrow> False
      | Some c \<Rightarrow> list_all (\<lambda>k. map_of c k = map_of cfg k) (map fst c @ map fst cfg))"

definition provider_unchanged :: "create_lib \<Rightarrow> ProviderInstance \<Rightarrow> InstanceSelection \<Rightarrow> bool" where
  "provider_unchanged C inst sel =
     (let cur = decryptConfig (c_select C) (inst_Config inst);
          cur = (case cur of Some c \<Rightarrow> Some (if inst_PaymentMode inst \<noteq> [] then set_config ''paymentMode'' (inst_PaymentMode inst) c else c)
                 | None \<Rightarrow> None)
      in inst_Enabled inst \<and> inst_ProviderKey inst = TypeStripeHosted \<and> same_config cur (is_Config sel))"

text \<open>The earlier order of a hosted request; \<open>None\<close> when there is none.\<close>

definition prior_order :: "CreateOrderRequest \<Rightarrow> (perr + PaymentOrder option) job" where
  "prior_order req = read_db ''order.prior'' (\<lambda>now s.
     case filter (\<lambda>r. o_UserID r = cr_UserID req \<and> o_IdempotencyKey r = Some (cr_IdempotencyKey req)) (orders s) of
       [] \<Rightarrow> Inr None | [r] \<Rightarrow> Inr (Some r) | _ \<Rightarrow> Inl DbFailure)"

definition same_request :: "create_lib \<Rightarrow> CreateOrderRequest \<Rightarrow> PaymentOrder \<Rightarrow> bool" where
  "same_request C req r =
     (psSnapshotStringValue (map_of (o_ProviderSnapshot r) ''request_fingerprint'') = hostedRequestFingerprint C req)"

text \<open>A query of the users leaves out the deleted ones.\<close>

definition live_user :: "db \<Rightarrow> int \<Rightarrow> bool" where
  "live_user s uid = (case users s uid of None \<Rightarrow> False | Some u \<Rightarrow> \<not> u_Deleted u)"

text \<open>The checks of a hosted order inside the transaction: an earlier order, or that one may be made.\<close>

definition hosted_in_tx ::
  "create_lib \<Rightarrow> CreateOrderRequest \<Rightarrow> PaymentConfig \<Rightarrow> gofloat \<Rightarrow> gofloat \<Rightarrow> InstanceSelection \<Rightarrow> (perr + PaymentOrder option) job" where
  "hosted_in_tx C req cfg payAmount limitAmount sel =
     or_fail (read_db ''user.lock'' (\<lambda>now s. if live_user s (cr_UserID req) then Inr () else Inl NotFound)) (\<lambda>_.
     or_fail (prior_order req) (\<lambda>prior.
     case prior of
       Some r \<Rightarrow> if same_request C req r then returns_ok (Some r) else fails (AppErr ''IDEMPOTENCY_CONFLICT'')
     | None \<Rightarrow>
         (case ParseInt (is_InstanceID sel) of
            None \<Rightarrow> fails (Failure ''invalid instance id'')
          | Some i \<Rightarrow>
              or_fail (read_db ''instance.lock'' (\<lambda>now s. case find_instance i (instances s) of None \<Rightarrow> Inl NotFound | Some inst \<Rightarrow> Inr inst)) (\<lambda>inst.
              if \<not> provider_unchanged C inst sel then fails (AppErr ''PROVIDER_CHANGED'')
              else or_fail (checkHostedCapacity C inst (cr_UserID req) payAmount limitAmount (pc_DailyLimit cfg)) (\<lambda>_. returns_ok None)))))"

definition order_timeout :: "PaymentConfig \<Rightarrow> string \<Rightarrow> int" where
  "order_timeout cfg paymentType =
     (let tm = (if pc_OrderTimeoutMin cfg \<le> 0 then 30 else pc_OrderTimeoutMin cfg)
      in if paymentType = TypeStripeHosted then max 31 (min tm 1440) else tm)"

text \<open>A hosted order adds its frozen parameters to the snapshot, and the expiry in Unix seconds.\<close>

definition createOrderInTx ::
  "pay_env \<Rightarrow> create_lib \<Rightarrow> CreateOrderRequest \<Rightarrow> plan_row option \<Rightarrow> PaymentConfig \<Rightarrow> gofloat \<Rightarrow> gofloat \<Rightarrow> gofloat \<Rightarrow> gofloat \<Rightarrow> gofloat \<Rightarrow>
   InstanceSelection \<Rightarrow> (perr + PaymentOrder) job" where
  "createOrderInTx E C req plan cfg orderAmount limitAmount feeRate payAmount bonusAmount sel =
     or_fail (if cr_PaymentType req = TypeStripeHosted then hosted_in_tx C req cfg payAmount limitAmount sel else returns_ok None) (\<lambda>prior.
     case prior of
       Some r \<Rightarrow> returns_ok r
     | None \<Rightarrow>
         or_fail (checkPendingLimit (cr_UserID req) (pc_MaxPendingOrders cfg)) (\<lambda>_.
         or_fail (checkDailyLimit (cr_UserID req) limitAmount (pc_DailyLimit cfg)) (\<lambda>_.
         and_then (ask an_now) (\<lambda>start.
         let expiry = time_Add start (wrap64 (order_timeout cfg (cr_PaymentType req) * minute))
         in or_fail (allocateOutTradeNo 0 5) (\<lambda>outTradeNo.
            let base = buildPaymentOrderProviderSnapshot sel req;
                snapshot = (case cr_HostedSnapshot req of
                    None \<Rightarrow> base
                  | Some extra \<Rightarrow> merge_snapshot base
                      (merge_snapshot extra [(''hosted_expires_at'', SnapStr (Itoa ((expiry - pe_Unix E 0) div 1000000000)))]))
            in db_call ''order.create'' (\<lambda>now s. insert_order E now
                 (new_order E C req plan expiry orderAmount feeRate payAmount bonusAmount sel outTradeNo snapshot) s))))))"

section \<open>Validation\<close>

definition validateSubOrder :: "CreateOrderRequest \<Rightarrow> (perr + plan_row) job" where
  "validateSubOrder req =
     (if cr_PlanID req = 0 then fails (AppErr ''INVALID_INPUT'')
      else and_then (read_db ''plan.get'' (\<lambda>now s. case plans s (cr_PlanID req) of None \<Rightarrow> Inl NotFound | Some p \<Rightarrow> Inr p)) (\<lambda>r.
        case r of
          Inl _ \<Rightarrow> fails (AppErr ''PLAN_NOT_AVAILABLE'')
        | Inr p \<Rightarrow>
            if \<not> pl_ForSale p then fails (AppErr ''PLAN_NOT_AVAILABLE'')
            else and_then (read_db ''group.get'' (\<lambda>now s. case groups s (pl_GroupID p) of None \<Rightarrow> Inl NotFound | Some g \<Rightarrow> Inr g)) (\<lambda>r.
              case r of
                Inl _ \<Rightarrow> fails (AppErr ''GROUP_NOT_FOUND'')
              | Inr g \<Rightarrow>
                  if \<not> g_Active g then fails (AppErr ''GROUP_NOT_FOUND'')
                  else if \<not> g_IsSubscriptionType g then fails (AppErr ''GROUP_TYPE_MISMATCH'')
                  else returns_ok p)))"

definition amount_error :: "PaymentConfig \<Rightarrow> gofloat \<Rightarrow> perr option" where
  "amount_error cfg amount =
     (if \<not> is_finite amount \<or> fl_leq amount zero64 then Some (AppErr ''INVALID_AMOUNT'')
      else if fl_less zero64 (pc_MinAmount cfg) \<and> fl_less amount (pc_MinAmount cfg) \<or>
              fl_less zero64 (pc_MaxAmount cfg) \<and> fl_less (pc_MaxAmount cfg) amount then Some (AppErr ''INVALID_AMOUNT'')
      else None)"

definition validateOrderInput :: "PaymentConfig \<Rightarrow> CreateOrderRequest \<Rightarrow> (perr + plan_row option) job" where
  "validateOrderInput cfg req =
     (if cr_OrderType req = OrderTypeBalance \<and> pc_BalanceDisabled cfg then fails (AppErr ''BALANCE_PAYMENT_DISABLED'')
      else if cr_OrderType req = OrderTypeSubscription then or_fail (validateSubOrder req) (\<lambda>p. returns_ok (Some p))
      else (case amount_error cfg (cr_Amount req) of Some err \<Rightarrow> fails err | None \<Rightarrow> returns_ok None))"

text \<open>Whether the user's account is active.\<close>

definition UserIsActive :: "int \<Rightarrow> (perr + bool) job" where
  "UserIsActive uid = read_db ''user.get''
     (\<lambda>now s. case users s uid of
        Some u \<Rightarrow> if u_Deleted u then Inl (AppErr ''USER_NOT_FOUND'') else Inr (u_Active u)
      | None \<Rightarrow> Inl (AppErr ''USER_NOT_FOUND''))"

text \<open>The publishable key of the first enabled Stripe instance is for display only.\<close>

definition getStripePublishableKey :: "select_lib \<Rightarrow> ProviderInstance list \<Rightarrow> string" where
  "getStripePublishableKey L insts =
     (case filter (\<lambda>i. inst_Enabled i \<and> inst_ProviderKey i = TypeStripe) insts of
        [] \<Rightarrow> []
      | i # _ \<Rightarrow> (case decryptConfig L (inst_Config i) of None \<Rightarrow> [] | Some cfg \<Rightarrow> meta cfg ''publishableKey''))"

definition GetPaymentConfig :: "create_lib \<Rightarrow> decimal_lib \<Rightarrow> (perr + PaymentConfig) job" where
  "GetPaymentConfig C D =
     or_fail (read_db ''settings.get''
       (\<lambda>now s. Inr (parsePaymentConfig (c_json C) D (c_numbers C) (c_env C) (stored_settings s)))) (\<lambda>cfg.
     and_then (read_db ''instance.list'' (\<lambda>now s. Inr (getStripePublishableKey (c_select C) (instances s)))) (\<lambda>r.
     returns_ok (cfg\<lparr>pc_StripePublishableKey := (case r of Inl _ \<Rightarrow> [] | Inr k \<Rightarrow> k)\<rparr>)))"

section \<open>The selection\<close>

text \<open>The setting with the source of a method is read in the step that reads the instances.\<close>

definition visible_source :: "db \<Rightarrow> string \<Rightarrow> perr + string" where
  "visible_source s m = Inr (setting (stored_settings s) (visibleMethodSourceSettingKey m))"

definition MethodCurrency :: "create_lib \<Rightarrow> string \<Rightarrow> (perr + string) job" where
  "MethodCurrency C paymentType = read_db ''instance.list''
     (\<lambda>now s. ValidateMethodCurrencyConsistency (c_select C) (visible_source s) (instances s) paymentType)"

definition requestNeedsWeChatJSAPICompatibility :: "CreateOrderRequest \<Rightarrow> bool" where
  "requestNeedsWeChatJSAPICompatibility req =
     (GetBasePaymentType (cr_PaymentType req) = TypeWxpay \<and> (cr_IsWeChatBrowser req \<or> TrimSpace (cr_OpenID req) \<noteq> []))"

definition usesOfficialWxpayVisibleMethod :: "bool job" where
  "usesOfficialWxpayVisibleMethod =
     and_then (read_db ''instance.list''
       (\<lambda>now s. resolveEnabledVisibleMethodInstance (visible_source s TypeWxpay) (instances s) TypeWxpay))
     (\<lambda>r. Return (r = Inr (Some TypeWxpay)))"

definition expected_app :: "create_lib \<Rightarrow> CreateOrderRequest \<Rightarrow> (perr + string) job" where
  "expected_app C req =
     (if \<not> requestNeedsWeChatJSAPICompatibility req then returns_ok []
      else and_then usesOfficialWxpayVisibleMethod (\<lambda>official.
        if \<not> official then returns_ok []
        else (case c_wechat_app C of Inl err \<Rightarrow> fails err | Inr app \<Rightarrow> returns_ok (TrimSpace app))))"

definition candidates :: "create_lib \<Rightarrow> string \<Rightarrow> string \<Rightarrow> db \<Rightarrow> perr + ProviderInstance list" where
  "candidates C paymentType app s =
     (case route_method (visible_source s (NormalizeVisibleMethod paymentType)) (instances s) [] paymentType of
        Inl err \<Rightarrow> Inl err
      | Inr providerKey \<Rightarrow> queryEnabledInstances (c_select C) (instances s) providerKey paymentType app)"

definition stripe_mode_error :: "PaymentConfig \<Rightarrow> InstanceSelection \<Rightarrow> bool" where
  "stripe_mode_error cfg sel =
     ((is_ProviderKey sel = TypeStripe \<or> is_ProviderKey sel = TypeStripeHosted) \<and>
      is_ProviderKey sel \<noteq> StripePaymentMode (pc_EnabledTypes cfg))"

definition selectCreateOrderInstance ::
  "pay_env \<Rightarrow> create_lib \<Rightarrow> CreateOrderRequest \<Rightarrow> PaymentConfig \<Rightarrow> gofloat \<Rightarrow> (perr + InstanceSelection) job" where
  "selectCreateOrderInstance E C req cfg payAmount =
     or_fail (expected_app C req) (\<lambda>app.
     and_then (read_db ''instance.list'' (\<lambda>now s. candidates C (cr_PaymentType req) app s)) (\<lambda>r.
     case r of
       Inl _ \<Rightarrow> fails (AppErr ''PAYMENT_GATEWAY_ERROR'')
     | Inr matched \<Rightarrow>
         and_then (read_db ''order.usage'' (\<lambda>now s. Inr (attachDailyUsage (c_select C) E now (Some (orders s)) matched))) (\<lambda>r.
         and_then (ask an_counter) (\<lambda>counter.
         let cands = (case r of Inl _ \<Rightarrow> map (\<lambda>i. (i, zero64)) matched | Inr cs \<Rightarrow> cs);
             sel = buildSelection (c_select C)
               (fst (fst (pickByStrategy (available_candidates (c_select C) cands (cr_PaymentType req) payAmount) (pc_LoadBalanceStrategy cfg) counter)))
         in if stripe_mode_error cfg sel then fails (AppErr ''PAYMENT_TYPE_DISABLED'') else returns_ok sel))))"

definition validateSelectedCreateOrderInstance :: "create_lib \<Rightarrow> CreateOrderRequest \<Rightarrow> InstanceSelection \<Rightarrow> perr option" where
  "validateSelectedCreateOrderInstance C req sel =
     (if is_ProviderKey sel \<noteq> TypeWxpay \<or> \<not> requestNeedsWeChatJSAPICompatibility req then None
      else (case c_wechat_app C of
          Inl err \<Rightarrow> Some err
        | Inr app \<Rightarrow>
            if resolveWxpayJSAPIAppID (is_Config sel) = [] \<or> resolveWxpayJSAPIAppID (is_Config sel) \<noteq> app
            then Some (AppErr ''NO_AVAILABLE_INSTANCE'') else None))"

definition needs_oauth :: "CreateOrderRequest \<Rightarrow> InstanceSelection \<Rightarrow> bool" where
  "needs_oauth req sel =
     ((is_ProviderKey sel = [] \<or> is_ProviderKey sel = TypeWxpay) \<and> TrimSpace (cr_OpenID req) = [] \<and>
      cr_IsWeChatBrowser req \<and> GetBasePaymentType (cr_PaymentType req) = TypeWxpay)"

section \<open>The provider\<close>

definition without_NUL :: "string \<Rightarrow> string" where
  "without_NUL s = filter (\<lambda>c. c \<noteq> CHR 0x00) s"

definition classifyCreatePaymentError :: "CreateOrderRequest \<Rightarrow> string \<Rightarrow> perr \<Rightarrow> perr" where
  "classifyCreatePaymentError req providerKey err =
     (case err of
        AppErr r \<Rightarrow> AppErr r
      | Failure msg \<Rightarrow>
          if providerKey = TypeWxpay \<and> GetBasePaymentType (cr_PaymentType req) = TypeWxpay \<and>
             Contains msg ''wxpay h5 payments are not authorized for this merchant''
          then AppErr ''WECHAT_H5_NOT_AUTHORIZED'' else AppErr ''PAYMENT_GATEWAY_ERROR''
      | _ \<Rightarrow> AppErr ''PAYMENT_GATEWAY_ERROR'')"

definition invokeProvider :: "pay_env \<Rightarrow> create_lib \<Rightarrow> PaymentOrder \<Rightarrow> CreateOrderRequest \<Rightarrow> InstanceSelection \<Rightarrow> (perr + unit) job" where
  "invokeProvider E C ord req sel =
     and_then (ask an_provider) (\<lambda>p.
     case p of
       Inl (AppErr r) \<Rightarrow> fails (AppErr r)
     | Inl _ \<Rightarrow> fails (AppErr ''PAYMENT_PROVIDER_MISCONFIGURED'')
     | Inr _ \<Rightarrow>
         (case c_return_url C req of
            Some err \<Rightarrow> fails err
          | None \<Rightarrow>
              and_then (ask an_create) (\<lambda>c.
              case c of
                Inl err \<Rightarrow> fails (classifyCreatePaymentError req (is_ProviderKey sel) err)
              | Inr pr \<Rightarrow>
                  or_fail (UpdateOrderByID E (o_ID ord) (\<lambda>now r. r
                    \<lparr>o_PaymentTradeNo := (if without_NUL (cp_TradeNo pr) = [] then o_PaymentTradeNo r else without_NUL (cp_TradeNo pr)),
                     o_PayURL := (if without_NUL (cp_PayURL pr) = [] then o_PayURL r else Some (without_NUL (cp_PayURL pr))),
                     o_ProviderInstanceID := (if is_InstanceID sel = [] then o_ProviderInstanceID r else Some (is_InstanceID sel)),
                     o_ProviderKey := (if is_ProviderKey sel = [] then o_ProviderKey r else Some (is_ProviderKey sel))\<rparr>)) (\<lambda>_.
                  and_then (writeAuditLog (o_ID ord) ''ORDER_CREATED'' (''user:'' @ Itoa (cr_UserID req)) NoDetail)
                    (\<lambda>_. returns_ok ())))))"

section \<open>The whole creation\<close>

datatype create_result = OAuthRequired | OrderCreated PaymentOrder

definition hostedRequestOrder :: "create_lib \<Rightarrow> CreateOrderRequest \<Rightarrow> (perr + PaymentOrder option) job" where
  "hostedRequestOrder C req =
     or_fail (prior_order req) (\<lambda>prior.
     case prior of
       None \<Rightarrow> returns_ok None
     | Some r \<Rightarrow> if o_PaymentType r \<noteq> TypeStripeHosted \<or> \<not> same_request C req r then fails (AppErr ''IDEMPOTENCY_CONFLICT'')
                 else returns_ok (Some r))"

text \<open>The frozen parameters of a hosted order.\<close>

definition hosted_snapshot ::
  "create_lib \<Rightarrow> CreateOrderRequest \<Rightarrow> string \<Rightarrow> bool \<Rightarrow> string \<Rightarrow> gofloat \<Rightarrow> string \<Rightarrow> snapshot" where
  "hosted_snapshot C req account live amountStr limitAmount returnURL =
     [(''request_fingerprint'', SnapStr (hostedRequestFingerprint C req)), (''account_id'', SnapStr account),
      (''livemode'', SnapStr (FormatBool live)), (''hosted_amount'', SnapStr amountStr),
      (''hosted_limit_amount'', SnapStr (nt_Exact (c_numbers C) limitAmount)), (''hosted_subject'', SnapStr (c_subject C limitAmount)),
      (''hosted_return_url'', SnapStr returnURL)]"

text \<open>A violated unique index means that another request with the key was faster.\<close>

definition store_hosted ::
  "pay_env \<Rightarrow> create_lib \<Rightarrow> CreateOrderRequest \<Rightarrow> plan_row option \<Rightarrow> PaymentConfig \<Rightarrow> gofloat \<Rightarrow> gofloat \<Rightarrow> gofloat \<Rightarrow> gofloat \<Rightarrow>
   InstanceSelection \<Rightarrow> (perr + PaymentOrder) job" where
  "store_hosted E C req plan cfg orderAmount limitAmount payAmount bonusAmount sel =
     and_then (createOrderInTx E C req plan cfg orderAmount limitAmount (pc_RechargeFeeRate cfg) payAmount bonusAmount sel) (\<lambda>r.
     case r of
       Inr ord \<Rightarrow> resumeHostedCreation E ord
     | Inl err \<Rightarrow>
         if err = Failure ''constraint'' then
           and_then (hostedRequestOrder C req) (\<lambda>p.
           case p of Inr (Some prior) \<Rightarrow> resumeHostedCreation E prior | _ \<Rightarrow> fails err)
         else fails err)"

definition createHostedOrder :: "pay_env \<Rightarrow> create_lib \<Rightarrow> CreateOrderRequest \<Rightarrow> (perr + PaymentOrder) job" where
  "createHostedOrder E C req =
     (let req = (if cr_OrderType req = [] then req\<lparr>cr_OrderType := OrderTypeBalance\<rparr> else req); D = pe_decimal E
      in if \<not> hosted_key_ok (cr_IdempotencyKey req) then fails (AppErr ''INVALID_IDEMPOTENCY_KEY'')
         else if cr_OrderType req \<notin> set [OrderTypeBalance, OrderTypeSubscription] then fails (AppErr ''INVALID_ORDER_TYPE'')
         else or_fail (UserIsActive (cr_UserID req)) (\<lambda>active.
         if \<not> active then fails (AppErr ''USER_INACTIVE'')
         else or_fail (hostedRequestOrder C req) (\<lambda>previous.
         case previous of
           Some ord \<Rightarrow> resumeHostedCreation E ord
         | None \<Rightarrow>
             or_fail (GetPaymentConfig C D) (\<lambda>cfg.
             if \<not> pc_Enabled cfg \<or> TypeStripeHosted \<notin> set (pc_EnabledTypes cfg) then fails (AppErr ''PAYMENT_DISABLED'')
             else or_fail (validateOrderInput cfg req) (\<lambda>plan.
             or_fail (checkCancelRateLimit E cfg (cr_UserID req)) (\<lambda>_.
             or_fail (MethodCurrency C TypeStripeHosted) (\<lambda>currency.
             case order_amounts D cfg req plan currency of (orderAmount, limitAmount, bonusAmount) \<Rightarrow>
             (case calculateCreateOrderPayAmountForOrderType C D limitAmount (pc_RechargeFeeRate cfg) currency (cr_OrderType req)
                 (pc_SubscriptionUSDToCNYRate cfg) of
                Inl err \<Rightarrow> fails err
              | Inr (amountStr, payAmount) \<Rightarrow>
                  or_fail (selectCreateOrderInstance E C req cfg payAmount) (\<lambda>sel.
                  if is_ProviderKey sel \<noteq> TypeStripeHosted then fails (AppErr ''INVALID_PROVIDER'')
                  else (case first_error [validateSelectedCreateOrderInstance C req sel,
                      (if paymentProviderConfigCurrency (is_ProviderKey sel) (is_Config sel) \<noteq> currency
                       then Some (AppErr ''CURRENCY_MISMATCH'') else None),
                      validateSelectedCreateOrderAmountCurrency D amountStr sel] of
                    Some err \<Rightarrow> fails err
                  | None \<Rightarrow>
                      if c_hosted_new C \<noteq> None then fails (the (c_hosted_new C))
                      else (case c_hosted_account C of
                         Inl _ \<Rightarrow> fails (AppErr ''PAYMENT_PROVIDER_UNAVAILABLE'')
                       | Inr (account, live) \<Rightarrow>
                           (case c_hosted_url C live of
                              Inl err \<Rightarrow> fails err
                            | Inr returnURL \<Rightarrow>
                                let req = req\<lparr>cr_HostedSnapshot := Some (hosted_snapshot C req account live amountStr limitAmount returnURL)\<rparr>
                                in store_hosted E C req plan cfg orderAmount limitAmount payAmount bonusAmount
                                     (sel\<lparr>is_PaymentMode := ''redirect''\<rparr>)))))))))))))"

text \<open>
  The order of a request that is not hosted. The provider is called after the order exists; if that
  fails, the order is marked as failed, whatever has happened to it since.
\<close>

definition store_and_invoke ::
  "pay_env \<Rightarrow> create_lib \<Rightarrow> CreateOrderRequest \<Rightarrow> plan_row option \<Rightarrow> PaymentConfig \<Rightarrow> gofloat \<Rightarrow> gofloat \<Rightarrow> gofloat \<Rightarrow> gofloat \<Rightarrow>
   InstanceSelection \<Rightarrow> (perr + create_result) job" where
  "store_and_invoke E C req plan cfg orderAmount limitAmount payAmount bonusAmount sel =
     or_fail (createOrderInTx E C req plan cfg orderAmount limitAmount (pc_RechargeFeeRate cfg) payAmount bonusAmount sel) (\<lambda>ord.
     and_then (invokeProvider E C ord req sel) (\<lambda>r.
     case r of
       Inr _ \<Rightarrow> returns_ok (OrderCreated ord)
     | Inl err \<Rightarrow> and_then (UpdateOrderByID E (o_ID ord) (\<lambda>now r. r\<lparr>o_Status := OrderFailed\<rparr>)) (\<lambda>_. fails err)))"

definition createPlainOrder :: "pay_env \<Rightarrow> create_lib \<Rightarrow> CreateOrderRequest \<Rightarrow> (perr + create_result) job" where
  "createPlainOrder E C req =
     (let req = (if cr_OrderType req = [] then req\<lparr>cr_OrderType := OrderTypeBalance\<rparr> else req); D = pe_decimal E
      in or_fail (GetPaymentConfig C D) (\<lambda>cfg.
         if \<not> pc_Enabled cfg then fails (AppErr ''PAYMENT_DISABLED'')
         else if cr_PaymentType req = TypeStripe \<and> StripePaymentMode (pc_EnabledTypes cfg) \<noteq> TypeStripe
           then fails (AppErr ''PAYMENT_TYPE_DISABLED'')
         else or_fail (validateOrderInput cfg req) (\<lambda>plan.
         or_fail (checkCancelRateLimit E cfg (cr_UserID req)) (\<lambda>_.
         or_fail (UserIsActive (cr_UserID req)) (\<lambda>active.
         if \<not> active then fails (AppErr ''USER_INACTIVE'')
         else or_fail (MethodCurrency C (cr_PaymentType req)) (\<lambda>methodCurrency.
         case order_amounts D cfg req plan methodCurrency of (orderAmount, limitAmount, bonusAmount) \<Rightarrow>
         (case calculateCreateOrderPayAmountForOrderType C D limitAmount (pc_RechargeFeeRate cfg) methodCurrency (cr_OrderType req)
             (pc_SubscriptionUSDToCNYRate cfg) of
            Inl err \<Rightarrow> fails err
          | Inr (amountStr, payAmount) \<Rightarrow>
              or_fail (selectCreateOrderInstance E C req cfg payAmount) (\<lambda>sel.
              case validateSelectedCreateOrderInstance C req sel of
                Some err \<Rightarrow> fails err
              | None \<Rightarrow>
                  let selectedCurrency = paymentProviderConfigCurrency (is_ProviderKey sel) (is_Config sel)
                  in (case (if selectedCurrency = methodCurrency then Inr (amountStr, payAmount)
                        else calculateCreateOrderPayAmountForOrderType C D limitAmount (pc_RechargeFeeRate cfg) selectedCurrency
                          (cr_OrderType req) (pc_SubscriptionUSDToCNYRate cfg)) of
                      Inl err \<Rightarrow> fails err
                    | Inr (amountStr, payAmount) \<Rightarrow>
                        (case validateSelectedCreateOrderAmountCurrency D amountStr sel of
                           Some err \<Rightarrow> fails err
                         | None \<Rightarrow>
                             if needs_oauth req sel then
                               (case c_wechat_app C of
                                  Inl err \<Rightarrow> fails err
                                | Inr _ \<Rightarrow> (case c_oauth_error C of Some err \<Rightarrow> fails err | None \<Rightarrow> returns_ok OAuthRequired))
                             else store_and_invoke E C req plan cfg orderAmount limitAmount payAmount bonusAmount sel))))))))))"

definition CreateOrder :: "pay_env \<Rightarrow> create_lib \<Rightarrow> CreateOrderRequest \<Rightarrow> (perr + create_result) job" where
  "CreateOrder E C req =
     (let req = (if NormalizeVisibleMethod (cr_PaymentType req) \<noteq> []
                 then req\<lparr>cr_PaymentType := NormalizeVisibleMethod (cr_PaymentType req)\<rparr> else req)
      in if cr_PaymentType req = TypeStripeHosted
         then or_fail (createHostedOrder E C req) (\<lambda>ord. returns_ok (OrderCreated ord))
         else createPlainOrder E C req)"

section \<open>Lists of orders\<close>

record OrderListParams =
  lp_Page :: int
  lp_PageSize :: int
  lp_Status :: "order_status option"
  lp_OrderType :: string
  lp_PaymentType :: string

definition applyPagination :: "int \<Rightarrow> int \<Rightarrow> int \<times> int" where
  "applyPagination pageSize page =
     (min 100 (if pageSize \<le> 0 then 20 else pageSize), max 1 page)"

definition list_filter :: "OrderListParams \<Rightarrow> PaymentOrder \<Rightarrow> bool" where
  "list_filter p r =
     ((case lp_Status p of None \<Rightarrow> True | Some st \<Rightarrow> o_Status r = st) \<and>
      (lp_OrderType p \<noteq> [] \<longrightarrow> o_OrderType r = lp_OrderType p) \<and>
      (lp_PaymentType p \<noteq> [] \<longrightarrow> o_PaymentType r = lp_PaymentType p))"

text \<open>The newest orders first; the page and the number of all that match.\<close>

definition user_orders_page :: "int \<Rightarrow> OrderListParams \<Rightarrow> PaymentOrder list \<Rightarrow> PaymentOrder list \<times> nat" where
  "user_orders_page uid p rs =
     (let found = filter (\<lambda>r. o_UserID r = uid \<and> list_filter p r) rs
      in case applyPagination (lp_PageSize p) (lp_Page p) of
           (ps, pg) \<Rightarrow> (take (nat ps) (drop (nat ((pg - 1) * ps)) (sort_key (\<lambda>r. - o_CreatedAt r) found)), length found))"

definition GetUserOrders :: "int \<Rightarrow> OrderListParams \<Rightarrow> (perr + PaymentOrder list \<times> nat) job" where
  "GetUserOrders uid p = read_db ''order.list'' (\<lambda>now s. Inr (user_orders_page uid p (orders s)))"

definition GetOrderOfUser :: "int \<Rightarrow> int \<Rightarrow> (perr + PaymentOrder) job" where
  "GetOrderOfUser oid uid =
     and_then (GetOrder oid) (\<lambda>r.
     case r of
       Inl _ \<Rightarrow> fails (AppErr ''NOT_FOUND'')
     | Inr ord \<Rightarrow> if o_UserID ord \<noteq> uid then fails (AppErr ''FORBIDDEN'') else returns_ok ord)"

end
