(* ===== verification/Pay_Refund.thy ===== *)
theory Pay_Refund
  imports Pay_Cancel Resil_Retry_Hint
begin

text \<open>
  Refunds (\<open>payment_refund.go\<close> and \<open>payment_stripe_hosted_refund.go\<close>): the user's request, the
  administrator's plan, the deduction, the call of the gateway, and what its three outcomes do to
  the order and to the deduction; and the journalled refund of hosted orders.
\<close>

section \<open>The request of a user\<close>

definition RefundProviderInstance :: "PaymentOrder \<Rightarrow> (perr + ProviderInstance option) job" where
  "RefundProviderInstance ord = read_db ''instance.get'' (\<lambda>now s. getRefundOrderProviderInstance ord (instances s))"

definition validateRefundRequest :: "int \<Rightarrow> int \<Rightarrow> (perr + PaymentOrder) job" where
  "validateRefundRequest oid uid =
     and_then (GetOrder oid) (\<lambda>r.
     case r of
       Inl _ \<Rightarrow> fails (AppErr ''NOT_FOUND'')
     | Inr ord \<Rightarrow>
         if o_UserID ord \<noteq> uid then fails (AppErr ''FORBIDDEN'')
         else if o_OrderType ord \<noteq> OrderTypeBalance then fails (AppErr ''INVALID_ORDER_TYPE'')
         else if o_Status ord \<noteq> Completed then fails (AppErr ''INVALID_STATUS'')
         else and_then (RefundProviderInstance ord) (\<lambda>i.
           case i of
             Inr (Some inst) \<Rightarrow>
               if inst_AllowUserRefund inst then returns_ok ord else fails (AppErr ''USER_REFUND_DISABLED'')
           | _ \<Rightarrow> fails (AppErr ''USER_REFUND_DISABLED'')))"

definition RequestRefund :: "pay_env \<Rightarrow> int \<Rightarrow> int \<Rightarrow> string \<Rightarrow> (perr + unit) job" where
  "RequestRefund E oid uid reason =
     or_fail (validateRefundRequest oid uid) (\<lambda>ord.
     or_fail (GetUser E (o_UserID ord)) (\<lambda>balance.
     if fl_less balance (o_Amount ord) then fails (AppErr ''BALANCE_NOT_ENOUGH'')
     else or_fail (UpdateOrder E oid
         (\<lambda>now r. o_UserID r = uid \<and> o_Status r = Completed \<and> o_OrderType r = OrderTypeBalance)
         (\<lambda>now r. r\<lparr>o_Status := RefundRequested, o_RefundRequestedAt := Some now,
            o_RefundRequestReason := Some (TrimSpace reason), o_RefundRequestedBy := Some (Itoa uid),
            o_RefundAmount := pe_cents E (o_Amount ord)\<rparr>)) (\<lambda>c.
       if c = 0 then fails (AppErr ''CONFLICT'')
       else and_then (writeAuditLog oid ''REFUND_REQUESTED'' (''user:'' @ Itoa uid) NoDetail) (\<lambda>_. returns_ok ()))))"

section \<open>The plan\<close>

datatype deduction = DeductNone | DeductBalance | DeductSubscription

record RefundPlan =
  rp_Order :: PaymentOrder
  rp_RefundAmount :: gofloat
  rp_GatewayAmount :: gofloat
  rp_Reason :: string
  rp_Force :: bool
  rp_DeductionType :: deduction
  rp_BalanceToDeduct :: gofloat
  rp_SubDaysToDeduct :: int
  rp_SubscriptionID :: int

abbreviation rp_OrderID :: "RefundPlan \<Rightarrow> int" where "rp_OrderID p \<equiv> o_ID (rp_Order p)"

record RefundResult =
  rf_Success :: bool
  rf_Warning :: string
  rf_RequireForce :: bool
  rf_BalanceDeducted :: gofloat
  rf_SubDaysDeducted :: int

definition warning :: "string \<Rightarrow> RefundResult" where
  "warning w = \<lparr>rf_Success = False, rf_Warning = w, rf_RequireForce = False, rf_BalanceDeducted = zero64, rf_SubDaysDeducted = 0\<rparr>"

definition refund_ok :: "RefundPlan \<Rightarrow> RefundResult" where
  "refund_ok p = \<lparr>rf_Success = True, rf_Warning = [], rf_RequireForce = False,
     rf_BalanceDeducted = rp_BalanceToDeduct p, rf_SubDaysDeducted = rp_SubDaysToDeduct p\<rparr>"

text \<open>What will be taken back from the user; \<open>Inl\<close> asks the administrator to force the refund.\<close>

definition prepDeduct :: "pay_env \<Rightarrow> PaymentOrder \<Rightarrow> RefundPlan \<Rightarrow> bool \<Rightarrow> (RefundResult + RefundPlan) job" where
  "prepDeduct E ord p force =
     (if o_OrderType ord = OrderTypeSubscription then
        let p = p\<lparr>rp_DeductionType := DeductSubscription\<rparr>
        in (case (o_SubscriptionGroupID ord, o_SubscriptionDays ord) of
              (Some gid, Some days) \<Rightarrow>
                and_then (GetActiveSubscription (o_UserID ord) gid) (\<lambda>r.
                let p = p\<lparr>rp_SubDaysToDeduct := days\<rparr>
                in case r of
                     Inr sub \<Rightarrow> Return (Inr (p\<lparr>rp_SubscriptionID := us_ID sub\<rparr>))
                   | Inl _ \<Rightarrow>
                       if force then Return (Inr p)
                       else Return (Inl ((warning ''cannot find active subscription for deduction, use force'')\<lparr>rf_RequireForce := True\<rparr>)))
            | _ \<Rightarrow> Return (Inr p))
      else and_then (GetUser E (o_UserID ord)) (\<lambda>u.
        case u of
          Inl _ \<Rightarrow>
            if force then Return (Inr p)
            else Return (Inl ((warning ''cannot fetch user balance, use force'')\<lparr>rf_RequireForce := True\<rparr>))
        | Inr balance \<Rightarrow>
            let p = p\<lparr>rp_DeductionType := DeductBalance\<rparr>
            in if fl_less balance (rp_RefundAmount p) \<and> \<not> force
               then Return (Inl ((warning ''user balance is insufficient for deduction, use force'')\<lparr>rf_RequireForce := True\<rparr>))
               else Return (Inr (p\<lparr>rp_BalanceToDeduct := fl_max zero64 (fl_min (rp_RefundAmount p) balance)\<rparr>))))"

definition refundable :: "order_status \<Rightarrow> bool" where
  "refundable st = (st \<in> set [Completed, RefundRequested, RefundPending, RefundFailed])"

text \<open>\<open>Inr (Inl r)\<close> is an early result, \<open>Inr (Inr p)\<close> a plan.\<close>

definition PrepareRefund ::
  "pay_env \<Rightarrow> int \<Rightarrow> gofloat \<Rightarrow> string \<Rightarrow> bool \<Rightarrow> bool \<Rightarrow> (perr + RefundResult + RefundPlan) job" where
  "PrepareRefund E oid amt reason force deduct =
     and_then (GetOrder oid) (\<lambda>r.
     case r of
       Inl _ \<Rightarrow> fails (AppErr ''NOT_FOUND'')
     | Inr ord \<Rightarrow>
         if \<not> refundable (o_Status ord) then fails (AppErr ''INVALID_STATUS'')
         else and_then (RefundProviderInstance ord) (\<lambda>i.
           case i of
             Inl _ \<Rightarrow> fails (AppErr ''PROVIDER_LOOKUP_FAILED'')
           | Inr None \<Rightarrow> fails (AppErr ''REFUND_DISABLED'')
           | Inr (Some inst) \<Rightarrow>
               if \<not> inst_RefundEnabled inst then fails (AppErr ''REFUND_DISABLED'')
               else if \<not> is_finite amt then fails (AppErr ''INVALID_AMOUNT'')
               else
                 let amt = (if fl_leq amt zero64 then o_Amount ord else amt);
                     cur = PaymentOrderCurrency ord
                 in if fl_less (paymentAmountToleranceForCurrency cur) (fl_sub amt (o_Amount ord))
                    then fails (AppErr ''REFUND_AMOUNT_EXCEEDED'')
                    else
                      let rr = TrimSpace reason;
                          rr = (if rr = [] then psStringValue (o_RefundRequestReason ord) else rr);
                          rr = (if rr = [] then ''refund order:'' @ Itoa oid else rr);
                          p = \<lparr>rp_Order = ord, rp_RefundAmount = amt,
                               rp_GatewayAmount = calculateGatewayRefundAmount (pe_decimal E) (o_Amount ord) (o_PayAmount ord) amt cur,
                               rp_Reason = rr, rp_Force = force, rp_DeductionType = DeductNone,
                               rp_BalanceToDeduct = zero64, rp_SubDaysToDeduct = 0, rp_SubscriptionID = 0\<rparr>
                      in if deduct then and_then (prepDeduct E ord p force) (\<lambda>r. returns_ok r)
                         else returns_ok (Inr p)))"

section \<open>The gateway\<close>

definition getRefundProvider :: "PaymentOrder \<Rightarrow> (perr + provider) job" where
  "getRefundProvider ord =
     or_fail (RefundProviderInstance ord) (\<lambda>inst.
     if inst = None then fails (Failure ''refund provider instance is unavailable'') else ask an_provider)"

definition validateRefundProviderResponse :: "RefundResponse option \<Rightarrow> perr option" where
  "validateRefundProviderResponse resp =
     (case resp of
        None \<Rightarrow> Some (Failure ''payment refund response missing'')
      | Some r \<Rightarrow>
          let st = TrimSpace (rr_Status r)
          in if st \<in> set [ProviderStatusSuccess, ProviderStatusRefunded, ProviderStatusPending] then None
             else if st = ProviderStatusFailed then Some (Failure ''payment refund failed'')
             else Some (Failure ''payment refund returned unknown status''))"

definition gwRefund :: "RefundPlan \<Rightarrow> (perr + RefundResponse) job" where
  "gwRefund p =
     (let ord = rp_Order p
      in if o_PaymentTradeNo ord = [] \<and> o_PaymentType ord = TypeStripeHosted
           then fails (Failure ''hosted refund requires a verified paid session'')
         else if o_PaymentTradeNo ord = [] then
           and_then (writeAuditLog (o_ID ord) ''REFUND_NO_TRADE_NO'' ''admin'' NoDetail)
             (\<lambda>_. returns_ok \<lparr>rr_RefundID = [], rr_Status = ProviderStatusSuccess\<rparr>)
         else or_fail (getRefundProvider ord) (\<lambda>prov.
           case validateProviderSnapshotMetadata ord (pr_ProviderKey prov) (pr_MerchantIdentity prov) of
             Some err \<Rightarrow>
               and_then (writeAuditLog (o_ID ord) ''REFUND_PROVIDER_METADATA_MISMATCH'' ''admin'' NoDetail) (\<lambda>_. fails err)
           | None \<Rightarrow>
               and_then (ask an_refund) (\<lambda>(err, resp).
               case err of
                 Some e \<Rightarrow>
                   (case resp of
                      Some r \<Rightarrow> if TrimSpace (rr_Status r) = ProviderStatusPending then returns_ok r else fails e
                    | None \<Rightarrow> fails e)
               | None \<Rightarrow>
                   (case (validateRefundProviderResponse resp, resp) of
                      (None, Some r) \<Rightarrow> returns_ok r
                    | (Some e, _) \<Rightarrow> fails e
                    | (None, None) \<Rightarrow> fails (Failure ''payment refund response missing'')))))"

section \<open>Outcomes\<close>

definition restoreStatus :: "pay_env \<Rightarrow> RefundPlan \<Rightarrow> unit job" where
  "restoreStatus E p =
     and_then (UpdateOrderByID E (rp_OrderID p)
       (\<lambda>now r. r\<lparr>o_Status := (if o_Status (rp_Order p) = RefundRequested then RefundRequested else Completed)\<rparr>))
       (\<lambda>_. Return ())"

text \<open>Gives the deduction back; \<open>False\<close> leaves a mark in the audit log.\<close>

definition rollback_failed :: "RefundPlan \<Rightarrow> bool job" where
  "rollback_failed p = and_then (writeAuditLog (rp_OrderID p) ''REFUND_ROLLBACK_FAILED'' ''admin'' NoDetail) (\<lambda>_. Return False)"

definition RollbackRefund :: "pay_env \<Rightarrow> RefundPlan \<Rightarrow> bool job" where
  "RollbackRefund E p =
     and_then (if rp_DeductionType p = DeductBalance \<and> fl_less zero64 (rp_BalanceToDeduct p)
               then UpdateBalance E (o_UserID (rp_Order p)) (rp_BalanceToDeduct p) else returns_ok ()) (\<lambda>b.
     if b \<noteq> Inr () then rollback_failed p
     else and_then
       (if rp_DeductionType p = DeductSubscription \<and> 0 < rp_SubDaysToDeduct p \<and> 0 < rp_SubscriptionID p
        then ExtendSubscription E (rp_SubscriptionID p) (rp_SubDaysToDeduct p) else returns_ok ()) (\<lambda>d.
       if d \<noteq> Inr () then rollback_failed p else Return True))"

definition mark_refund_failed :: "pay_env \<Rightarrow> int \<Rightarrow> perr \<Rightarrow> unit job" where
  "mark_refund_failed E oid gErr =
     and_then (UpdateOrderByID E oid
       (\<lambda>now r. r\<lparr>o_Status := RefundFailed, o_FailedAt := Some now, o_FailedReason := Some gErr\<rparr>)) (\<lambda>_.
     writeAuditLog oid ''REFUND_FAILED'' ''admin'' NoDetail)"

definition handleGwFail :: "pay_env \<Rightarrow> RefundPlan \<Rightarrow> perr \<Rightarrow> (perr + RefundResult) job" where
  "handleGwFail E p gErr =
     and_then (RollbackRefund E p) (\<lambda>ok.
     if ok then
       and_then (restoreStatus E p) (\<lambda>_.
       and_then (writeAuditLog (rp_OrderID p) ''REFUND_GATEWAY_FAILED'' ''admin'' NoDetail) (\<lambda>_.
       returns_ok (warning ''gateway failed, rolled back'')))
     else and_then (mark_refund_failed E (rp_OrderID p) gErr) (\<lambda>_. fails (AppErr ''REFUND_FAILED'')))"

definition refunded_status :: "RefundPlan \<Rightarrow> order_status" where
  "refunded_status p =
     (if fl_less (rp_RefundAmount p) (o_Amount (rp_Order p)) then PartiallyRefunded else Refunded)"

definition mark_refunded :: "pay_env \<Rightarrow> RefundPlan \<Rightarrow> gotime \<Rightarrow> PaymentOrder \<Rightarrow> PaymentOrder" where
  "mark_refunded E p now r =
     r\<lparr>o_Status := refunded_status p, o_RefundAmount := pe_cents E (rp_RefundAmount p),
       o_RefundReason := Some (rp_Reason p), o_RefundAt := Some now, o_ForceRefund := rp_Force p\<rparr>"

definition markRefundOk :: "pay_env \<Rightarrow> RefundPlan \<Rightarrow> (perr + RefundResult) job" where
  "markRefundOk E p =
     or_fail (UpdateOrderByID E (rp_OrderID p) (mark_refunded E p)) (\<lambda>_.
     and_then (writeAuditLog (rp_OrderID p) ''REFUND_SUCCESS'' ''admin'' NoDetail) (\<lambda>_. returns_ok (refund_ok p)))"

definition markRefundPending :: "pay_env \<Rightarrow> RefundPlan \<Rightarrow> RefundResponse \<Rightarrow> (perr + RefundResult) job" where
  "markRefundPending E p resp =
     and_then (RollbackRefund E p) (\<lambda>rollbackOK.
     or_fail (UpdateOrderByID E (rp_OrderID p)
       (\<lambda>now r. r\<lparr>o_Status := RefundPending, o_RefundAmount := pe_cents E (rp_RefundAmount p),
          o_RefundReason := Some (rp_Reason p), o_RefundAt := None, o_ForceRefund := rp_Force p,
          o_FailedAt := None, o_FailedReason := None\<rparr>)) (\<lambda>_.
     and_then (writeAuditLog (rp_OrderID p) ''REFUND_PENDING'' ''admin''
       (RefundDetail (TrimSpace (rr_RefundID resp)) rollbackOK)) (\<lambda>_.
     returns_ok (warning (if rollbackOK then ''gateway refund is pending confirmation''
       else ''gateway refund is pending confirmation; refund deduction rollback failed'')))))"

definition finishRefund :: "pay_env \<Rightarrow> RefundPlan \<Rightarrow> RefundResponse \<Rightarrow> (perr + RefundResult) job" where
  "finishRefund E p resp =
     (case validateRefundProviderResponse (Some resp) of
        Some err \<Rightarrow> handleGwFail E p err
      | None \<Rightarrow>
          let st = TrimSpace (rr_Status resp)
          in if st = ProviderStatusSuccess \<or> st = ProviderStatusRefunded then markRefundOk E p
             else if st = ProviderStatusPending then markRefundPending E p resp
             else handleGwFail E p (Failure ''payment refund returned unknown status''))"

section \<open>Hosted refunds\<close>

definition journal_key :: string where "journal_key = ''hosted_refund''"

definition readHostedRefund :: "PaymentOrder \<Rightarrow> perr + hostedRefundJournal" where
  "readHostedRefund ord =
     (case map_of (o_ProviderSnapshot ord) journal_key of
        Some (SnapJournal j) \<Rightarrow>
          if j_StartedAt j = 0 \<or> j_GatewayAmount j = [] then Inl (Failure ''hosted refund journal invalid'') else Inr j
      | Some _ \<Rightarrow> Inl (Failure ''hosted refund journal invalid'')
      | None \<Rightarrow> Inl (Failure ''hosted refund journal missing''))"

definition hostedRefundSnapshot :: "PaymentOrder \<Rightarrow> hostedRefundJournal \<Rightarrow> snapshot" where
  "hostedRefundSnapshot ord j =
     (journal_key, SnapJournal j) # filter (\<lambda>(k, v). k \<noteq> journal_key) (o_ProviderSnapshot ord)"

text \<open>\<open>Duration.Seconds()\<close>.\<close>

definition dur_Seconds :: "duration \<Rightarrow> gofloat" where
  "dur_Seconds d =
     (let sec = go_div d second; nsec = d - sec * second
      in fl_add (Num (Fin (f64_of_int sec))) (Num (f64 (f64_of_int nsec / 1000000000))))"

definition dur_of_seconds :: "gofloat \<Rightarrow> duration" where
  "dur_of_seconds x = (case x of NaN \<Rightarrow> min_int64 | Num v \<Rightarrow> secondsDuration v)"

text \<open>The user's part of the hold.\<close>

definition hold_balance :: "pay_env \<Rightarrow> RefundPlan \<Rightarrow> int \<Rightarrow> hostedRefundJournal \<Rightarrow> db \<Rightarrow> perr + hostedRefundJournal \<times> db" where
  "hold_balance E p uid j s =
     (if rp_DeductionType p \<noteq> DeductBalance \<or> \<not> fl_less zero64 (rp_BalanceToDeduct p) then Inr (j, s)
      else (case users s uid of
          None \<Rightarrow> Inl NotFound
        | Some u \<Rightarrow>
            if u_Deleted u then Inl NotFound
            else
              let balance = pe_float E (u_Balance u)
              in if \<not> rp_Force p \<and> fl_less balance (rp_BalanceToDeduct p) then Inl (AppErr ''BALANCE_NOT_ENOUGH'')
                 else
                   let held = fl_max zero64 (fl_min balance (rp_BalanceToDeduct p))
                   in Inr (j\<lparr>j_BalanceHeld := held\<rparr>,
                           set_user uid (u\<lparr>u_Balance := u_Balance u + pe_units E (fl_neg held)\<rparr>) s)))"

text \<open>The subscription's part: days are taken away, down to now at most.\<close>

definition hold_subscription ::
  "pay_env \<Rightarrow> gotime \<Rightarrow> RefundPlan \<Rightarrow> hostedRefundJournal \<Rightarrow> db \<Rightarrow> perr + hostedRefundJournal \<times> db" where
  "hold_subscription E now p j s =
     (if rp_DeductionType p \<noteq> DeductSubscription \<or> rp_SubscriptionID p \<le> 0 \<or> rp_SubDaysToDeduct p \<le> 0 then Inr (j, s)
      else (case find_sub_by_id (rp_SubscriptionID p) s of
          None \<Rightarrow> Inl NotFound
        | Some sub \<Rightarrow>
            let nxt = pe_AddDays E (us_ExpiresAt sub) (- rp_SubDaysToDeduct p);
                nxt = (if time_Before nxt now then now else nxt)
            in if time_After (us_ExpiresAt sub) nxt
               then Inr (j\<lparr>j_SubscriptionID := us_ID sub, j_SubscriptionHeldSeconds := dur_Seconds (time_Sub (us_ExpiresAt sub) nxt),
                           j_SubscriptionDays := rp_SubDaysToDeduct p\<rparr>,
                         set_sub (us_ID sub) (\<lambda>r. r\<lparr>us_ExpiresAt := nxt,
                           us_Status := (if time_After nxt now then us_Status r else SubExpired)\<rparr>) s)
               else Inr (j, s)))"

definition unix_seconds :: "pay_env \<Rightarrow> gotime \<Rightarrow> int" where
  "unix_seconds E now = (now - pe_Unix E 0) div second"

text \<open>The transaction that persists the request together with its holds.\<close>

definition hold_tx :: "pay_env \<Rightarrow> RefundPlan \<Rightarrow> gotime \<Rightarrow> db \<Rightarrow> (perr + PaymentOrder \<times> hostedRefundJournal) \<times> db" where
  "hold_tx E p now s =
     (case find_order (rp_OrderID p) s of
        None \<Rightarrow> (Inl NotFound, s)
      | Some ord \<Rightarrow>
          if o_Status ord \<noteq> Completed \<and> o_Status ord \<noteq> RefundRequested \<or>
             map_of (o_ProviderSnapshot ord) journal_key \<noteq> None
          then (Inl (AppErr ''CONFLICT''), s)
          else
            let j = \<lparr>j_Amount = rp_RefundAmount p,
                     j_GatewayAmount = formatGatewayRefundAmount (pe_decimal E) (rp_GatewayAmount p) ord,
                     j_StartedAt = unix_seconds E now, j_RefundID = [], j_BalanceHeld = zero64, j_SubscriptionID = 0,
                     j_SubscriptionHeldSeconds = zero64, j_SubscriptionDays = 0\<rparr>
            in (case hold_balance E p (o_UserID ord) j s of
                  Inl err \<Rightarrow> (Inl err, s)
                | Inr (j, s1) \<Rightarrow>
                    (case hold_subscription E now p j s1 of
                       Inl err \<Rightarrow> (Inl err, s)
                     | Inr (j, s2) \<Rightarrow>
                         (Inr (ord, j), s2\<lparr>orders := snd (update_rows_where (\<lambda>r. o_ID r = o_ID ord)
                            (\<lambda>r. (touch E now r)\<lparr>o_Status := RefundPending, o_RefundAmount := pe_cents E (j_Amount j),
                               o_RefundReason := Some (rp_Reason p), o_ForceRefund := rp_Force p,
                               o_ProviderSnapshot := hostedRefundSnapshot ord j\<rparr>) (orders s2))\<rparr>))))"

definition release_subscription :: "pay_env \<Rightarrow> gotime \<Rightarrow> hostedRefundJournal \<Rightarrow> db \<Rightarrow> perr + db" where
  "release_subscription E now j s =
     (if j_SubscriptionID j \<le> 0 \<or> \<not> fl_less zero64 (j_SubscriptionHeldSeconds j) then Inr s
      else (case find_sub_by_id (j_SubscriptionID j) s of
          None \<Rightarrow> Inl NotFound
        | Some sub \<Rightarrow>
            let expires = time_Add (us_ExpiresAt sub) (dur_of_seconds (j_SubscriptionHeldSeconds j))
            in Inr (set_sub (us_ID sub) (\<lambda>r. r\<lparr>us_ExpiresAt := expires,
                 us_Status := (if time_After expires now then SubActive else us_Status r)\<rparr>) s)))"

definition release_balance :: "pay_env \<Rightarrow> int \<Rightarrow> hostedRefundJournal \<Rightarrow> db \<Rightarrow> perr + db" where
  "release_balance E uid j s =
     (if \<not> fl_less zero64 (j_BalanceHeld j) then Inr s
      else (case users s uid of
          None \<Rightarrow> Inl NotFound
        | Some u \<Rightarrow> Inr (set_user uid (u\<lparr>u_Balance := u_Balance u + pe_units E (j_BalanceHeld j)\<rparr>) s)))"

text \<open>The transaction that records the gateway's answer; a failure gives the holds back.\<close>

definition finish_tx :: "pay_env \<Rightarrow> int \<Rightarrow> RefundResponse \<Rightarrow> gotime \<Rightarrow> db \<Rightarrow> (perr + RefundResult) \<times> db" where
  "finish_tx E oid resp now s =
     (case find_order oid s of
        None \<Rightarrow> (Inl NotFound, s)
      | Some ord \<Rightarrow>
          if o_Status ord \<noteq> RefundPending then
            (if o_Status ord = Refunded \<or> o_Status ord = PartiallyRefunded
             then (Inr ((warning [])\<lparr>rf_Success := True\<rparr>), s) else (Inl (AppErr ''CONFLICT''), s))
          else (case readHostedRefund ord of
              Inl err \<Rightarrow> (Inl err, s)
            | Inr j \<Rightarrow>
                if rr_RefundID resp \<noteq> [] \<and> j_RefundID j \<noteq> [] \<and> j_RefundID j \<noteq> rr_RefundID resp
                then (Inl (Failure ''hosted refund identity changed''), s)
                else
                  let j = (if rr_RefundID resp \<noteq> [] then j\<lparr>j_RefundID := rr_RefundID resp\<rparr> else j);
                      save = (\<lambda>st upd. st\<lparr>orders := snd (update_rows_where (\<lambda>r. o_ID r = oid)
                        (\<lambda>r. upd ((touch E now r)\<lparr>o_ProviderSnapshot := hostedRefundSnapshot ord j\<rparr>)) (orders st))\<rparr>)
                  in if rr_Status resp = ProviderStatusSuccess \<or> rr_Status resp = ProviderStatusRefunded then
                       (if j_RefundID j = [] then (Inl (Failure ''hosted refund success missing id''), s)
                        else (Inr \<lparr>rf_Success = True, rf_Warning = [], rf_RequireForce = False,
                                rf_BalanceDeducted = j_BalanceHeld j, rf_SubDaysDeducted = j_SubscriptionDays j\<rparr>,
                              save s (\<lambda>r. r\<lparr>o_Status := (if fl_less (j_Amount j) (o_Amount ord) then PartiallyRefunded else Refunded),
                                o_RefundAt := Some now\<rparr>)))
                     else if rr_Status resp = ProviderStatusFailed then
                       (case release_balance E (o_UserID ord) j s of
                          Inl err \<Rightarrow> (Inl err, s)
                        | Inr s1 \<Rightarrow>
                            (case release_subscription E now j s1 of
                               Inl err \<Rightarrow> (Inl err, s)
                             | Inr s2 \<Rightarrow>
                                 (Inr (warning ''gateway refund failed; local hold restored''),
                                  save s2 (\<lambda>r. r\<lparr>o_Status := RefundFailed, o_FailedAt := Some now,
                                    o_FailedReason := Some (Failure ''Stripe refund failed; local hold restored'')\<rparr>))))
                     else (Inr (warning ''gateway refund is pending confirmation''), save s id)))"

definition finishHostedRefund :: "pay_env \<Rightarrow> int \<Rightarrow> RefundResponse option \<Rightarrow> (perr + RefundResult) job" where
  "finishHostedRefund E oid resp =
     (case resp of
        None \<Rightarrow> fails (Failure ''hosted refund response missing'')
      | Some r \<Rightarrow>
          if rr_Status r \<notin> set [ProviderStatusPending, ProviderStatusSuccess, ProviderStatusRefunded, ProviderStatusFailed]
          then fails (Failure ''hosted refund status unknown'')
          else or_fail (db_call ''refund.finish_tx'' (\<lambda>now s. finish_tx E oid r now s)) (\<lambda>result.
            and_then (writeAuditLog oid (''HOSTED_REFUND_'' @ rr_Status r) ''admin'' NoDetail) (\<lambda>_. returns_ok result)))"

definition queryHostedRefund :: "pay_env \<Rightarrow> PaymentOrder \<Rightarrow> (perr + RefundResult) job" where
  "queryHostedRefund E ord =
     (case readHostedRefund ord of
        Inl err \<Rightarrow> fails err
      | Inr j \<Rightarrow>
          or_fail (getRefundProvider ord) (\<lambda>prov.
          if \<not> pr_RefundQuery prov then fails (Failure ''hosted refund query unavailable'')
          else or_fail (ask an_refund_query) (\<lambda>resp. finishHostedRefund E (o_ID ord) resp)))"

definition executeHostedRefund :: "pay_env \<Rightarrow> RefundPlan \<Rightarrow> (perr + RefundResult) job" where
  "executeHostedRefund E p =
     (let ord = rp_Order p
      in if o_Status ord = RefundPending then queryHostedRefund E ord
         else if o_PaymentTradeNo ord = [] \<or> o_PaidAt ord = None
           then fails (Failure ''hosted refund requires verified payment'')
         else if map_of (o_ProviderSnapshot ord) journal_key \<noteq> None then fails (AppErr ''REFUND_ALREADY_ATTEMPTED'')
         else or_fail (getRefundProvider ord) (\<lambda>prov.
           or_fail (ask an_query) (\<lambda>r.
           if qo_Status r \<noteq> ProviderStatusPaid then fails (Failure ''hosted session is not paid'')
           else (case validateHostedNotification (pe_decimal E) ord
                   \<lparr>n_TradeNo = qo_TradeNo r, n_OrderID = o_OutTradeNo ord, n_Amount = zero64, n_Status = [],
                    n_Metadata = qo_Metadata r\<rparr> of
               Some err \<Rightarrow> fails err
             | None \<Rightarrow>
                 or_fail (db_call ''refund.hold_tx'' (\<lambda>now s. hold_tx E p now s)) (\<lambda>(held, j).
                 and_then (ask an_refund) (\<lambda>(err, resp).
                 if err \<noteq> None \<and> (case resp of None \<Rightarrow> True | Some r \<Rightarrow> rr_Status r \<noteq> ProviderStatusPending)
                 then finishHostedRefund E (o_ID held) (Some \<lparr>rr_RefundID = [], rr_Status = ProviderStatusFailed\<rparr>)
                 else finishHostedRefund E (o_ID held) resp))))))"

section \<open>Executing a refund\<close>

text \<open>
  Takes the deduction, unless an earlier attempt took it and could not give it back; \<open>Inl\<close> is an
  error after which the order has been restored.
\<close>

definition take_balance :: "pay_env \<Rightarrow> RefundPlan \<Rightarrow> (perr + RefundPlan) job" where
  "take_balance E p =
     (if rp_DeductionType p = DeductBalance \<and> fl_less zero64 (rp_BalanceToDeduct p) then
        and_then (hasAuditLog (rp_OrderID p) ''REFUND_ROLLBACK_FAILED'') (\<lambda>marked.
        if marked then returns_ok (p\<lparr>rp_BalanceToDeduct := zero64\<rparr>)
        else and_then (deductAvailableBalance E (o_UserID (rp_Order p)) (rp_BalanceToDeduct p)) (\<lambda>r.
          case r of
            Inr deducted \<Rightarrow> returns_ok (p\<lparr>rp_BalanceToDeduct := deducted\<rparr>)
          | Inl err \<Rightarrow> and_then (restoreStatus E p) (\<lambda>_. fails err)))
      else returns_ok p)"

definition take_subscription :: "pay_env \<Rightarrow> RefundPlan \<Rightarrow> (perr + RefundPlan) job" where
  "take_subscription E p =
     (if rp_DeductionType p = DeductSubscription \<and> 0 < rp_SubDaysToDeduct p \<and> 0 < rp_SubscriptionID p then
        and_then (hasAuditLog (rp_OrderID p) ''REFUND_ROLLBACK_FAILED'') (\<lambda>marked.
        if marked then returns_ok (p\<lparr>rp_SubDaysToDeduct := 0\<rparr>)
        else and_then (ExtendSubscription E (rp_SubscriptionID p) (- rp_SubDaysToDeduct p)) (\<lambda>r.
          case r of
            Inr _ \<Rightarrow> returns_ok p
          | Inl err \<Rightarrow>
              if err = AppErr ''ADJUST_WOULD_EXPIRE'' then
                and_then (RevokeSubscription (rp_SubscriptionID p)) (\<lambda>v.
                case v of
                  Inr _ \<Rightarrow> returns_ok p
                | Inl revokeErr \<Rightarrow> and_then (restoreStatus E p) (\<lambda>_. fails revokeErr))
              else and_then (restoreStatus E p) (\<lambda>_. fails err)))
      else returns_ok p)"

definition ExecuteRefund :: "pay_env \<Rightarrow> RefundPlan \<Rightarrow> (perr + RefundResult) job" where
  "ExecuteRefund E p =
     (if o_PaymentType (rp_Order p) = TypeStripeHosted then executeHostedRefund E p
      else or_fail (UpdateOrder E (rp_OrderID p) (\<lambda>now r. refundable (o_Status r)) (\<lambda>now r. r\<lparr>o_Status := Refunding\<rparr>)) (\<lambda>c.
        if c = 0 then fails (AppErr ''CONFLICT'')
        else or_fail (take_balance E p) (\<lambda>p.
          or_fail (take_subscription E p) (\<lambda>p.
          and_then (gwRefund p) (\<lambda>resp.
          case resp of Inl err \<Rightarrow> handleGwFail E p err | Inr r \<Rightarrow> finishRefund E p r)))))"

section \<open>Finalizing a pending refund\<close>

definition refundFinalizePlan :: "pay_env \<Rightarrow> PaymentOrder \<Rightarrow> RefundPlan" where
  "refundFinalizePlan E ord =
     (let reason = TrimSpace (psStringValue (o_RefundReason ord))
      in \<lparr>rp_Order = ord, rp_RefundAmount = o_RefundAmount ord,
          rp_GatewayAmount = calculateGatewayRefundAmount (pe_decimal E) (o_Amount ord) (o_PayAmount ord) (o_RefundAmount ord)
            (PaymentOrderCurrency ord),
          rp_Reason = (if reason = [] then ''refund order:'' @ Itoa (o_ID ord) else reason),
          rp_Force = o_ForceRefund ord, rp_DeductionType = DeductBalance,
          rp_BalanceToDeduct = (if o_OrderType ord = OrderTypeBalance then o_RefundAmount ord else zero64),
          rp_SubDaysToDeduct = 0, rp_SubscriptionID = 0\<rparr>)"

text \<open>The newest pending detail; without one the rollback counts as done.\<close>

definition pending_detail :: "int \<Rightarrow> db \<Rightarrow> string \<times> bool" where
  "pending_detail oid s =
     (case filter (\<lambda>a. au_OrderID a = oid \<and> au_Action a = ''REFUND_PENDING'') (audits s) of
        [] \<Rightarrow> ([], True)
      | rows \<Rightarrow> (case au_Detail (last rows) of RefundDetail rid ok \<Rightarrow> (TrimSpace rid, ok) | NoDetail \<Rightarrow> ([], True)))"

definition latestRefundPendingDetail :: "int \<Rightarrow> (string \<times> bool) job" where
  "latestRefundPendingDetail oid =
     and_then (read_db ''audit.pending'' (\<lambda>now s. Inr (pending_detail oid s)))
       (\<lambda>r. Return (case r of Inl _ \<Rightarrow> ([], True) | Inr d \<Rightarrow> d))"

text \<open>
  \<open>cached\<close> tells whether the caches can be invalidated after a revocation; when they cannot, the
  transaction fails.
\<close>

definition apply_final_subscription :: "pay_env \<Rightarrow> bool \<Rightarrow> gotime \<Rightarrow> RefundPlan \<Rightarrow> db \<Rightarrow> perr + db" where
  "apply_final_subscription E cached now p s =
     (if rp_DeductionType p = DeductSubscription \<and> 0 < rp_SubDaysToDeduct p \<and> 0 < rp_SubscriptionID p then
        (case extend_subscription E now (rp_SubscriptionID p) (- rp_SubDaysToDeduct p) s of
           (Inr _, s1) \<Rightarrow> Inr s1
         | (Inl err, _) \<Rightarrow>
             if err = AppErr ''ADJUST_WOULD_EXPIRE'' \<and> cached
             then Inr (set_sub (rp_SubscriptionID p) (\<lambda>r. r\<lparr>us_Deleted := True\<rparr>) s) else Inl err)
      else Inr s)"

definition applyRefundFinalDeduction :: "pay_env \<Rightarrow> bool \<Rightarrow> gotime \<Rightarrow> RefundPlan \<Rightarrow> db \<Rightarrow> perr + RefundPlan \<times> db" where
  "applyRefundFinalDeduction E cached now p s =
     (let r = (if rp_DeductionType p = DeductBalance \<and> fl_less zero64 (rp_BalanceToDeduct p) then
                 (case deduct_available E (o_UserID (rp_Order p)) (rp_BalanceToDeduct p) s of
                    (Inl err, _) \<Rightarrow> Inl err
                  | (Inr deducted, s1) \<Rightarrow> Inr (p\<lparr>rp_BalanceToDeduct := deducted\<rparr>, s1))
               else Inr (p, s))
      in case r of
           Inl err \<Rightarrow> Inl err
         | Inr (p, s1) \<Rightarrow>
             (case apply_final_subscription E cached now p s1 of Inl err \<Rightarrow> Inl err | Inr s2 \<Rightarrow> Inr (p, s2)))"

text \<open>The transaction: claim, deduct, mark as refunded, write the audit row.\<close>

definition finalize_tx :: "pay_env \<Rightarrow> bool \<Rightarrow> RefundPlan \<Rightarrow> gotime \<Rightarrow> db \<Rightarrow> (perr + RefundResult) \<times> db" where
  "finalize_tx E cached p now s =
     (let pending = (\<lambda>r. o_ID r = rp_OrderID p \<and> o_Status r = RefundPending)
      in if \<not> list_ex pending (orders s) then (Inl (AppErr ''CONFLICT''), s)
         else (case applyRefundFinalDeduction E cached now p s of
             Inl err \<Rightarrow> (Inl err, s)
           | Inr (p', s1) \<Rightarrow>
               let s2 = s1\<lparr>orders := snd (update_rows_where (\<lambda>r. o_ID r = rp_OrderID p)
                          (\<lambda>r. mark_refunded E p' now (touch E now r)) (orders s1))\<rparr>
               in (case insert_audit now (rp_OrderID p) ''REFUND_SUCCESS'' NoDetail ''admin'' s2 of
                     None \<Rightarrow> (Inl (Failure ''write refund audit''), s)
                   | Some s3 \<Rightarrow> (Inr (refund_ok p'), s3))))"

definition finalizePendingRefundSuccess :: "pay_env \<Rightarrow> RefundPlan \<Rightarrow> (perr + RefundResult) job" where
  "finalizePendingRefundSuccess E p =
     db_ask ''refund.finalize_tx'' (\<lambda>e s. finalize_tx E (an_cache e) p (an_now e) s)"

definition finalizeRefundFailed :: "pay_env \<Rightarrow> PaymentOrder \<Rightarrow> perr \<Rightarrow> (perr + RefundResult) job" where
  "finalizeRefundFailed E ord gErr =
     and_then (mark_refund_failed E (o_ID ord) gErr) (\<lambda>_. returns_ok (warning ''gateway refund failed''))"

definition finalize_answer :: "pay_env \<Rightarrow> PaymentOrder \<Rightarrow> bool \<Rightarrow> RefundResponse \<Rightarrow> (perr + RefundResult) job" where
  "finalize_answer E ord rollbackOK resp =
     (let plan = refundFinalizePlan E ord;
          st = TrimSpace (rr_Status resp);
          go = (\<lambda>plan.
            if st = ProviderStatusSuccess \<or> st = ProviderStatusRefunded then finalizePendingRefundSuccess E plan
            else if st = ProviderStatusPending then
              and_then (writeAuditLog (o_ID ord) ''REFUND_QUERY_PENDING'' ''admin'' NoDetail)
                (\<lambda>_. returns_ok (warning ''gateway refund is still pending confirmation''))
            else finalizeRefundFailed E ord (Failure ''payment refund returned unknown status''))
      in if \<not> rollbackOK then go (plan\<lparr>rp_BalanceToDeduct := zero64, rp_SubDaysToDeduct := 0\<rparr>)
         else if o_OrderType ord = OrderTypeSubscription then
           and_then (prepDeduct E ord plan True) (\<lambda>r. case r of Inl early \<Rightarrow> returns_ok early | Inr plan \<Rightarrow> go plan)
         else go plan)"

definition QueryAndFinalizeRefund :: "pay_env \<Rightarrow> int \<Rightarrow> (perr + RefundResult) job" where
  "QueryAndFinalizeRefund E oid =
     and_then (GetOrder oid) (\<lambda>r.
     case r of
       Inl _ \<Rightarrow> fails (AppErr ''NOT_FOUND'')
     | Inr ord \<Rightarrow>
         if o_Status ord \<noteq> RefundPending then fails (AppErr ''INVALID_STATUS'')
         else if o_PaymentType ord = TypeStripeHosted then queryHostedRefund E ord
         else or_fail (getRefundProvider ord) (\<lambda>prov.
           if \<not> pr_RefundQuery prov then fails (AppErr ''REFUND_QUERY_UNSUPPORTED'')
           else and_then (latestRefundPendingDetail oid) (\<lambda>(rid, rollbackOK).
             or_fail (ask an_refund_query) (\<lambda>resp.
             case (validateRefundProviderResponse resp, resp) of
               (None, Some r) \<Rightarrow> finalize_answer E ord rollbackOK r
             | (Some err, _) \<Rightarrow> finalizeRefundFailed E ord err
             | (None, None) \<Rightarrow> finalizeRefundFailed E ord (Failure ''payment refund response missing'')))))"

end
