(* ===== verification/Pay_Logic.thy ===== *)
theory Pay_Logic
  imports Pay_Refund
begin

text \<open>
  The invariant of the payment tables and the relation that every operation stays within, whatever
  runs at the same time: which columns of an order never change, that a paid order stays paid and
  a settled one settled, that a used code stays used, that an assignment stays recorded, and that
  the recharged total of a user grows by exactly the codes the user redeems. \<open>pool\<close> is interpreted
  on them, and the atomic operations of \<open>Pay_Store\<close> are shown to keep them.
\<close>

named_theorems pay_safe \<open>programs of the payment component that keep the invariant\<close>

section \<open>The invariant\<close>

text \<open>Completed, or in one of the states of a refund, which start from a completed order.\<close>

definition settled :: "order_status \<Rightarrow> bool" where
  "settled st = (st = Completed \<or> psIsRefundStatus st)"

definition immut :: "PaymentOrder \<Rightarrow> int \<times> int \<times> gofloat \<times> string \<times> string \<times> string" where
  "immut r = (o_ID r, o_UserID r, o_Amount r, o_RechargeCode r, o_OrderType r, o_PaymentType r)"

text \<open>
  The goods of an order: the assigned subscription, or the redeemed code of the order's user, worth
  the order's amount up to the tolerance of the code.
\<close>

definition code_pays :: "PaymentOrder \<Rightarrow> RedeemCode \<Rightarrow> bool" where
  "code_pays r c =
     (rc_Code c = o_RechargeCode r \<and> rc_Type c = RedeemTypeBalance \<and>
      (rc_Value c = o_Amount r \<or> \<not> fl_less (Num (f64 (1 / 100000000))) (fl_abs (fl_sub (rc_Value c) (o_Amount r)))))"

definition delivered :: "PaymentOrder \<Rightarrow> db \<Rightarrow> bool" where
  "delivered r s =
     (if o_OrderType r = OrderTypeSubscription then assignment_audited (o_ID r) s
      else list_ex (\<lambda>c. code_pays r c \<and> rc_Status c = Used \<and> rc_UsedBy c = Some (o_UserID r)) (codes s))"

text \<open>
  A PAID order carries the time of its payment and an open order does not; a hosted order is not
  delivered without one. An order of another method may be: \<open>CreateOrder\<close> leaves it FAILED and unpaid
  when the provider refuses the payment, and a delivery takes up every FAILED order. \<open>failed_unpaid\<close>
  are these orders and what deliveries make of them.
\<close>

definition paid_ok :: "PaymentOrder \<Rightarrow> bool" where
  "paid_ok r =
     ((o_Status r = Paid \<or>
        o_PaymentType r = TypeStripeHosted \<and> (o_Status r = Recharging \<or> settled (o_Status r)) \<longrightarrow> o_PaidAt r \<noteq> None) \<and>
      (o_PaidAt r \<noteq> None \<longrightarrow>
        o_Status r = Paid \<or> o_Status r = Recharging \<or> o_Status r = OrderFailed \<or> settled (o_Status r)))"

definition failed_unpaid :: "PaymentOrder \<Rightarrow> bool" where
  "failed_unpaid r =
     (o_PaidAt r = None \<and> (o_Status r = Recharging \<or> settled (o_Status r) \<or>
        o_Status r = OrderFailed \<and> o_PaymentType r \<noteq> TypeStripeHosted))"

definition rebates_ok :: "db \<Rightarrow> bool" where
  "rebates_ok s = (distinct (map fst (rebates s)) \<and>
     list_all (\<lambda>(oid, _). has_audit oid ''AFFILIATE_REBATE_APPLIED'' s) (rebates s))"

definition audits_unique :: "db \<Rightarrow> bool" where
  "audits_unique s = distinct (map (\<lambda>a. (au_OrderID a, au_Action a)) (audits s))"

definition codes_ok :: "db \<Rightarrow> bool" where
  "codes_ok s = (distinct (map rc_ID (codes s)) \<and> distinct (map rc_Code (codes s)) \<and>
     list_all (\<lambda>c. rc_ID c < next_code s) (codes s))"

text \<open>
  The code of an order is written by \<open>CreateOrder\<close>, without spaces.
  \<open>X\<close> holds the orders that may be refunded while the system runs, \<open>U\<close> users who own none of them.
\<close>

definition code_usable :: "PaymentOrder \<Rightarrow> bool" where
  "code_usable r = (o_RechargeCode r \<noteq> [] \<and> TrimSpace (o_RechargeCode r) = o_RechargeCode r)"

definition order_ok :: "int set \<Rightarrow> int set \<Rightarrow> db \<Rightarrow> PaymentOrder \<Rightarrow> bool" where
  "order_ok X U s r =
     ((settled (o_Status r) \<longrightarrow> delivered r s) \<and> paid_ok r \<and> code_usable r \<and>
      (o_ID r \<in> X \<longrightarrow> o_UserID r \<notin> U))"

definition pay_inv :: "int set \<Rightarrow> int set \<Rightarrow> db \<Rightarrow> bool" where
  "pay_inv X U s =
     (distinct (map o_ID (orders s)) \<and> codes_ok s \<and> audits_unique s \<and> rebates_ok s \<and>
      list_all (order_ok X U s) (orders s))"

section \<open>The relation\<close>

text \<open>What the codes that a user redeemed were worth, as the recharged total counts them.\<close>

definition code_credit :: "pay_env \<Rightarrow> int \<Rightarrow> RedeemCode \<Rightarrow> rat" where
  "code_credit E u c =
     (if rc_Status c = Used \<and> rc_UsedBy c = Some u \<and> rc_Type c = RedeemTypeBalance \<and> fl_less zero64 (rc_Value c)
      then pe_units E (rc_Value c) else 0)"

definition credit :: "pay_env \<Rightarrow> int \<Rightarrow> db \<Rightarrow> rat" where
  "credit E u s = sum_list (map (code_credit E u) (codes s))"

definition recharged :: "int \<Rightarrow> db \<Rightarrow> rat" where
  "recharged u s = (case users s u of None \<Rightarrow> 0 | Some r \<Rightarrow> u_TotalRecharged r)"

definition order_goes :: "PaymentOrder \<Rightarrow> PaymentOrder \<Rightarrow> bool" where
  "order_goes r r' =
     (immut r' = immut r \<and> (settled (o_Status r) \<longrightarrow> settled (o_Status r')) \<and> (o_PaidAt r \<noteq> None \<longrightarrow> o_PaidAt r' \<noteq> None) \<and>
      failed_unpaid r' = failed_unpaid r)"

definition code_goes :: "RedeemCode \<Rightarrow> RedeemCode \<Rightarrow> bool" where
  "code_goes c c' =
     (rc_ID c' = rc_ID c \<and> rc_Code c' = rc_Code c \<and> rc_Type c' = rc_Type c \<and> rc_Value c' = rc_Value c \<and>
      (rc_Status c = Used \<longrightarrow> rc_Status c' = Used \<and> rc_UsedBy c' = rc_UsedBy c))"

definition pay_rel :: "pay_env \<Rightarrow> int set \<Rightarrow> db \<Rightarrow> db \<Rightarrow> bool" where
  "pay_rel E U s t =
     ((\<forall>r\<in>set (orders s). \<exists>r'\<in>set (orders t). order_goes r r') \<and>
      (\<forall>c\<in>set (codes s). \<exists>c'\<in>set (codes t). code_goes c c') \<and>
      (\<forall>oid a. has_audit oid a s \<longrightarrow> has_audit oid a t) \<and>
      (\<forall>u\<in>U. recharged u t - recharged u s = credit E u t - credit E u s))"

lemma order_goes_refl [simp]: "order_goes r r" by (simp add: order_goes_def)
lemma code_goes_refl [simp]: "code_goes r r" by (simp add: code_goes_def)

lemma order_goes_trans: "order_goes a b \<Longrightarrow> order_goes b c \<Longrightarrow> order_goes a c"
  by (auto simp: order_goes_def)

lemma code_goes_trans: "code_goes a b \<Longrightarrow> code_goes b c \<Longrightarrow> code_goes a c"
  by (auto simp: code_goes_def)

lemma order_stays: "r \<in> A \<Longrightarrow> \<exists>r'\<in>A. order_goes r r'" using order_goes_refl by blast
lemma code_stays: "c \<in> A \<Longrightarrow> \<exists>c'\<in>A. code_goes c c'" using code_goes_refl by blast

lemma pay_rel_refl [simp]: "pay_rel E U s s"
  by (auto simp: pay_rel_def intro: order_goes_refl code_goes_refl)

lemma pay_rel_trans: "pay_rel E U s t \<Longrightarrow> pay_rel E U t v \<Longrightarrow> pay_rel E U s v"
proof -
  assume st: "pay_rel E U s t" and tv: "pay_rel E U t v"
  have "\<exists>r'\<in>set (orders v). order_goes r r'" if "r \<in> set (orders s)" for r
    using st tv that unfolding pay_rel_def by (meson order_goes_trans)
  moreover have "\<exists>c'\<in>set (codes v). code_goes c c'" if "c \<in> set (codes s)" for c
    using st tv that unfolding pay_rel_def by (meson code_goes_trans)
  moreover have "recharged u v - recharged u s = credit E u v - credit E u s" if "u \<in> U" for u
  proof -
    have "recharged u t - recharged u s = credit E u t - credit E u s"
      "recharged u v - recharged u t = credit E u v - credit E u t"
      using st tv that unfolding pay_rel_def by auto
    then show ?thesis by linarith
  qed
  ultimately show ?thesis using st tv unfolding pay_rel_def by blast
qed

interpretation pay: pool "pay_inv X U" "pay_rel E U" for X U E
  by unfold_locales (auto intro: pay_rel_trans)

abbreviation safe :: "pay_env \<Rightarrow> int set \<Rightarrow> int set \<Rightarrow> 'a job \<Rightarrow> db \<Rightarrow> bool" where
  "safe E X U \<equiv> keeps (pay_inv X U) (pay_rel E U) (\<lambda>a s. True)"

section \<open>What stays true\<close>

text \<open>A row that was read: the current row has gone on from it.\<close>

definition known :: "PaymentOrder \<Rightarrow> db \<Rightarrow> bool" where
  "known r s = (\<exists>r'\<in>set (orders s). order_goes r r')"

definition known_code :: "RedeemCode \<Rightarrow> db \<Rightarrow> bool" where
  "known_code c s = (\<exists>c'\<in>set (codes s). code_goes c c')"

lemma known_stable: "known r s \<Longrightarrow> pay_rel E U s t \<Longrightarrow> known r t"
  unfolding known_def pay_rel_def by (meson order_goes_trans)

lemma known_code_stable: "known_code c s \<Longrightarrow> pay_rel E U s t \<Longrightarrow> known_code c t"
  unfolding known_code_def pay_rel_def by (meson code_goes_trans)

lemma known_memb: "r \<in> set (orders s) \<Longrightarrow> known r s"
  unfolding known_def using order_goes_refl by blast

lemma known_code_memb: "c \<in> set (codes s) \<Longrightarrow> known_code c s"
  unfolding known_code_def using code_goes_refl by blast

lemma delivered_immut: "immut r = immut r' \<Longrightarrow> delivered r s = delivered r' s"
  by (simp add: delivered_def immut_def code_pays_def)

lemma code_pays_goes: "code_goes c c' \<Longrightarrow> code_pays r c' = code_pays r c"
  by (simp add: code_goes_def code_pays_def)

lemma used_goes: "code_goes c c' \<Longrightarrow> rc_Status c = Used \<Longrightarrow> rc_Status c' = Used \<and> rc_UsedBy c' = rc_UsedBy c"
  by (simp add: code_goes_def)

lemma delivered_stable: "delivered r s \<Longrightarrow> pay_rel E U s t \<Longrightarrow> delivered r t"
  unfolding delivered_def pay_rel_def list_ex_iff assignment_audited_def
  by (auto split: if_splits) (metis code_pays_goes used_goes)

lemma inv_order: "pay_inv X U s \<Longrightarrow> r \<in> set (orders s) \<Longrightarrow> order_ok X U s r"
  by (simp add: pay_inv_def list_all_iff)

lemma distinct_map_eq: "distinct (map f xs) \<Longrightarrow> x \<in> set xs \<Longrightarrow> y \<in> set xs \<Longrightarrow> f x = f y \<Longrightarrow> x = y"
  by (auto simp: distinct_map dest: inj_onD)

text \<open>The current row of a known order.\<close>

lemma known_row:
  "known r s \<Longrightarrow> pay_inv X U s \<Longrightarrow> r' \<in> set (orders s) \<Longrightarrow> o_ID r' = o_ID r \<Longrightarrow> order_goes r r'"
  unfolding known_def pay_inv_def
  by (metis (no_types, lifting) distinct_map_eq immut_def order_goes_def prod.inject)

section \<open>Steps that keep the invariant\<close>

definition fine :: "pay_env \<Rightarrow> int set \<Rightarrow> int set \<Rightarrow> db \<Rightarrow> db \<Rightarrow> bool" where
  "fine E X U s t = (pay_inv X U s \<longrightarrow> pay_inv X U t \<and> pay_rel E U s t)"

lemma fine_refl [simp]: "fine E X U s s" by (simp add: fine_def)

lemma fine_trans: "fine E X U s t \<Longrightarrow> fine E X U t v \<Longrightarrow> fine E X U s v"
  unfolding fine_def using pay_rel_trans by blast

text \<open>A step that touches neither orders nor codes, audit rows or rebates, nor a recharged total.\<close>

lemma fine_frame:
  assumes "orders t = orders s" "codes t = codes s" "next_code t = next_code s" "audits t = audits s"
    "rebates t = rebates s" "\<And>u. u \<in> U \<Longrightarrow> recharged u t = recharged u s"
  shows "fine E X U s t"
proof -
  have audited: "has_audit oid a t = has_audit oid a s" "assignment_audited oid t = assignment_audited oid s" for oid a
    using assms(4) by (simp_all add: assignment_audited_def has_audit_def)
  have "order_ok X U t = order_ok X U s"
    using assms(2) audited by (intro ext) (simp add: order_ok_def delivered_def)
  then have "pay_inv X U t = pay_inv X U s"
    using assms(1-5) audited by (simp add: pay_inv_def codes_ok_def audits_unique_def rebates_ok_def)
  moreover have "pay_rel E U s t"
    using assms(1,2,6) audited order_stays code_stays unfolding pay_rel_def credit_def by auto
  ultimately show ?thesis by (simp add: fine_def)
qed

lemma set_user_simps [simp]:
  "orders (set_user u x s) = orders s" "codes (set_user u x s) = codes s" "next_code (set_user u x s) = next_code s"
  "audits (set_user u x s) = audits s" "rebates (set_user u x s) = rebates s" "subs (set_user u x s) = subs s"
  by (simp_all add: set_user_def)

lemma set_sub_simps [simp]:
  "orders (set_sub i f s) = orders s" "codes (set_sub i f s) = codes s" "next_code (set_sub i f s) = next_code s"
  "audits (set_sub i f s) = audits s" "rebates (set_sub i f s) = rebates s" "users (set_sub i f s) = users s"
  by (simp_all add: set_sub_def)

lemma fine_set_sub [simp]: "fine E X U s (set_sub i f s)"
  by (rule fine_frame) (simp_all add: recharged_def)

lemma fine_subs: "fine E X U s (s\<lparr>subs := ss, next_sub := n\<rparr>)"
  by (rule fine_frame) (simp_all add: recharged_def)

lemma recharged_set_user:
  "recharged v (set_user u x s) = (if v = u then u_TotalRecharged x else recharged v s)"
  by (simp add: recharged_def set_user_def)

lemma fine_set_user:
  "users s u = Some y \<Longrightarrow> u_TotalRecharged x = u_TotalRecharged y \<Longrightarrow> fine E X U s (set_user u x s)"
  by (rule fine_frame) (auto simp: recharged_set_user, simp add: recharged_def)

lemma fine_set_other: "u \<notin> U \<Longrightarrow> fine E X U s (set_user u x s)"
  by (rule fine_frame) (auto simp: recharged_set_user)

text \<open>An update of order rows.\<close>

lemma fine_orders:
  assumes rows: "\<And>r. pay_inv X U s \<Longrightarrow> r \<in> set (orders s) \<Longrightarrow> P r \<Longrightarrow>
      order_goes r (f r) \<and> paid_ok (f r) \<and> (settled (o_Status (f r)) \<longrightarrow> delivered r s)"
  shows "fine E X U s (s\<lparr>orders := snd (update_rows_where P f (orders s))\<rparr>)"
  unfolding fine_def
proof (intro impI conjI)
  let ?t = "s\<lparr>orders := snd (update_rows_where P f (orders s))\<rparr>"
  assume I: "pay_inv X U s"
  have ids: "map o_ID (orders ?t) = map o_ID (orders s)"
    using rows [OF I] by (auto simp: update_rows_where_def order_goes_def immut_def)
  have same: "delivered r ?t = delivered r s" for r
    by (simp add: delivered_def assignment_audited_def has_audit_def)
  have "order_ok X U ?t (if P r then f r else r)" if "r \<in> set (orders s)" for r
  proof (cases "P r")
    case True
    have goes: "order_goes r (f r)" "paid_ok (f r)" "settled (o_Status (f r)) \<longrightarrow> delivered r s"
      using rows [OF I that True] by auto
    have "delivered (f r) s = delivered r s"
      using goes(1) by (intro delivered_immut) (simp add: order_goes_def)
    with True goes inv_order [OF I that] same show ?thesis
      by (auto simp: order_ok_def order_goes_def immut_def code_usable_def)
  next
    case False
    with inv_order [OF I that] same show ?thesis by (simp add: order_ok_def)
  qed
  then have "list_all (\<lambda>r. order_ok X U ?t (if P r then f r else r)) (orders s)"
    unfolding list_all_iff by blast
  then have "list_all (order_ok X U ?t) (map (\<lambda>r. if P r then f r else r) (orders s))"
    unfolding list.pred_map comp_def .
  then have "list_all (order_ok X U ?t) (orders ?t)"
    by (simp add: update_rows_where_def)
  with I ids show "pay_inv X U ?t"
    by (simp add: pay_inv_def codes_ok_def audits_unique_def rebates_ok_def has_audit_def)
  have "\<exists>r'\<in>set (orders ?t). order_goes r r'" if "r \<in> set (orders s)" for r
  proof (rule bexI [of _ "if P r then f r else r"])
    show "order_goes r (if P r then f r else r)" using rows [OF I that] by simp
    show "(if P r then f r else r) \<in> set (orders ?t)" using that by (auto simp: update_rows_where_def)
  qed
  then show "pay_rel E U s ?t"
    using code_stays unfolding pay_rel_def credit_def recharged_def
    by (auto simp: assignment_audited_def has_audit_def)
qed

text \<open>A new audit row.\<close>

lemma has_audit_append: "has_audit oid a (s\<lparr>audits := audits s @ l\<rparr>) = (has_audit oid a s \<or> list_ex (\<lambda>x. au_OrderID x = oid \<and> au_Action x = a) l)"
  by (simp add: has_audit_def)

lemma audits_goes:
  assumes "pay_inv X U s" "orders t = orders s" "codes t = codes s" "next_code t = next_code s" "users t = users s"
    "audits_unique t" "rebates_ok t" "\<And>oid a. has_audit oid a s \<Longrightarrow> has_audit oid a t"
  shows "pay_inv X U t \<and> pay_rel E U s t"
proof -
  have rel: "pay_rel E U s t"
    unfolding pay_rel_def credit_def recharged_def using assms order_stays code_stays by auto
  have "order_ok X U t r" if "r \<in> set (orders s)" for r
    using inv_order [OF assms(1) that] delivered_stable [OF _ rel, of r] by (auto simp: order_ok_def)
  with rel assms show ?thesis by (auto simp: pay_inv_def list_all_iff codes_ok_def)
qed

lemma insert_audit_fine: "insert_audit now oid a d u s = Some t \<Longrightarrow> fine E X U s t"
proof -
  assume ins: "insert_audit now oid a d u s = Some t"
  then have t: "t = s\<lparr>audits := audits s @ [\<lparr>au_OrderID = oid, au_Action = a, au_Detail = d, au_Operator = u, au_CreatedAt = now\<rparr>]\<rparr>"
    and new: "\<not> has_audit oid a s"
    by (auto simp: insert_audit_def split: if_splits)
  have mono: "has_audit i b t" if "has_audit i b s" for i b using that by (simp add: t has_audit_append)
  show ?thesis unfolding fine_def
  proof
    assume I: "pay_inv X U s"
    have "audits_unique t"
      using I new by (auto simp: pay_inv_def audits_unique_def t has_audit_def list_ex_iff)
    moreover have "rebates_ok t"
      using I mono by (auto simp: pay_inv_def rebates_ok_def list_all_iff t split_beta)
    ultimately show "pay_inv X U t \<and> pay_rel E U s t"
      using I mono by (intro audits_goes) (auto simp: t)
  qed
qed

end
