(* ===== verification/Pay_Steps.thy ===== *)
theory Pay_Steps
  imports Pay_Logic
begin

text \<open>
  The transactions of the payment component keep the invariant and stay within the relation: the
  redemption of a code, the affiliate rebate, the assignment of a subscription, and the holds,
  releases and deductions of refunds.
\<close>

section \<open>Codes\<close>

lemma fl_less_asym: "fl_less x y \<Longrightarrow> \<not> fl_less y x"
  by (auto simp: fl_less_def split: gofloat.splits)

definition same_rows :: "db \<Rightarrow> db \<Rightarrow> bool" where
  "same_rows s t = (orders t = orders s \<and> codes t = codes s \<and> next_code t = next_code s \<and> audits t = audits s \<and>
     rebates t = rebates s)"

lemma same_rows_set [simp]: "same_rows s (set_user u x s)" "same_rows s (set_sub i f s)" "same_rows s s"
  by (simp_all add: same_rows_def)

lemma fine_same_rows: "same_rows s t \<Longrightarrow> (\<And>u. u \<in> U \<Longrightarrow> recharged u t = recharged u s) \<Longrightarrow> fine E X U s t"
  by (rule fine_frame) (simp_all add: same_rows_def)

lemma update_term_rows:
  "updateExistingSubscriptionTerm E now sid d nt s = (r, t) \<Longrightarrow> same_rows s t \<and> users t = users s"
  by (auto simp: updateExistingSubscriptionTerm_def Let_def split: option.splits if_splits)

lemma create_sub_rows: "createSubscription E now uid gid d nt s = (r, t) \<Longrightarrow> same_rows s t \<and> users t = users s"
  by (auto simp: createSubscription_def Let_def same_rows_def split: if_splits)

lemma assign_rows: "assignOrExtendSubscription E now uid gid d nt s = (r, t) \<Longrightarrow> same_rows s t \<and> users t = users s"
  by (auto simp: assignOrExtendSubscription_def split: option.splits if_splits dest: update_term_rows create_sub_rows)

lemma reduce_rows: "reduceOrCancelSubscription E now uid gid d c s = (r, t) \<Longrightarrow> same_rows s t \<and> users t = users s"
  by (auto simp: reduceOrCancelSubscription_def Let_def split: option.splits if_splits)

lemma users_set_user: "users (set_user u x s) v = (if v = u then Some x else users s v)"
  by (simp add: set_user_def)

lemma recharged_users: "users t = users s \<Longrightarrow> recharged u t = recharged u s"
  by (simp add: recharged_def)

text \<open>What granting a code adds to the recharged totals.\<close>

lemma grant_code_total:
  assumes "grant_code E now uid r s = (Inr (), t)"
  shows "same_rows s t \<and> recharged u t = recharged u s +
    (if u = uid \<and> rc_Type r = RedeemTypeBalance \<and> fl_less zero64 (rc_Value r) then pe_units E (rc_Value r) else 0)"
proof (cases "rc_Type r = RedeemTypeBalance")
  case True
  then show ?thesis using assms fl_less_asym [of "rc_Value r" zero64]
    by (auto simp: grant_code_def update_balance_def apply_redeem_balance_adjustment_def Let_def recharged_def
        users_set_user split: option.splits if_splits)
next
  case balance: False
  have "same_rows s t \<and> recharged u t = recharged u s"
  proof (cases "rc_Type r = RedeemTypeConcurrency")
    case True
    then show ?thesis using assms balance
      by (auto simp: grant_code_def update_concurrency_def apply_redeem_concurrency_adjustment_def Let_def recharged_def
          users_set_user split: option.splits if_splits)
  next
    case False
    then show ?thesis using assms balance recharged_users [of t s u]
      by (auto simp: grant_code_def split: if_splits dest!: reduce_rows assign_rows)
  qed
  with balance show ?thesis by simp
qed

lemma use_code_split:
  assumes "codes_ok s" "use_code now cid uid s = (Inr (), t)"
  obtains ys c zs where "codes s = ys @ c # zs" "rc_ID c = cid" "rc_Status c = Unused"
    "t = s\<lparr>codes := ys @ (c\<lparr>rc_Status := Used, rc_UsedBy := Some uid, rc_UsedAt := Some now\<rparr>) # zs\<rparr>"
proof -
  let ?P = "\<lambda>r. rc_ID r = cid \<and> rc_Status r = Unused"
  have "filter ?P (codes s) \<noteq> []" and t: "t = s\<lparr>codes := map (\<lambda>r. if ?P r then
      r\<lparr>rc_Status := Used, rc_UsedBy := Some uid, rc_UsedAt := Some now\<rparr> else r) (codes s)\<rparr>"
    using assms(2) by (auto simp: use_code_def update_rows_where_def split: if_splits)
  then obtain c where c: "c \<in> set (codes s)" "?P c" by (auto simp: filter_empty_conv)
  then obtain ys zs where split: "codes s = ys @ c # zs" by (meson split_list)
  with assms(1) have "rc_ID c \<notin> rc_ID ` (set ys \<union> set zs)" by (auto simp: codes_ok_def)
  with c have "\<forall>r\<in>set ys \<union> set zs. \<not> ?P r" by (metis imageI)
  then have "map (\<lambda>r. if ?P r then r\<lparr>rc_Status := Used, rc_UsedBy := Some uid, rc_UsedAt := Some now\<rparr> else r) l = l"
    if "l = ys \<or> l = zs" for l using that by (auto intro!: map_idI)
  with split c t show ?thesis by (intro that [of ys c zs]) auto
qed

lemma redeem_tx_fine:
  assumes "known_code r s"
  shows "fine E X U s (snd (redeem_tx E now uid r s))"
proof (cases "fst (redeem_tx E now uid r s)")
  case (Inl e)
  then have "snd (redeem_tx E now uid r s) = s"
    by (auto simp: redeem_tx_def split: prod.splits sum.splits)
  then show ?thesis by simp
next
  case (Inr a)
  then obtain s1 s2 where use: "use_code now (rc_ID r) uid s = (Inr (), s1)"
    and grant: "grant_code E now uid r s1 = (Inr (), s2)" and s2: "snd (redeem_tx E now uid r s) = s2"
    by (auto simp: redeem_tx_def split: prod.splits sum.splits)
  show ?thesis unfolding s2 fine_def
  proof (intro impI)
    assume I: "pay_inv X U s"
    then have ok: "codes_ok s" by (simp add: pay_inv_def)
    obtain ys c zs where split: "codes s = ys @ c # zs" and c: "rc_ID c = rc_ID r" "rc_Status c = Unused"
      and s1: "s1 = s\<lparr>codes := ys @ (c\<lparr>rc_Status := Used, rc_UsedBy := Some uid, rc_UsedAt := Some now\<rparr>) # zs\<rparr>"
      by (rule use_code_split [OF ok use])
    obtain c' where c': "c' \<in> set (codes s)" "code_goes r c'" using assms unfolding known_code_def by blast
    then have "c' = c"
      using ok c(1) split by (intro distinct_map_eq [of rc_ID "codes s"]) (auto simp: codes_ok_def code_goes_def)
    with c' have same: "rc_Type c = rc_Type r" "rc_Value c = rc_Value r" by (auto simp: code_goes_def)
    let ?c = "c\<lparr>rc_Status := Used, rc_UsedBy := Some uid, rc_UsedAt := Some now\<rparr>"
    have rows: "same_rows s1 s2" using grant_code_total [OF grant] by blast
    have eqs: "orders s2 = orders s" "codes s2 = ys @ ?c # zs" "next_code s2 = next_code s" "audits s2 = audits s"
      "rebates s2 = rebates s" using rows s1 by (auto simp: same_rows_def)
    have audited: "has_audit i b s2 = has_audit i b s" "assignment_audited i s2 = assignment_audited i s" for i b
      using eqs by (simp_all add: assignment_audited_def has_audit_def)
    have "credit E u s2 = credit E u s + (if u = uid \<and> rc_Type r = RedeemTypeBalance \<and> fl_less zero64 (rc_Value r)
        then pe_units E (rc_Value r) else 0)" for u
      using split c(2) same by (auto simp: credit_def eqs(2) code_credit_def)
    moreover have "recharged u s1 = recharged u s" for u by (simp add: s1 recharged_def)
    ultimately have ledger: "recharged u s2 - recharged u s = credit E u s2 - credit E u s" for u
      using grant_code_total [OF grant, of u] by simp
    have goes: "\<exists>x'\<in>set (codes s2). code_goes x x'" if "x \<in> set (codes s)" for x
      using that split c(2) by (auto simp: eqs(2) code_goes_def)
    have rel: "pay_rel E U s s2"
      unfolding pay_rel_def using goes ledger audited eqs(1) order_stays by auto
    have "order_ok X U s2 x" if "x \<in> set (orders s)" for x
      using inv_order [OF I that] delivered_stable [OF _ rel, of x] by (auto simp: order_ok_def)
    with I rel show "pay_inv X U s2 \<and> pay_rel E U s s2"
      unfolding pay_inv_def codes_ok_def audits_unique_def rebates_ok_def split
      by (auto simp: eqs audited list_all_iff)
  qed
qed

text \<open>After the redemption the code is used by the redeeming user.\<close>

lemma redeem_tx_used:
  assumes "pay_inv X U s" "known_code r s" "fst (redeem_tx E now uid r s) = Inr ()"
  shows "\<exists>c\<in>set (codes (snd (redeem_tx E now uid r s))).
    code_goes r c \<and> rc_Status c = Used \<and> rc_UsedBy c = Some uid"
proof -
  have ok: "codes_ok s" using assms(1) by (simp add: pay_inv_def)
  obtain s1 s2 where use: "use_code now (rc_ID r) uid s = (Inr (), s1)"
    and grant: "grant_code E now uid r s1 = (Inr (), s2)" and s2: "snd (redeem_tx E now uid r s) = s2"
    using assms(3) by (auto simp: redeem_tx_def split: prod.splits sum.splits)
  obtain ys c zs where split: "codes s = ys @ c # zs" and c: "rc_ID c = rc_ID r" "rc_Status c = Unused"
    and s1: "s1 = s\<lparr>codes := ys @ (c\<lparr>rc_Status := Used, rc_UsedBy := Some uid, rc_UsedAt := Some now\<rparr>) # zs\<rparr>"
    by (rule use_code_split [OF ok use])
  obtain c' where c': "c' \<in> set (codes s)" "code_goes r c'" using assms(2) unfolding known_code_def by blast
  then have "c' = c"
    using ok c(1) split by (intro distinct_map_eq [of rc_ID "codes s"]) (auto simp: codes_ok_def code_goes_def)
  with c' have "code_goes r (c\<lparr>rc_Status := Used, rc_UsedBy := Some uid, rc_UsedAt := Some now\<rparr>)"
    using c(2) by (auto simp: code_goes_def)
  moreover have "codes s2 = codes s1" using grant_code_total [OF grant] by (simp add: same_rows_def)
  ultimately show ?thesis by (simp add: s2 s1)
qed

lemma create_code_fine:
  assumes "rc_Status r = Unused"
  shows "fine E X U s (snd (create_code r s))"
  unfolding fine_def
proof
  assume I: "pay_inv X U s"
  let ?t = "snd (create_code r s)"
  have same: "orders ?t = orders s" "audits ?t = audits s" "rebates ?t = rebates s" "users ?t = users s"
    by (simp_all add: create_code_def)
  have audited: "has_audit i b ?t = has_audit i b s" "assignment_audited i ?t = assignment_audited i s" for i b
    using same by (simp_all add: assignment_audited_def has_audit_def)
  have "codes_ok s" using I by (simp add: pay_inv_def)
  then have ok: "codes_ok ?t"
    by (auto simp: create_code_def codes_ok_def find_code_def find_None_iff list_all_iff)
  have rel: "pay_rel E U s ?t"
    unfolding pay_rel_def
    using same audited order_stays code_stays [of _ "set (codes s)"] assms
    by (auto simp: recharged_def create_code_def credit_def code_credit_def)
  have "order_ok X U ?t x" if "x \<in> set (orders s)" for x
    using inv_order [OF I that] delivered_stable [OF _ rel, of x] by (auto simp: order_ok_def)
  with I ok rel show "pay_inv X U ?t \<and> pay_rel E U s ?t"
    by (auto simp: pay_inv_def audits_unique_def rebates_ok_def same audited list_all_iff)
qed

section \<open>The rebate\<close>

lemma rebate_tx_fine: "fine E X U s (snd (rebate_tx oid e s))"
proof (cases "tryClaimAffiliateRebateAudit (an_now e) oid s")
  case None
  then show ?thesis by (simp add: rebate_tx_def)
next
  case (Some s1)
  note claim = Some
  have none: "\<not> has_audit oid ''AFFILIATE_REBATE_APPLIED'' s" "\<not> has_audit oid ''AFFILIATE_REBATE_SKIPPED'' s"
    and ins: "insert_audit (an_now e) oid ''AFFILIATE_REBATE_APPLIED'' NoDetail ''system'' s = Some s1"
    using Some by (auto simp: tryClaimAffiliateRebateAudit_def split: if_splits)
  show ?thesis
  proof (cases "an_rebate e")
    case (Inl err)
    with claim show ?thesis by (simp add: rebate_tx_def)
  next
    case (Inr amount)
    let ?row = "\<lparr>au_OrderID = oid, au_Action = ''AFFILIATE_REBATE_APPLIED'', au_Detail = NoDetail,
      au_Operator = ''system'', au_CreatedAt = an_now e\<rparr>"
    have s1: "s1 = s\<lparr>audits := audits s @ [?row]\<rparr>" using ins by (auto simp: insert_audit_def split: if_splits)
    have keep: "map (\<lambda>a. if au_OrderID a = oid \<and> au_Action a = ''AFFILIATE_REBATE_APPLIED'' then f a else a) (audits s) =
        audits s" for f
      using none by (auto simp: has_audit_def list_ex_iff intro!: map_idI)
    show ?thesis unfolding fine_def
    proof
      assume I: "pay_inv X U s"
      let ?t = "snd (rebate_tx oid e s)"
      define action where "action = (if fl_leq amount zero64 then ''AFFILIATE_REBATE_SKIPPED'' else ''AFFILIATE_REBATE_APPLIED'')"
      have t: "orders ?t = orders s" "codes ?t = codes s" "next_code ?t = next_code s" "users ?t = users s"
        "audits ?t = audits s @ [?row\<lparr>au_Action := action\<rparr>]"
        "rebates ?t = rebates s @ (if fl_leq amount zero64 then [] else [(oid, amount)])"
        using claim Inr s1
        by (simp_all add: rebate_tx_def updateClaimedAffiliateRebateAudit_def keep action_def)
      have new: "\<not> has_audit oid action s" using none by (simp add: action_def)
      have mono: "has_audit i b ?t" if "has_audit i b s" for i b using that t(5) by (simp add: has_audit_def)
      have "audits_unique ?t"
        using I new by (auto simp: pay_inv_def audits_unique_def t(5) has_audit_def list_ex_iff)
      moreover have "rebates_ok ?t"
      proof -
        have old: "rebates_ok s" using I by (simp add: pay_inv_def)
        then have "oid \<notin> fst ` set (rebates s)" using none by (auto simp: rebates_ok_def list_all_iff)
        moreover have "has_audit oid ''AFFILIATE_REBATE_APPLIED'' ?t" if "\<not> fl_leq amount zero64"
          using that by (simp add: has_audit_def t(5) action_def)
        ultimately show ?thesis using old mono by (auto simp: rebates_ok_def t(6) list_all_iff split_beta)
      qed
      ultimately show "pay_inv X U ?t \<and> pay_rel E U s ?t"
        using I t mono by (intro audits_goes) auto
    qed
  qed
qed

section \<open>The assignment of a subscription\<close>

lemma assign_tx_cases:
  assumes "assign_tx E now ord gid days s = (r, t)"
  shows "t = s \<or> r = Inr () \<and> (\<exists>s1. same_rows s s1 \<and> users s1 = users s \<and>
    insert_audit now (o_ID ord) ''SUBSCRIPTION_ASSIGNED'' NoDetail ''system'' s1 = Some t)"
  using assms
  by (auto simp: assign_tx_def Let_def split: option.splits if_splits prod.splits sum.splits dest!: assign_rows)

lemma assign_tx_fine: "fine E X U s (snd (assign_tx E now ord gid days s))"
proof (cases "assign_tx E now ord gid days s")
  case (Pair r t)
  from assign_tx_cases [OF Pair] show ?thesis
  proof (elim disjE conjE exE)
    fix s1 assume "same_rows s s1" "users s1 = users s"
      "insert_audit now (o_ID ord) ''SUBSCRIPTION_ASSIGNED'' NoDetail ''system'' s1 = Some t"
    then have "fine E X U s s1" "fine E X U s1 t"
      by (auto intro: fine_same_rows insert_audit_fine recharged_users)
    with Pair show ?thesis by (auto intro: fine_trans)
  qed (simp add: Pair)
qed

lemma assign_tx_audited: "assign_tx E now ord gid days s = (Inr (), t) \<Longrightarrow> assignment_audited (o_ID ord) t"
  by (auto simp: assign_tx_def Let_def insert_audit_def assignment_audited_def has_audit_def
      split: option.splits if_splits prod.splits sum.splits)

end
