(* ===== verification/Pay_Safe.thy ===== *)
theory Pay_Safe
  imports Pay_Steps
begin

text \<open>
  Every program of the payment component keeps the invariant, whatever runs beside it: the rules
  for sequences, reads and conditional updates, then the notification, the fulfilment, the
  cancellation and the reconciliation of orders.
\<close>

section \<open>Rules\<close>

text \<open>An order as it was read: its row has gone on from it, and what held for it still holds.\<close>

definition seen :: "int set \<Rightarrow> int set \<Rightarrow> PaymentOrder \<Rightarrow> db \<Rightarrow> bool" where
  "seen X U r s = (known r s \<and> order_ok X U s r)"

lemma seen_stable: "seen X U r s \<Longrightarrow> pay_rel E U s t \<Longrightarrow> seen X U r t"
  unfolding seen_def order_ok_def using known_stable delivered_stable by blast

lemma seen_memb: "pay_inv X U s \<Longrightarrow> r \<in> set (orders s) \<Longrightarrow> seen X U r s"
  by (simp add: seen_def known_memb inv_order)

lemma seen_read: "pay_inv X U s \<Longrightarrow> pay_rel E U s t \<Longrightarrow> r \<in> set (orders s) \<Longrightarrow> seen X U r t"
  by (rule seen_stable [OF seen_memb])

lemma keeps_db_ask:
  assumes step: "\<And>e t. pay_rel E U s t \<Longrightarrow> pay_inv X U t \<Longrightarrow> fine E X U t (snd (f e t))"
    and post: "\<And>e t v. pay_rel E U s t \<Longrightarrow> pay_inv X U t \<Longrightarrow> pay_inv X U (snd (f e t)) \<Longrightarrow>
      pay_rel E U (snd (f e t)) v \<Longrightarrow> pay_inv X U v \<Longrightarrow> Q (fst (f e t)) v"
    and fail: "\<And>t. pay_rel E U s t \<Longrightarrow> pay_inv X U t \<Longrightarrow> Q (Inl DbFailure) t"
  shows "keeps (pay_inv X U) (pay_rel E U) Q (db_ask opn f) s"
  unfolding db_ask_def
proof (rule pay.keeps_atomic, intro conjI allI impI)
  fix e t assume t: "pay_rel E U s t" "pay_inv X U t"
  let ?g = "case an_db e opn of Works \<Rightarrow> f e t | Fails \<Rightarrow> (Inl DbFailure, t) | Lost \<Rightarrow> (Inl DbFailure, snd (f e t))"
  have fine: "pay_inv X U (snd (f e t))" "pay_rel E U t (snd (f e t))"
    using step [OF t] t(2) by (auto simp: fine_def)
  with t show "pay_inv X U (snd ?g)" "pay_rel E U t (snd ?g)" by (auto split: db_mode.splits)
  fix v assume v: "pay_rel E U (snd ?g) v" "pay_inv X U v"
  have "pay_rel E U s (snd ?g)"
    using t(1) pay_rel_trans [OF t(1) fine(2)] by (auto split: db_mode.splits)
  then have sv: "pay_rel E U s v" using v(1) by (rule pay_rel_trans)
  then show "Q (fst ?g) v"
    using v t fine(1) post fail by (auto split: db_mode.splits)
qed

lemma keeps_db_call:
  assumes "\<And>now t. pay_rel E U s t \<Longrightarrow> pay_inv X U t \<Longrightarrow> fine E X U t (snd (f now t))"
    and "\<And>now t v. pay_rel E U s t \<Longrightarrow> pay_inv X U t \<Longrightarrow> pay_inv X U (snd (f now t)) \<Longrightarrow>
      pay_rel E U (snd (f now t)) v \<Longrightarrow> pay_inv X U v \<Longrightarrow> Q (fst (f now t)) v"
    and "\<And>t. pay_rel E U s t \<Longrightarrow> pay_inv X U t \<Longrightarrow> Q (Inl DbFailure) t"
  shows "keeps (pay_inv X U) (pay_rel E U) Q (db_call opn f) s"
  unfolding db_call_def by (rule keeps_db_ask) (use assms in blast)+

lemma keeps_read:
  assumes "\<And>now t v. pay_inv X U t \<Longrightarrow> pay_rel E U s t \<Longrightarrow> pay_rel E U t v \<Longrightarrow> pay_inv X U v \<Longrightarrow> Q (f now t) v"
    and "\<And>t. pay_rel E U s t \<Longrightarrow> pay_inv X U t \<Longrightarrow> Q (Inl DbFailure) t"
  shows "keeps (pay_inv X U) (pay_rel E U) Q (read_db opn f) s"
  unfolding read_db_def by (rule keeps_db_call) (use assms in simp_all)

lemma safe_db_call:
  "(\<And>now t. pay_rel E U s t \<Longrightarrow> pay_inv X U t \<Longrightarrow> fine E X U t (snd (f now t))) \<Longrightarrow> safe E X U (db_call opn f) s"
  by (rule keeps_db_call) simp_all

lemma safe_read [simp]: "safe E X U (read_db opn f) s"
  by (rule keeps_read) simp_all

lemma safe_ask [simp]: "safe E X U (ask a) s"
  unfolding ask_def by (rule pay.keeps_atomic) simp

lemma safe_Return [simp]: "safe E X U (Return a) s" "safe E X U (fails err) s" "safe E X U (returns_ok b) s"
  by (simp_all add: keeps_Return fails_def returns_ok_def)

lemma safe_then:
  "safe E X U p s \<Longrightarrow> pay_inv X U s \<Longrightarrow>
    (\<And>a t. pay_rel E U s t \<Longrightarrow> pay_inv X U t \<Longrightarrow> safe E X U (k a) t) \<Longrightarrow> safe E X U (and_then p k) s"
  by (rule pay.keeps_and_then) blast+

lemma safe_or_fail:
  "safe E X U p s \<Longrightarrow> pay_inv X U s \<Longrightarrow>
    (\<And>a t. pay_rel E U s t \<Longrightarrow> pay_inv X U t \<Longrightarrow> safe E X U (k a) t) \<Longrightarrow> safe E X U (or_fail p k) s"
  unfolding or_fail_def by (rule safe_then) (auto split: sum.splits)

text \<open>The same with what the first part tells.\<close>

lemma keeps_then:
  "keeps (pay_inv X U) (pay_rel E U) P p s \<Longrightarrow> pay_inv X U s \<Longrightarrow>
    (\<And>a t. pay_rel E U s t \<Longrightarrow> pay_inv X U t \<Longrightarrow> P a t \<Longrightarrow> keeps (pay_inv X U) (pay_rel E U) Q (k a) t) \<Longrightarrow>
    keeps (pay_inv X U) (pay_rel E U) Q (and_then p k) s"
  by (rule pay.keeps_and_then)

text \<open>What holds when the part succeeds.\<close>

definition on_ok :: "('a \<Rightarrow> db \<Rightarrow> bool) \<Rightarrow> perr + 'a \<Rightarrow> db \<Rightarrow> bool" where
  "on_ok P r t = (\<forall>a. r = Inr a \<longrightarrow> P a t)"

lemma on_ok_simps [simp]: "on_ok P (Inl err) t" "on_ok P (Inr a) t = P a t" "on_ok (\<lambda>a t. True) r t"
  by (simp_all add: on_ok_def)

abbreviation sound ::
  "pay_env \<Rightarrow> int set \<Rightarrow> int set \<Rightarrow> ('a \<Rightarrow> db \<Rightarrow> bool) \<Rightarrow> (perr + 'a) job \<Rightarrow> db \<Rightarrow> bool" where
  "sound E X U P \<equiv> keeps (pay_inv X U) (pay_rel E U) (on_ok P)"

lemma sound_or_fail:
  "sound E X U P p s \<Longrightarrow> pay_inv X U s \<Longrightarrow>
    (\<And>a t. pay_rel E U s t \<Longrightarrow> pay_inv X U t \<Longrightarrow> P a t \<Longrightarrow> sound E X U Q (k a) t) \<Longrightarrow> sound E X U Q (or_fail p k) s"
  unfolding or_fail_def
  by (rule keeps_then [where P = "on_ok P"]) (auto split: sum.splits intro!: keeps.returns)

lemma sound_after:
  "sound E X U P p s \<Longrightarrow> pay_inv X U s \<Longrightarrow>
    (\<And>a t. pay_rel E U s t \<Longrightarrow> pay_inv X U t \<Longrightarrow> P a t \<Longrightarrow> safe E X U (k a) t) \<Longrightarrow> safe E X U (or_fail p k) s"
  unfolding or_fail_def
  by (rule keeps_then [where P = "on_ok P"]) (auto split: sum.splits intro!: keeps.returns)

lemma sound_fails [simp]: "sound E X U P (fails err) s"
  by (simp add: fails_def keeps_Return)

lemma sound_ok: "(\<And>t. pay_rel E U s t \<Longrightarrow> pay_inv X U t \<Longrightarrow> P a t) \<Longrightarrow> sound E X U P (returns_ok a) s"
  by (simp add: returns_ok_def keeps_Return)

lemma safe_sound [simp]: "safe E X U p s \<Longrightarrow> sound E X U (\<lambda>a t. True) p s"
  by (rule pay.keeps_mono) simp_all

lemma sound_then:
  "safe E X U p s \<Longrightarrow> pay_inv X U s \<Longrightarrow>
    (\<And>a t. pay_rel E U s t \<Longrightarrow> pay_inv X U t \<Longrightarrow> sound E X U Q (k a) t) \<Longrightarrow> sound E X U Q (and_then p k) s"
  by (rule pay.keeps_and_then) blast+

lemma sound_weaken:
  "sound E X U P p s \<Longrightarrow> (\<And>a t. pay_rel E U s t \<Longrightarrow> pay_inv X U t \<Longrightarrow> P a t \<Longrightarrow> Q a t) \<Longrightarrow> sound E X U Q p s"
  by (rule pay.keeps_mono [where Q = "on_ok P"]) (auto simp: on_ok_def)

lemma keeps_safe: "keeps (pay_inv X U) (pay_rel E U) Q p s \<Longrightarrow> safe E X U p s"
  by (rule pay.keeps_mono) simp_all

section \<open>Reading and updating orders\<close>

lemma sound_GetOrder:
  "sound E X U (\<lambda>ord t. o_ID ord = oid \<and> seen X U ord t) (GetOrder oid) s"
  unfolding GetOrder_def find_order_def
  by (rule keeps_read) (auto simp: find_Some_iff split: option.splits intro!: seen_read)

lemma sound_ByTradeNo:
  "sound E X U (\<lambda>ord t. o_OutTradeNo ord = no \<and> seen X U ord t) (OrderByOutTradeNo no) s"
proof -
  have one: "x \<in> set (orders t) \<and> o_OutTradeNo x = no" if "filter (\<lambda>r. o_OutTradeNo r = no) (orders t) = [x]" for t :: db and x
  proof -
    have "x \<in> set (filter (\<lambda>r. o_OutTradeNo r = no) (orders t))" by (simp add: that)
    then show ?thesis by simp
  qed
  show ?thesis
    unfolding OrderByOutTradeNo_def
    by (rule keeps_read) (auto split: list.splits dest!: one intro!: seen_read)
qed

definition may_update :: "pay_env \<Rightarrow> int set \<Rightarrow> int set \<Rightarrow> (PaymentOrder \<Rightarrow> bool) \<Rightarrow> (PaymentOrder \<Rightarrow> PaymentOrder) \<Rightarrow> db \<Rightarrow> bool" where
  "may_update E X U P f t = (\<forall>r\<in>set (orders t). P r \<longrightarrow> order_ok X U t r \<longrightarrow>
     order_goes r (f r) \<and> paid_ok (f r) \<and> (settled (o_Status (f r)) \<longrightarrow> delivered r t))"

lemma fine_may_update:
  "may_update E X U P f t \<Longrightarrow> fine E X U t (t\<lparr>orders := snd (update_rows_where P f (orders t))\<rparr>)"
  by (rule fine_orders) (auto simp: may_update_def dest: inv_order)

lemma sound_UpdateOrder:
  assumes ok: "\<And>now t. pay_rel E U s t \<Longrightarrow> pay_inv X U t \<Longrightarrow>
      may_update E X U (\<lambda>r. o_ID r = oid \<and> wh now r) (\<lambda>r. upd now (touch E now r)) t"
    and post: "\<And>n now t v. pay_rel E U s t \<Longrightarrow> pay_inv X U t \<Longrightarrow>
      n = length (filter (\<lambda>r. o_ID r = oid \<and> wh now r) (orders t)) \<Longrightarrow>
      pay_rel E U (t\<lparr>orders := map (\<lambda>r. if o_ID r = oid \<and> wh now r then upd now (touch E now r) else r) (orders t)\<rparr>) v \<Longrightarrow>
      pay_rel E U t v \<Longrightarrow> pay_inv X U v \<Longrightarrow> Q n v"
  shows "sound E X U Q (UpdateOrder E oid wh upd) s"
  unfolding UpdateOrder_def
proof (rule keeps_db_call)
  fix now t assume t: "pay_rel E U s t" "pay_inv X U t"
  let ?g = "case update_rows_where (\<lambda>r. o_ID r = oid \<and> wh now r) (\<lambda>r. upd now (touch E now r)) (orders t) of
    (n, rs) \<Rightarrow> (Inr n :: perr + nat, t\<lparr>orders := rs\<rparr>)"
  show fine: "fine E X U t (snd ?g)"
    using fine_may_update [OF ok [OF t]] by (simp add: split_beta)
  fix v assume v: "pay_rel E U (snd ?g) v" "pay_inv X U v"
  have "pay_rel E U t (snd ?g)" using fine t(2) unfolding fine_def by blast
  then have "pay_rel E U t v" using v(1) by (rule pay_rel_trans)
  then show "on_ok Q (fst ?g) v"
    using post [OF t _ _ _ v(2)] v(1) by (simp add: update_rows_where_def)
qed simp

lemma safe_UpdateOrder:
  "(\<And>now t. pay_rel E U s t \<Longrightarrow> pay_inv X U t \<Longrightarrow>
      may_update E X U (\<lambda>r. o_ID r = oid \<and> wh now r) (\<lambda>r. upd now (touch E now r)) t) \<Longrightarrow>
    safe E X U (UpdateOrder E oid wh upd) s"
  by (rule keeps_safe [OF sound_UpdateOrder [where Q = "\<lambda>n t. True"]]) simp_all

text \<open>The order statuses, for updates that set one.\<close>

lemma settled_simps [simp]:
  "settled Completed" "settled RefundRequested" "settled Refunding" "settled RefundPending" "settled PartiallyRefunded"
  "settled Refunded" "settled RefundFailed" "\<not> settled Pending" "\<not> settled Processing" "\<not> settled Paid"
  "\<not> settled Recharging" "\<not> settled Expired" "\<not> settled Cancelled" "\<not> settled OrderFailed"
  by (simp_all add: settled_def psIsRefundStatus_def)

lemmas update_simps = may_update_def order_ok_def order_goes_def paid_ok_def failed_unpaid_def immut_def touch_def

lemma safe_writeAuditLog [simp]: "pay_inv X U s \<Longrightarrow> safe E X U (writeAuditLog oid a u d) s"
  unfolding writeAuditLog_def
  by (rule safe_then) (auto intro!: safe_db_call intro: insert_audit_fine split: option.splits)

lemma safe_hasAuditLog [simp]: "pay_inv X U s \<Longrightarrow> safe E X U (hasAuditLog oid a) s"
  unfolding hasAuditLog_def by (rule safe_then) simp_all

end
