(* ===== verification/Pay_Safe_Fulfill.thy ===== *)
theory Pay_Safe_Fulfill
  imports Pay_Safe
begin

text \<open>
  The notification and the fulfilment keep the invariant: an order becomes PAID with a payment
  time, is fulfilled only when it is paid, and is marked completed only when its code has been used
  by its user, or its subscription assigned.
\<close>

section \<open>Redemption\<close>

definition used_by :: "string \<Rightarrow> int \<Rightarrow> db \<Rightarrow> bool" where
  "used_by c u s = (\<exists>x\<in>set (codes s). rc_Code x = c \<and> rc_Status x = Used \<and> rc_UsedBy x = Some u)"

lemma used_by_stable: "used_by c u s \<Longrightarrow> pay_rel E U s t \<Longrightarrow> used_by c u t"
  unfolding used_by_def pay_rel_def code_goes_def by metis

lemma sound_GetByCode: "sound E X U (\<lambda>c t. rc_Code c = code \<and> known_code c t) (GetByCode code) s"
  unfolding GetByCode_def find_code_def
  by (rule keeps_read)
    (auto simp: find_Some_iff split: option.splits intro: known_code_stable [OF known_code_memb] nth_mem)

lemma safe_GetCodeByID [simp]: "safe E X U (GetCodeByID cid) s" "safe E X U (GetUser E' uid) s"
  by (simp_all add: GetCodeByID_def GetUser_def)

lemma sound_redeem_tx:
  assumes "known_code r s" "rc_Code r = code"
  shows "sound E X U (\<lambda>a. used_by code uid) (db_call opn (\<lambda>now s. redeem_tx E now uid r s)) s"
proof (rule keeps_db_call)
  fix now t assume "pay_rel E U s t" "pay_inv X U t"
  then have known: "known_code r t" using assms(1) known_code_stable by blast
  then show "fine E X U t (snd (redeem_tx E now uid r t))" by (rule redeem_tx_fine)
  fix v assume v: "pay_rel E U (snd (redeem_tx E now uid r t)) v"
  show "on_ok (\<lambda>a. used_by code uid) (fst (redeem_tx E now uid r t)) v"
    unfolding on_ok_def
  proof (intro allI impI)
    fix a assume ok: "fst (redeem_tx E now uid r t) = Inr a"
    have "used_by code uid (snd (redeem_tx E now uid r t))"
      using redeem_tx_used [OF \<open>pay_inv X U t\<close> known, of E now uid] ok assms(2)
      by (auto simp: used_by_def code_goes_def)
    then show "used_by code uid v" using v by (rule used_by_stable)
  qed
qed simp

lemma safe_limits [simp]:
  "pay_inv X U s \<Longrightarrow> safe E X U checkRedeemRateLimit s" "pay_inv X U s \<Longrightarrow> safe E X U acquireRedeemLock s"
  by (auto simp: checkRedeemRateLimit_def acquireRedeemLock_def intro!: safe_then split: option.splits)

lemma sound_redeem:
  assumes "pay_inv X U s"
  shows "sound E X U (\<lambda>a. used_by code uid) (redeem E limited uid code) s"
proof -
  note any = sound_or_fail [OF safe_sound]
  have read: "sound E X U (\<lambda>a. used_by c uid) (GetCodeByID cid) t" if "used_by c uid t" for c cid t
    unfolding GetCodeByID_def by (rule keeps_read) (use that in \<open>auto simp: on_ok_def intro: used_by_stable pay_rel_trans\<close>)
  have tx: "sound E X U (\<lambda>a. used_by (rc_Code r) uid) (or_fail (GetUser E uid) (\<lambda>_.
      or_fail (db_call ''redeem.tx'' (\<lambda>now s. redeem_tx E now uid r s)) (\<lambda>_. GetCodeByID (rc_ID r)))) t"
    if "pay_inv X U t" "known_code r t" for r t
  proof (rule any)
    fix a v assume v: "pay_rel E U t v" "pay_inv X U v"
    then have "known_code r v" using that known_code_stable by blast
    with v(2) show "sound E X U (\<lambda>a. used_by (rc_Code r) uid)
        (or_fail (db_call ''redeem.tx'' (\<lambda>now s. redeem_tx E now uid r s)) (\<lambda>_. GetCodeByID (rc_ID r))) v"
      by (intro sound_or_fail [OF sound_redeem_tx [where code = "rc_Code r" and uid = uid]] read) simp_all
  qed (use that in auto)
  have "sound E X U (\<lambda>a. used_by (rc_Code r) uid) (and_then (ask an_now) (\<lambda>now.
      if IsExpiredAt now r then fails (AppErr ''REDEEM_CODE_EXPIRED'')
      else and_then (ask an_now) (\<lambda>now. if \<not> CanUse now r then fails (AppErr ''REDEEM_CODE_USED'')
        else (case supported_code r of Some err \<Rightarrow> fails err | None \<Rightarrow>
          or_fail (GetUser E uid) (\<lambda>_. or_fail (db_call ''redeem.tx'' (\<lambda>now s. redeem_tx E now uid r s)) (\<lambda>_.
            GetCodeByID (rc_ID r))))))) t"
    if "pay_inv X U t" "known_code r t" for r t
  proof (intro sound_then)
    fix now u assume u: "pay_rel E U t u" "pay_inv X U u"
    then have "known_code r u" using that known_code_stable by blast
    then show "sound E X U (\<lambda>a. used_by (rc_Code r) uid) (if IsExpiredAt now r then fails (AppErr ''REDEEM_CODE_EXPIRED'')
      else and_then (ask an_now) (\<lambda>now. if \<not> CanUse now r then fails (AppErr ''REDEEM_CODE_USED'')
        else (case supported_code r of Some err \<Rightarrow> fails err | None \<Rightarrow>
          or_fail (GetUser E uid) (\<lambda>_. or_fail (db_call ''redeem.tx'' (\<lambda>now s. redeem_tx E now uid r s)) (\<lambda>_.
            GetCodeByID (rc_ID r)))))) u"
      using u that by (auto intro!: sound_then tx split: option.splits intro: known_code_stable)
  qed (use that in auto)
  then have "sound E X U (\<lambda>a. used_by code uid) (or_fail (GetByCode code) (\<lambda>r. and_then (ask an_now) (\<lambda>now.
      if IsExpiredAt now r then fails (AppErr ''REDEEM_CODE_EXPIRED'')
      else and_then (ask an_now) (\<lambda>now. if \<not> CanUse now r then fails (AppErr ''REDEEM_CODE_USED'')
        else (case supported_code r of Some err \<Rightarrow> fails err | None \<Rightarrow>
          or_fail (GetUser E uid) (\<lambda>_. or_fail (db_call ''redeem.tx'' (\<lambda>now s. redeem_tx E now uid r s)) (\<lambda>_.
            GetCodeByID (rc_ID r)))))))) t" if "pay_inv X U t" for t
    using that by (intro sound_or_fail [OF sound_GetByCode]) auto
  then show ?thesis
    unfolding redeem_def using assms by (auto intro!: any sound_then)
qed

lemma safe_Redeem: "pay_inv X U s \<Longrightarrow> safe E X U (Redeem E uid code) s"
  unfolding Redeem_def by (rule keeps_safe [OF sound_redeem])

section \<open>Known facts about an order\<close>

text \<open>An order that is paid, or of a method whose unpaid orders are delivered too.\<close>

definition paid_order :: "int \<Rightarrow> db \<Rightarrow> bool" where
  "paid_order oid s =
     (\<exists>r\<in>set (orders s). o_ID r = oid \<and> (o_PaymentType r = TypeStripeHosted \<longrightarrow> o_PaidAt r \<noteq> None))"

lemma paid_order_stable: "paid_order oid s \<Longrightarrow> pay_rel E U s t \<Longrightarrow> paid_order oid t"
  unfolding paid_order_def pay_rel_def order_goes_def immut_def by (metis prod.inject)

lemma paid_order_row:
  "paid_order oid s \<Longrightarrow> pay_inv X U s \<Longrightarrow> r \<in> set (orders s) \<Longrightarrow> o_ID r = oid \<Longrightarrow>
    o_PaymentType r = TypeStripeHosted \<longrightarrow> o_PaidAt r \<noteq> None"
  unfolding paid_order_def pay_inv_def using distinct_map_eq by metis

lemma seen_row: "seen X U ord s \<Longrightarrow> pay_inv X U s \<Longrightarrow> r \<in> set (orders s) \<Longrightarrow> o_ID r = o_ID ord \<Longrightarrow> order_goes ord r"
  unfolding seen_def using known_row by blast

lemma seen_paid: "seen X U ord s \<Longrightarrow> o_PaidAt ord \<noteq> None \<Longrightarrow> paid_order (o_ID ord) s"
  unfolding seen_def known_def paid_order_def order_goes_def immut_def by auto

lemma seen_other: "seen X U ord s \<Longrightarrow> o_PaymentType ord \<noteq> TypeStripeHosted \<Longrightarrow> paid_order (o_ID ord) s"
  unfolding seen_def known_def paid_order_def order_goes_def immut_def by auto

lemma seen_same:
  assumes "seen X U a s" "seen X U b s" "pay_inv X U s" "o_ID a = o_ID b"
  shows "immut a = immut b"
proof -
  obtain r where r: "r \<in> set (orders s)" "order_goes a r" using assms(1) unfolding seen_def known_def by blast
  then have "order_goes b r" using assms by (intro seen_row [OF assms(2,3)]) (auto simp: order_goes_def immut_def)
  with r show ?thesis by (simp add: order_goes_def)
qed

lemma delivered_row: "order_goes ord r \<Longrightarrow> delivered ord s \<Longrightarrow> delivered r s"
  by (metis delivered_immut order_goes_def)

section \<open>The lease and the outcome\<close>

lemma sound_acquire:
  assumes "pay_inv X U s" "paid_order (o_ID ord) s"
  shows "sound E X U (\<lambda>a t. True) (acquirePaymentFulfillmentLease E ord) s"
  unfolding acquirePaymentFulfillmentLease_def
proof (rule sound_or_fail [OF safe_sound])
  show "safe E X U (UpdateOrder E (o_ID ord)
        (\<lambda>now r. o_Status r \<in> set [Paid, OrderFailed] \<or>
           o_Status r = Recharging \<and> o_UpdatedAt r \<le> time_Add (truncate_us now) (- paymentFulfillmentLeaseDuration))
        (\<lambda>now r. r\<lparr>o_Status := Recharging, o_UpdatedAt := pe_persist E (truncate_us now),
           o_FailedAt := None, o_FailedReason := None\<rparr>)) s"
  proof (rule safe_UpdateOrder)
    fix now t assume t: "pay_rel E U s t" "pay_inv X U t"
    then have "o_PaymentType r \<noteq> TypeStripeHosted" if "r \<in> set (orders t)" "o_ID r = o_ID ord" "o_PaidAt r = None" for r
      using that assms(2) paid_order_stable paid_order_row by blast
    then show "may_update E X U (\<lambda>r. o_ID r = o_ID ord \<and> (o_Status r \<in> set [Paid, OrderFailed] \<or>
           o_Status r = Recharging \<and> o_UpdatedAt r \<le> time_Add (truncate_us now) (- paymentFulfillmentLeaseDuration)))
        (\<lambda>r. (touch E now r)\<lparr>o_Status := Recharging, o_UpdatedAt := pe_persist E (truncate_us now),
           o_FailedAt := None, o_FailedReason := None\<rparr>) t"
      by (auto simp: update_simps)
  qed
  fix n t assume "pay_inv X U t"
  then show "sound E X U (\<lambda>a t. True) (or_fail (GetOrder (o_ID ord)) (\<lambda>current.
     if n = 0 then (if o_Status current = Completed then returns_ok None else fails (AppErr ''CONFLICT''))
     else if o_Status current \<noteq> Recharging then fails (AppErr ''CONFLICT'')
     else returns_ok (Some (o_UpdatedAt current)))) t"
    by (auto intro!: sound_or_fail [OF safe_sound] keeps_safe [OF sound_GetOrder])
qed (use assms in simp)

lemma safe_GetOrder [simp]: "safe E X U (GetOrder oid) s"
  by (rule keeps_safe [OF sound_GetOrder])

lemma safe_markCompleted:
  assumes "pay_inv X U s" "seen X U ord s" "delivered ord s"
  shows "safe E X U (markCompleted E ord lease action) s"
  unfolding markCompleted_def
proof (rule safe_or_fail)
  show "safe E X U (UpdateOrder E (o_ID ord) (\<lambda>now r. o_Status r = Recharging \<and> o_UpdatedAt r = lease)
        (\<lambda>now r. r\<lparr>o_Status := Completed, o_CompletedAt := Some now\<rparr>)) s"
  proof (rule safe_UpdateOrder)
    fix now t assume t: "pay_rel E U s t" "pay_inv X U t"
    then have "delivered r t" if "r \<in> set (orders t)" "o_ID r = o_ID ord" for r
      using that assms seen_stable seen_row delivered_stable delivered_row by metis
    then show "may_update E X U (\<lambda>r. o_ID r = o_ID ord \<and> o_Status r = Recharging \<and> o_UpdatedAt r = lease)
        (\<lambda>r. (touch E now r)\<lparr>o_Status := Completed, o_CompletedAt := Some now\<rparr>) t"
      by (auto simp: update_simps)
  qed
qed (use assms(1) in \<open>auto intro!: safe_then split: sum.splits\<close>)

lemma safe_markFailed: "pay_inv X U s \<Longrightarrow> safe E X U (markFailed E oid lease cause) s"
  unfolding markFailed_def
  by (rule safe_then [OF safe_UpdateOrder]) (auto simp: update_simps split: sum.splits)

lemma safe_applyAffiliateRebate: "pay_inv X U s \<Longrightarrow> safe E X U (applyAffiliateRebateForOrder E ord) s"
  unfolding applyAffiliateRebateForOrder_def
  by (auto intro!: safe_then keeps_db_ask rebate_tx_fine split: sum.splits)

section \<open>Balance orders\<close>

lemma delivered_used:
  assumes "pay_inv X U s" "known_code c s" "code_pays ord c" "o_OrderType ord \<noteq> OrderTypeSubscription"
    "used_by (o_RechargeCode ord) (o_UserID ord) s"
  shows "delivered ord s"
proof -
  obtain x where x: "x \<in> set (codes s)" "rc_Code x = o_RechargeCode ord" "rc_Status x = Used"
      "rc_UsedBy x = Some (o_UserID ord)" using assms(5) unfolding used_by_def by blast
  obtain c' where c': "c' \<in> set (codes s)" "code_goes c c'" using assms(2) unfolding known_code_def by blast
  have "rc_Code c' = rc_Code x" using c'(2) assms(3) x(2) by (simp add: code_goes_def code_pays_def)
  then have "c' = x"
    using assms(1) c'(1) x(1) by (intro distinct_map_eq [of rc_Code "codes s"]) (auto simp: pay_inv_def codes_ok_def)
  then have "code_pays ord x" using code_pays_goes [OF c'(2)] assms(3) by simp
  with assms(4) x show ?thesis by (auto simp: delivered_def list_ex_iff)
qed

lemma validate_pays: "validatePaymentRedeemCode ord c = None \<Longrightarrow> code_pays ord c"
  by (auto simp: validatePaymentRedeemCode_def code_pays_def split: if_splits)

lemma validate_used: "validatePaymentRedeemCode ord c = None \<Longrightarrow> rc_Status c = Used \<Longrightarrow> rc_UsedBy c = Some (o_UserID ord)"
  by (auto simp: validatePaymentRedeemCode_def split: if_splits)

lemma safe_complete:
  assumes "pay_inv X U s" "seen X U ord s" "delivered ord s"
  shows "safe E X U (or_fail (applyAffiliateRebateForOrder E ord) (\<lambda>_. markCompleted E ord lease action)) s"
  using assms
  by (intro safe_or_fail safe_applyAffiliateRebate safe_markCompleted)
    (auto intro: seen_stable delivered_stable)

lemma safe_redeem_and_complete:
  assumes "pay_inv X U s" "seen X U ord s" "known_code c s" "code_pays ord c" "o_OrderType ord \<noteq> OrderTypeSubscription"
  shows "safe E X U (redeem_and_complete E ord lease) s"
  unfolding redeem_and_complete_def redeemForPaymentFulfillment_def
proof (rule sound_after [OF sound_redeem])
  fix a t assume t: "pay_rel E U s t" "pay_inv X U t" "used_by (o_RechargeCode ord) (o_UserID ord) t"
  then have "delivered ord t" using assms known_code_stable by (blast intro: delivered_used)
  then show "safe E X U (or_fail (applyAffiliateRebateForOrder E ord) (\<lambda>_. markCompleted E ord lease ''RECHARGE_SUCCESS'')) t"
    using t assms(2) by (intro safe_complete) (auto intro: seen_stable)
qed (use assms in simp_all)

lemma sound_create_code:
  assumes "rc_Status r = Unused"
  shows "sound E X U (\<lambda>a t. \<exists>c. known_code c t \<and> rc_Code c = rc_Code r \<and> rc_Type c = rc_Type r \<and> rc_Value c = rc_Value r)
    (db_call opn (\<lambda>now s. create_code r s)) s"
proof (rule keeps_db_call)
  fix now :: gotime and t v assume v: "pay_rel E U (snd (create_code r t)) v"
  have "\<exists>c. known_code c v \<and> rc_Code c = rc_Code r \<and> rc_Type c = rc_Type r \<and> rc_Value c = rc_Value r"
    if "fst (create_code r t) = Inr a" for a
  proof -
    let ?c = "r\<lparr>rc_ID := next_code t\<rparr>"
    have "?c \<in> set (codes (snd (create_code r t)))" using that by (auto simp: create_code_def split: if_splits)
    then have "known_code ?c v" using known_code_stable [OF known_code_memb v] by blast
    then show ?thesis by (intro exI [of _ ?c]) simp
  qed
  then show "on_ok (\<lambda>a t. \<exists>c. known_code c t \<and> rc_Code c = rc_Code r \<and> rc_Type c = rc_Type r \<and> rc_Value c = rc_Value r)
      (fst (create_code r t)) v" by (auto simp: on_ok_def)
qed (use assms create_code_fine in auto)

text \<open>The code of an order is created as it is.\<close>

lemma CreateCode_payment:
  "code_usable ord \<Longrightarrow> CreateCode (payment_code ord) =
     (if fl_eq (o_Amount ord) zero64 then fails (Failure ''value must not be zero'')
      else and_then (ask an_now) (\<lambda>now. db_call ''code.create'' (\<lambda>now s. create_code (payment_code ord) s)))"
  by (simp add: CreateCode_def code_usable_def payment_code_def IsExpiredAt_def RedeemTypeBalance_def RedeemTypeInvitation_def)

lemma sound_CreateCode:
  assumes "code_usable ord" "pay_inv X U s"
  shows "sound E X U (\<lambda>a t. \<exists>c. known_code c t \<and> code_pays ord c) (CreateCode (payment_code ord)) s"
proof -
  have "sound E X U (\<lambda>a t. \<exists>c. known_code c t \<and> code_pays ord c)
      (db_call ''code.create'' (\<lambda>now s. create_code (payment_code ord) s)) t" for t
    by (rule sound_weaken [OF sound_create_code]) (auto simp: code_pays_def payment_code_def)
  then show ?thesis
    unfolding CreateCode_payment [OF assms(1)] using assms(2) by (auto intro!: sound_then)
qed

lemma safe_doBalance:
  assumes s: "pay_inv X U s" "seen X U ord s" "o_OrderType ord \<noteq> OrderTypeSubscription"
  shows "safe E X U (doBalance E ord lease) s"
  unfolding doBalance_def
proof (rule keeps_then [OF sound_GetByCode s(1)])
  fix existing t assume t: "pay_rel E U s t" "pay_inv X U t"
    and on: "on_ok (\<lambda>c t. rc_Code c = o_RechargeCode ord \<and> known_code c t) existing t"
  have seen: "seen X U ord t" using s(2) t(1) by (rule seen_stable)
  let ?done = "or_fail (applyAffiliateRebateForOrder E ord) (\<lambda>_. markCompleted E ord lease ''RECHARGE_SUCCESS'')"
  let ?new = "or_fail (CreateCode (payment_code ord)) (\<lambda>_. redeem_and_complete E ord lease)"
  have new: "safe E X U ?new t"
  proof (rule sound_after [OF sound_CreateCode t(2)])
    show "code_usable ord" using seen by (simp add: seen_def order_ok_def)
    fix a v assume v: "pay_rel E U t v" "pay_inv X U v" "\<exists>c. known_code c v \<and> code_pays ord c"
    then show "safe E X U (redeem_and_complete E ord lease) v"
      using seen_stable [OF seen v(1)] s(3) by (auto intro: safe_redeem_and_complete)
  qed (rule t(2))
  have old: "safe E X U (redeem_and_complete E ord lease) t"
    if "existing = Inr c" "validatePaymentRedeemCode ord c = None" for c
    using that on t(2) seen s(3) validate_pays by (intro safe_redeem_and_complete [of X U t ord c]) auto
  have skip: "safe E X U ?done t"
    if "existing = Inr c" "validatePaymentRedeemCode ord c = None" "IsUsed c" for c
  proof (rule safe_complete [OF t(2) seen])
    have used: "rc_Status c = Used" using that(3) by (simp add: IsUsed_def)
    from on that(1) have c: "known_code c t" "rc_Code c = o_RechargeCode ord" by auto
    then obtain c' where "c' \<in> set (codes t)" "code_goes c c'" unfolding known_code_def by blast
    with used have "used_by (o_RechargeCode ord) (o_UserID ord) t"
      using validate_used [OF that(2) used] c(2) by (auto simp: used_by_def code_goes_def)
    then show "delivered ord t"
      using t(2) c(1) that(2) s(3) validate_pays by (blast intro: delivered_used)
  qed
  show "safe E X U (case resolveRedeemAction existing of
       Inl err \<Rightarrow> fails err
     | Inr action \<Rightarrow>
         (case (case existing of Inr code \<Rightarrow> validatePaymentRedeemCode ord code | Inl _ \<Rightarrow> None) of
            Some err \<Rightarrow> fails err
          | None \<Rightarrow>
              (case action of
                 redeemActionSkipCompleted \<Rightarrow> ?done
               | redeemActionCreate \<Rightarrow> ?new
               | redeemActionRedeem \<Rightarrow> redeem_and_complete E ord lease))) t"
  proof (cases existing)
    case (Inl err)
    with new show ?thesis by (simp add: resolveRedeemAction_def)
  next
    case (Inr c)
    with old skip show ?thesis by (auto simp: resolveRedeemAction_def split: option.splits)
  qed
qed

end
