(* ===== verification/Pay_Safe_Notify.thy ===== *)
theory Pay_Safe_Notify
  imports Pay_Safe_Fulfill
begin

text \<open>
  The composed fulfilment, the retry and the notification keep the invariant.
\<close>

section \<open>Fulfilment\<close>

lemma safe_with_lease:
  assumes s: "pay_inv X U s" "paid_order (o_ID ord) s" "seen X U ord s"
    and act: "\<And>v t. pay_rel E U s t \<Longrightarrow> pay_inv X U t \<Longrightarrow> seen X U ord t \<Longrightarrow> safe E X U (act v) t"
  shows "safe E X U (with_lease E ord act) s"
  unfolding with_lease_def
proof (rule sound_after [OF sound_acquire [OF s(1,2)] s(1)])
  fix a t assume t: "pay_rel E U s t" "pay_inv X U t"
  have "safe E X U (and_then (act v) (\<lambda>r. case r of
      Inl err \<Rightarrow> and_then (markFailed E (o_ID ord) v err) (\<lambda>_. fails err) | Inr _ \<Rightarrow> returns_ok ())) t" for v
    using act [OF t seen_stable [OF s(3) t(1)]] t(2)
    by (auto intro!: safe_then safe_markFailed split: sum.splits)
  then show "safe E X U (case a of None \<Rightarrow> returns_ok () | Some v \<Rightarrow> and_then (act v) (\<lambda>r. case r of
      Inl err \<Rightarrow> and_then (markFailed E (o_ID ord) v err) (\<lambda>_. fails err) | Inr _ \<Rightarrow> returns_ok ())) t"
    by (simp split: option.splits)
qed

text \<open>Reading an order again, of a known kind.\<close>

lemma sound_reread:
  assumes "pay_inv X U s" "seen X U ord s" "o_ID ord = oid" "paid_order oid s"
  shows "sound E X U (\<lambda>r t. o_ID r = oid \<and> seen X U r t \<and> immut r = immut ord \<and> paid_order oid t) (GetOrder oid) s"
proof -
  have "sound E X U (\<lambda>r t. (o_ID r = oid \<and> seen X U r t) \<and> pay_inv X U t \<and> pay_rel E U s t) (GetOrder oid) s"
    unfolding GetOrder_def find_order_def
    by (rule keeps_read)
      (auto simp: find_Some_iff split: option.splits intro!: seen_read dest: pay_rel_trans)
  then show ?thesis
    by (rule sound_weaken) (use assms in \<open>auto intro: seen_same seen_stable paid_order_stable\<close>)
qed

lemma safe_ExecuteBalance:
  assumes "pay_inv X U s" "seen X U ord s" "o_ID ord = oid" "paid_order oid s" "o_OrderType ord \<noteq> OrderTypeSubscription"
  shows "safe E X U (ExecuteBalanceFulfillment E oid) s"
  unfolding ExecuteBalanceFulfillment_def
proof (rule keeps_then [OF sound_reread [OF assms(1-4)] assms(1)])
  fix r t assume t: "pay_inv X U t"
    "on_ok (\<lambda>r t. o_ID r = oid \<and> seen X U r t \<and> immut r = immut ord \<and> paid_order oid t) r t"
  show "safe E X U (case r of Inl _ \<Rightarrow> fails (AppErr ''NOT_FOUND'') | Inr ord \<Rightarrow> (case fulfil_guard_of ord of
      AlreadyDone \<Rightarrow> returns_ok () | Refused err \<Rightarrow> fails err | GoAhead \<Rightarrow> with_lease E ord (doBalance E ord))) t"
  proof (cases r)
    case (Inr cur)
    then have "safe E X U (with_lease E cur (doBalance E cur)) t"
      using t assms(5) by (intro safe_with_lease safe_doBalance) (auto simp: immut_def)
    with Inr show ?thesis by (simp split: fulfil_guard.splits)
  qed simp
qed

text \<open>The assignment is recorded when its program succeeds.\<close>

lemma assignment_stable: "assignment_audited oid s \<Longrightarrow> pay_rel E U s t \<Longrightarrow> assignment_audited oid t"
  by (auto simp: pay_rel_def assignment_audited_def)

lemma sound_assignment_audit:
  "sound E X U (\<lambda>b t. b \<longrightarrow> assignment_audited oid t) (hasPaymentSubscriptionAssignmentAudit oid) s"
  unfolding hasPaymentSubscriptionAssignmentAudit_def
  by (rule keeps_read) (auto intro: assignment_stable)

lemma sound_invalidate: "pay_inv X U s \<Longrightarrow> assignment_audited oid s \<Longrightarrow>
    sound E X U (\<lambda>a. assignment_audited oid) invalidate_caches s"
  unfolding invalidate_caches_def
  by (rule sound_then) (auto intro!: sound_ok intro: assignment_stable)

lemma sound_assign_tx:
  "sound E X U (\<lambda>a. assignment_audited (o_ID ord)) (db_call opn (\<lambda>now s. assign_tx E now ord gid days s)) s"
proof (rule keeps_db_call)
  fix now t v assume v: "pay_rel E U (snd (assign_tx E now ord gid days t)) v"
  show "on_ok (\<lambda>a. assignment_audited (o_ID ord)) (fst (assign_tx E now ord gid days t)) v"
    using assign_tx_audited [of E now ord gid days t] assignment_stable [OF _ v]
    by (cases "assign_tx E now ord gid days t") (auto simp: on_ok_def)
qed (simp_all add: assign_tx_fine)

lemma sound_ensureAssigned:
  assumes "pay_inv X U s"
  shows "sound E X U (\<lambda>a. assignment_audited (o_ID ord)) (ensurePaymentSubscriptionAssigned E ord gid days) s"
  unfolding ensurePaymentSubscriptionAssigned_def
proof (rule sound_or_fail [OF sound_assignment_audit assms])
  fix b t assume t: "pay_inv X U t" "b \<longrightarrow> assignment_audited (o_ID ord) t"
  have again: "sound E X U (\<lambda>a. assignment_audited (o_ID ord)) (and_then (hasPaymentSubscriptionAssignmentAudit (o_ID ord))
      (\<lambda>claimed. if claimed = Inr True then invalidate_caches else fails err)) u" if "pay_inv X U u" for err u
    by (rule keeps_then [OF sound_assignment_audit that]) (auto simp: on_ok_def intro: sound_invalidate)
  have "sound E X U (\<lambda>a. assignment_audited (o_ID ord))
      (and_then (db_call ''assign.tx'' (\<lambda>now s. assign_tx E now ord gid days s)) (\<lambda>r. case r of
         Inr _ \<Rightarrow> invalidate_caches
       | Inl err \<Rightarrow> if err = Failure ''constraint'' then
             and_then (hasPaymentSubscriptionAssignmentAudit (o_ID ord))
               (\<lambda>claimed. if claimed = Inr True then invalidate_caches else fails err)
           else fails err)) t"
    by (rule keeps_then [OF sound_assign_tx t(1)])
      (auto split: sum.splits intro: sound_invalidate again)
  with t show "sound E X U (\<lambda>a. assignment_audited (o_ID ord)) (if b then invalidate_caches
     else and_then (db_call ''assign.tx'' (\<lambda>now s. assign_tx E now ord gid days s)) (\<lambda>r. case r of
         Inr _ \<Rightarrow> invalidate_caches
       | Inl err \<Rightarrow> if err = Failure ''constraint'' then
             and_then (hasPaymentSubscriptionAssignmentAudit (o_ID ord))
               (\<lambda>claimed. if claimed = Inr True then invalidate_caches else fails err)
           else fails err)) t"
    by (auto intro: sound_invalidate)
qed

lemma safe_doSub:
  assumes "pay_inv X U s" "seen X U ord s" "o_OrderType ord = OrderTypeSubscription"
  shows "safe E X U (doSub E ord gid days lease) s"
  unfolding doSub_def
proof (rule safe_then)
  fix g t assume t: "pay_rel E U s t" "pay_inv X U t"
  have "safe E X U (or_fail (ensurePaymentSubscriptionAssigned E ord gid days) (\<lambda>_.
       or_fail (applyAffiliateRebateForOrder E ord) (\<lambda>_. markCompleted E ord lease ''SUBSCRIPTION_SUCCESS''))) t"
    by (rule sound_after [OF sound_ensureAssigned t(2)], use t(2) in simp, rule safe_complete)
      (use assms t in \<open>auto intro: seen_stable pay_rel_trans simp: delivered_def\<close>)
  then show "safe E X U (if g \<noteq> Inr True then fails (Failure ''group no longer exists or inactive'')
     else or_fail (ensurePaymentSubscriptionAssigned E ord gid days) (\<lambda>_.
       or_fail (applyAffiliateRebateForOrder E ord) (\<lambda>_. markCompleted E ord lease ''SUBSCRIPTION_SUCCESS''))) t"
    by simp
qed (use assms in \<open>simp_all add: GroupActive_def\<close>)

lemma safe_ExecuteSubscription:
  assumes "pay_inv X U s" "seen X U ord s" "o_ID ord = oid" "paid_order oid s" "o_OrderType ord = OrderTypeSubscription"
  shows "safe E X U (ExecuteSubscriptionFulfillment E oid) s"
  unfolding ExecuteSubscriptionFulfillment_def
proof (rule keeps_then [OF sound_reread [OF assms(1-4)] assms(1)])
  fix r t assume t: "pay_inv X U t"
    "on_ok (\<lambda>r t. o_ID r = oid \<and> seen X U r t \<and> immut r = immut ord \<and> paid_order oid t) r t"
  show "safe E X U (case r of Inl _ \<Rightarrow> fails (AppErr ''NOT_FOUND'') | Inr ord \<Rightarrow> (case fulfil_guard_of ord of
      AlreadyDone \<Rightarrow> returns_ok () | Refused err \<Rightarrow> fails err
    | GoAhead \<Rightarrow> (case (o_SubscriptionGroupID ord, o_SubscriptionDays ord) of
        (Some gid, Some days) \<Rightarrow> with_lease E ord (doSub E ord gid days)
      | _ \<Rightarrow> fails (AppErr ''INVALID_STATUS'')))) t"
  proof (cases r)
    case (Inr cur)
    then have "safe E X U (with_lease E cur (doSub E cur gid days)) t" for gid days
      using t assms(5) by (intro safe_with_lease safe_doSub) (auto simp: immut_def)
    with Inr show ?thesis by (auto split: fulfil_guard.splits option.splits)
  qed simp
qed

lemma safe_executeFulfillment:
  assumes "pay_inv X U s" "paid_order oid s"
  shows "safe E X U (executeFulfillment E oid) s"
  unfolding executeFulfillment_def
proof (rule sound_after [OF sound_GetOrder assms(1)])
  fix ord t assume t: "pay_rel E U s t" "pay_inv X U t" "o_ID ord = oid \<and> seen X U ord t"
  with assms(2) show "safe E X U (if o_OrderType ord = OrderTypeSubscription then ExecuteSubscriptionFulfillment E oid
     else ExecuteBalanceFulfillment E oid) t"
    by (auto intro: safe_ExecuteBalance safe_ExecuteSubscription paid_order_stable)
qed

lemma safe_RetryFulfillment:
  assumes "pay_inv X U s"
  shows "safe E X U (RetryFulfillment E oid) s"
  unfolding RetryFulfillment_def
proof (rule keeps_then [OF sound_GetOrder assms])
  fix r t assume t: "pay_inv X U t" "on_ok (\<lambda>ord t. o_ID ord = oid \<and> seen X U ord t) r t"
  have run: "safe E X U (and_then (writeAuditLog oid ''RECHARGE_RETRY'' ''admin'' NoDetail) (\<lambda>_. executeFulfillment E oid)) t"
    if "r = Inr ord" "o_PaidAt ord \<noteq> None" for ord
  proof -
    have "paid_order oid t" using that t seen_paid by fastforce
    then show ?thesis using t(1) by (auto intro!: safe_then safe_executeFulfillment intro: paid_order_stable)
  qed
  then show "safe E X U (case r of Inl _ \<Rightarrow> fails (AppErr ''NOT_FOUND'') | Inr ord \<Rightarrow>
         if o_PaidAt ord = None then fails (AppErr ''INVALID_STATUS'')
         else if psIsRefundStatus (o_Status ord) then fails (AppErr ''INVALID_STATUS'')
         else if o_Status ord = Completed then fails (AppErr ''INVALID_STATUS'')
         else if o_Status ord \<noteq> OrderFailed \<and> o_Status ord \<noteq> Paid \<and> o_Status ord \<noteq> Recharging
           then fails (AppErr ''INVALID_STATUS'')
         else and_then (writeAuditLog oid ''RECHARGE_RETRY'' ''admin'' NoDetail) (\<lambda>_. executeFulfillment E oid)) t"
    by (cases r) simp_all
qed

section \<open>The notification\<close>

text \<open>A hosted order that a payment could not move was paid before.\<close>

lemma safe_alreadyProcessed:
  assumes "pay_inv X U s" "o_PaymentType ord = TypeStripeHosted \<longrightarrow> paid_order (o_ID ord) s" "seen X U ord s"
  shows "safe E X U (alreadyProcessed E ord) s"
  unfolding alreadyProcessed_def
proof (rule keeps_then [OF sound_GetOrder assms(1)])
  fix r t assume t: "pay_rel E U s t" "pay_inv X U t" "on_ok (\<lambda>o' t. o_ID o' = o_ID ord \<and> seen X U o' t) r t"
  have run: "safe E X U (executeFulfillment E (o_ID ord)) t"
    if "r = Inr cur" "o_Status cur \<in> set [OrderFailed, Paid, Recharging]" for cur
  proof (rule safe_executeFulfillment [OF t(2)])
    have cur: "o_ID cur = o_ID ord" "seen X U cur t" using t(3) that(1) by auto
    show "paid_order (o_ID ord) t"
    proof (cases "o_PaymentType ord = TypeStripeHosted")
      case True
      then show ?thesis using assms(2) t(1) paid_order_stable by blast
    next
      case False
      have "immut cur = immut ord"
        using seen_same [OF cur(2) seen_stable [OF assms(3) t(1)] t(2)] cur(1) by simp
      with False have "o_PaymentType cur \<noteq> TypeStripeHosted" by (simp add: immut_def)
      then show ?thesis using seen_other [OF cur(2)] cur(1) by simp
    qed
  qed
  show "safe E X U (case r of
       Inl err \<Rightarrow> if o_PaymentType ord = TypeStripeHosted then fails err else returns_ok ()
     | Inr cur \<Rightarrow>
         if o_Status cur \<in> set [Completed, Refunded] then returns_ok ()
         else if o_Status cur \<in> set [OrderFailed, Paid, Recharging] then executeFulfillment E (o_ID ord)
         else if o_Status cur = Expired then
           and_then (writeAuditLog (o_ID ord) ''PAYMENT_AFTER_EXPIRY'' ''system'' NoDetail) (\<lambda>_. returns_ok ())
         else returns_ok ()) t"
    using run t(2) by (cases r) (auto intro!: safe_then)
qed

lemma orders_upd: "orders (t\<lparr>orders := rs\<rparr>) = rs"
  by simp

lemma map_updated: "x \<in> set xs \<Longrightarrow> P x \<Longrightarrow> f x \<in> set (map (\<lambda>r. if P r then f r else r) xs)"
  by auto

lemma filter_some: "length (filter P xs) \<noteq> 0 \<Longrightarrow> \<exists>x\<in>set xs. P x"
  by (auto simp: filter_empty_conv)

lemma safe_toPaid:
  assumes "pay_inv X U s" "seen X U ord s"
  shows "safe E X U (toPaid E ord tradeNo paid pk) s"
  unfolding toPaid_def
proof (rule sound_after)
  let ?upd = "\<lambda>now r. r\<lparr>o_Status := Paid, o_PayAmount := pe_cents E paid, o_PaymentTradeNo := tradeNo,
           o_PaidAt := Some (pe_persist E now), o_FailedAt := None, o_FailedReason := None\<rparr>"
  let ?Q = "\<lambda>n t. (n \<noteq> 0 \<or> o_PaymentType ord = TypeStripeHosted) \<longrightarrow> paid_order (o_ID ord) t"
  show "sound E X U ?Q (UpdateOrder E (o_ID ord) payable ?upd) s"
  proof (rule sound_UpdateOrder)
    fix now t assume "pay_inv X U t"
    show "may_update E X U (\<lambda>r. o_ID r = o_ID ord \<and> payable now r) (\<lambda>r. ?upd now (touch E now r)) t"
      unfolding may_update_def
    proof (intro ballI impI)
      fix r assume r: "o_ID r = o_ID ord \<and> payable now r" "order_ok X U t r"
      then have "\<not> settled (o_Status r)" by (auto simp: payable_def)
      then show "order_goes r (?upd now (touch E now r)) \<and> paid_ok (?upd now (touch E now r)) \<and>
          (settled (o_Status (?upd now (touch E now r))) \<longrightarrow> delivered r t)"
        using r by (auto simp: order_goes_def immut_def touch_def paid_ok_def failed_unpaid_def payable_def order_ok_def)
    qed
  next
    fix n now t v
    assume t: "pay_rel E U s t" "pay_inv X U t" and n: "n = length (filter (\<lambda>r. o_ID r = o_ID ord \<and> payable now r) (orders t))"
      and v: "pay_rel E U (t\<lparr>orders := map (\<lambda>r. if o_ID r = o_ID ord \<and> payable now r then ?upd now (touch E now r) else r) (orders t)\<rparr>) v"
        "pay_rel E U t v"
    show "?Q n v"
    proof (intro impI, cases "n = 0")
      case False
      then obtain r where r: "r \<in> set (orders t)" "o_ID r = o_ID ord \<and> payable now r"
        using filter_some n by blast
      let ?t = "t\<lparr>orders := map (\<lambda>r. if o_ID r = o_ID ord \<and> payable now r then ?upd now (touch E now r) else r) (orders t)\<rparr>"
      have "?upd now (touch E now r) \<in> set (orders ?t)"
        using map_updated [where f = "\<lambda>r. ?upd now (touch E now r)" and P = "\<lambda>r. o_ID r = o_ID ord \<and> payable now r", OF r]
        unfolding orders_upd .
      moreover have "o_ID (?upd now (touch E now r)) = o_ID ord" "o_PaidAt (?upd now (touch E now r)) \<noteq> None"
        using r(2) by (simp_all add: touch_def)
      ultimately have "paid_order (o_ID ord) ?t" unfolding paid_order_def by blast
      then show "paid_order (o_ID ord) v" using v(1) by (rule paid_order_stable)
    next
      case True
      assume "n \<noteq> 0 \<or> o_PaymentType ord = TypeStripeHosted"
      with True have hosted: "o_PaymentType ord = TypeStripeHosted" by simp
      obtain r where r: "r \<in> set (orders t)" "order_goes ord r"
        using seen_stable [OF assms(2) t(1)] unfolding seen_def known_def by blast
      then have "\<not> payable now r" "o_ID r = o_ID ord" "o_PaymentType r = TypeStripeHosted"
        using True n hosted by (auto simp: filter_empty_conv order_goes_def immut_def)
      moreover have "paid_ok r" using inv_order [OF t(2) r(1)] by (simp add: order_ok_def)
      ultimately have "o_PaidAt r \<noteq> None"
        by (cases "o_Status r") (auto simp: payable_def paid_ok_def)
      then have "paid_order (o_ID ord) t" using r(1) \<open>o_ID r = o_ID ord\<close> by (auto simp: paid_order_def)
      then show "paid_order (o_ID ord) v" using v(2) by (rule paid_order_stable)
    qed
  qed
  fix n t assume t: "pay_rel E U s t" "pay_inv X U t"
    "(n \<noteq> 0 \<or> o_PaymentType ord = TypeStripeHosted) \<longrightarrow> paid_order (o_ID ord) t"
  have seen: "seen X U ord t" using assms(2) t(1) by (rule seen_stable)
  show "safe E X U (if n = 0 then alreadyProcessed E ord
     else and_then (if o_Status ord = Cancelled \<or> o_Status ord = Expired
        then writeAuditLog (o_ID ord) ''ORDER_RECOVERED'' pk NoDetail else Return ()) (\<lambda>_.
       and_then (writeAuditLog (o_ID ord) ''ORDER_PAID'' pk NoDetail) (\<lambda>_. executeFulfillment E (o_ID ord)))) t"
    using t(2,3) seen
    by (auto intro!: safe_then safe_alreadyProcessed safe_executeFulfillment intro: paid_order_stable)
qed (use assms in simp)

lemma safe_OrderProviderInstance [simp]: "safe E X U (OrderProviderInstance ord) s"
  by (simp add: OrderProviderInstance_def)

lemma safe_confirmPayment:
  assumes "pay_inv X U s"
  shows "safe E X U (confirmPayment E oid tradeNo paid pk m) s"
  unfolding confirmPayment_def
proof (rule keeps_then [OF sound_GetOrder assms])
  fix r t assume t: "pay_inv X U t" "on_ok (\<lambda>ord t. o_ID ord = oid \<and> seen X U ord t) r t"
  then show "safe E X U (case r of Inl _ \<Rightarrow> returns_ok () | Inr ord \<Rightarrow>
         and_then (OrderProviderInstance ord) (\<lambda>i.
         let instanceProviderKey = (case i of Inr (Some inst) \<Rightarrow> inst_ProviderKey inst | _ \<Rightarrow> [])
         in (case check_notification E ord instanceProviderKey paid pk m of
               Some (action, err) \<Rightarrow> and_then (writeAuditLog (o_ID ord) action pk NoDetail) (\<lambda>_. fails err)
             | None \<Rightarrow> toPaid E ord tradeNo paid pk))) t"
    by (cases r) (auto simp: Let_def intro!: safe_then safe_toPaid split: option.splits intro: seen_stable)
qed

section \<open>Hosted notifications\<close>

lemma may_update_keep:
  "(\<And>r. immut (f r) = immut r \<and> o_Status (f r) = o_Status r \<and> o_PaidAt (f r) = o_PaidAt r) \<Longrightarrow> may_update E X U P f t"
  unfolding may_update_def order_ok_def order_goes_def paid_ok_def failed_unpaid_def immut_def by auto

lemma safe_update_keep:
  "(\<And>now r. immut (upd now r) = immut r \<and> o_Status (upd now r) = o_Status r \<and> o_PaidAt (upd now r) = o_PaidAt r) \<Longrightarrow>
    safe E X U (UpdateOrder E oid wh upd) s"
  by (rule safe_UpdateOrder, rule may_update_keep) (simp add: immut_def touch_def)

lemma safe_bind_session: "pay_inv X U s \<Longrightarrow> safe E X U (bind_session E ord no) s"
  unfolding bind_session_def
  by (auto intro!: safe_or_fail safe_update_keep simp: immut_def)

lemma safe_handleHosted:
  assumes "pay_inv X U s"
  shows "safe E X U (handleHostedNotification E n) s"
  unfolding handleHostedNotification_def
proof (rule sound_after [OF sound_ByTradeNo assms])
  fix ord t assume t: "pay_inv X U t" and seen: "o_OutTradeNo ord = n_OrderID n \<and> seen X U ord t"
  let ?body = "\<lambda>_::unit. let ord = (if o_PaymentTradeNo ord = [] then ord\<lparr>o_PaymentTradeNo := n_TradeNo n\<rparr> else ord)
         in if n_Status n = ProviderStatusSuccess \<or> n_Status n = ProviderStatusPaid
            then toPaid E ord (n_TradeNo n) (n_Amount n) TypeStripeHosted
            else if n_Status n = ProviderStatusProcessing
            then or_fail (UpdateOrder E (o_ID ord) (\<lambda>now r. o_Status r = Pending)
                   (\<lambda>now r. r\<lparr>o_Status := Processing\<rparr>)) (\<lambda>_. returns_ok ())
            else if n_Status n = ProviderStatusFailed \<or> n_Status n = ProviderStatusExpired
            then or_fail (UpdateOrder E (o_ID ord)
                   (\<lambda>now r. o_PaidAt r = None \<and> o_Status r \<in> set [Pending, Processing])
                   (\<lambda>now r. r\<lparr>o_Status := (if n_Status n = ProviderStatusExpired then Expired else OrderFailed)\<rparr>))
                   (\<lambda>_. returns_ok ())
            else returns_ok ()"
  have body: "safe E X U (?body a) v"
    if hosted: "validateHostedNotification (pe_decimal E) ord n = None" and v: "pay_rel E U t v" "pay_inv X U v" for a v
  proof -
    define cur where "cur = (if o_PaymentTradeNo ord = [] then ord\<lparr>o_PaymentTradeNo := n_TradeNo n\<rparr> else ord)"
    have same: "o_ID cur = o_ID ord" "immut cur = immut ord" "o_Status cur = o_Status ord" "o_PaidAt cur = o_PaidAt ord"
      by (simp_all add: cur_def immut_def)
    have ordv: "seen X U ord v" using seen v(1) seen_stable by blast
    then have curv: "seen X U cur v"
      using same delivered_immut [OF same(2)]
      by (auto simp: seen_def known_def order_goes_def order_ok_def paid_ok_def failed_unpaid_def code_usable_def immut_def)
    have type: "o_PaymentType ord = TypeStripeHosted"
      using hosted by (auto simp: validateHostedNotification_def split: if_splits)
    have kind: "o_PaymentType r = TypeStripeHosted" if "pay_rel E U v u" "pay_inv X U u" "r \<in> set (orders u)" "o_ID r = o_ID ord" for r u
      using seen_row [OF seen_stable [OF ordv that(1)] that(2-4)] type by (simp add: order_goes_def immut_def)
    have failed: "safe E X U (UpdateOrder E (o_ID ord) (\<lambda>now r. o_PaidAt r = None \<and> o_Status r \<in> set [Pending, Processing])
        (\<lambda>now r. r\<lparr>o_Status := st\<rparr>)) v" if "st = Expired \<or> st = OrderFailed" for st
    proof (rule safe_UpdateOrder)
      fix now u assume u: "pay_rel E U v u" "pay_inv X U u"
      show "may_update E X U (\<lambda>r. o_ID r = o_ID ord \<and> o_PaidAt r = None \<and> o_Status r \<in> set [Pending, Processing])
          (\<lambda>r. (touch E now r)\<lparr>o_Status := st\<rparr>) u"
        using kind [OF u] that by (auto simp: update_simps)
    qed
    have processing: "safe E X U (UpdateOrder E (o_ID ord) (\<lambda>now r. o_Status r = Pending) (\<lambda>now r. r\<lparr>o_Status := Processing\<rparr>)) v"
      by (rule safe_UpdateOrder) (auto simp: update_simps)
    show ?thesis
      unfolding cur_def [symmetric] Let_def same(1)
      using v(2) curv failed processing by (auto intro!: safe_or_fail safe_toPaid)
  qed
  show "safe E X U (case validateHostedNotification (pe_decimal E) ord n of Some err \<Rightarrow> fails err
     | None \<Rightarrow> or_fail (bind_session E ord (n_TradeNo n)) ?body) t"
  proof (cases "validateHostedNotification (pe_decimal E) ord n")
    case None
    have "safe E X U (or_fail (bind_session E ord (n_TradeNo n)) ?body) t"
      by (rule safe_or_fail [OF safe_bind_session]) (fact t, fact t, rule body [OF None])
    with None show ?thesis by (simp only: option.case)
  qed simp
qed

lemma safe_HandlePaymentNotification:
  assumes "pay_inv X U s"
  shows "safe E X U (HandlePaymentNotification E n pk) s"
  unfolding HandlePaymentNotification_def
  using assms
  by (auto intro!: safe_handleHosted safe_then safe_confirmPayment keeps_safe [OF sound_ByTradeNo]
      split: sum.splits option.splits)

end
