(* ===== verification/Pay_Safe_Cancel.thy ===== *)
theory Pay_Safe_Cancel
  imports Pay_Safe_Notify
begin

text \<open>
  Cancelling, expiring, verifying and reconciling orders keeps the invariant.
\<close>

lemmas safe_seq = safe_then safe_or_fail

lemma safe_fallbackAllowed: "pay_inv X U s \<Longrightarrow> safe E X U (webhookRegistryFallbackAllowed k) s"
  unfolding webhookRegistryFallbackAllowed_def Let_def
  by (auto intro!: safe_then split: sum.splits)

lemma safe_getOrderProvider: "pay_inv X U s \<Longrightarrow> safe E X U (getOrderProvider E ord) s"
  unfolding getOrderProvider_def Let_def
  by (auto intro!: safe_seq safe_fallbackAllowed split: option.splits)

lemma safe_reconcileHosted: "pay_inv X U s \<Longrightarrow> safe E X U (reconcileHostedOrder E ord) s"
  unfolding reconcileHostedOrder_def
  by (auto intro!: safe_seq safe_getOrderProvider safe_handleHosted safe_update_keep simp: immut_def)

lemma safe_resumeHosted: "pay_inv X U s \<Longrightarrow> safe E X U (resumeHostedCreation E ord) s"
  unfolding resumeHostedCreation_def
  by (auto intro!: safe_seq safe_getOrderProvider safe_reconcileHosted safe_update_keep simp: immut_def split: sum.splits)

lemma safe_ResumeStripe: "pay_inv X U s \<Longrightarrow> safe E X U (ResumeStripeHostedOrder E oid uid) s"
  unfolding ResumeStripeHostedOrder_def
  by (auto intro!: safe_then safe_resumeHosted split: sum.splits)

lemma safe_cancel_update:
  "fs = Expired \<or> fs = Cancelled \<Longrightarrow>
    safe E X U (UpdateOrder E oid (\<lambda>now r. o_Status r \<in> set [Pending, Expired] \<and> o_PaidAt r = None) (\<lambda>now r. r\<lparr>o_Status := fs\<rparr>)) s"
  "fs = Expired \<or> fs = Cancelled \<Longrightarrow>
    safe E X U (UpdateOrder E oid (\<lambda>now r. o_Status r = Pending) (\<lambda>now r. r\<lparr>o_Status := fs\<rparr>)) s"
  by (rule safe_UpdateOrder, auto simp: update_simps)+

lemma safe_cancelHosted:
  assumes "pay_inv X U s" "fs = Expired \<or> fs = Cancelled"
  shows "safe E X U (cancelHostedOrder E ord fs op) s"
proof -
  define audit :: "(perr + check_paid) job" where
    "audit = and_then (writeAuditLog (o_ID ord) (if fs = Expired then ''ORDER_EXPIRED'' else ''ORDER_CANCELLED'') op NoDetail)
       (\<lambda>_. returns_ok CancelledNow)"
  define finish where "finish = or_fail (UpdateOrder E (o_ID ord)
       (\<lambda>now row. o_Status row \<in> set [Pending, Expired] \<and> o_PaidAt row = None) (\<lambda>now row. row\<lparr>o_Status := fs\<rparr>)) (\<lambda>changed.
         if changed \<noteq> 0 then audit
         else or_fail (GetOrder (o_ID ord)) (\<lambda>current.
           if o_PaidAt current \<noteq> None then returns_ok AlreadyPaid
           else if o_Status current \<noteq> fs then fails (AppErr ''PAYMENT_PROCESSING'') else audit))"
  have audit: "safe E X U audit t" if "pay_inv X U t" for t
    using that unfolding audit_def by (intro safe_then) auto
  have "safe E X U finish t" if "pay_inv X U t" for t
    unfolding finish_def
    by (rule safe_or_fail [OF safe_cancel_update(1) [OF assms(2)] that]) (auto intro!: safe_or_fail audit)
  then show ?thesis
    unfolding cancelHostedOrder_def Let_def audit_def [symmetric] finish_def [symmetric] using assms(1)
    by (auto intro!: safe_seq safe_getOrderProvider safe_reconcileHosted split: option.splits)
qed

lemma safe_requery: "pay_inv X U s \<Longrightarrow> safe E X U (requeryPaidOrderOnce q) s"
  unfolding requeryPaidOrderOnce_def by (auto intro!: safe_then split: sum.splits)

lemma safe_confirm_paid: "pay_inv X U s \<Longrightarrow> safe E X U (confirm_paid E ord k q r) s"
  unfolding confirm_paid_def Let_def
  by (auto intro!: safe_then safe_HandlePaymentNotification safe_update_keep simp: immut_def)

lemma safe_checkPaid: "pay_inv X U s \<Longrightarrow> safe E X U (checkPaidWithOptions E b ord) s"
  unfolding checkPaidWithOptions_def Let_def
  by (auto intro!: safe_then safe_reconcileHosted safe_getOrderProvider safe_confirm_paid safe_requery
      split: sum.splits option.splits)

lemma safe_cancelCore:
  assumes "pay_inv X U s" "fs = Expired \<or> fs = Cancelled"
  shows "safe E X U (cancelCore E ord fs op) s"
  unfolding cancelCore_def checkPaid_def
  using assms by (auto intro!: safe_cancelHosted safe_seq safe_checkPaid safe_cancel_update(2))

lemma safe_CancelOrder: "pay_inv X U s \<Longrightarrow> safe E X U (CancelOrder E oid uid) s"
  unfolding CancelOrder_def by (auto intro!: safe_then safe_cancelCore split: sum.splits)

lemma safe_AdminCancelOrder: "pay_inv X U s \<Longrightarrow> safe E X U (AdminCancelOrder E oid) s"
  unfolding AdminCancelOrder_def by (auto intro!: safe_then safe_cancelCore split: sum.splits)

lemma safe_for_orders:
  "pay_inv X U s \<Longrightarrow> (\<And>ord t. pay_inv X U t \<Longrightarrow> safe E X U (act ord) t) \<Longrightarrow> safe E X U (for_orders act ords n) s"
  by (induction ords arbitrary: n s) (auto intro!: safe_then)

lemma safe_ExpireTimedOut: "pay_inv X U s \<Longrightarrow> safe E X U (ExpireTimedOutOrders E) s"
  unfolding ExpireTimedOutOrders_def
  by (auto intro!: safe_seq safe_for_orders safe_cancelCore)

lemma safe_ReconcilePending: "pay_inv X U s \<Longrightarrow> safe E X U (ReconcilePendingPaymentOrders E) s"
  unfolding ReconcilePendingPaymentOrders_def reconcilePaid_def
  by (auto intro!: safe_or_fail safe_for_orders safe_checkPaid)

lemma safe_hosted_pass: "pay_inv X U s \<Longrightarrow> safe E X U (hosted_pass E ords n) s"
  by (induction ords arbitrary: n s)
    (auto intro!: safe_seq safe_resumeHosted safe_reconcileHosted split: sum.splits)

lemma safe_reconcileHostedOrders: "pay_inv X U s \<Longrightarrow> safe E X U (reconcileHostedOrders E cursor) s"
  unfolding reconcileHostedOrders_def by (auto intro!: safe_or_fail safe_hosted_pass)

lemma safe_ByTradeNo [simp]: "safe E X U (OrderByOutTradeNo no) s"
  by (rule keeps_safe [OF sound_ByTradeNo])

lemma safe_VerifyOrder: "pay_inv X U s \<Longrightarrow> safe E X U (VerifyOrderByOutTradeNo E raw uid) s"
  unfolding VerifyOrderByOutTradeNo_def reconcilePaid_def
  by (auto intro!: safe_seq safe_resumeHosted safe_reconcileHosted safe_checkPaid split: sum.splits)

lemma safe_VerifyPublic: "pay_inv X U s \<Longrightarrow> safe E X U (VerifyOrderPublic raw) s"
  unfolding VerifyOrderPublic_def by (auto intro!: safe_then split: sum.splits)

end
