(* ===== verification/Pay_Safe_Refund.thy ===== *)
theory Pay_Safe_Refund
  imports Pay_Safe_Cancel
begin

text \<open>
  Refunds keep the invariant: every status they write is one of a settled order, the holds and
  deductions leave the recharged total alone, and only the rollback, which goes through
  \<open>UpdateBalance\<close>, adds to the recharged total of the user whose order is refunded.
\<close>

section \<open>Transactions\<close>

lemma deduct_fine: "fine E X U s (snd (deduct_available E' uid amount s))"
  by (auto simp: deduct_available_def Let_def split: option.splits intro: fine_set_user)

lemma update_balance_fine: "uid \<notin> U \<Longrightarrow> fine E X U s (snd (update_balance E' uid amount s))"
  by (auto simp: update_balance_def Let_def split: option.splits intro: fine_set_other)

lemma extend_fine: "fine E X U s (snd (extend_subscription E' now sid days s))"
  by (auto simp: extend_subscription_def Let_def split: option.splits)

lemma hold_balance_fine: "hold_balance E' p uid j s = Inr (j', t) \<Longrightarrow> fine E X U s t \<and> orders t = orders s"
  by (auto simp: hold_balance_def Let_def split: option.splits if_splits intro: fine_set_user)

lemma hold_subscription_fine: "hold_subscription E' now p j s = Inr (j', t) \<Longrightarrow> fine E X U s t \<and> orders t = orders s"
  by (auto simp: hold_subscription_def Let_def split: option.splits if_splits)

lemma release_balance_fine: "release_balance E' uid j s = Inr t \<Longrightarrow> fine E X U s t \<and> orders t = orders s"
  by (auto simp: release_balance_def split: option.splits if_splits intro: fine_set_user)

lemma release_subscription_fine: "release_subscription E' now j s = Inr t \<Longrightarrow> fine E X U s t \<and> orders t = orders s"
  by (auto simp: release_subscription_def Let_def split: option.splits if_splits)

lemma find_order_unique:
  "distinct (map o_ID (orders s)) \<Longrightarrow> r \<in> set (orders s) \<Longrightarrow> o_ID r = oid \<Longrightarrow> find_order oid s = Some r"
proof -
  have "find (\<lambda>r. o_ID r = oid) xs = Some r" if "distinct (map o_ID xs)" "r \<in> set xs" "o_ID r = oid" for xs
    using that by (induction xs) (auto simp: rev_image_eqI)
  then show "distinct (map o_ID (orders s)) \<Longrightarrow> r \<in> set (orders s) \<Longrightarrow> o_ID r = oid \<Longrightarrow> find_order oid s = Some r"
    by (simp add: find_order_def)
qed

lemma find_order_row: "find_order oid s = Some r \<Longrightarrow> r \<in> set (orders s) \<and> o_ID r = oid"
  by (auto simp: find_order_def find_Some_iff)

lemma settled_not [simp]: "settled st \<Longrightarrow> st \<noteq> Paid \<and> st \<noteq> Recharging \<and> st \<noteq> OrderFailed"
  by (auto simp: settled_def psIsRefundStatus_def)

lemma settled_goes:
  assumes "order_ok X U t r" "settled (o_Status r)" "settled (o_Status q)" "immut q = immut r" "o_PaidAt q = o_PaidAt r"
  shows "order_goes r q \<and> paid_ok q \<and> (settled (o_Status q) \<longrightarrow> delivered r t)"
  using assms by (auto simp: order_goes_def order_ok_def paid_ok_def failed_unpaid_def immut_def)

text \<open>An update that moves the settled rows of one order to settled rows.\<close>

lemma fine_settled:
  assumes "\<And>r. pay_inv X U s \<Longrightarrow> r \<in> set (orders s) \<Longrightarrow> P r \<Longrightarrow> settled (o_Status r)"
    and "\<And>r. immut (f r) = immut r" "\<And>r. o_PaidAt (f r) = o_PaidAt r"
    and "\<And>r. settled (o_Status r) \<Longrightarrow> settled (o_Status (f r))"
  shows "fine E X U s (s\<lparr>orders := snd (update_rows_where P f (orders s))\<rparr>)"
proof (rule fine_orders)
  fix r assume I: "pay_inv X U s" and r: "r \<in> set (orders s)" "P r"
  have old: "settled (o_Status r)" "order_ok X U s r" using assms(1) [OF I r] inv_order [OF I r(1)] by auto
  have new: "settled (o_Status (f r))" using assms(4) old(1) .
  show "order_goes r (f r) \<and> paid_ok (f r) \<and> (settled (o_Status (f r)) \<longrightarrow> delivered r s)"
    by (rule settled_goes [OF old(2,1) new assms(2,3)])
qed

lemma order_row_settled:
  assumes "pay_inv X U s" "find_order oid s = Some ord" "settled (o_Status ord)" "r \<in> set (orders s)" "o_ID r = oid"
  shows "settled (o_Status r)"
proof -
  have "r = ord"
    using assms(1,4,5) find_order_row [OF assms(2)]
    by (intro distinct_map_eq [of o_ID "orders s"]) (auto simp: pay_inv_def)
  with assms(3) show ?thesis by simp
qed

lemma find_order_cong: "orders t = orders s \<Longrightarrow> find_order oid t = find_order oid s"
  by (simp add: find_order_def)

lemma hold_tx_fine: "fine E X U s (snd (hold_tx E' p now s))"
proof (cases "find_order (rp_OrderID p) s")
  case None
  then show ?thesis by (simp add: hold_tx_def)
next
  case (Some ord)
  note found = Some
  show ?thesis
  proof (cases "fst (hold_tx E' p now s)")
    case (Inl err)
    then have "snd (hold_tx E' p now s) = s"
      using found by (auto simp: hold_tx_def Let_def split: sum.splits if_splits)
    then show ?thesis by simp
  next
    case (Inr held)
    obtain j j1 j2 s1 s2 where st: "settled (o_Status ord)"
      and h1: "hold_balance E' p (o_UserID ord) j s = Inr (j1, s1)"
      and h2: "hold_subscription E' now p j1 s1 = Inr (j2, s2)"
      and t: "snd (hold_tx E' p now s) = s2\<lparr>orders := snd (update_rows_where (\<lambda>r. o_ID r = o_ID ord)
                            (\<lambda>r. (touch E' now r)\<lparr>o_Status := RefundPending, o_RefundAmount := pe_cents E' (j_Amount j2),
                               o_RefundReason := Some (rp_Reason p), o_ForceRefund := rp_Force p,
                               o_ProviderSnapshot := hostedRefundSnapshot ord j2\<rparr>) (orders s2))\<rparr>"
      using found Inr by (auto simp: hold_tx_def Let_def split: sum.splits if_splits prod.splits)
    have "fine E X U s s1" "fine E X U s1 s2" and same: "orders s2 = orders s"
      using hold_balance_fine [OF h1] hold_subscription_fine [OF h2] by auto
    then have s2: "fine E X U s s2" by (blast intro: fine_trans)
    have found2: "find_order (o_ID ord) s2 = Some ord"
      using found find_order_cong [OF same] find_order_row [OF found] by simp
    have "fine E X U s2 (snd (hold_tx E' p now s))"
      unfolding t by (rule fine_settled) (auto simp: immut_def touch_def intro: order_row_settled [OF _ found2 st])
    with s2 show ?thesis by (rule fine_trans)
  qed
qed

lemma finish_tx_fine: "fine E X U s (snd (finish_tx E' oid resp now s))"
proof (cases "find_order oid s")
  case None
  then show ?thesis by (simp add: finish_tx_def)
next
  case (Some ord)
  note found = Some
  show ?thesis
  proof (cases "o_Status ord = RefundPending")
    case False
    with found show ?thesis by (simp add: finish_tx_def)
  next
    case True
    have save: "fine E X U s (t\<lparr>orders := snd (update_rows_where (\<lambda>r. o_ID r = oid)
        (\<lambda>r. upd ((touch E' now r)\<lparr>o_ProviderSnapshot := sn\<rparr>)) (orders t))\<rparr>)"
      if t: "fine E X U s t" "orders t = orders s"
        and upd: "\<And>r. immut (upd r) = immut r \<and> o_PaidAt (upd r) = o_PaidAt r \<and> (settled (o_Status r) \<longrightarrow> settled (o_Status (upd r)))"
      for upd t sn
    proof (rule fine_trans [OF t(1)], rule fine_settled)
      have found2: "find_order oid t = Some ord" using found find_order_cong [OF t(2)] by simp
      show "settled (o_Status r)" if "pay_inv X U t" "r \<in> set (orders t)" "o_ID r = oid" for r
        using order_row_settled [OF that(1) found2 _ that(2,3)] True by simp
    qed (use upd in \<open>auto simp: touch_def immut_def\<close>)
    show ?thesis
    proof (cases "readHostedRefund ord")
      case (Inl err)
      with found True show ?thesis by (simp add: finish_tx_def)
    next
      case (Inr j)
      define j' where "j' = (if rr_RefundID resp \<noteq> [] then j\<lparr>j_RefundID := rr_RefundID resp\<rparr> else j)"
      define bad where "bad = (rr_RefundID resp \<noteq> [] \<and> j_RefundID j \<noteq> [] \<and> j_RefundID j \<noteq> rr_RefundID resp)"
      note simps = finish_tx_def Let_def found True Inr j'_def [symmetric] bad_def [symmetric]
      consider "bad" | "\<not> bad" "rr_Status resp = ProviderStatusSuccess \<or> rr_Status resp = ProviderStatusRefunded"
        | "\<not> bad" "\<not> (rr_Status resp = ProviderStatusSuccess \<or> rr_Status resp = ProviderStatusRefunded)"
            "rr_Status resp = ProviderStatusFailed"
        | "\<not> bad" "\<not> (rr_Status resp = ProviderStatusSuccess \<or> rr_Status resp = ProviderStatusRefunded)"
            "rr_Status resp \<noteq> ProviderStatusFailed" by blast
      then show ?thesis
      proof cases
        case 1
        then show ?thesis by (simp add: simps)
      next
        case 2
        have "fine E X U s (s\<lparr>orders := snd (update_rows_where (\<lambda>r. o_ID r = oid) (\<lambda>r. (touch E' now r)\<lparr>
            o_ProviderSnapshot := sn, o_Status := st, o_RefundAt := Some now\<rparr>) (orders s))\<rparr>)"
          if "settled st" for sn st
          using save [OF fine_refl refl, of "\<lambda>r. r\<lparr>o_Status := st, o_RefundAt := Some now\<rparr>" sn] that
          by (simp add: immut_def)
        with 2 show ?thesis by (simp add: simps)
      next
        case 3
        show ?thesis
        proof (cases "release_balance E' (o_UserID ord) j' s")
          case (Inl err)
          with 3 show ?thesis by (simp add: simps)
        next
          case (Inr s1)
          note s1 = Inr
          show ?thesis
          proof (cases "release_subscription E' now j' s1")
            case (Inl err)
            with 3 s1 show ?thesis by (simp add: simps)
          next
            case (Inr s2)
            have "fine E X U s s1" "fine E X U s1 s2" "orders s2 = orders s"
              using release_balance_fine [OF s1] release_subscription_fine [OF Inr] by auto
            then have "fine E X U s s2" "orders s2 = orders s" by (auto intro: fine_trans [of E X U s s1 s2])
            then have "fine E X U s (s2\<lparr>orders := snd (update_rows_where (\<lambda>r. o_ID r = oid) (\<lambda>r. (touch E' now r)\<lparr>
                o_ProviderSnapshot := sn, o_Status := RefundFailed, o_FailedAt := Some now, o_FailedReason := why\<rparr>)
                (orders s2))\<rparr>)" for sn why
              using save [of s2 "\<lambda>r. r\<lparr>o_Status := RefundFailed, o_FailedAt := Some now, o_FailedReason := why\<rparr>" sn]
              by (simp add: immut_def)
            with 3 s1 Inr show ?thesis by (simp add: simps)
          qed
        qed
      next
        case 4
        then show ?thesis using save [OF fine_refl refl, of id] by (simp add: simps)
      qed
    qed
  qed
qed

lemma apply_final_fine:
  assumes "applyRefundFinalDeduction E' c now p s = Inr (p', t)"
  shows "fine E X U s t \<and> orders t = orders s \<and> rp_Order p' = rp_Order p"
proof -
  have bal: "fine E X U s a \<and> orders a = orders s \<and> rp_Order q = rp_Order p"
    if "(if rp_DeductionType p = DeductBalance \<and> fl_less zero64 (rp_BalanceToDeduct p) then
           (case deduct_available E' (o_UserID (rp_Order p)) (rp_BalanceToDeduct p) s of
              (Inl err, _) \<Rightarrow> Inl err
            | (Inr deducted, s1) \<Rightarrow> Inr (p\<lparr>rp_BalanceToDeduct := deducted\<rparr>, s1))
         else Inr (p, s)) = Inr (q, a)" for q a
    using that deduct_fine [of E X U s E' "o_UserID (rp_Order p)" "rp_BalanceToDeduct p"]
    by (auto split: if_splits prod.splits sum.splits option.splits simp: deduct_available_def Let_def)
  have sub: "fine E X U a b \<and> orders b = orders a" if "apply_final_subscription E' c now q a = Inr b" for q a b
    using that extend_fine [of E X U a E' now "rp_SubscriptionID q" "- rp_SubDaysToDeduct q"]
    by (auto simp: apply_final_subscription_def extend_subscription_def Let_def split: if_splits prod.splits sum.splits option.splits)
  from assms obtain q a b where "(if rp_DeductionType p = DeductBalance \<and> fl_less zero64 (rp_BalanceToDeduct p) then
           (case deduct_available E' (o_UserID (rp_Order p)) (rp_BalanceToDeduct p) s of
              (Inl err, _) \<Rightarrow> Inl err
            | (Inr deducted, s1) \<Rightarrow> Inr (p\<lparr>rp_BalanceToDeduct := deducted\<rparr>, s1))
         else Inr (p, s)) = Inr (q, a)" "apply_final_subscription E' c now q a = Inr t" "p' = q"
    unfolding applyRefundFinalDeduction_def Let_def by (auto split: sum.splits prod.splits)
  with bal sub show ?thesis by (auto intro: fine_trans)
qed

lemma finalize_tx_fine: "fine E X U s (snd (finalize_tx E' c p now s))"
proof (cases "fst (finalize_tx E' c p now s)")
  case (Inl err)
  then have "snd (finalize_tx E' c p now s) = s"
    by (auto simp: finalize_tx_def Let_def split: sum.splits if_splits option.splits prod.splits)
  then show ?thesis by simp
next
  case (Inr r)
  let ?upd = "\<lambda>p' st. st\<lparr>orders := snd (update_rows_where (\<lambda>r. o_ID r = rp_OrderID p)
                          (\<lambda>r. mark_refunded E' p' now (touch E' now r)) (orders st))\<rparr>"
  obtain p' s1 t where pend: "list_ex (\<lambda>r. o_ID r = rp_OrderID p \<and> o_Status r = RefundPending) (orders s)"
    and app: "applyRefundFinalDeduction E' c now p s = Inr (p', s1)"
    and ins: "insert_audit now (rp_OrderID p) ''REFUND_SUCCESS'' NoDetail ''admin'' (?upd p' s1) = Some t"
    and t: "snd (finalize_tx E' c p now s) = t"
    using Inr by (auto simp: finalize_tx_def Let_def split: sum.splits if_splits option.splits prod.splits)
  have s1: "fine E X U s s1" "orders s1 = orders s" using apply_final_fine [OF app] by auto
  have "fine E X U s1 (?upd p' s1)"
  proof (rule fine_settled)
    fix r assume I: "pay_inv X U s1" and r: "r \<in> set (orders s1)" "o_ID r = rp_OrderID p"
    obtain x where x: "x \<in> set (orders s1)" "o_ID x = rp_OrderID p" "o_Status x = RefundPending"
      using pend s1(2) by (auto simp: list_ex_iff)
    have "r = x" using I r x by (intro distinct_map_eq [of o_ID "orders s1"]) (auto simp: pay_inv_def)
    with x show "settled (o_Status r)" by simp
  qed (auto simp: immut_def mark_refunded_def touch_def refunded_status_def)
  with s1 insert_audit_fine [OF ins] t show ?thesis by (blast intro: fine_trans)
qed

section \<open>Programs\<close>

lemma safe_RefundProviderInstance [simp]: "safe E X U (RefundProviderInstance ord) s"
  by (simp add: RefundProviderInstance_def)

lemma safe_RequestRefund:
  assumes "pay_inv X U s"
  shows "safe E X U (RequestRefund E oid uid reason) s"
proof -
  have "safe E X U (validateRefundRequest oid uid) t" if "pay_inv X U t" for t
    unfolding validateRefundRequest_def using that
    by (auto intro!: safe_then split: sum.splits option.splits)
  moreover have "safe E X U (UpdateOrder E oid
         (\<lambda>now r. o_UserID r = uid \<and> o_Status r = Completed \<and> o_OrderType r = OrderTypeBalance)
         (\<lambda>now r. r\<lparr>o_Status := RefundRequested, o_RefundRequestedAt := Some now,
            o_RefundRequestReason := Some (TrimSpace reason), o_RefundRequestedBy := Some (Itoa uid),
            o_RefundAmount := pe_cents E (o_Amount r')\<rparr>)) t" for t r'
    by (rule safe_UpdateOrder) (auto simp: update_simps)
  ultimately show ?thesis
    unfolding RequestRefund_def using assms by (auto intro!: safe_seq)
qed

text \<open>The order of a plan was read in a settled state.\<close>

definition plan_ok :: "int set \<Rightarrow> int set \<Rightarrow> RefundPlan \<Rightarrow> db \<Rightarrow> bool" where
  "plan_ok X U p s = (seen X U (rp_Order p) s \<and> settled (o_Status (rp_Order p)))"

lemma plan_ok_stable: "plan_ok X U p s \<Longrightarrow> pay_rel E U s t \<Longrightarrow> plan_ok X U p t"
  unfolding plan_ok_def using seen_stable by blast

lemma plan_ok_same: "rp_Order q = rp_Order p \<Longrightarrow> plan_ok X U p s \<Longrightarrow> plan_ok X U q s"
  by (simp add: plan_ok_def)

lemma safe_settled_update:
  assumes "seen X U ord s" "settled (o_Status ord)" "o_ID ord = oid" "pay_inv X U s"
    and upd: "\<And>now r. immut (upd now r) = immut r \<and> o_PaidAt (upd now r) = o_PaidAt r \<and> settled (o_Status (upd now r))"
  shows "safe E X U (UpdateOrderByID E oid upd) s"
  unfolding UpdateOrderByID_def
proof (rule safe_or_fail [OF _ assms(4)])
  show "safe E X U (UpdateOrder E oid (\<lambda>now ord. True) upd) s"
  proof (rule safe_UpdateOrder, unfold may_update_def, intro ballI impI)
    fix now t r
    assume t: "pay_rel E U s t" "pay_inv X U t" and r: "r \<in> set (orders t)" "o_ID r = oid \<and> True" "order_ok X U t r"
    have "order_goes ord r" using seen_row [OF seen_stable [OF assms(1) t(1)] t(2) r(1)] r(2) assms(3) by simp
    then have "settled (o_Status r)" using assms(2) by (simp add: order_goes_def)
    moreover have touched: "immut (touch E now r) = immut r" "o_PaidAt (touch E now r) = o_PaidAt r"
      by (simp_all add: touch_def immut_def)
    ultimately show "order_goes r (upd now (touch E now r)) \<and> paid_ok (upd now (touch E now r)) \<and>
        (settled (o_Status (upd now (touch E now r))) \<longrightarrow> delivered r t)"
      using upd [of now "touch E now r"] by (intro settled_goes [OF r(3)]) simp_all
  qed
qed simp

lemma safe_deduct [simp]: "safe E X U (deductAvailableBalance E' uid a) s"
  unfolding deductAvailableBalance_def by (rule safe_db_call) (rule deduct_fine)

lemma safe_UpdateBalance: "uid \<notin> U \<Longrightarrow> safe E X U (UpdateBalance E' uid a) s"
  unfolding UpdateBalance_def by (rule safe_db_call) (rule update_balance_fine)

lemma safe_ExtendSubscription [simp]: "pay_inv X U s \<Longrightarrow> safe E X U (ExtendSubscription E' sid d) s"
  unfolding ExtendSubscription_def
  by (rule safe_or_fail [OF safe_db_call]) (auto intro: extend_fine)

lemma safe_RevokeSubscription [simp]: "pay_inv X U s \<Longrightarrow> safe E X U (RevokeSubscription sid) s"
  unfolding RevokeSubscription_def by (auto intro!: safe_seq safe_db_call)

lemma safe_restoreStatus: "pay_inv X U s \<Longrightarrow> plan_ok X U p s \<Longrightarrow> safe E X U (restoreStatus E p) s"
  unfolding restoreStatus_def plan_ok_def
  by (auto intro!: safe_then safe_settled_update [of X U "rp_Order p"] simp: immut_def)

lemma safe_restore_later:
  "plan_ok X U p s \<Longrightarrow> pay_rel E U s t \<Longrightarrow> pay_rel E U t u \<Longrightarrow> pay_inv X U u \<Longrightarrow> safe E X U (restoreStatus E p) u"
  "plan_ok X U p s \<Longrightarrow> pay_rel E U s t \<Longrightarrow> pay_rel E U t u \<Longrightarrow> pay_rel E U u v \<Longrightarrow> pay_inv X U v \<Longrightarrow>
    safe E X U (restoreStatus E p) v"
  by (blast intro: safe_restoreStatus plan_ok_stable)+

lemma safe_rollback_failed [simp]: "pay_inv X U s \<Longrightarrow> safe E X U (rollback_failed p) s"
  unfolding rollback_failed_def by (auto intro!: safe_then)

lemma safe_RollbackRefund:
  "pay_inv X U s \<Longrightarrow> o_UserID (rp_Order p) \<notin> U \<Longrightarrow> safe E X U (RollbackRefund E' p) s"
  unfolding RollbackRefund_def by (auto intro!: safe_then safe_UpdateBalance)

lemma safe_mark_refund_failed:
  "pay_inv X U s \<Longrightarrow> seen X U ord s \<Longrightarrow> settled (o_Status ord) \<Longrightarrow> o_ID ord = oid \<Longrightarrow>
    safe E X U (mark_refund_failed E oid e) s"
  unfolding mark_refund_failed_def
  by (auto intro!: safe_then safe_settled_update simp: immut_def)

definition refundee :: "int set \<Rightarrow> RefundPlan \<Rightarrow> bool" where
  "refundee U p = (o_UserID (rp_Order p) \<notin> U)"

lemma safe_handleGwFail:
  assumes "pay_inv X U s" "plan_ok X U p s" "refundee U p"
  shows "safe E X U (handleGwFail E p e) s"
  unfolding handleGwFail_def
proof (rule safe_then [OF safe_RollbackRefund])
  fix ok t assume t: "pay_rel E U s t" "pay_inv X U t"
  then have p: "plan_ok X U p t" using assms(2) plan_ok_stable by blast
  then have "safe E X U (mark_refund_failed E (rp_OrderID p) e) t"
    using t(2) by (auto simp: plan_ok_def intro!: safe_mark_refund_failed [of X U t "rp_Order p"])
  with t p show "safe E X U (if ok then and_then (restoreStatus E p) (\<lambda>_.
       and_then (writeAuditLog (rp_OrderID p) ''REFUND_GATEWAY_FAILED'' ''admin'' NoDetail) (\<lambda>_.
       returns_ok (warning ''gateway failed, rolled back'')))
     else and_then (mark_refund_failed E (rp_OrderID p) e) (\<lambda>_. fails (AppErr ''REFUND_FAILED''))) t"
    by (auto intro!: safe_then safe_restoreStatus)
qed (use assms in \<open>auto simp: refundee_def\<close>)

lemma safe_markRefundOk: "pay_inv X U s \<Longrightarrow> plan_ok X U p s \<Longrightarrow> safe E X U (markRefundOk E p) s"
  unfolding markRefundOk_def plan_ok_def
  by (auto intro!: safe_seq safe_settled_update [of X U "rp_Order p"] simp: immut_def mark_refunded_def refunded_status_def)

lemma safe_markRefundPending:
  assumes "pay_inv X U s" "plan_ok X U p s" "refundee U p"
  shows "safe E X U (markRefundPending E p resp) s"
  unfolding markRefundPending_def
proof (rule safe_then [OF safe_RollbackRefund])
  fix b t assume t: "pay_rel E U s t" "pay_inv X U t"
  then have "plan_ok X U p t" using assms(2) plan_ok_stable by blast
  with t show "safe E X U (or_fail (UpdateOrderByID E (rp_OrderID p)
       (\<lambda>now r. r\<lparr>o_Status := RefundPending, o_RefundAmount := pe_cents E (rp_RefundAmount p),
          o_RefundReason := Some (rp_Reason p), o_RefundAt := None, o_ForceRefund := rp_Force p,
          o_FailedAt := None, o_FailedReason := None\<rparr>)) (\<lambda>_.
     and_then (writeAuditLog (rp_OrderID p) ''REFUND_PENDING'' ''admin''
       (RefundDetail (TrimSpace (rr_RefundID resp)) b)) (\<lambda>_.
     returns_ok (warning (if b then ''gateway refund is pending confirmation''
       else ''gateway refund is pending confirmation; refund deduction rollback failed''))))) t"
    by (auto intro!: safe_seq safe_settled_update [of X U "rp_Order p"] simp: immut_def plan_ok_def)
qed (use assms in \<open>auto simp: refundee_def\<close>)

lemma safe_finishRefund:
  assumes "pay_inv X U s" "plan_ok X U p s" "refundee U p"
  shows "safe E X U (finishRefund E p resp) s"
  unfolding finishRefund_def Let_def
  using assms by (auto intro!: safe_handleGwFail safe_markRefundOk safe_markRefundPending split: option.splits)

lemma safe_getRefundProvider: "pay_inv X U s \<Longrightarrow> safe E X U (getRefundProvider ord) s"
  unfolding getRefundProvider_def by (auto intro!: safe_or_fail)

lemma safe_gwRefund: "pay_inv X U s \<Longrightarrow> safe E X U (gwRefund p) s"
  unfolding gwRefund_def Let_def
  by (auto intro!: safe_seq safe_getRefundProvider split: option.splits)

lemma sound_take:
  assumes "pay_inv X U s" "plan_ok X U p s"
  shows "sound E X U (\<lambda>q t. rp_Order q = rp_Order p) (take_balance E p) s"
    "sound E X U (\<lambda>q t. rp_Order q = rp_Order p) (take_subscription E p) s"
proof -
  show "sound E X U (\<lambda>q t. rp_Order q = rp_Order p) (take_balance E p) s"
    unfolding take_balance_def using assms
    by (auto intro!: sound_then sound_ok split: sum.splits) (blast intro: safe_restore_later)+
  show "sound E X U (\<lambda>q t. rp_Order q = rp_Order p) (take_subscription E p) s"
    unfolding take_subscription_def using assms
    by (auto intro!: sound_then sound_ok split: sum.splits) (blast intro: safe_restore_later)+
qed

end
