(* ===== verification/Pay_Jobs.thy ===== *)
theory Pay_Jobs
  imports Pay_Safe_Refund
begin

text \<open>
  The composed refunds keep the invariant; the jobs of the payment component, every program that a
  request, a callback or a timer starts; and the interpretation of \<open>crew\<close>, which gives the
  invariant for any number of workers on these jobs.
\<close>

section \<open>Refunds\<close>

lemma safe_finishHosted: "pay_inv X U s \<Longrightarrow> safe E X U (finishHostedRefund E oid resp) s"
  unfolding finishHostedRefund_def
  by (auto intro!: safe_seq safe_db_call finish_tx_fine split: option.splits)

lemma safe_queryHosted: "pay_inv X U s \<Longrightarrow> safe E X U (queryHostedRefund E ord) s"
  unfolding queryHostedRefund_def
  by (auto intro!: safe_or_fail safe_getRefundProvider safe_finishHosted split: sum.splits)

lemma safe_executeHosted: "pay_inv X U s \<Longrightarrow> safe E X U (executeHostedRefund E p) s"
  unfolding executeHostedRefund_def Let_def
  by (auto intro!: safe_queryHosted safe_seq safe_getRefundProvider safe_db_call hold_tx_fine safe_finishHosted
      split: option.splits prod.splits)

lemma safe_refund_gateway:
  assumes "pay_inv X U s" "plan_ok X U p s" "refundee U p"
  shows "safe E X U (and_then (gwRefund p) (\<lambda>resp.
    case resp of Inl err \<Rightarrow> handleGwFail E p err | Inr r \<Rightarrow> finishRefund E p r)) s"
proof (rule safe_then [OF safe_gwRefund])
  fix r t assume t: "pay_rel E U s t" "pay_inv X U t"
  then have "plan_ok X U p t" using assms(2) plan_ok_stable by blast
  with t assms(3) show "safe E X U (case r of Inl err \<Rightarrow> handleGwFail E p err | Inr r \<Rightarrow> finishRefund E p r) t"
    by (auto intro: safe_handleGwFail safe_finishRefund split: sum.splits)
qed (use assms in auto)

lemma refundable_settled: "refundable st \<Longrightarrow> settled st"
  by (auto simp: refundable_def)

lemma safe_ExecuteRefund:
  assumes "pay_inv X U s" "plan_ok X U p s" "refundee U p"
  shows "safe E X U (ExecuteRefund E p) s"
proof -
  have claim: "safe E X U (UpdateOrder E (rp_OrderID p) (\<lambda>now r. refundable (o_Status r)) (\<lambda>now r. r\<lparr>o_Status := Refunding\<rparr>)) s"
  proof (rule safe_UpdateOrder, unfold may_update_def, intro ballI impI)
    fix now t r assume "o_ID r = rp_OrderID p \<and> refundable (o_Status r)" "order_ok X U t r"
    then show "order_goes r ((touch E now r)\<lparr>o_Status := Refunding\<rparr>) \<and> paid_ok ((touch E now r)\<lparr>o_Status := Refunding\<rparr>) \<and>
        (settled (o_Status ((touch E now r)\<lparr>o_Status := Refunding\<rparr>)) \<longrightarrow> delivered r t)"
      by (intro settled_goes [of X U]) (auto simp: immut_def touch_def dest: refundable_settled)
  qed
  have sub: "safe E X U (or_fail (take_subscription E q) (\<lambda>p. and_then (gwRefund p) (\<lambda>resp.
      case resp of Inl err \<Rightarrow> handleGwFail E p err | Inr r \<Rightarrow> finishRefund E p r))) t"
    if t: "pay_inv X U t" "plan_ok X U q t" "refundee U q" for q t
  proof (rule sound_after [OF sound_take(2) [OF t(1,2)] t(1)])
    fix q' :: RefundPlan and u assume u: "pay_rel E U t u" "pay_inv X U u" "rp_Order q' = rp_Order q"
    then have "plan_ok X U q' u" "refundee U q'"
      using t(2,3) plan_ok_stable by (auto simp: plan_ok_def refundee_def intro: seen_stable)
    with u(2) show "safe E X U (and_then (gwRefund q') (\<lambda>resp.
      case resp of Inl err \<Rightarrow> handleGwFail E q' err | Inr r \<Rightarrow> finishRefund E q' r)) u"
      by (rule safe_refund_gateway)
  qed
  have bal: "safe E X U (or_fail (take_balance E p) (\<lambda>p. or_fail (take_subscription E p) (\<lambda>p. and_then (gwRefund p) (\<lambda>resp.
      case resp of Inl err \<Rightarrow> handleGwFail E p err | Inr r \<Rightarrow> finishRefund E p r)))) t"
    if t: "pay_inv X U t" "pay_rel E U s t" for t
  proof (rule sound_after [OF sound_take(1) [OF t(1)] t(1)])
    show p: "plan_ok X U p t" using assms(2) t(2) by (rule plan_ok_stable)
    fix q :: RefundPlan and u assume u: "pay_rel E U t u" "pay_inv X U u" "rp_Order q = rp_Order p"
    then have "plan_ok X U q u" "refundee U q"
      using p assms(3) by (auto simp: plan_ok_def refundee_def intro: seen_stable)
    with u(2) show "safe E X U (or_fail (take_subscription E q) (\<lambda>p. and_then (gwRefund p) (\<lambda>resp.
      case resp of Inl err \<Rightarrow> handleGwFail E p err | Inr r \<Rightarrow> finishRefund E p r))) u"
      by (rule sub)
  qed
  show ?thesis
    unfolding ExecuteRefund_def using assms(1)
    by (auto intro!: safe_executeHosted safe_or_fail [OF claim] bal)
qed

lemma safe_prepDeduct: "pay_inv X U s \<Longrightarrow>
    keeps (pay_inv X U) (pay_rel E U) (\<lambda>r t. \<forall>q. r = Inr q \<longrightarrow> rp_Order q = rp_Order p) (prepDeduct E' ord p force) s"
  unfolding prepDeduct_def Let_def
  by (auto intro!: keeps_then [where P = "\<lambda>a t. True"] keeps.returns simp: GetActiveSubscription_def
      split: option.splits sum.splits)

text \<open>The administrator's refund: the plan, then its execution.\<close>

definition refundOrder :: "pay_env \<Rightarrow> int \<Rightarrow> gofloat \<Rightarrow> string \<Rightarrow> bool \<Rightarrow> bool \<Rightarrow> (perr + RefundResult) job" where
  "refundOrder E oid amt reason force deduct =
     or_fail (PrepareRefund E oid amt reason force deduct) (\<lambda>r.
       case r of Inl early \<Rightarrow> returns_ok early | Inr p \<Rightarrow> ExecuteRefund E p)"

lemma sound_PrepareRefund:
  assumes "pay_inv X U s"
  shows "sound E X U (\<lambda>r t. \<forall>p. r = Inr p \<longrightarrow> plan_ok X U p t \<and> rp_OrderID p = oid) (PrepareRefund E oid amt reason force deduct) s"
  unfolding PrepareRefund_def
proof (rule keeps_then [OF sound_GetOrder assms])
  let ?P = "\<lambda>r t. \<forall>p. r = Inr p \<longrightarrow> plan_ok X U p t \<and> rp_OrderID p = oid"
  fix r t assume t: "pay_rel E U s t" "pay_inv X U t" "on_ok (\<lambda>ord t. o_ID ord = oid \<and> seen X U ord t) r t"
  have now: "sound E X U ?P (returns_ok (Inr p)) u" and later: "sound E X U ?P (and_then (prepDeduct E ord p force) returns_ok) u"
    if "r = Inr ord" "refundable (o_Status ord)" "rp_Order p = ord" "pay_rel E U t u" "pay_inv X U u" for ord p u
  proof -
    have ok: "plan_ok X U q v \<and> rp_OrderID q = oid" if "rp_Order q = ord" "pay_rel E U u v" for q v
      using that \<open>r = Inr ord\<close> \<open>refundable (o_Status ord)\<close> \<open>pay_rel E U t u\<close> t(3) refundable_settled
      by (auto simp: plan_ok_def intro: seen_stable)
    show "sound E X U ?P (returns_ok (Inr p)) u" using ok that(3) by (auto intro!: sound_ok)
    show "sound E X U ?P (and_then (prepDeduct E ord p force) returns_ok) u"
    proof (rule keeps_then [OF safe_prepDeduct \<open>pay_inv X U u\<close>])
      fix a :: "RefundResult + RefundPlan" and v
      assume v: "pay_rel E U u v" "\<forall>q. a = Inr q \<longrightarrow> rp_Order q = rp_Order p"
      show "sound E X U ?P (returns_ok a) v"
      proof (rule sound_ok)
        fix w assume "pay_rel E U v w"
        with v(1) have "pay_rel E U u w" by (rule pay_rel_trans)
        moreover have "rp_Order q = ord" if "a = Inr q" for q using that v(2) \<open>rp_Order p = ord\<close> by metis
        ultimately show "\<forall>p. a = Inr p \<longrightarrow> plan_ok X U p w \<and> rp_OrderID p = oid" using ok by blast
      qed
    qed (use that in simp)
  qed
  show "sound E X U ?P (case r of Inl _ \<Rightarrow> fails (AppErr ''NOT_FOUND'')
     | Inr ord \<Rightarrow>
         if \<not> refundable (o_Status ord) then fails (AppErr ''INVALID_STATUS'')
         else and_then (RefundProviderInstance ord) (\<lambda>i.
           case i of
             Inl _ \<Rightarrow> fails (AppErr ''PROVIDER_LOOKUP_FAILED'')
           | Inr None \<Rightarrow> fails (AppErr ''REFUND_DISABLED'')
           | Inr (Some inst) \<Rightarrow>
               if \<not> inst_RefundEnabled inst then fails (AppErr ''REFUND_DISABLED'')
               else if \<not> is_finite amt then fails (AppErr ''INVALID_AMOUNT'')
               else
                 let amt = (if fl_leq amt zero64 then o_Amount ord else amt);
                     cur = PaymentOrderCurrency ord
                 in if fl_less (paymentAmountToleranceForCurrency cur) (fl_sub amt (o_Amount ord))
                    then fails (AppErr ''REFUND_AMOUNT_EXCEEDED'')
                    else
                      let rr = TrimSpace reason;
                          rr = (if rr = [] then psStringValue (o_RefundRequestReason ord) else rr);
                          rr = (if rr = [] then ''refund order:'' @ Itoa oid else rr);
                          p = \<lparr>rp_Order = ord, rp_RefundAmount = amt,
                               rp_GatewayAmount = calculateGatewayRefundAmount (pe_decimal E) (o_Amount ord) (o_PayAmount ord) amt cur,
                               rp_Reason = rr, rp_Force = force, rp_DeductionType = DeductNone,
                               rp_BalanceToDeduct = zero64, rp_SubDaysToDeduct = 0, rp_SubscriptionID = 0\<rparr>
                      in if deduct then and_then (prepDeduct E ord p force) (\<lambda>r. returns_ok r)
                         else returns_ok (Inr p))) t"
  proof (cases r)
    case (Inr ord)
    show ?thesis
    proof (cases "refundable (o_Status ord)")
      case True
      show ?thesis
        unfolding Inr sum.case Let_def using True t(2)
        by (auto intro!: sound_then now [OF Inr True] later [OF Inr True] split: sum.splits option.splits)
    qed (simp add: Inr)
  qed simp
qed

lemma safe_refundOrder:
  assumes "pay_inv X U s" "oid \<in> X"
  shows "safe E X U (refundOrder E oid amt reason force deduct) s"
  unfolding refundOrder_def
proof (rule sound_after [OF sound_PrepareRefund [OF assms(1)] assms(1)])
  fix r :: "RefundResult + RefundPlan" and t assume t: "pay_inv X U t" "\<forall>p. r = Inr p \<longrightarrow> plan_ok X U p t \<and> rp_OrderID p = oid"
  then show "safe E X U (case r of Inl early \<Rightarrow> returns_ok early | Inr p \<Rightarrow> ExecuteRefund E p) t"
    using assms(2)
    by (auto intro!: safe_ExecuteRefund simp: refundee_def plan_ok_def seen_def order_ok_def split: sum.splits)
qed

lemma safe_pendingDetail: "pay_inv X U s \<Longrightarrow> safe E X U (latestRefundPendingDetail oid) s"
  unfolding latestRefundPendingDetail_def by (auto intro!: safe_then)

lemma safe_finalizeFailed:
  "pay_inv X U s \<Longrightarrow> seen X U ord s \<Longrightarrow> settled (o_Status ord) \<Longrightarrow> safe E X U (finalizeRefundFailed E ord e) s"
  unfolding finalizeRefundFailed_def
  by (auto intro!: safe_then safe_mark_refund_failed)

lemma safe_finalize_answer:
  assumes "pay_inv X U s" "seen X U ord s" "settled (o_Status ord)"
  shows "safe E X U (finalize_answer E ord ok resp) s"
proof -
  have prep: "safe E X U (prepDeduct E ord plan True) s" for plan
    by (rule keeps_safe [OF safe_prepDeduct [OF assms(1)]])
  show ?thesis
    unfolding finalize_answer_def Let_def finalizePendingRefundSuccess_def using assms
    by (auto intro!: safe_then prep keeps_db_ask finalize_tx_fine safe_finalizeFailed intro: seen_stable split: sum.splits)
qed

lemma safe_QueryAndFinalize:
  assumes "pay_inv X U s"
  shows "safe E X U (QueryAndFinalizeRefund E oid) s"
  unfolding QueryAndFinalizeRefund_def
proof (rule keeps_then [OF sound_GetOrder assms])
  fix r t assume t: "pay_inv X U t" "on_ok (\<lambda>ord t. o_ID ord = oid \<and> seen X U ord t) r t"
  have run: "safe E X U (or_fail (getRefundProvider ord) (\<lambda>prov.
           if \<not> pr_RefundQuery prov then fails (AppErr ''REFUND_QUERY_UNSUPPORTED'')
           else and_then (latestRefundPendingDetail oid) (\<lambda>(rid, rollbackOK).
             or_fail (ask an_refund_query) (\<lambda>resp.
             case (validateRefundProviderResponse resp, resp) of
               (None, Some r) \<Rightarrow> finalize_answer E ord rollbackOK r
             | (Some err, _) \<Rightarrow> finalizeRefundFailed E ord err
             | (None, None) \<Rightarrow> finalizeRefundFailed E ord (Failure ''payment refund response missing''))))) t"
    if "seen X U ord t" "settled (o_Status ord)" for ord
  proof (rule safe_or_fail [OF safe_getRefundProvider [OF t(1)] t(1)])
    fix prov :: provider and u assume u: "pay_rel E U t u" "pay_inv X U u"
    have "safe E X U (case d of (rid, rollbackOK) \<Rightarrow> or_fail (ask an_refund_query) (\<lambda>resp.
             case (validateRefundProviderResponse resp, resp) of
               (None, Some r) \<Rightarrow> finalize_answer E ord rollbackOK r
             | (Some err, _) \<Rightarrow> finalizeRefundFailed E ord err
             | (None, None) \<Rightarrow> finalizeRefundFailed E ord (Failure ''payment refund response missing''))) v"
      if v: "pay_rel E U u v" "pay_inv X U v" for d v
    proof -
      have last: "safe E X U (finalize_answer E ord b r) w" "safe E X U (finalizeRefundFailed E ord e) w"
        if w: "pay_rel E U v w" "pay_inv X U w" for b r e w
      proof -
        have "seen X U ord w" using \<open>seen X U ord t\<close> u(1) v(1) w(1) by (blast intro: seen_stable)
        then show "safe E X U (finalize_answer E ord b r) w" "safe E X U (finalizeRefundFailed E ord e) w"
          using w(2) \<open>settled (o_Status ord)\<close> by (auto intro: safe_finalize_answer safe_finalizeFailed)
      qed
      show ?thesis
        using v(2) by (auto intro!: safe_or_fail last split: option.splits prod.splits)
    qed
    then show "safe E X U (if \<not> pr_RefundQuery prov then fails (AppErr ''REFUND_QUERY_UNSUPPORTED'')
           else and_then (latestRefundPendingDetail oid) (\<lambda>(rid, rollbackOK).
             or_fail (ask an_refund_query) (\<lambda>resp.
             case (validateRefundProviderResponse resp, resp) of
               (None, Some r) \<Rightarrow> finalize_answer E ord rollbackOK r
             | (Some err, _) \<Rightarrow> finalizeRefundFailed E ord err
             | (None, None) \<Rightarrow> finalizeRefundFailed E ord (Failure ''payment refund response missing'')))) u"
      by (cases "pr_RefundQuery prov")
        (simp_all only: not_True_eq_False not_False_eq_True if_True if_False safe_Return,
          rule safe_then [OF safe_pendingDetail [OF u(2)] u(2)])
  qed
  show "safe E X U (case r of
       Inl _ \<Rightarrow> fails (AppErr ''NOT_FOUND'')
     | Inr ord \<Rightarrow>
         if o_Status ord \<noteq> RefundPending then fails (AppErr ''INVALID_STATUS'')
         else if o_PaymentType ord = TypeStripeHosted then queryHostedRefund E ord
         else or_fail (getRefundProvider ord) (\<lambda>prov.
           if \<not> pr_RefundQuery prov then fails (AppErr ''REFUND_QUERY_UNSUPPORTED'')
           else and_then (latestRefundPendingDetail oid) (\<lambda>(rid, rollbackOK).
             or_fail (ask an_refund_query) (\<lambda>resp.
             case (validateRefundProviderResponse resp, resp) of
               (None, Some r) \<Rightarrow> finalize_answer E ord rollbackOK r
             | (Some err, _) \<Rightarrow> finalizeRefundFailed E ord err
             | (None, None) \<Rightarrow> finalizeRefundFailed E ord (Failure ''payment refund response missing''))))) t"
    using t run by (cases r) (auto intro!: safe_queryHosted)
qed

section \<open>The jobs\<close>

text \<open>What starts a program of the payment component.\<close>

datatype pay_request =
  Notification PaymentNotification string
| RetryOrder int
| RedeemByUser int string
| CancelByUser int int
| CancelByAdmin int
| ExpireOrders
| ReconcilePending
| ReconcileHosted int
| VerifyOrder string int
| VerifyPublicly string
| ResumeHosted int int
| RefundByUser int int string
| RefundByAdmin int gofloat string bool bool
| FinalizeRefund int

definition until_end :: "'a job \<Rightarrow> unit job" where
  "until_end p = and_then p (\<lambda>_. Return ())"

fun serve :: "pay_env \<Rightarrow> pay_request \<Rightarrow> unit job" where
  "serve E (Notification n pk) = until_end (HandlePaymentNotification E n pk)"
| "serve E (RetryOrder oid) = until_end (RetryFulfillment E oid)"
| "serve E (RedeemByUser uid code) = until_end (Redeem E uid code)"
| "serve E (CancelByUser oid uid) = until_end (CancelOrder E oid uid)"
| "serve E (CancelByAdmin oid) = until_end (AdminCancelOrder E oid)"
| "serve E ExpireOrders = until_end (ExpireTimedOutOrders E)"
| "serve E ReconcilePending = until_end (ReconcilePendingPaymentOrders E)"
| "serve E (ReconcileHosted cursor) = until_end (reconcileHostedOrders E cursor)"
| "serve E (VerifyOrder no uid) = until_end (VerifyOrderByOutTradeNo E no uid)"
| "serve E (VerifyPublicly no) = until_end (VerifyOrderPublic no)"
| "serve E (ResumeHosted oid uid) = until_end (ResumeStripeHostedOrder E oid uid)"
| "serve E (RefundByUser oid uid reason) = until_end (RequestRefund E oid uid reason)"
| "serve E (RefundByAdmin oid amt reason force deduct) = until_end (refundOrder E oid amt reason force deduct)"
| "serve E (FinalizeRefund oid) = until_end (QueryAndFinalizeRefund E oid)"

fun may_refund :: "int set \<Rightarrow> pay_request \<Rightarrow> bool" where
  "may_refund X (RefundByAdmin oid amt reason force deduct) = (oid \<in> X)"
| "may_refund X r = True"

definition pay_jobs :: "pay_env \<Rightarrow> int set \<Rightarrow> unit job set" where
  "pay_jobs E X = serve E ` {r. may_refund X r}"

lemma safe_until_end: "pay_inv X U s \<Longrightarrow> safe E X U p s \<Longrightarrow> safe E X U (until_end p) s"
  unfolding until_end_def by (rule safe_then) simp_all

lemmas safe_programs =
  safe_HandlePaymentNotification safe_RetryFulfillment safe_Redeem safe_CancelOrder safe_AdminCancelOrder
  safe_ExpireTimedOut safe_ReconcilePending safe_reconcileHostedOrders safe_VerifyOrder safe_VerifyPublic
  safe_ResumeStripe safe_RequestRefund safe_refundOrder safe_QueryAndFinalize

lemma safe_serve: "pay_inv X U s \<Longrightarrow> may_refund X r \<Longrightarrow> safe E X U (serve E r) s"
  by (cases r) (simp_all add: safe_until_end safe_programs)

interpretation pay_crew: crew "pay_inv X U" "pay_rel E U" "pay_jobs E X" for X U E
  by unfold_locales (auto simp: pay_jobs_def intro: safe_serve)

end
