(* ===== verification/Pay_Run.thy ===== *)
theory Pay_Run
  imports Pay_Jobs
begin

text \<open>
  Runs that nobody interrupts: what the programs of the payment component return and leave behind
  when every database operation works. The rules compute \<open>alone\<close> operation by operation; on them
  rest the delivery of a paid order, its repetition, and the outcomes of a refund.
\<close>

section \<open>Single operations\<close>

text \<open>Every database operation works and the redemption lock is not held by another.\<close>

definition all_works :: "answer \<Rightarrow> bool" where
  "all_works e = ((\<forall>opn. an_db e opn = Works) \<and> an_lock e \<noteq> Some False)"

lemma alone_or_fail [simp]:
  "alone (or_fail p k) e s = (case alone p e s of (Inl err, t) \<Rightarrow> (Inl err, t) | (Inr a, t) \<Rightarrow> alone (k a) e t)"
  by (simp add: or_fail_def split: prod.splits sum.splits)

lemma alone_ask [simp]: "alone (ask a) e s = (a e, s)"
  by (simp add: ask_def)

lemma alone_ends [simp]: "alone (fails err) e s = (Inl err, s)" "alone (returns_ok b) e s = (Inr b, s)"
  by (simp_all add: fails_def returns_ok_def)

lemma alone_db_ask [simp]: "all_works e \<Longrightarrow> alone (db_ask opn f) e s = f e s"
  by (simp add: db_ask_def all_works_def)

lemma alone_db_call [simp]: "all_works e \<Longrightarrow> alone (db_call opn f) e s = f (an_now e) s"
  by (simp add: db_call_def)

lemma alone_read [simp]: "all_works e \<Longrightarrow> alone (read_db opn f) e s = (f (an_now e) s, s)"
  by (simp add: read_db_def)

lemma alone_GetOrder [simp]:
  "all_works e \<Longrightarrow> alone (GetOrder oid) e s = (case find_order oid s of None \<Rightarrow> Inl NotFound | Some r \<Rightarrow> Inr r, s)"
  by (simp add: GetOrder_def)

lemma alone_hasAuditLog [simp]: "all_works e \<Longrightarrow> alone (hasAuditLog oid a) e s = (has_audit oid a s, s)"
  by (simp add: hasAuditLog_def)

text \<open>An audit row changes nothing but the audit log.\<close>

lemma alone_writeAuditLog:
  "\<exists>t. alone (writeAuditLog oid a u d) e s = ((), t) \<and> orders t = orders s \<and> users t = users s \<and> codes t = codes s \<and>
     subs t = subs s \<and> instances t = instances s \<and> next_code t = next_code s"
  by (auto simp: writeAuditLog_def db_call_def db_ask_def insert_audit_def split: db_mode.splits option.splits)

text \<open>An update that meets its row.\<close>

definition set_rows :: "(PaymentOrder \<Rightarrow> bool) \<Rightarrow> (PaymentOrder \<Rightarrow> PaymentOrder) \<Rightarrow> db \<Rightarrow> db" where
  "set_rows P f s = s\<lparr>orders := snd (update_rows_where P f (orders s))\<rparr>"

lemma set_rows_simps [simp]:
  "users (set_rows P f s) = users s" "codes (set_rows P f s) = codes s" "next_code (set_rows P f s) = next_code s"
  "audits (set_rows P f s) = audits s" "subs (set_rows P f s) = subs s" "instances (set_rows P f s) = instances s"
  by (simp_all add: set_rows_def)

lemma find_order_set_rows:
  "find_order oid s = Some r \<Longrightarrow> P r \<Longrightarrow> o_ID (f r) = o_ID r \<Longrightarrow>
    find_order oid (set_rows (\<lambda>x. o_ID x = oid \<and> P x) f s) = Some (f r)"
proof -
  have "find (\<lambda>x. o_ID x = oid) rs = Some r \<Longrightarrow> P r \<Longrightarrow> o_ID (f r) = o_ID r \<Longrightarrow>
      find (\<lambda>x. o_ID x = oid) (map (\<lambda>x. if o_ID x = oid \<and> P x then f x else x) rs) = Some (f r)" for rs
    by (induction rs) (auto split: if_splits)
  then show "find_order oid s = Some r \<Longrightarrow> P r \<Longrightarrow> o_ID (f r) = o_ID r \<Longrightarrow> ?thesis"
    by (simp add: find_order_def set_rows_def update_rows_where_def)
qed

lemma find_order_ID: "find_order oid s = Some r \<Longrightarrow> o_ID r = oid"
  by (simp add: find_order_row)

lemma alone_UpdateOrder:
  "all_works e \<Longrightarrow> find_order oid s = Some r \<Longrightarrow> wh (an_now e) r \<Longrightarrow>
    \<exists>n. n \<noteq> 0 \<and> alone (UpdateOrder E oid wh upd) e s =
      (Inr n, set_rows (\<lambda>x. o_ID x = oid \<and> wh (an_now e) x) (\<lambda>x. upd (an_now e) (touch E (an_now e) x)) s)"
  using find_order_row [of oid s r]
  by (auto simp: UpdateOrder_def set_rows_def update_rows_where_def filter_empty_conv)

lemma alone_UpdateOrder_misses:
  "find_order oid s = Some r \<Longrightarrow> distinct (map o_ID (orders s)) \<Longrightarrow> \<not> wh (an_now e) r \<Longrightarrow>
    \<exists>x. alone (UpdateOrder E oid wh upd) e s = (x, s) \<and> (x = Inr 0 \<or> x = Inl DbFailure)"
proof -
  assume r: "find_order oid s = Some r" and ids: "distinct (map o_ID (orders s))" and no: "\<not> wh (an_now e) r"
  have "\<not> (o_ID x = oid \<and> wh (an_now e) x)" if "x \<in> set (orders s)" for x
    using find_order_row [OF r] ids that no distinct_map_eq [of o_ID "orders s" x r] by auto
  then have "filter (\<lambda>x. o_ID x = oid \<and> wh (an_now e) x) (orders s) = []"
    "map (\<lambda>x. if o_ID x = oid \<and> wh (an_now e) x then upd (an_now e) (touch E (an_now e) x) else x) (orders s) = orders s"
    by (auto simp: filter_empty_conv intro!: map_idI)
  then show ?thesis
    by (simp add: UpdateOrder_def db_call_def db_ask_def update_rows_where_def split: db_mode.splits)
qed

lemma alone_UpdateOrderByID:
  "all_works e \<Longrightarrow> find_order oid s = Some r \<Longrightarrow>
    alone (UpdateOrderByID E oid upd) e s =
      (Inr (), set_rows (\<lambda>x. o_ID x = oid \<and> True) (\<lambda>x. upd (an_now e) (touch E (an_now e) x)) s)"
  using alone_UpdateOrder [of e oid s r "\<lambda>now x. True" E upd] by (auto simp: UpdateOrderByID_def)

section \<open>Redeeming and completing\<close>

lemma find_some: "x \<in> set xs \<Longrightarrow> P x \<Longrightarrow> \<exists>y. find P xs = Some y"
  by (induction xs) auto

text \<open>The redemption of an unused balance code that does not expire.\<close>

lemma alone_redeem_balance:
  assumes e: "all_works e" and ok: "codes_ok s" and c: "find_code c s = Some r"
    and r: "rc_Status r = Unused" "rc_ExpiresAt r = None" "rc_Type r = RedeemTypeBalance" "fl_less zero64 (rc_Value r)"
    and u: "users s uid = Some u" "\<not> u_Deleted u"
  shows "\<exists>a t. alone (redeemForPaymentFulfillment E uid c) e s = (Inr a, t) \<and> orders t = orders s \<and> audits t = audits s \<and>
    users t = (users s)(uid \<mapsto> u\<lparr>u_Balance := u_Balance u + pe_units E (rc_Value r),
      u_TotalRecharged := u_TotalRecharged u + pe_units E (rc_Value r)\<rparr>)"
proof -
  let ?u = "u\<lparr>u_Balance := u_Balance u + pe_units E (rc_Value r), u_TotalRecharged := u_TotalRecharged u + pe_units E (rc_Value r)\<rparr>"
  let ?s1 = "s\<lparr>codes := map (\<lambda>x. if rc_ID x = rc_ID r \<and> rc_Status x = Unused
      then x\<lparr>rc_Status := Used, rc_UsedBy := Some uid, rc_UsedAt := Some (an_now e)\<rparr> else x) (codes s)\<rparr>"
  have memb: "r \<in> set (codes s)" using c by (auto simp: find_code_def find_Some_iff)
  have "use_code (an_now e) (rc_ID r) uid s = (Inr (), ?s1)"
    using memb r(1) by (auto simp: use_code_def update_rows_where_def filter_empty_conv)
  moreover have "grant_code E (an_now e) uid r ?s1 = (Inr (), set_user uid ?u ?s1)"
    using r u fl_less_asym [OF r(4)] by (simp add: grant_code_def update_balance_def)
  ultimately have tx: "redeem_tx E (an_now e) uid r s = (Inr (), set_user uid ?u ?s1)" by (simp add: redeem_tx_def)
  obtain y where "find (\<lambda>x. rc_ID x = rc_ID r) (codes ?s1) = Some y"
    using find_some [of "r\<lparr>rc_Status := Used, rc_UsedBy := Some uid, rc_UsedAt := Some (an_now e)\<rparr>" "codes ?s1" "\<lambda>x. rc_ID x = rc_ID r"]
      memb r(1) by (auto simp: image_iff)
  then have "alone (GetCodeByID (rc_ID r)) e (set_user uid ?u ?s1) = (Inr y, set_user uid ?u ?s1)"
    using e by (simp add: GetCodeByID_def)
  moreover have "alone acquireRedeemLock e v = (True, v)" for v
    using e by (auto simp: acquireRedeemLock_def all_works_def split: option.splits)
  ultimately have "alone (redeemForPaymentFulfillment E uid c) e s = (Inr y, set_user uid ?u ?s1)"
    using e c r u tx
    by (simp add: redeemForPaymentFulfillment_def redeem_def GetByCode_def IsExpiredAt_def CanUse_def supported_code_def GetUser_def)
  then show ?thesis by (auto simp: set_user_def)
qed

lemma claim_settled_users: "orders (updateClaimedAffiliateRebateAudit oid a s) = orders s"
  "users (updateClaimedAffiliateRebateAudit oid a s) = users s"
  by (simp_all add: updateClaimedAffiliateRebateAudit_def)

lemma alone_rebate:
  "all_works e \<Longrightarrow> an_rebate e = Inr q \<Longrightarrow>
    \<exists>t. alone (applyAffiliateRebateForOrder E r) e s = (Inr (), t) \<and> orders t = orders s \<and> users t = users s"
  by (auto simp: applyAffiliateRebateForOrder_def rebate_tx_def tryClaimAffiliateRebateAudit_def insert_audit_def
      claim_settled_users split: option.splits)

lemma alone_markCompleted:
  assumes "all_works e" "find_order (o_ID ord) s = Some r" "o_Status r = Recharging" "o_UpdatedAt r = lease"
  shows "\<exists>t. alone (markCompleted E ord lease a) e s = (Inr (), t) \<and> users t = users s \<and>
    find_order (o_ID ord) t = Some ((touch E (an_now e) r)\<lparr>o_Status := Completed, o_CompletedAt := Some (an_now e)\<rparr>)"
proof -
  let ?P = "\<lambda>x. o_Status x = Recharging \<and> o_UpdatedAt x = lease"
  let ?f = "\<lambda>x. (touch E (an_now e) x)\<lparr>o_Status := Completed, o_CompletedAt := Some (an_now e)\<rparr>"
  let ?t = "set_rows (\<lambda>x. o_ID x = o_ID ord \<and> ?P x) ?f s"
  obtain n where n: "n \<noteq> 0" "alone (UpdateOrder E (o_ID ord) (\<lambda>now. ?P) (\<lambda>now x. x\<lparr>o_Status := Completed, o_CompletedAt := Some now\<rparr>)) e s = (Inr n, ?t)"
    using alone_UpdateOrder [OF assms(1,2), of "\<lambda>now. ?P" E "\<lambda>now x. x\<lparr>o_Status := Completed, o_CompletedAt := Some now\<rparr>"] assms(3,4) by auto
  have found: "find_order (o_ID ord) ?t = Some (?f r)"
    using assms by (intro find_order_set_rows) (auto simp: touch_def)
  obtain v where v: "alone (writeAuditLog (o_ID ord) a ''system'' NoDetail) e ?t = ((), v)" "orders v = orders ?t" "users v = users ?t"
    using alone_writeAuditLog by metis
  show ?thesis
    using assms(1) n found v find_order_cong [OF v(2)] by (auto simp: markCompleted_def)
qed

section \<open>Delivering a balance order\<close>

text \<open>What the order's code is worth: the order's amount as long as there is no code.\<close>

definition code_value :: "PaymentOrder \<Rightarrow> db \<Rightarrow> gofloat" where
  "code_value ord s = (case find_code (o_RechargeCode ord) s of None \<Rightarrow> o_Amount ord | Some c \<Rightarrow> rc_Value c)"

text \<open>The code is missing, or unused without an expiry and passes the checks of a payment code.\<close>

definition code_open :: "PaymentOrder \<Rightarrow> db \<Rightarrow> bool" where
  "code_open ord s = (case find_code (o_RechargeCode ord) s of
     None \<Rightarrow> True
   | Some c \<Rightarrow> rc_Status c = Unused \<and> rc_ExpiresAt c = None \<and> validatePaymentRedeemCode ord c = None)"

definition code_redeemed :: "PaymentOrder \<Rightarrow> db \<Rightarrow> bool" where
  "code_redeemed ord s = (case find_code (o_RechargeCode ord) s of
     None \<Rightarrow> False | Some c \<Rightarrow> rc_Status c = Used \<and> validatePaymentRedeemCode ord c = None)"

text \<open>What a recharge does to the row of a user.\<close>

definition recharge :: "pay_env \<Rightarrow> gofloat \<Rightarrow> user_row \<Rightarrow> user_row" where
  "recharge E x u = u\<lparr>u_Balance := u_Balance u + pe_units E x, u_TotalRecharged := u_TotalRecharged u + pe_units E x\<rparr>"

definition completed :: "pay_env \<Rightarrow> gotime \<Rightarrow> PaymentOrder \<Rightarrow> PaymentOrder" where
  "completed E now r = (touch E now r)\<lparr>o_Status := Completed, o_CompletedAt := Some now\<rparr>"

lemma alone_GetByCode [simp]:
  "all_works e \<Longrightarrow> alone (GetByCode c) e s =
    (case find_code c s of None \<Rightarrow> Inl (AppErr ''REDEEM_CODE_NOT_FOUND'') | Some r \<Rightarrow> Inr r, s)"
  by (simp add: GetByCode_def)

lemma alone_rebate_complete:
  assumes e: "all_works e" "an_rebate e = Inr q"
    and r: "find_order (o_ID ord) s = Some r" "o_Status r = Recharging" "o_UpdatedAt r = lease"
  shows "\<exists>t. alone (or_fail (applyAffiliateRebateForOrder E ord) (\<lambda>_. markCompleted E ord lease a)) e s = (Inr (), t) \<and>
    users t = users s \<and> find_order (o_ID ord) t = Some (completed E (an_now e) r)"
proof -
  obtain t1 where t1: "alone (applyAffiliateRebateForOrder E ord) e s = (Inr (), t1)" "orders t1 = orders s" "users t1 = users s"
    using alone_rebate [OF e] by metis
  have "find_order (o_ID ord) t1 = Some r" using r(1) find_order_cong [OF t1(2)] by simp
  then obtain t where "alone (markCompleted E ord lease a) e t1 = (Inr (), t)" "users t = users t1"
    "find_order (o_ID ord) t = Some (completed E (an_now e) r)"
    using alone_markCompleted [OF e(1) _ r(2,3), of ord t1 E a] unfolding completed_def by auto
  with t1 show ?thesis by auto
qed

lemma alone_redeem_complete:
  assumes e: "all_works e" "an_rebate e = Inr q" and ok: "codes_ok s" and c: "find_code (o_RechargeCode ord) s = Some c"
    and cr: "rc_Status c = Unused" "rc_ExpiresAt c = None" "rc_Type c = RedeemTypeBalance" "fl_less zero64 (rc_Value c)"
    and u: "users s (o_UserID ord) = Some u" "\<not> u_Deleted u"
    and r: "find_order (o_ID ord) s = Some r" "o_Status r = Recharging" "o_UpdatedAt r = lease"
  shows "\<exists>t. alone (redeem_and_complete E ord lease) e s = (Inr (), t) \<and>
    users t = (users s)(o_UserID ord \<mapsto> recharge E (rc_Value c) u) \<and>
    find_order (o_ID ord) t = Some (completed E (an_now e) r)"
proof -
  obtain a t1 where t1: "alone (redeemForPaymentFulfillment E (o_UserID ord) (o_RechargeCode ord)) e s = (Inr a, t1)"
    "orders t1 = orders s" "users t1 = (users s)(o_UserID ord \<mapsto> recharge E (rc_Value c) u)"
    using alone_redeem_balance [OF e(1) ok c cr u, of E] unfolding recharge_def by auto
  have "find_order (o_ID ord) t1 = Some r" using r(1) find_order_cong [OF t1(2)] by simp
  then obtain t where "alone (or_fail (applyAffiliateRebateForOrder E ord) (\<lambda>_. markCompleted E ord lease ''RECHARGE_SUCCESS'')) e t1 = (Inr (), t)"
    "users t = users t1" "find_order (o_ID ord) t = Some (completed E (an_now e) r)"
    using alone_rebate_complete [OF e _ r(2,3)] by metis
  with t1 show ?thesis by (simp add: redeem_and_complete_def)
qed

lemma find_code_absent: "find_code c s = None \<Longrightarrow> x \<in> set (codes s) \<Longrightarrow> rc_Code x \<noteq> c"
  by (auto simp: find_code_def find_None_iff)

lemma find_code_append:
  "find_code c s = None \<Longrightarrow> rc_Code x = c \<Longrightarrow> codes t = codes s @ [x] \<Longrightarrow> find_code c t = Some x"
proof -
  have "find (\<lambda>r. rc_Code r = c) xs = None \<Longrightarrow> rc_Code x = c \<Longrightarrow> find (\<lambda>r. rc_Code r = c) (xs @ [x]) = Some x" for xs
    by (induction xs) (auto split: if_splits)
  then show "find_code c s = None \<Longrightarrow> rc_Code x = c \<Longrightarrow> codes t = codes s @ [x] \<Longrightarrow> ?thesis" by (simp add: find_code_def)
qed

lemma alone_doBalance_open:
  assumes e: "all_works e" "an_rebate e = Inr q" and ok: "codes_ok s" and c: "code_open ord s" "fl_less zero64 (code_value ord s)"
    and u: "users s (o_UserID ord) = Some u" "\<not> u_Deleted u" and named: "code_usable ord"
    and r: "find_order (o_ID ord) s = Some r" "o_Status r = Recharging" "o_UpdatedAt r = lease"
  shows "\<exists>t. alone (doBalance E ord lease) e s = (Inr (), t) \<and>
    users t = (users s)(o_UserID ord \<mapsto> recharge E (code_value ord s) u) \<and>
    find_order (o_ID ord) t = Some (completed E (an_now e) r)"
proof (cases "find_code (o_RechargeCode ord) s")
  case None
  let ?c = "(payment_code ord)\<lparr>rc_ID := next_code s\<rparr>"
  let ?s = "s\<lparr>codes := codes s @ [?c], next_code := next_code s + 1\<rparr>"
  have "\<not> fl_eq (o_Amount ord) zero64"
    using None c(2) by (auto simp: code_value_def fl_eq_def fl_less_def zero64_def split: gofloat.splits)
  then have made: "alone (CreateCode (payment_code ord)) e s = (Inr (), ?s)"
    unfolding CreateCode_payment [OF named] using e(1) None by (simp add: create_code_def payment_code_def)
  have new: "find_code (o_RechargeCode ord) ?s = Some ?c"
    using None by (rule find_code_append) (simp_all add: payment_code_def)
  have fresh: "rc_ID x < next_code s" "rc_Code x \<noteq> o_RechargeCode ord" if "x \<in> set (codes s)" for x
    using ok that find_code_absent [OF None] by (auto simp: codes_ok_def list_all_iff)
  have "codes_ok ?s"
    using ok by (auto simp: codes_ok_def list_all_iff payment_code_def dest: fresh)
  moreover have "find_order (o_ID ord) ?s = Some r" using r(1) by (simp add: find_order_def)
  ultimately obtain t where "alone (redeem_and_complete E ord lease) e ?s = (Inr (), t)"
    "users t = (users ?s)(o_UserID ord \<mapsto> recharge E (rc_Value ?c) u)" "find_order (o_ID ord) t = Some (completed E (an_now e) r)"
    using alone_redeem_complete [OF e, of ?s ord ?c u r lease E] new c(2) u r None
    by (auto simp: payment_code_def code_value_def)
  with None e(1) made show ?thesis
    by (simp add: doBalance_def resolveRedeemAction_def code_value_def payment_code_def)
next
  case (Some x)
  then have x: "rc_Status x = Unused" "rc_ExpiresAt x = None" "validatePaymentRedeemCode ord x = None" "fl_less zero64 (rc_Value x)"
    using c by (simp_all add: code_open_def code_value_def)
  then have "rc_Type x = RedeemTypeBalance" by (simp add: validatePaymentRedeemCode_def split: if_splits)
  then obtain t where "alone (redeem_and_complete E ord lease) e s = (Inr (), t)"
    "users t = (users s)(o_UserID ord \<mapsto> recharge E (rc_Value x) u)" "find_order (o_ID ord) t = Some (completed E (an_now e) r)"
    using alone_redeem_complete [OF e ok Some x(1,2) _ x(4) u r, of E] by metis
  with Some e(1) x show ?thesis
    by (simp add: doBalance_def resolveRedeemAction_def code_value_def IsUsed_def)
qed

lemma alone_doBalance_redeemed:
  assumes e: "all_works e" "an_rebate e = Inr q" and c: "code_redeemed ord s"
    and r: "find_order (o_ID ord) s = Some r" "o_Status r = Recharging" "o_UpdatedAt r = lease"
  shows "\<exists>t. alone (doBalance E ord lease) e s = (Inr (), t) \<and> users t = users s \<and>
    find_order (o_ID ord) t = Some (completed E (an_now e) r)"
proof -
  obtain x where x: "find_code (o_RechargeCode ord) s = Some x" "rc_Status x = Used" "validatePaymentRedeemCode ord x = None"
    using c by (auto simp: code_redeemed_def split: option.splits)
  obtain t where "alone (or_fail (applyAffiliateRebateForOrder E ord) (\<lambda>_. markCompleted E ord lease ''RECHARGE_SUCCESS'')) e s = (Inr (), t)"
    "users t = users s" "find_order (o_ID ord) t = Some (completed E (an_now e) r)"
    using alone_rebate_complete [OF e r] by metis
  with x e(1) show ?thesis
    by (simp add: doBalance_def resolveRedeemAction_def IsUsed_def)
qed

section \<open>The lease\<close>

text \<open>Who may take the lease of an order: nobody holds it, or its holder is silent for too long.\<close>

definition lease_free :: "gotime \<Rightarrow> PaymentOrder \<Rightarrow> bool" where
  "lease_free now r = (o_Status r \<in> set [Paid, OrderFailed] \<or>
     o_Status r = Recharging \<and> o_UpdatedAt r \<le> time_Add (truncate_us now) (- paymentFulfillmentLeaseDuration))"

definition leased :: "pay_env \<Rightarrow> gotime \<Rightarrow> PaymentOrder \<Rightarrow> PaymentOrder" where
  "leased E now r = r\<lparr>o_Status := Recharging, o_UpdatedAt := pe_persist E (truncate_us now), o_FailedAt := None, o_FailedReason := None\<rparr>"

lemma leased_simps [simp]:
  "o_ID (leased E now r) = o_ID r" "o_Status (leased E now r) = Recharging"
  "o_UpdatedAt (leased E now r) = pe_persist E (truncate_us now)"
  by (simp_all add: leased_def)

lemma alone_acquire:
  assumes e: "all_works e" and r: "find_order oid s = Some r" "lease_free (an_now e) r" and ord: "o_ID ord = oid"
  shows "\<exists>t. alone (acquirePaymentFulfillmentLease E ord) e s = (Inr (Some (pe_persist E (truncate_us (an_now e)))), t) \<and>
    users t = users s \<and> codes t = codes s \<and> next_code t = next_code s \<and> find_order oid t = Some (leased E (an_now e) r)"
proof -
  let ?upd = "\<lambda>now r. r\<lparr>o_Status := Recharging, o_UpdatedAt := pe_persist E (truncate_us now), o_FailedAt := None, o_FailedReason := None\<rparr>"
  let ?t = "set_rows (\<lambda>x. o_ID x = oid \<and> lease_free (an_now e) x) (\<lambda>x. ?upd (an_now e) (touch E (an_now e) x)) s"
  obtain n where n: "n \<noteq> 0" "alone (UpdateOrder E oid lease_free ?upd) e s = (Inr n, ?t)"
    using alone_UpdateOrder [OF e r(1), of lease_free E ?upd] r(2) by auto
  have same: "?upd (an_now e) (touch E (an_now e) r) = leased E (an_now e) r" by (simp add: leased_def touch_def)
  have "find_order oid ?t = Some (?upd (an_now e) (touch E (an_now e) r))"
    using r by (rule find_order_set_rows) (simp add: touch_def)
  with same have "find_order oid ?t = Some (leased E (an_now e) r)" by simp
  moreover have "acquirePaymentFulfillmentLease E ord =
      or_fail (UpdateOrder E oid lease_free ?upd) (\<lambda>updated.
     or_fail (GetOrder oid) (\<lambda>current.
     if updated = 0 then
       (if o_Status current = Completed then returns_ok None else fails (AppErr ''CONFLICT''))
     else if o_Status current \<noteq> Recharging then fails (AppErr ''CONFLICT'')
     else returns_ok (Some (o_UpdatedAt current))))"
    by (simp add: acquirePaymentFulfillmentLease_def lease_free_def [abs_def] ord)
  ultimately show ?thesis using e n by simp
qed

text \<open>With the lease of another that is not stale, nobody gets the lease, and no row changes.\<close>

lemma alone_acquire_held:
  assumes r: "find_order oid s = Some r" "\<not> lease_free (an_now e) r" "o_ID ord = oid" and ids: "distinct (map o_ID (orders s))"
    and "o_Status r \<noteq> Completed"
  shows "\<exists>err. alone (acquirePaymentFulfillmentLease E ord) e s = (Inl err, s)"
proof -
  let ?upd = "\<lambda>now r. r\<lparr>o_Status := Recharging, o_UpdatedAt := pe_persist E (truncate_us now), o_FailedAt := None, o_FailedReason := None\<rparr>"
  have eq: "acquirePaymentFulfillmentLease E ord =
      or_fail (UpdateOrder E oid lease_free ?upd) (\<lambda>updated.
     or_fail (GetOrder oid) (\<lambda>current.
     if updated = 0 then
       (if o_Status current = Completed then returns_ok None else fails (AppErr ''CONFLICT''))
     else if o_Status current \<noteq> Recharging then fails (AppErr ''CONFLICT'')
     else returns_ok (Some (o_UpdatedAt current))))"
    by (simp add: acquirePaymentFulfillmentLease_def lease_free_def [abs_def] r(3))
  obtain x where x: "alone (UpdateOrder E oid lease_free ?upd) e s = (x, s)" "x = Inr 0 \<or> x = Inl DbFailure"
    using alone_UpdateOrder_misses [OF r(1) ids, of lease_free e E ?upd] r(2) by metis
  have "alone (GetOrder oid) e s = (Inr r, s) \<or> alone (GetOrder oid) e s = (Inl DbFailure, s)"
    using r(1) by (auto simp: GetOrder_def read_db_def db_call_def db_ask_def split: db_mode.splits)
  with x assms(5) show ?thesis unfolding eq by auto
qed

lemma lease_free_guard: "lease_free now r \<Longrightarrow> fulfil_guard_of r = GoAhead"
  by (auto simp: lease_free_def fulfil_guard_of_def psIsRefundStatus_def)

lemma code_cong: "codes t = codes s \<Longrightarrow> code_open r t = code_open r s \<and> code_value r t = code_value r s \<and>
    code_redeemed r t = code_redeemed r s"
  by (simp add: code_open_def code_value_def code_redeemed_def find_code_def)

lemma codes_ok_cong: "codes t = codes s \<Longrightarrow> next_code t = next_code s \<Longrightarrow> codes_ok t = codes_ok s"
  by (simp add: codes_ok_def)

lemma alone_with_lease:
  assumes e: "all_works e" and r: "find_order oid s = Some r" "o_OrderType r \<noteq> OrderTypeSubscription" "lease_free (an_now e) r"
    and run: "\<And>t. users t = users s \<Longrightarrow> codes t = codes s \<Longrightarrow> next_code t = next_code s \<Longrightarrow>
      find_order oid t = Some (leased E (an_now e) r) \<Longrightarrow>
      \<exists>v. alone (doBalance E r (pe_persist E (truncate_us (an_now e)))) e t = (Inr (), v) \<and> P v"
  shows "\<exists>v. alone (executeFulfillment E oid) e s = (Inr (), v) \<and> P v"
proof -
  have "o_ID r = oid" using find_order_ID [OF r(1)] .
  then obtain t where t: "alone (acquirePaymentFulfillmentLease E r) e s = (Inr (Some (pe_persist E (truncate_us (an_now e)))), t)"
    "users t = users s" "codes t = codes s" "next_code t = next_code s" "find_order oid t = Some (leased E (an_now e) r)"
    using alone_acquire [OF e r(1,3)] by metis
  from run [OF t(2-5)] obtain v where "alone (doBalance E r (pe_persist E (truncate_us (an_now e)))) e t = (Inr (), v)" "P v" by blast
  with e r t(1) lease_free_guard [OF r(3)] show ?thesis
    by (simp add: executeFulfillment_def ExecuteBalanceFulfillment_def with_lease_def)
qed

text \<open>
  The delivery: the user gets what the code is worth, once, and the order is completed; a repeated
  delivery credits nothing.
\<close>

lemma completed_simps [simp]: "o_Status (completed E now r) = Completed" "o_ID (completed E now r) = o_ID r"
  by (simp_all add: completed_def touch_def)

lemma alone_fulfill_open:
  assumes e: "all_works e" "an_rebate e = Inr q" and ok: "codes_ok s"
    and r: "find_order oid s = Some r" "o_OrderType r \<noteq> OrderTypeSubscription" "lease_free (an_now e) r"
    and c: "code_open r s" "fl_less zero64 (code_value r s)" and u: "users s (o_UserID r) = Some u" "\<not> u_Deleted u"
    and named: "code_usable r"
  shows "\<exists>t. alone (executeFulfillment E oid) e s = (Inr (), t) \<and>
    users t = (users s)(o_UserID r \<mapsto> recharge E (code_value r s) u) \<and>
    find_order oid t = Some (completed E (an_now e) (leased E (an_now e) r))"
proof (rule alone_with_lease [OF e(1) r])
  fix t assume t: "users t = users s" "codes t = codes s" "next_code t = next_code s" "find_order oid t = Some (leased E (an_now e) r)"
  show "\<exists>v. alone (doBalance E r (pe_persist E (truncate_us (an_now e)))) e t = (Inr (), v) \<and>
      users v = (users s)(o_UserID r \<mapsto> recharge E (code_value r s) u) \<and>
      find_order oid v = Some (completed E (an_now e) (leased E (an_now e) r))"
    using alone_doBalance_open [OF e, of t r u "leased E (an_now e) r" "pe_persist E (truncate_us (an_now e))" E]
      ok c u named t code_cong [OF t(2)] codes_ok_cong [OF t(2,3)] find_order_ID [OF r(1)] by simp
qed

lemma alone_fulfill_redeemed:
  assumes e: "all_works e" "an_rebate e = Inr q"
    and r: "find_order oid s = Some r" "o_OrderType r \<noteq> OrderTypeSubscription" "lease_free (an_now e) r" and c: "code_redeemed r s"
  shows "\<exists>t. alone (executeFulfillment E oid) e s = (Inr (), t) \<and> users t = users s \<and>
    find_order oid t = Some (completed E (an_now e) (leased E (an_now e) r))"
proof (rule alone_with_lease [OF e(1) r])
  fix t assume t: "users t = users s" "codes t = codes s" "next_code t = next_code s" "find_order oid t = Some (leased E (an_now e) r)"
  show "\<exists>v. alone (doBalance E r (pe_persist E (truncate_us (an_now e)))) e t = (Inr (), v) \<and> users v = users s \<and>
      find_order oid v = Some (completed E (an_now e) (leased E (an_now e) r))"
    using alone_doBalance_redeemed [OF e, of r t "leased E (an_now e) r" "pe_persist E (truncate_us (an_now e))" E]
      c t code_cong [OF t(2)] find_order_ID [OF r(1)] by simp
qed

section \<open>A refund that the gateway refuses\<close>

text \<open>What the deduction of a refund takes from a user.\<close>

definition taken :: "pay_env \<Rightarrow> RefundPlan \<Rightarrow> user_row \<Rightarrow> rat" where
  "taken E p u = min (pe_units E (rp_BalanceToDeduct p)) (max (u_Balance u) 0)"

definition deducted_plan :: "pay_env \<Rightarrow> RefundPlan \<Rightarrow> user_row \<Rightarrow> RefundPlan" where
  "deducted_plan E p u = p\<lparr>rp_BalanceToDeduct := pe_float E (taken E p u)\<rparr>"

text \<open>A plan whose gateway call is made and ends with an error and without a response.\<close>

definition gateway_refuses :: "answer \<Rightarrow> PaymentOrder \<Rightarrow> db \<Rightarrow> perr \<Rightarrow> bool" where
  "gateway_refuses e ord s err =
     (o_PaymentTradeNo ord \<noteq> [] \<and>
      (\<exists>inst. getRefundOrderProviderInstance ord (instances s) = Inr (Some inst)) \<and>
      (\<exists>prov. an_provider e = Inr prov \<and> validateProviderSnapshotMetadata ord (pr_ProviderKey prov) (pr_MerchantIdentity prov) = None) \<and>
      an_refund e = (Some err, None))"

lemma alone_gwRefund_refused:
  assumes "all_works e" "gateway_refuses e (rp_Order p) s err"
  shows "alone (gwRefund p) e s = (Inl err, s)"
  using assms by (auto simp: gwRefund_def gateway_refuses_def getRefundProvider_def RefundProviderInstance_def Let_def)

lemma alone_refund_refused:
  assumes e: "all_works e" and r: "find_order (rp_OrderID p) s = Some r" "refundable (o_Status r)"
    and p: "o_PaymentType (rp_Order p) \<noteq> TypeStripeHosted" "rp_DeductionType p = DeductBalance" "fl_less zero64 (rp_BalanceToDeduct p)"
    and u: "users s (o_UserID (rp_Order p)) = Some u" "\<not> u_Deleted u"
    and x: "fl_less zero64 (pe_float E (taken E p u))" "pe_units E (pe_float E (taken E p u)) = taken E p u"
    and mark: "\<not> has_audit (rp_OrderID p) ''REFUND_ROLLBACK_FAILED'' s"
    and gw: "gateway_refuses e (rp_Order p) s err"
  shows "\<exists>t r'. alone (ExecuteRefund E p) e s = (Inr (warning ''gateway failed, rolled back''), t) \<and>
    find_order (rp_OrderID p) t = Some r' \<and>
    o_Status r' = (if o_Status (rp_Order p) = RefundRequested then RefundRequested else Completed) \<and>
    users t = (users s)(o_UserID (rp_Order p) \<mapsto> u\<lparr>u_TotalRecharged := u_TotalRecharged u + taken E p u\<rparr>)"
proof -
  let ?oid = "rp_OrderID p" and ?uid = "o_UserID (rp_Order p)" and ?q = "deducted_plan E p u"
  let ?P = "\<lambda>x. o_ID x = ?oid \<and> refundable (o_Status x)" and ?f = "\<lambda>x. (touch E (an_now e) x)\<lparr>o_Status := Refunding\<rparr>"
  let ?s1 = "set_rows ?P ?f s"
  obtain n where n: "n \<noteq> 0" "alone (UpdateOrder E ?oid (\<lambda>now r. refundable (o_Status r)) (\<lambda>now r. r\<lparr>o_Status := Refunding\<rparr>)) e s = (Inr n, ?s1)"
    using alone_UpdateOrder [OF e r(1), of "\<lambda>now r. refundable (o_Status r)" E "\<lambda>now r. r\<lparr>o_Status := Refunding\<rparr>"] r(2) by auto
  have r1: "find_order ?oid ?s1 = Some (?f r)"
    using r by (intro find_order_set_rows) (simp_all add: touch_def)
  let ?s2 = "set_user ?uid (u\<lparr>u_Balance := u_Balance u - taken E p u\<rparr>) ?s1"
  have r2: "find_order ?oid ?s2 = Some (?f r)" using r1 by (simp add: find_order_def)
  have "deduct_available E ?uid (rp_BalanceToDeduct p) ?s1 = (Inr (pe_float E (taken E p u)), ?s2)"
    using u fl_less_asym [OF p(3)] by (simp add: deduct_available_def taken_def Let_def)
  then have take: "alone (take_balance E p) e ?s1 = (Inr ?q, ?s2)"
    using e p mark by (simp add: take_balance_def deductAvailableBalance_def deducted_plan_def has_audit_def)
  have sub: "alone (take_subscription E ?q) e ?s2 = (Inr ?q, ?s2)"
    using p by (simp add: take_subscription_def deducted_plan_def)
  have gw': "alone (gwRefund ?q) e ?s2 = (Inl err, ?s2)"
    using e gw by (intro alone_gwRefund_refused) (simp_all add: gateway_refuses_def deducted_plan_def set_user_def)
  let ?s3 = "set_user ?uid (u\<lparr>u_TotalRecharged := u_TotalRecharged u + taken E p u\<rparr>) ?s2"
  have "update_balance E ?uid (pe_float E (taken E p u)) ?s2 = (Inr (), ?s3)"
    using x by (simp add: update_balance_def set_user_def)
  then have roll: "alone (RollbackRefund E ?q) e ?s2 = (True, ?s3)"
    using e p x by (simp add: RollbackRefund_def UpdateBalance_def deducted_plan_def)
  let ?st = "if o_Status (rp_Order p) = RefundRequested then RefundRequested else Completed"
  let ?g = "\<lambda>x. (touch E (an_now e) x)\<lparr>o_Status := ?st\<rparr>" and ?R = "\<lambda>x. o_ID x = ?oid \<and> True"
  let ?s4 = "set_rows ?R ?g ?s3"
  have r3: "find_order ?oid ?s3 = Some (?f r)" using r2 by (simp add: find_order_def)
  then have restore: "alone (restoreStatus E ?q) e ?s3 = ((), ?s4)"
    using alone_UpdateOrderByID [OF e r3, of E "\<lambda>now r. r\<lparr>o_Status := ?st\<rparr>"] by (simp add: restoreStatus_def deducted_plan_def)
  have r4: "find_order ?oid ?s4 = Some (?g (?f r))"
    using r3 by (intro find_order_set_rows) (simp_all add: touch_def)
  obtain t where t: "alone (writeAuditLog ?oid ''REFUND_GATEWAY_FAILED'' ''admin'' NoDetail) e ?s4 = ((), t)"
    "orders t = orders ?s4" "users t = users ?s4" using alone_writeAuditLog by metis
  have "alone (handleGwFail E ?q err) e ?s2 = (Inr (warning ''gateway failed, rolled back''), t)"
    using roll restore t(1) by (simp add: handleGwFail_def deducted_plan_def)
  then have "alone (ExecuteRefund E p) e s = (Inr (warning ''gateway failed, rolled back''), t)"
    using p n take sub gw' by (simp add: ExecuteRefund_def)
  moreover have "find_order ?oid t = Some (?g (?f r))" using r4 find_order_cong [OF t(2)] by simp
  moreover have "users t = (users s)(?uid \<mapsto> u\<lparr>u_TotalRecharged := u_TotalRecharged u + taken E p u\<rparr>)"
    using t(3) u by (auto simp: set_user_def)
  ultimately show ?thesis by auto
qed

section \<open>A second pending refund\<close>

definition pending_rows :: "int \<Rightarrow> db \<Rightarrow> audit_row list" where
  "pending_rows oid s = filter (\<lambda>a. au_OrderID a = oid \<and> au_Action a = ''REFUND_PENDING'') (audits s)"

lemma pending_detail_rows: "pending_rows oid t = pending_rows oid s \<Longrightarrow> pending_detail oid t = pending_detail oid s"
  by (simp add: pending_detail_def pending_rows_def)

lemma audits_db_call:
  "(\<And>now. audits (snd (f now s)) = audits s) \<Longrightarrow> audits (snd (alone (db_call opn f) e s)) = audits s"
  by (simp add: db_call_def db_ask_def split: db_mode.splits)

lemma audits_or_fail:
  "audits (snd (alone p e s)) = audits s \<Longrightarrow> (\<And>a t. audits (snd (alone (k a) e t)) = audits t) \<Longrightarrow>
    audits (snd (alone (or_fail p k) e s)) = audits s"
  by (cases "alone p e s") (auto split: sum.splits)

lemma audits_UpdateOrderByID: "audits (snd (alone (UpdateOrderByID E oid upd) e s)) = audits s"
  unfolding UpdateOrderByID_def UpdateOrder_def
  by (intro audits_or_fail audits_db_call) (auto split: prod.splits)

lemma audits_update_balance: "audits (snd (update_balance E uid x s)) = audits s"
  by (simp add: update_balance_def Let_def split: option.splits)

lemma audits_UpdateBalance: "audits (snd (alone (UpdateBalance E uid x) e s)) = audits s"
  unfolding UpdateBalance_def by (intro audits_db_call audits_update_balance)

lemma audits_extend: "audits (snd (extend_subscription E now sid d s)) = audits s"
  by (auto simp: extend_subscription_def Let_def split: option.splits)

lemma audits_ExtendSubscription: "audits (snd (alone (ExtendSubscription E sid d) e s)) = audits s"
  unfolding ExtendSubscription_def read_db_def by (intro audits_or_fail audits_db_call audits_extend) simp

lemma pending_rows_audits: "audits t = audits s \<Longrightarrow> pending_rows oid t = pending_rows oid s"
  by (simp add: pending_rows_def)

lemma alone_writeAuditLog_pending:
  "a \<noteq> ''REFUND_PENDING'' \<or> pending_rows oid s \<noteq> [] \<Longrightarrow>
    pending_rows oid (snd (alone (writeAuditLog oid a u d) e s)) = pending_rows oid s"
  by (auto simp: writeAuditLog_def db_call_def db_ask_def insert_audit_def pending_rows_def has_audit_def list_ex_iff
      filter_empty_conv split: db_mode.splits option.splits)

lemma pending_and_then:
  "pending_rows oid (snd (alone p e s)) = x \<Longrightarrow>
    (\<And>a t. pending_rows oid t = x \<Longrightarrow> pending_rows oid (snd (alone (k a) e t)) = x) \<Longrightarrow>
    pending_rows oid (snd (alone (and_then p k) e s)) = x"
  by (cases "alone p e s") auto

lemma pending_RollbackRefund: "pending_rows oid (snd (alone (RollbackRefund E p) e s)) = pending_rows oid s"
proof -
  have failed: "pending_rows oid (snd (alone (rollback_failed p) e t)) = pending_rows oid t" for t
    using alone_writeAuditLog_pending [of "''REFUND_ROLLBACK_FAILED''" oid t "''admin''" NoDetail e]
    by (cases "rp_OrderID p = oid")
      (auto simp: rollback_failed_def split_beta writeAuditLog_def db_call_def db_ask_def insert_audit_def pending_rows_def
        split: db_mode.splits option.splits)
  have add: "pending_rows oid (snd (alone (UpdateBalance E uid x) e t)) = pending_rows oid t"
    "pending_rows oid (snd (alone (ExtendSubscription E sid d) e t)) = pending_rows oid t" for uid x sid d t
    by (rule pending_rows_audits, rule audits_UpdateBalance, rule pending_rows_audits, rule audits_ExtendSubscription)
  show ?thesis
    unfolding RollbackRefund_def
  proof (rule pending_and_then)
    show "pending_rows oid (snd (alone (if rp_DeductionType p = DeductBalance \<and> fl_less zero64 (rp_BalanceToDeduct p)
        then UpdateBalance E (o_UserID (rp_Order p)) (rp_BalanceToDeduct p) else returns_ok ()) e s)) = pending_rows oid s"
      by (simp add: add)
    fix b t assume t: "pending_rows oid t = pending_rows oid s"
    have "pending_rows oid (snd (alone (and_then
       (if rp_DeductionType p = DeductSubscription \<and> 0 < rp_SubDaysToDeduct p \<and> 0 < rp_SubscriptionID p
        then ExtendSubscription E (rp_SubscriptionID p) (rp_SubDaysToDeduct p) else returns_ok ()) (\<lambda>d.
       if d \<noteq> Inr () then rollback_failed p else Return True)) e t)) = pending_rows oid t"
      by (rule pending_and_then) (simp_all add: add failed)
    with t show "pending_rows oid (snd (alone (if b \<noteq> Inr () then rollback_failed p else and_then
       (if rp_DeductionType p = DeductSubscription \<and> 0 < rp_SubDaysToDeduct p \<and> 0 < rp_SubscriptionID p
        then ExtendSubscription E (rp_SubscriptionID p) (rp_SubDaysToDeduct p) else returns_ok ()) (\<lambda>d.
       if d \<noteq> Inr () then rollback_failed p else Return True)) e t)) = pending_rows oid s"
      using failed [of t] by (simp only: if_split) simp
  qed
qed

lemma pending_markRefundPending:
  assumes "has_audit (rp_OrderID p) ''REFUND_PENDING'' s"
  shows "pending_detail (rp_OrderID p) (snd (alone (markRefundPending E p resp) e s)) = pending_detail (rp_OrderID p) s"
proof (rule pending_detail_rows)
  let ?oid = "rp_OrderID p"
  have some: "pending_rows ?oid s \<noteq> []" using assms by (auto simp: pending_rows_def has_audit_def list_ex_iff filter_empty_conv)
  obtain ok t where t: "alone (RollbackRefund E p) e s = (ok, t)" by fastforce
  have t': "pending_rows ?oid t = pending_rows ?oid s" using pending_RollbackRefund [of ?oid E p e s] t by simp
  let ?upd = "UpdateOrderByID E ?oid (\<lambda>now r. r\<lparr>o_Status := RefundPending, o_RefundAmount := pe_cents E (rp_RefundAmount p),
          o_RefundReason := Some (rp_Reason p), o_RefundAt := None, o_ForceRefund := rp_Force p,
          o_FailedAt := None, o_FailedReason := None\<rparr>)"
  obtain r v where v: "alone ?upd e t = (r, v)" by fastforce
  have v': "pending_rows ?oid v = pending_rows ?oid s"
    using audits_UpdateOrderByID [of E ?oid _ e t] v t' by (metis pending_rows_audits snd_conv)
  show "pending_rows ?oid (snd (alone (markRefundPending E p resp) e s)) = pending_rows ?oid s"
    using t v t' v' some alone_writeAuditLog_pending [of _ ?oid v "''admin''" _ e]
    by (simp add: markRefundPending_def split_beta split: sum.splits)
qed

end
