(* ===== verification/Pay_Props.thy ===== *)
theory Pay_Props
  imports Pay_Run
begin

text \<open>
  What the payment component guarantees, over every run of any number of workers that serve
  requests, callbacks and timers, interleaved operation by operation and stopped anywhere; and what
  single programs do when nobody interferes.
\<close>

section \<open>A small shop\<close>

definition demo_units :: "gofloat \<Rightarrow> rat" where
  "demo_units x = (case x of Num (Fin q) \<Rightarrow> q | _ \<Rightarrow> 0)"

definition demo_decimal :: decimal_lib where
  "demo_decimal = \<lparr>d_NewFromFloat = demo_units, d_NewFromString = \<lambda>s. if s = ''1.25'' then Some (5 / 4) else None,
     d_Round = \<lambda>q n. q, d_RoundUp = \<lambda>q n. q, d_Div = \<lambda>a b. a / b, d_InexactFloat64 = \<lambda>q. Num (Fin q),
     d_StringFixed = \<lambda>q n. []\<rparr>"

definition demo_env :: pay_env where
  "demo_env = \<lparr>pe_persist = id, pe_float = \<lambda>q. Num (Fin q), pe_cents = id, pe_units = demo_units, pe_int = \<lambda>x. 0,
     pe_decimal = demo_decimal, pe_AddDays = \<lambda>t d. t + d * 24 * hour, pe_StartOfDay = id, pe_MaxExpiresAt = 0, pe_Unix = id,
     pe_ValidURL = \<lambda>u. True, pe_ValidStripeCheckoutURL = \<lambda>u. True, pe_registry = None, pe_affiliate = False\<rparr>"

definition demo_order :: PaymentOrder where
  "demo_order = \<lparr>o_ID = 1, o_UserID = 7, o_Amount = Num (Fin 10), o_PayAmount = Num (Fin 10), o_BonusAmount = Num (Fin 0),
     o_RechargeCode = ''PAY1'', o_OutTradeNo = ''sub2_1'', o_PaymentType = ''alipay'', o_PaymentTradeNo = ''T1'', o_PayURL = None,
     o_OrderType = ''balance'', o_SubscriptionGroupID = None, o_SubscriptionDays = None, o_ProviderInstanceID = Some ''3'',
     o_ProviderKey = None, o_ProviderSnapshot = [], o_Status = Completed, o_RefundAmount = Num (Fin 0), o_RefundReason = None,
     o_RefundAt = None, o_ForceRefund = False, o_RefundRequestedAt = None, o_RefundRequestReason = None,
     o_RefundRequestedBy = None, o_ExpiresAt = 0, o_PaidAt = Some 0, o_CompletedAt = Some 0, o_FailedAt = None,
     o_FailedReason = None, o_CreatedAt = 0, o_UpdatedAt = 0, o_FeeRate = Num (Fin 0), o_PlanID = None, o_IdempotencyKey = None\<rparr>"

definition demo_code :: RedeemCode where
  "demo_code = \<lparr>rc_ID = 1, rc_Code = ''PAY1'', rc_Type = ''balance'', rc_Value = Num (Fin 10), rc_Status = Used, rc_UsedBy = Some 7,
     rc_UsedAt = Some 0, rc_ExpiresAt = None, rc_GroupID = None, rc_ValidityDays = 0\<rparr>"

definition demo_instance :: ProviderInstance where
  "demo_instance = \<lparr>inst_ID = 3, inst_ProviderKey = ''alipay'', inst_SupportedTypes = [], inst_AllowUserRefund = True,
     inst_RefundEnabled = True, inst_Enabled = True, inst_Config = [], inst_Limits = [], inst_PaymentMode = [], inst_SortOrder = 0\<rparr>"

definition demo_user :: user_row where
  "demo_user = \<lparr>u_Balance = 10, u_TotalRecharged = 10, u_Concurrency = 1, u_Deleted = False, u_Active = True\<rparr>"

definition demo_db :: db where
  "demo_db = \<lparr>orders = [demo_order], codes = [demo_code], next_code = 2, users = [7 \<mapsto> demo_user], audits = [], subs = [],
     next_sub = 1, rebates = [], instances = [demo_instance], groups = \<lambda>g. None,
     next_order = 2, plans = \<lambda>p. None, stored_settings = \<lambda>k. None\<rparr>"

text \<open>The same shop before the delivery.\<close>

definition paid_db :: db where
  "paid_db = demo_db\<lparr>orders := [demo_order\<lparr>o_Status := Paid, o_CompletedAt := None\<rparr>], codes := []\<rparr>"

definition demo_answer :: answer where
  "demo_answer = \<lparr>an_db = \<lambda>opn. Works, an_now = 0, an_lock = Some True, an_attempts = None,
     an_provider = Inr \<lparr>pr_ProviderKey = ''alipay'', pr_Cancelable = True, pr_RefundQuery = True, pr_MerchantIdentity = []\<rparr>,
     an_query = Inl DbFailure, an_create = Inl DbFailure, an_cancel = None, an_refund = (Some (Failure ''refused''), None),
     an_refund_query = Inl DbFailure, an_rebate = Inr zero64, an_cache = True, an_counter = 0, an_trade_nos = []\<rparr>"

lemmas demo_defs = demo_env_def demo_order_def demo_code_def demo_instance_def demo_user_def demo_db_def paid_db_def demo_answer_def
  demo_units_def

lemma demo_ids: "TrimSpace ''3'' = ''3''" "ParseInt ''3'' = Some 3" "TrimSpace ''alipay'' = ''alipay''" "TrimSpace ''wxpay'' = ''wxpay''"
  "\<not> EqualFold ''alipay'' ''wxpay''"
  by code_simp+

lemma demo_usable: "TrimSpace ''PAY1'' = ''PAY1''"
  by code_simp

lemma demo_inv: "pay_inv X {} demo_db" "pay_inv {} U demo_db" "pay_inv X {} paid_db"
  by (simp_all add: demo_usable code_usable_def pay_inv_def codes_ok_def audits_unique_def rebates_ok_def order_ok_def delivered_def code_pays_def
      paid_ok_def settled_def psIsRefundStatus_def RedeemTypeBalance_def OrderTypeSubscription_def TypeStripeHosted_def demo_defs)

text \<open>A world in which a worker has taken up a user's refund request.\<close>

definition demo_world :: "db \<Rightarrow> (answer, db, unit) world" where
  "demo_world s = (idle s)\<lparr>w_jobs := (w_jobs (idle s))(0 := Some (serve demo_env (RefundByUser 1 7 [])))\<rparr>"

lemma demo_world: "reaches (pay_jobs demo_env X) s (demo_world s)" "w_store (demo_world s) = s" "w_jobs (demo_world s) (Suc 0) = None"
proof -
  have "serve demo_env (RefundByUser 1 7 []) \<in> pay_jobs demo_env X"
    unfolding pay_jobs_def by (rule imageI) simp
  then show "reaches (pay_jobs demo_env X) s (demo_world s)"
    unfolding demo_world_def by (intro reaches_goes [OF reaches_idle] goes.takes) (simp_all add: idle_def)
qed (simp_all add: demo_world_def idle_def)

section \<open>Every run of the workers\<close>

lemma pay_reached:
  assumes "reaches (pay_jobs E X) s w" "pay_inv X U s"
  shows "pay_inv X U (w_store w)" "pay_rel E U s (w_store w)"
  using pay_crew.crew_invariant [OF assms] by auto

text \<open>
  C1: Goods before completion: whatever the interleaving, every order that is completed, or in any
  state of a refund, has been delivered: its subscription is assigned, or its code is used by the
  order's user and worth the order's amount.
\<close>

theorem pay_settled_delivered:
  assumes "reaches (pay_jobs E X) s w" "pay_inv X {} s"
    and "ord \<in> set (orders (w_store w))" "settled (o_Status ord)"
  shows "delivered ord (w_store w)"
  using inv_order [OF pay_reached(1) [OF assms(1,2)] assms(3)] assms(4) by (simp add: order_ok_def)

theorem pay_settled_delivered_witness: "delivered demo_order (w_store (demo_world demo_db))"
  by (rule pay_settled_delivered [OF demo_world(1) [of "{}"] demo_inv(1)])
    (simp_all add: demo_world settled_def, simp_all add: demo_db_def demo_order_def)

text \<open>
  C3: The ledger is exact: for every user who owns none of the orders that are refunded, the
  recharged total grows by exactly the worth of the codes that the user has used since then; no
  interleaving credits a payment twice or loses it.
\<close>

theorem pay_ledger_exact:
  assumes "reaches (pay_jobs E X) s w" "pay_inv X U s" "u \<in> U"
  shows "recharged u (w_store w) - recharged u s = credit E u (w_store w) - credit E u s \<and>
    distinct (map rc_Code (codes (w_store w)))"
  using pay_reached [OF assms(1,2)] assms(3) by (auto simp: pay_rel_def pay_inv_def codes_ok_def)

theorem pay_ledger_exact_witness:
  "recharged 7 (w_store (demo_world demo_db)) - recharged 7 demo_db =
     credit demo_env 7 (w_store (demo_world demo_db)) - credit demo_env 7 demo_db \<and>
   distinct (map rc_Code (codes (w_store (demo_world demo_db))))"
  by (rule pay_ledger_exact [OF demo_world(1) [of "{}"] demo_inv(2) [of UNIV]]) simp

text \<open>The phases of an order: open, paid, delivered.\<close>

definition order_phase :: "PaymentOrder \<Rightarrow> nat" where
  "order_phase r = (if settled (o_Status r) then 2 else if o_PaidAt r \<noteq> None then 1 else 0)"

text \<open>
  C5: Orders refine a machine of three phases, open, paid and delivered, that only goes forward: no
  run loses an order, changes whose it is, what it is worth or which code pays it, forgets its
  payment or takes back its delivery.
\<close>

theorem pay_orders_go_forward:
  assumes "reaches (pay_jobs E X) s v" "pay_inv X {} s" "(goes (pay_jobs E X))\<^sup>*\<^sup>* v w" "ord \<in> set (orders (w_store v))"
  shows "\<exists>ord'. ord' \<in> set (orders (w_store w)) \<and> immut ord' = immut ord \<and> order_phase ord \<le> order_phase ord'"
proof -
  have "pay_rel E {} (w_store v) (w_store w)" by (rule pay_crew.crew_later [OF assms(1-3)])
  then obtain ord' where "ord' \<in> set (orders (w_store w))" "order_goes ord ord'"
    using assms(4) unfolding pay_rel_def by blast
  moreover from this(2) have "order_phase ord \<le> order_phase ord'" by (auto simp: order_goes_def order_phase_def)
  ultimately show ?thesis unfolding order_goes_def by blast
qed

theorem pay_orders_go_forward_witness:
  "\<exists>ord'. ord' \<in> set (orders (w_store (demo_world demo_db))) \<and> immut ord' = immut demo_order \<and>
     order_phase demo_order \<le> order_phase ord'"
  by (rule pay_orders_go_forward [OF reaches_idle demo_inv(1) [of "{}"] demo_world(1) [unfolded reaches_def]])
    (simp add: idle_def demo_db_def)



text \<open>
  At most one affiliate rebate is paid for an order, however often its delivery is repeated.\<close>

theorem pay_rebate_once:
  assumes "reaches (pay_jobs E X) s w" "pay_inv X {} s"
  shows "distinct (map fst (rebates (w_store w)))"
  using pay_reached(1) [OF assms] by (simp add: pay_inv_def rebates_ok_def)

theorem pay_rebate_once_witness: "distinct (map fst (rebates (w_store (demo_world demo_db))))"
  by (rule pay_rebate_once [OF demo_world(1) [of "{}"] demo_inv(1)])

lemma assign_rows_audits: "assignOrExtendSubscription E now uid gid d nt s = (r, t) \<Longrightarrow> has_audit i a t = has_audit i a s"
  using assign_rows [of E now uid gid d nt s r t] by (simp add: same_rows_def has_audit_def)

lemma assign_tx_again: "has_audit (o_ID ord) ''SUBSCRIPTION_ASSIGNED'' s \<Longrightarrow> snd (assign_tx E now ord gid days s) = s"
  by (auto simp: assign_tx_def insert_audit_def Let_def assign_rows_audits split: option.splits prod.splits sum.splits if_splits)

text \<open>
  C17: A subscription order is assigned once: after its assignment is recorded, the transaction that
  assigns it changes nothing, in every later state of every run.
\<close>

theorem pay_assigned_once:
  assumes "reaches (pay_jobs E X) s v" "pay_inv X {} s" "(goes (pay_jobs E X))\<^sup>*\<^sup>* v w"
    and "has_audit (o_ID ord) ''SUBSCRIPTION_ASSIGNED'' (w_store v)"
  shows "snd (assign_tx E now ord gid days (w_store w)) = w_store w"
  using pay_crew.crew_later [OF assms(1-3)] assms(4) by (intro assign_tx_again) (simp add: pay_rel_def)

definition assigned_db :: db where
  "assigned_db = demo_db\<lparr>audits := [\<lparr>au_OrderID = 1, au_Action = ''SUBSCRIPTION_ASSIGNED'', au_Detail = NoDetail,
     au_Operator = ''system'', au_CreatedAt = 0\<rparr>]\<rparr>"

lemma assigned_inv: "pay_inv {} {} assigned_db"
  by (simp add: demo_usable code_usable_def pay_inv_def codes_ok_def audits_unique_def rebates_ok_def order_ok_def delivered_def code_pays_def
      paid_ok_def settled_def psIsRefundStatus_def RedeemTypeBalance_def OrderTypeSubscription_def TypeStripeHosted_def assigned_db_def demo_defs)

theorem pay_assigned_once_witness:
  "snd (assign_tx demo_env 5 demo_order 2 30 (w_store (demo_world assigned_db))) = w_store (demo_world assigned_db)"
  by (rule pay_assigned_once [OF reaches_idle assigned_inv demo_world(1) [unfolded reaches_def]])
    (simp add: idle_def assigned_db_def demo_order_def has_audit_def)

section \<open>Delivery\<close>

lemma f64_zero: "f64 0 = Fin 0"
  using pow2_pos [of 1024] by (simp add: f64_def f64_rat_def not_le)

lemma alone_retry:
  assumes e: "all_works e" and r: "find_order oid s = Some r" "lease_free (an_now e) r" "o_PaidAt r \<noteq> None"
    and run: "\<And>v. orders v = orders s \<Longrightarrow> users v = users s \<Longrightarrow> codes v = codes s \<Longrightarrow> next_code v = next_code s \<Longrightarrow>
      \<exists>t. alone (executeFulfillment E oid) e v = (Inr (), t) \<and> P t"
  shows "\<exists>t. alone (serve E (RetryOrder oid)) e s = ((), t) \<and> P t"
proof -
  obtain v where v: "alone (writeAuditLog oid ''RECHARGE_RETRY'' ''admin'' NoDetail) e s = ((), v)"
    "orders v = orders s" "users v = users s" "codes v = codes s" "next_code v = next_code s"
    using alone_writeAuditLog [of oid "''RECHARGE_RETRY''" "''admin''" NoDetail e s] by metis
  obtain t where "alone (executeFulfillment E oid) e v = (Inr (), t)" "P t" using run [OF v(2-5)] by blast
  moreover have "\<not> psIsRefundStatus (o_Status r)" "o_Status r \<noteq> Completed"
    "o_Status r = OrderFailed \<or> o_Status r = Paid \<or> o_Status r = Recharging"
    using r(2) by (auto simp: lease_free_def psIsRefundStatus_def)
  ultimately show ?thesis using e r v(1) by (auto simp: RetryFulfillment_def until_end_def)
qed

text \<open>
  C7: A paid balance order can be delivered: from every reachable state, whatever the other workers
  did and wherever they died, an idle worker that retries the order while its lease is free, with
  the services working, completes it. If the order's code is still open (absent, or unused and as
  the order says), worth something, and the user not deleted, the user is credited with what the
  code is worth; if the user redeemed it before, as when a worker died between the redemption and
  the completion, nothing is credited again. (A code that somebody else has used is refused.)
\<close>

theorem pay_paid_order_completes:
  assumes "reaches (pay_jobs E X) s w" "pay_inv X {} s" "w_jobs w i = None" "all_works e" "an_rebate e = Inr q"
    and "find_order oid (w_store w) = Some r" "o_OrderType r \<noteq> OrderTypeSubscription" "o_PaidAt r \<noteq> None"
    "lease_free (an_now e) r"
    and "code_redeemed r (w_store w) \<or> code_open r (w_store w) \<and> fl_less zero64 (code_value r (w_store w)) \<and>
      users (w_store w) (o_UserID r) = Some u \<and> \<not> u_Deleted u"
  shows "\<exists>v r'. (goes (pay_jobs E X))\<^sup>*\<^sup>* w v \<and> find_order oid (w_store v) = Some r' \<and> o_Status r' = Completed \<and>
    users (w_store v) = (if code_redeemed r (w_store w) then users (w_store w)
      else (users (w_store w))(o_UserID r \<mapsto> recharge E (code_value r (w_store w)) u))"
proof -
  let ?s = "w_store w" and ?p = "serve E (RetryOrder oid)"
  let ?r = "completed E (an_now e) (leased E (an_now e) r)"
  let ?users = "if code_redeemed r ?s then users ?s else (users ?s)(o_UserID r \<mapsto> recharge E (code_value r ?s) u)"
  let ?P = "\<lambda>t. users t = ?users \<and> find_order oid t = Some ?r"
  note inv = pay_reached(1) [OF assms(1,2)]
  have named: "code_usable r"
    using inv_order [OF inv, of r] find_order_row [OF assms(6)] by (simp add: order_ok_def)
  obtain t where t: "alone ?p e ?s = ((), t)" "?P t"
  proof -
    have "\<exists>t. alone ?p e ?s = ((), t) \<and> ?P t"
    proof (rule alone_retry [OF assms(4,6,9,8)])
      fix v :: db assume v: "orders v = orders ?s" "users v = users ?s" "codes v = codes ?s" "next_code v = next_code ?s"
      have same: "find_order oid v = Some r" "codes_ok v" "code_open r v = code_open r ?s"
        "code_redeemed r v = code_redeemed r ?s" "code_value r v = code_value r ?s"
        using assms(6) inv find_order_cong [OF v(1), of oid] code_cong [OF v(3), of r] codes_ok_cong [OF v(3,4)]
        by (simp_all add: pay_inv_def)
      show "\<exists>t. alone (executeFulfillment E oid) e v = (Inr (), t) \<and> ?P t"
      proof (cases "code_redeemed r ?s")
        case True
        with v(2) same show ?thesis using alone_fulfill_redeemed [OF assms(4,5), of oid v r E] assms(7,9) by simp
      next
        case False
        with v(2) same show ?thesis
          using alone_fulfill_open [OF assms(4,5), of v oid r u E] assms(7,9,10) named by simp
      qed
    qed
    then show ?thesis using that by blast
  qed
  let ?w = "w\<lparr>w_jobs := (w_jobs w)(i := Some ?p)\<rparr>"
  have "?p \<in> pay_jobs E X" unfolding pay_jobs_def by (rule imageI) simp
  with assms(3) have "goes (pay_jobs E X) w ?w" by (rule goes.takes)
  moreover have "(goes (pay_jobs E X))\<^sup>*\<^sup>* ?w (?w\<lparr>w_jobs := (w_jobs ?w)(i := Some (Return ())), w_store := t\<rparr>)"
    by (rule alone_goes [of ?p e]) (use t(1) in simp_all)
  ultimately have "(goes (pay_jobs E X))\<^sup>*\<^sup>* w (?w\<lparr>w_jobs := (w_jobs ?w)(i := Some (Return ())), w_store := t\<rparr>)"
    by (rule converse_rtranclp_into_rtranclp)
  then show ?thesis
    by (rule exI [of _ "?w\<lparr>w_jobs := (w_jobs ?w)(i := Some (Return ())), w_store := t\<rparr>", OF exI [of _ ?r], OF conjI])
      (use t(2) in auto)
qed

theorem pay_paid_order_completes_witness:
  "\<exists>v r'. (goes (pay_jobs demo_env {}))\<^sup>*\<^sup>* (demo_world paid_db) v \<and> find_order 1 (w_store v) = Some r' \<and> o_Status r' = Completed \<and>
     users (w_store v) = (users (w_store (demo_world paid_db)))(7 \<mapsto> recharge demo_env (Num (Fin 10)) demo_user)"
proof -
  let ?r = "demo_order\<lparr>o_Status := Paid, o_CompletedAt := None\<rparr>"
  have "code_value ?r (w_store (demo_world paid_db)) = Num (Fin 10)" "o_UserID ?r = 7"
    by (simp_all add: demo_world code_value_def find_code_def demo_defs)
  moreover have "\<not> code_redeemed ?r (w_store (demo_world paid_db))"
    by (simp add: demo_world code_redeemed_def find_code_def demo_defs)
  moreover have "\<exists>v r'. (goes (pay_jobs demo_env {}))\<^sup>*\<^sup>* (demo_world paid_db) v \<and> find_order 1 (w_store v) = Some r' \<and>
      o_Status r' = Completed \<and> users (w_store v) = (if code_redeemed ?r (w_store (demo_world paid_db)) then users (w_store (demo_world paid_db))
        else (users (w_store (demo_world paid_db)))(o_UserID ?r \<mapsto> recharge demo_env (code_value ?r (w_store (demo_world paid_db))) demo_user))"
    by (rule pay_paid_order_completes [OF demo_world(1) demo_inv(3) demo_world(3), of demo_answer zero64])
      (simp_all add: demo_world all_works_def find_order_def lease_free_def code_open_def code_value_def find_code_def
        OrderTypeSubscription_def zero64_def fl_less_def less_float64_def demo_defs)
  ultimately show ?thesis by presburger
qed

text \<open>
  A delivery that is repeated after the code was used completes the order and credits nothing.\<close>

theorem pay_redelivery_credits_nothing:
  assumes "all_works e" "an_rebate e = Inr q" "find_order oid s = Some r" "o_OrderType r \<noteq> OrderTypeSubscription"
    "lease_free (an_now e) r" "code_redeemed r s"
  shows "\<exists>t r'. alone (executeFulfillment E oid) e s = (Inr (), t) \<and> users t = users s \<and>
    find_order oid t = Some r' \<and> o_Status r' = Completed"
  using alone_fulfill_redeemed [OF assms] by (meson completed_simps(1))

theorem pay_redelivery_credits_nothing_witness:
  "\<exists>t r'. alone (executeFulfillment demo_env 1) demo_answer (demo_db\<lparr>orders := [demo_order\<lparr>o_Status := Paid\<rparr>]\<rparr>) = (Inr (), t) \<and>
     users t = users (demo_db\<lparr>orders := [demo_order\<lparr>o_Status := Paid\<rparr>]\<rparr>) \<and> find_order 1 t = Some r' \<and> o_Status r' = Completed"
proof -
  let ?r = "demo_order\<lparr>o_Status := Paid\<rparr>"
  have "fl_abs (fl_sub (rc_Value demo_code) (o_Amount ?r)) = zero64" "\<not> fl_less (Num (f64 (1 / 100000000))) zero64"
    using f64_mono [of 0 "1 / 100000000"]
    by (simp_all add: fl_sub_def fl_abs_def fl_less_def zero64_def demo_defs f64_zero less_float64_def)
  then have "validatePaymentRedeemCode ?r demo_code = None"
    by (simp add: validatePaymentRedeemCode_def is_finite_def RedeemTypeBalance_def demo_defs)
  then show ?thesis
    by (intro pay_redelivery_credits_nothing [where q = zero64 and r = ?r])
      (simp_all add: all_works_def find_order_def lease_free_def code_redeemed_def find_code_def OrderTypeSubscription_def,
       simp_all add: demo_defs)
qed

text \<open>
  C27: While another worker holds a fresh lease, nobody gets the order's lease and no row changes.\<close>

theorem pay_lease_excludes:
  assumes "find_order oid s = Some r" "o_Status r = Recharging" "distinct (map o_ID (orders s))"
    and "time_Add (truncate_us (an_now e)) (- paymentFulfillmentLeaseDuration) < o_UpdatedAt r"
  shows "\<exists>err. alone (acquirePaymentFulfillmentLease E r) e s = (Inl err, s)"
  using assms find_order_ID [OF assms(1)] by (intro alone_acquire_held) (auto simp: lease_free_def)

theorem pay_lease_excludes_witness:
  "\<exists>err. alone (acquirePaymentFulfillmentLease demo_env (demo_order\<lparr>o_Status := Recharging\<rparr>)) demo_answer
     (demo_db\<lparr>orders := [demo_order\<lparr>o_Status := Recharging\<rparr>]\<rparr>) =
     (Inl err, demo_db\<lparr>orders := [demo_order\<lparr>o_Status := Recharging\<rparr>]\<rparr>)"
  by (rule pay_lease_excludes [where oid = 1])
    (simp_all add: find_order_def demo_defs truncate_us_def time_Add_def paymentFulfillmentLeaseDuration_def)

section \<open>Notifications\<close>




section \<open>Refunds\<close>

text \<open>
  C28: A deduction takes at most what was asked and never takes a balance below zero, nor further
  down when it is below already.
\<close>

theorem pay_deduction_bounded:
  assumes "deduct_available E uid amount s = (Inr d, t)" "users s uid = Some u" "0 \<le> pe_units E amount"
  shows "\<exists>u'. users t uid = Some u' \<and> u_Balance u' \<le> u_Balance u \<and> min (u_Balance u) 0 \<le> u_Balance u' \<and>
    u_Balance u - u_Balance u' \<le> pe_units E amount \<and> d = pe_float E (u_Balance u - u_Balance u')"
  using assms by (auto simp: deduct_available_def Let_def users_set_user split: if_splits)

theorem pay_deduction_bounded_witness:
  "\<exists>u'. users (snd (deduct_available demo_env 7 (Num (Fin 25)) demo_db)) 7 = Some u' \<and> u_Balance u' \<le> u_Balance demo_user \<and>
     min (u_Balance demo_user) 0 \<le> u_Balance u' \<and> u_Balance demo_user - u_Balance u' \<le> pe_units demo_env (Num (Fin 25)) \<and>
     Num (Fin 10) = pe_float demo_env (u_Balance demo_user - u_Balance u')"
  by (rule pay_deduction_bounded [where s = demo_db and uid = 7])
    (simp_all add: deduct_available_def fl_less_def zero64_def less_float64_def demo_defs set_user_def)

text \<open>
  C30: When the gateway refuses a refund that takes a positive amount from the balance of a live user,
  for an order that is not hosted and whose rollback has not failed before, with the services working,
  the balance is what it was, and the order is again requested, if the plan was made while it was,
  and else completed (also when its refund was pending at the gateway); but the amount that was given
  back counts as recharged, so the recharged total of the user grows with every such refund. The
  amount that was taken is assumed to survive the conversion to a float and back.
\<close>

theorem pay_refused_refund_restores:
  assumes "all_works e" "find_order (rp_OrderID p) s = Some r" "refundable (o_Status r)"
    and "o_PaymentType (rp_Order p) \<noteq> TypeStripeHosted" "rp_DeductionType p = DeductBalance" "fl_less zero64 (rp_BalanceToDeduct p)"
    and "users s (o_UserID (rp_Order p)) = Some u" "\<not> u_Deleted u"
    and "fl_less zero64 (pe_float E (taken E p u))" "pe_units E (pe_float E (taken E p u)) = taken E p u"
    and "\<not> has_audit (rp_OrderID p) ''REFUND_ROLLBACK_FAILED'' s" "gateway_refuses e (rp_Order p) s err"
  shows "\<exists>t r'. alone (ExecuteRefund E p) e s = (Inr (warning ''gateway failed, rolled back''), t) \<and>
    find_order (rp_OrderID p) t = Some r' \<and>
    o_Status r' = (if o_Status (rp_Order p) = RefundRequested then RefundRequested else Completed) \<and>
    users t = (users s)(o_UserID (rp_Order p) \<mapsto> u\<lparr>u_TotalRecharged := u_TotalRecharged u + taken E p u\<rparr>)"
  by (rule alone_refund_refused [OF assms])

definition demo_plan :: RefundPlan where
  "demo_plan = \<lparr>rp_Order = demo_order\<lparr>o_Status := RefundPending\<rparr>, rp_RefundAmount = Num (Fin 10), rp_GatewayAmount = Num (Fin 10),
     rp_Reason = [], rp_Force = False, rp_DeductionType = DeductBalance, rp_BalanceToDeduct = Num (Fin 10),
     rp_SubDaysToDeduct = 0, rp_SubscriptionID = 0\<rparr>"

definition pending_db :: db where
  "pending_db = demo_db\<lparr>orders := [demo_order\<lparr>o_Status := RefundPending\<rparr>]\<rparr>"

lemma demo_refuses: "gateway_refuses demo_answer (rp_Order demo_plan) pending_db (Failure ''refused'')"
proof -
  show ?thesis
    by (simp add: gateway_refuses_def getRefundOrderProviderInstance_def psOrderProviderSnapshot_def psStringValue_def Let_def
        demo_ids validateProviderSnapshotMetadata_def demo_plan_def pending_db_def demo_defs)
qed

theorem pay_refused_refund_restores_witness:
  "\<exists>t r'. alone (ExecuteRefund demo_env demo_plan) demo_answer pending_db = (Inr (warning ''gateway failed, rolled back''), t) \<and>
     find_order 1 t = Some r' \<and> o_Status r' = Completed \<and> users t = (users pending_db)(7 \<mapsto> demo_user\<lparr>u_TotalRecharged := 20\<rparr>)"
proof -
  have plan: "rp_OrderID demo_plan = 1" "o_UserID (rp_Order demo_plan) = 7" "o_Status (rp_Order demo_plan) = RefundPending"
    "taken demo_env demo_plan demo_user = 10" "u_TotalRecharged demo_user = 10"
    by (simp_all add: demo_plan_def taken_def demo_defs)
  have "\<exists>t r'. alone (ExecuteRefund demo_env demo_plan) demo_answer pending_db = (Inr (warning ''gateway failed, rolled back''), t) \<and>
    find_order (rp_OrderID demo_plan) t = Some r' \<and>
    o_Status r' = (if o_Status (rp_Order demo_plan) = RefundRequested then RefundRequested else Completed) \<and>
    users t = (users pending_db)(o_UserID (rp_Order demo_plan) \<mapsto>
      demo_user\<lparr>u_TotalRecharged := u_TotalRecharged demo_user + taken demo_env demo_plan demo_user\<rparr>)"
    by (rule pay_refused_refund_restores [where r = "demo_order\<lparr>o_Status := RefundPending\<rparr>", OF _ _ _ _ _ _ _ _ _ _ _ demo_refuses])
      (simp_all add: plan, simp_all add: all_works_def find_order_def refundable_def TypeStripeHosted_def zero64_def fl_less_def
        less_float64_def has_audit_def demo_plan_def pending_db_def demo_defs)
  then show ?thesis by (simp add: plan)
qed

text \<open>
  C31: When an order's refund becomes pending a second time, what is recorded about it is lost: the
  audit row violates the unique index, so a later query still reads the refund id of the first
  attempt, and whether the deduction of the first attempt could be given back.
\<close>

theorem pay_second_pending_lost:
  assumes "has_audit (rp_OrderID p) ''REFUND_PENDING'' s"
  shows "pending_detail (rp_OrderID p) (snd (alone (markRefundPending E p resp) e s)) = pending_detail (rp_OrderID p) s"
  by (rule pending_markRefundPending [OF assms])

definition pending_again :: db where
  "pending_again = pending_db\<lparr>audits := [\<lparr>au_OrderID = 1, au_Action = ''REFUND_PENDING'', au_Detail = RefundDetail ''re_1'' True,
     au_Operator = ''admin'', au_CreatedAt = 0\<rparr>]\<rparr>"

theorem pay_second_pending_lost_witness:
  "pending_detail (rp_OrderID demo_plan)
     (snd (alone (markRefundPending demo_env demo_plan \<lparr>rr_RefundID = ''re_2'', rr_Status = ''pending''\<rparr>) demo_answer pending_again)) =
   pending_detail (rp_OrderID demo_plan) pending_again"
  by (rule pay_second_pending_lost) (simp add: has_audit_def pending_again_def pending_db_def demo_plan_def demo_defs)

section \<open>Amounts\<close>

text \<open>Normalising a currency twice is normalising it once.\<close>

lemma upper_letters_kept:
  assumes "list_all upper_letter s"
  shows "TrimSpace s = s" "ToUpper s = s"
proof -
  have space: "\<forall>w\<in>set space_seqs. \<forall>x\<in>set w. \<not> upper_letter x" by (simp add: space_seqs_def upper_letter_def)
  have no: "\<not> prefix w t" if "w \<in> set space_seqs \<union> rev ` set space_seqs" "w \<noteq> []" "set t \<subseteq> set s" for w t
  proof
    assume "prefix w t"
    then have "hd w \<in> set s" using that(2,3) by (auto simp: prefix_def neq_Nil_conv)
    moreover have "hd w \<in> set w" using that(2) by simp
    ultimately show False using space assms that(1) by (auto simp: list_all_iff)
  qed
  have "strip_seqs space_seqs s = s" "strip_seqs (map rev space_seqs) (rev s) = rev s"
    using no by (auto intro!: strip_seqs_fixed)
  then show "TrimSpace s = s" by (simp add: TrimSpace_def)
  have "upper_char x = x" if "x \<in> set s" for x
    using assms that by (auto simp: list_all_iff upper_letter_def upper_char_def)
  then show "ToUpper s = s" by (simp add: ToUpper_def map_idI)
qed

lemma NormalizePaymentCurrency_again: "NormalizePaymentCurrency raw = Inr c \<Longrightarrow> NormalizePaymentCurrency c = Inr c"
proof -
  assume "NormalizePaymentCurrency raw = Inr c"
  then have "c = DefaultPaymentCurrency \<or> list_all upper_letter c \<and> length c = 3"
    by (auto simp: NormalizePaymentCurrency_def Let_def split: if_splits)
  moreover have "list_all upper_letter DefaultPaymentCurrency" "length DefaultPaymentCurrency = 3"
    by (simp_all add: DefaultPaymentCurrency_def upper_letter_def)
  ultimately have "list_all upper_letter c" "length c = 3" by auto
  then show ?thesis using upper_letters_kept [of c] by (auto simp: NormalizePaymentCurrency_def)
qed

lemma unit_digits: "0 \<le> maxFractionDigits u \<and> maxFractionDigits u \<le> apiMinorUnit u"
  if "u = paymentCurrencyAmountUnitFor c" for u c
proof -
  have "\<forall>(k, u)\<in>set paymentCurrencyAmountUnits. 0 \<le> maxFractionDigits u \<and> maxFractionDigits u \<le> apiMinorUnit u"
    by (simp add: paymentCurrencyAmountUnits_def zeroDecimalAmountUnit_def threeDecimalAmountUnit_def stripeLegacyZeroAmount_def)
  with that show ?thesis
    by (auto simp: paymentCurrencyAmountUnitFor_def twoDecimalAmountUnit_def dest: map_of_SomeD split: sum.splits option.splits)
qed

text \<open>
  C29: An amount is converted to minor units exactly or refused: the result is the amount times the
  power of ten of the currency, without rounding, and fits into 64 bits.
\<close>

theorem pay_minor_units_exact:
  assumes "AmountToMinorUnit D amount currency = Inr n"
  shows "\<exists>d. d_NewFromString D (TrimSpace amount) = Some d \<and> of_int n = d * 10 ^ nat (CurrencyMinorUnit currency) \<and>
    min_int64 \<le> n \<and> n \<le> max_int64"
proof -
  obtain d c where d: "d_NewFromString D (TrimSpace amount) = Some d" and c: "NormalizePaymentCurrency currency = Inr c"
    using assms by (auto simp: AmountToMinorUnit_def split: option.splits sum.splits)
  define u where "u = paymentCurrencyAmountUnitFor c"
  have n: "n = rat_trunc (d * 10 ^ nat (apiMinorUnit u))" "min_int64 \<le> n" "n \<le> max_int64"
    and whole: "d * 10 ^ nat (maxFractionDigits u) = of_int (rat_trunc (d * 10 ^ nat (maxFractionDigits u)))"
    using assms d c by (auto simp: AmountToMinorUnit_def u_def Let_def split: if_splits)
  have digits: "0 \<le> maxFractionDigits u" "maxFractionDigits u \<le> apiMinorUnit u" using unit_digits [OF u_def] by auto
  then obtain k where k: "nat (apiMinorUnit u) = nat (maxFractionDigits u) + k"
    by (metis le_add_diff_inverse nat_mono)
  have exact: "d * 10 ^ nat (apiMinorUnit u) = of_int (rat_trunc (d * 10 ^ nat (maxFractionDigits u)) * 10 ^ k)"
    using whole by (simp add: k power_add)
  have "rat_trunc (of_int i) = i" for i :: int by (simp add: rat_trunc_def)
  then have "of_int n = d * 10 ^ nat (apiMinorUnit u)" using n(1) exact by metis
  moreover have "u = paymentCurrencyAmountUnitFor currency"
    unfolding u_def paymentCurrencyAmountUnitFor_def using c NormalizePaymentCurrency_again [OF c] by simp
  ultimately show ?thesis using d n by (auto simp: CurrencyMinorUnit_def)
qed

theorem pay_minor_units_exact_witness:
  "\<exists>d. d_NewFromString demo_decimal (TrimSpace ''1.25'') = Some d \<and> of_int 125 = d * 10 ^ nat (CurrencyMinorUnit ''usd'') \<and>
     min_int64 \<le> 125 \<and> 125 \<le> max_int64"
proof (rule pay_minor_units_exact)
  have "TrimSpace ''1.25'' = ''1.25''" "NormalizePaymentCurrency ''usd'' = Inr ''USD''" "paymentCurrencyAmountUnitFor ''USD'' = twoDecimalAmountUnit"
    by code_simp+
  then show "AmountToMinorUnit demo_decimal ''1.25'' ''usd'' = Inr 125"
    by (simp add: AmountToMinorUnit_def demo_decimal_def twoDecimalAmountUnit_def rat_trunc_def)
qed

section \<open>The grace period\<close>

text \<open>
  A payment of an expired order is accepted for five minutes after the order's last change; but
  storing the provider's trade number, which happens before the payment is confirmed, is such a
  change: after it the order is payable however long ago it expired.
\<close>

lemma grace_restarts:
  assumes e: "all_works e" and r: "find_order oid s = Some r" "o_Status r = Expired"
    and now: "time_Add (an_now e) (- (paymentGraceMinutes * minute)) \<le> pe_persist E (an_now e)"
  shows "\<exists>n t r'. alone (UpdateOrder E oid (\<lambda>now row. True) (\<lambda>now row. row\<lparr>o_PaymentTradeNo := no\<rparr>)) e s = (Inr n, t) \<and>
    find_order oid t = Some r' \<and> payable (an_now e) r'"
proof -
  let ?f = "\<lambda>x. (touch E (an_now e) x)\<lparr>o_PaymentTradeNo := no\<rparr>"
  obtain n where "alone (UpdateOrder E oid (\<lambda>now row. True) (\<lambda>now row. row\<lparr>o_PaymentTradeNo := no\<rparr>)) e s =
      (Inr n, set_rows (\<lambda>x. o_ID x = oid \<and> True) ?f s)"
    using alone_UpdateOrder [OF e r(1), of "\<lambda>now row. True" E "\<lambda>now row. row\<lparr>o_PaymentTradeNo := no\<rparr>"] by auto
  moreover have "find_order oid (set_rows (\<lambda>x. o_ID x = oid \<and> True) ?f s) = Some (?f r)"
    using r(1) by (intro find_order_set_rows) (simp_all add: touch_def)
  moreover have "payable (an_now e) (?f r)" using r(2) now by (simp add: payable_def touch_def)
  ultimately show ?thesis by blast
qed

end
