(* ===== verification/Pay_Select_Props.thy ===== *)
theory Pay_Select_Props
  imports Pay_Limits Pay_Props
begin

text \<open>
  What the selection of an instance, the limits that are shown, and the settings of the recharge
  bonus guarantee.
\<close>

section \<open>Two instances\<close>

text \<open>The limits text \<open>L\<close> of one instance allows payments of 1 to 50, and 100 a day.\<close>

definition demo_select :: select_lib where
  "demo_select = \<lparr>sl_Config = \<lambda>s. Some [], sl_Limits = \<lambda>s. if s = ''L''
       then Some [(''alipay'', \<lparr>cl_DailyLimit = Num (Fin 100), cl_SingleMin = Num (Fin 1), cl_SingleMax = Num (Fin 50)\<rparr>)] else Some [],
     sl_Decrypt = \<lambda>s. None, sl_Sum = \<lambda>xs. Num (Fin (sum_list (map num_rat xs)))\<rparr>"

definition demo_instances :: "ProviderInstance list" where
  "demo_instances = [demo_instance, demo_instance\<lparr>inst_ID := 4, inst_Limits := ''L''\<rparr>]"

definition demo_selected :: "InstanceSelection \<times> 64 word" where
  "demo_selected = (case SelectInstance demo_select demo_env 0 demo_instances (Some [demo_order]) [] TypeAlipay [] ''least-amount'' (Num (Fin 10)) 0 of
     Inr r \<Rightarrow> r | Inl _ \<Rightarrow> (buildSelection demo_select demo_instance, 0))"

lemma demo_selected:
  "SelectInstance demo_select demo_env 0 demo_instances (Some [demo_order]) [] TypeAlipay [] ''least-amount'' (Num (Fin 10)) 0 =
     Inr (fst demo_selected, snd demo_selected)"
proof -
  have "instance_matches demo_select TypeAlipay [] i" if "inst_SupportedTypes i = []" for i
    using that by (simp add: instance_matches_def InstanceSupportsType_def TypeAlipay_def TypeStripe_def)
  then have "queryEnabledInstances demo_select demo_instances [] TypeAlipay [] = Inr demo_instances"
    by (simp add: queryEnabledInstances_def demo_instances_def demo_instance_def)
  then show ?thesis by (simp add: demo_selected_def SelectInstance_def split: prod.split)
qed

section \<open>Selection\<close>

lemma fl_less_less: "fl_less x y \<Longrightarrow> fl_less y z \<Longrightarrow> fl_less x z"
  by (auto simp: fl_less_def split: gofloat.splits)

lemma least_used_goes_down: "least_used best cs = best \<or> fl_less (snd (least_used best cs)) (snd best)"
proof (induction cs arbitrary: best)
  case (Cons c cs)
  show ?case using Cons.IH [of c] Cons.IH [of best] by (auto dest: fl_less_less)
qed simp

lemma least_used_least: "c \<in> set (best # cs) \<Longrightarrow> \<not> fl_less (snd c) (snd (least_used best cs))"
proof (induction cs arbitrary: best c)
  case Nil
  then show ?case by (auto simp: fl_less_def split: gofloat.splits)
next
  case (Cons d cs)
  let ?b = "if fl_less (snd d) (snd best) then d else best"
  have "\<not> fl_less (snd x) (snd (least_used ?b cs))" if "x = best \<or> x = d" for x
    using that least_used_goes_down [of ?b cs] Cons.IH [of ?b ?b] fl_less_less [of "snd x" "snd (least_used ?b cs)" "snd ?b"]
      fl_less_less [of "snd d" "snd best" "snd (least_used ?b cs)"] fl_less_less [of "snd best" "snd (least_used ?b cs)" "snd best"]
    by (auto split: if_splits)
  moreover have "c = best \<or> c = d \<or> c \<in> set cs" using Cons.prems by simp
  moreover have "c \<in> set cs \<Longrightarrow> \<not> fl_less (snd c) (snd (least_used ?b cs))" by (rule Cons.IH) simp
  ultimately show ?case unfolding least_used.simps by blast
qed

lemma least_used_memb: "least_used best cs \<in> set (best # cs)"
  by (induction cs arbitrary: best) auto

lemma pickByStrategy_memb: "cands \<noteq> [] \<Longrightarrow> fst (pickByStrategy cands strategy c) \<in> set cands"
  using least_used_memb [of "hd cands" "tl cands"] by (auto simp: pickByStrategy_def pickLeastAmount_def)

lemma available_cases:
  assumes "cands \<noteq> []"
  shows "available_candidates L cands pt x \<noteq> [] \<and> set (available_candidates L cands pt x) \<subseteq> set cands \<and>
    (list_ex (within_limits L pt x) cands \<longrightarrow> list_all (within_limits L pt x) (available_candidates L cands pt x))"
  using assms by (auto simp: available_candidates_def filterByLimits_def list_ex_iff list_all_iff filter_empty_conv)

lemma pick_least: "strategy = ''least-amount'' \<Longrightarrow> c \<in> set cands \<Longrightarrow> \<not> fl_less (snd c) (snd (fst (pickByStrategy cands strategy k)))"
proof (cases "1 < length cands")
  case True
  moreover assume "strategy = ''least-amount''" "c \<in> set cands"
  moreover have "hd cands # tl cands = cands" using True by (cases cands) auto
  ultimately show ?thesis using least_used_least [of c "hd cands" "tl cands"] by (simp add: pickByStrategy_def pickLeastAmount_def)
next
  case False
  assume "c \<in> set cands"
  with False obtain d where "cands = [d]" by (cases cands) auto
  with \<open>c \<in> set cands\<close> show ?thesis by (auto simp: pickByStrategy_def fl_less_def split: gofloat.splits)
qed

text \<open>What an instance needs for a payment type, when the provider key is given or left open.\<close>

definition selectable ::
  "select_lib \<Rightarrow> ProviderInstance list \<Rightarrow> string \<Rightarrow> string \<Rightarrow> string \<Rightarrow> ProviderInstance \<Rightarrow> bool" where
  "selectable L insts key pt app j =
     (j \<in> set insts \<and> inst_Enabled j \<and> instance_matches L pt app j \<and> (key \<noteq> [] \<longrightarrow> inst_ProviderKey j = key))"

text \<open>
  C16: The selected instance is an enabled one of the method; when some enabled one of the method is
  within its limits for the amount, the selected one is too, and with the strategy of the least
  amount no such instance has taken less today.
\<close>

theorem select_sound:
  assumes "SelectInstance L E now insts rows key pt app strategy x k = Inr (sel, k')"
  shows "\<exists>i u. selectable L insts key pt app i \<and> sel = buildSelection L i \<and> u = daily_used L E now rows i \<and>
    (\<forall>j. selectable L insts key pt app j \<and> within_limits L pt x (j, daily_used L E now rows j) \<longrightarrow>
      within_limits L pt x (i, u) \<and> (strategy = ''least-amount'' \<longrightarrow> \<not> fl_less (daily_used L E now rows j) u))"
proof -
  let ?ok = "selectable L insts key pt app"
  let ?used = "daily_used L E now rows"
  obtain matched where m: "queryEnabledInstances L insts key pt app = Inr matched"
    using assms by (auto simp: SelectInstance_def split: sum.splits)
  then have matched: "matched \<noteq> []" "set matched = {j. ?ok j}"
    by (auto simp: queryEnabledInstances_def selectable_def Let_def split: if_splits)
  let ?cands = "attachDailyUsage L E now rows matched"
  let ?av = "available_candidates L ?cands pt x"
  let ?c = "fst (pickByStrategy ?av strategy k)"
  have "?cands \<noteq> []" using matched(1) by (simp add: attachDailyUsage_def)
  note av = available_cases [OF this, of L pt x]
  have cands: "set ?cands = (\<lambda>j. (j, ?used j)) ` {j. ?ok j}" using matched(2) by (simp add: attachDailyUsage_def)
  have c: "?c \<in> set ?av" using av pickByStrategy_memb by blast
  then have "?c \<in> (\<lambda>j. (j, ?used j)) ` {j. ?ok j}" using av cands by blast
  then obtain i where i: "?c = (i, ?used i)" "?ok i" by blast
  have "within_limits L pt x (i, ?used i) \<and> (strategy = ''least-amount'' \<longrightarrow> \<not> fl_less (?used j) (?used i))"
    if j: "?ok j" "within_limits L pt x (j, ?used j)" for j
  proof -
    have jc: "(j, ?used j) \<in> set ?cands" using j(1) cands by blast
    then have ex: "list_ex (within_limits L pt x) ?cands" using j(2) by (auto simp: list_ex_iff)
    then have "within_limits L pt x ?c" using av c by (auto simp: list_all_iff)
    moreover have "(j, ?used j) \<in> set ?av" using jc j(2) ex
      by (auto simp: available_candidates_def filterByLimits_def)
    ultimately show ?thesis using i(1) pick_least [of strategy "(j, ?used j)" ?av k] by auto
  qed
  moreover have "sel = buildSelection L i"
    using assms m i(1) by (auto simp: SelectInstance_def split: prod.splits)
  ultimately show ?thesis using i(2) by blast
qed

theorem select_sound_witness:
  "\<exists>i. selectable demo_select demo_instances [] TypeAlipay [] i \<and> fst demo_selected = buildSelection demo_select i \<and>
     within_limits demo_select TypeAlipay (Num (Fin 10)) (i, daily_used demo_select demo_env 0 (Some [demo_order]) i) \<and>
     \<not> fl_less (daily_used demo_select demo_env 0 (Some [demo_order]) demo_instance) (daily_used demo_select demo_env 0 (Some [demo_order]) i)"
proof -
  have "selectable demo_select demo_instances [] TypeAlipay [] demo_instance"
    by (simp add: selectable_def demo_instances_def demo_instance_def instance_matches_def InstanceSupportsType_def
        TypeAlipay_def TypeStripe_def)
  moreover have "within_limits demo_select TypeAlipay x (demo_instance, u)" for x u
    by (simp add: within_limits_def getInstanceChannelLimits_def no_limits_def demo_instance_def fl_less_def zero64_def)
  ultimately show ?thesis using select_sound [OF demo_selected] by blast
qed

text \<open>The picks of consecutive selections from the same candidates.\<close>

fun picks :: "nat \<Rightarrow> candidate list \<Rightarrow> string \<Rightarrow> 64 word \<Rightarrow> candidate list" where
  "picks 0 cands strategy k = []"
| "picks (Suc n) cands strategy k =
     (case pickByStrategy cands strategy k of (c, k') \<Rightarrow> c # picks n cands strategy k')"

lemma picks_round_robin:
  assumes "strategy \<noteq> ''least-amount''"
  shows "picks n cands strategy k = map (\<lambda>j. cands ! (unat (k + 1 + of_nat j) mod length cands)) [0..<n]"
proof (induction n arbitrary: k)
  case (Suc n)
  show ?case
    using assms by (simp add: pickByStrategy_def upt_conv_Cons map_Suc_upt [symmetric] Suc.IH add.assoc del: upt_Suc)
qed simp

text \<open>The wrap of the counter is not noticed when it does not happen, or the number of candidates divides the period.\<close>

lemma counter_mod:
  fixes k :: "64 word"
  assumes "unat k + n < 2 ^ 64 \<or> n dvd 2 ^ 64" "j < n"
  shows "unat (k + 1 + of_nat j) mod n = (unat k + 1 + j) mod n"
proof -
  have "k + 1 + of_nat j = (of_nat (unat k + 1 + j) :: 64 word)" by simp
  then have "unat (k + 1 + of_nat j) = (unat k + 1 + j) mod 2 ^ 64" by (simp only: unat_of_nat) simp
  then show ?thesis using assms by (auto simp: mod_mod_cancel simp del: One_nat_def)
qed

lemma mset_rotate: "mset (rotate n xs) = mset xs"
proof (induction n)
  case (Suc n)
  have "mset (rotate1 ys) = mset ys" for ys :: "'a list" by (cases ys) simp_all
  with Suc show ?case by simp
qed simp

text \<open>
  C38: Round robin is fair: as many consecutive selections from the same candidates as there are
  candidates pick each of them exactly once, unless the 64-bit counter wraps around on the way and the
  number of candidates does not divide its period, that is, is no power of two.
\<close>

theorem round_robin_fair:
  assumes "strategy \<noteq> ''least-amount''" "unat k + length cands < 2 ^ 64 \<or> length cands dvd 2 ^ 64"
  shows "mset (picks (length cands) cands strategy k) = mset cands"
proof -
  have "map (\<lambda>j. cands ! (unat (k + 1 + of_nat j) mod length cands)) [0..<length cands] =
      map (\<lambda>j. cands ! ((unat k + 1 + j) mod length cands)) [0..<length cands]"
    using counter_mod [OF assms(2)] by simp
  also have "\<dots> = rotate (unat k + 1) cands"
    by (rule nth_equalityI) (simp_all add: nth_rotate add.commute del: rotate_Suc)
  finally show ?thesis using picks_round_robin [OF assms(1), of "length cands" cands k] by (simp add: mset_rotate del: rotate_Suc)
qed

theorem round_robin_fair_witness:
  "mset (picks (length [(demo_instance, zero64), (demo_instance\<lparr>inst_ID := 4\<rparr>, zero64)]) [(demo_instance, zero64), (demo_instance\<lparr>inst_ID := 4\<rparr>, zero64)] ''round-robin'' 5) =
     mset [(demo_instance, zero64), (demo_instance\<lparr>inst_ID := 4\<rparr>, zero64)]"
  by (rule round_robin_fair) simp_all

section \<open>What is shown\<close>

text \<open>The limits of the method are finite and not negative at every instance.\<close>

definition limits_valid :: "select_lib \<Rightarrow> string \<Rightarrow> ProviderInstance list \<Rightarrow> bool" where
  "limits_valid L pt insts =
     list_all (\<lambda>i. case pcInstanceTypeLimits L pt i of None \<Rightarrow> True
        | Some cl \<Rightarrow> limits_ok [cl_SingleMin cl, cl_SingleMax cl, cl_DailyLimit cl]) insts"

lemma own_limits: "pcInstanceTypeLimits L pt i = Some cl \<Longrightarrow> (inst_ProviderKey i = ''stripe'' \<Longrightarrow> pt = ''stripe'') \<Longrightarrow>
    getInstanceChannelLimits L i pt = cl"
  by (auto simp: pcInstanceTypeLimits_def getInstanceChannelLimits_def split: if_splits option.splits)

text \<open>
  C24: The limits shown for a method promise nothing less than what is possible: when the limits of its
  instances are finite and not negative, a finite amount that the load balancer accepts for one of
  them lies in the range that is shown.
\<close>

theorem shown_limits_sound:
  assumes "limits_valid L pt insts" "i \<in> set insts" "inst_ProviderKey i = ''stripe'' \<longrightarrow> pt = ''stripe''" "is_finite x"
    and "within_limits L pt x (i, u)"
  shows "in_range (ml_SingleMin (pcAggregateMethodLimits L pt insts)) (ml_SingleMax (pcAggregateMethodLimits L pt insts)) x"
proof (cases "all_limits (map (pcInstanceTypeLimits L pt) insts)")
  case None
  then show ?thesis by (simp add: pcAggregateMethodLimits_def in_range_def fl_less_def zero64_def)
next
  case (Some cls)
  then have cls: "map (pcInstanceTypeLimits L pt) insts = map Some cls" by (simp add: all_limits_Some)
  then have "pcInstanceTypeLimits L pt i \<in> Some ` set cls" using assms(2) by (metis imageI list.set_map)
  then obtain cl where cl: "cl \<in> set cls" "pcInstanceTypeLimits L pt i = Some cl" by blast
  have own: "getInstanceChannelLimits L i pt = cl" using own_limits [OF cl(2)] assms(3) by simp
  have each: "limits_ok [cl_SingleMin c, cl_SingleMax c, cl_DailyLimit c]" if "c \<in> set cls" for c
  proof -
    have "Some c \<in> pcInstanceTypeLimits L pt ` set insts" using that cls by (metis imageI list.set_map)
    then obtain j where "j \<in> set insts" "pcInstanceTypeLimits L pt j = Some c" by auto
    then show ?thesis using assms(1) unfolding limits_valid_def list_all_iff by (metis (no_types, lifting) option.simps(5))
  qed
  have ok: "limits_ok (map cl_SingleMin cls)" "limits_ok (map cl_SingleMax cls)"
    using each by (auto simp: limits_ok_def list_all_iff)
  have "\<not> (fl_less zero64 (cl_SingleMin cl) \<and> fl_less x (cl_SingleMin cl))"
    "\<not> (fl_less zero64 (cl_SingleMax cl) \<and> fl_less (cl_SingleMax cl) x)"
    using assms(5) own by (auto simp: within_limits_def Let_def)
  then show ?thesis
    using union_accepts(1) [OF ok(1) _ assms(4), of "cl_SingleMin cl"] union_accepts(2) [OF ok(2) _ assms(4), of "cl_SingleMax cl"] cl(1)
    by (simp add: pcAggregateMethodLimits_def Some in_range_def)
qed

lemma demo_sum: "fl_add (Num (Fin 0)) (Num (Fin 10)) = Num (Fin 10)"
  using f64_dyadic [of 10 0] by (simp add: fl_add_def)

theorem shown_limits_sound_witness:
  "in_range (ml_SingleMin (pcAggregateMethodLimits demo_select ''alipay'' (tl demo_instances)))
     (ml_SingleMax (pcAggregateMethodLimits demo_select ''alipay'' (tl demo_instances))) (Num (Fin 10))"
proof (rule shown_limits_sound [of _ _ _ "demo_instance\<lparr>inst_ID := 4, inst_Limits := ''L''\<rparr>" _ zero64])
  show "limits_valid demo_select ''alipay'' (tl demo_instances)"
    by (simp add: limits_valid_def pcInstanceTypeLimits_def limits_ok_def demo_instances_def demo_select_def is_finite_def
      fl_less_def zero64_def less_float64_def)
  show "within_limits demo_select ''alipay'' (Num (Fin 10)) (demo_instance\<lparr>inst_ID := 4, inst_Limits := ''L''\<rparr>, zero64)"
    by (simp add: within_limits_def getInstanceChannelLimits_def demo_instance_def demo_select_def zero64_def demo_sum)
      (simp add: fl_less_def less_float64_def)
qed (simp_all add: demo_instances_def demo_instance_def is_finite_def)

text \<open>Limits under the old name of a method bind the balancer, but are not shown.\<close>

lemma alias_limit_hidden:
  assumes "inst_ProviderKey i = TypeAlipay" "inst_Limits i \<noteq> []" "sl_Limits L (inst_Limits i) = Some [(''alipay_direct'', cl)]"
    and "fl_less zero64 (cl_SingleMax cl)" "fl_less (cl_SingleMax cl) x"
  shows "\<not> within_limits L TypeAlipay x (i, u) \<and>
    in_range (ml_SingleMin (pcAggregateMethodLimits L TypeAlipay [i])) (ml_SingleMax (pcAggregateMethodLimits L TypeAlipay [i])) x"
proof -
  have "legacyVisibleMethodAlias TypeAlipay = ''alipay_direct''" by code_simp
  then have "getInstanceChannelLimits L i TypeAlipay = cl"
    using assms(1-3) by (simp add: getInstanceChannelLimits_def TypeAlipay_def)
  moreover have "pcInstanceTypeLimits L TypeAlipay i = None" using assms(2,3) by (simp add: pcInstanceTypeLimits_def TypeAlipay_def)
  ultimately show ?thesis
    using assms(4,5) by (simp add: within_limits_def pcAggregateMethodLimits_def in_range_def fl_less_def zero64_def)
qed

section \<open>A text of tiers\<close>

text \<open>
  A concrete writing of tiers that is read back: each number as its kind, numerator and denominator,
  in unary, separated by commas.
\<close>

fun number_parts :: "gofloat \<Rightarrow> nat list" where
  "number_parts NaN = [0, 0, 0]"
| "number_parts (Num PInf) = [1, 0, 0]"
| "number_parts (Num NInf) = [2, 0, 0]"
| "number_parts (Num (Fin q)) =
     (case quotient_of q of (a, b) \<Rightarrow> if 0 \<le> a then [3, nat a, nat b] else [4, nat (- a), nat b])"

definition number_of_parts :: "nat \<Rightarrow> nat \<Rightarrow> nat \<Rightarrow> gofloat" where
  "number_of_parts k a b =
     (if k = 0 then NaN else if k = 1 then Num PInf else if k = 2 then Num NInf
      else if k = 3 then Num (Fin (of_nat a / of_nat b)) else Num (Fin (- of_nat a / of_nat b)))"

fun tiers_of_parts :: "nat list \<Rightarrow> tiers" where
  "tiers_of_parts (k # a # b # k' # a' # b' # ns) =
     \<lparr>rt_MinAmount = number_of_parts k a b, rt_BonusPercent = number_of_parts k' a' b'\<rparr> # tiers_of_parts ns"
| "tiers_of_parts ns = []"

definition tier_parts :: "RechargeBonusTier \<Rightarrow> nat list" where
  "tier_parts t = number_parts (rt_MinAmount t) @ number_parts (rt_BonusPercent t)"

definition unary :: "nat list \<Rightarrow> string" where
  "unary ns = concat (map (\<lambda>n. replicate n (CHR ''1'') @ '','') ns)"

definition unary_json :: tiers_json where
  "unary_json = \<lparr>tj_Unmarshal = \<lambda>s. Some (tiers_of_parts (butlast (map length (Split s (CHR '','')))) ),
     tj_Marshal = \<lambda>ts. unary (concat (map tier_parts ts))\<rparr>"

lemma number_back: "\<exists>k a b. number_parts x = [k, a, b] \<and> number_of_parts k a b = x"
proof (cases x rule: number_parts.cases)
  case (4 q)
  obtain a b where q: "quotient_of q = (a, b)" by (cases "quotient_of q")
  have b: "0 < b" "q = of_int a / of_int b" using quotient_of_denom_pos [OF q] quotient_of_div [OF q] by auto
  have nb: "(of_nat (nat b) :: rat) = of_int b" using b(1) by simp
  show ?thesis
  proof (cases "0 \<le> a")
    case True
    then show ?thesis using 4 q b nb by (simp add: number_of_parts_def)
  next
    case False
    then have "(of_nat (nat (- a)) :: rat) = - of_int a" by simp
    with False show ?thesis using 4 q b nb by (simp add: number_of_parts_def)
  qed
qed (simp_all add: number_of_parts_def)

lemma tiers_back: "tiers_of_parts (concat (map tier_parts ts)) = ts"
proof (induction ts)
  case (Cons t ts)
  obtain k a b where min: "number_parts (rt_MinAmount t) = [k, a, b]" "number_of_parts k a b = rt_MinAmount t"
    using number_back by blast
  obtain k' a' b' where percent: "number_parts (rt_BonusPercent t) = [k', a', b']" "number_of_parts k' a' b' = rt_BonusPercent t"
    using number_back by blast
  show ?case using Cons min percent by (simp add: tier_parts_def)
qed simp

lemma Split_unary: "map length (Split (replicate n (CHR ''1'') @ CHR '','' # s) (CHR '','')) = n # map length (Split s (CHR '',''))"
proof (induction n)
  case (Suc n)
  then show ?case by (cases "Split (replicate n (CHR ''1'') @ CHR '','' # s) (CHR '','')") auto
qed simp

lemma unary_back: "butlast (map length (Split (unary ns) (CHR '',''))) = ns"
proof -
  have "map length (Split (unary ns) (CHR '','')) = ns @ [0]"
    by (induction ns) (simp_all add: unary_def Split_unary)
  then show ?thesis by simp
qed

lemma unary_chars: "set (unary ns) \<subseteq> {CHR ''1'', CHR '',''}"
  by (auto simp: unary_def)

lemma no_space: "w \<in> set space_seqs \<Longrightarrow> hd w \<notin> {CHR ''1'', CHR '',''} \<and> last w \<notin> {CHR ''1'', CHR '',''}"
  by (auto simp: space_seqs_def)

lemma TrimSpace_unary: "TrimSpace (unary ns) = unary ns"
proof -
  have one: "\<not> prefix w s" if "set s \<subseteq> {CHR ''1'', CHR '',''}" "w \<noteq> []" "hd w \<notin> {CHR ''1'', CHR '',''}" for w s :: string
    using that by (cases w) (auto simp: prefix_def)
  have "strip_seqs space_seqs (unary ns) = unary ns"
    using one [OF unary_chars] no_space by (intro strip_seqs_fixed) blast
  moreover have "strip_seqs (map rev space_seqs) (rev (unary ns)) = rev (unary ns)"
  proof (rule strip_seqs_fixed)
    fix w assume w: "w \<in> set (map rev space_seqs)" "w \<noteq> []"
    then have "hd w \<notin> {CHR ''1'', CHR '',''}" using no_space by (auto simp: hd_rev)
    then show "\<not> prefix w (rev (unary ns))" using w(2) unary_chars [of ns] by (intro one) simp_all
  qed
  ultimately show ?thesis by (simp add: TrimSpace_def)
qed

lemma tier_parts_nonempty: "tier_parts t \<noteq> []"
  using number_back [of "rt_MinAmount t"] by (auto simp: tier_parts_def)

lemma unary_json: "tiers_roundtrip unary_json"
proof -
  have "unary (concat (map tier_parts ts)) \<noteq> []" if "ts \<noteq> []" for ts
  proof
    assume "unary (concat (map tier_parts ts)) = []"
    then have "concat (map tier_parts ts) = []" using unary_back [of "concat (map tier_parts ts)"] by simp
    with that show False by (cases ts) (simp_all add: tier_parts_nonempty)
  qed
  then show ?thesis by (simp add: tiers_roundtrip_def unary_json_def unary_back tiers_back TrimSpace_unary)
qed

section \<open>The bonus\<close>

text \<open>Two tiers, in the wrong order, and updates of the settings.\<close>

definition demo_tiers :: tiers where
  "demo_tiers = [\<lparr>rt_MinAmount = Num (Fin 100), rt_BonusPercent = Num (Fin 20)\<rparr>, \<lparr>rt_MinAmount = Num (Fin 50), rt_BonusPercent = Num (Fin 10)\<rparr>]"

definition demo_tiers_text :: string where
  "demo_tiers_text = encodeRechargeBonusTiers unary_json (rev demo_tiers)"

definition demo_numbers :: number_text where
  "demo_numbers = \<lparr>nt_Fixed2 = \<lambda>x. ''1.00'', nt_Exact = \<lambda>x. ''1'', nt_ParseFloat = \<lambda>s. Some (Num (Fin 1))\<rparr>"

definition demo_update :: UpdatePaymentConfigRequest where
  "demo_update = \<lparr>up_Enabled = None, up_MinAmount = None, up_MaxAmount = None, up_DailyLimit = None, up_OrderTimeoutMin = None,
     up_MaxPendingOrders = None, up_EnabledTypes = None, up_BalanceDisabled = None, up_BalanceRechargeMultiplier = None,
     up_SubscriptionUSDToCNYRate = None, up_RechargeFeeRate = None, up_RechargeBonusTiers = None, up_RechargeBonusMode = None,
     up_RechargeBonusNotice = None, up_LoadBalanceStrategy = None, up_ProductNamePrefix = None, up_ProductNameSuffix = None,
     up_HelpImageURL = None, up_HelpText = None, up_CancelRateLimitEnabled = None, up_CancelRateLimitMax = None,
     up_CancelRateLimitWindow = None, up_CancelRateLimitUnit = None, up_CancelRateLimitMode = None, up_AlipayForceQRCode = None,
     up_AlipayMobilePrecreateDeepLink = None, up_VisibleMethodAlipaySource = None, up_VisibleMethodWxpaySource = None,
     up_VisibleMethodAlipayEnabled = None, up_VisibleMethodWxpayEnabled = None\<rparr>"

lemma demo_tiers: "NormalizeRechargeBonusTiers demo_decimal demo_tiers = Inr (rev demo_tiers)"
  by (simp add: NormalizeRechargeBonusTiers_def demo_tiers_def maxRechargeBonusTiers_def rechargeBonusValueValid_def is_finite_def
      fl_less_def less_float64_def zero64_def MaxFloat64_def maxRechargeBonusPercent_def tier_key_def demo_decimal_def demo_units_def
      sortRechargeBonusTiers_def tier_less_def)

text \<open>
  C26: The tier of a recharge is the greatest one that the amount reaches (within the tolerance of the
  code), whatever text of tiers is stored; without a reached tier there is none.
\<close>

theorem bonus_match_greatest:
  assumes "is_finite x" "fl_less zero64 x"
  shows "(case matchRechargeBonusTier (parseRechargeBonusTiers J D raw) x of
      None \<Rightarrow> \<forall>u\<in>set (parseRechargeBonusTiers J D raw). \<not> reached x u
    | Some t \<Rightarrow> t \<in> set (parseRechargeBonusTiers J D raw) \<and> reached x t \<and>
        (\<forall>u\<in>set (parseRechargeBonusTiers J D raw). reached x u \<longrightarrow> \<not> fl_less (rt_MinAmount t) (rt_MinAmount u)))"
proof -
  let ?ts = "parseRechargeBonusTiers J D raw"
  have ok: "sorted_wrt (\<lambda>a b. \<not> tier_less b a) ?ts" "list_all (tier_valid D) ?ts"
    using parse_tiers_ok [of D J raw] by (simp_all add: tiers_ok_def)
  have less: "\<not> fl_leq x zero64" using assms by (auto simp: fl_leq_def fl_less_def zero64_def split: gofloat.splits)
  have m: "matchRechargeBonusTier ?ts x = (case rev (filter (reached x) ?ts) of [] \<Rightarrow> None | t # _ \<Rightarrow> Some t)"
    using assms(1) less takeWhile_reached [OF ok] by (simp add: matchRechargeBonusTier_def match_tiers_take reached_def [abs_def])
  show ?thesis
  proof (cases "rev (filter (reached x) ?ts)")
    case Nil
    then show ?thesis by (simp add: m filter_empty_conv)
  next
    case (Cons t us)
    then have f: "filter (reached x) ?ts = rev us @ [t]" by (metis rev.simps(2) rev_rev_ident)
    have "sorted_wrt (\<lambda>a b. \<not> tier_less b a) (filter (reached x) ?ts)" by (rule sorted_wrt_filter [OF ok(1)])
    then have "\<not> fl_less (rt_MinAmount t) (rt_MinAmount u)" if "u \<in> set (filter (reached x) ?ts)" for u
      using that unfolding f by (auto simp: sorted_wrt_append tier_less_def fl_less_def split: gofloat.splits)
    moreover have "t \<in> set (filter (reached x) ?ts)" unfolding f by simp
    ultimately show ?thesis by (simp add: m Cons)
  qed
qed

lemma demo_reached: "reached (Num (Fin 60)) (last demo_tiers)"
proof -
  have d: "f64 (1 / 512) = Fin (1 / 512)" "f64 60 = Fin 60" using f64_dyadic [of 1 9] f64_dyadic [of 60 0] by simp_all
  have "f64 (1 / 1000000000) \<le> f64 (1 / 512)" "f64 0 \<le> f64 (1 / 1000000000)" by (intro f64_mono, simp)+
  moreover have "f64 0 = Fin 0" using pow2_pos [of 1024] by (simp add: f64_def f64_rat_def not_le)
  ultimately obtain p where p: "f64 (1 / 1000000000) = Fin p" "0 \<le> p" using d(1)
    by (cases "f64 (1 / 1000000000)") simp_all
  have "Fin 60 \<le> f64 (60 + p)" using f64_mono [of 60 "60 + p"] p(2) d(2) by simp
  then show ?thesis
    by (cases "f64 (60 + p)")
      (auto simp: reached_def demo_tiers_def fl_add_def rechargeBonusAmountEpsilon_def p(1) fl_less_def less_float64_def)
qed

theorem bonus_match_greatest_witness:
  "\<exists>t. matchRechargeBonusTier (parseRechargeBonusTiers unary_json demo_decimal demo_tiers_text) (Num (Fin 60)) = Some t \<and>
     t \<in> set demo_tiers \<and> reached (Num (Fin 60)) t"
proof -
  let ?ts = "parseRechargeBonusTiers unary_json demo_decimal demo_tiers_text"
  have ts: "?ts = rev demo_tiers"
    using parse_encode [OF unary_json, of demo_decimal "rev demo_tiers"] NormalizeRechargeBonusTiers_ok [OF demo_tiers]
    by (simp add: demo_tiers_text_def)
  have "last demo_tiers \<in> set ?ts" by (simp add: ts demo_tiers_def)
  then show ?thesis
    using bonus_match_greatest [of "Num (Fin 60)" unary_json demo_decimal demo_tiers_text] demo_reached ts
    by (auto simp: is_finite_def fl_less_def less_float64_def zero64_def split: option.splits)
qed

lemma fl_leq_finite: "is_finite x \<Longrightarrow> is_finite y \<Longrightarrow> \<not> fl_less y x \<Longrightarrow> fl_leq x y"
  by (cases x; cases y) (simp_all add: is_finite_def fl_less_def fl_leq_def not_less)

text \<open>
  C39: The tiers that an administrator saves are read back as they were checked: all of them, none
  dropped, in ascending order of their thresholds, which are numbers.
\<close>

theorem bonus_roundtrip:
  assumes "tiers_roundtrip J" "NormalizeRechargeBonusTiers D raw = Inr ts"
  shows "parseRechargeBonusTiers J D (encodeRechargeBonusTiers J ts) = ts \<and> mset ts = mset raw \<and>
    sorted_wrt (\<lambda>a b. fl_leq (rt_MinAmount a) (rt_MinAmount b)) ts"
proof -
  have ok: "tiers_ok D ts" "mset ts = mset raw" using NormalizeRechargeBonusTiers_ok [OF assms(2)] by auto
  then have sorted: "sorted_wrt (\<lambda>a b. \<not> tier_less b a) ts" and valid: "\<And>t. t \<in> set ts \<Longrightarrow> is_finite (rt_MinAmount t)"
    by (auto simp: tiers_ok_def list_all_iff dest: tier_valid_finite)
  have "sorted_wrt (\<lambda>a b. fl_leq (rt_MinAmount a) (rt_MinAmount b)) ts"
    by (rule sorted_wrt_mono_rel [OF _ sorted]) (simp add: tier_less_def fl_leq_finite valid)
  with ok show ?thesis using parse_encode [OF assms(1)] by simp
qed

theorem bonus_roundtrip_witness:
  "parseRechargeBonusTiers unary_json demo_decimal (encodeRechargeBonusTiers unary_json (rev demo_tiers)) = rev demo_tiers \<and>
     mset (rev demo_tiers) = mset demo_tiers \<and> sorted_wrt (\<lambda>a b. fl_leq (rt_MinAmount a) (rt_MinAmount b)) (rev demo_tiers)"
  by (rule bonus_roundtrip [OF unary_json demo_tiers])

text \<open>
  C22: Whatever updates of the settings are made, in any order, valid or refused, partial or not, the
  mode and the tiers that are stored fit together: no discount of a hundred percent or more.
\<close>

theorem bonus_settings_consistent:
  assumes "tiers_roundtrip J"
  shows "discount_ok J D (foldl (apply_update J D N) Map.empty reqs)"
proof (induction reqs rule: rev_induct)
  case Nil
  have "fst (NormalizeRechargeBonusMode []) = RechargeBonusModeBonus" by code_simp
  then show ?case
    by (simp add: discount_ok_def setting_def ValidateRechargeBonusTiersForMode_def RechargeBonusModeBonus_def RechargeBonusModeDiscount_def)
qed (simp add: apply_update_discount_ok [OF assms])

theorem bonus_settings_consistent_witness:
  "discount_ok unary_json demo_decimal (foldl (apply_update unary_json demo_decimal demo_numbers) Map.empty
     [demo_update\<lparr>up_RechargeBonusTiers := Some demo_tiers\<rparr>, demo_update\<lparr>up_RechargeBonusMode := Some ''discount''\<rparr>])"
  by (rule bonus_settings_consistent [OF unary_json])

end
