(* ===== verification/Pay_Create_Props.thy ===== *)
theory Pay_Create_Props
  imports Pay_Create Pay_Select_Props
begin

text \<open>
  What the creation of orders guarantees: a single creation stays within the limits, a repeated
  hosted request finds its order, and two creations at a time need not respect the limits; what is
  left behind when a provider fails.
\<close>

text \<open>The number of pending orders that a user may not reach.\<close>

definition pending_max :: "PaymentConfig \<Rightarrow> int" where
  "pending_max cfg = (if pc_MaxPendingOrders cfg \<le> 0 then 3 else pc_MaxPendingOrders cfg)"

section \<open>Two requests\<close>

definition demo_create :: create_lib where
  "demo_create = \<lparr>c_select = demo_select, c_json = unary_json, c_numbers = demo_numbers, c_env = None, c_wechat_app = Inr [],
     c_oauth_error = None, c_return_url = \<lambda>req. None, c_fingerprint = \<lambda>x p t. t @ Itoa p, c_hosted_new = None, c_hosted_account = Inr (''acct'', False),
     c_hosted_url = \<lambda>live. Inr ''https'', c_subject = \<lambda>x. [], c_fee = id\<rparr>"

definition demo_config :: PaymentConfig where
  "demo_config = parsePaymentConfig unary_json demo_decimal demo_numbers None Map.empty"

definition demo_request :: CreateOrderRequest where
  "demo_request = \<lparr>cr_IdempotencyKey = ''key'', cr_HostedSnapshot = None, cr_UserID = 7, cr_Amount = Num (Fin 10),
     cr_PaymentType = ''alipay'', cr_OpenID = [], cr_IsWeChatBrowser = False, cr_OrderType = ''balance'', cr_PlanID = 0\<rparr>"


text \<open>The table with an enabled hosted instance, and an answer with a number that is free.\<close>

definition hosted_db :: db where
  "hosted_db = demo_db\<lparr>instances := [demo_instance\<lparr>inst_ProviderKey := TypeStripeHosted, inst_Config := ''c''\<rparr>]\<rparr>"

definition numbered :: "string \<Rightarrow> answer" where
  "numbered no = demo_answer\<lparr>an_trade_nos := [no]\<rparr>"

text \<open>The creation by a request.\<close>

definition demo_tx :: "CreateOrderRequest \<Rightarrow> (perr + PaymentOrder) job" where
  "demo_tx req = createOrderInTx demo_env demo_create req None demo_config (Num (Fin 10)) (Num (Fin 10)) zero64 (Num (Fin 10)) zero64
     (buildSelection demo_select (if cr_PaymentType req = TypeStripeHosted then hd (instances hosted_db) else demo_instance))"

definition made_order :: "CreateOrderRequest \<Rightarrow> db \<Rightarrow> PaymentOrder" where
  "made_order req s = (case fst (alone (demo_tx req) (numbered ''n1'') s) of Inr r \<Rightarrow> r | Inl _ \<Rightarrow> demo_order)"

definition made_db :: "CreateOrderRequest \<Rightarrow> db \<Rightarrow> db" where
  "made_db req s = snd (alone (demo_tx req) (numbered ''n1'') s)"

lemma demo_config: "fl_leq (pc_DailyLimit demo_config) zero64" "pending_max demo_config = 3"
  by (simp_all add: demo_config_def parsePaymentConfig_def Let_def setting_def pcParseFloat_def pcParseInt_def pending_max_def
      fl_leq_def zero64_def)

lemma numbered: "all_works (numbered no)" "an_trade_nos (numbered no) = [no]"
  by (simp_all add: numbered_def demo_answer_def all_works_def)

lemma demo_pending: "pending_count 7 (orders demo_db) = 0" "pending_count 7 (orders hosted_db) = 0"
  by (simp_all add: pending_count_def demo_db_def demo_order_def hosted_db_def)

section \<open>One creation at a time\<close>

lemma alone_allocate:
  "all_works e \<Longrightarrow> \<exists>r. alone (allocateOutTradeNo k n) e s = (r, s) \<and>
    (\<forall>no. r = Inr no \<longrightarrow> \<not> list_ex (\<lambda>r. o_OutTradeNo r = no) (orders s))"
proof (induction n arbitrary: k)
  case (Suc n)
  then show ?case using Suc.IH [of "Suc k"] by (auto simp: Let_def)
qed simp

lemma alone_checkPending:
  "all_works e \<Longrightarrow> alone (checkPendingLimit uid (pc_MaxPendingOrders cfg)) e s =
    (if pending_max cfg \<le> pending_count uid (orders s) then Inl (AppErr ''TOO_MANY_PENDING'') else Inr (), s)"
  by (simp add: checkPendingLimit_def pending_max_def)

lemma alone_checkDaily:
  "all_works e \<Longrightarrow> alone (checkDailyLimit uid x cap) e s =
    (if \<not> fl_leq cap zero64 \<and> fl_less cap (fl_add (daily_use uid (an_now e) (orders s)) x)
     then Inl (AppErr ''DAILY_LIMIT_EXCEEDED'') else Inr (), s)"
  by (simp add: checkDailyLimit_def)

lemma insert_order_ok:
  "insert_order E now row s = (Inr ord, t) \<Longrightarrow> orders t = orders s @ [ord] \<and> o_ID ord = next_order s \<and> next_order t = next_order s + 1 \<and>
    o_OutTradeNo ord = o_OutTradeNo row \<and> o_UserID ord = o_UserID row \<and> o_Status ord = o_Status row \<and> o_PaidAt ord = o_PaidAt row \<and>
    o_IdempotencyKey ord = o_IdempotencyKey row \<and> o_ProviderSnapshot ord = o_ProviderSnapshot row \<and>
    o_PaymentType ord = o_PaymentType row \<and> o_OrderType ord = o_OrderType row \<and>
    users t = users s \<and> instances t = instances s"
  by (auto simp: insert_order_def Let_def split: if_splits)

lemma new_order_simps [simp]:
  "o_Status (new_order E C req plan ex oa fr pa ba sel no snp) = Pending"
  "o_UserID (new_order E C req plan ex oa fr pa ba sel no snp) = cr_UserID req"
  "o_PaidAt (new_order E C req plan ex oa fr pa ba sel no snp) = None"
  "o_OutTradeNo (new_order E C req plan ex oa fr pa ba sel no snp) = no"
  "o_PaymentType (new_order E C req plan ex oa fr pa ba sel no snp) = cr_PaymentType req"
  "o_OrderType (new_order E C req plan ex oa fr pa ba sel no snp) = cr_OrderType req"
  "o_ProviderSnapshot (new_order E C req plan ex oa fr pa ba sel no snp) = snp"
  "o_IdempotencyKey (new_order E C req plan ex oa fr pa ba sel no snp) =
     (if cr_PaymentType req = TypeStripeHosted then Some (cr_IdempotencyKey req) else None)"
  by (simp_all add: new_order_def)

text \<open>The last part of the transaction, after the checks of a hosted order.\<close>

lemma alone_create:
  assumes "all_works e"
    and "alone (createOrderInTx E C req plan cfg oa la fr pa ba sel) e s = (Inr ord, t)"
    and "alone (if cr_PaymentType req = TypeStripeHosted then hosted_in_tx C req cfg pa la sel else returns_ok None) e s = (Inr None, s)"
  obtains row where "insert_order E (an_now e) row s = (Inr ord, t)" "o_UserID row = cr_UserID req" "o_Status row = Pending"
    "o_PaidAt row = None" "o_PaymentType row = cr_PaymentType req" "o_OrderType row = cr_OrderType req"
    "\<not> list_ex (\<lambda>r. o_OutTradeNo r = o_OutTradeNo row) (orders s)"
    "o_IdempotencyKey row = (if cr_PaymentType req = TypeStripeHosted then Some (cr_IdempotencyKey req) else None)"
    "\<forall>extra. cr_HostedSnapshot req = Some extra \<longrightarrow> (\<exists>b v. o_ProviderSnapshot row = merge_snapshot b (merge_snapshot extra [(''hosted_expires_at'', v)]))"
    "pending_count (cr_UserID req) (orders s) < pending_max cfg"
    "\<not> (\<not> fl_leq (pc_DailyLimit cfg) zero64 \<and> fl_less (pc_DailyLimit cfg) (fl_add (daily_use (cr_UserID req) (an_now e) (orders s)) la))"
proof -
  obtain r where r: "alone (allocateOutTradeNo 0 5) e s = (r, s)"
    "\<And>no. r = Inr no \<Longrightarrow> \<not> list_ex (\<lambda>r. o_OutTradeNo r = no) (orders s)"
    using alone_allocate [OF assms(1)] by blast
  from assms(2) have pend: "pending_count (cr_UserID req) (orders s) < pending_max cfg"
    and daily: "\<not> (\<not> fl_leq (pc_DailyLimit cfg) zero64 \<and> fl_less (pc_DailyLimit cfg) (fl_add (daily_use (cr_UserID req) (an_now e) (orders s)) la))"
    unfolding createOrderInTx_def
    by (auto simp: assms(1,3) alone_checkPending alone_checkDaily split: if_splits)
  with assms(2) obtain no where no: "r = Inr no"
    and ins: "insert_order E (an_now e) (new_order E C req plan
       (time_Add (an_now e) (wrap64 (order_timeout cfg (cr_PaymentType req) * minute))) oa fr pa ba sel no
       (case cr_HostedSnapshot req of None \<Rightarrow> buildPaymentOrderProviderSnapshot sel req
        | Some extra \<Rightarrow> merge_snapshot (buildPaymentOrderProviderSnapshot sel req) (merge_snapshot extra
            [(''hosted_expires_at'', SnapStr (Itoa ((time_Add (an_now e) (wrap64 (order_timeout cfg (cr_PaymentType req) * minute)) - pe_Unix E 0) div 1000000000)))]))) s
      = (Inr ord, t)"
    unfolding createOrderInTx_def
    by (auto simp: assms(1,3) alone_checkPending alone_checkDaily r(1) Let_def split: if_splits sum.splits)
  show ?thesis
    using r(2) [OF no] pend daily by (intro that [OF ins]) auto
qed

lemma pending_count_add:
  "pending_count uid (rs @ [r]) = pending_count uid rs + (if o_UserID r = uid \<and> o_Status r \<in> set [Pending, Processing] then 1 else 0)"
  by (simp add: pending_count_def)

lemma prior_found:
  "all_works e \<Longrightarrow> filter (\<lambda>r. o_UserID r = cr_UserID req \<and> o_IdempotencyKey r = Some (cr_IdempotencyKey req)) (orders s) = [r] \<Longrightarrow>
    alone (prior_order req) e s = (Inr (Some r), s)"
  by (simp add: prior_order_def)

lemma hosted_again:
  assumes "all_works e" "cr_PaymentType req = TypeStripeHosted" "live_user s (cr_UserID req)"
    and "filter (\<lambda>r. o_UserID r = cr_UserID req \<and> o_IdempotencyKey r = Some (cr_IdempotencyKey req)) (orders s) = [r]"
  shows "alone (createOrderInTx E C req plan cfg oa la fr pa ba sel) e s =
    (if same_request C req r then Inr r else Inl (AppErr ''IDEMPOTENCY_CONFLICT''), s)"
  using assms prior_found [OF assms(1,4)] by (simp add: createOrderInTx_def hosted_in_tx_def)

text \<open>The checks read only.\<close>

lemma alone_capacity: "all_works e \<Longrightarrow> \<exists>x. alone (checkHostedCapacity C inst uid pa la dl) e s = (x, s)"
  unfolding checkHostedCapacity_def Let_def
  by (cases "if inst_Limits inst = [] then Some [] else sl_Limits (c_select C) (inst_Limits inst)")
    (simp_all split: option.split sum.split)

lemma alone_hosted_none:
  assumes e: "all_works e"
    and none: "filter (\<lambda>r. o_UserID r = cr_UserID req \<and> o_IdempotencyKey r = Some (cr_IdempotencyKey req)) (orders s) = []"
  obtains x where "alone (hosted_in_tx C req cfg pa la sel) e s = (x, s)" "x = Inr None \<or> (\<exists>err. x = Inl err)"
proof -
  have prior: "alone (prior_order req) e s = (Inr None, s)" using none by (simp add: prior_order_def e)
  have "\<exists>x. alone (or_fail (checkHostedCapacity C inst (cr_UserID req) pa la (pc_DailyLimit cfg)) (\<lambda>_. returns_ok None)) e s = (x, s) \<and>
      (x = Inr (None :: PaymentOrder option) \<or> (\<exists>err. x = Inl err))" for inst
    using alone_capacity [OF e, of C inst "cr_UserID req" pa la "pc_DailyLimit cfg" s] by (auto split: sum.split)
  then have "\<exists>x. alone (hosted_in_tx C req cfg pa la sel) e s = (x, s) \<and> (x = Inr None \<or> (\<exists>err. x = Inl err))"
    unfolding hosted_in_tx_def by (simp add: prior e split: option.split)
  with that show thesis by blast
qed

text \<open>A hosted creation that succeeds finds the order of the key, or passes the checks of a first request.\<close>

lemma hosted_first:
  assumes "all_works e" "cr_PaymentType req = TypeStripeHosted"
    and "alone (createOrderInTx E C req plan cfg oa la fr pa ba sel) e s = (Inr ord, t)"
  shows "case filter (\<lambda>r. o_UserID r = cr_UserID req \<and> o_IdempotencyKey r = Some (cr_IdempotencyKey req)) (orders s) of
      [] \<Rightarrow> alone (hosted_in_tx C req cfg pa la sel) e s = (Inr None, s)
    | r # rs \<Rightarrow> rs = [] \<and> r = ord \<and> t = s \<and> same_request C req ord"
proof (cases "filter (\<lambda>r. o_UserID r = cr_UserID req \<and> o_IdempotencyKey r = Some (cr_IdempotencyKey req)) (orders s)")
  case Nil
  obtain x where x: "alone (hosted_in_tx C req cfg pa la sel) e s = (x, s)" "x = Inr None \<or> (\<exists>err. x = Inl err)"
    using alone_hosted_none [OF assms(1) Nil] .
  then have "x = Inr None" using assms(2,3) by (auto simp: createOrderInTx_def)
  with x(1) Nil show ?thesis by simp
next
  case (Cons r rs)
  have user: "live_user s (cr_UserID req)"
    using assms by (auto simp: createOrderInTx_def hosted_in_tx_def split: if_splits)
  show ?thesis
  proof (cases rs)
    case Nil
    with Cons hosted_again [OF assms(1,2) user, of r E C plan cfg oa la fr pa ba sel] assms(3)
    show ?thesis by (auto split: if_splits)
  next
    case (Cons r' rs')
    with \<open>filter _ (orders s) = r # rs\<close> assms user show ?thesis
      by (auto simp: createOrderInTx_def hosted_in_tx_def prior_order_def)
  qed
qed

text \<open>
  C9: A creation that runs alone and succeeds stays within the limits: the order is new, pending and
  the user's, its number was not in use, the user has at most the allowed number of pending orders,
  and with it the user's payments of the day would stay within the daily limit. This holds for every
  method, hosted ones too; only a hosted request whose idempotency key the user has used before creates
  nothing: it gets the one order of that key, when it asks for the same.
\<close>

theorem create_within_limits:
  assumes "all_works e" "alone (createOrderInTx E C req plan cfg oa la fr pa ba sel) e s = (Inr ord, t)"
  shows "if cr_PaymentType req = TypeStripeHosted \<and>
        filter (\<lambda>r. o_UserID r = cr_UserID req \<and> o_IdempotencyKey r = Some (cr_IdempotencyKey req)) (orders s) \<noteq> []
    then t = s \<and> same_request C req ord \<and>
      filter (\<lambda>r. o_UserID r = cr_UserID req \<and> o_IdempotencyKey r = Some (cr_IdempotencyKey req)) (orders s) = [ord]
    else orders t = orders s @ [ord] \<and> o_Status ord = Pending \<and> o_UserID ord = cr_UserID req \<and>
      o_OutTradeNo ord \<notin> set (map o_OutTradeNo (orders s)) \<and> pending_count (cr_UserID req) (orders t) \<le> pending_max cfg \<and>
      (fl_less zero64 (pc_DailyLimit cfg) \<longrightarrow>
        \<not> fl_less (pc_DailyLimit cfg) (fl_add (daily_use (cr_UserID req) (an_now e) (orders t)) la))"
proof (cases "cr_PaymentType req = TypeStripeHosted \<and>
    filter (\<lambda>r. o_UserID r = cr_UserID req \<and> o_IdempotencyKey r = Some (cr_IdempotencyKey req)) (orders s) \<noteq> []")
  case True
  with hosted_first [OF assms(1) _ assms(2)] show ?thesis by (auto split: list.splits)
next
  case False
  have pos: "fl_less zero64 x \<Longrightarrow> \<not> fl_leq x zero64" for x
    by (auto simp: fl_less_def fl_leq_def zero64_def split: gofloat.splits)
  have "alone (if cr_PaymentType req = TypeStripeHosted then hosted_in_tx C req cfg pa la sel else returns_ok None) e s = (Inr None, s)"
    using False hosted_first [OF assms(1) _ assms(2)] by auto
  then obtain row where row: "insert_order E (an_now e) row s = (Inr ord, t)" "o_UserID row = cr_UserID req" "o_Status row = Pending"
    "\<not> list_ex (\<lambda>r. o_OutTradeNo r = o_OutTradeNo row) (orders s)" "pending_count (cr_UserID req) (orders s) < pending_max cfg"
    "\<not> (\<not> fl_leq (pc_DailyLimit cfg) zero64 \<and> fl_less (pc_DailyLimit cfg) (fl_add (daily_use (cr_UserID req) (an_now e) (orders s)) la))"
    using alone_create [OF assms] by metis
  note ord = insert_order_ok [OF row(1)]
  have "daily_use (cr_UserID req) now (orders t) = daily_use (cr_UserID req) now (orders s)" for now
    using ord row(3) by (simp add: daily_use_def paid_today_def)
  with False ord row pos show ?thesis by (auto simp: pending_count_add list_ex_iff)
qed

text \<open>A creation whose checks pass succeeds when the first number that is drawn is free.\<close>

lemma alone_allocate_free:
  assumes "all_works e" "an_trade_nos e = no # nos" "no \<notin> set (map o_OutTradeNo (orders s))"
  shows "alone (allocateOutTradeNo 0 5) e s = (Inr no, s)"
proof -
  have "\<not> list_ex (\<lambda>r. o_OutTradeNo r = no) (orders s)" using assms(3) by (auto simp: list_ex_iff)
  then show ?thesis
    using assms(1,2) allocateOutTradeNo.simps(2) [of 0 4] by (simp add: Let_def)
qed

lemma alone_create_ok:
  assumes e: "all_works e"
    and first: "alone (if cr_PaymentType req = TypeStripeHosted then hosted_in_tx C req cfg pa la sel else returns_ok None) e s = (Inr None, s)"
    and pend: "pending_count (cr_UserID req) (orders s) < pending_max cfg" and daily: "fl_leq (pc_DailyLimit cfg) zero64"
    and no: "an_trade_nos e = no # nos" "no \<notin> set (map o_OutTradeNo (orders s))"
    and key: "\<not> list_ex (\<lambda>r. o_UserID r = cr_UserID req \<and> o_IdempotencyKey r = Some (cr_IdempotencyKey req)) (orders s)"
  shows "\<exists>ord t. alone (createOrderInTx E C req plan cfg oa la fr pa ba sel) e s = (Inr ord, t)"
proof -
  have free: "\<not> list_ex (\<lambda>r. o_OutTradeNo r = no) (orders s)" using no(2) by (auto simp: list_ex_iff)
  have "\<exists>ord t. insert_order E now (new_order E C req plan ex oa fr pa ba sel no snp) s = (Inr ord, t)" for now ex snp
    using free key by (simp add: insert_order_def Let_def)
  then show ?thesis
    unfolding createOrderInTx_def
    using pend daily alone_allocate_free [OF e no]
    by (simp add: e first alone_checkPending alone_checkDaily Let_def)
qed

lemma made_order: "alone (demo_tx req) (numbered ''n1'') s = (Inr ord, t) \<Longrightarrow>
    alone (demo_tx req) (numbered ''n1'') s = (Inr (made_order req s), made_db req s)"
  by (simp add: made_order_def made_db_def)

lemma made_plain: "alone (demo_tx demo_request) (numbered ''n1'') demo_db = (Inr (made_order demo_request demo_db), made_db demo_request demo_db)"
proof -
  have "\<exists>ord t. alone (demo_tx demo_request) (numbered ''n1'') demo_db = (Inr ord, t)"
    unfolding demo_tx_def
    by (rule alone_create_ok [OF numbered(1) _ _ demo_config(1) numbered(2)])
      (simp_all add: demo_request_def TypeStripeHosted_def demo_pending demo_config, simp_all add: demo_db_def demo_order_def)
  then show ?thesis using made_order by blast
qed

theorem create_within_limits_witness:
  "orders (made_db demo_request demo_db) = orders demo_db @ [made_order demo_request demo_db] \<and>
   o_Status (made_order demo_request demo_db) = Pending \<and> o_UserID (made_order demo_request demo_db) = cr_UserID demo_request \<and>
   o_OutTradeNo (made_order demo_request demo_db) \<notin> set (map o_OutTradeNo (orders demo_db)) \<and>
   pending_count (cr_UserID demo_request) (orders (made_db demo_request demo_db)) \<le> pending_max demo_config"
proof -
  have "cr_PaymentType demo_request \<noteq> TypeStripeHosted" by (simp add: demo_request_def TypeStripeHosted_def)
  with create_within_limits [OF numbered(1) made_plain [unfolded demo_tx_def]] show ?thesis by auto
qed

section \<open>Hosted requests\<close>








section \<open>Two creations at a time\<close>

lemma quiet_or_fail: "quiet e s p (Return (Inr a)) \<Longrightarrow> quiet e s (k a) q \<Longrightarrow> quiet e s (or_fail p k) q"
  unfolding or_fail_def
  by (rule quiet_trans [OF quiet_and_then [of e s p "Return (Inr a)"]]) simp_all

lemma quiet_ask: "quiet e s (k (a e)) q \<Longrightarrow> quiet e s (and_then (ask a) k) q"
  unfolding ask_def using quiet_and_then [OF quiet_atomic [of "\<lambda>e s. (a e, s)" e s "a e"], of k]
  by (auto intro: quiet_trans)

lemma quiet_db_ask: "all_works e \<Longrightarrow> f e s = (Inr a, s) \<Longrightarrow> quiet e s (db_ask opn f) (Return (Inr a))"
  unfolding db_ask_def by (rule quiet_atomic) (simp add: all_works_def)

lemma quiet_read: "all_works e \<Longrightarrow> f (an_now e) s = Inr a \<Longrightarrow> quiet e s (read_db opn f) (Return (Inr a))"
  unfolding read_db_def db_call_def by (rule quiet_db_ask) simp_all

text \<open>Up to its last statement, a creation whose checks pass reads only.\<close>

lemma quiet_create:
  assumes e: "all_works e" and req: "cr_PaymentType req \<noteq> TypeStripeHosted" "cr_HostedSnapshot req = None"
    and pend: "pending_count (cr_UserID req) (orders s) < pending_max cfg" and daily: "fl_leq (pc_DailyLimit cfg) zero64"
    and no: "an_trade_nos e = no # nos" "no \<notin> set (map o_OutTradeNo (orders s))"
  shows "quiet e s (createOrderInTx E C req plan cfg oa la fr pa ba sel)
    (db_call ''order.create'' (\<lambda>now s. insert_order E now (new_order E C req plan
       (time_Add (an_now e) (wrap64 (order_timeout cfg (cr_PaymentType req) * minute))) oa fr pa ba sel no
       (buildPaymentOrderProviderSnapshot sel req)) s))"
proof -
  have first: "quiet e s (if cr_PaymentType req = TypeStripeHosted then hosted_in_tx C req cfg pa la sel else returns_ok None) (Return (Inr None))"
    using req(1) by (simp add: returns_ok_def quiet.stays)
  have "quiet e s (checkPendingLimit (cr_UserID req) (pc_MaxPendingOrders cfg)) (Return (Inr ()))"
    unfolding checkPendingLimit_def
    by (rule quiet_or_fail [OF quiet_read [OF e]], rule refl)
      (use pend in \<open>simp add: pending_max_def returns_ok_def quiet.stays split: if_splits\<close>)
  moreover have "quiet e s (checkDailyLimit (cr_UserID req) la (pc_DailyLimit cfg)) (Return (Inr ()))"
    using daily by (simp add: checkDailyLimit_def returns_ok_def quiet.stays)
  moreover have "quiet e s (allocateOutTradeNo 0 5) (Return (Inr no))"
  proof -
    have "\<not> list_ex (\<lambda>r. o_OutTradeNo r = no) (orders s)" using no(2) by (auto simp: list_ex_iff)
    then have q: "quiet e s (db_ask ''order.exists'' (\<lambda>e s. let no = (case drop 0 (an_trade_nos e) of c # _ \<Rightarrow> c | [] \<Rightarrow> orderIDPrefix)
       in (Inr (no, list_ex (\<lambda>r. o_OutTradeNo r = no) (orders s)), s))) (Return (Inr (no, False)))"
      using no(1) by (intro quiet_db_ask [OF e]) simp
    have five: "(5::nat) = Suc 4" by simp
    show ?thesis
      unfolding five allocateOutTradeNo.simps
      by (rule quiet_or_fail [OF q]) (simp add: returns_ok_def quiet.stays)
  qed
  ultimately show ?thesis
    unfolding createOrderInTx_def Let_def
    by (intro quiet_or_fail [OF first]) (simp add: req(2), intro quiet_or_fail quiet_ask, auto intro: quiet.stays)
qed

lemma alone_insert:
  assumes "all_works e" "no \<notin> set (map o_OutTradeNo (orders s))" "o_IdempotencyKey row = None" "o_OutTradeNo row = no"
    "o_UserID row = uid" "o_Status row = Pending"
  shows "\<exists>ord t. alone (db_call opn (\<lambda>now s. insert_order E now row s)) e s = (Inr ord, t) \<and> orders t = orders s @ [ord] \<and>
    o_OutTradeNo ord = no \<and> pending_count uid (orders t) = pending_count uid (orders s) + 1"
proof -
  have "\<forall>r\<in>set (orders s). o_OutTradeNo r \<noteq> o_OutTradeNo row" using assms(2,4) by (metis image_eqI list.set_map)
  then obtain ord t where "insert_order E (an_now e) row s = (Inr ord, t)"
    using assms(3) by (simp add: insert_order_def Let_def list_ex_iff)
  with insert_order_ok [OF this] show ?thesis using assms(1,4-6) by (simp add: pending_count_add)
qed

text \<open>
  C25: The limit of pending orders is checked, but not enforced, when requests overlap: two creations
  that both pass the check both insert, so a user with one place left ends above the limit.
\<close>

theorem pending_limit_race:
  assumes e: "all_works e1" "all_works e2" and req: "cr_PaymentType req \<noteq> TypeStripeHosted" "cr_HostedSnapshot req = None"
    and pend: "pending_count (cr_UserID req) (orders s) < pending_max cfg" and daily: "fl_leq (pc_DailyLimit cfg) zero64"
    and no: "an_trade_nos e1 = a # as" "an_trade_nos e2 = b # bs" "a \<noteq> b"
      "a \<notin> set (map o_OutTradeNo (orders s))" "b \<notin> set (map o_OutTradeNo (orders s))"
  shows "\<exists>w. reaches {createOrderInTx E C req plan cfg oa la fr pa ba sel} s w \<and>
    pending_count (cr_UserID req) (orders (w_store w)) = pending_count (cr_UserID req) (orders s) + 2"
proof -
  let ?p = "createOrderInTx E C req plan cfg oa la fr pa ba sel"
  let ?row = "\<lambda>e no. new_order E C req plan (time_Add (an_now e) (wrap64 (order_timeout cfg (cr_PaymentType req) * minute)))
    oa fr pa ba sel no (buildPaymentOrderProviderSnapshot sel req)"
  let ?q = "\<lambda>e no. db_call ''order.create'' (\<lambda>now s. insert_order E now (?row e no) s)"
  define v where "v = (idle s)\<lparr>w_jobs := (\<lambda>i. None)(0 := Some ?p, Suc 0 := Some ?p)\<rparr>"
  have "reaches {?p} s ((idle s)\<lparr>w_jobs := (w_jobs (idle s))(0 := Some ?p)\<rparr>)" (is "reaches _ s ?u")
    by (intro reaches_goes [OF reaches_idle] goes.takes) (simp_all add: idle_def)
  then have "reaches {?p} s (?u\<lparr>w_jobs := (w_jobs ?u)(Suc 0 := Some ?p)\<rparr>)"
    by (rule reaches_goes) (rule goes.takes, simp_all add: idle_def)
  then have v: "reaches {?p} s v" by (simp add: v_def idle_def)
  have q1: "quiet e1 s ?p (?q e1 a)" by (rule quiet_create [OF e(1) req pend daily no(1,4)])
  have q2: "quiet e2 s ?p (?q e2 b)" by (rule quiet_create [OF e(2) req pend daily no(2,5)])
  let ?v1 = "v\<lparr>w_jobs := (w_jobs v)(0 := Some (?q e1 a))\<rparr>"
  let ?v2 = "?v1\<lparr>w_jobs := (w_jobs ?v1)(Suc 0 := Some (?q e2 b))\<rparr>"
  have v1: "(goes {?p})\<^sup>*\<^sup>* v ?v1" by (rule quiet_goes [OF q1]) (simp_all add: v_def idle_def)
  have v2: "(goes {?p})\<^sup>*\<^sup>* ?v1 ?v2" by (rule quiet_goes [OF q2]) (simp_all add: v_def idle_def)
  obtain o1 s1 where s1: "alone (?q e1 a) e1 s = (Inr o1, s1)" "orders s1 = orders s @ [o1]" "o_OutTradeNo o1 = a"
    "pending_count (cr_UserID req) (orders s1) = pending_count (cr_UserID req) (orders s) + 1"
    using alone_insert [OF e(1) no(4), of "?row e1 a" "cr_UserID req" "''order.create''" E] req(1) by auto
  have "b \<notin> set (map o_OutTradeNo (orders s1))" using no(3,5) s1(2,3) by simp
  from alone_insert [OF e(2) this, of "?row e2 b" "cr_UserID req" "''order.create''" E] req(1)
  obtain o2 s2 where s2: "alone (?q e2 b) e2 s1 = (Inr o2, s2)"
    "pending_count (cr_UserID req) (orders s2) = pending_count (cr_UserID req) (orders s1) + 1" by auto
  let ?v3 = "?v2\<lparr>w_jobs := (w_jobs ?v2)(0 := Some (Return (Inr o1))), w_store := s1\<rparr>"
  have v3: "(goes {?p})\<^sup>*\<^sup>* ?v2 ?v3" by (rule alone_goes [of "?q e1 a" e1]) (use s1(1) in \<open>simp_all add: v_def idle_def\<close>)
  let ?v4 = "?v3\<lparr>w_jobs := (w_jobs ?v3)(Suc 0 := Some (Return (Inr o2))), w_store := s2\<rparr>"
  have v4: "(goes {?p})\<^sup>*\<^sup>* ?v3 ?v4" by (rule alone_goes [of "?q e2 b" e2]) (use s2(1) in \<open>simp_all add: v_def idle_def\<close>)
  have "(goes {?p})\<^sup>*\<^sup>* (idle s) v" using v by (simp add: reaches_def)
  from rtranclp_trans [OF rtranclp_trans [OF rtranclp_trans [OF rtranclp_trans [OF this v1] v2] v3] v4]
  have "reaches {?p} s ?v4" by (simp add: reaches_def)
  moreover have "pending_count (cr_UserID req) (orders (w_store ?v4)) = pending_count (cr_UserID req) (orders s) + 2"
    using s1(4) s2(2) by simp
  ultimately show ?thesis by blast
qed

text \<open>Two of at most three orders are pending, and then there are four.\<close>

definition crowded_db :: db where
  "crowded_db = demo_db\<lparr>orders := [demo_order\<lparr>o_Status := Pending\<rparr>, demo_order\<lparr>o_ID := 2, o_OutTradeNo := ''sub2_2'', o_Status := Pending\<rparr>]\<rparr>"

lemma crowded: "pending_count 7 (orders crowded_db) = 2"
  by (simp add: pending_count_def crowded_db_def demo_order_def)

theorem pending_limit_race_witness:
  "\<exists>w. reaches {demo_tx demo_request} crowded_db w \<and> pending_max demo_config < pending_count 7 (orders (w_store w))"
proof -
  have "cr_UserID demo_request = 7" by (simp add: demo_request_def)
  moreover have "\<exists>w. reaches {demo_tx demo_request} crowded_db w \<and>
      pending_count (cr_UserID demo_request) (orders (w_store w)) = pending_count (cr_UserID demo_request) (orders crowded_db) + 2"
    unfolding demo_tx_def
    by (rule pending_limit_race [OF numbered(1) numbered(1) _ _ _ demo_config(1) numbered(2) [of "''n1''"] numbered(2) [of "''n2''"]])
      (simp_all add: demo_request_def TypeStripeHosted_def crowded demo_config, simp_all add: crowded_db_def demo_order_def)
  ultimately show ?thesis by (auto simp: crowded demo_config)
qed

section \<open>A creation whose provider fails\<close>

lemma find_append: "find P (xs @ ys) = (case find P xs of Some x \<Rightarrow> Some x | None \<Rightarrow> find P ys)"
  by (induction xs) simp_all

lemma failed_creation:
  assumes e: "all_works e" and ids: "\<forall>r\<in>set (orders s). o_ID r < next_order s" and req: "cr_PaymentType req \<noteq> TypeStripeHosted"
    and made: "alone (createOrderInTx E C req plan cfg oa la (pc_RechargeFeeRate cfg) pa ba sel) e s = (Inr ord, t)"
    and prov: "an_provider e = Inr p" "c_return_url C req = None" "an_create e = Inl err"
  shows "\<exists>err' v r. alone (store_and_invoke E C req plan cfg oa la pa ba sel) e s = (Inl err', v) \<and>
    find_order (next_order s) v = Some r \<and> o_Status r = OrderFailed \<and> o_PaidAt r = None"
proof -
  obtain row where "insert_order E (an_now e) row s = (Inr ord, t)" "o_PaidAt row = None"
    using alone_create [OF e made] req by auto
  from insert_order_ok [OF this(1)] this(2)
  have ord: "orders t = orders s @ [ord]" "o_ID ord = next_order s" "o_PaidAt ord = None" by simp_all
  have "find (\<lambda>r. o_ID r = next_order s) (orders s) = None" using ids by (auto simp: find_None_iff)
  then have "find (\<lambda>r. o_ID r = next_order s) (orders s @ [ord]) = Some ord"
    using ord(2) by (simp add: find_append)
  then have found: "find_order (next_order s) t = Some ord" by (simp add: find_order_def ord(1))
  have inv: "alone (invokeProvider E C ord req sel) e t = (Inl (classifyCreatePaymentError req (is_ProviderKey sel) err), t)"
    by (simp add: invokeProvider_def prov)
  let ?v = "set_rows (\<lambda>x. o_ID x = next_order s \<and> True) (\<lambda>x. (touch E (an_now e) x)\<lparr>o_Status := OrderFailed\<rparr>) t"
  have upd: "alone (UpdateOrderByID E (next_order s) (\<lambda>now r. r\<lparr>o_Status := OrderFailed\<rparr>)) e t = (Inr (), ?v)"
    by (rule alone_UpdateOrderByID [OF e found])
  have "find_order (next_order s) ?v = Some ((touch E (an_now e) ord)\<lparr>o_Status := OrderFailed\<rparr>)"
    using found by (intro find_order_set_rows) (simp_all add: touch_def ord(2))
  moreover have "alone (store_and_invoke E C req plan cfg oa la pa ba sel) e s =
      (Inl (classifyCreatePaymentError req (is_ProviderKey sel) err), ?v)"
    using upd by (simp add: store_and_invoke_def made inv ord(2))
  ultimately show ?thesis using ord(3) by (auto simp: touch_def)
qed

lemma alone_UpdateOrder_none:
  assumes e: "all_works e" and r: "find_order oid s = Some r" "distinct (map o_ID (orders s))" "\<not> wh (an_now e) r"
  shows "alone (UpdateOrder E oid wh upd) e s = (Inr 0, s)"
  using alone_UpdateOrder_misses [of oid s r wh e E upd] r e
  by (auto simp: UpdateOrder_def all_works_def db_call_def db_ask_def split: db_mode.splits prod.splits)

lemma unpaid_failed_order_delivered:
  assumes e: "all_works e" "an_rebate e = Inr q" and ok: "codes_ok s" "distinct (map o_ID (orders s))"
    and r: "find_order oid s = Some r" "o_OrderType r \<noteq> OrderTypeSubscription" "o_PaymentType r \<noteq> TypeStripeHosted"
      "o_Status r = OrderFailed" "o_PaidAt r = None"
    and c: "code_open r s" "fl_less zero64 (code_value r s)" and u: "users s (o_UserID r) = Some u" "\<not> u_Deleted u"
    and named: "code_usable r"
  shows "\<exists>t r'. alone (toPaid E r no paid pk) e s = (Inr (), t) \<and>
    users t = (users s)(o_UserID r \<mapsto> recharge E (code_value r s) u) \<and> find_order oid t = Some r' \<and>
    o_Status r' = Completed \<and> o_PaidAt r' = None \<and> o_PaymentTradeNo r' = o_PaymentTradeNo r"
proof -
  have id: "o_ID r = oid" using find_order_ID [OF r(1)] .
  have "\<not> payable (an_now e) r" using r(3,4) by (simp add: payable_def)
  then have no: "alone (UpdateOrder E oid payable upd) e s = (Inr 0, s)" for upd
    by (rule alone_UpdateOrder_none [OF e(1) r(1) ok(2)])
  have "lease_free (an_now e) r" using r(4) by (simp add: lease_free_def)
  from alone_fulfill_open [OF e ok(1) r(1,2) this c u named, of E] obtain t where
    t: "alone (executeFulfillment E oid) e s = (Inr (), t)" "users t = (users s)(o_UserID r \<mapsto> recharge E (code_value r s) u)"
      "find_order oid t = Some (completed E (an_now e) (leased E (an_now e) r))" by blast
  have "alone (toPaid E r no paid pk) e s = (Inr (), t)"
    using t(1) e(1) r(1,4) by (simp add: toPaid_def alreadyProcessed_def id no)
  with t(2,3) r(5) show ?thesis by (simp add: completed_def leased_def touch_def)
qed

section \<open>What is lost\<close>

text \<open>
  The column of the paid amount has two decimals. For a currency with three, a payment of 1.125 that
  was asked for is stored as 1.13, and the notification of exactly the payment that was asked for is
  refused as a wrong amount.
\<close>

lemma three_decimals_mismatch:
  assumes "PaymentOrderCurrency ord = ''KWD''" "o_PayAmount ord = Num (f64 (113 / 100))"
    and "validateProviderSnapshotMetadata ord pk m = None"
    and "expectedNotificationProviderKeyForOrder (pe_registry E) ord ik = pk" "TrimSpace pk = pk"
  shows "check_notification E ord ik (Num (Fin (9 / 8))) pk m = Some (''PAYMENT_AMOUNT_MISMATCH'', Failure ''amount mismatch'')"
proof -
  have d: "f64 (577 / 512) = Fin (577 / 512)" "f64 (1 / 512) = Fin (1 / 512)" "f64 (1 / 1024) = Fin (1 / 1024)"
    using f64_dyadic [of 577 9] f64_dyadic [of 1 9] f64_dyadic [of 1 10] by simp_all
  have "f64 (577 / 512) \<le> f64 (113 / 100)" "f64 (113 / 100) \<le> f64 (2 / 1)" by (intro f64_mono, simp)+
  moreover have "f64 2 = Fin 2" using f64_dyadic [of 2 0] by simp
  ultimately obtain q where q: "f64 (113 / 100) = Fin q" "577 / 512 \<le> q" using d(1)
    by (cases "f64 (113 / 100)") simp_all
  have "f64 (1 / 1000) \<le> f64 (1 / 512)" "f64 0 \<le> f64 (1 / 1000)" by (intro f64_mono, simp)+
  moreover have "f64 0 = Fin 0" using pow2_pos [of 1024] by (simp add: f64_def f64_rat_def not_le)
  ultimately obtain p where p: "f64 (1 / 1000) = Fin p" "p \<le> 1 / 512" using d(2)
    by (cases "f64 (1 / 1000)") simp_all
  have tol: "f64 (p / 2) \<le> Fin (1 / 1024)" using f64_mono [of "p / 2" "1 / 1024"] p(2) d(3) by simp
  have "f64 (9 / 8 - q) \<le> f64 (- (1 / 512))" using q(2) by (intro f64_mono) simp
  moreover have "f64 (- (1 / 512)) = Fin (- (1 / 512))"
  proof -
    have "f64_rat (1 / 512) = 1 / 512" using f64_rat_dyadic [of 1 9] by simp
    then have "f64_rat (- (1 / 512)) = - (1 / 512)" by (simp add: f64_rat_def)
    moreover have "(1 / 512 :: rat) < pow2 1024" by (simp add: pow2_def)
    moreover have "- (1 / 512 :: rat) < pow2 1024" using pow2_pos [of 1024] by linarith
    ultimately show ?thesis by (simp add: f64_def)
  qed
  ultimately have diff: "f64 (9 / 8 - q) \<le> Fin (- (1 / 512))" by simp
  have minor: "CurrencyMinorUnit ''KWD'' = 3" by code_simp
  have tolerance: "paymentAmountToleranceForCurrency ''KWD'' = Num (f64 (p / 2))"
    by (simp add: paymentAmountToleranceForCurrency_def minor p(1) Let_def)
  have "fl_less (Num (f64 (p / 2))) (fl_abs (fl_sub (Num (Fin (9 / 8))) (Num (Fin q))))"
    using diff tol
    by (cases "f64 (9 / 8 - q)"; cases "f64 (p / 2)") (auto simp: fl_sub_def fl_abs_def fl_less_def less_float64_def)
  then show ?thesis
    using assms
    by (auto simp: check_notification_def Let_def tolerance q(1) isValidProviderAmount_def is_finite_def fl_less_def zero64_def
        less_float64_def EqualFold_def)
qed

text \<open>
  A recharge multiplier below 0.005 is accepted, but stored with two decimals, as zero; it is read
  back as the default one.
\<close>

lemma multiplier_lost:
  assumes "fl_less zero64 x" "nt_Fixed2 N x = ''0.00''" "nt_ParseFloat N ''0.00'' = Some zero64" "is_finite x"
    and "req = up\<lparr>up_BalanceRechargeMultiplier := Some x\<rparr>" "UpdatePaymentConfig J D N (Inr st) req = Inr ws"
  shows "pc_BalanceRechargeMultiplier (parsePaymentConfig J D N env (apply_update J D N st req)) = Num (Fin 1)"
proof -
  obtain tv mv where ws: "ws = update_writes N req tv mv"
    using assms(6) unfolding UpdatePaymentConfig_def by (auto split: option.splits sum.splits prod.splits if_splits)
  have "\<not> fl_leq x zero64" using assms(1) by (auto simp: fl_less_def fl_leq_def zero64_def split: gofloat.splits)
  then have "map_of ws ''BALANCE_RECHARGE_MULTIPLIER'' = Some ''0.00''"
    unfolding ws update_writes_def SettingRechargeBonusTiers_def SettingRechargeBonusMode_def
    using assms(2,5) by (simp del: map_of_append add: formatPositiveFloat_def split: option.split)
  then have "setting (apply_update J D N st req) ''BALANCE_RECHARGE_MULTIPLIER'' = ''0.00''"
    using assms(6) by (simp add: apply_update_def setting_def map_add_def)
  moreover have "pc_BalanceRechargeMultiplier (parsePaymentConfig J D N env w) =
      normalizeBalanceRechargeMultiplier (pcParseFloat N (setting w ''BALANCE_RECHARGE_MULTIPLIER'') default_one)" for w
    by (simp add: parsePaymentConfig_def Let_def)
  ultimately show ?thesis
    using assms(3) by (simp add: pcParseFloat_def normalizeBalanceRechargeMultiplier_def fl_leq_def zero64_def is_finite_def)
qed

end
