(* ===== verification/Spec2Isabelle.thy ===== *)
theory Spec2Isabelle
  imports Share_Order Resil_Budget_Props Resil_Storm_Props Resil_Classify_Props Resil_Metrics
    Resil_State_Props Resil_Balance Stream_Prelude_Props Failover_Main Idem_Lock_Run Pay_Create_Props
begin

text \<open>
  \<^bold>\<open>xy2api: share scheduling, gateway resilience, failover, idempotency and payment.\<close>

  The program is a gateway between API clients and many upstream model providers. A request comes
  in with an API key of a group; the gateway picks an upstream account of the group, forwards the
  request, and on a failure decides whether to try again, where, and what the client is told. The
  development models the packages that make these decisions, \<open>src/backend/internal/sharesched\<close> and
  \<open>src/backend/internal/resilience\<close>; the failover loop of the HTTP handlers that drives them
  (\<open>handler/failover_loop.go\<close>, \<open>handler/resilience_*.go\<close> and the loop of the chat-completions
  handler); the store of idempotency records with its two clients, the coordinator of repeated
  write requests and the lock of system operations; and the payment component: its settings, the
  creation of orders with their amounts, limits and load balancing, and the way from the
  notification of a provider to the delivered balance or subscription, with cancellation, expiry,
  reconciliation and refunds (\<open>internal/payment\<close>, \<open>service/payment_*.go\<close>, \<open>redeem_service.go\<close>).

  \<^bold>\<open>Parts and theories.\<close>

  \<^item> \<open>Go_Base\<close> is the prelude: \<open>int64\<close> wrap-around and saturation, \<open>time.Time\<close> and
    \<open>time.Duration\<close>, the functions of package \<open>strings\<close>, decimal numbers, the stable sort; the
    named collection \<open>go_defs\<close>; and the locales that the components share: \<open>strict_weak\<close> and
    \<open>strict_keyed\<close> (an order under which sorting is canonical; interpreted by the two orders of the
    plan and by the order of metric rows), \<open>gate\<close> and \<open>eager_gate\<close> (a permission with a quota, over
    arbitrary runs of operations; interpreted by the switches of the budget and by the one-shot
    claims of the request state). \<open>Float64\<close>: IEEE binary64 values with rounding to nearest.
  \<^item> \<open>Share_Base\<close> (\<open>reason.go\<close>, \<open>cache.go\<close>, \<open>hrw.go\<close>, \<open>policy.go\<close>): reason codes, the prompt-cache
    profile of a session, the weighted rendezvous draw, the policy of a group and its validation.
  \<^item> \<open>Share_Plan\<close> (\<open>plan.go\<close>): \<open>Plan\<close> turns a request and the members of a group into the ordered
    accounts to try, the wait for a saturated account, the binding write and an explanation;
    \<open>Share_Props\<close> and \<open>Share_Order\<close> prove its properties.
  \<^item> \<open>Resil_Settings\<close> (\<open>settings.go\<close>): the settings document, its defaults, validation,
    normalisation, parsing, the capability switches and the published snapshot.
  \<^item> \<open>Resil_Retry_Hint\<close> and \<open>Resil_Classify\<close> (\<open>classify.go\<close>, \<open>state_rejection.go\<close>,
    \<open>context_window.go\<close>): the delay an upstream asks for, and the classification of an upstream
    attempt into a category, stage by stage in the order of the code; properties in
    \<open>Resil_Classify_Props\<close>.
  \<^item> \<open>Stream_Prelude\<close> (\<open>prelude.go\<close>): which events of a stream are held back, are output, or end it;
    \<open>Stream_Prelude_Props\<close>: held-back events carry no text, on a model of a JSON library that looks
    values up in trees. \<open>Resil_Capability\<close> (\<open>capability.go\<close>): what is learned from refusals of
    non-streaming requests.
  \<^item> \<open>Resil_Budget\<close> (\<open>budget.go\<close>): attempts, deadlines, waits, timeouts and one-time permissions of
    a request; properties in \<open>Resil_Budget_Props\<close>. \<open>Resil_Storm\<close> (\<open>stormguard.go\<close>): negative cache,
    fast fail and turn cap; properties in \<open>Resil_Storm_Props\<close>. \<open>Resil_Metrics\<close> (\<open>metrics.go\<close>): the
    counters and their snapshot. \<open>Resil_Balance\<close> (\<open>balance.go\<close>, \<open>edge.go\<close>): the ladder of balance
    pauses, penalty tiers, and the CDN edge of a request.
  \<^item> \<open>Resil_Advice\<close> (the pure part of \<open>retry_advice.go\<close>), \<open>Resil_State\<close> (\<open>state.go\<close>,
    \<open>attempt_profile.go\<close>, \<open>prelude_trace.go\<close>, the stateful part of \<open>retry_advice.go\<close>) and
    \<open>Resil_Delivery\<close> (\<open>delivery.go\<close>): the state that a request carries through the handlers, one
    function per method; properties in \<open>Resil_State_Props\<close>.
  \<^item> \<open>Failover_Errors\<close> (\<open>service/gateway_service.go\<close>, \<open>service/resilience_penalty.go\<close> and the readers
    of error answers): the error of a failed attempt and its category. \<open>Failover_Loop\<close> and
    \<open>Failover_Handle\<close> (\<open>handler/failover_loop.go\<close>, \<open>resilience_budget.go\<close>, \<open>resilience_failover.go\<close>,
    \<open>resilience_recovery_outcome.go\<close>): what a failed attempt, a veto and an exhausted selection lead
    to. \<open>Failover_Run\<close> (\<open>handler/gateway_handler_chat_completions.go\<close>): one iteration of the handler
    and the runs of the loop. A forward carries the charges that the gateway services made on the
    request's budget in place (\<open>in_place\<close>), which are applied to it before the handler's own. \<open>Failover_Spec\<close> holds an abstract machine of the loop (counted retry,
    switch, veto, exclusion, back-off) and the simulation; \<open>Failover_Props\<close>, \<open>Failover_Bounds\<close> and
    \<open>Failover_Main\<close> the bounds, termination and safety of runs.
  \<^item> \<open>Idem_Store\<close> (\<open>repository/idempotency_repo.go\<close>): the table of idempotency records, one atomic
    function per SQL statement, and the locale \<open>lease_table\<close> of what its clients rely on (a row is
    being processed only for the client whose insert or reclaim succeeded). \<open>Idem_Execute\<close>
    (\<open>service/idempotency.go\<close>): the coordinator as a machine between its calls on the store;
    \<open>Idem_Lock\<close> (\<open>service/system_operation_lock_service.go\<close>): the lock. \<open>Idem_Props\<close> proves the
    invariant of interleaved requests, \<open>Idem_Main\<close> the properties; \<open>Idem_Lock_Run\<close> is the machine of
    the lock's renewals, attempts and purges, with its invariant.
  \<^item> \<open>Worker_Pool\<close>: programs as resumptions that perform one atomic operation at a time, the
    rely-guarantee judgement \<open>keeps\<close>, and the locales \<open>pool\<close> (its rules) and \<open>crew\<close> (any number of
    workers on a set of jobs, interleaved and stopped at will).
  \<^item> \<open>Pay_Types\<close> (\<open>payment/types.go\<close>, \<open>currency.go\<close>, \<open>amount.go\<close>, \<open>fee.go\<close>, \<open>service/payment_amounts.go\<close>):
    floats with NaN, currencies, amounts, statuses. \<open>Pay_Order\<close>
    (\<open>payment_order_provider_snapshot.go\<close> and the pure functions of the other files): the order row,
    the snapshot of its provider, the identity checks. \<open>Pay_Store\<close>: the tables of orders, codes, users,
    subscriptions and audit rows, and each query, update and transaction on them as one operation
    that works, fails, or works and reports a failure (\<open>db_mode\<close>).
  \<^item> \<open>Pay_Bonus\<close> (\<open>payment_recharge_bonus.go\<close>): the tiers of the recharge bonus, their update and the
    quote of a recharge. \<open>Pay_Config\<close> (\<open>payment_config_service.go\<close>, \<open>payment_stripe_mode.go\<close>): the
    settings, what an update checks and writes, and what is read back. \<open>Pay_Select\<close>
    (\<open>payment/load_balancer.go\<close>, \<open>payment_visible_method_instances.go\<close>): which provider instance takes an
    order. \<open>Pay_Limits\<close> (\<open>payment_config_limits.go\<close>): the limits and currencies that are shown for a
    method. \<open>Pay_Create\<close> (\<open>payment_order.go\<close>, the creating half of \<open>payment_stripe_hosted.go\<close>): the
    creation of an order, from the request to the call of the provider. The properties are in
    \<open>Pay_Select_Props\<close> and \<open>Pay_Create_Props\<close>.
  \<^item> \<open>Pay_Fulfill\<close> (\<open>payment_fulfillment.go\<close>, the redemption of \<open>redeem_service.go\<close>, the callbacks of
    \<open>payment_stripe_hosted.go\<close>), \<open>Pay_Cancel\<close> (\<open>payment_order_lifecycle.go\<close>, the rest of the hosted
    checkout) and \<open>Pay_Refund\<close> (\<open>payment_refund.go\<close>, \<open>payment_stripe_hosted_refund.go\<close>): the programs,
    one per method, in the code's order of operations.
  \<^item> \<open>Pay_Logic\<close>: the invariant \<open>pay_inv\<close> of the tables and the relation \<open>pay_rel\<close> that every operation
    stays within; \<open>Pay_Steps\<close> and the \<open>Pay_Safe\<close> theories prove it of every transaction and program;
    \<open>Pay_Jobs\<close> collects the jobs (\<open>pay_request\<close>: notifications, retries, redemptions, cancellations,
    expiry, reconciliation, verification, refunds) and interprets \<open>crew\<close> on them. \<open>Pay_Run\<close> computes
    runs that nobody interrupts, \<open>Pay_Props\<close> holds the properties.

  \<^bold>\<open>How the code is translated.\<close> A struct is a record (fields get a prefix where two structs share
  a name), a string enumeration is a datatype or the strings themselves, a Go map is an
  association list with distinct keys or, where the code only counts or tests membership, a
  function or a set. \<open>int64\<close> arithmetic is written on \<open>int\<close> with \<open>wrap64\<close> or \<open>sat64\<close> at every
  operation that can leave the range of \<open>int64\<close>; the counters of type \<open>uint64\<close> are words. A
  method that takes a mutex is one atomic function from the old to the new state, so a concurrent
  run is a sequence of operations, and the properties quantify over all sequences. A nil pointer
  is \<open>None\<close>, with the result the code gives for a nil receiver. Clocks are arguments. A handler that
  reads clocks, waits and calls services gets what it reads as a record of readings and returns its
  calls as a list of effects; a client of the store is a machine with one place per call, so that
  other clients can run in between.

  \<^bold>\<open>What the lemmas show.\<close> Share scheduling: the plan tries exactly the usable members, once each
  and in tier order; it is independent of the listing order; warm sessions stay; a move by choice
  needs a cold cache; the membership changes that move a session are minimal; waits are bounded.
  Budget: attempts and switches never exceed their quotas over any run; waits and timeouts stay
  inside the deadline. Classification: consistency of the answer with the flags derived from it,
  precedence of balance evidence, scope of the policy switch. Storm protection and metrics: exact
  characterisations by the history of calls. Request state: claims are granted once, suppressed
  advice and resolved disconnects are final. Settings: whatever is stored, the published document
  is valid; the model overrides mean "exact key, else longest prefix", except when two keys agree
  up to case (\<open>override_order_matters\<close>). Failover: a run refines the abstract machine, its attempts,
  switches and vetoes are bounded, it ends between two back-offs, and without a budget one mixed
  configuration backs off for ever. Idempotency: however requests interleave and crash, a key has
  one owner and one execution, and only one fingerprint; a response that is too long is lost, and a
  lock that changed hands cannot be renewed, while an operation that created the lock's record holds
  it alone as long as it renews in time. Payment: for any number of workers whose operations
  interleave, fail or are cut short anywhere, a completed order has been delivered, the recharged
  totals grow by exactly the worth of the used codes, orders go only forward from open to paid to
  delivered, one subscription is assigned and one rebate paid per order; a paid balance order can be
  completed from every reachable state, unless somebody else has used its code; a notification that fails its checks changes nothing; what
  refused and repeated refunds leave behind. Creation: the selected instance is within its limits
  when one is, round robin is fair, the shown limits are no narrower than those that are applied,
  the bonus tier is the greatest one that is reached, saved tiers are read back, stored mode and
  tiers fit together; an order is created within the limits of its user when requests do not
  overlap (and not when they do), and a hosted request is executed once. The set \<open>X\<close> of these statements holds the orders that an
  administrator may refund during the run (\<open>{}\<close> or \<open>UNIV\<close> as wanted); the ledger is stated for users
  \<open>U\<close> who own none of them, because a refund that is given back counts as a recharge. The invariant \<open>pay_inv\<close>
  that the runs start from admits every order that the creating code leaves behind, also the unpaid
  FAILED ones (\<open>failed_unpaid\<close>), which a delivery may still complete without a time of payment.

  \<^bold>\<open>Bounds and fuel.\<close> The only function with fuel is \<open>components\<close>, the matcher of a compound
  duration: each step consumes at least one character and the fuel is the length of the text, so
  it never runs out. The table sizes 4096 (negative cache, turn cap, metric keys of a bucket) and
  2048 (fast fail) are the code's; the properties of the fast fail and the turn cap name them as
  hypotheses because an eviction forgets a count. The failover runs have no fuel: they are the
  inductive relation \<open>run\<close>, and their ends are theorems.

  \<^bold>\<open>Parameters.\<close> The xxHash digest and \<open>math.Log\<close> (\<open>hrw_env\<close>), \<open>strconv.ParseFloat\<close> of header
  values and \<open>http.ParseTime\<close> (\<open>header_env\<close>), \<open>json.Unmarshal\<close> and \<open>gjson\<close> (\<open>classify_env\<close>,
  \<open>gjson\<close>, \<open>json_env\<close>, \<open>unmarshal\<close> of \<open>Parse\<close>), SHA-256, JSON and log redaction of the idempotency
  coordinator (\<open>idem_env\<close>), random UUIDs and draws, the published snapshot, the clock and the client's
  connection as seen by the delivery code (\<open>surroundings\<close>), the result of a retry-advice provider,
  and what the account selection, the admission check and a forward return (\<open>cc_input\<close>). Payment:
  \<open>pay_env\<close> holds the decimal library, how the database stores times and amounts, calendar days and
  the checks of URLs; \<open>answer\<close> what the database, the clock, the lock server, the payment provider and
  the affiliate service answer to one operation.

  \<^bold>\<open>Not modelled.\<close> Case folding outside ASCII; NaN outside the payment theories; log lines
  and event fields (\<open>EventFields\<close>); real timers (\<open>Sleep\<close> is modelled by which of its channels
  fires); the stored policy documents (\<open>DecodePolicy\<close>, \<open>NewPolicyDocument\<close>, \<open>PatchPolicyDocument\<close>),
  which are JSON; the marking of the access log when a client has left; what an account has learned
  in its stored extra fields (\<open>service/capability.go\<close>); creations among the jobs of the
  payment workers (the properties of their runs start from orders that exist, those of
  \<open>Pay_Create_Props\<close> speak of the creations themselves), the row locks of hosted creations, the
  separate read of the setting that routes a method (it is read with the instances), the
  administration of provider instances and plans, the e-mails and cache invalidations of the payment component that cannot fail, the affiliate rebate of codes that users
  redeem themselves, the protocols of the payment providers; the other handlers, the forwarding and
  conversion services, the generated ORM code and the web front end.
\<close>

end
